(* ===== verification/Sdk_Prelude.thy ===== *)
theory Sdk_Prelude
  imports Complex_Main "HOL-Library.Char_ord"
begin

text \<open>
  Shared vocabulary of the development: the result type of code that may throw, the
  JavaScript string functions the sources call, and decimal numerals as strings.

  A JavaScript \<^verbatim>\<open>throw\<close> or failed \<^verbatim>\<open>assert\<close> is a value \<open>Inl e\<close> of the sum type
  \<open>js_error + 'a\<close>.  Sequencing is \<open>result_bind\<close>, which stops at the first error, as an
  exception would.  JavaScript strings are Isabelle strings, one \<open>char\<close> per UTF-16 code
  unit: every string the library builds or accepts is ASCII, but for the infinity sign
  U+221E, which the single char \<open>infinity_sign\<close> stands for.
\<close>

named_theorems result_simps \<open>unfolding of the result combinators\<close>
named_theorems string_simps \<open>facts on numerals as strings\<close>

section \<open>Results of code that may throw\<close>

datatype js_error =
    Error string
  | AssertionError string
  | TypeError string

type_synonym 'a result = "js_error + 'a"

definition result_bind :: "'a result \<Rightarrow> ('a \<Rightarrow> 'b result) \<Rightarrow> 'b result" where
  "result_bind r f = (case r of Inl e \<Rightarrow> Inl e | Inr x \<Rightarrow> f x)"

definition result_map :: "('a \<Rightarrow> 'b) \<Rightarrow> 'a result \<Rightarrow> 'b result" where
  "result_map f r = (case r of Inl e \<Rightarrow> Inl e | Inr x \<Rightarrow> Inr (f x))"

definition js_assert :: "bool \<Rightarrow> 'a result \<Rightarrow> 'a result" where
  "js_assert b r = (if b then r else Inl (AssertionError ''assertion failed''))"

fun result_list :: "('a \<Rightarrow> 'b result) \<Rightarrow> 'a list \<Rightarrow> 'b list result" where
  "result_list f [] = Inr []"
| "result_list f (x # xs) =
     result_bind (f x) (\<lambda>y. result_bind (result_list f xs) (\<lambda>ys. Inr (y # ys)))"

lemma result_bind_simps [simp, result_simps]:
  "result_bind (Inl e) f = Inl e"
  "result_bind (Inr x) f = f x"
  by (simp_all add: result_bind_def)

lemma result_map_simps [simp, result_simps]:
  "result_map f (Inl e) = Inl e"
  "result_map f (Inr x) = Inr (f x)"
  by (simp_all add: result_map_def)

lemma js_assert_simps [simp, result_simps]:
  "js_assert True r = r"
  "js_assert False r = Inl (AssertionError ''assertion failed'')"
  by (simp_all add: js_assert_def)

lemma result_bind_cong [fundef_cong]:
  assumes "r = r'" and "\<And>x. r' = Inr x \<Longrightarrow> f x = f' x"
  shows "result_bind r f = result_bind r' f'"
  using assms by (cases r') simp_all

lemma result_bind_Inr [result_simps]:
  "result_bind r f = Inr y \<longleftrightarrow> (\<exists>x. r = Inr x \<and> f x = Inr y)"
  by (cases r) simp_all

lemma result_map_Inr [result_simps]:
  "result_map f r = Inr y \<longleftrightarrow> (\<exists>x. r = Inr x \<and> y = f x)"
  by (cases r) auto

lemma js_assert_Inr [result_simps]: "js_assert b r = Inr y \<longleftrightarrow> b \<and> r = Inr y"
  by (simp add: js_assert_def)

lemma result_list_Inr:
  "(\<And>x. x \<in> set xs \<Longrightarrow> f x = Inr (g x)) \<Longrightarrow> result_list f xs = Inr (map g xs)"
  by (induction xs) simp_all

section \<open>JavaScript string functions\<close>

definition infinity_sign :: char where
  "infinity_sign = CHR 0xEC"

definition is_digit :: "char \<Rightarrow> bool" where
  "is_digit c \<longleftrightarrow> c \<in> set ''0123456789''"

definition digit_char :: "nat \<Rightarrow> char" where
  "digit_char n = ''0123456789'' ! n"

definition digit_val :: "char \<Rightarrow> nat" where
  "digit_val c = of_char c - 48"

text \<open>\<open>s.includes(c)\<close>, and the pieces of \<open>s.split(c)\<close> for a one-character separator.\<close>

definition js_includes :: "string \<Rightarrow> char \<Rightarrow> bool" where
  "js_includes s c \<longleftrightarrow> c \<in> set s"

fun js_split :: "string \<Rightarrow> char \<Rightarrow> string list" where
  "js_split [] c = [[]]"
| "js_split (x # xs) c =
     (if x = c then [] # js_split xs c
      else (case js_split xs c of [] \<Rightarrow> [[x]] | p # ps \<Rightarrow> (x # p) # ps))"

definition js_repeat :: "char \<Rightarrow> nat \<Rightarrow> string" where
  "js_repeat c n = replicate n c"

definition js_padStart :: "string \<Rightarrow> nat \<Rightarrow> char \<Rightarrow> string" where
  "js_padStart s n c = replicate (n - length s) c @ s"

fun js_join :: "string \<Rightarrow> string list \<Rightarrow> string" where
  "js_join sep [] = []"
| "js_join sep [s] = s"
| "js_join sep (s # t # ts) = s @ sep @ js_join sep (t # ts)"

text \<open>\<open>s.toLowerCase()\<close> on ASCII.\<close>

definition js_toLowerCase :: "string \<Rightarrow> string" where
  "js_toLowerCase = map (\<lambda>c. if CHR ''A'' \<le> c \<and> c \<le> CHR ''Z'' then char_of (of_char c + 32 :: nat) else c)"

text \<open>\<open>s.replace(/0*$/, "")\<close>: the zeros at the end are dropped.\<close>

definition drop_trailing_zeros :: "string \<Rightarrow> string" where
  "drop_trailing_zeros s = rev (dropWhile (\<lambda>c. c = CHR ''0'') (rev s))"

section \<open>Numerals\<close>

text \<open>
  \<open>show_nat\<close> is the decimal numeral of a natural number (\<open>toString()\<close> of a
  non-negative big number), \<open>nat_of_digits\<close> reads one (\<open>BigNumber.from\<close> on a string
  of digits, leading zeros allowed).
\<close>

fun show_nat :: "nat \<Rightarrow> string" where
  "show_nat n = (if n < 10 then [digit_char n] else show_nat (n div 10) @ [digit_char (n mod 10)])"

declare show_nat.simps [simp del]

definition nat_of_digits :: "string \<Rightarrow> nat" where
  "nat_of_digits s = foldl (\<lambda>a c. 10 * a + digit_val c) 0 s"

lemma less_ten_cases:
  assumes "(n::nat) < 10"
  shows "n = 0 \<or> n = 1 \<or> n = 2 \<or> n = 3 \<or> n = 4 \<or> n = 5 \<or> n = 6 \<or> n = 7 \<or> n = 8 \<or> n = 9"
  using assms by arith

lemma is_digit_digit_char [simp]: "n < 10 \<Longrightarrow> is_digit (digit_char n)"
  by (drule less_ten_cases) (elim disjE; simp add: is_digit_def digit_char_def)

lemma digit_val_digit_char [simp]: "n < 10 \<Longrightarrow> digit_val (digit_char n) = n"
  by (drule less_ten_cases) (elim disjE; simp add: digit_val_def digit_char_def)

lemma digit_val_less [simp]: "is_digit c \<Longrightarrow> digit_val c < 10"
  by (auto simp: is_digit_def digit_val_def)

lemma digit_val_zero [simp]: "digit_val CHR ''0'' = 0"
  by (simp add: digit_val_def)

lemma is_digit_zero [simp]: "is_digit CHR ''0''"
  by (simp add: is_digit_def)

lemma not_is_digit [simp]:
  "\<not> is_digit CHR ''.''" "\<not> is_digit CHR ''e''" "\<not> is_digit CHR ''-''"
  "\<not> is_digit CHR ''+''" "\<not> is_digit CHR '',''" "\<not> is_digit infinity_sign"
  by (simp_all add: is_digit_def infinity_sign_def)

lemma show_nat_not_Nil [simp]: "show_nat n \<noteq> []"
  by (subst show_nat.simps) simp

lemma show_nat_digits [simp]: "list_all is_digit (show_nat n)"
proof (induction n rule: show_nat.induct)
  case (1 n)
  then show ?case by (subst show_nat.simps) auto
qed

lemma nat_of_digits_Nil [simp]: "nat_of_digits [] = 0"
  by (simp add: nat_of_digits_def)

lemma nat_of_digits_snoc [simp]: "nat_of_digits (s @ [c]) = 10 * nat_of_digits s + digit_val c"
  by (simp add: nat_of_digits_def)

lemma nat_of_digits_append [string_simps]:
  "nat_of_digits (s @ t) = nat_of_digits s * 10 ^ length t + nat_of_digits t"
proof (induction t rule: rev_induct)
  case Nil
  then show ?case by simp
next
  case (snoc c t)
  have "nat_of_digits (s @ t @ [c]) = 10 * nat_of_digits (s @ t) + digit_val c"
    using nat_of_digits_snoc [of "s @ t" c] by simp
  with snoc.IH show ?case by (simp add: algebra_simps)
qed

lemma nat_of_digits_show_nat [simp]: "nat_of_digits (show_nat n) = n"
proof (induction n rule: show_nat.induct)
  case (1 n)
  show ?case
  proof (cases "n < 10")
    case True
    then show ?thesis by (subst show_nat.simps) (simp add: nat_of_digits_def)
  next
    case False
    with 1 show ?thesis by (subst show_nat.simps) simp
  qed
qed

lemma nat_of_digits_zeros [simp]: "nat_of_digits (replicate n CHR ''0'') = 0"
proof (induction n)
  case (Suc n)
  have "replicate (Suc n) CHR ''0'' = replicate n CHR ''0'' @ [CHR ''0'']"
    by (simp add: replicate_append_same)
  with Suc show ?case by (simp del: replicate_Suc)
qed simp

lemma nat_of_digits_less: "list_all is_digit s \<Longrightarrow> nat_of_digits s < 10 ^ length s"
proof (induction s rule: rev_induct)
  case (snoc c s)
  then have "nat_of_digits s < 10 ^ length s" and "digit_val c < 10" by simp_all
  then have "10 * nat_of_digits s + digit_val c < 10 * 10 ^ length s" by linarith
  then show ?case by simp
qed simp

lemma length_show_nat_le: "n < 10 ^ k \<Longrightarrow> 0 < k \<Longrightarrow> length (show_nat n) \<le> k"
proof (induction n arbitrary: k rule: show_nat.induct)
  case (1 n)
  show ?case
  proof (cases "n < 10")
    case True
    with 1 show ?thesis by (subst show_nat.simps) simp
  next
    case False
    obtain j where k: "k = Suc j" using "1.prems" by (cases k) simp_all
    have j: "0 < j"
    proof (rule ccontr)
      assume "\<not> 0 < j"
      with k "1.prems" False show "False" by simp
    qed
    have "n div 10 < 10 ^ j" using "1.prems" k by (simp add: less_mult_imp_div_less mult.commute)
    then have "length (show_nat (n div 10)) \<le> j" using "1.IH" False j by blast
    with False k show ?thesis by (subst show_nat.simps) simp
  qed
qed

lemma le_length_show_nat: "10 ^ k \<le> n \<Longrightarrow> k < length (show_nat n)"
  using nat_of_digits_less [of "show_nat n"]
  by (metis nat_of_digits_show_nat show_nat_digits le_less_trans power_less_imp_less_exp one_less_numeral_iff
      semiring_norm(76))

end
