(* ===== verification/Sdk_Decimal.thy ===== *)
theory Sdk_Decimal
  imports Sdk_Prelude
begin

text \<open>
  The class \<open>Decimal\<close> of \<^verbatim>\<open>packages/lib-base/src/Decimal.ts\<close>: values, the conversion
  \<open>Decimal.from\<close>, arithmetic and comparisons.  (Formatting is in \<open>Decimal_Format\<close>, powers
  are in \<open>Decimal_Pow\<close>.)

  A \<open>Decimal\<close> holds one \<open>BigNumber\<close>, the value times \<open>10^18\<close>.  A \<open>BigNumber\<close> (of
  \<^verbatim>\<open>@ethersproject/bignumber\<close>) is represented by the integer it denotes; the class uses
  its \<open>add\<close>, \<open>sub\<close>, \<open>mul\<close>, \<open>div\<close>, \<open>mod\<close>, \<open>pow\<close> and comparisons only, which are
  those of the integers.  The private constructor refuses a negative number, so the field
  of an existing object is a natural number; \<open>new_Decimal\<close> is that constructor.
\<close>

section \<open>Values\<close>

datatype decimal = Decimal (bigNumber: nat)

definition getDigits :: "nat \<Rightarrow> nat" where
  "getDigits numDigits = 10 ^ numDigits"

definition PRECISION :: nat where
  "PRECISION = 18"

definition DIGITS :: nat where
  "DIGITS = getDigits PRECISION"

definition MAX_UINT_256 :: nat where
  "MAX_UINT_256 = 0xffffffffffffffffffffffffffffffffffffffffffffffffffffffffffffffff"

lemma DIGITS_eq: "DIGITS = 1000000000000000000"
  by (simp add: DIGITS_def getDigits_def PRECISION_def)

lemma DIGITS_pos [simp]: "0 < DIGITS" "DIGITS \<noteq> 0"
  by (simp_all add: DIGITS_eq)

definition new_Decimal :: "int \<Rightarrow> decimal result" where
  "new_Decimal b =
     (if b < 0 then Inl (Error ''negatives not supported by Decimal'')
      else Inr (Decimal (nat b)))"

text \<open>\<open>fromBigNumberString\<close> on (the integer denoted by) a big-number string.\<close>

definition fromBigNumberString :: "int \<Rightarrow> decimal result" where
  "fromBigNumberString bigNumberString = new_Decimal bigNumberString"

definition INFINITY :: decimal where
  "INFINITY = Decimal MAX_UINT_256"

definition ZERO :: decimal where
  "ZERO = Decimal 0"

definition HALF :: decimal where
  "HALF = Decimal 500000000000000000"

definition ONE :: decimal where
  "ONE = Decimal DIGITS"

definition isZero :: "decimal \<Rightarrow> bool" where
  "isZero d \<longleftrightarrow> bigNumber d = 0"

definition infinite_dec :: "decimal \<Rightarrow> bool" where
  "infinite_dec d \<longleftrightarrow> bigNumber d = bigNumber INFINITY"

text \<open>The getters \<open>zero\<close>, \<open>nonZero\<close>, \<open>infinite\<close> and \<open>finite\<close> return \<open>this\<close> or undefined.\<close>

definition zero_dec :: "decimal \<Rightarrow> decimal option" where
  "zero_dec d = (if isZero d then Some d else None)"

definition nonZero_dec :: "decimal \<Rightarrow> decimal option" where
  "nonZero_dec d = (if \<not> isZero d then Some d else None)"

definition infinite_opt :: "decimal \<Rightarrow> decimal option" where
  "infinite_opt d = (if infinite_dec d then Some d else None)"

definition finite_opt :: "decimal \<Rightarrow> decimal option" where
  "finite_opt d = (if \<not> infinite_dec d then Some d else None)"

section \<open>Comparisons\<close>

text \<open>
  \<open>lt\<close>, \<open>lte\<close>, \<open>gt\<close>, \<open>gte\<close> compare the big numbers: they are the linear order of the decimals,
  and \<open>eq\<close> is equality.
\<close>

definition lt_dec :: "decimal \<Rightarrow> decimal \<Rightarrow> bool" where
  "lt_dec a b \<longleftrightarrow> bigNumber a < bigNumber b"

definition lte_dec :: "decimal \<Rightarrow> decimal \<Rightarrow> bool" where
  "lte_dec a b \<longleftrightarrow> bigNumber a \<le> bigNumber b"

definition gt_dec :: "decimal \<Rightarrow> decimal \<Rightarrow> bool" where
  "gt_dec a b \<longleftrightarrow> bigNumber b < bigNumber a"

definition gte_dec :: "decimal \<Rightarrow> decimal \<Rightarrow> bool" where
  "gte_dec a b \<longleftrightarrow> bigNumber b \<le> bigNumber a"

instantiation decimal :: linorder
begin

definition less_eq_decimal :: "decimal \<Rightarrow> decimal \<Rightarrow> bool" where
  "less_eq_decimal = lte_dec"

definition less_decimal :: "decimal \<Rightarrow> decimal \<Rightarrow> bool" where
  "less_decimal = lt_dec"

instance
  by standard
    (auto simp: less_eq_decimal_def less_decimal_def lte_dec_def lt_dec_def intro: decimal.expand)

end

lemma decimal_le_iff: "a \<le> b \<longleftrightarrow> bigNumber a \<le> bigNumber b" for a b :: decimal
  by (simp add: less_eq_decimal_def lte_dec_def)

lemma decimal_less_iff: "a < b \<longleftrightarrow> bigNumber a < bigNumber b" for a b :: decimal
  by (simp add: less_decimal_def lt_dec_def)

lemma decimal_comparisons [simp]:
  "lt_dec a b \<longleftrightarrow> a < b" "lte_dec a b \<longleftrightarrow> a \<le> b" "gt_dec a b \<longleftrightarrow> b < a" "gte_dec a b \<longleftrightarrow> b \<le> a"
  by (simp_all add: decimal_le_iff decimal_less_iff lt_dec_def lte_dec_def gt_dec_def gte_dec_def)

definition eq_dec :: "decimal \<Rightarrow> decimal \<Rightarrow> bool" where
  "eq_dec a b \<longleftrightarrow> bigNumber a = bigNumber b"

lemma eq_dec_iff [simp]: "eq_dec a b \<longleftrightarrow> a = b"
  by (auto simp: eq_dec_def intro: decimal.expand)

lemma decimal_le [simp]: "Decimal a \<le> Decimal b \<longleftrightarrow> a \<le> b"
  by (simp add: decimal_le_iff)

lemma decimal_less [simp]: "Decimal a < Decimal b \<longleftrightarrow> a < b"
  by (simp add: decimal_less_iff)

lemma decimal_eq_iff: "a = b \<longleftrightarrow> bigNumber a = bigNumber b"
  by (auto intro: decimal.expand)

lemma bigNumber_consts [simp]:
  "bigNumber ZERO = 0" "bigNumber ONE = DIGITS" "bigNumber INFINITY = MAX_UINT_256"
  by (simp_all add: ZERO_def ONE_def INFINITY_def)

lemma isZero_iff [simp]: "isZero d \<longleftrightarrow> d = ZERO"
  by (simp add: isZero_def decimal_eq_iff)

lemma infinite_dec_iff [simp]: "infinite_dec d \<longleftrightarrow> d = INFINITY"
  by (simp add: infinite_dec_def decimal_eq_iff)

lemma ZERO_le [simp]: "ZERO \<le> d"
  by (simp add: decimal_le_iff)

lemma not_less_ZERO [simp]: "\<not> d < ZERO"
  by (simp add: decimal_less_iff)

lemma ZERO_less_iff [simp]: "ZERO < d \<longleftrightarrow> d \<noteq> ZERO"
  by (auto simp: decimal_less_iff decimal_eq_iff)

definition min_dec :: "decimal \<Rightarrow> decimal \<Rightarrow> decimal" where
  "min_dec a b = (if lt_dec a b then a else b)"

definition max_dec :: "decimal \<Rightarrow> decimal \<Rightarrow> decimal" where
  "max_dec a b = (if gt_dec a b then a else b)"

lemma min_dec_eq [simp]: "min_dec a b = min a b"
  by (auto simp: min_dec_def min_def)

lemma max_dec_eq [simp]: "max_dec a b = max a b"
  by (auto simp: max_dec_def max_def)

section \<open>Arithmetic\<close>

definition add_dec :: "decimal \<Rightarrow> decimal \<Rightarrow> decimal" where
  "add_dec this addend = Decimal (bigNumber this + bigNumber addend)"

definition sub_dec :: "decimal \<Rightarrow> decimal \<Rightarrow> decimal result" where
  "sub_dec this subtrahend = new_Decimal (int (bigNumber this) - int (bigNumber subtrahend))"

definition mul_dec :: "decimal \<Rightarrow> decimal \<Rightarrow> decimal" where
  "mul_dec this multiplier = Decimal (bigNumber this * bigNumber multiplier div DIGITS)"

definition div_dec :: "decimal \<Rightarrow> decimal \<Rightarrow> decimal" where
  "div_dec this divider =
     (if isZero divider then INFINITY
      else Decimal (bigNumber this * DIGITS div bigNumber divider))"

definition divCeil :: "decimal \<Rightarrow> decimal \<Rightarrow> decimal" where
  "divCeil this divider =
     (if isZero divider then INFINITY
      else Decimal ((bigNumber this * DIGITS + (bigNumber divider - 1)) div bigNumber divider))"

definition mulDiv :: "decimal \<Rightarrow> decimal \<Rightarrow> decimal \<Rightarrow> decimal" where
  "mulDiv this multiplier divider =
     (if isZero divider then INFINITY
      else Decimal (bigNumber this * bigNumber multiplier div bigNumber divider))"

text \<open>
  The constructor never refuses the results of the operations but \<open>sub\<close>: on the integers
  the source computes, it returns the value the definitions above give.
\<close>

lemma new_Decimal_int [simp]: "new_Decimal (int n) = Inr (Decimal n)"
  by (simp add: new_Decimal_def)

lemma new_Decimal_ops:
  "new_Decimal (int (bigNumber a) + int (bigNumber b)) = Inr (add_dec a b)"
  "new_Decimal (int (bigNumber a) * int (bigNumber b) div int DIGITS) = Inr (mul_dec a b)"
  "b \<noteq> ZERO \<Longrightarrow>
     new_Decimal ((int (bigNumber a) * int DIGITS + (int (bigNumber b) - 1)) div int (bigNumber b))
     = Inr (divCeil a b)"
proof -
  show "new_Decimal (int (bigNumber a) + int (bigNumber b)) = Inr (add_dec a b)"
    using new_Decimal_int [of "bigNumber a + bigNumber b"] by (simp add: add_dec_def)
  show "new_Decimal (int (bigNumber a) * int (bigNumber b) div int DIGITS) = Inr (mul_dec a b)"
    using new_Decimal_int [of "bigNumber a * bigNumber b div DIGITS"]
    by (simp add: mul_dec_def zdiv_int)
  assume b: "b \<noteq> ZERO"
  then have "0 < bigNumber b" by (simp add: decimal_eq_iff)
  then have "int (bigNumber a) * int DIGITS + (int (bigNumber b) - 1)
      = int (bigNumber a * DIGITS + (bigNumber b - 1))" by simp
  then have "(int (bigNumber a) * int DIGITS + (int (bigNumber b) - 1)) div int (bigNumber b)
      = int ((bigNumber a * DIGITS + (bigNumber b - 1)) div bigNumber b)"
    by (simp only: zdiv_int)
  with b show "new_Decimal ((int (bigNumber a) * int DIGITS + (int (bigNumber b) - 1))
      div int (bigNumber b)) = Inr (divCeil a b)"
    by (simp only: new_Decimal_int) (simp add: divCeil_def)
qed

lemma bigNumber_add [simp]: "bigNumber (add_dec a b) = bigNumber a + bigNumber b"
  by (simp add: add_dec_def)

lemma bigNumber_mul [simp]: "bigNumber (mul_dec a b) = bigNumber a * bigNumber b div DIGITS"
  by (simp add: mul_dec_def)

lemma sub_dec_ok: "b \<le> a \<Longrightarrow> sub_dec a b = Inr (Decimal (bigNumber a - bigNumber b))"
  by (simp add: sub_dec_def new_Decimal_def decimal_le_iff nat_diff_distrib)

lemma sub_dec_error: "a < b \<Longrightarrow> sub_dec a b = Inl (Error ''negatives not supported by Decimal'')"
  by (simp add: sub_dec_def new_Decimal_def decimal_less_iff)

lemma sub_dec_Inr: "sub_dec a b = Inr c \<longleftrightarrow> b \<le> a \<and> add_dec b c = a"
proof (cases "b \<le> a")
  case True
  then show ?thesis
    by (auto simp: sub_dec_ok decimal_le_iff decimal_eq_iff add_dec_def)
next
  case False
  then show ?thesis by (simp add: sub_dec_error not_le)
qed

lemma add_dec_commute: "add_dec a b = add_dec b a"
  by (simp add: add_dec_def add.commute)

lemma add_dec_assoc: "add_dec (add_dec a b) c = add_dec a (add_dec b c)"
  by (simp add: add_dec_def add.assoc)

lemma add_dec_ZERO [simp]: "add_dec a ZERO = a" "add_dec ZERO a = a"
  by (simp_all add: decimal_eq_iff)

lemma le_add_dec [simp]: "a \<le> add_dec a b" "b \<le> add_dec a b"
  by (simp_all add: decimal_le_iff)

lemma sub_dec_ZERO [simp]: "sub_dec a ZERO = Inr a"
  by (simp add: sub_dec_Inr)

lemma mul_dec_ZERO [simp]: "mul_dec a ZERO = ZERO" "mul_dec ZERO a = ZERO"
  by (simp_all add: decimal_eq_iff)

lemma mul_dec_ONE [simp]: "mul_dec a ONE = a" "mul_dec ONE a = a"
  by (simp_all add: decimal_eq_iff)

lemma mul_dec_commute: "mul_dec a b = mul_dec b a"
  by (simp add: mul_dec_def mult.commute)

lemma mul_dec_mono: "a \<le> a' \<Longrightarrow> b \<le> b' \<Longrightarrow> mul_dec a b \<le> mul_dec a' b'"
  by (simp add: decimal_le_iff div_le_mono mult_le_mono)

lemma add_dec_mono: "a \<le> a' \<Longrightarrow> b \<le> b' \<Longrightarrow> add_dec a b \<le> add_dec a' b'"
  by (simp add: decimal_le_iff)

lemma mulDiv_mono: "a \<le> a' \<Longrightarrow> m \<le> m' \<Longrightarrow> mulDiv a m d \<le> mulDiv a' m' d"
  by (simp add: mulDiv_def decimal_le_iff div_le_mono mult_le_mono)

lemma divCeil_ONE [simp]: "divCeil a ONE = a"
proof -
  have "(bigNumber a * DIGITS + (DIGITS - 1)) div DIGITS = bigNumber a"
    using div_mult_self3 [of DIGITS "bigNumber a" "DIGITS - 1"]
    by (simp add: div_less)
  moreover have "ONE \<noteq> ZERO" by (simp add: decimal_eq_iff)
  ultimately show ?thesis by (simp add: divCeil_def decimal_eq_iff)
qed

section \<open>Reading a decimal: \<open>Decimal.from\<close>\<close>

text \<open>
  \<open>stringRepresentationFormat\<close>, the regular expression
  \<^verbatim>\<open>/^[0-9]*(\.[0-9]*)?(e[-+]?[0-9]+)?$/\<close>, as a recogniser: each optional group starts
  with its own character, so matching needs no backtracking.
\<close>

definition matchesExponent :: "string \<Rightarrow> bool" where
  "matchesExponent s =
     (case s of
        [] \<Rightarrow> False
      | c # t \<Rightarrow>
          (if c = CHR ''-'' \<or> c = CHR ''+'' then t \<noteq> [] \<and> list_all is_digit t
           else list_all is_digit (c # t)))"

definition stringRepresentationFormat :: "string \<Rightarrow> bool" where
  "stringRepresentationFormat s =
     (let afterInt = dropWhile is_digit s;
          afterFrac = (case afterInt of
                         c # t \<Rightarrow> if c = CHR ''.'' then dropWhile is_digit t else afterInt
                       | [] \<Rightarrow> [])
      in case afterFrac of
           [] \<Rightarrow> True
         | c # t \<Rightarrow> c = CHR ''e'' \<and> matchesExponent t)"

text \<open>The two halves of \<open>split(c)\<close> that a destructuring of two names takes.\<close>

definition split2 :: "string \<Rightarrow> char \<Rightarrow> string \<times> string" where
  "split2 s c = (takeWhile (\<lambda>x. x \<noteq> c) s, takeWhile (\<lambda>x. x \<noteq> c) (tl (dropWhile (\<lambda>x. x \<noteq> c) s)))"

lemma split2_js_split:
  assumes "js_includes s c"
  shows "\<exists>rest. js_split s c = fst (split2 s c) # snd (split2 s c) # rest"
proof -
  have heads: "\<exists>rest. js_split t c = takeWhile (\<lambda>x. x \<noteq> c) t # rest" for t
    by (induction t) auto
  from assms show ?thesis
  proof (induction s)
    case (Cons x s)
    show ?case
    proof (cases "x = c")
      case True
      then show ?thesis using heads [of s] by (auto simp: split2_def)
    next
      case False
      with Cons obtain rest where "js_split s c = fst (split2 s c) # snd (split2 s c) # rest"
        by (auto simp: js_includes_def)
      with False show ?thesis by (simp add: split2_def)
    qed
  qed (simp add: js_includes_def)
qed

lemma split2_shorter: "js_includes s c \<Longrightarrow> length (fst (split2 s c)) < length s"
proof -
  assume "js_includes s c"
  then have "takeWhile (\<lambda>x. x \<noteq> c) s \<noteq> s"
    by (auto simp: js_includes_def takeWhile_eq_all_conv)
  then show ?thesis
    by (metis split2_def fst_conv length_takeWhile_le le_neq_implies_less takeWhile_eq_take take_all_iff)
qed

definition bad_format :: "string \<Rightarrow> js_error" where
  "bad_format s = Error (''bad decimal format: '' @ [CHR 0x22] @ s @ [CHR 0x22])"

function fromString :: "string \<Rightarrow> decimal result" where
  "fromString repr =
     (if repr = [] \<or> \<not> stringRepresentationFormat repr
      then Inl (bad_format repr)
      else if js_includes repr CHR ''e'' then
        (let (coefficient, exponent) = split2 repr CHR ''e'' in
         result_bind (fromString coefficient)
           (\<lambda>c. case exponent of
              CHR ''-'' # digits \<Rightarrow> Inr (Decimal (bigNumber c div 10 ^ nat_of_digits digits))
            | CHR ''+'' # digits \<Rightarrow> Inr (Decimal (bigNumber c * 10 ^ nat_of_digits digits))
            | digits \<Rightarrow> Inr (Decimal (bigNumber c * 10 ^ nat_of_digits digits))))
      else if \<not> js_includes repr CHR ''.'' then
        Inr (Decimal (nat_of_digits repr * DIGITS))
      else
        (let (characteristic, mantissa) = split2 repr CHR ''.'';
             mantissa' = (if length mantissa < PRECISION
                          then mantissa @ js_repeat CHR ''0'' (PRECISION - length mantissa)
                          else take PRECISION mantissa)
         in Inr (Decimal (nat_of_digits characteristic * DIGITS + nat_of_digits mantissa'))))"
  by pat_completeness auto
termination
proof (relation "measure length")
  fix repr coefficient exponent :: string and x :: "string \<times> string"
  assume "\<not> (repr = [] \<or> \<not> stringRepresentationFormat repr)"
    and "js_includes repr CHR ''e''"
    and "x = split2 repr CHR ''e''" and "(coefficient, exponent) = x"
  then show "(coefficient, repr) \<in> measure length"
    using split2_shorter [of repr "CHR ''e''"] by (metis fst_conv in_measure)
qed simp

declare fromString.simps [simp del]

text \<open>
  \<open>Decimalish\<close>: a \<open>Decimal\<close>, a number or a string.  A JavaScript number is given by the
  text its \<open>toString()\<close> yields, which is all that \<open>from\<close> uses of it.  The remaining
  constructors are the values the two \<open>throw\<close>s of \<open>from\<close> are for.
\<close>

datatype decimalish =
    DDecimal decimal
  | DNumber string
  | DString string
  | DOtherObject
  | DOtherPrimitive

fun from_ish :: "decimalish \<Rightarrow> decimal result" where
  "from_ish (DDecimal d) = Inr d"
| "from_ish DOtherObject = Inl (Error ''invalid Decimalish value'')"
| "from_ish (DString s) = fromString s"
| "from_ish (DNumber s) = fromString s"
| "from_ish DOtherPrimitive = Inl (Error ''invalid Decimalish value'')"

text \<open>An operation of \<open>Decimal\<close> on a \<open>Decimalish\<close> argument converts the argument first.\<close>

definition with_ish :: "(decimal \<Rightarrow> 'a) \<Rightarrow> decimalish \<Rightarrow> 'a result" where
  "with_ish f x = result_map f (from_ish x)"

lemma with_ish_Decimal [simp]: "with_ish f (DDecimal d) = Inr (f d)"
  by (simp add: with_ish_def)

lemma with_ish_Inr: "with_ish f x = Inr y \<longleftrightarrow> (\<exists>d. from_ish x = Inr d \<and> y = f d)"
  by (simp add: with_ish_def result_map_Inr)

text \<open>What the parser yields on a plain numeral and on one with a fractional part.\<close>

lemma digits_not_in:
  "list_all is_digit s \<Longrightarrow> \<not> is_digit c \<Longrightarrow> c \<notin> set s"
  by (auto simp: list_all_iff)

lemma dropWhile_digits:
  "list_all is_digit s \<Longrightarrow> dropWhile is_digit (s @ t) = dropWhile is_digit t"
  by (simp add: list_all_iff dropWhile_append2)

lemma dropWhile_all_digits: "list_all is_digit s \<Longrightarrow> dropWhile is_digit s = []"
  by (simp add: list_all_iff)

lemma format_digits: "list_all is_digit s \<Longrightarrow> stringRepresentationFormat s"
  by (simp add: stringRepresentationFormat_def dropWhile_all_digits)

lemma format_decimal_point:
  "list_all is_digit s \<Longrightarrow> list_all is_digit t \<Longrightarrow> stringRepresentationFormat (s @ CHR ''.'' # t)"
  by (simp add: stringRepresentationFormat_def dropWhile_digits dropWhile_all_digits)

lemma split2_append:
  "c \<notin> set s \<Longrightarrow> c \<notin> set t \<Longrightarrow> split2 (s @ c # t) c = (s, t)"
  by (induction s) (auto simp: split2_def takeWhile_eq_all_conv)

lemma fromString_digits:
  assumes "list_all is_digit s" and "s \<noteq> []"
  shows "fromString s = Inr (Decimal (nat_of_digits s * DIGITS))"
  using assms digits_not_in [OF assms(1), of "CHR ''e''"] digits_not_in [OF assms(1), of "CHR ''.''"]
  by (subst fromString.simps) (simp add: format_digits js_includes_def)

lemma fromString_fraction:
  assumes s: "list_all is_digit s" and t: "list_all is_digit t" and len: "length t \<le> PRECISION"
  shows "fromString (s @ CHR ''.'' # t)
    = Inr (Decimal (nat_of_digits s * DIGITS + nat_of_digits t * 10 ^ (PRECISION - length t)))"
proof -
  have e: "\<not> js_includes (s @ CHR ''.'' # t) CHR ''e''"
    using digits_not_in [OF s, of "CHR ''e''"] digits_not_in [OF t, of "CHR ''e''"]
    by (simp add: js_includes_def)
  have sp: "split2 (s @ CHR ''.'' # t) CHR ''.'' = (s, t)"
    using digits_not_in [OF s] digits_not_in [OF t] by (simp add: split2_append)
  have dot: "js_includes (s @ CHR ''.'' # t) CHR ''.''" by (simp add: js_includes_def)
  show ?thesis
    using e dot len
    by (subst fromString.simps)
      (simp add: format_decimal_point [OF s t] sp js_repeat_def nat_of_digits_append)
qed

text \<open>Closed numerals evaluate with these rules.\<close>

lemmas numeral_eval =
  is_digit_def nat_of_digits_def digit_val_def PRECISION_def DIGITS_eq

lemma fromString_bad: "\<not> stringRepresentationFormat s \<Longrightarrow> fromString s = Inl (bad_format s)"
  by (subst fromString.simps) simp

lemma fromString_empty: "fromString [] = Inl (bad_format [])"
  by (subst fromString.simps) simp

end
