(* ===== verification/Decimal_Format.thy ===== *)
theory Decimal_Format
  imports Sdk_Decimal
begin

text \<open>
  Printing of the class \<open>Decimal\<close> (\<open>toString\<close>, \<open>prettify\<close>, \<open>shorten\<close>) and the classes
  \<open>Difference\<close> and \<open>Percent\<close> of \<^verbatim>\<open>packages/lib-base/src/Decimal.ts\<close>.  The lemmas show
  that printing and \<open>Decimal.from\<close> are inverse, that \<open>toString(p)\<close> rounds to the nearest
  multiple of the last digit shown, and that grouping only adds separators.
\<close>

section \<open>\<open>Decimal.toString\<close>\<close>

definition toStringWithAutomaticPrecision :: "decimal \<Rightarrow> string" where
  "toStringWithAutomaticPrecision this =
     (let characteristic = bigNumber this div DIGITS;
          mantissa = bigNumber this mod DIGITS
      in if mantissa = 0 then show_nat characteristic
         else (let paddedMantissa = js_padStart (show_nat mantissa) PRECISION CHR ''0'';
                   trimmedMantissa = drop_trailing_zeros paddedMantissa
               in show_nat characteristic @ ''.'' @ trimmedMantissa))"

definition roundUp :: "decimal \<Rightarrow> nat \<Rightarrow> nat" where
  "roundUp this precision =
     (let halfDigit = getDigits (PRECISION - 1 - precision) * 5
      in bigNumber this + halfDigit)"

definition toStringWithPrecision :: "decimal \<Rightarrow> int \<Rightarrow> string result" where
  "toStringWithPrecision this precision =
     (if precision < 0 then Inl (Error ''precision must not be negative'')
      else
        let value = (if precision < int PRECISION then roundUp this (nat precision)
                     else bigNumber this);
            characteristic = value div DIGITS;
            mantissa = value mod DIGITS
        in if precision = 0 then Inr (show_nat characteristic)
           else let paddedMantissa = js_padStart (show_nat mantissa) PRECISION CHR ''0'';
                    trimmedMantissa = take (nat precision) paddedMantissa
                in Inr (show_nat characteristic @ ''.'' @ trimmedMantissa))"

definition toString :: "decimal \<Rightarrow> int option \<Rightarrow> string result" where
  "toString this precision =
     (if infinite_dec this then Inr [infinity_sign]
      else case precision of
             Some p \<Rightarrow> toStringWithPrecision this p
           | None \<Rightarrow> Inr (toStringWithAutomaticPrecision this))"

text \<open>A template literal calls \<open>toString()\<close> without a precision, which never throws.\<close>

definition showDecimal :: "decimal \<Rightarrow> string" where
  "showDecimal d =
     (if infinite_dec d then [infinity_sign] else toStringWithAutomaticPrecision d)"

lemma toString_None [simp]: "toString d None = Inr (showDecimal d)"
  by (simp add: toString_def showDecimal_def)

section \<open>\<open>prettify\<close> and \<open>shorten\<close>\<close>

text \<open>
  \<^verbatim>\<open>s.replace(/(\d)(?=(\d{3})+(?!\d))/g, "$1,")\<close>: a comma goes after each digit that is
  followed by a positive multiple of three digits and then no digit.
\<close>

fun groupThousands :: "string \<Rightarrow> string" where
  "groupThousands [] = []"
| "groupThousands (c # cs) =
     (let following = length (takeWhile is_digit cs)
      in if is_digit c \<and> 0 < following \<and> following mod 3 = 0
         then c # CHR '','' # groupThousands cs
         else c # groupThousands cs)"

definition prettify :: "decimal \<Rightarrow> int option \<Rightarrow> string result" where
  "prettify this precisionOpt =
     (let precision = (case precisionOpt of None \<Rightarrow> 2 | Some p \<Rightarrow> p)
      in result_bind (toString this (Some precision))
           (\<lambda>s. case js_split s CHR ''.'' of
                  characteristic # mantissa # _ \<Rightarrow>
                    Inr (groupThousands characteristic @ ''.'' @ mantissa)
                | characteristic # [] \<Rightarrow> Inr (groupThousands characteristic)
                | [] \<Rightarrow> Inr []))"

definition magnitudes :: "string list" where
  "magnitudes = ['''', ''K'', ''M'', ''B'', ''T'']"

definition shorten :: "decimal \<Rightarrow> string result" where
  "shorten this =
     result_bind (toString this (Some 0))
       (\<lambda>s. let characteristicLength = length s;
                magnitude = min ((characteristicLength - 1) div 3) (length magnitudes - 1);
                precision = max (3 * (int magnitude + 1) - int characteristicLength) 0;
                normalized = div_dec this (Decimal (getDigits (PRECISION + 3 * magnitude)))
            in result_map (\<lambda>t. t @ magnitudes ! magnitude) (prettify normalized (Some precision)))"

section \<open>\<open>Difference\<close>\<close>

datatype sign = NoSign | Plus | Minus

fun show_sign :: "sign \<Rightarrow> string" where
  "show_sign NoSign = ''''"
| "show_sign Plus = ''+''"
| "show_sign Minus = ''-''"

record difference_representation =
  sign :: sign
  absoluteValue :: decimal

text \<open>The class has one optional field, the representation.\<close>

type_synonym difference = "difference_representation option"

fun between :: "decimalish option \<Rightarrow> decimalish option \<Rightarrow> difference result" where
  "between None _ = Inr None"
| "between _ None = Inr None"
| "between (Some x1) (Some x2) =
     result_bind (from_ish x1) (\<lambda>d1. result_bind (from_ish x2) (\<lambda>d2.
       if infinite_dec d1 \<and> infinite_dec d2 then Inr None
       else if infinite_dec d1 then Inr (Some \<lparr>sign = Plus, absoluteValue = d1\<rparr>)
       else if infinite_dec d2 then Inr (Some \<lparr>sign = Minus, absoluteValue = d2\<rparr>)
       else if d2 < d1 then
         result_map (\<lambda>v. Some \<lparr>sign = Plus, absoluteValue = v\<rparr>) (sub_dec d1 d2)
       else if d1 < d2 then
         result_map (\<lambda>v. Some \<lparr>sign = Minus, absoluteValue = v\<rparr>) (sub_dec d2 d1)
       else Inr (Some \<lparr>sign = NoSign, absoluteValue = ZERO\<rparr>)))"

definition diff_toString :: "difference \<Rightarrow> int option \<Rightarrow> string result" where
  "diff_toString this precision =
     (case this of
        None \<Rightarrow> Inr ''N/A''
      | Some n \<Rightarrow> result_map (\<lambda>s. show_sign (sign n) @ s) (toString (absoluteValue n) precision))"

definition diff_prettify :: "difference \<Rightarrow> int option \<Rightarrow> string result" where
  "diff_prettify this precision =
     (case this of
        None \<Rightarrow> diff_toString this None
      | Some n \<Rightarrow> result_map (\<lambda>s. show_sign (sign n) @ s) (prettify (absoluteValue n) precision))"

definition diff_mul :: "difference \<Rightarrow> decimalish \<Rightarrow> difference result" where
  "diff_mul this multiplier =
     (case this of
        None \<Rightarrow> Inr None
      | Some n \<Rightarrow>
          result_map (\<lambda>v. Some \<lparr>sign = sign n, absoluteValue = v\<rparr>)
            (with_ish (mul_dec (absoluteValue n)) multiplier))"

text \<open>The getters: \<open>Some\<close> stands for \<open>this\<close>, \<open>None\<close> for undefined.\<close>

definition diff_nonZero :: "difference \<Rightarrow> difference option" where
  "diff_nonZero this =
     (case this of None \<Rightarrow> None
      | Some n \<Rightarrow> (case nonZero_dec (absoluteValue n) of None \<Rightarrow> None | Some _ \<Rightarrow> Some this))"

definition diff_positive :: "difference \<Rightarrow> difference option" where
  "diff_positive this =
     (case this of None \<Rightarrow> None | Some n \<Rightarrow> if sign n = Plus then Some this else None)"

definition diff_negative :: "difference \<Rightarrow> difference option" where
  "diff_negative this =
     (case this of None \<Rightarrow> None | Some n \<Rightarrow> if sign n = Minus then Some this else None)"

definition diff_absoluteValue :: "difference \<Rightarrow> decimal option" where
  "diff_absoluteValue this = map_option absoluteValue this"

definition diff_infinite :: "difference \<Rightarrow> difference option" where
  "diff_infinite this =
     (case this of None \<Rightarrow> None
      | Some n \<Rightarrow> (case infinite_opt (absoluteValue n) of None \<Rightarrow> None | Some _ \<Rightarrow> Some this))"

definition diff_finite :: "difference \<Rightarrow> difference option" where
  "diff_finite this =
     (case this of None \<Rightarrow> None
      | Some n \<Rightarrow> (case finite_opt (absoluteValue n) of None \<Rightarrow> None | Some _ \<Rightarrow> Some this))"

section \<open>\<open>Percent\<close>\<close>

text \<open>
  \<open>Percent\<close> is generic in the ratio it shows; the sources build it from a \<open>Decimal\<close> or a
  \<open>Difference\<close>, both of which have all of \<open>infinite\<close>, \<open>absoluteValue\<close> and \<open>mul\<close>.
\<close>

datatype ratio = RDecimal decimal | RDifference difference

fun ratio_infinite :: "ratio \<Rightarrow> bool" where
  "ratio_infinite (RDecimal d) = infinite_dec d"
| "ratio_infinite (RDifference x) = (diff_infinite x \<noteq> None)"

fun ratio_mul100 :: "ratio \<Rightarrow> ratio result" where
  "ratio_mul100 (RDecimal d) = result_map RDecimal (with_ish (mul_dec d) (DNumber ''100''))"
| "ratio_mul100 (RDifference x) = result_map RDifference (diff_mul x (DNumber ''100''))"

fun ratio_absoluteValue :: "ratio \<Rightarrow> decimal option" where
  "ratio_absoluteValue (RDecimal d) = Some d"
| "ratio_absoluteValue (RDifference x) = diff_absoluteValue x"

fun ratio_toString :: "ratio \<Rightarrow> int option \<Rightarrow> string result" where
  "ratio_toString (RDecimal d) p = toString d p"
| "ratio_toString (RDifference x) p = diff_toString x p"

definition new_Percent :: "ratio \<Rightarrow> ratio result" where
  "new_Percent r = (if ratio_infinite r then Inr r else ratio_mul100 r)"

text \<open>\<open>this._percent.absoluteValue?.gte(n)\<close>, where an undefined value is falsy.\<close>

definition percent_gte :: "ratio \<Rightarrow> string \<Rightarrow> bool result" where
  "percent_gte percent n =
     (case ratio_absoluteValue percent of
        None \<Rightarrow> Inr False
      | Some v \<Rightarrow> with_ish (\<lambda>d. d \<le> v) (DString n))"

definition nonZeroish :: "ratio \<Rightarrow> nat \<Rightarrow> ratio option result" where
  "nonZeroish percent precision =
     (let zeroish = ''0.'' @ js_repeat CHR ''0'' precision @ ''5''
      in result_map (\<lambda>b. if b then Some percent else None) (percent_gte percent zeroish))"

definition percent_toString :: "ratio \<Rightarrow> int \<Rightarrow> string result" where
  "percent_toString percent precision =
     result_map
       (\<lambda>s. s @ (if ratio_absoluteValue percent \<noteq> None \<and> \<not> ratio_infinite percent
                 then ''%'' else ''''))
       (ratio_toString percent (Some precision))"

definition percent_prettify :: "ratio \<Rightarrow> string result" where
  "percent_prettify percent =
     result_bind (percent_gte percent ''1000'') (\<lambda>b1.
       if b1 then percent_toString percent 0
       else result_bind (percent_gte percent ''10'') (\<lambda>b2.
         if b2 then percent_toString percent 1 else percent_toString percent 2))"

section \<open>Printing and reading are inverse\<close>

lemma drop_trailing_zeros_append:
  "\<exists>n. s = drop_trailing_zeros s @ replicate n CHR ''0''"
proof -
  let ?P = "\<lambda>c. c = CHR ''0''"
  have "takeWhile ?P (rev s) = replicate (length (takeWhile ?P (rev s))) CHR ''0''"
    by (rule replicate_eqI) (auto dest: set_takeWhileD)
  then have "rev (takeWhile ?P (rev s)) = replicate (length (takeWhile ?P (rev s))) CHR ''0''"
    by (metis rev_replicate)
  moreover have "s = rev (dropWhile ?P (rev s)) @ rev (takeWhile ?P (rev s))"
    by (metis rev_append rev_rev_ident takeWhile_dropWhile_id)
  ultimately show ?thesis unfolding drop_trailing_zeros_def by metis
qed

text \<open>The padded mantissa: eighteen digits that read back as the mantissa.\<close>

lemma padStart_mantissa:
  assumes "m < DIGITS"
  defines "s \<equiv> js_padStart (show_nat m) PRECISION CHR ''0''"
  shows "length s = PRECISION" "list_all is_digit s" "nat_of_digits s = m"
proof -
  have "length (show_nat m) \<le> PRECISION"
    using assms(1) length_show_nat_le [of m PRECISION]
    by (simp add: DIGITS_def getDigits_def PRECISION_def)
  then show "length s = PRECISION" by (simp add: s_def js_padStart_def)
  show "list_all is_digit s"
    by (simp add: s_def js_padStart_def) (simp add: list_all_iff)
  show "nat_of_digits s = m" by (simp add: s_def js_padStart_def nat_of_digits_append)
qed

lemma fromString_auto:
  "fromString (toStringWithAutomaticPrecision d) = Inr d"
proof -
  define c m where "c = bigNumber d div DIGITS" and "m = bigNumber d mod DIGITS"
  have cm: "c * DIGITS + m = bigNumber d" by (simp add: c_def m_def)
  have m: "m < DIGITS" by (simp add: m_def)
  show ?thesis
  proof (cases "m = 0")
    case True
    then have "toStringWithAutomaticPrecision d = show_nat c"
      by (simp add: toStringWithAutomaticPrecision_def c_def m_def)
    moreover have "Decimal (c * DIGITS) = d" using cm True by (simp add: decimal_eq_iff)
    ultimately show ?thesis by (simp add: fromString_digits)
  next
    case False
    define s where "s = js_padStart (show_nat m) PRECISION CHR ''0''"
    define t where "t = drop_trailing_zeros s"
    note s = padStart_mantissa [OF m, folded s_def]
    obtain n where n: "s = t @ replicate n CHR ''0''"
      using drop_trailing_zeros_append [of s] unfolding t_def by blast
    have str: "toStringWithAutomaticPrecision d = show_nat c @ CHR ''.'' # t"
      using False by (simp add: toStringWithAutomaticPrecision_def c_def m_def s_def t_def)
    have len: "length t + n = PRECISION" using s(1) n by simp
    have dig: "list_all is_digit t" using s(2) n by simp
    have "nat_of_digits t * 10 ^ n = m" using s(3) n by (simp add: nat_of_digits_append)
    then have "nat_of_digits t * 10 ^ (PRECISION - length t) = m" using len by (metis add_diff_cancel_left')
    with fromString_fraction [of "show_nat c" t] dig len str cm show ?thesis
      by (simp add: decimal_eq_iff)
  qed
qed

text \<open>\<open>toString(p)\<close> prints the value rounded half-up to \<open>p\<close> decimals.\<close>

definition round_to :: "nat \<Rightarrow> decimal \<Rightarrow> decimal" where
  "round_to p d =
     Decimal ((bigNumber d + 5 * 10 ^ (PRECISION - 1 - p)) div 10 ^ (PRECISION - p) * 10 ^ (PRECISION - p))"

lemma ten_power_PRECISION: "p \<le> PRECISION \<Longrightarrow> 10 ^ p * 10 ^ (PRECISION - p) = DIGITS"
  by (simp add: DIGITS_def getDigits_def flip: power_add)

lemma take_digits:
  assumes "list_all is_digit s" and "p \<le> length s"
  shows "nat_of_digits (take p s) = nat_of_digits s div 10 ^ (length s - p)"
proof -
  have "nat_of_digits s = nat_of_digits (take p s) * 10 ^ (length s - p) + nat_of_digits (drop p s)"
    using nat_of_digits_append [of "take p s" "drop p s"] by simp
  moreover have "nat_of_digits (drop p s) < 10 ^ (length s - p)"
    using assms nat_of_digits_less [of "drop p s"] by (auto simp: list_all_iff dest: in_set_dropD)
  ultimately show ?thesis by simp
qed

lemma fromString_precision:
  assumes p: "p < PRECISION"
  shows "\<exists>s. toStringWithPrecision d (int p) = Inr s \<and> fromString s = Inr (round_to p d)"
proof -
  define v where "v = bigNumber d + 5 * 10 ^ (PRECISION - 1 - p)"
  define c m where "c = v div DIGITS" and "m = v mod DIGITS"
  have cm: "c * DIGITS + m = v" and m: "m < DIGITS" by (simp_all add: c_def m_def)
  have v: "roundUp d p = v" by (simp add: roundUp_def v_def getDigits_def mult.commute)
  have r: "round_to p d = Decimal (v div 10 ^ (PRECISION - p) * 10 ^ (PRECISION - p))"
    by (simp add: round_to_def v_def)
  define s where "s = js_padStart (show_nat m) PRECISION CHR ''0''"
  note s = padStart_mantissa [OF m, folded s_def]
  have split: "v div 10 ^ (PRECISION - p) = c * 10 ^ p + m div 10 ^ (PRECISION - p)"
  proof -
    have "v = m + c * 10 ^ p * 10 ^ (PRECISION - p)"
      using cm ten_power_PRECISION [of p] p by (simp add: mult.assoc)
    then show ?thesis by simp
  qed
  show ?thesis
  proof (cases "p = 0")
    case True
    then have "round_to p d = Decimal (c * DIGITS)"
      using r split m by (simp add: DIGITS_def getDigits_def)
    moreover have "toStringWithPrecision d (int p) = Inr (show_nat c)"
      using True p v by (simp add: toStringWithPrecision_def c_def PRECISION_def)
    ultimately show ?thesis by (simp add: fromString_digits)
  next
    case False
    define t where "t = take p s"
    have len: "length t = p" and dig: "list_all is_digit t"
      using s p by (auto simp: t_def list_all_iff dest: in_set_takeD)
    have t: "nat_of_digits t = m div 10 ^ (PRECISION - p)"
      using take_digits [OF s(2), of p] s p by (simp add: t_def)
    have str: "toStringWithPrecision d (int p) = Inr (show_nat c @ CHR ''.'' # t)"
      using False p v by (simp add: toStringWithPrecision_def c_def m_def s_def t_def Let_def)
    have "c * DIGITS + nat_of_digits t * 10 ^ (PRECISION - p) = v div 10 ^ (PRECISION - p) * 10 ^ (PRECISION - p)"
      using split t ten_power_PRECISION [of p] p by (simp add: algebra_simps)
    with fromString_fraction [of "show_nat c" t] len dig p r str show ?thesis by simp
  qed
qed

lemma round_to_nearest:
  assumes "p < PRECISION"
  shows "2 * \<bar>int (bigNumber (round_to p d)) - int (bigNumber d)\<bar> \<le> 10 ^ (PRECISION - p)"
proof -
  define h :: nat where "h = 5 * 10 ^ (PRECISION - 1 - p)"
  define u :: nat where "u = 10 ^ (PRECISION - p)"
  have "PRECISION - p = Suc (PRECISION - 1 - p)" using assms by simp
  then have u: "u = 2 * h" by (simp only: u_def h_def power_Suc)
  have "0 < u" by (simp add: u_def)
  define q where "q = (bigNumber d + h) div u"
  have "q * u \<le> bigNumber d + h" and "bigNumber d + h < q * u + u"
    using mod_less_divisor [OF \<open>0 < u\<close>, of "bigNumber d + h"] div_mult_mod_eq [of "bigNumber d + h" u]
    unfolding q_def by linarith+
  then have "int (q * u) \<le> int (bigNumber d) + int h" and "int (bigNumber d) + int h < int (q * u) + int u"
    by linarith+
  moreover have "int u = 2 * int h" using u by simp
  moreover have "2 * \<bar>x - y\<bar> \<le> w" if "x \<le> y + z" "y + z < x + w" "w = 2 * z" for x y z w :: int
    using that by (simp add: abs_if)
  ultimately have "2 * \<bar>int (q * u) - int (bigNumber d)\<bar> \<le> int u" by blast
  then show ?thesis by (simp add: round_to_def h_def u_def q_def)
qed

section \<open>Grouping\<close>

text \<open>The groups of a numeral: the first has one to three digits, the others three.\<close>

definition grouped :: "string list \<Rightarrow> string \<Rightarrow> bool" where
  "grouped gs s \<longleftrightarrow>
     concat gs = s \<and> gs \<noteq> [] \<and> length (hd gs) = (length s - 1) mod 3 + 1
       \<and> list_all (\<lambda>g. length g = 3) (tl gs)"

lemma takeWhile_all_digits: "list_all is_digit s \<Longrightarrow> takeWhile is_digit s = s"
  by (simp add: list_all_iff takeWhile_eq_all_conv)

lemma grouped_groupThousands:
  "list_all is_digit s \<Longrightarrow> s \<noteq> [] \<Longrightarrow> grouped (js_split (groupThousands s) CHR '','') s"
proof (induction s)
  case (Cons c cs)
  then have c: "is_digit c" "c \<noteq> CHR '',''" and cs: "takeWhile is_digit cs = cs"
    by (auto simp: takeWhile_all_digits)
  show ?case
  proof (cases "cs = []")
    case True
    with c show ?thesis by (simp add: grouped_def)
  next
    case False
    with Cons have IH: "grouped (js_split (groupThousands cs) CHR '','') cs" by simp
    then obtain g gs where gs: "js_split (groupThousands cs) CHR '','' = g # gs"
      by (cases "js_split (groupThousands cs) CHR '',''") (auto simp: grouped_def)
    obtain k where k: "length cs = Suc k" using False by (cases cs) simp_all
    show ?thesis
    proof (cases "length cs mod 3 = 0")
      case True
      then have "k mod 3 = 2" using k by presburger
      moreover have "groupThousands (c # cs) = c # CHR '','' # groupThousands cs"
        using True c k cs by (simp only: groupThousands.simps Let_def) simp
      ultimately show ?thesis using True c k IH gs by (simp add: grouped_def)
    next
      case False
      then have "Suc k mod 3 = Suc (k mod 3)" using k by presburger
      moreover have "groupThousands (c # cs) = c # groupThousands cs"
        using False c k cs by (simp only: groupThousands.simps Let_def) simp
      ultimately show ?thesis using False c k IH gs by (simp add: grouped_def)
    qed
  qed
qed simp

lemma js_split_absent: "c \<notin> set s \<Longrightarrow> js_split s c = [s]"
  by (induction s) auto

lemma js_split_once: "c \<notin> set s \<Longrightarrow> c \<notin> set t \<Longrightarrow> js_split (s @ c # t) c = [s, t]"
  by (induction s) (auto simp: js_split_absent)

lemma toStringWithPrecision_shape:
  assumes "0 < p"
  shows "\<exists>n t. toStringWithPrecision d p = Inr (show_nat n @ CHR ''.'' # t) \<and> list_all is_digit t"
proof -
  define v where "v = (if p < int PRECISION then roundUp d (nat p) else bigNumber d)"
  have "v mod DIGITS < DIGITS" by simp
  note pad = padStart_mantissa(2) [OF this]
  have "toStringWithPrecision d p = Inr (show_nat (v div DIGITS) @ CHR ''.''
      # take (nat p) (js_padStart (show_nat (v mod DIGITS)) PRECISION CHR ''0''))"
    using assms by (simp add: toStringWithPrecision_def v_def Let_def)
  moreover have "list_all is_digit (take (nat p) (js_padStart (show_nat (v mod DIGITS)) PRECISION CHR ''0''))"
    using pad by (auto simp: list_all_iff dest: in_set_takeD)
  ultimately show ?thesis by blast
qed

lemma toStringWithPrecision_zero:
  "toStringWithPrecision d 0 = Inr (show_nat (roundUp d 0 div DIGITS))"
  by (simp add: toStringWithPrecision_def PRECISION_def)

lemma prettify_total:
  assumes "0 \<le> p"
  shows "\<exists>s. prettify d (Some p) = Inr s"
proof (cases "d = INFINITY")
  case True
  then show ?thesis by (simp add: prettify_def toString_def infinity_sign_def)
next
  case False
  show ?thesis
  proof (cases "p = 0")
    case True
    have "js_split (show_nat n) CHR ''.'' = [show_nat n]" for n
      using digits_not_in [OF show_nat_digits, of "CHR ''.''" n] by (simp add: js_split_absent)
    with True False show ?thesis by (simp add: prettify_def toString_def toStringWithPrecision_zero)
  next
    case p: False
    with assms obtain n t where "toStringWithPrecision d p = Inr (show_nat n @ CHR ''.'' # t)"
      and "list_all is_digit t" using toStringWithPrecision_shape [of p d] by auto
    with False digits_not_in [OF show_nat_digits, of "CHR ''.''" n] digits_not_in [of t "CHR ''.''"]
    show ?thesis by (simp add: prettify_def toString_def js_split_once)
  qed
qed

section \<open>The signed value of a difference\<close>

fun sign_int :: "sign \<Rightarrow> int" where
  "sign_int NoSign = 0"
| "sign_int Plus = 1"
| "sign_int Minus = - 1"

lemma between_decimals:
  assumes "a \<noteq> INFINITY" and "b \<noteq> INFINITY"
  shows "between (Some (DDecimal a)) (Some (DDecimal b)) =
    Inr (Some \<lparr>sign = (if b < a then Plus else if a < b then Minus else NoSign),
               absoluteValue = Decimal (nat \<bar>int (bigNumber a) - int (bigNumber b)\<bar>)\<rparr>)"
proof -
  consider "b < a" | "a < b" | "a = b" by fastforce
  then show ?thesis
  proof cases
    case 1
    then have "nat \<bar>int (bigNumber a) - int (bigNumber b)\<bar> = bigNumber a - bigNumber b"
      by (simp add: decimal_less_iff)
    with 1 assms show ?thesis by (simp add: sub_dec_ok)
  next
    case 2
    then have "nat \<bar>int (bigNumber a) - int (bigNumber b)\<bar> = bigNumber b - bigNumber a"
      by (simp add: decimal_less_iff)
    moreover have "\<not> b < a" using 2 by simp
    ultimately show ?thesis using 2 assms by (simp add: sub_dec_ok del: not_less)
  next
    case 3
    with assms show ?thesis by (simp add: ZERO_def)
  qed
qed

section \<open>Properties\<close>

text \<open>
  C19: Printing and reading are inverse: \<open>Decimal.from(d.toString())\<close> is \<open>d\<close> for every
  finite \<open>d\<close>, all eighteen decimals included.
\<close>

theorem from_toString:
  assumes "d \<noteq> INFINITY"
  shows "result_bind (toString d None) fromString = Inr d"
  using assms by (simp add: showDecimal_def fromString_auto)

theorem from_toString_witness:
  "result_bind (toString HALF None) fromString = Inr HALF"
  by (rule from_toString) (simp add: HALF_def INFINITY_def MAX_UINT_256_def)

text \<open>
  \<open>toString(p)\<close> prints the nearest multiple of its last digit: reading the text back
  gives a multiple of \<open>10^(18-p)\<close> at most half of that away from the value.
\<close>

theorem toString_rounds_to_nearest:
  assumes "d \<noteq> INFINITY" and "p < PRECISION"
  shows "\<exists>s r. toString d (Some (int p)) = Inr s \<and> fromString s = Inr r
    \<and> 10 ^ (PRECISION - p) dvd bigNumber r
    \<and> 2 * \<bar>int (bigNumber r) - int (bigNumber d)\<bar> \<le> 10 ^ (PRECISION - p)"
proof -
  obtain s where "toStringWithPrecision d (int p) = Inr s" "fromString s = Inr (round_to p d)"
    using fromString_precision [OF assms(2)] by blast
  moreover have "10 ^ (PRECISION - p) dvd bigNumber (round_to p d)" by (simp add: round_to_def)
  ultimately show ?thesis using round_to_nearest [OF assms(2), of d] assms(1) by (simp add: toString_def)
qed

theorem toString_rounds_to_nearest_witness:
  "\<exists>s r. toString HALF (Some (int 0)) = Inr s \<and> fromString s = Inr r
    \<and> 10 ^ (PRECISION - 0) dvd bigNumber r
    \<and> 2 * \<bar>int (bigNumber r) - int (bigNumber HALF)\<bar> \<le> 10 ^ (PRECISION - 0)"
  by (rule toString_rounds_to_nearest) (simp_all add: HALF_def INFINITY_def MAX_UINT_256_def PRECISION_def)

text \<open>
  \<open>prettify\<close> shows what \<open>toString(p)\<close> shows, with the integer part cut into groups by
  commas: the first group has one to three digits, every other exactly three, and removing
  the commas gives the integer part back.
\<close>

theorem prettify_groups:
  assumes "d \<noteq> INFINITY" and "0 < p"
  shows "\<exists>n m. toString d (Some p) = Inr (show_nat n @ CHR ''.'' # m)
    \<and> prettify d (Some p) = Inr (groupThousands (show_nat n) @ CHR ''.'' # m)
    \<and> grouped (js_split (groupThousands (show_nat n)) CHR '','') (show_nat n)"
proof -
  obtain n m where s: "toStringWithPrecision d p = Inr (show_nat n @ CHR ''.'' # m)"
    and m: "list_all is_digit m" using toStringWithPrecision_shape [OF assms(2)] by blast
  have "js_split (show_nat n @ CHR ''.'' # m) CHR ''.'' = [show_nat n, m]"
    using digits_not_in [OF show_nat_digits, of "CHR ''.''" n] digits_not_in [OF m, of "CHR ''.''"]
    by (simp add: js_split_once)
  with s assms(1) have "prettify d (Some p) = Inr (groupThousands (show_nat n) @ CHR ''.'' # m)"
    by (simp add: prettify_def toString_def)
  with s assms(1) show ?thesis
    using grouped_groupThousands [of "show_nat n"] by (auto simp: toString_def)
qed

theorem prettify_groups_witness:
  "\<exists>n m. toString (Decimal 1234567500000000000000000) (Some 2) = Inr (show_nat n @ CHR ''.'' # m)
    \<and> prettify (Decimal 1234567500000000000000000) (Some 2) = Inr (groupThousands (show_nat n) @ CHR ''.'' # m)
    \<and> grouped (js_split (groupThousands (show_nat n)) CHR '','') (show_nat n)"
  by (rule prettify_groups) (simp_all add: INFINITY_def MAX_UINT_256_def)

text \<open>
  \<open>Decimal.from\<close> refuses exactly the strings that are empty or not of the documented
  form at the top level: a string of any other shape gives the \<open>bad decimal format\<close> error
  and nothing else.
\<close>

theorem from_rejects_bad_format:
  assumes "s = [] \<or> \<not> stringRepresentationFormat s"
  shows "from_ish (DString s) = Inl (bad_format s) \<and> from_ish (DNumber s) = Inl (bad_format s)"
  using assms fromString_empty fromString_bad by auto

theorem from_rejects_bad_format_witness:
  "from_ish (DString ''12O'') = Inl (bad_format ''12O'') \<and> from_ish (DNumber ''12O'') = Inl (bad_format ''12O'')"
  by (rule from_rejects_bad_format) (simp add: stringRepresentationFormat_def is_digit_def)

text \<open>
  The difference of two finite decimals has the sign and the size of their exact
  difference, so \<open>between(a, b)\<close> never throws and \<open>between(b, a)\<close> is its negation.
\<close>

theorem between_is_exact:
  assumes "a \<noteq> INFINITY" and "b \<noteq> INFINITY"
  shows "\<exists>n m. between (Some (DDecimal a)) (Some (DDecimal b)) = Inr (Some n)
    \<and> between (Some (DDecimal b)) (Some (DDecimal a)) = Inr (Some m)
    \<and> sign_int (sign n) * int (bigNumber (absoluteValue n)) = int (bigNumber a) - int (bigNumber b)
    \<and> sign_int (sign m) = - sign_int (sign n) \<and> absoluteValue m = absoluteValue n"
  unfolding between_decimals [OF assms] between_decimals [OF assms(2,1)]
  by (cases a b rule: linorder_cases) (simp_all add: decimal_less_iff)

theorem between_is_exact_witness:
  "\<exists>n m. between (Some (DDecimal HALF)) (Some (DDecimal ONE)) = Inr (Some n)
    \<and> between (Some (DDecimal ONE)) (Some (DDecimal HALF)) = Inr (Some m)
    \<and> sign_int (sign n) * int (bigNumber (absoluteValue n)) = int (bigNumber HALF) - int (bigNumber ONE)
    \<and> sign_int (sign m) = - sign_int (sign n) \<and> absoluteValue m = absoluteValue n"
  by (rule between_is_exact) (simp_all add: HALF_def ONE_def INFINITY_def MAX_UINT_256_def DIGITS_eq)

text \<open>\<open>shorten\<close> never throws: the precision it computes is never negative.\<close>

theorem shorten_total: "\<exists>s. shorten d = Inr s"
proof -
  obtain t where "toString d (Some 0) = Inr t"
    by (cases "d = INFINITY") (simp_all add: toString_def toStringWithPrecision_zero)
  then show ?thesis
    using prettify_total [of "max (3 * (int (min ((length t - 1) div 3) (length magnitudes - 1)) + 1) - int (length t)) 0"
        "div_dec d (Decimal (getDigits (PRECISION + 3 * min ((length t - 1) div 3) (length magnitudes - 1))))"]
    by (auto simp: shorten_def Let_def)
qed

end
