(* ===== verification/Decimal_Pow.thy ===== *)
theory Decimal_Pow
  imports Sdk_Decimal
begin

text \<open>
  \<open>Decimal.pow\<close> of \<^verbatim>\<open>packages/lib-base/src/Decimal.ts\<close>: exponentiation by repeated
  squaring, each product rounded to eighteen decimals.  The lemmas compare it with the
  real power: for a base of at most one, the result is within half a unit in the last
  place per unit of the exponent.
\<close>

section \<open>The code\<close>

definition roundedMul :: "nat \<Rightarrow> nat \<Rightarrow> nat" where
  "roundedMul x y = (x * y + bigNumber HALF) div DIGITS"

text \<open>
  The loop \<^verbatim>\<open>for (; exponent > 1; exponent >>>= 1)\<close>.  The assertions before it bound the
  exponent by \<open>0xffffffff\<close>, so the unsigned shift is division by two and \<open>exponent & 1\<close>
  tests oddness.
\<close>

fun pow_loop :: "nat \<Rightarrow> nat \<Rightarrow> nat \<Rightarrow> nat \<times> nat" where
  "pow_loop exponent x y =
     (if 1 < exponent then
        pow_loop (exponent div 2) (roundedMul x x) (if odd exponent then roundedMul x y else y)
      else (x, y))"

declare pow_loop.simps [simp del]

text \<open>The exponent is a JavaScript number that is an integer (the first assertion).\<close>

definition pow :: "decimal \<Rightarrow> int \<Rightarrow> decimal result" where
  "pow this exponent =
     js_assert (0 \<le> exponent \<and> exponent \<le> 0xffffffff)
       (if exponent = 0 then Inr ONE
        else if exponent = 1 then Inr this
        else (let (x, y) = pow_loop (nat exponent) (bigNumber this) DIGITS
              in Inr (Decimal (roundedMul x y))))"

section \<open>Rounding\<close>

lemma HALF_twice: "2 * bigNumber HALF = DIGITS"
  by (simp add: HALF_def DIGITS_eq)

lemma roundedMul_DIGITS [simp]: "roundedMul x DIGITS = x" "roundedMul DIGITS x = x"
proof -
  have "bigNumber HALF < DIGITS" by (simp add: HALF_def DIGITS_eq)
  then show "roundedMul x DIGITS = x" and "roundedMul DIGITS x = x"
    by (simp_all add: roundedMul_def)
qed

lemma roundedMul_mono: "x \<le> x' \<Longrightarrow> y \<le> y' \<Longrightarrow> roundedMul x y \<le> roundedMul x' y'"
  by (simp add: roundedMul_def div_le_mono mult_le_mono)

lemma roundedMul_le: "x \<le> DIGITS \<Longrightarrow> y \<le> DIGITS \<Longrightarrow> roundedMul x y \<le> DIGITS"
  using roundedMul_mono [of x DIGITS y DIGITS] by simp

lemma roundedMul_error:
  "\<bar>real (roundedMul x y) - real x * real y / real DIGITS\<bar> \<le> 1 / 2"
proof -
  define v where "v = x * y + bigNumber HALF"
  have "real v = real DIGITS * real (v div DIGITS) + real (v mod DIGITS)"
    by (metis mult_div_mod_eq of_nat_add of_nat_mult)
  moreover have "real (v mod DIGITS) < real DIGITS" by simp
  moreover have "real v = real x * real y + real DIGITS / 2"
    by (simp add: v_def HALF_def DIGITS_eq)
  ultimately have "\<bar>real DIGITS * real (v div DIGITS) - real x * real y\<bar> \<le> real DIGITS / 2"
    using of_nat_0_le_iff [of "v mod DIGITS", where 'a = real] unfolding abs_le_iff by linarith
  then have "\<bar>(real DIGITS * real (v div DIGITS) - real x * real y) / real DIGITS\<bar> \<le> 1 / 2"
    unfolding abs_divide by (simp add: field_simps)
  moreover have "(real DIGITS * real (v div DIGITS) - real x * real y) / real DIGITS
      = real (v div DIGITS) - real x * real y / real DIGITS"
    by (simp add: diff_divide_distrib)
  ultimately have "\<bar>real (v div DIGITS) - real x * real y / real DIGITS\<bar> \<le> 1 / 2"
    by (simp only:)
  then show ?thesis unfolding roundedMul_def v_def .
qed

lemma real_div_bounds:
  fixes q d :: nat
  assumes "0 < d"
  shows "real q / real d - 1 \<le> real (q div d)" "real (q div d) \<le> real q / real d"
proof -
  have "real q = real d * real (q div d) + real (q mod d)"
    by (metis mult_div_mod_eq of_nat_add of_nat_mult)
  moreover have "0 \<le> real (q mod d)" "real (q mod d) \<le> real d" using assms by (simp_all add: less_imp_le)
  ultimately show "real q / real d - 1 \<le> real (q div d)" "real (q div d) \<le> real q / real d"
    using assms by (simp_all add: field_simps)
qed

lemma abs_scale_le: "0 \<le> c \<Longrightarrow> c \<le> 1 \<Longrightarrow> \<bar>c * u\<bar> \<le> \<bar>u\<bar>" for c u :: real
  using mult_left_le_one_le [of "\<bar>u\<bar>" c] by (simp add: abs_mult)

text \<open>
  Multiplying two approximations of \<open>D * A\<close> and \<open>D * B\<close>, where \<open>A\<close>, \<open>B\<close> and the factors
  are at most one, adds their errors and half a unit.
\<close>

lemma roundedMul_approx:
  assumes x: "\<bar>real x - real DIGITS * A\<bar> \<le> ex" "x \<le> DIGITS"
    and y: "\<bar>real y - real DIGITS * B\<bar> \<le> ey" "0 \<le> B" "B \<le> 1"
  shows "\<bar>real (roundedMul x y) - real DIGITS * (A * B)\<bar> \<le> ex + ey + 1 / 2"
proof -
  define q where "q = real x / real DIGITS"
  have q: "0 \<le> q" "q \<le> 1" using x(2) by (simp_all add: q_def)
  have "real x * real y / real DIGITS - real DIGITS * (A * B)
      = q * (real y - real DIGITS * B) + B * (real x - real DIGITS * A)"
    by (simp add: q_def field_simps)
  then have "\<bar>real x * real y / real DIGITS - real DIGITS * (A * B)\<bar>
      \<le> \<bar>q * (real y - real DIGITS * B)\<bar> + \<bar>B * (real x - real DIGITS * A)\<bar>"
    by (simp only: abs_triangle_ineq)
  also have "\<dots> \<le> \<bar>real y - real DIGITS * B\<bar> + \<bar>real x - real DIGITS * A\<bar>"
    using q y(2,3) by (intro add_mono abs_scale_le)
  also have "\<dots> \<le> ey + ex" using x(1) y(1) by simp
  finally show ?thesis using roundedMul_error [of x y] unfolding abs_le_iff by linarith
qed

section \<open>The loop computes the power\<close>

lemma pow_loop_approx:
  assumes "1 \<le> e" "1 \<le> m" "x \<le> DIGITS" "y \<le> DIGITS" "0 \<le> X" "X \<le> 1"
    and "\<bar>real x - real DIGITS * X ^ m\<bar> \<le> (real m - 1) / 2"
    and "\<bar>real y - real DIGITS * X ^ j\<bar> \<le> real j / 2"
    and "pow_loop e x y = (x', y')"
  shows "\<bar>real (roundedMul x' y') - real DIGITS * X ^ (j + e * m)\<bar> \<le> real (j + e * m) / 2
    \<and> roundedMul x' y' \<le> DIGITS"
  using assms
proof (induction e x y arbitrary: m j rule: pow_loop.induct)
  case (1 e x y)
  have pows: "0 \<le> X ^ k" "X ^ k \<le> 1" for k using "1.prems" by (simp_all add: power_le_one)
  have xy: "\<bar>real (roundedMul x y) - real DIGITS * X ^ (j + m)\<bar> \<le> real (j + m) / 2"
  proof -
    have "(real m - 1) / 2 + real j / 2 + 1 / 2 = real (j + m) / 2" by (simp add: field_simps)
    moreover have "X ^ m * X ^ j = X ^ (j + m)" by (simp add: power_add mult.commute)
    ultimately show ?thesis
      using roundedMul_approx [OF "1.prems"(7,3,8) pows] by (simp only:)
  qed
  show ?case
  proof (cases "1 < e")
    case False
    with "1.prems" have "e = 1" "x' = x" "y' = y" by (simp_all add: pow_loop.simps [of e])
    then show ?thesis using xy roundedMul_le [OF "1.prems"(3,4)] by simp
  next
    case True
    define y1 where "y1 = (if odd e then roundedMul x y else y)"
    define j1 where "j1 = (if odd e then j + m else j)"
    have xx: "\<bar>real (roundedMul x x) - real DIGITS * X ^ (2 * m)\<bar> \<le> (real (2 * m) - 1) / 2"
    proof -
      have "(real m - 1) / 2 + (real m - 1) / 2 + 1 / 2 = (real (2 * m) - 1) / 2"
        by (simp add: field_simps)
      then show ?thesis
        using roundedMul_approx [OF "1.prems"(7,3,7) pows] by (simp only: mult_2 power_add)
    qed
    have y1: "\<bar>real y1 - real DIGITS * X ^ j1\<bar> \<le> real j1 / 2"
      using xy "1.prems"(8) by (simp add: y1_def j1_def)
    have le: "roundedMul x x \<le> DIGITS" "y1 \<le> DIGITS"
      using "1.prems"(3,4) by (simp_all add: y1_def roundedMul_le)
    have step: "pow_loop (e div 2) (roundedMul x x) y1 = (x', y')"
      using "1.prems"(9) True by (simp add: pow_loop.simps [of e] y1_def)
    have "j1 + (e div 2) * (2 * m) = j + e * m"
    proof (cases "odd e")
      case True
      then obtain k where "e = 2 * k + 1" by (rule oddE)
      with True show ?thesis by (simp add: j1_def algebra_simps)
    next
      case False
      then obtain k where "e = 2 * k" by (auto elim: evenE)
      with False show ?thesis by (simp add: j1_def)
    qed
    moreover have "1 \<le> e div 2" "1 \<le> 2 * m" using True "1.prems"(2) by simp_all
    ultimately show ?thesis
      using "1.IH" [OF True, folded y1_def, of "2 * m" j1] le "1.prems"(5,6) xx y1 step by simp
  qed
qed

lemma pow_in_range:
  assumes "0 \<le> n" "n \<le> 0xffffffff" "base \<le> ONE"
  shows "\<exists>r. pow base n = Inr r \<and> r \<le> ONE
    \<and> \<bar>real (bigNumber r) - real DIGITS * (real (bigNumber base) / real DIGITS) ^ nat n\<bar> \<le> real_of_int n / 2"
proof -
  define X where "X = real (bigNumber base) / real DIGITS"
  have X: "0 \<le> X" "X \<le> 1" "real DIGITS * X = real (bigNumber base)"
    using assms(3) by (simp_all add: X_def decimal_le_iff)
  consider "n = 0" | "n = 1" | "1 < n" using assms(1) by linarith
  then show ?thesis
  proof cases
    case 1
    then show ?thesis by (simp add: pow_def)
  next
    case 2
    then show ?thesis using X assms(3) by (simp add: pow_def X_def)
  next
    case 3
    obtain x' y' where loop: "pow_loop (nat n) (bigNumber base) DIGITS = (x', y')"
      by (cases "pow_loop (nat n) (bigNumber base) DIGITS")
    have "\<bar>real (roundedMul x' y') - real DIGITS * X ^ (0 + nat n * 1)\<bar> \<le> real (0 + nat n * 1) / 2
      \<and> roundedMul x' y' \<le> DIGITS"
      by (rule pow_loop_approx [OF _ _ _ _ X(1,2) _ _ loop])
        (use 3 X assms(3) in \<open>simp_all add: decimal_le_iff\<close>)
    with 3 assms loop show ?thesis
      by (auto simp: pow_def X_def decimal_le_iff)
  qed
qed

lemma pow_loop_mono:
  "x \<le> x' \<Longrightarrow> y \<le> y' \<Longrightarrow>
     roundedMul (fst (pow_loop e x y)) (snd (pow_loop e x y))
     \<le> roundedMul (fst (pow_loop e x' y')) (snd (pow_loop e x' y'))"
proof (induction e x y arbitrary: x' y' rule: pow_loop.induct)
  case (1 e x y)
  show ?case
  proof (cases "1 < e")
    case True
    then show ?thesis
      using "1.IH" [OF True, of "roundedMul x' x'" "if odd e then roundedMul x' y' else y'"] "1.prems"
      by (simp add: pow_loop.simps [of e] roundedMul_mono)
  next
    case False
    with "1.prems" show ?thesis by (simp add: pow_loop.simps [of e] roundedMul_mono)
  qed
qed

lemma pow_mono:
  assumes "a \<le> b" "pow a n = Inr r" "pow b n = Inr s"
  shows "r \<le> s"
  using assms pow_loop_mono [of "bigNumber a" "bigNumber b" DIGITS DIGITS "nat n"]
  by (auto simp: pow_def js_assert_Inr decimal_le_iff case_prod_beta split: if_splits)

section \<open>Properties\<close>

text \<open>
  C18: For a base of at most one and any exponent the assertions admit, \<open>pow\<close> returns, and
  its result is within \<open>n / 2\<close> units of the last place of the real power, \<open>n\<close> being the
  exponent: repeated squaring with rounding loses at most half a unit per factor.
\<close>

theorem pow_accuracy:
  assumes "base \<le> ONE" and "0 \<le> n" and "n \<le> 0xffffffff"
  shows "\<exists>r. pow base n = Inr r \<and> r \<le> ONE
    \<and> \<bar>real (bigNumber r) - real DIGITS * (real (bigNumber base) / real DIGITS) ^ nat n\<bar>
      \<le> real_of_int n / 2"
  using pow_in_range [OF assms(2,3,1)] .

theorem pow_accuracy_witness:
  "\<exists>r. pow HALF 10 = Inr r \<and> r \<le> ONE
    \<and> \<bar>real (bigNumber r) - real DIGITS * (real (bigNumber HALF) / real DIGITS) ^ nat 10\<bar>
      \<le> real_of_int 10 / 2"
  by (rule pow_accuracy) (simp_all add: HALF_def ONE_def DIGITS_eq)

text \<open>
  \<open>pow\<close> throws exactly for an exponent outside \<open>[0, 0xffffffff]\<close>, and where it returns
  it is monotone in the base.
\<close>

theorem pow_error_and_monotone:
  "((\<exists>e. pow a n = Inl e) \<longleftrightarrow> n < 0 \<or> 0xffffffff < n)
   \<and> (a \<le> b \<and> pow a n = Inr r \<and> pow b n = Inr s \<longrightarrow> r \<le> s)"
  using pow_mono [of a b n r s] by (auto simp: pow_def js_assert_def case_prod_beta)

theorem pow_error_and_monotone_witness:
  "pow HALF 1 = Inr HALF \<and> pow ONE 1 = Inr ONE \<and> HALF \<le> ONE"
proof -
  have vals: "HALF \<le> ONE \<and> pow HALF 1 = Inr HALF \<and> pow ONE 1 = Inr ONE"
    by (simp add: pow_def HALF_def ONE_def DIGITS_eq)
  have "HALF \<le> ONE"
    by (rule mp [OF conjunct2 [OF pow_error_and_monotone [of HALF 1 ONE HALF ONE]] vals])
  with vals show ?thesis by simp
qed

end
