(* ===== verification/Sdk_Constants.thy ===== *)
theory Sdk_Constants
  imports Sdk_Decimal
begin

text \<open>
  The protocol constants of \<^verbatim>\<open>packages/lib-base/src/constants.ts\<close>.  Two of them come from
  the process environment when the module is loaded; the record \<open>constants\<close> holds them and
  is an argument of every definition that uses them.
\<close>

definition CRITICAL_COLLATERAL_RATIO :: decimal where
  "CRITICAL_COLLATERAL_RATIO = Decimal 1500000000000000000"

definition MINIMUM_COLLATERAL_RATIO :: decimal where
  "MINIMUM_COLLATERAL_RATIO = Decimal 1100000000000000000"

definition MINIMUM_BORROWING_RATE :: decimal where
  "MINIMUM_BORROWING_RATE = Decimal 5000000000000000"

definition MAXIMUM_BORROWING_RATE :: decimal where
  "MAXIMUM_BORROWING_RATE = Decimal 50000000000000000"

definition MINIMUM_REDEMPTION_RATE :: decimal where
  "MINIMUM_REDEMPTION_RATE = Decimal 5000000000000000"

lemma constants_from_source:
  "from_ish (DNumber ''1.5'') = Inr CRITICAL_COLLATERAL_RATIO"
  "from_ish (DNumber ''1.1'') = Inr MINIMUM_COLLATERAL_RATIO"
  "from_ish (DNumber ''0.005'') = Inr MINIMUM_BORROWING_RATE"
  "from_ish (DNumber ''0.05'') = Inr MAXIMUM_BORROWING_RATE"
  "from_ish (DNumber ''0.005'') = Inr MINIMUM_REDEMPTION_RATE"
  "from_ish (DNumber ''0.5'') = Inr HALF"
  "from_ish (DNumber ''1'') = Inr ONE"
  "from_ish (DNumber ''0'') = Inr ZERO"
  using fromString_fraction [of "''1''" "''5''"] fromString_fraction [of "''1''" "''1''"]
    fromString_fraction [of "''0''" "''005''"] fromString_fraction [of "''0''" "''05''"]
    fromString_fraction [of "''0''" "''5''"] fromString_digits [of "''1''"] fromString_digits [of "''0''"]
  by (simp_all add: numeral_eval CRITICAL_COLLATERAL_RATIO_def MINIMUM_COLLATERAL_RATIO_def
      MINIMUM_BORROWING_RATE_def MAXIMUM_BORROWING_RATE_def MINIMUM_REDEMPTION_RATE_def
      HALF_def ONE_def ZERO_def)

text \<open>The variables of \<^verbatim>\<open>process.env\<close> the module reads; an absent one is undefined.\<close>

record process_env =
  env_LIQUIDATION_RESERVE :: "string option"
  env_MINIMUM_NET_DEBT :: "string option"

record constants =
  LIQUIDATION_RESERVE :: decimal
  MINIMUM_NET_DEBT :: decimal
  MINIMUM_DEBT :: decimal

text \<open>\<open>value || n\<close>: an undefined or empty string is falsy.\<close>

fun env_or :: "string option \<Rightarrow> string \<Rightarrow> decimalish" where
  "env_or None n = DNumber n"
| "env_or (Some s) n = (if s = [] then DNumber n else DString s)"

definition load_constants :: "process_env \<Rightarrow> constants result" where
  "load_constants env =
     result_bind (from_ish (env_or (env_LIQUIDATION_RESERVE env) ''20'')) (\<lambda>reserve.
     result_bind (from_ish (env_or (env_MINIMUM_NET_DEBT env) ''200'')) (\<lambda>net.
       Inr \<lparr>LIQUIDATION_RESERVE = reserve, MINIMUM_NET_DEBT = net,
            MINIMUM_DEBT = add_dec reserve net\<rparr>))"

definition default_constants :: constants where
  "default_constants =
     \<lparr>LIQUIDATION_RESERVE = Decimal (20 * DIGITS), MINIMUM_NET_DEBT = Decimal (200 * DIGITS),
      MINIMUM_DEBT = Decimal (220 * DIGITS)\<rparr>"

lemma load_constants_default:
  "load_constants \<lparr>env_LIQUIDATION_RESERVE = None, env_MINIMUM_NET_DEBT = None\<rparr>
   = Inr default_constants"
  using fromString_digits [of "''20''"] fromString_digits [of "''200''"]
  by (simp add: load_constants_def default_constants_def add_dec_def numeral_eval)

text \<open>Whatever the environment, the loaded minimum debt covers the liquidation reserve.\<close>

lemma load_constants_MINIMUM_DEBT:
  "load_constants env = Inr k \<Longrightarrow>
     MINIMUM_DEBT k = add_dec (LIQUIDATION_RESERVE k) (MINIMUM_NET_DEBT k)"
  by (auto simp: load_constants_def result_bind_Inr)

lemma rates_less:
  "MINIMUM_BORROWING_RATE \<le> MAXIMUM_BORROWING_RATE" "MAXIMUM_BORROWING_RATE \<le> ONE"
  "MINIMUM_REDEMPTION_RATE \<le> ONE" "MINIMUM_BORROWING_RATE \<le> ONE"
  "MINIMUM_COLLATERAL_RATIO \<le> CRITICAL_COLLATERAL_RATIO"
  by (simp_all add: MINIMUM_BORROWING_RATE_def MAXIMUM_BORROWING_RATE_def ONE_def DIGITS_eq
      MINIMUM_REDEMPTION_RATE_def MINIMUM_COLLATERAL_RATIO_def CRITICAL_COLLATERAL_RATIO_def)

end
