(* ===== verification/Sdk_Fees.thy ===== *)
theory Sdk_Fees
  imports Decimal_Format Decimal_Pow Sdk_Constants
begin

text \<open>
  The fee calculator, class \<open>Fees\<close> of \<^verbatim>\<open>packages/lib-base/src/Fees.ts\<close>.  A \<open>Date\<close> is its
  time value in milliseconds.  The lemmas bound the rates and compare the decayed base rate
  with the real exponential it approximates.
\<close>

record fees =
  baseRateWithoutDecay :: decimal
  minuteDecayFactor :: decimal
  beta :: decimal
  lastFeeOperation :: int
  timeOfLatestBlock :: int
  recoveryMode :: bool

definition new_Fees ::
  "decimalish \<Rightarrow> decimalish \<Rightarrow> decimalish \<Rightarrow> int \<Rightarrow> int \<Rightarrow> bool \<Rightarrow> fees result" where
  "new_Fees rate factor b lastOp latest mode =
     result_bind (from_ish rate) (\<lambda>rate'.
     result_bind (from_ish factor) (\<lambda>factor'.
     result_bind (from_ish b) (\<lambda>b'.
     result_bind (with_ish (\<lambda>one. factor' < one) (DNumber ''1'')) (\<lambda>ok.
       js_assert ok
         (Inr \<lparr>baseRateWithoutDecay = rate', minuteDecayFactor = factor', beta = b',
               lastFeeOperation = lastOp, timeOfLatestBlock = latest, recoveryMode = mode\<rparr>)))))"

definition setRecoveryMode :: "fees \<Rightarrow> bool \<Rightarrow> fees result" where
  "setRecoveryMode this mode =
     new_Fees (DDecimal (baseRateWithoutDecay this)) (DDecimal (minuteDecayFactor this))
       (DDecimal (beta this)) (lastFeeOperation this) (timeOfLatestBlock this) mode"

definition fees_equals :: "fees \<Rightarrow> fees \<Rightarrow> bool" where
  "fees_equals this that \<longleftrightarrow>
     eq_dec (baseRateWithoutDecay this) (baseRateWithoutDecay that) \<and>
     eq_dec (minuteDecayFactor this) (minuteDecayFactor that) \<and>
     eq_dec (beta this) (beta that) \<and>
     lastFeeOperation this = lastFeeOperation that \<and>
     timeOfLatestBlock this = timeOfLatestBlock that \<and>
     recoveryMode this = recoveryMode that"

text \<open>\<open>toLocaleString\<close> depends on the host's locale: an argument.\<close>

definition fees_toString :: "(int \<Rightarrow> string) \<Rightarrow> fees \<Rightarrow> string" where
  "fees_toString toLocaleString this =
     ''{ baseRateWithoutDecay: '' @ showDecimal (baseRateWithoutDecay this) @
     '', lastFeeOperation: '' @ [CHR 0x22] @ toLocaleString (lastFeeOperation this) @ [CHR 0x22] @
     '', recoveryMode: '' @ (if recoveryMode this then ''true'' else ''false'') @ '' } ''"

definition minutesSince :: "fees \<Rightarrow> int \<Rightarrow> int" where
  "minutesSince this when = max (when - lastFeeOperation this) 0 div 60000"

definition baseRate :: "fees \<Rightarrow> int option \<Rightarrow> decimal result" where
  "baseRate this whenOpt =
     (let when = (case whenOpt of None \<Rightarrow> timeOfLatestBlock this | Some t \<Rightarrow> t)
      in result_map (\<lambda>p. mul_dec p (baseRateWithoutDecay this))
           (pow (minuteDecayFactor this) (minutesSince this when)))"

definition borrowingRate :: "fees \<Rightarrow> int option \<Rightarrow> decimal result" where
  "borrowingRate this when =
     (if recoveryMode this then Inr ZERO
      else result_map (\<lambda>base. min_dec (add_dec MINIMUM_BORROWING_RATE base) MAXIMUM_BORROWING_RATE)
             (baseRate this when))"

definition redemptionRate :: "fees \<Rightarrow> decimalish option \<Rightarrow> int option \<Rightarrow> decimal result" where
  "redemptionRate this fractionOpt when =
     result_bind (from_ish (case fractionOpt of None \<Rightarrow> DDecimal ZERO | Some x \<Rightarrow> x)) (\<lambda>fraction.
     result_bind (baseRate this when) (\<lambda>base0.
       let base = (if nonZero_dec fraction \<noteq> None
                   then add_dec (div_dec fraction (beta this)) base0 else base0)
       in Inr (min_dec (add_dec MINIMUM_REDEMPTION_RATE base) ONE)))"

section \<open>Facts about the rates\<close>

text \<open>
  The constructor's assertion is the class invariant; \<open>when_of\<close> is the time a rate is
  computed for and \<open>in_pow_range\<close> says that \<open>pow\<close> accepts the minutes elapsed (up to
  \<open>0xffffffff\<close>, about 8000 years).
\<close>

definition fees_ok :: "fees \<Rightarrow> bool" where
  "fees_ok f \<longleftrightarrow> minuteDecayFactor f < ONE"

definition when_of :: "fees \<Rightarrow> int option \<Rightarrow> int" where
  "when_of f w = (case w of None \<Rightarrow> timeOfLatestBlock f | Some t \<Rightarrow> t)"

definition in_pow_range :: "fees \<Rightarrow> int option \<Rightarrow> bool" where
  "in_pow_range f w \<longleftrightarrow> minutesSince f (when_of f w) \<le> 0xffffffff"

lemma from_one [simp]: "fromString ''1'' = Inr ONE"
  using constants_from_source(7) by simp

lemma new_Fees_Decimals:
  "new_Fees (DDecimal r) (DDecimal m) (DDecimal b) l t c =
     js_assert (m < ONE)
       (Inr \<lparr>baseRateWithoutDecay = r, minuteDecayFactor = m, beta = b,
             lastFeeOperation = l, timeOfLatestBlock = t, recoveryMode = c\<rparr>)"
  by (simp add: new_Fees_def with_ish_def)

lemma new_Fees_ok: "new_Fees r m b l t c = Inr f \<Longrightarrow> fees_ok f"
  by (auto simp: new_Fees_def fees_ok_def result_bind_Inr js_assert_Inr with_ish_Inr)

lemma setRecoveryMode_eq: "fees_ok f \<Longrightarrow> setRecoveryMode f c = Inr (f\<lparr>recoveryMode := c\<rparr>)"
  by (simp add: setRecoveryMode_def new_Fees_Decimals fees_ok_def)

lemma fees_equals_iff: "fees_equals f g \<longleftrightarrow> f = g"
  by (cases f; cases g) (auto simp: fees_equals_def)

lemma minutesSince_nonneg [simp]: "0 \<le> minutesSince f w"
  by (simp add: minutesSince_def)

lemma baseRate_eq:
  "baseRate f w = result_map (\<lambda>p. mul_dec p (baseRateWithoutDecay f))
     (pow (minuteDecayFactor f) (minutesSince f (when_of f w)))"
  by (simp add: baseRate_def when_of_def)

lemma mul_dec_le: "p \<le> ONE \<Longrightarrow> mul_dec p b \<le> b"
  using mul_dec_mono [of p ONE b b] by simp

lemma baseRate_approx:
  assumes "fees_ok f" and "in_pow_range f w"
  defines "n \<equiv> minutesSince f (when_of f w)"
  shows "\<exists>r. baseRate f w = Inr r \<and> r \<le> baseRateWithoutDecay f
    \<and> \<bar>real (bigNumber r) - real (bigNumber (baseRateWithoutDecay f))
         * (real (bigNumber (minuteDecayFactor f)) / real DIGITS) ^ nat n\<bar>
      \<le> real_of_int n / 2 * (real (bigNumber (baseRateWithoutDecay f)) / real DIGITS) + 1"
proof -
  define b where "b = real (bigNumber (baseRateWithoutDecay f))"
  define P where "P = (real (bigNumber (minuteDecayFactor f)) / real DIGITS) ^ nat n"
  have D: "0 < real DIGITS" and b: "0 \<le> b" by (simp_all add: b_def)
  have "minuteDecayFactor f \<le> ONE" using assms(1) by (simp add: fees_ok_def less_imp_le)
  with pow_in_range [of n "minuteDecayFactor f"] assms obtain p
    where p: "pow (minuteDecayFactor f) n = Inr p" "p \<le> ONE"
      "\<bar>real (bigNumber p) - real DIGITS * P\<bar> \<le> real_of_int n / 2"
    unfolding P_def by (auto simp: in_pow_range_def)
  define q where "q = bigNumber p * bigNumber (baseRateWithoutDecay f)"
  have "real q / real DIGITS - 1 \<le> real (q div DIGITS)" "real (q div DIGITS) \<le> real q / real DIGITS"
    by (simp_all only: real_div_bounds DIGITS_pos)
  moreover have "real q / real DIGITS - b * P = (real (bigNumber p) - real DIGITS * P) * (b / real DIGITS)"
    using D by (simp add: q_def b_def field_simps)
  moreover have "\<bar>(real (bigNumber p) - real DIGITS * P) * (b / real DIGITS)\<bar>
      \<le> real_of_int n / 2 * (b / real DIGITS)"
  proof -
    have "0 \<le> b / real DIGITS" using b by simp
    then show ?thesis
      using mult_right_mono [OF p(3), of "b / real DIGITS"] by (simp only: abs_mult abs_of_nonneg)
  qed
  ultimately have "\<bar>real (q div DIGITS) - b * P\<bar> \<le> real_of_int n / 2 * (b / real DIGITS) + 1"
    unfolding abs_le_iff by linarith
  then show ?thesis
    using p mul_dec_le [OF p(2)] by (simp add: baseRate_eq n_def [symmetric] q_def b_def P_def)
qed

lemma baseRate_no_decay:
  assumes "when_of f w - lastFeeOperation f < 60000"
  shows "baseRate f w = Inr (baseRateWithoutDecay f)"
proof -
  have "minutesSince f (when_of f w) = 0" using assms by (simp add: minutesSince_def)
  then show ?thesis by (simp add: baseRate_eq pow_def)
qed

lemma redemptionRate_eq:
  "baseRate f w = Inr b \<Longrightarrow> redemptionRate f (Some (DDecimal x)) w =
     Inr (min (add_dec MINIMUM_REDEMPTION_RATE
                (if x \<noteq> ZERO then add_dec (div_dec x (beta f)) b else b)) ONE)"
  by (simp add: redemptionRate_def Let_def nonZero_dec_def)

section \<open>Properties\<close>

text \<open>
  The borrowing rate is zero in recovery mode and otherwise between its minimum and its
  maximum, at any time the calculator accepts; computing it never throws.
\<close>

theorem borrowingRate_bounds:
  assumes "fees_ok f" and "recoveryMode f \<or> in_pow_range f w"
  shows "\<exists>r. borrowingRate f w = Inr r
    \<and> (if recoveryMode f then r = ZERO
       else MINIMUM_BORROWING_RATE \<le> r \<and> r \<le> MAXIMUM_BORROWING_RATE)"
proof (cases "recoveryMode f")
  case True
  then show ?thesis by (simp add: borrowingRate_def)
next
  case False
  with assms obtain b where "baseRate f w = Inr b" using baseRate_approx by blast
  with False show ?thesis using rates_less(1) by (simp add: borrowingRate_def)
qed

theorem borrowingRate_bounds_witness:
  "\<exists>r. borrowingRate \<lparr>baseRateWithoutDecay = ONE, minuteDecayFactor = HALF, beta = ONE,
        lastFeeOperation = 0, timeOfLatestBlock = 600000, recoveryMode = False\<rparr> None = Inr r
    \<and> (if recoveryMode \<lparr>baseRateWithoutDecay = ONE, minuteDecayFactor = HALF, beta = ONE,
        lastFeeOperation = 0, timeOfLatestBlock = 600000, recoveryMode = False\<rparr> then r = ZERO
       else MINIMUM_BORROWING_RATE \<le> r \<and> r \<le> MAXIMUM_BORROWING_RATE)"
  by (rule borrowingRate_bounds)
    (simp_all add: fees_ok_def in_pow_range_def when_of_def minutesSince_def HALF_def ONE_def DIGITS_eq)

text \<open>
  The decayed base rate approximates exponential decay: after \<open>n\<close> whole minutes it is
  within \<open>(n / 2) * base + 1\<close> units of the last place of \<open>base * factor^n\<close>, and never above
  the rate before decay.
\<close>

theorem baseRate_decays:
  assumes "fees_ok f" and "in_pow_range f w"
  shows "\<exists>r. baseRate f w = Inr r \<and> r \<le> baseRateWithoutDecay f
    \<and> \<bar>real (bigNumber r) - real (bigNumber (baseRateWithoutDecay f))
         * (real (bigNumber (minuteDecayFactor f)) / real DIGITS) ^ nat (minutesSince f (when_of f w))\<bar>
      \<le> real_of_int (minutesSince f (when_of f w)) / 2
          * (real (bigNumber (baseRateWithoutDecay f)) / real DIGITS) + 1"
  using baseRate_approx [OF assms] .

theorem baseRate_decays_witness:
  "\<exists>r. baseRate \<lparr>baseRateWithoutDecay = ONE, minuteDecayFactor = HALF, beta = ONE,
        lastFeeOperation = 0, timeOfLatestBlock = 600000, recoveryMode = False\<rparr> None = Inr r \<and> r \<le> ONE"
  using baseRate_decays [of "\<lparr>baseRateWithoutDecay = ONE, minuteDecayFactor = HALF, beta = ONE,
        lastFeeOperation = 0, timeOfLatestBlock = 600000, recoveryMode = False\<rparr>" None]
  by (auto simp: fees_ok_def in_pow_range_def when_of_def minutesSince_def HALF_def ONE_def DIGITS_eq)

text \<open>
  The redemption rate is between its minimum and 100%, and redeeming a larger fraction
  of the supply never lowers it.
\<close>

theorem redemptionRate_bounds:
  assumes "fees_ok f" and "in_pow_range f w" and "x \<le> y"
  shows "\<exists>r s. redemptionRate f (Some (DDecimal x)) w = Inr r
    \<and> redemptionRate f (Some (DDecimal y)) w = Inr s
    \<and> MINIMUM_REDEMPTION_RATE \<le> r \<and> r \<le> s \<and> s \<le> ONE"
proof -
  obtain b where b: "baseRate f w = Inr b" using baseRate_approx [OF assms(1,2)] by blast
  have "div_dec x (beta f) \<le> div_dec y (beta f)"
    using assms(3) by (simp add: div_dec_def decimal_le_iff div_le_mono)
  then have "(if x \<noteq> ZERO then add_dec (div_dec x (beta f)) b else b)
      \<le> (if y \<noteq> ZERO then add_dec (div_dec y (beta f)) b else b)"
    using assms(3) by (auto simp: add_dec_mono decimal_le_iff decimal_eq_iff)
  from min.mono [OF add_dec_mono [OF order_refl this] order_refl]
  have rs: "min (add_dec MINIMUM_REDEMPTION_RATE (if x \<noteq> ZERO then add_dec (div_dec x (beta f)) b else b)) ONE
      \<le> min (add_dec MINIMUM_REDEMPTION_RATE (if y \<noteq> ZERO then add_dec (div_dec y (beta f)) b else b)) ONE" .
  have lower: "MINIMUM_REDEMPTION_RATE \<le> min (add_dec MINIMUM_REDEMPTION_RATE u) ONE" for u
    using rates_less(3) by simp
  show ?thesis unfolding redemptionRate_eq [OF b]
    by (intro exI conjI, rule refl, rule refl) (rule lower rs min.cobounded2)+
qed

theorem redemptionRate_bounds_witness:
  "\<exists>r s. redemptionRate \<lparr>baseRateWithoutDecay = ONE, minuteDecayFactor = HALF, beta = ONE,
        lastFeeOperation = 0, timeOfLatestBlock = 600000, recoveryMode = False\<rparr>
        (Some (DDecimal ZERO)) None = Inr r
    \<and> redemptionRate \<lparr>baseRateWithoutDecay = ONE, minuteDecayFactor = HALF, beta = ONE,
        lastFeeOperation = 0, timeOfLatestBlock = 600000, recoveryMode = False\<rparr>
        (Some (DDecimal HALF)) None = Inr s
    \<and> MINIMUM_REDEMPTION_RATE \<le> r \<and> r \<le> s \<and> s \<le> ONE"
  by (rule redemptionRate_bounds)
    (simp_all add: fees_ok_def in_pow_range_def when_of_def minutesSince_def HALF_def ONE_def DIGITS_eq)

end
