(* ===== verification/Sdk_Trove.thy ===== *)
theory Sdk_Trove
  imports Decimal_Format Sdk_Constants
begin

text \<open>
  The class \<open>Trove\<close> and its subclasses, of \<^verbatim>\<open>packages/lib-base/src/Trove.ts\<close>: a trove is a
  collateral and a debt; \<open>UserTrove\<close> adds an owner and a status, and
  \<open>TroveWithPendingRedistribution\<close> a stake and a snapshot, as record extensions.  Here are
  the arithmetic on troves, collateral ratios and the redistribution; \<open>Trove_Changes\<close> has
  \<open>whatChanged\<close> and \<open>apply\<close>, \<open>Trove_Params\<close> the parameters of transactions.

  The operations that take a \<open>Decimalish\<close> are modelled on the \<open>Decimal\<close> it converts to;
  \<open>with_ish\<close> adds the conversion.
\<close>

section \<open>Troves\<close>

record trove =
  collateral :: decimal
  debt :: decimal

definition emptyTrove :: trove where
  "emptyTrove = \<lparr>collateral = ZERO, debt = ZERO\<rparr>"

definition isEmpty :: "'a trove_scheme \<Rightarrow> bool" where
  "isEmpty this \<longleftrightarrow> isZero (collateral this) \<and> isZero (debt this)"

definition netDebt :: "constants \<Rightarrow> 'a trove_scheme \<Rightarrow> decimal result" where
  "netDebt k this =
     (if debt this < LIQUIDATION_RESERVE k
      then Inl (Error (''netDebt should not be used when debt < '' @ showDecimal (LIQUIDATION_RESERVE k)))
      else sub_dec (debt this) (LIQUIDATION_RESERVE k))"

definition NOMINAL_COLLATERAL_RATIO_PRECISION :: decimal where
  "NOMINAL_COLLATERAL_RATIO_PRECISION = Decimal (100 * DIGITS)"

definition nominalCollateralRatio :: "'a trove_scheme \<Rightarrow> decimal" where
  "nominalCollateralRatio this =
     mulDiv (collateral this) NOMINAL_COLLATERAL_RATIO_PRECISION (debt this)"

definition collateralRatio :: "'a trove_scheme \<Rightarrow> decimal \<Rightarrow> decimal" where
  "collateralRatio this price = mulDiv (collateral this) price (debt this)"

definition collateralRatioIsBelowMinimum :: "'a trove_scheme \<Rightarrow> decimal \<Rightarrow> bool" where
  "collateralRatioIsBelowMinimum this price \<longleftrightarrow> collateralRatio this price < MINIMUM_COLLATERAL_RATIO"

definition collateralRatioIsBelowCritical :: "'a trove_scheme \<Rightarrow> decimal \<Rightarrow> bool" where
  "collateralRatioIsBelowCritical this price \<longleftrightarrow> collateralRatio this price < CRITICAL_COLLATERAL_RATIO"

definition isOpenableInRecoveryMode :: "'a trove_scheme \<Rightarrow> decimal \<Rightarrow> bool" where
  "isOpenableInRecoveryMode this price \<longleftrightarrow> CRITICAL_COLLATERAL_RATIO \<le> collateralRatio this price"

definition trove_toString :: "'a trove_scheme \<Rightarrow> string" where
  "trove_toString this =
     ''{ collateral: '' @ showDecimal (collateral this) @ '', debt: '' @ showDecimal (debt this) @ '' }''"

definition trove_equals :: "'a trove_scheme \<Rightarrow> 'b trove_scheme \<Rightarrow> bool" where
  "trove_equals this that \<longleftrightarrow>
     eq_dec (collateral this) (collateral that) \<and> eq_dec (debt this) (debt that)"

section \<open>Arithmetic on troves\<close>

text \<open>\<open>a.gt(b) ? a.sub(b) : Decimal.ZERO\<close>, the shape all four subtractions share.\<close>

definition saturating_sub :: "decimal \<Rightarrow> decimal \<Rightarrow> decimal" where
  "saturating_sub a b = (if b < a then Decimal (bigNumber a - bigNumber b) else ZERO)"

lemma saturating_sub_dec: "b < a \<Longrightarrow> sub_dec a b = Inr (saturating_sub a b)"
  by (simp add: saturating_sub_def sub_dec_ok less_imp_le)

lemma sub_dec_saturating: "b \<le> a \<Longrightarrow> sub_dec a b = Inr (saturating_sub a b)"
  by (auto simp: saturating_sub_def sub_dec_ok not_less decimal_eq_iff decimal_le_iff decimal_less_iff)

definition trove_add :: "'a trove_scheme \<Rightarrow> 'b trove_scheme \<Rightarrow> trove" where
  "trove_add this that =
     \<lparr>collateral = add_dec (collateral this) (collateral that),
      debt = add_dec (debt this) (debt that)\<rparr>"

definition addCollateral :: "'a trove_scheme \<Rightarrow> decimal \<Rightarrow> trove" where
  "addCollateral this c = \<lparr>collateral = add_dec (collateral this) c, debt = debt this\<rparr>"

definition addDebt :: "'a trove_scheme \<Rightarrow> decimal \<Rightarrow> trove" where
  "addDebt this d = \<lparr>collateral = collateral this, debt = add_dec (debt this) d\<rparr>"

definition subtract :: "'a trove_scheme \<Rightarrow> 'b trove_scheme \<Rightarrow> trove" where
  "subtract this that =
     \<lparr>collateral = saturating_sub (collateral this) (collateral that),
      debt = saturating_sub (debt this) (debt that)\<rparr>"

definition subtractCollateral :: "'a trove_scheme \<Rightarrow> decimal \<Rightarrow> trove" where
  "subtractCollateral this c = \<lparr>collateral = saturating_sub (collateral this) c, debt = debt this\<rparr>"

definition subtractDebt :: "'a trove_scheme \<Rightarrow> decimal \<Rightarrow> trove" where
  "subtractDebt this d = \<lparr>collateral = collateral this, debt = saturating_sub (debt this) d\<rparr>"

definition multiply :: "'a trove_scheme \<Rightarrow> decimal \<Rightarrow> trove" where
  "multiply this m = \<lparr>collateral = mul_dec (collateral this) m, debt = mul_dec (debt this) m\<rparr>"

definition setCollateral :: "'a trove_scheme \<Rightarrow> decimal \<Rightarrow> trove" where
  "setCollateral this c = \<lparr>collateral = c, debt = debt this\<rparr>"

definition setDebt :: "'a trove_scheme \<Rightarrow> decimal \<Rightarrow> trove" where
  "setDebt this d = \<lparr>collateral = collateral this, debt = d\<rparr>"

lemmas trove_ops =
  trove_add_def addCollateral_def addDebt_def subtract_def subtractCollateral_def
  subtractDebt_def multiply_def setCollateral_def setDebt_def

section \<open>Troves with an owner\<close>

datatype userTroveStatus =
    nonExistent
  | open_trove
  | closedByOwner
  | closedByLiquidation
  | closedByRedemption

fun show_status :: "userTroveStatus \<Rightarrow> string" where
  "show_status nonExistent = ''nonExistent''"
| "show_status open_trove = ''open''"
| "show_status closedByOwner = ''closedByOwner''"
| "show_status closedByLiquidation = ''closedByLiquidation''"
| "show_status closedByRedemption = ''closedByRedemption''"

record user_trove = trove +
  ownerAddress :: string
  status :: userTroveStatus

definition user_trove_equals :: "'a user_trove_scheme \<Rightarrow> 'b user_trove_scheme \<Rightarrow> bool" where
  "user_trove_equals this that \<longleftrightarrow>
     trove_equals this that \<and> ownerAddress this = ownerAddress that \<and> status this = status that"

definition user_trove_toString :: "'a user_trove_scheme \<Rightarrow> string" where
  "user_trove_toString this =
     ''{ ownerAddress: '' @ [CHR 0x22] @ ownerAddress this @ [CHR 0x22] @
     '', collateral: '' @ showDecimal (collateral this) @
     '', debt: '' @ showDecimal (debt this) @
     '', status: '' @ [CHR 0x22] @ show_status (status this) @ [CHR 0x22] @ '' }''"

record pending_trove = user_trove +
  stake :: decimal
  snapshotOfTotalRedistributed :: trove

definition applyRedistribution :: "pending_trove \<Rightarrow> trove \<Rightarrow> user_trove" where
  "applyRedistribution this totalRedistributed =
     (let afterRedistribution =
            trove_add this
              (multiply (subtract totalRedistributed (snapshotOfTotalRedistributed this)) (stake this))
      in \<lparr>collateral = collateral afterRedistribution, debt = debt afterRedistribution,
          ownerAddress = ownerAddress this, status = status this\<rparr>)"

definition pending_trove_equals :: "pending_trove \<Rightarrow> pending_trove \<Rightarrow> bool" where
  "pending_trove_equals this that \<longleftrightarrow>
     user_trove_equals this that \<and> eq_dec (stake this) (stake that) \<and>
     trove_equals (snapshotOfTotalRedistributed this) (snapshotOfTotalRedistributed that)"

section \<open>Lemmas\<close>

lemma trove_eqI: "collateral a = collateral b \<Longrightarrow> debt a = debt b \<Longrightarrow> a = b" for a b :: trove
  by simp

lemma isEmpty_iff: "isEmpty t \<longleftrightarrow> collateral t = ZERO \<and> debt t = ZERO"
  by (simp add: isEmpty_def)

lemma isEmpty_emptyTrove [simp]: "isEmpty emptyTrove"
  by (simp add: isEmpty_iff emptyTrove_def)

lemma isEmpty_eq: "isEmpty t \<longleftrightarrow> t = emptyTrove" for t :: trove
  by (cases t) (auto simp: isEmpty_iff emptyTrove_def)

lemma trove_equals_iff: "trove_equals a b \<longleftrightarrow> a = b" for a b :: trove
  by (cases a; cases b) (auto simp: trove_equals_def)

lemma user_trove_equals_iff: "user_trove_equals a b \<longleftrightarrow> a = b" for a b :: user_trove
  by (cases a; cases b) (auto simp: user_trove_equals_def trove_equals_def)

lemma pending_trove_equals_iff: "pending_trove_equals a b \<longleftrightarrow> a = b"
  by (cases a; cases b)
    (auto simp: pending_trove_equals_def user_trove_equals_def trove_equals_def trove_equals_iff)

lemma netDebt_ok:
  "LIQUIDATION_RESERVE k \<le> debt t \<Longrightarrow>
     netDebt k t = Inr (Decimal (bigNumber (debt t) - bigNumber (LIQUIDATION_RESERVE k)))"
  by (simp add: netDebt_def sub_dec_ok not_less)

lemma netDebt_add:
  "netDebt k t = Inr n \<longleftrightarrow> LIQUIDATION_RESERVE k \<le> debt t \<and> debt t = add_dec (LIQUIDATION_RESERVE k) n"
  by (auto simp: netDebt_def sub_dec_Inr decimal_less_iff)

lemma saturating_sub_ZERO [simp]: "saturating_sub a ZERO = a"
  by (simp add: saturating_sub_def decimal_eq_iff)

lemma saturating_sub_le [simp]: "saturating_sub a b \<le> a"
  by (simp add: saturating_sub_def decimal_le_iff)

lemma saturating_sub_self [simp]: "saturating_sub a a = ZERO"
  by (simp add: saturating_sub_def)

lemma bigNumber_saturating_sub [simp]:
  "bigNumber (saturating_sub a b) = bigNumber a - bigNumber b"
  by (simp add: saturating_sub_def decimal_less_iff)

lemma saturating_sub_diff: "b \<le> a \<Longrightarrow> saturating_sub a (Decimal (bigNumber a - bigNumber b)) = b"
  by (simp add: decimal_eq_iff decimal_le_iff)

lemma saturating_sub_eq_ZERO: "saturating_sub a b = ZERO \<longleftrightarrow> a \<le> b"
  by (simp add: decimal_eq_iff decimal_le_iff)

text \<open>
  Comparing a floored ratio with a threshold is exact: the division loses nothing.
\<close>

lemma mulDiv_less_iff:
  assumes "m \<le> INFINITY"
  shows "mulDiv c p d < m \<longleftrightarrow> d \<noteq> ZERO \<and> bigNumber c * bigNumber p < bigNumber m * bigNumber d"
  using assms
  by (auto simp: mulDiv_def decimal_less_iff decimal_le_iff decimal_eq_iff div_less_iff_less_mult)

lemma collateralRatio_less_iff:
  "m \<le> INFINITY \<Longrightarrow> collateralRatio t p < m \<longleftrightarrow>
     debt t \<noteq> ZERO \<and> bigNumber (collateral t) * bigNumber p < bigNumber m * bigNumber (debt t)"
  by (simp add: collateralRatio_def mulDiv_less_iff)

lemma thresholds_le_INFINITY [simp]:
  "MINIMUM_COLLATERAL_RATIO \<le> INFINITY" "CRITICAL_COLLATERAL_RATIO \<le> INFINITY"
  by (simp_all add: MINIMUM_COLLATERAL_RATIO_def CRITICAL_COLLATERAL_RATIO_def INFINITY_def MAX_UINT_256_def)

lemma mul_dec_floor:
  "bigNumber (mul_dec a b) * DIGITS \<le> bigNumber a * bigNumber b"
  "bigNumber a * bigNumber b < (bigNumber (mul_dec a b) + 1) * DIGITS"
  using div_times_less_eq_dividend [of "bigNumber a * bigNumber b" DIGITS]
    dividend_less_div_times [of DIGITS "bigNumber a * bigNumber b"]
  by (simp_all add: algebra_simps)

section \<open>Properties\<close>

text \<open>
  The collateral ratio thresholds are exact: a trove is below the minimum (critical)
  ratio exactly when it has debt and its collateral times the price is less than the
  threshold times its debt, with no rounding; it is openable in recovery mode exactly when
  it is not below the critical ratio, and below the minimum implies below the critical.
\<close>

theorem collateralRatio_thresholds_exact:
  "(collateralRatioIsBelowMinimum t p \<longleftrightarrow> debt t \<noteq> ZERO
      \<and> bigNumber (collateral t) * bigNumber p < bigNumber MINIMUM_COLLATERAL_RATIO * bigNumber (debt t))
   \<and> (collateralRatioIsBelowCritical t p \<longleftrightarrow> debt t \<noteq> ZERO
      \<and> bigNumber (collateral t) * bigNumber p < bigNumber CRITICAL_COLLATERAL_RATIO * bigNumber (debt t))
   \<and> (isOpenableInRecoveryMode t p = (\<not> collateralRatioIsBelowCritical t p))
   \<and> \<not> (isOpenableInRecoveryMode t p \<and> collateralRatioIsBelowMinimum t p)"
proof -
  have "CRITICAL_COLLATERAL_RATIO \<le> collateralRatio t p \<Longrightarrow> \<not> collateralRatio t p < MINIMUM_COLLATERAL_RATIO"
    using rates_less(5) by (metis less_le_trans less_asym order_trans not_less less_imp_le)
  then show ?thesis
    unfolding collateralRatioIsBelowMinimum_def collateralRatioIsBelowCritical_def
      isOpenableInRecoveryMode_def not_less [symmetric]
    using collateralRatio_less_iff [OF thresholds_le_INFINITY(1), of t p]
      collateralRatio_less_iff [OF thresholds_le_INFINITY(2), of t p] by argo
qed

text \<open>
  Applying the pending redistribution credits a trove with its stake's share of what was
  redistributed since its snapshot, rounded down: each amount grows by the share up to less
  than one unit, never shrinks, and is unchanged when nothing was redistributed; owner and
  status are kept.
\<close>

theorem applyRedistribution_share:
  "let u = applyRedistribution t totalRedistributed; s = snapshotOfTotalRedistributed t in
     ownerAddress u = ownerAddress t \<and> status u = status t
   \<and> bigNumber (collateral t) \<le> bigNumber (collateral u) \<and> bigNumber (debt t) \<le> bigNumber (debt u)
   \<and> (bigNumber (collateral u) - bigNumber (collateral t)) * DIGITS
       \<le> (bigNumber (collateral totalRedistributed) - bigNumber (collateral s)) * bigNumber (stake t)
   \<and> (bigNumber (collateral totalRedistributed) - bigNumber (collateral s)) * bigNumber (stake t)
       < (bigNumber (collateral u) - bigNumber (collateral t) + 1) * DIGITS
   \<and> (bigNumber (debt u) - bigNumber (debt t)) * DIGITS
       \<le> (bigNumber (debt totalRedistributed) - bigNumber (debt s)) * bigNumber (stake t)
   \<and> (bigNumber (debt totalRedistributed) - bigNumber (debt s)) * bigNumber (stake t)
       < (bigNumber (debt u) - bigNumber (debt t) + 1) * DIGITS"
  using mul_dec_floor [of "saturating_sub (collateral totalRedistributed) (collateral (snapshotOfTotalRedistributed t))" "stake t"]
    mul_dec_floor [of "saturating_sub (debt totalRedistributed) (debt (snapshotOfTotalRedistributed t))" "stake t"]
  by (simp add: applyRedistribution_def trove_ops Let_def)

end
