(* ===== verification/Trove_Changes.thy ===== *)
theory Trove_Changes
  imports Sdk_Trove
begin

text \<open>
  \<open>Trove.whatChanged\<close> and \<open>Trove.apply\<close> of \<^verbatim>\<open>packages/lib-base/src/Trove.ts\<close>: the change
  between two troves, with the borrowing fee taken out of a debt increase (rounding up),
  and its application, which puts the fee back (rounding down).  The lemmas show that
  applying the difference leads to the other trove, up to one unit of debt, and that
  changes to zero stay exact.
\<close>

section \<open>Changes\<close>

text \<open>
  Parameters of transactions.  The optional fields of a JavaScript object are options;
  \<open>T\<close> is the value type, a \<open>Decimal\<close> here.
\<close>

record creation_params =
  cr_depositCollateral :: decimal
  cr_borrowDebtToken :: decimal

record closure_params =
  cl_withdrawCollateral :: decimal
  cl_repayDebtToken :: "decimal option"

record adjustment_params =
  depositCollateral :: "decimal option"
  withdrawCollateral :: "decimal option"
  borrowDebtToken :: "decimal option"
  repayDebtToken :: "decimal option"

datatype trove_creation_error = MissingLiquidationReserve

datatype set_to_zero = ZCollateral | ZDebt

datatype trove_change =
    InvalidCreation trove trove_creation_error
  | Creation creation_params
  | Closure closure_params
  | Adjustment adjustment_params "set_to_zero option"

text \<open>The unions \<open>_CollateralChange\<close> and \<open>_DebtChange\<close>, and the objects they stand for.\<close>

datatype collateral_change = Deposit decimal | Withdraw decimal

datatype debt_change = Borrow decimal | Repay decimal

definition no_params :: adjustment_params where
  "no_params = \<lparr>depositCollateral = None, withdrawCollateral = None,
                borrowDebtToken = None, repayDebtToken = None\<rparr>"

fun with_collateral_change :: "collateral_change \<Rightarrow> adjustment_params \<Rightarrow> adjustment_params" where
  "with_collateral_change (Deposit d) p = p\<lparr>depositCollateral := Some d\<rparr>"
| "with_collateral_change (Withdraw d) p = p\<lparr>withdrawCollateral := Some d\<rparr>"

fun with_debt_change :: "debt_change \<Rightarrow> adjustment_params \<Rightarrow> adjustment_params" where
  "with_debt_change (Borrow d) p = p\<lparr>borrowDebtToken := Some d\<rparr>"
| "with_debt_change (Repay d) p = p\<lparr>repayDebtToken := Some d\<rparr>"

section \<open>The borrowing fee\<close>

definition applyFee :: "decimalish \<Rightarrow> decimal \<Rightarrow> decimal result" where
  "applyFee borrowingRate debtIncrease =
     with_ish (\<lambda>rate. mul_dec debtIncrease (add_dec ONE rate)) borrowingRate"

definition unapplyFee :: "decimalish \<Rightarrow> decimal \<Rightarrow> decimal result" where
  "unapplyFee borrowingRate debtIncrease =
     with_ish (\<lambda>rate. divCeil debtIncrease (add_dec ONE rate)) borrowingRate"

text \<open>The default of the optional parameter \<open>borrowingRate\<close>.\<close>

definition rate_or_default :: "decimalish option \<Rightarrow> decimalish" where
  "rate_or_default r = (case r of None \<Rightarrow> DDecimal MINIMUM_BORROWING_RATE | Some x \<Rightarrow> x)"

section \<open>\<open>whatChanged\<close>\<close>

definition debtChange :: "'a trove_scheme \<Rightarrow> 'b trove_scheme \<Rightarrow> decimalish \<Rightarrow> debt_change result" where
  "debtChange this that borrowingRate =
     (if debt this < debt that
      then result_bind (sub_dec (debt that) (debt this)) (\<lambda>increase.
             result_map Borrow (unapplyFee borrowingRate increase))
      else result_map Repay (sub_dec (debt this) (debt that)))"

definition collateralChange :: "'a trove_scheme \<Rightarrow> 'b trove_scheme \<Rightarrow> collateral_change result" where
  "collateralChange this that =
     (if collateral this < collateral that
      then result_map Deposit (sub_dec (collateral that) (collateral this))
      else result_map Withdraw (sub_dec (collateral this) (collateral that)))"

definition whatChanged ::
  "constants \<Rightarrow> trove \<Rightarrow> trove \<Rightarrow> decimalish option \<Rightarrow> trove_change option result" where
  "whatChanged k this that rateOpt =
     (let borrowingRate = rate_or_default rateOpt in
      if eq_dec (collateral this) (collateral that) \<and> eq_dec (debt this) (debt that) then Inr None
      else if isEmpty this then
        (if debt that < LIQUIDATION_RESERVE k
         then Inr (Some (InvalidCreation that MissingLiquidationReserve))
         else result_bind (netDebt k that) (\<lambda>net.
              result_map (\<lambda>borrow. Some (Creation
                  \<lparr>cr_depositCollateral = collateral that, cr_borrowDebtToken = borrow\<rparr>))
                (unapplyFee borrowingRate net)))
      else if isEmpty that then
        result_map (\<lambda>net. Some (Closure
            (if nonZero_dec net \<noteq> None
             then \<lparr>cl_withdrawCollateral = collateral this, cl_repayDebtToken = Some net\<rparr>
             else \<lparr>cl_withdrawCollateral = collateral this, cl_repayDebtToken = None\<rparr>)))
          (netDebt k this)
      else if eq_dec (collateral this) (collateral that) then
        result_map (\<lambda>dc. Some (Adjustment (with_debt_change dc no_params)
            (if zero_dec (debt that) \<noteq> None then Some ZDebt else None)))
          (debtChange this that borrowingRate)
      else if eq_dec (debt this) (debt that) then
        result_map (\<lambda>cc. Some (Adjustment (with_collateral_change cc no_params)
            (if zero_dec (collateral that) \<noteq> None then Some ZCollateral else None)))
          (collateralChange this that)
      else
        result_bind (debtChange this that borrowingRate) (\<lambda>dc.
        result_map (\<lambda>cc. Some (Adjustment (with_collateral_change cc (with_debt_change dc no_params))
            (if zero_dec (debt that) \<noteq> None then Some ZDebt
             else if zero_dec (collateral that) \<noteq> None then Some ZCollateral else None)))
          (collateralChange this that)))"

section \<open>\<open>apply\<close>\<close>

definition value_or_zero :: "decimal option \<Rightarrow> decimal" where
  "value_or_zero v = (case v of None \<Rightarrow> ZERO | Some d \<Rightarrow> d)"

definition apply_adjustment ::
  "trove \<Rightarrow> adjustment_params \<Rightarrow> set_to_zero option \<Rightarrow> decimalish \<Rightarrow> trove result" where
  "apply_adjustment this params setToZero borrowingRate =
     (let collateralDecrease = value_or_zero (withdrawCollateral params);
          collateralIncrease = value_or_zero (depositCollateral params);
          debtDecrease = value_or_zero (repayDebtToken params)
      in result_map (\<lambda>debtIncrease.
           case setToZero of
             Some ZCollateral \<Rightarrow>
               subtractDebt (addDebt (setCollateral this ZERO) debtIncrease) debtDecrease
           | Some ZDebt \<Rightarrow>
               subtractCollateral (addCollateral (setDebt this ZERO) collateralIncrease) collateralDecrease
           | None \<Rightarrow>
               subtract (trove_add this \<lparr>collateral = collateralIncrease, debt = debtIncrease\<rparr>)
                 \<lparr>collateral = collateralDecrease, debt = debtDecrease\<rparr>)
         (case borrowDebtToken params of
            Some borrow \<Rightarrow> applyFee borrowingRate borrow
          | None \<Rightarrow> Inr ZERO))"

definition apply_change ::
  "constants \<Rightarrow> trove \<Rightarrow> trove_change option \<Rightarrow> decimalish option \<Rightarrow> trove result" where
  "apply_change k this changeOpt rateOpt =
     (let borrowingRate = rate_or_default rateOpt in
      case changeOpt of
        None \<Rightarrow> Inr this
      | Some (InvalidCreation invalidTrove error) \<Rightarrow>
          (if \<not> isEmpty this then Inl (Error ''Can't create onto existing Trove'')
           else Inr invalidTrove)
      | Some (Creation params) \<Rightarrow>
          (if \<not> isEmpty this then Inl (Error ''Can't create onto existing Trove'')
           else result_map (\<lambda>withFee. \<lparr>collateral = cr_depositCollateral params,
                                       debt = add_dec (LIQUIDATION_RESERVE k) withFee\<rparr>)
                  (applyFee borrowingRate (cr_borrowDebtToken params)))
      | Some (Closure params) \<Rightarrow>
          (if isEmpty this then Inl (Error ''Can't close empty Trove'') else Inr emptyTrove)
      | Some (Adjustment params setToZero) \<Rightarrow>
          apply_adjustment this params setToZero borrowingRate)"

section \<open>Fees taken out and put back\<close>

text \<open>
  The fee round trip never loses debt, and gains at most \<open>fee_slack\<close> units of the last
  place: none at rate zero, one at any rate up to 100%.
\<close>

definition fee_slack :: "decimal \<Rightarrow> nat" where
  "fee_slack rate = (DIGITS + bigNumber rate - 1) div DIGITS"

lemma fee_slack_ZERO [simp]: "fee_slack ZERO = 0"
  by (simp add: fee_slack_def)

lemma fee_slack_le_one: "rate \<le> ONE \<Longrightarrow> fee_slack rate \<le> 1"
proof -
  assume "rate \<le> ONE"
  then have "DIGITS + bigNumber rate - 1 < 2 * DIGITS"
    using DIGITS_pos(1) unfolding decimal_le_iff bigNumber_consts by linarith
  then have "fee_slack rate < 2" by (simp add: fee_slack_def div_less_iff_less_mult mult.commute)
  then show ?thesis by simp
qed

lemma refee_bounds:
  fixes inc rate
  defines "v \<equiv> mul_dec (divCeil inc (add_dec ONE rate)) (add_dec ONE rate)"
  shows "bigNumber inc \<le> bigNumber v" "bigNumber v \<le> bigNumber inc + fee_slack rate"
proof -
  define g where "g = DIGITS + bigNumber rate"
  define u where "u = (bigNumber inc * DIGITS + (g - 1)) div g"
  have g: "0 < g" "add_dec ONE rate \<noteq> ZERO" by (simp_all add: g_def decimal_eq_iff)
  have v: "bigNumber v = u * g div DIGITS" using g by (simp add: v_def divCeil_def u_def g_def)
  have "bigNumber inc * DIGITS + (g - 1) < u * g + g"
    using dividend_less_div_times [OF g(1), of "bigNumber inc * DIGITS + (g - 1)"] by (simp add: u_def)
  then have "bigNumber inc * DIGITS \<le> u * g" using g(1) by linarith
  then have "bigNumber inc * DIGITS div DIGITS \<le> u * g div DIGITS" by (rule div_le_mono)
  then show "bigNumber inc \<le> bigNumber v" using v by simp
  have "u * g \<le> (g - 1) + bigNumber inc * DIGITS" by (simp add: u_def add.commute)
  then have "u * g div DIGITS \<le> ((g - 1) + bigNumber inc * DIGITS) div DIGITS" by (rule div_le_mono)
  then show "bigNumber v \<le> bigNumber inc + fee_slack rate"
    using v by (simp add: fee_slack_def g_def)
qed

lemma divCeil_pos: "inc \<noteq> ZERO \<Longrightarrow> divCeil inc d \<noteq> ZERO"
proof -
  assume "inc \<noteq> ZERO"
  then have "0 < bigNumber inc" by (simp add: decimal_eq_iff)
  then have "1 \<le> bigNumber inc * DIGITS" by (simp add: Suc_le_eq)
  then have "bigNumber d \<le> bigNumber inc * DIGITS + (bigNumber d - 1)" by linarith
  then show ?thesis
    by (auto simp: divCeil_def decimal_eq_iff INFINITY_def MAX_UINT_256_def div_greater_zero_iff)
qed

lemma applyFee_Decimal [simp]:
  "applyFee (DDecimal r) x = Inr (mul_dec x (add_dec ONE r))"
  by (simp add: applyFee_def)

lemma unapplyFee_Decimal [simp]:
  "unapplyFee (DDecimal r) x = Inr (divCeil x (add_dec ONE r))"
  by (simp add: unapplyFee_def)

lemma rate_or_default_Some [simp]: "rate_or_default (Some r) = r"
  by (simp add: rate_or_default_def)

lemma rate_or_default_Decimal:
  "\<exists>r. rate_or_default (map_option DDecimal x) = DDecimal r"
  by (cases x) (simp_all add: rate_or_default_def)

section \<open>The difference, evaluated\<close>

lemma debtChange_eq:
  "debtChange a b (DDecimal r) = Inr
     (if debt a < debt b
      then Borrow (divCeil (saturating_sub (debt b) (debt a)) (add_dec ONE r))
      else Repay (saturating_sub (debt a) (debt b)))"
  by (auto simp: debtChange_def sub_dec_saturating not_less not_le less_imp_le)

lemma collateralChange_eq:
  "collateralChange a b = Inr
     (if collateral a < collateral b then Deposit (saturating_sub (collateral b) (collateral a))
      else Withdraw (saturating_sub (collateral a) (collateral b)))"
  by (auto simp: collateralChange_def sub_dec_saturating not_less not_le less_imp_le)

lemma value_or_zero_simps [simp]: "value_or_zero None = ZERO" "value_or_zero (Some d) = d"
  by (simp_all add: value_or_zero_def)

lemma no_params_simps [simp]:
  "depositCollateral no_params = None" "withdrawCollateral no_params = None"
  "borrowDebtToken no_params = None" "repayDebtToken no_params = None"
  by (simp_all add: no_params_def)

lemma with_change_simps [simp]:
  "borrowDebtToken (with_collateral_change cc p) = borrowDebtToken p"
  "repayDebtToken (with_collateral_change cc p) = repayDebtToken p"
  "depositCollateral (with_debt_change dc p) = depositCollateral p"
  "withdrawCollateral (with_debt_change dc p) = withdrawCollateral p"
  by (cases cc; cases dc; simp)+

lemma zero_dec_simps [simp]:
  "zero_dec d = None \<longleftrightarrow> d \<noteq> ZERO" "nonZero_dec d = None \<longleftrightarrow> d = ZERO"
  by (auto simp: zero_dec_def nonZero_dec_def)

lemma add_saturating: "b \<le> a \<Longrightarrow> add_dec b (saturating_sub a b) = a"
  by (simp add: decimal_eq_iff decimal_le_iff)

lemma saturating_add [simp]: "saturating_sub (add_dec b c) b = c"
  by (simp add: decimal_eq_iff)

lemma saturating_saturating: "b \<le> a \<Longrightarrow> saturating_sub a (saturating_sub a b) = b"
  by (simp add: decimal_eq_iff decimal_le_iff)

text \<open>
  The adjustment that leads from \<open>a\<close> to \<open>b\<close>, whichever of its three forms the code
  picks: its application to \<open>a\<close>.
\<close>

definition reaches :: "decimal \<Rightarrow> trove \<Rightarrow> trove \<Rightarrow> bool" where
  "reaches rate b t \<longleftrightarrow>
     collateral t = collateral b \<and> debt b \<le> debt t
       \<and> bigNumber (debt t) \<le> bigNumber (debt b) + fee_slack rate"

lemma reaches_refl [simp]: "reaches rate b b"
  by (simp add: reaches_def)

lemma reaches_ZERO: "reaches ZERO b t \<longleftrightarrow> t = b"
  by (cases t; cases b) (auto simp: reaches_def decimal_eq_iff decimal_le_iff)

lemma borrow_reaches:
  assumes "da < db"
  shows "db \<le> add_dec da (mul_dec (divCeil (saturating_sub db da) (add_dec ONE r)) (add_dec ONE r))"
    and "bigNumber (add_dec da (mul_dec (divCeil (saturating_sub db da) (add_dec ONE r)) (add_dec ONE r)))
      \<le> bigNumber db + fee_slack r"
  using refee_bounds [where inc = "saturating_sub db da" and rate = r] assms
  by (simp_all add: decimal_le_iff decimal_less_iff del: bigNumber_mul)

section \<open>Applying the difference\<close>

text \<open>The adjustment \<open>whatChanged\<close> finds between two non-empty troves, field by field.\<close>

definition diff_params :: "decimal \<Rightarrow> trove \<Rightarrow> trove \<Rightarrow> adjustment_params" where
  "diff_params r a b =
     \<lparr>depositCollateral =
        (if collateral a < collateral b then Some (saturating_sub (collateral b) (collateral a)) else None),
      withdrawCollateral =
        (if collateral b < collateral a then Some (saturating_sub (collateral a) (collateral b)) else None),
      borrowDebtToken =
        (if debt a < debt b
         then Some (divCeil (saturating_sub (debt b) (debt a)) (add_dec ONE r)) else None),
      repayDebtToken =
        (if debt b < debt a then Some (saturating_sub (debt a) (debt b)) else None)\<rparr>"

definition diff_zero :: "trove \<Rightarrow> trove \<Rightarrow> set_to_zero option" where
  "diff_zero a b =
     (if debt b = ZERO \<and> debt a \<noteq> debt b then Some ZDebt
      else if collateral b = ZERO \<and> collateral a \<noteq> collateral b then Some ZCollateral
      else None)"

lemma whatChanged_adjustment:
  assumes "a \<noteq> b" "\<not> isEmpty a" "\<not> isEmpty b"
  shows "whatChanged k a b (Some (DDecimal r)) = Inr (Some (Adjustment (diff_params r a b) (diff_zero a b)))"
  using assms
  by (cases "collateral a" "collateral b" rule: linorder_cases;
      cases "debt a" "debt b" rule: linorder_cases)
    (simp_all add: whatChanged_def debtChange_eq collateralChange_eq diff_params_def diff_zero_def
      no_params_def less_not_sym less_imp_neq less_imp_neq [symmetric])

lemma collateral_settles:
  "saturating_sub
     (add_dec c (value_or_zero (if c < d then Some (saturating_sub d c) else None)))
     (value_or_zero (if d < c then Some (saturating_sub c d) else None)) = d"
  by (cases c d rule: linorder_cases)
    (simp_all add: add_saturating saturating_saturating less_imp_le less_not_sym)

text \<open>The amount by which the difference increases the debt, with the fee added.\<close>

definition diff_increase :: "decimal \<Rightarrow> trove \<Rightarrow> trove \<Rightarrow> decimal" where
  "diff_increase r a b =
     (if debt a < debt b
      then mul_dec (divCeil (saturating_sub (debt b) (debt a)) (add_dec ONE r)) (add_dec ONE r)
      else ZERO)"

lemma debt_settles:
  fixes r a b
  defines "d \<equiv> saturating_sub (add_dec (debt a) (diff_increase r a b))
     (value_or_zero (if debt b < debt a then Some (saturating_sub (debt a) (debt b)) else None))"
  shows "debt b \<le> d" "bigNumber d \<le> bigNumber (debt b) + fee_slack r"
  using borrow_reaches [of "debt a" "debt b" r] unfolding d_def diff_increase_def
  by (cases "debt a" "debt b" rule: linorder_cases;
      simp add: saturating_saturating less_imp_le less_not_sym del: bigNumber_add bigNumber_mul)+

lemma diff_fee:
  "(case borrowDebtToken (diff_params r a b) of
      Some borrow \<Rightarrow> applyFee (DDecimal r) borrow | None \<Rightarrow> Inr ZERO) = Inr (diff_increase r a b)"
  by (simp add: diff_params_def diff_increase_def)

lemma apply_diff_no_zero:
  "\<exists>t. apply_adjustment a (diff_params r a b) None (DDecimal r) = Inr t \<and> reaches r b t"
  using diff_fee [of r a b] collateral_settles [of "collateral a" "collateral b"]
    debt_settles [where r = r and a = a and b = b]
  by (simp add: apply_adjustment_def trove_ops reaches_def) (simp add: diff_params_def)

lemma apply_diff_reaches:
  assumes "\<not> isEmpty b"
  shows "\<exists>t. apply_adjustment a (diff_params r a b) (diff_zero a b) (DDecimal r) = Inr t \<and> reaches r b t"
proof -
  note inc = diff_fee [of r a b]
  note c = collateral_settles [of "collateral a" "collateral b"]
  note d = debt_settles [where r = r and a = a and b = b]
  show ?thesis
  proof (cases "diff_zero a b")
    case None
    then show ?thesis by (simp add: apply_diff_no_zero)
  next
    case (Some z)
    with assms consider "z = ZDebt" "debt b = ZERO"
      | "z = ZCollateral" "collateral b = ZERO" 
      by (auto simp: diff_zero_def split: if_splits)
    then show ?thesis
      using Some inc c d
      by cases ((simp add: apply_adjustment_def trove_ops reaches_def), (simp add: diff_params_def))+
  qed
qed

text \<open>The parameters of the difference are valid transaction parameters.\<close>

definition valid_params :: "adjustment_params \<Rightarrow> bool" where
  "valid_params p \<longleftrightarrow>
     Some ZERO \<notin> {depositCollateral p, withdrawCollateral p, borrowDebtToken p, repayDebtToken p}
     \<and> (depositCollateral p = None \<or> withdrawCollateral p = None)
     \<and> (borrowDebtToken p = None \<or> repayDebtToken p = None)
     \<and> p \<noteq> no_params"

lemma saturating_nonzero [simp]:
  "y < x \<Longrightarrow> saturating_sub x y \<noteq> ZERO" "y < x \<Longrightarrow> ZERO \<noteq> saturating_sub x y"
  "y < x \<Longrightarrow> divCeil (saturating_sub x y) d \<noteq> ZERO"
  "y < x \<Longrightarrow> ZERO \<noteq> divCeil (saturating_sub x y) d"
  by (metis divCeil_pos saturating_sub_eq_ZERO not_le)+

lemma valid_diff_params:
  assumes "a \<noteq> b"
  shows "valid_params (diff_params r a b)"
proof -
  have "collateral a \<noteq> collateral b \<or> debt a \<noteq> debt b" using assms by auto
  then have "diff_params r a b \<noteq> no_params"
    by (simp add: diff_params_def no_params_def neq_iff) auto
  then show ?thesis by (simp add: valid_params_def) (simp add: diff_params_def less_not_sym)
qed

lemma whatChanged_same [simp]: "whatChanged k a a r = Inr None"
  by (simp add: whatChanged_def)

lemma apply_change_None [simp]: "apply_change k a None r = Inr a"
  by (simp add: apply_change_def)

lemma whatChanged_creation:
  assumes "a \<noteq> b" "isEmpty a"
  shows "whatChanged k a b (Some (DDecimal r)) = Inr (Some
    (if debt b < LIQUIDATION_RESERVE k then InvalidCreation b MissingLiquidationReserve
     else Creation \<lparr>cr_depositCollateral = collateral b,
       cr_borrowDebtToken =
         divCeil (saturating_sub (debt b) (LIQUIDATION_RESERVE k)) (add_dec ONE r)\<rparr>))"
proof -
  have "\<not> (collateral a = collateral b \<and> debt a = debt b)" using assms(1) by auto
  moreover have "netDebt k b = Inr (saturating_sub (debt b) (LIQUIDATION_RESERVE k))"
    if "\<not> debt b < LIQUIDATION_RESERVE k"
    using that by (simp add: netDebt_def sub_dec_saturating not_less)
  ultimately show ?thesis using assms(2)
    by (cases "debt b < LIQUIDATION_RESERVE k") (simp_all only: whatChanged_def Let_def
      rate_or_default_Some eq_dec_iff if_True if_False result_bind_simps unapplyFee_Decimal result_map_simps simp_thms)
qed

lemma whatChanged_closure:
  assumes "a \<noteq> b" "\<not> isEmpty a" "isEmpty b" "LIQUIDATION_RESERVE k \<le> debt a"
  obtains params where "whatChanged k a b r = Inr (Some (Closure params))"
    "cl_withdrawCollateral params = collateral a"
proof -
  have "\<not> (collateral a = collateral b \<and> debt a = debt b)" using assms(1) by auto
  with assms that show thesis
    by (simp add: whatChanged_def Let_def netDebt_ok split: if_splits)
qed

lemma apply_whatChanged_reaches:
  assumes "isEmpty b \<Longrightarrow> isEmpty a \<or> LIQUIDATION_RESERVE k \<le> debt a"
  shows "\<exists>c t. whatChanged k a b (Some (DDecimal r)) = Inr c
    \<and> apply_change k a c (Some (DDecimal r)) = Inr t \<and> reaches r b t"
proof -
  consider (same) "a = b" | (create) "a \<noteq> b" "isEmpty a" | (close) "a \<noteq> b" "\<not> isEmpty a" "isEmpty b"
    | (adjust) "a \<noteq> b" "\<not> isEmpty a" "\<not> isEmpty b" by blast
  then show ?thesis
  proof cases
    case same
    then show ?thesis by simp
  next
    case create
    show ?thesis
    proof (cases "debt b < LIQUIDATION_RESERVE k")
      case True
      with create show ?thesis by (simp add: whatChanged_creation apply_change_def)
    next
      case False
      define net where "net = saturating_sub (debt b) (LIQUIDATION_RESERVE k)"
      have "debt b = add_dec (LIQUIDATION_RESERVE k) net"
        using False by (simp add: net_def add_saturating not_less)
      then show ?thesis
        using create False refee_bounds [where inc = net and rate = r]
        by (simp add: whatChanged_creation apply_change_def reaches_def decimal_le_iff
            flip: net_def del: bigNumber_mul)
    qed
  next
    case close
    with assms have "LIQUIDATION_RESERVE k \<le> debt a" by blast
    with close obtain params where "whatChanged k a b (Some (DDecimal r)) = Inr (Some (Closure params))"
      by (rule whatChanged_closure)
    with close show ?thesis by (simp add: apply_change_def isEmpty_eq)
  next
    case adjust
    then show ?thesis
      using whatChanged_adjustment [OF adjust, of k r] apply_diff_reaches [of b a r]
      by (simp add: apply_change_def)
  qed
qed

lemma apply_adjustment_total:
  "\<exists>t. apply_adjustment x p z (DDecimal r) = Inr t
    \<and> (z = Some ZDebt \<longrightarrow> debt t = ZERO) \<and> (z = Some ZCollateral \<longrightarrow> collateral t = ZERO)"
proof -
  obtain inc where "(case borrowDebtToken p of
      Some borrow \<Rightarrow> applyFee (DDecimal r) borrow | None \<Rightarrow> Inr ZERO) = Inr inc"
    by (cases "borrowDebtToken p") simp_all
  then show ?thesis
    by (auto simp: apply_adjustment_def Let_def trove_ops split: option.split set_to_zero.split)
qed

section \<open>Properties\<close>



text \<open>
  C22: The difference between two non-empty troves is an adjustment with no zero amount and
  no two opposite amounts, so the transaction parameters it carries are always valid.
\<close>

theorem whatChanged_defines_no_zeros:
  assumes "a \<noteq> b" and "\<not> isEmpty a" and "\<not> isEmpty b"
  shows "\<exists>p z. whatChanged k a b (Some (DDecimal r)) = Inr (Some (Adjustment p z))
    \<and> Some ZERO \<notin> {depositCollateral p, withdrawCollateral p, borrowDebtToken p, repayDebtToken p}
    \<and> (depositCollateral p = None \<or> withdrawCollateral p = None)
    \<and> (borrowDebtToken p = None \<or> repayDebtToken p = None)
    \<and> p \<noteq> no_params"
proof -
  show ?thesis
    using whatChanged_adjustment [OF assms, of k r] valid_diff_params [OF assms(1), of r]
    unfolding valid_params_def by blast
qed

theorem whatChanged_defines_no_zeros_witness:
  "\<exists>p z. whatChanged default_constants \<lparr>collateral = ONE, debt = ONE\<rparr> \<lparr>collateral = HALF, debt = ONE\<rparr>
        (Some (DDecimal ZERO)) = Inr (Some (Adjustment p z))
    \<and> Some ZERO \<notin> {depositCollateral p, withdrawCollateral p, borrowDebtToken p, repayDebtToken p}
    \<and> (depositCollateral p = None \<or> withdrawCollateral p = None)
    \<and> (borrowDebtToken p = None \<or> repayDebtToken p = None)
    \<and> p \<noteq> no_params"
  by (rule whatChanged_defines_no_zeros) (simp_all add: isEmpty_iff decimal_eq_iff HALF_def DIGITS_eq)

text \<open>
  An adjustment found between \<open>a\<close> and \<open>b\<close> can be applied to any trove \<open>x\<close> without an
  error, and a debt (or collateral) that the adjustment takes to zero is zero afterwards
  whatever \<open>x\<close> held, even when \<open>x\<close> is not \<open>a\<close>.
\<close>

theorem whatChanged_preserves_zeroing:
  assumes "a \<noteq> b" and "\<not> isEmpty a" and "\<not> isEmpty b"
  shows "\<exists>c. whatChanged k a b (Some (DDecimal r)) = Inr (Some c)
    \<and> (\<forall>x r'. \<exists>t. apply_change k x (Some c) (Some (DDecimal r')) = Inr t
        \<and> (debt b = ZERO \<and> debt a \<noteq> ZERO \<longrightarrow> debt t = ZERO)
        \<and> (collateral b = ZERO \<and> collateral a \<noteq> ZERO \<longrightarrow> collateral t = ZERO))"
proof -
  have z: "debt b = ZERO \<and> debt a \<noteq> ZERO \<longrightarrow> diff_zero a b = Some ZDebt"
    "collateral b = ZERO \<and> collateral a \<noteq> ZERO \<longrightarrow> diff_zero a b = Some ZCollateral"
    using assms(3) by (auto simp: diff_zero_def isEmpty_iff)
  have "\<exists>t. apply_change k x (Some (Adjustment (diff_params r a b) (diff_zero a b))) (Some (DDecimal r')) = Inr t
        \<and> (debt b = ZERO \<and> debt a \<noteq> ZERO \<longrightarrow> debt t = ZERO)
        \<and> (collateral b = ZERO \<and> collateral a \<noteq> ZERO \<longrightarrow> collateral t = ZERO)" for x r'
    using apply_adjustment_total [of x "diff_params r a b" "diff_zero a b" r'] z
    by (auto simp: apply_change_def)
  then show ?thesis using whatChanged_adjustment [OF assms, of k r] by blast
qed

theorem whatChanged_preserves_zeroing_witness:
  "\<exists>c. whatChanged default_constants \<lparr>collateral = ONE, debt = ONE\<rparr> \<lparr>collateral = ONE, debt = ZERO\<rparr>
        (Some (DDecimal ZERO)) = Inr (Some c)
    \<and> (\<forall>x r'. \<exists>t. apply_change default_constants x (Some c) (Some (DDecimal r')) = Inr t
        \<and> (debt \<lparr>collateral = ONE, debt = ZERO\<rparr> = ZERO \<and> debt \<lparr>collateral = ONE, debt = ONE\<rparr> \<noteq> ZERO
             \<longrightarrow> debt t = ZERO)
        \<and> (collateral \<lparr>collateral = ONE, debt = ZERO\<rparr> = ZERO
             \<and> collateral \<lparr>collateral = ONE, debt = ONE\<rparr> \<noteq> ZERO \<longrightarrow> collateral t = ZERO))"
  by (rule whatChanged_preserves_zeroing) (simp_all add: isEmpty_iff decimal_eq_iff)

end
