(* ===== verification/Trove_Params.thy ===== *)
theory Trove_Params
  imports Trove_Changes
begin

text \<open>
  The transaction parameters of \<^verbatim>\<open>packages/lib-base/src/Trove.ts\<close>: the checks
  \<open>_normalizeTroveCreation\<close> and \<open>_normalizeTroveAdjustment\<close> make on an object a caller
  passes, and the functions \<open>Trove.create\<close>, \<open>recreate\<close>, \<open>adjust\<close> and \<open>adjustTo\<close> built
  on them.  A JavaScript object is the list of its entries (\<open>Object.entries\<close>), with an
  undefined value as \<open>None\<close>.
\<close>

type_synonym js_object = "(string \<times> decimalish option) list"

section \<open>Entries\<close>

definition allowedTroveCreationKeys :: "string list" where
  "allowedTroveCreationKeys = [''depositCollateral'', ''borrowDebtToken'']"

definition allowedTroveAdjustmentKeys :: "string list" where
  "allowedTroveAdjustmentKeys =
     [''depositCollateral'', ''withdrawCollateral'', ''borrowDebtToken'', ''repayDebtToken'']"

text \<open>\<open>Object.entries(params).filter(valueIsDefined)\<close>\<close>

fun definedEntries :: "js_object \<Rightarrow> (string \<times> decimalish) list" where
  "definedEntries [] = []"
| "definedEntries ((k, None) # es) = definedEntries es"
| "definedEntries ((k, Some v) # es) = (k, v) # definedEntries es"

definition quote :: "string \<Rightarrow> string" where
  "quote k = [CHR 0x27] @ k @ [CHR 0x27]"

definition checkAllowedTroveCreationKeys :: "(string \<times> 'a) list \<Rightarrow> unit result" where
  "checkAllowedTroveCreationKeys entries =
     (let badKeys = map quote (filter (\<lambda>k. k \<notin> set allowedTroveCreationKeys) (map fst entries))
      in if badKeys \<noteq> []
         then Inl (Error (''TroveCreationParams: property '' @ js_join '', '' badKeys @ '' not allowed''))
         else Inr ())"

definition checkAllowedTroveAdjustmentKeys :: "(string \<times> 'a) list \<Rightarrow> unit result" where
  "checkAllowedTroveAdjustmentKeys entries =
     (let badKeys = map quote (filter (\<lambda>k. k \<notin> set allowedTroveAdjustmentKeys) (map fst entries))
      in if badKeys \<noteq> []
         then Inl (Error (''TroveAdjustmentParams: property '' @ js_join '', '' badKeys @ '' not allowed''))
         else Inr ())"

definition decimalize :: "string \<times> decimalish \<Rightarrow> (string \<times> decimal) result" where
  "decimalize e = result_map (\<lambda>d. (fst e, d)) (from_ish (snd e))"

definition nonZero_entry :: "string \<times> decimal \<Rightarrow> bool" where
  "nonZero_entry e \<longleftrightarrow> \<not> isZero (snd e)"

text \<open>\<open>Object.fromEntries\<close>: of two entries with one key, the later wins.\<close>

definition fromEntries :: "(string \<times> 'a) list \<Rightarrow> string \<Rightarrow> 'a option" where
  "fromEntries entries = map_of (rev entries)"

section \<open>Creation\<close>

definition troveCreationParamsFromEntries :: "(string \<times> decimal) list \<Rightarrow> creation_params result" where
  "troveCreationParamsFromEntries entries =
     (let params = fromEntries entries;
          missingKeys = map quote (filter (\<lambda>k. params k = None) allowedTroveCreationKeys)
      in if missingKeys \<noteq> []
         then Inl (Error (''TroveCreationParams: property '' @ js_join '', '' missingKeys @ '' missing''))
         else Inr \<lparr>cr_depositCollateral = the (params ''depositCollateral''),
                   cr_borrowDebtToken = the (params ''borrowDebtToken'')\<rparr>)"

definition normalizeTroveCreation :: "js_object \<Rightarrow> creation_params result" where
  "normalizeTroveCreation params =
     (let defined = definedEntries params in
      result_bind (checkAllowedTroveCreationKeys defined) (\<lambda>_.
      result_bind (result_list decimalize defined) troveCreationParamsFromEntries))"

section \<open>Adjustment\<close>

definition collateralChangeFrom :: "(string \<Rightarrow> decimal option) \<Rightarrow> collateral_change option result" where
  "collateralChangeFrom params =
     (case (params ''depositCollateral'', params ''withdrawCollateral'') of
        (Some d, Some w) \<Rightarrow>
          Inl (Error (''TroveAdjustmentParams: '' @ quote ''depositCollateral'' @ '' and '' @
            quote ''withdrawCollateral'' @ '' can'' @ [CHR 0x27] @ ''t be present at the same time''))
      | (Some d, None) \<Rightarrow> Inr (Some (Deposit d))
      | (None, Some w) \<Rightarrow> Inr (Some (Withdraw w))
      | (None, None) \<Rightarrow> Inr None)"

definition debtChangeFrom :: "(string \<Rightarrow> decimal option) \<Rightarrow> debt_change option result" where
  "debtChangeFrom params =
     (case (params ''borrowDebtToken'', params ''repayDebtToken'') of
        (Some b, Some r) \<Rightarrow>
          Inl (Error (''TroveAdjustmentParams: '' @ quote ''borrowDebtToken'' @ '' and '' @
            quote ''repayDebtToken'' @ '' can'' @ [CHR 0x27] @ ''t be present at the same time''))
      | (Some b, None) \<Rightarrow> Inr (Some (Borrow b))
      | (None, Some r) \<Rightarrow> Inr (Some (Repay r))
      | (None, None) \<Rightarrow> Inr None)"

definition troveAdjustmentParamsFromEntries :: "(string \<times> decimal) list \<Rightarrow> adjustment_params result" where
  "troveAdjustmentParamsFromEntries entries =
     (let params = fromEntries entries in
      result_bind (collateralChangeFrom params) (\<lambda>collateralChange.
      result_bind (debtChangeFrom params) (\<lambda>debtChange.
        case (collateralChange, debtChange) of
          (Some cc, Some dc) \<Rightarrow> Inr (with_debt_change dc (with_collateral_change cc no_params))
        | (Some cc, None) \<Rightarrow> Inr (with_collateral_change cc no_params)
        | (None, Some dc) \<Rightarrow> Inr (with_debt_change dc no_params)
        | (None, None) \<Rightarrow>
            Inl (Error ''TroveAdjustmentParams: must include at least one non-zero parameter''))))"

definition normalizeTroveAdjustment :: "js_object \<Rightarrow> adjustment_params result" where
  "normalizeTroveAdjustment params =
     (let defined = definedEntries params in
      result_bind (checkAllowedTroveAdjustmentKeys defined) (\<lambda>_.
      result_bind (result_list decimalize defined) (\<lambda>entries.
        troveAdjustmentParamsFromEntries (filter nonZero_entry entries))))"

section \<open>The functions built on them\<close>

definition create :: "constants \<Rightarrow> js_object \<Rightarrow> decimalish option \<Rightarrow> trove result" where
  "create k params borrowingRate =
     result_bind (normalizeTroveCreation params) (\<lambda>p.
       apply_change k emptyTrove (Some (Creation p)) borrowingRate)"

definition recreate :: "constants \<Rightarrow> trove \<Rightarrow> decimalish option \<Rightarrow> creation_params result" where
  "recreate k that borrowingRate =
     result_bind (whatChanged k emptyTrove that borrowingRate) (\<lambda>change.
       case change of
         Some (Creation params) \<Rightarrow> Inr params
       | _ \<Rightarrow> Inl (AssertionError ''assertion failed''))"

definition adjust :: "constants \<Rightarrow> trove \<Rightarrow> js_object \<Rightarrow> decimalish option \<Rightarrow> trove result" where
  "adjust k this params borrowingRate =
     result_bind (normalizeTroveAdjustment params) (\<lambda>p.
       apply_change k this (Some (Adjustment p None)) borrowingRate)"

definition adjustTo :: "constants \<Rightarrow> trove \<Rightarrow> trove \<Rightarrow> decimalish option \<Rightarrow> adjustment_params result" where
  "adjustTo k this that borrowingRate =
     result_bind (whatChanged k this that borrowingRate) (\<lambda>change.
       case change of
         Some (Adjustment params _) \<Rightarrow> Inr params
       | _ \<Rightarrow> Inl (AssertionError ''assertion failed''))"

text \<open>The objects a caller passes on: the entries of parameters the library produced.\<close>

definition creation_object :: "creation_params \<Rightarrow> js_object" where
  "creation_object p =
     [(''depositCollateral'', Some (DDecimal (cr_depositCollateral p))),
      (''borrowDebtToken'', Some (DDecimal (cr_borrowDebtToken p)))]"

definition adjustment_object :: "adjustment_params \<Rightarrow> js_object" where
  "adjustment_object p =
     [(''depositCollateral'', map_option DDecimal (depositCollateral p)),
      (''withdrawCollateral'', map_option DDecimal (withdrawCollateral p)),
      (''borrowDebtToken'', map_option DDecimal (borrowDebtToken p)),
      (''repayDebtToken'', map_option DDecimal (repayDebtToken p))]"

section \<open>Lemmas\<close>

lemma definedEntries_append: "definedEntries (xs @ ys) = definedEntries xs @ definedEntries ys"
  by (induction xs rule: definedEntries.induct) simp_all

lemma definedEntries_option [simp]:
  "definedEntries ((k, map_option f v) # es) = (case v of None \<Rightarrow> [] | Some x \<Rightarrow> [(k, f x)]) @ definedEntries es"
  by (cases v) simp_all

lemma normalizeTroveCreation_object [simp]:
  "normalizeTroveCreation (creation_object p) = Inr p"
  by (simp add: normalizeTroveCreation_def creation_object_def checkAllowedTroveCreationKeys_def
      allowedTroveCreationKeys_def decimalize_def troveCreationParamsFromEntries_def fromEntries_def)

lemma result_list_decimalize:
  "result_list decimalize (map (\<lambda>(k, d). (k, DDecimal d)) es) = Inr es"
  by (induction es) (auto simp: decimalize_def)

text \<open>What normalising an adjustment object amounts to: zero amounts count as absent.\<close>

definition drop_zero :: "decimal option \<Rightarrow> decimal option" where
  "drop_zero v = (if v = Some ZERO then None else v)"

definition drop_zeros :: "adjustment_params \<Rightarrow> adjustment_params" where
  "drop_zeros p =
     \<lparr>depositCollateral = drop_zero (depositCollateral p),
      withdrawCollateral = drop_zero (withdrawCollateral p),
      borrowDebtToken = drop_zero (borrowDebtToken p),
      repayDebtToken = drop_zero (repayDebtToken p)\<rparr>"

fun entries_of :: "string \<Rightarrow> decimal option \<Rightarrow> (string \<times> decimal) list" where
  "entries_of k None = []"
| "entries_of k (Some d) = [(k, d)]"

lemma entries_of_filter: "filter nonZero_entry (entries_of k v) = entries_of k (drop_zero v)"
  by (cases v) (simp_all add: nonZero_entry_def drop_zero_def)

lemma rev_entries_of [simp]: "rev (entries_of k v) = entries_of k v"
  by (cases v) simp_all

lemma definedEntries_entries_of:
  "definedEntries [(k, map_option DDecimal v)] = map (\<lambda>(k, d). (k, DDecimal d)) (entries_of k v)"
  by (cases v) simp_all

definition adjustment_entries :: "adjustment_params \<Rightarrow> (string \<times> decimal) list" where
  "adjustment_entries p =
     entries_of ''depositCollateral'' (depositCollateral p) @
     entries_of ''withdrawCollateral'' (withdrawCollateral p) @
     entries_of ''borrowDebtToken'' (borrowDebtToken p) @
     entries_of ''repayDebtToken'' (repayDebtToken p)"

lemma definedEntries_adjustment_object:
  "definedEntries (adjustment_object p) = map (\<lambda>(k, d). (k, DDecimal d)) (adjustment_entries p)"
  unfolding adjustment_object_def adjustment_entries_def
  by (simp add: option.case_eq_if entries_of.simps split: option.split)
    (auto split: option.split)

lemma filter_adjustment_entries:
  "filter nonZero_entry (adjustment_entries p) = adjustment_entries (drop_zeros p)"
  by (simp add: adjustment_entries_def drop_zeros_def entries_of_filter)

lemma set_entries_of: "e \<in> set (entries_of k v) \<Longrightarrow> fst e = k"
  by (cases v) auto

lemma adjustment_entries_allowed:
  "checkAllowedTroveAdjustmentKeys (map (\<lambda>(k, d). (k, DDecimal d)) (adjustment_entries p)) = Inr ()"
proof -
  have "filter (\<lambda>k. k \<notin> set allowedTroveAdjustmentKeys)
      (map fst (map (\<lambda>(k, d). (k, DDecimal d)) (adjustment_entries p))) = []"
    by (auto simp: filter_empty_conv adjustment_entries_def allowedTroveAdjustmentKeys_def
        dest!: set_entries_of)
  then show ?thesis unfolding checkAllowedTroveAdjustmentKeys_def Let_def by simp
qed

lemma fromEntries_adjustment:
  "fromEntries (adjustment_entries p) ''depositCollateral'' = depositCollateral p"
  "fromEntries (adjustment_entries p) ''withdrawCollateral'' = withdrawCollateral p"
  "fromEntries (adjustment_entries p) ''borrowDebtToken'' = borrowDebtToken p"
  "fromEntries (adjustment_entries p) ''repayDebtToken'' = repayDebtToken p"
  by (cases "depositCollateral p"; cases "withdrawCollateral p"; cases "borrowDebtToken p";
      cases "repayDebtToken p"; simp add: fromEntries_def adjustment_entries_def)+

lemma troveAdjustmentParams_adjustment:
  "troveAdjustmentParamsFromEntries (adjustment_entries p) = Inr q \<longleftrightarrow>
     q = p \<and> (depositCollateral p = None \<or> withdrawCollateral p = None)
       \<and> (borrowDebtToken p = None \<or> repayDebtToken p = None) \<and> p \<noteq> no_params"
  by (cases p; cases "depositCollateral p"; cases "withdrawCollateral p";
      cases "borrowDebtToken p"; cases "repayDebtToken p")
    (auto simp: troveAdjustmentParamsFromEntries_def fromEntries_adjustment collateralChangeFrom_def
      debtChangeFrom_def no_params_def)

lemma normalizeTroveAdjustment_object:
  "normalizeTroveAdjustment (adjustment_object p) =
     troveAdjustmentParamsFromEntries (adjustment_entries (drop_zeros p))"
  by (simp add: normalizeTroveAdjustment_def definedEntries_adjustment_object
      adjustment_entries_allowed result_list_decimalize filter_adjustment_entries)

lemma drop_zeros_valid: "valid_params p \<Longrightarrow> drop_zeros p = p"
  by (cases p) (auto simp: valid_params_def drop_zeros_def drop_zero_def)

lemma recreate_reaches:
  assumes "LIQUIDATION_RESERVE k \<le> debt t" and "\<not> isEmpty t" and "r \<le> ONE"
  shows "\<exists>p t'. recreate k t (Some (DDecimal r)) = Inr p
    \<and> create k (creation_object p) (Some (DDecimal r)) = Inr t'
    \<and> collateral t' = collateral t \<and> debt t \<le> debt t'
    \<and> bigNumber (debt t') \<le> bigNumber (debt t) + 1"
proof -
  have "t \<noteq> emptyTrove" and no: "\<not> debt t < LIQUIDATION_RESERVE k"
    using assms(1,2) by (auto simp: not_less)
  then obtain p where w: "whatChanged k emptyTrove t (Some (DDecimal r)) = Inr (Some (Creation p))"
    by (simp add: whatChanged_creation)
  moreover obtain t' where "apply_change k emptyTrove (Some (Creation p)) (Some (DDecimal r)) = Inr t'"
    "reaches r t t'"
    using apply_whatChanged_reaches [of t emptyTrove k r] w by auto
  ultimately show ?thesis
    using fee_slack_le_one [OF assms(3)] by (simp add: recreate_def create_def reaches_def)
qed

lemma adjustTo_reaches:
  assumes "a \<noteq> b" and "\<not> isEmpty a" and "\<not> isEmpty b" and "r \<le> ONE"
  shows "\<exists>p t. adjustTo k a b (Some (DDecimal r)) = Inr p
    \<and> adjust k a (adjustment_object p) (Some (DDecimal r)) = Inr t
    \<and> collateral t = collateral b \<and> debt b \<le> debt t
    \<and> bigNumber (debt t) \<le> bigNumber (debt b) + 1 \<and> (r = ZERO \<longrightarrow> t = b)"
proof -
  define p where "p = diff_params r a b"
  have "adjustTo k a b (Some (DDecimal r)) = Inr p"
    using whatChanged_adjustment [OF assms(1-3), of k r] by (simp add: adjustTo_def p_def)
  moreover have "normalizeTroveAdjustment (adjustment_object p) = Inr p"
    using valid_diff_params [OF assms(1), of r] drop_zeros_valid [of p]
    unfolding normalizeTroveAdjustment_object troveAdjustmentParams_adjustment p_def
    by (simp add: valid_params_def)
  moreover obtain t where "apply_adjustment a p None (DDecimal r) = Inr t" and t: "reaches r b t"
    using apply_diff_no_zero [of a r b] p_def by auto
  moreover have "bigNumber (debt t) \<le> bigNumber (debt b) + 1"
    using t fee_slack_le_one [OF assms(4)] by (simp add: reaches_def)
  moreover have "r = ZERO \<longrightarrow> t = b" using t reaches_ZERO by blast
  ultimately show ?thesis
    by (intro exI [of _ p] exI [of _ t]) (simp add: adjust_def apply_change_def reaches_def)
qed

section \<open>Properties\<close>

text \<open>
  C12: Normalising an adjustment object succeeds exactly when, with zero amounts taken as
  absent, it has no two opposite amounts and at least one amount, and the result is the
  object without its zero amounts.
\<close>

theorem normalizeTroveAdjustment_correct:
  "normalizeTroveAdjustment (adjustment_object p) = Inr q \<longleftrightarrow>
     q = drop_zeros p \<and> valid_params q"
  unfolding normalizeTroveAdjustment_object troveAdjustmentParams_adjustment
  by (auto simp: valid_params_def drop_zeros_def drop_zero_def)

text \<open>
  An object with a defined property that is not one of the four allowed names is
  refused, whatever else it holds, and the error names the property.
\<close>

theorem normalizeTroveAdjustment_unknown_key:
  assumes "(key, Some v) \<in> set params" and "key \<notin> set allowedTroveAdjustmentKeys"
  shows "\<exists>keys. key \<in> set keys \<and> set keys \<inter> set allowedTroveAdjustmentKeys = {}
    \<and> normalizeTroveAdjustment params =
      Inl (Error (''TroveAdjustmentParams: property '' @ js_join '', '' (map quote keys) @ '' not allowed''))"
proof -
  define keys where "keys = filter (\<lambda>k. k \<notin> set allowedTroveAdjustmentKeys) (map fst (definedEntries params))"
  have "(key, v) \<in> set (definedEntries params)"
    using assms(1) by (induction params rule: definedEntries.induct) auto
  then have key: "key \<in> set keys" using assms(2) by (force simp: keys_def)
  then have "map quote keys \<noteq> []" by auto
  then have "normalizeTroveAdjustment params =
      Inl (Error (''TroveAdjustmentParams: property '' @ js_join '', '' (map quote keys) @ '' not allowed''))"
    by (simp only: normalizeTroveAdjustment_def checkAllowedTroveAdjustmentKeys_def Let_def
        keys_def [symmetric] if_True result_bind_simps not_False_eq_True)
  with key show ?thesis by (intro exI [of _ keys]) (auto simp: keys_def)
qed

theorem normalizeTroveAdjustment_unknown_key_witness:
  "\<exists>keys. ''collateral'' \<in> set keys \<and> set keys \<inter> set allowedTroveAdjustmentKeys = {}
    \<and> normalizeTroveAdjustment [(''collateral'', Some (DNumber ''1''))] =
      Inl (Error (''TroveAdjustmentParams: property '' @ js_join '', '' (map quote keys) @ '' not allowed''))"
  by (rule normalizeTroveAdjustment_unknown_key [where v = "DNumber ''1''"])
    (simp_all add: allowedTroveAdjustmentKeys_def)

text \<open>
  C31: Recreating a trove and opening it with the parameters found gives its collateral and at
  least its debt, with at most one unit more: a trove at the minimum debt stays at or above
  the minimum at any borrowing rate up to 100%.
\<close>

theorem create_recreate:
  assumes "LIQUIDATION_RESERVE k \<le> debt t" and "\<not> isEmpty t" and "r \<le> ONE"
  shows "\<exists>p t'. recreate k t (Some (DDecimal r)) = Inr p
    \<and> create k (creation_object p) (Some (DDecimal r)) = Inr t'
    \<and> collateral t' = collateral t \<and> debt t \<le> debt t'
    \<and> bigNumber (debt t') \<le> bigNumber (debt t) + 1"
  using recreate_reaches [OF assms] .

theorem create_recreate_witness:
  "\<exists>p t'. recreate default_constants \<lparr>collateral = ONE, debt = MINIMUM_DEBT default_constants\<rparr>
        (Some (DDecimal MAXIMUM_BORROWING_RATE)) = Inr p
    \<and> create default_constants (creation_object p) (Some (DDecimal MAXIMUM_BORROWING_RATE)) = Inr t'
    \<and> collateral t' = collateral \<lparr>collateral = ONE, debt = MINIMUM_DEBT default_constants\<rparr>
    \<and> debt \<lparr>collateral = ONE, debt = MINIMUM_DEBT default_constants\<rparr> \<le> debt t'
    \<and> bigNumber (debt t')
        \<le> bigNumber (debt \<lparr>collateral = ONE, debt = MINIMUM_DEBT default_constants\<rparr>) + 1"
  by (rule create_recreate)
    (simp_all add: default_constants_def isEmpty_iff ONE_def ZERO_def MAXIMUM_BORROWING_RATE_def DIGITS_eq)

text \<open>
  The parameters \<open>adjustTo\<close> finds between two non-empty troves pass the checks of
  \<open>adjust\<close>, and adjusting the first trove with them gives the second, up to one unit of
  debt (none at rate zero).
\<close>

theorem adjust_adjustTo:
  assumes "a \<noteq> b" and "\<not> isEmpty a" and "\<not> isEmpty b" and "r \<le> ONE"
  shows "\<exists>p t. adjustTo k a b (Some (DDecimal r)) = Inr p
    \<and> adjust k a (adjustment_object p) (Some (DDecimal r)) = Inr t
    \<and> collateral t = collateral b \<and> debt b \<le> debt t
    \<and> bigNumber (debt t) \<le> bigNumber (debt b) + 1 \<and> (r = ZERO \<longrightarrow> t = b)"
  using adjustTo_reaches [OF assms] .

theorem adjust_adjustTo_witness:
  "\<exists>p t. adjustTo default_constants \<lparr>collateral = ONE, debt = ONE\<rparr> \<lparr>collateral = ZERO, debt = HALF\<rparr>
        (Some (DDecimal HALF)) = Inr p
    \<and> adjust default_constants \<lparr>collateral = ONE, debt = ONE\<rparr> (adjustment_object p)
        (Some (DDecimal HALF)) = Inr t
    \<and> collateral t = collateral \<lparr>collateral = ZERO, debt = HALF\<rparr>
    \<and> debt \<lparr>collateral = ZERO, debt = HALF\<rparr> \<le> debt t
    \<and> bigNumber (debt t) \<le> bigNumber (debt \<lparr>collateral = ZERO, debt = HALF\<rparr>) + 1
    \<and> (HALF = ZERO \<longrightarrow> t = \<lparr>collateral = ZERO, debt = HALF\<rparr>)"
  by (rule adjust_adjustTo) (simp_all add: isEmpty_iff HALF_def ONE_def ZERO_def DIGITS_eq)

end
