(* ===== verification/Deposits.thy ===== *)
theory Deposits
  imports Decimal_Format
begin

text \<open>
  The classes \<open>StabilityDeposit\<close> and \<open>ProtocolTokenStake\<close> of
  \<^verbatim>\<open>packages/lib-base/src/StabilityDeposit.ts\<close> and \<^verbatim>\<open>ProtocolTokenStake.ts\<close>.  Both keep an
  amount and offer \<open>whatChanged\<close> and \<open>apply\<close> on it; the locale \<open>tracked_amount\<close> is that
  contract, and each class interprets it.
\<close>

section \<open>The contract\<close>

locale tracked_amount =
  fixes current :: "'s \<Rightarrow> decimal"
    and diff :: "'s \<Rightarrow> decimalish \<Rightarrow> 'c option result"
    and app :: "'s \<Rightarrow> 'c option \<Rightarrow> decimal result"
  assumes app_None: "app s None = Inr (current s)"
    and diff_from: "from_ish x = Inr d \<Longrightarrow> diff s x = diff s (DDecimal d)"
    and diff_total: "\<exists>c. diff s (DDecimal d) = Inr c"
    and diff_None: "diff s (DDecimal d) = Inr None \<Longrightarrow> d = current s"
    and diff_app: "diff s (DDecimal d) = Inr (Some c) \<Longrightarrow> app s (Some c) = Inr d"
    and diff_zero: "diff s (DDecimal ZERO) = Inr (Some c) \<Longrightarrow> app s' (Some c) = Inr ZERO"
begin

lemma roundtrip:
  assumes "from_ish x = Inr d"
  shows "\<exists>c. diff s x = Inr c \<and> app s c = Inr d"
proof -
  obtain c where c: "diff s (DDecimal d) = Inr c" using diff_total by blast
  have "app s c = Inr d"
  proof (cases c)
    case None
    with c show ?thesis using diff_None app_None by simp
  next
    case (Some v)
    with c show ?thesis using diff_app by simp
  qed
  with c show ?thesis using diff_from [OF assms] by simp
qed

lemma zeroing:
  assumes "current s \<noteq> ZERO"
  shows "\<exists>c. diff s (DDecimal ZERO) = Inr (Some c) \<and> (\<forall>s'. app s' (Some c) = Inr ZERO)"
proof -
  obtain c where c: "diff s (DDecimal ZERO) = Inr c" using diff_total by blast
  then obtain v where "c = Some v" using diff_None assms by (cases c) auto
  with c show ?thesis using diff_zero by blast
qed

end

section \<open>\<open>StabilityDeposit\<close>\<close>

datatype stability_deposit_change =
    DepositDebtToken decimalish
  | WithdrawDebtToken decimalish bool

record stability_deposit =
  initialDebtToken :: decimal
  currentDebtToken :: decimal
  collateralGain :: decimal
  protocolTokenReward :: decimal
  frontendTag :: string

definition new_StabilityDeposit ::
  "decimal \<Rightarrow> decimal \<Rightarrow> decimal \<Rightarrow> decimal \<Rightarrow> string \<Rightarrow> stability_deposit result" where
  "new_StabilityDeposit initial current gain reward tag =
     (if initial < current
      then Inl (Error (''currentDebtToken can'' @ [CHR 0x27] @ ''t be greater than initialDebtToken''))
      else Inr \<lparr>initialDebtToken = initial, currentDebtToken = current, collateralGain = gain,
                protocolTokenReward = reward, frontendTag = tag\<rparr>)"

definition deposit_isEmpty :: "stability_deposit \<Rightarrow> bool" where
  "deposit_isEmpty this \<longleftrightarrow>
     isZero (initialDebtToken this) \<and> isZero (currentDebtToken this) \<and>
     isZero (collateralGain this) \<and> isZero (protocolTokenReward this)"

definition deposit_toString :: "stability_deposit \<Rightarrow> string" where
  "deposit_toString this =
     ''{ initialDebtToken: '' @ showDecimal (initialDebtToken this) @
     '', currentDebtToken: '' @ showDecimal (currentDebtToken this) @
     '', collateralGain: '' @ showDecimal (collateralGain this) @
     '', protocolTokenReward: '' @ showDecimal (protocolTokenReward this) @
     '', frontendTag: '' @ [CHR 0x22] @ frontendTag this @ [CHR 0x22] @ '' }''"

definition deposit_equals :: "stability_deposit \<Rightarrow> stability_deposit \<Rightarrow> bool" where
  "deposit_equals this that \<longleftrightarrow>
     eq_dec (initialDebtToken this) (initialDebtToken that) \<and>
     eq_dec (currentDebtToken this) (currentDebtToken that) \<and>
     eq_dec (collateralGain this) (collateralGain that) \<and>
     eq_dec (protocolTokenReward this) (protocolTokenReward that) \<and>
     frontendTag this = frontendTag that"

definition deposit_whatChanged ::
  "stability_deposit \<Rightarrow> decimalish \<Rightarrow> stability_deposit_change option result" where
  "deposit_whatChanged this thatDebtTokenish =
     result_bind (from_ish thatDebtTokenish) (\<lambda>thatDebtToken.
       if thatDebtToken < currentDebtToken this then
         result_map (\<lambda>w. Some (WithdrawDebtToken (DDecimal w) (isZero thatDebtToken)))
           (sub_dec (currentDebtToken this) thatDebtToken)
       else if currentDebtToken this < thatDebtToken then
         result_map (\<lambda>d. Some (DepositDebtToken (DDecimal d)))
           (sub_dec thatDebtToken (currentDebtToken this))
       else Inr None)"

definition deposit_apply ::
  "stability_deposit \<Rightarrow> stability_deposit_change option \<Rightarrow> decimal result" where
  "deposit_apply this change =
     (case change of
        None \<Rightarrow> Inr (currentDebtToken this)
      | Some (WithdrawDebtToken w withdrawAll) \<Rightarrow>
          (if withdrawAll then Inr ZERO
           else result_bind (from_ish w) (\<lambda>d.
             if currentDebtToken this \<le> d then Inr ZERO else sub_dec (currentDebtToken this) d))
      | Some (DepositDebtToken d) \<Rightarrow> with_ish (add_dec (currentDebtToken this)) d)"

lemma deposit_equals_iff: "deposit_equals a b \<longleftrightarrow> a = b"
  by (cases a; cases b) (auto simp: deposit_equals_def)

text \<open>The arithmetic both classes share: the difference, added or taken away, gives the target.\<close>

lemma sub_then_add: "a < b \<Longrightarrow> \<exists>d. sub_dec b a = Inr d \<and> add_dec a d = b"
  by (metis less_imp_le sub_dec_Inr sub_dec_ok)

lemma sub_then_sub: "b < a \<Longrightarrow> \<exists>d. sub_dec a b = Inr d \<and> sub_dec a d = Inr b \<and> (b \<noteq> ZERO \<longrightarrow> d < a)"
  by (simp add: sub_dec_ok less_imp_le)
    (auto simp: sub_dec_Inr decimal_le_iff decimal_less_iff decimal_eq_iff)

interpretation deposit: tracked_amount currentDebtToken deposit_whatChanged deposit_apply
proof
  fix s s' :: stability_deposit and d :: decimal and c :: stability_deposit_change and x :: decimalish
  show "deposit_apply s None = Inr (currentDebtToken s)" by (simp add: deposit_apply_def)
  show "from_ish x = Inr d \<Longrightarrow> deposit_whatChanged s x = deposit_whatChanged s (DDecimal d)"
    by (simp add: deposit_whatChanged_def)
  show "\<exists>c. deposit_whatChanged s (DDecimal d) = Inr c"
    by (simp add: deposit_whatChanged_def sub_dec_ok less_imp_le)
  show "deposit_whatChanged s (DDecimal d) = Inr None \<Longrightarrow> d = currentDebtToken s"
    by (auto simp: deposit_whatChanged_def result_map_Inr split: if_splits)
  show "deposit_apply s (Some c) = Inr d" if "deposit_whatChanged s (DDecimal d) = Inr (Some c)"
    using that sub_then_add [of "currentDebtToken s" d] sub_then_sub [of d "currentDebtToken s"]
    by (auto simp: deposit_whatChanged_def deposit_apply_def result_map_Inr split: if_splits)
  show "deposit_apply s' (Some c) = Inr ZERO" if "deposit_whatChanged s (DDecimal ZERO) = Inr (Some c)"
    using that by (auto simp: deposit_whatChanged_def deposit_apply_def result_map_Inr split: if_splits)
qed

section \<open>\<open>ProtocolTokenStake\<close>\<close>

datatype stake_change =
    StakeProtocolToken decimalish
  | UnstakeProtocolToken decimalish bool

record protocol_token_stake =
  stakedProtocolToken :: decimal
  stakeCollateralGain :: decimal
  debtTokenGain :: decimal

definition stake_isEmpty :: "protocol_token_stake \<Rightarrow> bool" where
  "stake_isEmpty this \<longleftrightarrow>
     isZero (stakedProtocolToken this) \<and> isZero (stakeCollateralGain this) \<and> isZero (debtTokenGain this)"

definition stake_toString :: "protocol_token_stake \<Rightarrow> string" where
  "stake_toString this =
     ''{ stakedProtocolToken: '' @ showDecimal (stakedProtocolToken this) @
     '', collateralGain: '' @ showDecimal (stakeCollateralGain this) @
     '', debtTokenGain: '' @ showDecimal (debtTokenGain this) @ '' }''"

definition stake_equals :: "protocol_token_stake \<Rightarrow> protocol_token_stake \<Rightarrow> bool" where
  "stake_equals this that \<longleftrightarrow>
     eq_dec (stakedProtocolToken this) (stakedProtocolToken that) \<and>
     eq_dec (stakeCollateralGain this) (stakeCollateralGain that) \<and>
     eq_dec (debtTokenGain this) (debtTokenGain that)"

definition stake_whatChanged ::
  "protocol_token_stake \<Rightarrow> decimalish \<Rightarrow> stake_change option result" where
  "stake_whatChanged this thatStakedish =
     result_bind (from_ish thatStakedish) (\<lambda>thatStaked.
       if thatStaked < stakedProtocolToken this then
         result_map (\<lambda>w. Some (UnstakeProtocolToken (DDecimal w) (isZero thatStaked)))
           (sub_dec (stakedProtocolToken this) thatStaked)
       else if stakedProtocolToken this < thatStaked then
         result_map (\<lambda>d. Some (StakeProtocolToken (DDecimal d)))
           (sub_dec thatStaked (stakedProtocolToken this))
       else Inr None)"

definition stake_apply :: "protocol_token_stake \<Rightarrow> stake_change option \<Rightarrow> decimal result" where
  "stake_apply this change =
     (case change of
        None \<Rightarrow> Inr (stakedProtocolToken this)
      | Some (UnstakeProtocolToken w unstakeAll) \<Rightarrow>
          (if unstakeAll then Inr ZERO
           else result_bind (from_ish w) (\<lambda>d.
             if stakedProtocolToken this \<le> d then Inr ZERO else sub_dec (stakedProtocolToken this) d))
      | Some (StakeProtocolToken d) \<Rightarrow> with_ish (add_dec (stakedProtocolToken this)) d)"

lemma stake_equals_iff: "stake_equals a b \<longleftrightarrow> a = b"
  by (cases a; cases b) (auto simp: stake_equals_def)

interpretation stake: tracked_amount stakedProtocolToken stake_whatChanged stake_apply
proof
  fix s s' :: protocol_token_stake and d :: decimal and c :: stake_change and x :: decimalish
  show "stake_apply s None = Inr (stakedProtocolToken s)" by (simp add: stake_apply_def)
  show "from_ish x = Inr d \<Longrightarrow> stake_whatChanged s x = stake_whatChanged s (DDecimal d)"
    by (simp add: stake_whatChanged_def)
  show "\<exists>c. stake_whatChanged s (DDecimal d) = Inr c"
    by (simp add: stake_whatChanged_def sub_dec_ok less_imp_le)
  show "stake_whatChanged s (DDecimal d) = Inr None \<Longrightarrow> d = stakedProtocolToken s"
    by (auto simp: stake_whatChanged_def result_map_Inr split: if_splits)
  show "stake_apply s (Some c) = Inr d" if "stake_whatChanged s (DDecimal d) = Inr (Some c)"
    using that sub_then_add [of "stakedProtocolToken s" d] sub_then_sub [of d "stakedProtocolToken s"]
    by (auto simp: stake_whatChanged_def stake_apply_def result_map_Inr split: if_splits)
  show "stake_apply s' (Some c) = Inr ZERO" if "stake_whatChanged s (DDecimal ZERO) = Inr (Some c)"
    using that by (auto simp: stake_whatChanged_def stake_apply_def result_map_Inr split: if_splits)
qed

section \<open>Properties\<close>

text \<open>
  For a stability deposit and a protocol token stake alike, the difference to any amount
  the caller can write (a number, a string or a \<open>Decimal\<close>) applied to the same object
  gives exactly that amount, and neither step throws.
\<close>

theorem deposit_and_stake_roundtrip:
  assumes "from_ish x = Inr d"
  shows "(\<exists>c. deposit_whatChanged s x = Inr c \<and> deposit_apply s c = Inr d)
    \<and> (\<exists>c. stake_whatChanged t x = Inr c \<and> stake_apply t c = Inr d)"
  using deposit.roundtrip [OF assms] stake.roundtrip [OF assms] by blast

theorem deposit_and_stake_roundtrip_witness:
  "(\<exists>c. deposit_whatChanged \<lparr>initialDebtToken = ONE, currentDebtToken = ONE, collateralGain = ZERO,
        protocolTokenReward = ZERO, frontendTag = ''''\<rparr> (DString ''1.5'') = Inr c
      \<and> deposit_apply \<lparr>initialDebtToken = ONE, currentDebtToken = ONE, collateralGain = ZERO,
        protocolTokenReward = ZERO, frontendTag = ''''\<rparr> c = Inr (Decimal 1500000000000000000))
    \<and> (\<exists>c. stake_whatChanged \<lparr>stakedProtocolToken = ONE, stakeCollateralGain = ZERO, debtTokenGain = ZERO\<rparr>
          (DString ''1.5'') = Inr c
      \<and> stake_apply \<lparr>stakedProtocolToken = ONE, stakeCollateralGain = ZERO, debtTokenGain = ZERO\<rparr> c
          = Inr (Decimal 1500000000000000000))"
  by (rule deposit_and_stake_roundtrip)
    (use fromString_fraction [of "''1''" "''5''"] in \<open>simp add: numeral_eval\<close>)

text \<open>
  A change that empties one deposit (or stake) empties any other it is applied to, even
  a larger one: zeroing does not leave dust behind.
\<close>

theorem deposit_and_stake_zeroing:
  assumes "currentDebtToken s \<noteq> ZERO" and "stakedProtocolToken t \<noteq> ZERO"
  shows "(\<exists>c. deposit_whatChanged s (DDecimal ZERO) = Inr (Some c)
        \<and> (\<forall>s'. deposit_apply s' (Some c) = Inr ZERO))
    \<and> (\<exists>c. stake_whatChanged t (DDecimal ZERO) = Inr (Some c)
        \<and> (\<forall>t'. stake_apply t' (Some c) = Inr ZERO))"
  using deposit.zeroing [OF assms(1)] stake.zeroing [OF assms(2)] by blast

theorem deposit_and_stake_zeroing_witness:
  "(\<exists>c. deposit_whatChanged \<lparr>initialDebtToken = ONE, currentDebtToken = ONE, collateralGain = ZERO,
        protocolTokenReward = ZERO, frontendTag = ''''\<rparr> (DDecimal ZERO) = Inr (Some c)
      \<and> (\<forall>s'. deposit_apply s' (Some c) = Inr ZERO))
    \<and> (\<exists>c. stake_whatChanged \<lparr>stakedProtocolToken = ONE, stakeCollateralGain = ZERO, debtTokenGain = ZERO\<rparr>
          (DDecimal ZERO) = Inr (Some c)
      \<and> (\<forall>t'. stake_apply t' (Some c) = Inr ZERO))"
  by (rule deposit_and_stake_zeroing) (simp_all add: decimal_eq_iff)

end
