(* ===== verification/Protocol_Types.thy ===== *)
theory Protocol_Types
  imports Sdk_Decimal Complex_Main
begin

text \<open>
  Types of \<^verbatim>\<open>packages/lib-base/src/ReadableProtocol.ts\<close> that several components share.
\<close>

datatype frontend_status =
    Unregistered
  | Registered decimal

text \<open>
  Parameters of a listing.  A JavaScript number is a rational here; \<open>sortedBy\<close>, a union of two
  literals for the type checker, is a string for the callers it does not check.
\<close>

record trove_listing_params =
  listing_first :: rat
  sortedBy :: string
  startingAt :: "rat option"
  beforeRedistribution :: "bool option"

end
