(* ===== verification/Ethers_Connection.thy ===== *)
theory Ethers_Connection
  imports Protocol_Types
begin

text \<open>
  Connections of \<^verbatim>\<open>packages/lib-ethers\<close>: \<^verbatim>\<open>src/EthersConnection.ts\<close>, \<^verbatim>\<open>src/_Multicall.ts\<close>,
  \<^verbatim>\<open>src/_utils.ts\<close> and the connecting half of \<^verbatim>\<open>src/contracts.ts\<close>.

  What ethers and the chain do is a parameter: a provider and a signer are records of the
  functions the code calls, an ABI is an element of \<open>'abi\<close>, a deployment is the record its
  JSON file holds.  A promise is the result it settles to.  A \<open>BigNumber\<close> a contract returns
  is a \<open>uint256\<close>, a natural number.
\<close>

section \<open>\<^verbatim>\<open>_utils.ts\<close>\<close>

text \<open>\<open>toNumber\<close> throws above \<open>Number.MAX_SAFE_INTEGER\<close>.\<close>

definition MAX_SAFE_INTEGER :: int where
  "MAX_SAFE_INTEGER = 9007199254740991"

definition numberify :: "nat \<Rightarrow> int result" where
  "numberify n =
     (if int n \<le> MAX_SAFE_INTEGER then Inr (int n)
      else Inl (Error ''overflow''))"

definition decimalify :: "nat \<Rightarrow> decimal result" where
  "decimalify n = fromBigNumberString (int n)"

lemma decimalify_eq [simp]: "decimalify n = Inr (Decimal n)"
  by (simp add: decimalify_def fromBigNumberString_def new_Decimal_def)

section \<open>Providers, signers, overrides\<close>

datatype block_tag = BlockNumber int | BlockName string

record call_overrides =
  blockTag :: "block_tag option"

record tx_overrides =
  ov_from :: "string option"
  ov_nonce :: "nat option"
  ov_gasLimit :: "nat option"
  ov_gasPrice :: "nat option"

definition no_call_overrides :: call_overrides where
  "no_call_overrides = \<lparr>blockTag = None\<rparr>"

definition no_overrides :: tx_overrides where
  "no_overrides = \<lparr>ov_from = None, ov_nonce = None, ov_gasLimit = None, ov_gasPrice = None\<rparr>"

text \<open>\<open>{ ...overrides }\<close>\<close>

definition spread :: "call_overrides option \<Rightarrow> call_overrides" where
  "spread overrides = (case overrides of None \<Rightarrow> no_call_overrides | Some x \<Rightarrow> x)"

record provider =
  getNetwork_chainId :: "nat result"
  getBlock_timestamp :: "block_tag \<Rightarrow> int result"
  getBalance :: "string \<Rightarrow> block_tag option \<Rightarrow> nat result"

record ('p, 't) signer =
  signer_provider :: "provider option"
  getAddress :: "string result"
  sendTransaction :: "'p \<Rightarrow> 't result"

datatype ('p, 't) signer_or_provider = ASigner "('p, 't) signer" | AProvider provider

section \<open>\<^verbatim>\<open>contracts.ts\<close>: connecting\<close>

record deployment =
  chainId :: nat
  deployment_addresses :: "(string \<times> string) list"
  version :: string
  deploymentDate :: int
  startBlock :: nat
  bootstrapPeriod :: nat
  dep_totalStabilityPoolProtocolTokenReward :: string
  dep_liquidityMiningProtocolTokenRewardRate :: string
  priceFeedIsTestnet :: bool
  uniTokenIsMock :: bool
  isDev :: bool

record ('abi, 'p, 't) protocol_contract =
  contract_address :: string
  contract_abi :: "'abi option"
  contract_runner :: "('p, 't) signer_or_provider"

definition getAbi :: "(string \<Rightarrow> 'abi) \<Rightarrow> bool \<Rightarrow> bool \<Rightarrow> string \<rightharpoonup> 'abi" where
  "getAbi json testnetFeed mockToken = map_of
     [(''activePool'', json ''ActivePool''), (''borrowerOperations'', json ''BorrowerOperations''),
      (''troveManager'', json ''TroveManager''), (''debtToken'', json ''DebtToken''),
      (''communityIssuance'', json ''CommunityIssuance''), (''defaultPool'', json ''DefaultPool''),
      (''protocolToken'', json ''ProtocolToken''), (''hintHelpers'', json ''HintHelpers''),
      (''lockupContractFactory'', json ''LockupContractFactory''),
      (''protocolTokenStaking'', json ''ProtocolTokenStaking''),
      (''multiTroveGetter'', json ''MultiTroveGetter''),
      (''priceFeed'', if testnetFeed then json ''MockPriceFeed'' else json ''PriceFeed''),
      (''sortedTroves'', json ''SortedTroves''), (''stabilityPool'', json ''StabilityPool''),
      (''gasPool'', json ''GasPool''), (''collSurplusPool'', json ''CollSurplusPool''),
      (''unipool'', json ''Unipool''),
      (''uniToken'', if mockToken then json ''ERC20Mock'' else json ''IERC20''),
      (''usdfcView'', json ''USDFCView'')]"

definition mapContracts :: "('a \<Rightarrow> string \<Rightarrow> 'b) \<Rightarrow> (string \<times> 'a) list \<Rightarrow> (string \<times> 'b) list" where
  "mapContracts f contracts = map (\<lambda>(key, t). (key, f t key)) contracts"

definition connectToContracts ::
  "(string \<Rightarrow> 'abi) \<Rightarrow> ('p, 't) signer_or_provider \<Rightarrow> deployment \<Rightarrow>
     (string \<times> ('abi, 'p, 't) protocol_contract) list" where
  "connectToContracts json runner dep =
     (let abi = getAbi json (priceFeedIsTestnet dep) (uniTokenIsMock dep)
      in mapContracts
           (\<lambda>address key. \<lparr>contract_address = address, contract_abi = abi key, contract_runner = runner\<rparr>)
           (deployment_addresses dep))"

section \<open>\<^verbatim>\<open>_Multicall.ts\<close>\<close>

definition multicallAddress :: "nat \<rightharpoonup> string" where
  "multicallAddress = map_of
     [(1, ''0xeefba1e63905ef1d7acba5a8513c70307c1ce441''),
      (3, ''0x53c43764255c17bd724f74c4ef150724ac50a3ed''),
      (4, ''0x42ad527de7d4e9d9d011ac45b31d8551f8fe9821''),
      (5, ''0x77dca2c955b15e9de4dbbcf1246b4b85b651e50e''),
      (42, ''0x2cc8688c5f75e365aaeeb4ea8d6a480405a48d2a'')]"

definition hasMulticall :: "nat \<Rightarrow> bool" where
  "hasMulticall chain \<longleftrightarrow> multicallAddress chain \<noteq> None"

text \<open>The multicall contract: its \<open>getCurrentBlockTimestamp\<close>, at the address of the chain.\<close>

definition connectToMulticall ::
  "(string \<Rightarrow> call_overrides \<Rightarrow> nat result) \<Rightarrow> nat \<Rightarrow> (call_overrides \<Rightarrow> nat result) option" where
  "connectToMulticall contract chain =
     (if hasMulticall chain then map_option contract (multicallAddress chain) else None)"

section \<open>\<^verbatim>\<open>EthersConnection.ts\<close>\<close>

record optional_params =
  opt_userAddress :: "string option"
  opt_frontendTag :: "string option"
  opt_useStore :: "string option"

record ('abi, 'p, 't) connection =
  con_provider :: provider
  con_signer :: "('p, 't) signer option"
  con_contracts :: "(string \<times> ('abi, 'p, 't) protocol_contract) list"
  multicall :: "(call_overrides \<Rightarrow> nat result) option"
  con_chainId :: nat
  con_deploymentDate :: int
  totalStabilityPoolProtocolTokenReward :: decimal
  liquidityMiningProtocolTokenRewardRate :: decimal
  con_deployment :: deployment
  userAddress :: "string option"
  con_frontendTag :: "string option"
  useStore :: "string option"

definition validStoreOptions :: "string list" where
  "validStoreOptions = [''blockPolled'']"

definition connectionFrom ::
  "provider \<Rightarrow> ('p, 't) signer option \<Rightarrow> (string \<times> ('abi, 'p, 't) protocol_contract) list \<Rightarrow>
     (call_overrides \<Rightarrow> nat result) option \<Rightarrow> deployment \<Rightarrow> optional_params option \<Rightarrow>
     ('abi, 'p, 't) connection result" where
  "connectionFrom prov sig contracts mcall dep optionalParams =
     (let store = Option.bind optionalParams opt_useStore in
      if store \<noteq> None \<and> the store \<notin> set validStoreOptions
      then Inl (Error (''Invalid useStore value '' @ the store))
      else
        result_bind (from_ish (DString (dep_totalStabilityPoolProtocolTokenReward dep))) (\<lambda>total.
        result_map (\<lambda>rate.
          \<lparr>con_provider = prov, con_signer = sig, con_contracts = contracts, multicall = mcall,
           con_chainId = chainId dep, con_deploymentDate = deploymentDate dep,
           totalStabilityPoolProtocolTokenReward = total,
           liquidityMiningProtocolTokenRewardRate = rate,
           con_deployment = dep,
           userAddress = Option.bind optionalParams opt_userAddress,
           con_frontendTag = Option.bind optionalParams opt_frontendTag,
           useStore = store\<rparr>)
          (from_ish (DString (dep_liquidityMiningProtocolTokenRewardRate dep)))))"

text \<open>The default of \<open>blockTag\<close> is \<open>"latest"\<close>.\<close>

definition getBlockTimestamp :: "('abi, 'p, 't) connection \<Rightarrow> block_tag option \<Rightarrow> int result" where
  "getBlockTimestamp con tagOpt =
     (let tag = (case tagOpt of None \<Rightarrow> BlockName ''latest'' | Some t \<Rightarrow> t)
      in case multicall con of
           Some getCurrentBlockTimestamp \<Rightarrow>
             result_bind (getCurrentBlockTimestamp \<lparr>blockTag = Some tag\<rparr>) numberify
         | None \<Rightarrow> getBlock_timestamp (con_provider con) tag)"

definition requireSigner :: "('abi, 'p, 't) connection \<Rightarrow> ('p, 't) signer result" where
  "requireSigner con =
     (case con_signer con of
        Some s \<Rightarrow> Inr s
      | None \<Rightarrow> Inl (Error ''Must be connected through a Signer''))"

definition requireAddress :: "('abi, 'p, 't) connection \<Rightarrow> tx_overrides option \<Rightarrow> string result" where
  "requireAddress con overrides =
     (case Option.bind overrides ov_from of
        Some a \<Rightarrow> Inr a
      | None \<Rightarrow> (case userAddress con of
                   Some a \<Rightarrow> Inr a
                 | None \<Rightarrow> Inl (Error ''A user address is required'')))"

definition requireFrontendAddress :: "('abi, 'p, 't) connection \<Rightarrow> string result" where
  "requireFrontendAddress con =
     (case con_frontendTag con of
        Some a \<Rightarrow> Inr a
      | None \<Rightarrow> Inl (Error ''A frontend address is required''))"

definition usingStore :: "('abi, 'p, 't) connection \<Rightarrow> bool" where
  "usingStore con \<longleftrightarrow> useStore con \<noteq> None"

definition getProviderAndSigner ::
  "('p, 't) signer_or_provider \<Rightarrow> (provider \<times> ('p, 't) signer option) result" where
  "getProviderAndSigner x =
     (case x of
        ASigner s \<Rightarrow>
          (case signer_provider s of
             Some p \<Rightarrow> Inr (p, Some s)
           | None \<Rightarrow> Inl (Error ''Signer must have a Provider''))
      | AProvider p \<Rightarrow> Inr (p, None))"

definition connectToDeployment ::
  "(string \<Rightarrow> 'abi) \<Rightarrow> deployment \<Rightarrow> ('p, 't) signer_or_provider \<Rightarrow> optional_params option \<Rightarrow>
     ('abi, 'p, 't) connection result" where
  "connectToDeployment json dep x optionalParams =
     result_bind (getProviderAndSigner x) (\<lambda>(prov, sig).
       connectionFrom prov sig (connectToContracts json x dep) None dep optionalParams)"

text \<open>The table of deployments: later entries of the object replace earlier ones.\<close>

definition deployments :: "deployment \<Rightarrow> deployment \<Rightarrow> deployment option \<Rightarrow> nat \<rightharpoonup> deployment" where
  "deployments mainnet testnet dev =
     (let known = Map.empty(chainId mainnet \<mapsto> mainnet, chainId testnet \<mapsto> testnet)
      in case dev of None \<Rightarrow> known | Some d \<Rightarrow> known(chainId d \<mapsto> d))"

definition connectByChainId ::
  "(string \<Rightarrow> 'abi) \<Rightarrow> (string \<Rightarrow> call_overrides \<Rightarrow> nat result) \<Rightarrow> (nat \<rightharpoonup> deployment) \<Rightarrow>
     provider \<Rightarrow> ('p, 't) signer option \<Rightarrow> nat \<Rightarrow> optional_params option \<Rightarrow> ('abi, 'p, 't) connection result" where
  "connectByChainId json multicallContract known prov sig chain optionalParams =
     (case known chain of
        None \<Rightarrow> Inl (Error (''Unsupported network (chainId = '' @ show_nat chain @ '')''))
      | Some dep \<Rightarrow>
          connectionFrom prov sig (connectToContracts json (AProvider prov) dep)
            (connectToMulticall multicallContract chain) dep optionalParams)"

definition connect ::
  "(string \<Rightarrow> 'abi) \<Rightarrow> (string \<Rightarrow> call_overrides \<Rightarrow> nat result) \<Rightarrow> (nat \<rightharpoonup> deployment) \<Rightarrow>
     ('p, 't) signer_or_provider \<Rightarrow> optional_params option \<Rightarrow> ('abi, 'p, 't) connection result" where
  "connect json multicallContract known x optionalParams =
     result_bind (getProviderAndSigner x) (\<lambda>(prov, sig).
     result_bind
       (case sig of
          None \<Rightarrow> Inr optionalParams
        | Some s \<Rightarrow>
            (if Option.bind optionalParams opt_userAddress \<noteq> None
             then Inl (Error (''Can'' @ [CHR 0x27] @ ''t override userAddress when connecting through Signer''))
             else result_map (\<lambda>address.
                    Some (case optionalParams of
                            None \<Rightarrow> \<lparr>opt_userAddress = Some address, opt_frontendTag = None, opt_useStore = None\<rparr>
                          | Some opts \<Rightarrow> opts\<lparr>opt_userAddress := Some address\<rparr>))
                  (getAddress s))) (\<lambda>params.
     result_bind (getNetwork_chainId prov) (\<lambda>chain.
       connectByChainId json multicallContract known prov sig chain params)))"

section \<open>Lemmas\<close>

lemma deployments_chainId:
  "deployments mainnet testnet dev c = Some dep \<Longrightarrow> chainId dep = c"
  by (auto simp: deployments_def Let_def split: option.splits if_splits)

lemma connectionFrom_Inr:
  assumes "connectionFrom prov sig cs mc dep opts = Inr con"
  shows "con_provider con = prov" "con_signer con = sig" "con_contracts con = cs" "multicall con = mc"
    "con_chainId con = chainId dep" "con_deployment con = dep"
    "userAddress con = Option.bind opts opt_userAddress"
    "con_frontendTag con = Option.bind opts opt_frontendTag"
    "useStore con = Option.bind opts opt_useStore" "useStore con \<in> {None, Some ''blockPolled''}"
  using assms
  by (cases "Option.bind opts opt_useStore";
      auto simp: connectionFrom_def Let_def validStoreOptions_def result_bind_Inr result_map_Inr
      simp del: from_ish.simps split: if_splits)+

lemma connectByChainId_Inr:
  assumes "connectByChainId json mc (deployments mainnet testnet dev) prov sig chain opts = Inr con"
  obtains dep where "deployments mainnet testnet dev chain = Some dep" "chainId dep = chain"
    "connectionFrom prov sig (connectToContracts json (AProvider prov) dep)
       (connectToMulticall mc chain) dep opts = Inr con"
  using assms deployments_chainId by (auto simp: connectByChainId_def split: option.splits)

section \<open>Properties\<close>

text \<open>
  A connection that is made is the one asked for: it is to the chain the provider is on,
  with that chain's deployment and the frontend asked for; reached through a signer it acts for
  the signer's address and no other, reached through a provider it cannot sign; and it uses no
  store but a known one.  Connecting through a signer with a user address always fails.
\<close>

theorem connect_establishes:
  assumes "connect json mc (deployments mainnet testnet dev) x opts = Inr con"
  shows "getNetwork_chainId (con_provider con) = Inr (con_chainId con)
    \<and> deployments mainnet testnet dev (con_chainId con) = Some (con_deployment con)
    \<and> con_frontendTag con = Option.bind opts opt_frontendTag
    \<and> useStore con = Option.bind opts opt_useStore \<and> useStore con \<in> {None, Some ''blockPolled''}
    \<and> (case x of
         ASigner s \<Rightarrow> Option.bind opts opt_userAddress = None \<and> con_signer con = Some s
           \<and> signer_provider s = Some (con_provider con)
           \<and> (\<exists>a. getAddress s = Inr a \<and> userAddress con = Some a)
       | AProvider p \<Rightarrow> con_signer con = None \<and> con_provider con = p
           \<and> userAddress con = Option.bind opts opt_userAddress)"
proof -
  from assms obtain prov sig params chain where
    x: "getProviderAndSigner x = Inr (prov, sig)" and
    params: "(case sig of
          None \<Rightarrow> Inr opts
        | Some s \<Rightarrow>
            (if Option.bind opts opt_userAddress \<noteq> None
             then Inl (Error (''Can'' @ [CHR 0x27] @ ''t override userAddress when connecting through Signer''))
             else result_map (\<lambda>address.
                    Some (case opts of
                            None \<Rightarrow> \<lparr>opt_userAddress = Some address, opt_frontendTag = None, opt_useStore = None\<rparr>
                          | Some o' \<Rightarrow> o'\<lparr>opt_userAddress := Some address\<rparr>))
                  (getAddress s))) = Inr params" and
    chain: "getNetwork_chainId prov = Inr chain" and
    con: "connectByChainId json mc (deployments mainnet testnet dev) prov sig chain params = Inr con"
    by (auto simp: connect_def result_bind_Inr split: prod.splits)
  from connectByChainId_Inr [OF con] obtain dep where
    dep: "deployments mainnet testnet dev chain = Some dep" "chainId dep = chain" and
    made: "connectionFrom prov sig (connectToContracts json (AProvider prov) dep)
       (connectToMulticall mc chain) dep params = Inr con" by blast
  note fields = connectionFrom_Inr [OF made]
  show ?thesis
  proof (cases x)
    case (AProvider p)
    with x have "prov = p" "sig = None" by (auto simp: getProviderAndSigner_def)
    with params AProvider dep chain fields show ?thesis by simp
  next
    case (ASigner s)
    with x have "signer_provider s = Some prov" "sig = Some s"
      by (auto simp: getProviderAndSigner_def split: option.splits)
    with params ASigner dep chain fields show ?thesis
      by (cases opts) (auto simp: result_map_Inr split: if_splits)
  qed
qed

definition sample_deployment :: deployment where
  "sample_deployment =
     \<lparr>chainId = 314, deployment_addresses = [], version = ''1'', deploymentDate = 0, startBlock = 0,
      bootstrapPeriod = 0, dep_totalStabilityPoolProtocolTokenReward = ''32'',
      dep_liquidityMiningProtocolTokenRewardRate = ''0'', priceFeedIsTestnet = False,
      uniTokenIsMock = False, isDev = False\<rparr>"

definition sample_provider :: provider where
  "sample_provider =
     \<lparr>getNetwork_chainId = Inr 314, getBlock_timestamp = \<lambda>_. Inr 0, getBalance = \<lambda>_ _. Inr 0\<rparr>"

lemma sample_rewards:
  "fromString ''32'' = Inr (Decimal 32000000000000000000)" "fromString ''0'' = Inr (Decimal 0)"
  using fromString_digits [of "''32''"] fromString_digits [of "''0''"] by (simp_all add: numeral_eval)

theorem connect_establishes_witness:
  "\<exists>con. connect (\<lambda>n. n) (\<lambda>_ _. Inr 0) (deployments sample_deployment sample_deployment None)
      (AProvider sample_provider :: (unit, unit) signer_or_provider) None = Inr con
    \<and> con_chainId con = 314 \<and> con_signer con = None"
proof -
  obtain con where con: "connect (\<lambda>n. n) (\<lambda>_ _. Inr 0) (deployments sample_deployment sample_deployment None)
      (AProvider sample_provider :: (unit, unit) signer_or_provider) None = Inr con"
    by (simp add: connect_def getProviderAndSigner_def sample_provider_def sample_deployment_def
        connectByChainId_def deployments_def connectionFrom_def sample_rewards)
  from connect_establishes [OF con] con show ?thesis
    by (auto simp: sample_provider_def)
qed

end
