(* ===== verification/Cached_Readable.thy ===== *)
theory Cached_Readable
  imports Protocol_Types Sdk_Fees Sdk_Trove Deposits
begin

text \<open>
  The interface \<open>ReadableProtocol\<close> and the class \<open>_CachedReadableProtocol\<close>, of
  \<^verbatim>\<open>packages/lib-base/src/ReadableProtocol.ts\<close> and \<^verbatim>\<open>_CachedReadableProtocol.ts\<close>: reads are
  answered from a cache, or else forwarded.  An object with the interface is a record of
  its methods; \<open>'e\<close> is the type of the extra parameters.  A promise is the result it settles
  to, \<open>Promise.all\<close> the results in order.

  The locale \<open>redistributing\<close> is the contract of a readable: the two methods that apply the
  redistribution agree with the ones that do not.  The cached readable interprets it, whatever
  it wraps, and so does the readable of the chain, in \<^verbatim>\<open>Ethers_Readable\<close>, where the property
  of the cache is stated.
\<close>

section \<open>The interface\<close>

record 'e readable =
  getTotalRedistributed :: "'e \<Rightarrow> trove result"
  getTroveBeforeRedistribution :: "string option \<Rightarrow> 'e \<Rightarrow> pending_trove result"
  getTrove :: "string option \<Rightarrow> 'e \<Rightarrow> user_trove result"
  getNumberOfTroves :: "'e \<Rightarrow> int result"
  getPrice :: "'e \<Rightarrow> decimal result"
  getTotal :: "'e \<Rightarrow> trove result"
  getStabilityDeposit :: "string option \<Rightarrow> 'e \<Rightarrow> stability_deposit result"
  getRemainingStabilityPoolProtocolTokenReward :: "'e \<Rightarrow> decimal result"
  getDebtTokenInStabilityPool :: "'e \<Rightarrow> decimal result"
  getDebtTokenBalance :: "string option \<Rightarrow> 'e \<Rightarrow> decimal result"
  getProtocolTokenBalance :: "string option \<Rightarrow> 'e \<Rightarrow> decimal result"
  getUniTokenBalance :: "string option \<Rightarrow> 'e \<Rightarrow> decimal result"
  getUniTokenAllowance :: "string option \<Rightarrow> 'e \<Rightarrow> decimal result"
  getRemainingProtocolMiningProtocolTokenReward :: "'e \<Rightarrow> decimal result"
  getLiquidityMiningStake :: "string option \<Rightarrow> 'e \<Rightarrow> decimal result"
  getTotalStakedUniTokens :: "'e \<Rightarrow> decimal result"
  getLiquidityMiningProtocolTokenReward :: "string option \<Rightarrow> 'e \<Rightarrow> decimal result"
  getCollateralSurplusBalance :: "string option \<Rightarrow> 'e \<Rightarrow> decimal result"
  getTroves :: "trove_listing_params \<Rightarrow> 'e \<Rightarrow> (pending_trove list + user_trove list) result"
  getFees :: "'e \<Rightarrow> fees result"
  getProtocolTokenStake :: "string option \<Rightarrow> 'e \<Rightarrow> protocol_token_stake result"
  getTotalStakedProtocolToken :: "'e \<Rightarrow> decimal result"
  getFrontendStatus :: "string option \<Rightarrow> 'e \<Rightarrow> frontend_status result"
  findHintsForNominalCollateralRatio :: "decimalish \<Rightarrow> 'e \<Rightarrow> (string \<times> string) result"
  findRedemptionHints :: "decimalish \<Rightarrow> 'e \<Rightarrow> (decimal \<times> string \<times> string \<times> string \<times> int) result"
  getDebtInFront :: "string \<Rightarrow> int \<Rightarrow> 'e \<Rightarrow> (decimal \<times> string) result"

text \<open>The cache answers synchronously, or with \<open>undefined\<close>.\<close>

record 'e read_cache =
  cache_getTotalRedistributed :: "'e \<Rightarrow> trove option"
  cache_getTroveBeforeRedistribution :: "string option \<Rightarrow> 'e \<Rightarrow> pending_trove option"
  cache_getTrove :: "string option \<Rightarrow> 'e \<Rightarrow> user_trove option"
  cache_getNumberOfTroves :: "'e \<Rightarrow> int option"
  cache_getPrice :: "'e \<Rightarrow> decimal option"
  cache_getTotal :: "'e \<Rightarrow> trove option"
  cache_getStabilityDeposit :: "string option \<Rightarrow> 'e \<Rightarrow> stability_deposit option"
  cache_getRemainingStabilityPoolProtocolTokenReward :: "'e \<Rightarrow> decimal option"
  cache_getDebtTokenInStabilityPool :: "'e \<Rightarrow> decimal option"
  cache_getDebtTokenBalance :: "string option \<Rightarrow> 'e \<Rightarrow> decimal option"
  cache_getProtocolTokenBalance :: "string option \<Rightarrow> 'e \<Rightarrow> decimal option"
  cache_getUniTokenBalance :: "string option \<Rightarrow> 'e \<Rightarrow> decimal option"
  cache_getUniTokenAllowance :: "string option \<Rightarrow> 'e \<Rightarrow> decimal option"
  cache_getRemainingProtocolMiningProtocolTokenReward :: "'e \<Rightarrow> decimal option"
  cache_getLiquidityMiningStake :: "string option \<Rightarrow> 'e \<Rightarrow> decimal option"
  cache_getTotalStakedUniTokens :: "'e \<Rightarrow> decimal option"
  cache_getLiquidityMiningProtocolTokenReward :: "string option \<Rightarrow> 'e \<Rightarrow> decimal option"
  cache_getCollateralSurplusBalance :: "string option \<Rightarrow> 'e \<Rightarrow> decimal option"
  cache_getTroves :: "trove_listing_params \<Rightarrow> 'e \<Rightarrow> (pending_trove list + user_trove list) option"
  cache_getFees :: "'e \<Rightarrow> fees option"
  cache_getProtocolTokenStake :: "string option \<Rightarrow> 'e \<Rightarrow> protocol_token_stake option"
  cache_getTotalStakedProtocolToken :: "'e \<Rightarrow> decimal option"
  cache_getFrontendStatus :: "string option \<Rightarrow> 'e \<Rightarrow> frontend_status option"
  cache_findHintsForNominalCollateralRatio :: "decimalish \<Rightarrow> 'e \<Rightarrow> (string \<times> string) option"
  cache_findRedemptionHints :: "decimalish \<Rightarrow> 'e \<Rightarrow> (decimal \<times> string \<times> string \<times> string \<times> int) option"
  cache_getDebtInFront :: "string \<Rightarrow> int \<Rightarrow> 'e \<Rightarrow> (decimal \<times> string) option"

text \<open>\<open>cached ?? readable\<close>.\<close>

definition or_else :: "'a option \<Rightarrow> 'a result \<Rightarrow> 'a result" where
  "or_else cached readable = (case cached of Some x \<Rightarrow> Inr x | None \<Rightarrow> readable)"

definition cached_getTotalRedistributed :: "'e read_cache \<Rightarrow> 'e readable \<Rightarrow> 'e \<Rightarrow> trove result" where
  "cached_getTotalRedistributed cache readable extra =
     or_else (cache_getTotalRedistributed cache extra) (getTotalRedistributed readable extra)"

definition cached_getTroveBeforeRedistribution :: "'e read_cache \<Rightarrow> 'e readable \<Rightarrow> string option \<Rightarrow> 'e \<Rightarrow> pending_trove result" where
  "cached_getTroveBeforeRedistribution cache readable address extra =
     or_else (cache_getTroveBeforeRedistribution cache address extra) (getTroveBeforeRedistribution readable address extra)"

definition cached_getNumberOfTroves :: "'e read_cache \<Rightarrow> 'e readable \<Rightarrow> 'e \<Rightarrow> int result" where
  "cached_getNumberOfTroves cache readable extra =
     or_else (cache_getNumberOfTroves cache extra) (getNumberOfTroves readable extra)"

definition cached_getPrice :: "'e read_cache \<Rightarrow> 'e readable \<Rightarrow> 'e \<Rightarrow> decimal result" where
  "cached_getPrice cache readable extra =
     or_else (cache_getPrice cache extra) (getPrice readable extra)"

definition cached_getTotal :: "'e read_cache \<Rightarrow> 'e readable \<Rightarrow> 'e \<Rightarrow> trove result" where
  "cached_getTotal cache readable extra =
     or_else (cache_getTotal cache extra) (getTotal readable extra)"

definition cached_getStabilityDeposit :: "'e read_cache \<Rightarrow> 'e readable \<Rightarrow> string option \<Rightarrow> 'e \<Rightarrow> stability_deposit result" where
  "cached_getStabilityDeposit cache readable address extra =
     or_else (cache_getStabilityDeposit cache address extra) (getStabilityDeposit readable address extra)"

definition cached_getRemainingStabilityPoolProtocolTokenReward :: "'e read_cache \<Rightarrow> 'e readable \<Rightarrow> 'e \<Rightarrow> decimal result" where
  "cached_getRemainingStabilityPoolProtocolTokenReward cache readable extra =
     or_else (cache_getRemainingStabilityPoolProtocolTokenReward cache extra) (getRemainingStabilityPoolProtocolTokenReward readable extra)"

definition cached_getDebtTokenInStabilityPool :: "'e read_cache \<Rightarrow> 'e readable \<Rightarrow> 'e \<Rightarrow> decimal result" where
  "cached_getDebtTokenInStabilityPool cache readable extra =
     or_else (cache_getDebtTokenInStabilityPool cache extra) (getDebtTokenInStabilityPool readable extra)"

definition cached_getDebtTokenBalance :: "'e read_cache \<Rightarrow> 'e readable \<Rightarrow> string option \<Rightarrow> 'e \<Rightarrow> decimal result" where
  "cached_getDebtTokenBalance cache readable address extra =
     or_else (cache_getDebtTokenBalance cache address extra) (getDebtTokenBalance readable address extra)"

definition cached_getProtocolTokenBalance :: "'e read_cache \<Rightarrow> 'e readable \<Rightarrow> string option \<Rightarrow> 'e \<Rightarrow> decimal result" where
  "cached_getProtocolTokenBalance cache readable address extra =
     or_else (cache_getProtocolTokenBalance cache address extra) (getProtocolTokenBalance readable address extra)"

definition cached_getUniTokenBalance :: "'e read_cache \<Rightarrow> 'e readable \<Rightarrow> string option \<Rightarrow> 'e \<Rightarrow> decimal result" where
  "cached_getUniTokenBalance cache readable address extra =
     or_else (cache_getUniTokenBalance cache address extra) (getUniTokenBalance readable address extra)"

definition cached_getUniTokenAllowance :: "'e read_cache \<Rightarrow> 'e readable \<Rightarrow> string option \<Rightarrow> 'e \<Rightarrow> decimal result" where
  "cached_getUniTokenAllowance cache readable address extra =
     or_else (cache_getUniTokenAllowance cache address extra) (getUniTokenAllowance readable address extra)"

definition cached_getRemainingProtocolMiningProtocolTokenReward :: "'e read_cache \<Rightarrow> 'e readable \<Rightarrow> 'e \<Rightarrow> decimal result" where
  "cached_getRemainingProtocolMiningProtocolTokenReward cache readable extra =
     or_else (cache_getRemainingProtocolMiningProtocolTokenReward cache extra) (getRemainingProtocolMiningProtocolTokenReward readable extra)"

definition cached_getLiquidityMiningStake :: "'e read_cache \<Rightarrow> 'e readable \<Rightarrow> string option \<Rightarrow> 'e \<Rightarrow> decimal result" where
  "cached_getLiquidityMiningStake cache readable address extra =
     or_else (cache_getLiquidityMiningStake cache address extra) (getLiquidityMiningStake readable address extra)"

definition cached_getTotalStakedUniTokens :: "'e read_cache \<Rightarrow> 'e readable \<Rightarrow> 'e \<Rightarrow> decimal result" where
  "cached_getTotalStakedUniTokens cache readable extra =
     or_else (cache_getTotalStakedUniTokens cache extra) (getTotalStakedUniTokens readable extra)"

definition cached_getLiquidityMiningProtocolTokenReward :: "'e read_cache \<Rightarrow> 'e readable \<Rightarrow> string option \<Rightarrow> 'e \<Rightarrow> decimal result" where
  "cached_getLiquidityMiningProtocolTokenReward cache readable address extra =
     or_else (cache_getLiquidityMiningProtocolTokenReward cache address extra) (getLiquidityMiningProtocolTokenReward readable address extra)"

definition cached_getCollateralSurplusBalance :: "'e read_cache \<Rightarrow> 'e readable \<Rightarrow> string option \<Rightarrow> 'e \<Rightarrow> decimal result" where
  "cached_getCollateralSurplusBalance cache readable address extra =
     or_else (cache_getCollateralSurplusBalance cache address extra) (getCollateralSurplusBalance readable address extra)"

definition cached_getFees :: "'e read_cache \<Rightarrow> 'e readable \<Rightarrow> 'e \<Rightarrow> fees result" where
  "cached_getFees cache readable extra =
     or_else (cache_getFees cache extra) (getFees readable extra)"

definition cached_getProtocolTokenStake :: "'e read_cache \<Rightarrow> 'e readable \<Rightarrow> string option \<Rightarrow> 'e \<Rightarrow> protocol_token_stake result" where
  "cached_getProtocolTokenStake cache readable address extra =
     or_else (cache_getProtocolTokenStake cache address extra) (getProtocolTokenStake readable address extra)"

definition cached_getTotalStakedProtocolToken :: "'e read_cache \<Rightarrow> 'e readable \<Rightarrow> 'e \<Rightarrow> decimal result" where
  "cached_getTotalStakedProtocolToken cache readable extra =
     or_else (cache_getTotalStakedProtocolToken cache extra) (getTotalStakedProtocolToken readable extra)"

definition cached_getFrontendStatus :: "'e read_cache \<Rightarrow> 'e readable \<Rightarrow> string option \<Rightarrow> 'e \<Rightarrow> frontend_status result" where
  "cached_getFrontendStatus cache readable address extra =
     or_else (cache_getFrontendStatus cache address extra) (getFrontendStatus readable address extra)"

definition cached_findHintsForNominalCollateralRatio :: "'e read_cache \<Rightarrow> 'e readable \<Rightarrow> decimalish \<Rightarrow> 'e \<Rightarrow> (string \<times> string) result" where
  "cached_findHintsForNominalCollateralRatio cache readable ish extra =
     or_else (cache_findHintsForNominalCollateralRatio cache ish extra) (findHintsForNominalCollateralRatio readable ish extra)"

definition cached_findRedemptionHints :: "'e read_cache \<Rightarrow> 'e readable \<Rightarrow> decimalish \<Rightarrow> 'e \<Rightarrow> (decimal \<times> string \<times> string \<times> string \<times> int) result" where
  "cached_findRedemptionHints cache readable amount extra =
     or_else (cache_findRedemptionHints cache amount extra) (findRedemptionHints readable amount extra)"

definition cached_getDebtInFront :: "'e read_cache \<Rightarrow> 'e readable \<Rightarrow> string \<Rightarrow> int \<Rightarrow> 'e \<Rightarrow> (decimal \<times> string) result" where
  "cached_getDebtInFront cache readable address iterations extra =
     or_else (cache_getDebtInFront cache address iterations extra) (getDebtInFront readable address iterations extra)"

section \<open>Reads that apply the redistribution\<close>

definition cached_getTrove ::
  "'e read_cache \<Rightarrow> 'e readable \<Rightarrow> string option \<Rightarrow> 'e \<Rightarrow> user_trove result" where
  "cached_getTrove cache readable address extra =
     result_bind (cached_getTroveBeforeRedistribution cache readable address extra) (\<lambda>before.
     result_bind (cached_getTotalRedistributed cache readable extra) (\<lambda>redistributed.
       Inr (applyRedistribution before redistributed)))"

text \<open>
  Called for troves before redistribution, a readable returns \<open>Inl\<close> those troves; were they
  \<open>UserTrove\<close>s, \<open>applyRedistribution\<close> would not be a function.
\<close>

definition redistribute_all ::
  "trove \<Rightarrow> pending_trove list + user_trove list \<Rightarrow> (pending_trove list + user_trove list) result" where
  "redistribute_all redistributed troves =
     (case troves of
        Inl ts \<Rightarrow> Inr (Inr (map (\<lambda>t. applyRedistribution t redistributed) ts))
      | Inr [] \<Rightarrow> Inr (Inr [])
      | Inr _ \<Rightarrow> Inl (TypeError ''trove.applyRedistribution is not a function''))"

definition cached_getTroves ::
  "'e read_cache \<Rightarrow> 'e readable \<Rightarrow> trove_listing_params \<Rightarrow> 'e \<Rightarrow>
     (pending_trove list + user_trove list) result" where
  "cached_getTroves cache readable params extra =
     (let before = (beforeRedistribution params = Some True);
          params' = params\<lparr>beforeRedistribution := Some True\<rparr>;
          troves = or_else (cache_getTroves cache params' extra) (getTroves readable params' extra)
      in if before then troves
         else result_bind (cached_getTotalRedistributed cache readable extra) (\<lambda>redistributed.
              result_bind troves (redistribute_all redistributed)))"

definition cachedReadable :: "'e read_cache \<Rightarrow> 'e readable \<Rightarrow> 'e readable" where
  "cachedReadable cache readable =
     \<lparr>getTotalRedistributed = cached_getTotalRedistributed cache readable,
      getTroveBeforeRedistribution = cached_getTroveBeforeRedistribution cache readable,
      getTrove = cached_getTrove cache readable,
      getNumberOfTroves = cached_getNumberOfTroves cache readable,
      getPrice = cached_getPrice cache readable,
      getTotal = cached_getTotal cache readable,
      getStabilityDeposit = cached_getStabilityDeposit cache readable,
      getRemainingStabilityPoolProtocolTokenReward = cached_getRemainingStabilityPoolProtocolTokenReward cache readable,
      getDebtTokenInStabilityPool = cached_getDebtTokenInStabilityPool cache readable,
      getDebtTokenBalance = cached_getDebtTokenBalance cache readable,
      getProtocolTokenBalance = cached_getProtocolTokenBalance cache readable,
      getUniTokenBalance = cached_getUniTokenBalance cache readable,
      getUniTokenAllowance = cached_getUniTokenAllowance cache readable,
      getRemainingProtocolMiningProtocolTokenReward = cached_getRemainingProtocolMiningProtocolTokenReward cache readable,
      getLiquidityMiningStake = cached_getLiquidityMiningStake cache readable,
      getTotalStakedUniTokens = cached_getTotalStakedUniTokens cache readable,
      getLiquidityMiningProtocolTokenReward = cached_getLiquidityMiningProtocolTokenReward cache readable,
      getCollateralSurplusBalance = cached_getCollateralSurplusBalance cache readable,
      getTroves = cached_getTroves cache readable,
      getFees = cached_getFees cache readable,
      getProtocolTokenStake = cached_getProtocolTokenStake cache readable,
      getTotalStakedProtocolToken = cached_getTotalStakedProtocolToken cache readable,
      getFrontendStatus = cached_getFrontendStatus cache readable,
      findHintsForNominalCollateralRatio = cached_findHintsForNominalCollateralRatio cache readable,
      findRedemptionHints = cached_findRedemptionHints cache readable,
      getDebtInFront = cached_getDebtInFront cache readable\<rparr>"

section \<open>The contract of a readable\<close>

text \<open>
  A listing with the redistribution applied is the listing before it, redistributed, when the
  total is read; when that fails the listing fails, with this error or with another: a readable
  may check its parameters before it reads.
\<close>

locale redistributing =
  fixes readable :: "'e readable"
  assumes getTrove_law:
      "getTrove readable address e =
         result_bind (getTroveBeforeRedistribution readable address e) (\<lambda>before.
         result_bind (getTotalRedistributed readable e) (\<lambda>redistributed.
           Inr (applyRedistribution before redistributed)))"
    and getTroves_law:
      "beforeRedistribution params \<noteq> Some True \<Longrightarrow> getTotalRedistributed readable e = Inr redistributed \<Longrightarrow>
         getTroves readable params e =
           result_bind (getTroves readable (params\<lparr>beforeRedistribution := Some True\<rparr>) e)
             (redistribute_all redistributed)"
    and getTroves_fails:
      "beforeRedistribution params \<noteq> Some True \<Longrightarrow> getTotalRedistributed readable e = Inl err \<Longrightarrow>
         \<exists>err'. getTroves readable params e = Inl err'"

text \<open>A coherent cache holds nothing but what the readable would answer.\<close>

definition coherent :: "'e read_cache \<Rightarrow> 'e readable \<Rightarrow> bool" where
  "coherent cache readable \<longleftrightarrow>
     (\<forall>e v. cache_getTotalRedistributed cache e = Some v \<longrightarrow> getTotalRedistributed readable e = Inr v) \<and>
     (\<forall>x0 e v. cache_getTroveBeforeRedistribution cache x0 e = Some v \<longrightarrow> getTroveBeforeRedistribution readable x0 e = Inr v) \<and>
     (\<forall>e v. cache_getNumberOfTroves cache e = Some v \<longrightarrow> getNumberOfTroves readable e = Inr v) \<and>
     (\<forall>e v. cache_getPrice cache e = Some v \<longrightarrow> getPrice readable e = Inr v) \<and>
     (\<forall>e v. cache_getTotal cache e = Some v \<longrightarrow> getTotal readable e = Inr v) \<and>
     (\<forall>x0 e v. cache_getStabilityDeposit cache x0 e = Some v \<longrightarrow> getStabilityDeposit readable x0 e = Inr v) \<and>
     (\<forall>e v. cache_getRemainingStabilityPoolProtocolTokenReward cache e = Some v \<longrightarrow> getRemainingStabilityPoolProtocolTokenReward readable e = Inr v) \<and>
     (\<forall>e v. cache_getDebtTokenInStabilityPool cache e = Some v \<longrightarrow> getDebtTokenInStabilityPool readable e = Inr v) \<and>
     (\<forall>x0 e v. cache_getDebtTokenBalance cache x0 e = Some v \<longrightarrow> getDebtTokenBalance readable x0 e = Inr v) \<and>
     (\<forall>x0 e v. cache_getProtocolTokenBalance cache x0 e = Some v \<longrightarrow> getProtocolTokenBalance readable x0 e = Inr v) \<and>
     (\<forall>x0 e v. cache_getUniTokenBalance cache x0 e = Some v \<longrightarrow> getUniTokenBalance readable x0 e = Inr v) \<and>
     (\<forall>x0 e v. cache_getUniTokenAllowance cache x0 e = Some v \<longrightarrow> getUniTokenAllowance readable x0 e = Inr v) \<and>
     (\<forall>e v. cache_getRemainingProtocolMiningProtocolTokenReward cache e = Some v \<longrightarrow> getRemainingProtocolMiningProtocolTokenReward readable e = Inr v) \<and>
     (\<forall>x0 e v. cache_getLiquidityMiningStake cache x0 e = Some v \<longrightarrow> getLiquidityMiningStake readable x0 e = Inr v) \<and>
     (\<forall>e v. cache_getTotalStakedUniTokens cache e = Some v \<longrightarrow> getTotalStakedUniTokens readable e = Inr v) \<and>
     (\<forall>x0 e v. cache_getLiquidityMiningProtocolTokenReward cache x0 e = Some v \<longrightarrow> getLiquidityMiningProtocolTokenReward readable x0 e = Inr v) \<and>
     (\<forall>x0 e v. cache_getCollateralSurplusBalance cache x0 e = Some v \<longrightarrow> getCollateralSurplusBalance readable x0 e = Inr v) \<and>
     (\<forall>e v. cache_getFees cache e = Some v \<longrightarrow> getFees readable e = Inr v) \<and>
     (\<forall>x0 e v. cache_getProtocolTokenStake cache x0 e = Some v \<longrightarrow> getProtocolTokenStake readable x0 e = Inr v) \<and>
     (\<forall>e v. cache_getTotalStakedProtocolToken cache e = Some v \<longrightarrow> getTotalStakedProtocolToken readable e = Inr v) \<and>
     (\<forall>x0 e v. cache_getFrontendStatus cache x0 e = Some v \<longrightarrow> getFrontendStatus readable x0 e = Inr v) \<and>
     (\<forall>x0 e v. cache_findHintsForNominalCollateralRatio cache x0 e = Some v \<longrightarrow> findHintsForNominalCollateralRatio readable x0 e = Inr v) \<and>
     (\<forall>x0 e v. cache_findRedemptionHints cache x0 e = Some v \<longrightarrow> findRedemptionHints readable x0 e = Inr v) \<and>
     (\<forall>x0 x1 e v. cache_getDebtInFront cache x0 x1 e = Some v \<longrightarrow> getDebtInFront readable x0 x1 e = Inr v) \<and>
     (\<forall>p e v. cache_getTroves cache (p\<lparr>beforeRedistribution := Some True\<rparr>) e = Some v \<longrightarrow>
         getTroves readable (p\<lparr>beforeRedistribution := Some True\<rparr>) e = Inr v)"

lemma or_else_coherent: "(\<And>v. c = Some v \<Longrightarrow> r = Inr v) \<Longrightarrow> or_else c r = r"
  by (cases c) (simp_all add: or_else_def)

lemmas cached_defs =
  cached_getTotalRedistributed_def cached_getTroveBeforeRedistribution_def
  cached_getNumberOfTroves_def cached_getPrice_def
  cached_getTotal_def cached_getStabilityDeposit_def
  cached_getRemainingStabilityPoolProtocolTokenReward_def cached_getDebtTokenInStabilityPool_def
  cached_getDebtTokenBalance_def cached_getProtocolTokenBalance_def
  cached_getUniTokenBalance_def cached_getUniTokenAllowance_def
  cached_getRemainingProtocolMiningProtocolTokenReward_def cached_getLiquidityMiningStake_def
  cached_getTotalStakedUniTokens_def cached_getLiquidityMiningProtocolTokenReward_def
  cached_getCollateralSurplusBalance_def cached_getFees_def
  cached_getProtocolTokenStake_def cached_getTotalStakedProtocolToken_def
  cached_getFrontendStatus_def cached_findHintsForNominalCollateralRatio_def
  cached_findRedemptionHints_def cached_getDebtInFront_def

lemma cached_plain_simps:
  assumes "coherent cache readable"
  shows "cached_getTotalRedistributed cache readable e = getTotalRedistributed readable e"
    and "cached_getTroveBeforeRedistribution cache readable a e = getTroveBeforeRedistribution readable a e"
    and "or_else (cache_getTroves cache (p\<lparr>beforeRedistribution := Some True\<rparr>) e)
          (getTroves readable (p\<lparr>beforeRedistribution := Some True\<rparr>) e)
        = getTroves readable (p\<lparr>beforeRedistribution := Some True\<rparr>) e"
  using assms by (simp_all add: coherent_def cached_defs or_else_coherent)

context redistributing
begin

lemma cached_getTrove_transparent:
  "coherent cache readable \<Longrightarrow> cached_getTrove cache readable a e = getTrove readable a e"
  by (simp add: cached_getTrove_def cached_plain_simps getTrove_law)

lemma cached_getTroves_transparent:
  assumes "coherent cache readable"
  shows "cached_getTroves cache readable p e = getTroves readable p e
    \<or> (beforeRedistribution p \<noteq> Some True \<and> (\<exists>err err'. getTotalRedistributed readable e = Inl err
        \<and> cached_getTroves cache readable p e = Inl err \<and> getTroves readable p e = Inl err'))"
proof (cases "beforeRedistribution p = Some True")
  case True
  then have p: "p\<lparr>beforeRedistribution := Some True\<rparr> = p" by simp
  from cached_plain_simps(3) [OF assms, of p e] show ?thesis
    unfolding p cached_getTroves_def Let_def using True by simp
next
  case False
  then have "cached_getTroves cache readable p e = result_bind (getTotalRedistributed readable e) (\<lambda>redistributed.
      result_bind (getTroves readable (p\<lparr>beforeRedistribution := Some True\<rparr>) e) (redistribute_all redistributed))"
    using assms by (simp add: cached_getTroves_def Let_def cached_plain_simps)
  with False show ?thesis
    using getTroves_law [OF False, of e] getTroves_fails [OF False, of e]
    by (cases "getTotalRedistributed readable e") simp_all
qed

lemma transparent_but_getTroves:
  assumes "coherent cache readable"
  shows "(cachedReadable cache readable)\<lparr>getTroves := getTroves readable\<rparr> = readable"
proof -
  have "cached_getTrove cache readable = getTrove readable"
    using assms by (simp add: fun_eq_iff cached_getTrove_transparent)
  then show ?thesis
    unfolding cachedReadable_def
    by (intro readable.equality)
      (use assms in \<open>simp_all add: coherent_def fun_eq_iff cached_defs or_else_coherent del: split_paired_All\<close>)
qed

end

lemma getTroves_cached [simp]: "getTroves (cachedReadable cache readable) = cached_getTroves cache readable"
  by (simp add: cachedReadable_def)

text \<open>The cached readable keeps the contract, whatever its cache and readable.\<close>

lemma cached_getTroves_after:
  "beforeRedistribution params \<noteq> Some True \<Longrightarrow>
     cached_getTroves cache readable params e =
       result_bind (getTotalRedistributed (cachedReadable cache readable) e) (\<lambda>redistributed.
       result_bind (cached_getTroves cache readable (params\<lparr>beforeRedistribution := Some True\<rparr>) e)
         (redistribute_all redistributed))"
  by (simp add: cachedReadable_def cached_getTroves_def Let_def)

interpretation cached: redistributing "cachedReadable cache readable" for cache :: "'e read_cache" and readable
proof
  fix address and e :: 'e
  show "getTrove (cachedReadable cache readable) address e =
      result_bind (getTroveBeforeRedistribution (cachedReadable cache readable) address e) (\<lambda>before.
      result_bind (getTotalRedistributed (cachedReadable cache readable) e) (\<lambda>redistributed.
        Inr (applyRedistribution before redistributed)))"
    by (simp add: cachedReadable_def cached_getTrove_def)
qed (simp_all add: cached_getTroves_after)

section \<open>A sample, for the witnesses\<close>

definition sample_pending :: pending_trove where
  "sample_pending =
     \<lparr>collateral = ONE, debt = ONE, ownerAddress = ''0xa'', status = open_trove,
      stake = ONE, snapshotOfTotalRedistributed = emptyTrove\<rparr>"

definition sample_readable :: "unit readable" where
  "sample_readable =
     (let t = sample_pending in
     \<lparr>getTotalRedistributed = \<lambda>_. Inr emptyTrove,
      getTroveBeforeRedistribution = \<lambda>_ _. Inr t,
      getTrove = \<lambda>_ _. Inr (applyRedistribution t emptyTrove),
      getNumberOfTroves = \<lambda>_. Inr 0,
      getPrice = \<lambda>_. Inr ONE,
      getTotal = \<lambda>_. Inr emptyTrove,
      getStabilityDeposit = \<lambda>_ _. Inr \<lparr>initialDebtToken = ZERO, currentDebtToken = ZERO, collateralGain = ZERO,
        protocolTokenReward = ZERO, frontendTag = ''''\<rparr>,
      getRemainingStabilityPoolProtocolTokenReward = \<lambda>_. Inr ONE,
      getDebtTokenInStabilityPool = \<lambda>_. Inr ONE,
      getDebtTokenBalance = \<lambda>_ _. Inr ONE,
      getProtocolTokenBalance = \<lambda>_ _. Inr ONE,
      getUniTokenBalance = \<lambda>_ _. Inr ONE,
      getUniTokenAllowance = \<lambda>_ _. Inr ONE,
      getRemainingProtocolMiningProtocolTokenReward = \<lambda>_. Inr ONE,
      getLiquidityMiningStake = \<lambda>_ _. Inr ONE,
      getTotalStakedUniTokens = \<lambda>_. Inr ONE,
      getLiquidityMiningProtocolTokenReward = \<lambda>_ _. Inr ONE,
      getCollateralSurplusBalance = \<lambda>_ _. Inr ONE,
      getTroves = \<lambda>p _. Inr (if beforeRedistribution p = Some True then Inl [t] else Inr [applyRedistribution t emptyTrove]),
      getFees = \<lambda>_. Inr \<lparr>baseRateWithoutDecay = ZERO, minuteDecayFactor = HALF, beta = ONE,
        lastFeeOperation = 0, timeOfLatestBlock = 0, recoveryMode = False\<rparr>,
      getProtocolTokenStake = \<lambda>_ _. Inr \<lparr>stakedProtocolToken = ZERO, stakeCollateralGain = ZERO, debtTokenGain = ZERO\<rparr>,
      getTotalStakedProtocolToken = \<lambda>_. Inr ONE,
      getFrontendStatus = \<lambda>_ _. Inr Unregistered,
      findHintsForNominalCollateralRatio = \<lambda>_ _. Inr ('''', ''''),
      findRedemptionHints = \<lambda>_ _. Inr (ZERO, '''', '''', '''', 0),
      getDebtInFront = \<lambda>_ _ _. Inr (ZERO, '''')\<rparr>)"

definition sample_cache :: "unit read_cache" where
  "sample_cache =
     \<lparr>cache_getTotalRedistributed = \<lambda>_. None,
      cache_getTroveBeforeRedistribution = \<lambda>_ _. None,
      cache_getTrove = \<lambda>_ _. None,
      cache_getNumberOfTroves = \<lambda>_. None,
      cache_getPrice = \<lambda>_. Some ONE,
      cache_getTotal = \<lambda>_. None,
      cache_getStabilityDeposit = \<lambda>_ _. None,
      cache_getRemainingStabilityPoolProtocolTokenReward = \<lambda>_. None,
      cache_getDebtTokenInStabilityPool = \<lambda>_. None,
      cache_getDebtTokenBalance = \<lambda>_ _. None,
      cache_getProtocolTokenBalance = \<lambda>_ _. None,
      cache_getUniTokenBalance = \<lambda>_ _. None,
      cache_getUniTokenAllowance = \<lambda>_ _. None,
      cache_getRemainingProtocolMiningProtocolTokenReward = \<lambda>_. None,
      cache_getLiquidityMiningStake = \<lambda>_ _. None,
      cache_getTotalStakedUniTokens = \<lambda>_. None,
      cache_getLiquidityMiningProtocolTokenReward = \<lambda>_ _. None,
      cache_getCollateralSurplusBalance = \<lambda>_ _. None,
      cache_getTroves = \<lambda>_ _. None,
      cache_getFees = \<lambda>_. None,
      cache_getProtocolTokenStake = \<lambda>_ _. None,
      cache_getTotalStakedProtocolToken = \<lambda>_. None,
      cache_getFrontendStatus = \<lambda>_ _. None,
      cache_findHintsForNominalCollateralRatio = \<lambda>_ _. None,
      cache_findRedemptionHints = \<lambda>_ _. None,
      cache_getDebtInFront = \<lambda>_ _ _. None\<rparr>"

lemma sample_coherent: "coherent sample_cache (cachedReadable sample_cache sample_readable)"
  by (simp add: coherent_def sample_cache_def cachedReadable_def cached_getPrice_def or_else_def)

section \<open>Stacked caches\<close>

text \<open>
  Caches stack: a coherent cache over a cached readable changes none of its answers,
  even when the readable below breaks the contract or fails.
\<close>

theorem caches_stack:
  assumes "coherent outer (cachedReadable inner readable)"
  shows "cachedReadable outer (cachedReadable inner readable) = cachedReadable inner readable"
proof -
  have "cached_getTroves outer (cachedReadable inner readable) p e = getTroves (cachedReadable inner readable) p e" for p e
    using cached.cached_getTroves_transparent [OF assms, of p e] cached_getTroves_after [of p inner readable e]
    by auto
  then have "getTroves (cachedReadable outer (cachedReadable inner readable)) = getTroves (cachedReadable inner readable)"
    by (simp add: fun_eq_iff)
  with cached.transparent_but_getTroves [OF assms] show ?thesis by (metis readable.surjective readable.update_convs(19))
qed

theorem caches_stack_witness:
  "cachedReadable sample_cache (cachedReadable sample_cache sample_readable) = cachedReadable sample_cache sample_readable"
  by (rule caches_stack [OF sample_coherent])

end
