(* ===== verification/Ethers_Readable.thy ===== *)
theory Ethers_Readable
  imports Ethers_Connection Cached_Readable
begin

text \<open>
  Reads of the chain: the class \<open>ReadableEthers\<close> of \<^verbatim>\<open>packages/lib-ethers/src/ReadableEthers.ts\<close>.

  The contracts are a parameter, the record \<open>contracts\<close> of the calls the class makes; each
  takes the overrides it is called with and may fail.  An amount a contract returns or takes
  is a \<open>uint256\<close>, a natural number; a \<open>Decimal\<close> is passed as its \<open>hex\<close>, its big number.
  The seed of the random numbers is an argument.
\<close>

section \<open>The contracts\<close>

record trove_data =
  td_debt :: nat
  td_coll :: nat
  td_stake :: nat
  td_status :: nat

record reward_snapshot =
  snap_FIL :: nat
  snap_debt :: nat

record combined_trove_data =
  ct_owner :: string
  ct_debt :: nat
  ct_coll :: nat
  ct_stake :: nat
  ct_snapshotFIL :: nat
  ct_snapshotDebt :: nat

record approx_hint =
  hintAddress :: string
  hint_diff :: nat
  latestRandomSeed :: nat

record redemption_hints =
  firstRedemptionHint :: string
  partialRedemptionHintNICR :: nat
  truncatedDebtTokenAmount :: nat

record contracts =
  troveManager_L_FIL :: "call_overrides \<Rightarrow> nat result"
  troveManager_L_Debt :: "call_overrides \<Rightarrow> nat result"
  troveManager_Troves :: "string \<Rightarrow> call_overrides \<Rightarrow> trove_data result"
  troveManager_rewardSnapshots :: "string \<Rightarrow> call_overrides \<Rightarrow> reward_snapshot result"
  troveManager_getTroveOwnersCount :: "call_overrides \<Rightarrow> nat result"
  troveManager_lastFeeOperationTime :: "call_overrides \<Rightarrow> nat result"
  troveManager_baseRate :: "call_overrides \<Rightarrow> nat result"
  priceFeed_fetchPrice :: "call_overrides \<Rightarrow> nat result"
  activePool_getFIL :: "call_overrides \<Rightarrow> nat result"
  activePool_getDebt :: "call_overrides \<Rightarrow> nat result"
  defaultPool_getFIL :: "call_overrides \<Rightarrow> nat result"
  defaultPool_getDebt :: "call_overrides \<Rightarrow> nat result"
  stabilityPool_deposits :: "string \<Rightarrow> call_overrides \<Rightarrow> (string \<times> nat) result"
  stabilityPool_getCompoundedDebtTokenDeposit :: "string \<Rightarrow> call_overrides \<Rightarrow> nat result"
  stabilityPool_getDepositorFILGain :: "string \<Rightarrow> call_overrides \<Rightarrow> nat result"
  stabilityPool_getDepositorProtocolTokenGain :: "string \<Rightarrow> call_overrides \<Rightarrow> nat result"
  stabilityPool_getTotalDebtTokenDeposits :: "call_overrides \<Rightarrow> nat result"
  stabilityPool_frontEnds :: "string \<Rightarrow> call_overrides \<Rightarrow> (bool \<times> nat) result"
  communityIssuance_totalProtocolTokenIssued :: "call_overrides \<Rightarrow> nat result"
  debtToken_balanceOf :: "string \<Rightarrow> call_overrides \<Rightarrow> nat result"
  protocolToken_balanceOf :: "string \<Rightarrow> call_overrides \<Rightarrow> nat result"
  uniToken_balanceOf :: "string \<Rightarrow> call_overrides \<Rightarrow> nat result"
  uniToken_allowance :: "string \<Rightarrow> string \<Rightarrow> call_overrides \<Rightarrow> nat result"
  unipool_address :: string
  unipool_totalSupply :: "call_overrides \<Rightarrow> nat result"
  unipool_rewardRate :: "call_overrides \<Rightarrow> nat result"
  unipool_periodFinish :: "call_overrides \<Rightarrow> nat result"
  unipool_lastUpdateTime :: "call_overrides \<Rightarrow> nat result"
  unipool_balanceOf :: "string \<Rightarrow> call_overrides \<Rightarrow> nat result"
  unipool_earned :: "string \<Rightarrow> call_overrides \<Rightarrow> nat result"
  collSurplusPool_getCollateral :: "string \<Rightarrow> call_overrides \<Rightarrow> nat result"
  multiTroveGetter_getMultipleSortedTroves ::
    "int \<Rightarrow> int \<Rightarrow> call_overrides \<Rightarrow> combined_trove_data list result"
  protocolTokenStaking_stakes :: "string \<Rightarrow> call_overrides \<Rightarrow> nat result"
  protocolTokenStaking_getPendingFILGain :: "string \<Rightarrow> call_overrides \<Rightarrow> nat result"
  protocolTokenStaking_getPendingDebtTokenGain :: "string \<Rightarrow> call_overrides \<Rightarrow> nat result"
  protocolTokenStaking_totalProtocolTokenStaked :: "call_overrides \<Rightarrow> nat result"
  sortedTroves_getFirst :: "string result"
  sortedTroves_getPrev :: "string \<Rightarrow> string result"
  sortedTroves_getNext :: "string \<Rightarrow> string result"
  sortedTroves_findInsertPosition ::
    "nat \<Rightarrow> string \<Rightarrow> string \<Rightarrow> call_overrides \<Rightarrow> (string \<times> string) result"
  hintHelpers_getApproxHint :: "nat \<Rightarrow> nat \<Rightarrow> nat \<Rightarrow> call_overrides \<Rightarrow> approx_hint result"
  hintHelpers_getRedemptionHints :: "nat \<Rightarrow> nat \<Rightarrow> nat \<Rightarrow> call_overrides \<Rightarrow> redemption_hints result"
  usdfcView_getDebtInFront :: "string \<Rightarrow> nat \<Rightarrow> int \<Rightarrow> call_overrides \<Rightarrow> (string \<times> nat) result"

section \<open>Constants and helpers\<close>

definition redeemMaxIterations :: nat where
  "redeemMaxIterations = 70"

definition AddressZero :: string where
  "AddressZero = ''0x0000000000000000000000000000000000000000''"

definition MINUTE_DECAY_FACTOR :: "decimal result" where
  "MINUTE_DECAY_FACTOR = from_ish (DString ''0.999037758833783000'')"

definition BETA :: "decimal result" where
  "BETA = from_ish (DNumber ''2'')"

text \<open>\<open>BackendTroveStatus\<close> numbers its members from 0.\<close>

definition backend_active :: nat where
  "backend_active = 1"

definition userTroveStatusFrom :: "nat \<Rightarrow> userTroveStatus result" where
  "userTroveStatusFrom backendStatus =
     (if backendStatus = 0 then Inr nonExistent
      else if backendStatus = backend_active then Inr open_trove
      else if backendStatus = 2 then Inr closedByOwner
      else if backendStatus = 3 then Inr closedByLiquidation
      else if backendStatus = 4 then Inr closedByRedemption
      else Inl (Error (''invalid backendStatus '' @ show_nat backendStatus)))"

definition convertToDate :: "int \<Rightarrow> int" where
  "convertToDate timestamp = timestamp * 1000"

definition validSortingOptions :: "string list" where
  "validSortingOptions = [''ascendingCollateralRatio'', ''descendingCollateralRatio'']"

text \<open>The result is the integer the checked value is, or nothing for an absent value.\<close>

definition expectPositiveInt :: "rat option \<Rightarrow> string \<Rightarrow> int option result" where
  "expectPositiveInt x key =
     (case x of
        None \<Rightarrow> Inr None
      | Some v \<Rightarrow>
          (if v \<noteq> of_int \<lfloor>v\<rfloor> then Inl (Error (key @ '' must be an integer''))
           else if v < 0 then Inl (Error (key @ '' must not be negative''))
           else Inr (Some \<lfloor>v\<rfloor>)))"

definition maxNumberOfTrialsAtOnce :: int where
  "maxNumberOfTrialsAtOnce = 2500"

text \<open>
  The generator's loop stops when the count is zero; the assertion before it makes the count
  positive.
\<close>

function trials_loop :: "int \<Rightarrow> int list" where
  "trials_loop totalNumberOfTrials =
     (if totalNumberOfTrials \<le> 0 then []
      else let numberOfTrials = min totalNumberOfTrials maxNumberOfTrialsAtOnce
           in numberOfTrials # trials_loop (totalNumberOfTrials - numberOfTrials))"
  by pat_completeness auto
termination
  by (relation "measure nat") (auto simp: maxNumberOfTrialsAtOnce_def)

declare trials_loop.simps [simp del]

definition generateTrials :: "int \<Rightarrow> int list result" where
  "generateTrials totalNumberOfTrials =
     js_assert (0 < totalNumberOfTrials) (Inr (trials_loop totalNumberOfTrials))"

text \<open>\<open>new Trove(...)\<close> of two amounts.\<close>

definition read_trove :: "nat result \<Rightarrow> nat result \<Rightarrow> trove result" where
  "read_trove getCollateral getDebt =
     result_bind (result_bind getCollateral decimalify) (\<lambda>c.
     result_bind (result_bind getDebt decimalify) (\<lambda>d.
       Inr \<lparr>collateral = c, debt = d\<rparr>))"

text \<open>\<open>address ??= _requireAddress(this.connection)\<close>\<close>

definition address_or_user :: "('abi, 'p, 't) connection \<Rightarrow> string option \<Rightarrow> string result" where
  "address_or_user con address =
     (case address of Some a \<Rightarrow> Inr a | None \<Rightarrow> requireAddress con None)"

definition address_or_frontend :: "('abi, 'p, 't) connection \<Rightarrow> string option \<Rightarrow> string result" where
  "address_or_frontend con address =
     (case address of Some a \<Rightarrow> Inr a | None \<Rightarrow> requireFrontendAddress con)"

section \<open>Reads\<close>

definition ethers_getTotalRedistributed :: "contracts \<Rightarrow> call_overrides option \<Rightarrow> trove result" where
  "ethers_getTotalRedistributed k overrides =
     read_trove (troveManager_L_FIL k (spread overrides)) (troveManager_L_Debt k (spread overrides))"

definition ethers_getTroveBeforeRedistribution ::
  "('abi, 'p, 't) connection \<Rightarrow> contracts \<Rightarrow> string option \<Rightarrow> call_overrides option \<Rightarrow> pending_trove result" where
  "ethers_getTroveBeforeRedistribution con k address overrides =
     result_bind (address_or_user con address) (\<lambda>owner.
     result_bind (troveManager_Troves k owner (spread overrides)) (\<lambda>t.
     result_bind (troveManager_rewardSnapshots k owner (spread overrides)) (\<lambda>snapshot.
     if td_status t = backend_active then
       result_bind (userTroveStatusFrom (td_status t)) (\<lambda>st.
       result_bind (decimalify (td_coll t)) (\<lambda>c.
       result_bind (decimalify (td_debt t)) (\<lambda>d.
       result_bind (decimalify (td_stake t)) (\<lambda>s.
       result_bind (read_trove (Inr (snap_FIL snapshot)) (Inr (snap_debt snapshot))) (\<lambda>redistributed.
         Inr \<lparr>collateral = c, debt = d, ownerAddress = owner, status = st, stake = s,
              snapshotOfTotalRedistributed = redistributed\<rparr>)))))
     else
       result_bind (userTroveStatusFrom (td_status t)) (\<lambda>st.
         Inr \<lparr>collateral = ZERO, debt = ZERO, ownerAddress = owner, status = st, stake = ZERO,
              snapshotOfTotalRedistributed = emptyTrove\<rparr>))))"

definition ethers_getTrove ::
  "('abi, 'p, 't) connection \<Rightarrow> contracts \<Rightarrow> string option \<Rightarrow> call_overrides option \<Rightarrow> user_trove result" where
  "ethers_getTrove con k address overrides =
     result_bind (ethers_getTroveBeforeRedistribution con k address overrides) (\<lambda>before.
     result_bind (ethers_getTotalRedistributed k overrides) (\<lambda>redistributed.
       Inr (applyRedistribution before redistributed)))"

definition ethers_getNumberOfTroves :: "contracts \<Rightarrow> call_overrides option \<Rightarrow> int result" where
  "ethers_getNumberOfTroves k overrides =
     result_bind (troveManager_getTroveOwnersCount k (spread overrides)) numberify"

definition ethers_getPrice :: "contracts \<Rightarrow> call_overrides option \<Rightarrow> decimal result" where
  "ethers_getPrice k overrides = result_bind (priceFeed_fetchPrice k (spread overrides)) decimalify"

definition getActivePool :: "contracts \<Rightarrow> call_overrides option \<Rightarrow> trove result" where
  "getActivePool k overrides =
     read_trove (activePool_getFIL k (spread overrides)) (activePool_getDebt k (spread overrides))"

definition getDefaultPool :: "contracts \<Rightarrow> call_overrides option \<Rightarrow> trove result" where
  "getDefaultPool k overrides =
     read_trove (defaultPool_getFIL k (spread overrides)) (defaultPool_getDebt k (spread overrides))"

definition ethers_getTotal :: "contracts \<Rightarrow> call_overrides option \<Rightarrow> trove result" where
  "ethers_getTotal k overrides =
     result_bind (getActivePool k overrides) (\<lambda>activePool.
     result_bind (getDefaultPool k overrides) (\<lambda>defaultPool.
       Inr (trove_add activePool defaultPool)))"

definition ethers_getStabilityDeposit ::
  "('abi, 'p, 't) connection \<Rightarrow> contracts \<Rightarrow> string option \<Rightarrow> call_overrides option \<Rightarrow> stability_deposit result" where
  "ethers_getStabilityDeposit con k address overrides =
     result_bind (address_or_user con address) (\<lambda>depositor.
     result_bind (stabilityPool_deposits k depositor (spread overrides)) (\<lambda>(frontEndTag, initialValue).
     result_bind (stabilityPool_getCompoundedDebtTokenDeposit k depositor (spread overrides)) (\<lambda>current.
     result_bind (stabilityPool_getDepositorFILGain k depositor (spread overrides)) (\<lambda>gain.
     result_bind (stabilityPool_getDepositorProtocolTokenGain k depositor (spread overrides)) (\<lambda>reward.
     result_bind (decimalify initialValue) (\<lambda>initial'.
     result_bind (decimalify current) (\<lambda>current'.
     result_bind (decimalify gain) (\<lambda>gain'.
     result_bind (decimalify reward) (\<lambda>reward'.
       new_StabilityDeposit initial' current' gain' reward' frontEndTag)))))))))"

definition ethers_getRemainingStabilityPoolProtocolTokenReward ::
  "('abi, 'p, 't) connection \<Rightarrow> contracts \<Rightarrow> call_overrides option \<Rightarrow> decimal result" where
  "ethers_getRemainingStabilityPoolProtocolTokenReward con k overrides =
     (let issuanceCap = totalStabilityPoolProtocolTokenReward con
      in result_bind (communityIssuance_totalProtocolTokenIssued k (spread overrides)) (\<lambda>issued.
         result_bind (decimalify issued) (\<lambda>totalProtocolTokenIssued.
           sub_dec issuanceCap totalProtocolTokenIssued)))"

definition ethers_getDebtTokenInStabilityPool :: "contracts \<Rightarrow> call_overrides option \<Rightarrow> decimal result" where
  "ethers_getDebtTokenInStabilityPool k overrides =
     result_bind (stabilityPool_getTotalDebtTokenDeposits k (spread overrides)) decimalify"

definition ethers_getDebtTokenBalance ::
  "('abi, 'p, 't) connection \<Rightarrow> contracts \<Rightarrow> string option \<Rightarrow> call_overrides option \<Rightarrow> decimal result" where
  "ethers_getDebtTokenBalance con k address overrides =
     result_bind (address_or_user con address) (\<lambda>a.
       result_bind (debtToken_balanceOf k a (spread overrides)) decimalify)"

definition ethers_getProtocolTokenBalance ::
  "('abi, 'p, 't) connection \<Rightarrow> contracts \<Rightarrow> string option \<Rightarrow> call_overrides option \<Rightarrow> decimal result" where
  "ethers_getProtocolTokenBalance con k address overrides =
     result_bind (address_or_user con address) (\<lambda>a.
       result_bind (protocolToken_balanceOf k a (spread overrides)) decimalify)"

definition ethers_getUniTokenBalance ::
  "('abi, 'p, 't) connection \<Rightarrow> contracts \<Rightarrow> string option \<Rightarrow> call_overrides option \<Rightarrow> decimal result" where
  "ethers_getUniTokenBalance con k address overrides =
     result_bind (address_or_user con address) (\<lambda>a.
       result_bind (uniToken_balanceOf k a (spread overrides)) decimalify)"

definition ethers_getUniTokenAllowance ::
  "('abi, 'p, 't) connection \<Rightarrow> contracts \<Rightarrow> string option \<Rightarrow> call_overrides option \<Rightarrow> decimal result" where
  "ethers_getUniTokenAllowance con k address overrides =
     result_bind (address_or_user con address) (\<lambda>a.
       result_bind (uniToken_allowance k a (unipool_address k) (spread overrides)) decimalify)"

text \<open>
  The calculator: \<open>rewardRate.mul\<close> of a number of seconds, which is never negative.
\<close>

definition getRemainingProtocolMiningProtocolTokenRewardCalculator ::
  "contracts \<Rightarrow> call_overrides option \<Rightarrow> (int \<Rightarrow> decimal) result" where
  "getRemainingProtocolMiningProtocolTokenRewardCalculator k overrides =
     result_bind (unipool_totalSupply k (spread overrides)) (\<lambda>totalSupply.
     result_bind (result_bind (unipool_rewardRate k (spread overrides)) decimalify) (\<lambda>rewardRate.
     result_bind (result_bind (unipool_periodFinish k (spread overrides)) numberify) (\<lambda>periodFinish.
     result_bind (result_bind (unipool_lastUpdateTime k (spread overrides)) numberify) (\<lambda>lastUpdateTime.
       Inr (\<lambda>blockTimestamp.
         mul_dec rewardRate
           (Decimal (nat (max 0 (periodFinish - (if totalSupply = 0 then lastUpdateTime else blockTimestamp)))
                     * DIGITS)))))))"

definition ethers_getRemainingProtocolMiningProtocolTokenReward ::
  "('abi, 'p, 't) connection \<Rightarrow> contracts \<Rightarrow> call_overrides option \<Rightarrow> decimal result" where
  "ethers_getRemainingProtocolMiningProtocolTokenReward con k overrides =
     result_bind (getRemainingProtocolMiningProtocolTokenRewardCalculator k overrides)
       (\<lambda>calculateRemainingProtocolToken.
     result_bind (getBlockTimestamp con (Option.bind overrides blockTag)) (\<lambda>blockTimestamp.
       Inr (calculateRemainingProtocolToken blockTimestamp)))"

definition ethers_getLiquidityMiningStake ::
  "('abi, 'p, 't) connection \<Rightarrow> contracts \<Rightarrow> string option \<Rightarrow> call_overrides option \<Rightarrow> decimal result" where
  "ethers_getLiquidityMiningStake con k address overrides =
     result_bind (address_or_user con address) (\<lambda>a.
       result_bind (unipool_balanceOf k a (spread overrides)) decimalify)"

definition ethers_getTotalStakedUniTokens :: "contracts \<Rightarrow> call_overrides option \<Rightarrow> decimal result" where
  "ethers_getTotalStakedUniTokens k overrides =
     result_bind (unipool_totalSupply k (spread overrides)) decimalify"

definition ethers_getLiquidityMiningProtocolTokenReward ::
  "('abi, 'p, 't) connection \<Rightarrow> contracts \<Rightarrow> string option \<Rightarrow> call_overrides option \<Rightarrow> decimal result" where
  "ethers_getLiquidityMiningProtocolTokenReward con k address overrides =
     result_bind (address_or_user con address) (\<lambda>a.
       result_bind (unipool_earned k a (spread overrides)) decimalify)"

definition ethers_getCollateralSurplusBalance ::
  "('abi, 'p, 't) connection \<Rightarrow> contracts \<Rightarrow> string option \<Rightarrow> call_overrides option \<Rightarrow> decimal result" where
  "ethers_getCollateralSurplusBalance con k address overrides =
     result_bind (address_or_user con address) (\<lambda>a.
       result_bind (collSurplusPool_getCollateral k a (spread overrides)) decimalify)"

text \<open>\<open>mapBackendTroves\<close>: the listed troves come from \<open>SortedTroves\<close>, so they are open.\<close>

definition mapBackendTrove :: "combined_trove_data \<Rightarrow> pending_trove result" where
  "mapBackendTrove t =
     result_bind (decimalify (ct_coll t)) (\<lambda>c.
     result_bind (decimalify (ct_debt t)) (\<lambda>d.
     result_bind (decimalify (ct_stake t)) (\<lambda>s.
     result_bind (read_trove (Inr (ct_snapshotFIL t)) (Inr (ct_snapshotDebt t))) (\<lambda>redistributed.
       Inr \<lparr>collateral = c, debt = d, ownerAddress = ct_owner t, status = open_trove, stake = s,
            snapshotOfTotalRedistributed = redistributed\<rparr>))))"

definition mapBackendTroves :: "combined_trove_data list \<Rightarrow> pending_trove list result" where
  "mapBackendTroves = result_list mapBackendTrove"

text \<open>\<open>validSortingOptions.map(x => `"${x}"`).join(", ")\<close>\<close>

fun join_quoted :: "string list \<Rightarrow> string" where
  "join_quoted [] = []"
| "join_quoted [x] = [CHR 0x22] @ x @ [CHR 0x22]"
| "join_quoted (x # xs) = [CHR 0x22] @ x @ [CHR 0x22] @ '', '' @ join_quoted xs"

definition ethers_getTroves ::
  "contracts \<Rightarrow> trove_listing_params \<Rightarrow> call_overrides option \<Rightarrow> (pending_trove list + user_trove list) result" where
  "ethers_getTroves k params overrides =
     result_bind (expectPositiveInt (Some (listing_first params)) ''first'') (\<lambda>first'.
     result_bind (expectPositiveInt (startingAt params) ''startingAt'') (\<lambda>start'.
     if sortedBy params \<notin> set validSortingOptions
     then Inl (Error (''sortedBy must be one of: '' @
            join_quoted validSortingOptions))
     else
       let count = (case first' of Some n \<Rightarrow> n | None \<Rightarrow> 0);
           start = (case start' of Some n \<Rightarrow> n | None \<Rightarrow> 0)
       in
       result_bind
         (if beforeRedistribution params = Some True then Inr None
          else result_map Some (ethers_getTotalRedistributed k (Some (spread overrides)))) (\<lambda>totalRedistributed.
       result_bind
         (multiTroveGetter_getMultipleSortedTroves k
            (if sortedBy params = ''descendingCollateralRatio'' then start else - (start + 1))
            count (spread overrides)) (\<lambda>backendTroves.
       result_bind (mapBackendTroves backendTroves) (\<lambda>troves.
         case totalRedistributed of
           Some redistributed \<Rightarrow> Inr (Inr (map (\<lambda>t. applyRedistribution t redistributed) troves))
         | None \<Rightarrow> Inr (Inl troves))))))"

text \<open>The returned function evaluates \<open>lastFeeOperationTime.toNumber()\<close> when it is called.\<close>

definition getFeesFactory ::
  "contracts \<Rightarrow> call_overrides option \<Rightarrow> (int \<Rightarrow> bool \<Rightarrow> fees result) result" where
  "getFeesFactory k overrides =
     result_bind (troveManager_lastFeeOperationTime k (spread overrides)) (\<lambda>lastFeeOperationTime.
     result_bind (result_bind (troveManager_baseRate k (spread overrides)) decimalify) (\<lambda>baseRateWithoutDecay.
       Inr (\<lambda>blockTimestamp recoveryMode.
         result_bind MINUTE_DECAY_FACTOR (\<lambda>factor.
         result_bind BETA (\<lambda>b.
         result_bind (numberify lastFeeOperationTime) (\<lambda>lastTime.
           new_Fees (DDecimal baseRateWithoutDecay) (DDecimal factor) (DDecimal b)
             (convertToDate lastTime) (convertToDate blockTimestamp) recoveryMode))))))"

definition ethers_getFees ::
  "('abi, 'p, 't) connection \<Rightarrow> contracts \<Rightarrow> call_overrides option \<Rightarrow> fees result" where
  "ethers_getFees con k overrides =
     result_bind (getFeesFactory k overrides) (\<lambda>createFees.
     result_bind (ethers_getTotal k overrides) (\<lambda>totalTrove.
     result_bind (ethers_getPrice k overrides) (\<lambda>currentPrice.
     result_bind (getBlockTimestamp con (Option.bind overrides blockTag)) (\<lambda>blockTimestamp.
       createFees blockTimestamp (collateralRatioIsBelowCritical totalTrove currentPrice)))))"

definition ethers_getProtocolTokenStake ::
  "('abi, 'p, 't) connection \<Rightarrow> contracts \<Rightarrow> string option \<Rightarrow> call_overrides option \<Rightarrow> protocol_token_stake result" where
  "ethers_getProtocolTokenStake con k address overrides =
     result_bind (address_or_user con address) (\<lambda>a.
     result_bind (result_bind (protocolTokenStaking_stakes k a (spread overrides)) decimalify) (\<lambda>staked.
     result_bind (result_bind (protocolTokenStaking_getPendingFILGain k a (spread overrides)) decimalify) (\<lambda>gain.
     result_bind (result_bind (protocolTokenStaking_getPendingDebtTokenGain k a (spread overrides)) decimalify)
       (\<lambda>debtGain.
       Inr \<lparr>stakedProtocolToken = staked, stakeCollateralGain = gain, debtTokenGain = debtGain\<rparr>))))"

definition ethers_getTotalStakedProtocolToken :: "contracts \<Rightarrow> call_overrides option \<Rightarrow> decimal result" where
  "ethers_getTotalStakedProtocolToken k overrides =
     result_bind (protocolTokenStaking_totalProtocolTokenStaked k (spread overrides)) decimalify"

definition ethers_getFrontendStatus ::
  "('abi, 'p, 't) connection \<Rightarrow> contracts \<Rightarrow> string option \<Rightarrow> call_overrides option \<Rightarrow> frontend_status result" where
  "ethers_getFrontendStatus con k address overrides =
     result_bind (address_or_frontend con address) (\<lambda>a.
     result_bind (stabilityPool_frontEnds k a (spread overrides)) (\<lambda>(registered, kickbackRate).
       if registered then result_map Registered (decimalify kickbackRate) else Inr Unregistered))"

section \<open>Hints\<close>

text \<open>\<open>Math.ceil(10 * Math.sqrt(numberOfTroves))\<close>, in exact arithmetic.\<close>

definition trialsFor :: "int \<Rightarrow> int" where
  "trialsFor numberOfTroves = \<lceil>10 * sqrt (real_of_int numberOfTroves)\<rceil>"

type_synonym hint_search = "nat \<times> (nat \<times> string) list"

definition collectApproxHint ::
  "contracts \<Rightarrow> decimal \<Rightarrow> call_overrides option \<Rightarrow> hint_search \<Rightarrow> int \<Rightarrow> hint_search result" where
  "collectApproxHint k nicr overrides search numberOfTrials =
     (let (seed, results) = search
      in result_map (\<lambda>r. (latestRandomSeed r, results @ [(hint_diff r, hintAddress r)]))
           (hintHelpers_getApproxHint k (bigNumber nicr) (nat numberOfTrials) seed (spread overrides)))"

text \<open>\<open>restOfTrials.reduce((p, n) => p.then(state => ...), ...)\<close>\<close>

fun collectApproxHints ::
  "contracts \<Rightarrow> decimal \<Rightarrow> call_overrides option \<Rightarrow> hint_search result \<Rightarrow> int list \<Rightarrow> hint_search result" where
  "collectApproxHints k nicr overrides p [] = p"
| "collectApproxHints k nicr overrides p (n # rest) =
     collectApproxHints k nicr overrides
       (result_bind p (\<lambda>search. collectApproxHint k nicr overrides search n)) rest"

text \<open>\<open>results.reduce((a, b) => (a.diff.lt(b.diff) ? a : b))\<close>; without elements \<open>reduce\<close> throws.\<close>

fun closestHint :: "(nat \<times> string) list \<Rightarrow> (nat \<times> string) result" where
  "closestHint [] = Inl (TypeError ''Reduce of empty array with no initial value'')"
| "closestHint (a # rest) = Inr (foldl (\<lambda>a b. if fst a < fst b then a else b) a rest)"

text \<open>Jumping over the trove that is to be reinserted.\<close>

definition jumpOver ::
  "contracts \<Rightarrow> string option \<Rightarrow> string \<times> string \<Rightarrow> (string \<times> string) result" where
  "jumpOver k ownAddress hints =
     (let (prev, nxt) = hints
      in case ownAddress of
           None \<Rightarrow> Inr (prev, nxt)
         | Some own \<Rightarrow>
             (if own = '''' then Inr (prev, nxt)
              else if prev = own then result_map (\<lambda>p. (p, nxt)) (sortedTroves_getPrev k prev)
              else if nxt = own then result_map (\<lambda>n. (prev, n)) (sortedTroves_getNext k nxt)
              else Inr (prev, nxt)))"

definition avoidZero :: "string \<times> string \<Rightarrow> string \<times> string" where
  "avoidZero hints =
     (let (prev, nxt) = hints
      in if prev = AddressZero then (nxt, nxt)
         else if nxt = AddressZero then (prev, prev)
         else (prev, nxt))"

definition ethers_findHintsForNominalCollateralRatio ::
  "nat \<Rightarrow> contracts \<Rightarrow> decimal \<Rightarrow> string option \<Rightarrow> call_overrides option \<Rightarrow> (string \<times> string) result" where
  "ethers_findHintsForNominalCollateralRatio randomInteger k nicr ownAddress overrides =
     result_bind (ethers_getNumberOfTroves k None) (\<lambda>numberOfTroves.
     if numberOfTroves = 0 then Inr (AddressZero, AddressZero)
     else if infinite_dec nicr then result_map (\<lambda>a. (AddressZero, a)) (sortedTroves_getFirst k)
     else
       result_bind (generateTrials (trialsFor numberOfTroves)) (\<lambda>trials.
       result_bind
         (collectApproxHints k nicr overrides
            (collectApproxHint k nicr overrides (randomInteger, []) (hd trials)) (tl trials)) (\<lambda>(_, results).
       result_bind (closestHint results) (\<lambda>(_, hint).
       result_bind
         (sortedTroves_findInsertPosition k (bigNumber nicr) hint hint (spread overrides)) (\<lambda>position.
       result_map avoidZero (jumpOver k ownAddress position))))))"

definition ethers_findRedemptionHints ::
  "nat \<Rightarrow> contracts \<Rightarrow> decimal \<Rightarrow> call_overrides option \<Rightarrow> (decimal \<times> string \<times> string \<times> string \<times> nat) result" where
  "ethers_findRedemptionHints randomInteger k amount overrides =
     result_bind (ethers_getPrice k None) (\<lambda>currentPrice.
     result_bind
       (hintHelpers_getRedemptionHints k (bigNumber amount) (bigNumber currentPrice) redeemMaxIterations
          (spread overrides)) (\<lambda>hints.
     result_bind
       (if partialRedemptionHintNICR hints = 0 then Inr (AddressZero, AddressZero)
        else result_bind (decimalify (partialRedemptionHintNICR hints)) (\<lambda>nicr.
               ethers_findHintsForNominalCollateralRatio randomInteger k nicr None overrides))
       (\<lambda>(upper, lower).
     result_bind (decimalify (truncatedDebtTokenAmount hints)) (\<lambda>truncated.
       Inr (truncated, firstRedemptionHint hints, upper, lower, partialRedemptionHintNICR hints)))))"

definition ethers_getDebtInFront ::
  "contracts \<Rightarrow> string \<Rightarrow> int \<Rightarrow> call_overrides option \<Rightarrow> (decimal \<times> string) result" where
  "ethers_getDebtInFront k address iterations overrides =
     result_bind (usdfcView_getDebtInFront k address 0 iterations (spread overrides)) (\<lambda>(nxt, debtInFront).
       result_map (\<lambda>d. (d, nxt)) (decimalify debtInFront))"

section \<open>The readable\<close>

text \<open>
  \<open>ReadableEthers\<close> as a caller sees it that passes \<open>overrides\<close> in every call.  The class asks
  for a \<open>Decimal\<close> where the interface allows any \<open>Decimalish\<close>: a string or a number has no
  \<open>hex\<close>, which ethers refuses.
\<close>

definition ethersReadable ::
  "('abi, 'p, 't) connection \<Rightarrow> contracts \<Rightarrow> nat \<Rightarrow> call_overrides option \<Rightarrow> unit readable" where
  "ethersReadable con k randomInteger overrides =
     \<lparr>getTotalRedistributed = \<lambda>_. ethers_getTotalRedistributed k overrides,
      getTroveBeforeRedistribution = \<lambda>a _. ethers_getTroveBeforeRedistribution con k a overrides,
      getTrove = \<lambda>a _. ethers_getTrove con k a overrides,
      getNumberOfTroves = \<lambda>_. ethers_getNumberOfTroves k overrides,
      getPrice = \<lambda>_. ethers_getPrice k overrides,
      getTotal = \<lambda>_. ethers_getTotal k overrides,
      getStabilityDeposit = \<lambda>a _. ethers_getStabilityDeposit con k a overrides,
      getRemainingStabilityPoolProtocolTokenReward =
        \<lambda>_. ethers_getRemainingStabilityPoolProtocolTokenReward con k overrides,
      getDebtTokenInStabilityPool = \<lambda>_. ethers_getDebtTokenInStabilityPool k overrides,
      getDebtTokenBalance = \<lambda>a _. ethers_getDebtTokenBalance con k a overrides,
      getProtocolTokenBalance = \<lambda>a _. ethers_getProtocolTokenBalance con k a overrides,
      getUniTokenBalance = \<lambda>a _. ethers_getUniTokenBalance con k a overrides,
      getUniTokenAllowance = \<lambda>a _. ethers_getUniTokenAllowance con k a overrides,
      getRemainingProtocolMiningProtocolTokenReward =
        \<lambda>_. ethers_getRemainingProtocolMiningProtocolTokenReward con k overrides,
      getLiquidityMiningStake = \<lambda>a _. ethers_getLiquidityMiningStake con k a overrides,
      getTotalStakedUniTokens = \<lambda>_. ethers_getTotalStakedUniTokens k overrides,
      getLiquidityMiningProtocolTokenReward =
        \<lambda>a _. ethers_getLiquidityMiningProtocolTokenReward con k a overrides,
      getCollateralSurplusBalance = \<lambda>a _. ethers_getCollateralSurplusBalance con k a overrides,
      getTroves = \<lambda>p _. ethers_getTroves k p overrides,
      getFees = \<lambda>_. ethers_getFees con k overrides,
      getProtocolTokenStake = \<lambda>a _. ethers_getProtocolTokenStake con k a overrides,
      getTotalStakedProtocolToken = \<lambda>_. ethers_getTotalStakedProtocolToken k overrides,
      getFrontendStatus = \<lambda>a _. ethers_getFrontendStatus con k a overrides,
      findHintsForNominalCollateralRatio =
        \<lambda>nicr _. (case nicr of
                   DDecimal d \<Rightarrow> ethers_findHintsForNominalCollateralRatio randomInteger k d None overrides
                 | _ \<Rightarrow> Inl (Error ''invalid BigNumber value'')),
      findRedemptionHints =
        \<lambda>amount _. (case amount of
                     DDecimal d \<Rightarrow> result_map (\<lambda>(a, f, u, l, n). (a, f, u, l, int n))
                                     (ethers_findRedemptionHints randomInteger k d overrides)
                   | _ \<Rightarrow> Inl (Error ''invalid BigNumber value'')),
      getDebtInFront = \<lambda>a n _. ethers_getDebtInFront k a n overrides\<rparr>"

section \<open>Lemmas\<close>

lemma read_trove_Inr:
  "read_trove c d = Inr t \<longleftrightarrow>
     (\<exists>x y. c = Inr x \<and> d = Inr y \<and> t = \<lparr>collateral = Decimal x, debt = Decimal y\<rparr>)"
  by (auto simp: read_trove_def result_bind_Inr)

definition pending_of :: "combined_trove_data \<Rightarrow> pending_trove" where
  "pending_of t =
     \<lparr>collateral = Decimal (ct_coll t), debt = Decimal (ct_debt t), ownerAddress = ct_owner t,
      status = open_trove, stake = Decimal (ct_stake t),
      snapshotOfTotalRedistributed =
        \<lparr>collateral = Decimal (ct_snapshotFIL t), debt = Decimal (ct_snapshotDebt t)\<rparr>\<rparr>"

lemma mapBackendTroves_eq [simp]: "mapBackendTroves ts = Inr (map pending_of ts)"
  unfolding mapBackendTroves_def
  by (rule result_list_Inr) (simp add: mapBackendTrove_def read_trove_def pending_of_def)

lemma spread_spread [simp]: "spread (Some (spread overrides)) = spread overrides"
  by (simp add: spread_def)

lemma getTotalRedistributed_spread [simp]:
  "ethers_getTotalRedistributed k (Some (spread overrides)) = ethers_getTotalRedistributed k overrides"
  by (simp add: ethers_getTotalRedistributed_def)

text \<open>What the listing reads, whether or not the redistribution is applied to it.\<close>

definition listed :: "contracts \<Rightarrow> trove_listing_params \<Rightarrow> call_overrides option \<Rightarrow> pending_trove list result" where
  "listed k p overrides =
     result_bind (expectPositiveInt (Some (listing_first p)) ''first'') (\<lambda>first'.
     result_bind (expectPositiveInt (startingAt p) ''startingAt'') (\<lambda>start'.
     if sortedBy p \<notin> set validSortingOptions
     then Inl (Error (''sortedBy must be one of: '' @ join_quoted validSortingOptions))
     else
       result_map (map pending_of)
         (multiTroveGetter_getMultipleSortedTroves k
            (if sortedBy p = ''descendingCollateralRatio'' then case_option 0 id start'
             else - (case_option 0 id start' + 1))
            (case_option 0 id first') (spread overrides))))"

lemma case_option_id: "(case x of None \<Rightarrow> 0 | Some n \<Rightarrow> n) = case_option 0 id x"
  by (cases x) simp_all

lemma ethers_getTroves_before:
  "ethers_getTroves k (p\<lparr>beforeRedistribution := Some True\<rparr>) overrides = result_map Inl (listed k p overrides)"
  unfolding ethers_getTroves_def listed_def Let_def case_option_id
  by (cases "expectPositiveInt (Some (listing_first p)) ''first''";
      cases "expectPositiveInt (startingAt p) ''startingAt''")
    (auto simp: result_bind_def result_map_def split: sum.split)

lemma ethers_getTroves_after:
  assumes "beforeRedistribution p \<noteq> Some True"
  shows "ethers_getTroves k p overrides = Inr ts \<longleftrightarrow>
    (\<exists>redistributed bs. ethers_getTotalRedistributed k overrides = Inr redistributed
       \<and> listed k p overrides = Inr bs \<and> ts = Inr (map (\<lambda>t. applyRedistribution t redistributed) bs))"
  using assms unfolding ethers_getTroves_def listed_def Let_def case_option_id
  by (cases "expectPositiveInt (Some (listing_first p)) ''first''";
      cases "expectPositiveInt (startingAt p) ''startingAt''";
      cases "ethers_getTotalRedistributed k overrides")
    (auto simp: result_bind_Inr result_map_Inr)

lemma ethers_getTroves_redistributed:
  assumes "beforeRedistribution p \<noteq> Some True" and "ethers_getTotalRedistributed k overrides = Inr redistributed"
  shows "ethers_getTroves k p overrides =
    result_map (\<lambda>bs. Inr (map (\<lambda>t. applyRedistribution t redistributed) bs)) (listed k p overrides)"
  using assms unfolding ethers_getTroves_def listed_def Let_def case_option_id
  by (cases "expectPositiveInt (Some (listing_first p)) ''first''";
      cases "expectPositiveInt (startingAt p) ''startingAt''")
    (auto simp: result_bind_def result_map_def split: sum.split)

lemma ethers_getTroves_fails:
  assumes "beforeRedistribution p \<noteq> Some True" and "ethers_getTotalRedistributed k overrides = Inl e"
  shows "\<exists>e'. ethers_getTroves k p overrides = Inl e'"
  using ethers_getTroves_after [OF assms(1), of k overrides] assms(2)
  by (cases "ethers_getTroves k p overrides") auto

interpretation ethers: redistributing "ethersReadable con k seed overrides"
  for con :: "('abi, 'p, 't) connection" and k seed overrides
proof
  fix address and e :: unit
  show "getTrove (ethersReadable con k seed overrides) address e =
      result_bind (getTroveBeforeRedistribution (ethersReadable con k seed overrides) address e) (\<lambda>before.
      result_bind (getTotalRedistributed (ethersReadable con k seed overrides) e) (\<lambda>redistributed.
        Inr (applyRedistribution before redistributed)))"
    by (simp add: ethersReadable_def ethers_getTrove_def)
next
  fix params :: trove_listing_params and e :: unit and redistributed
  assume "beforeRedistribution params \<noteq> Some True"
    and "getTotalRedistributed (ethersReadable con k seed overrides) e = Inr redistributed"
  then show "getTroves (ethersReadable con k seed overrides) params e =
      result_bind (getTroves (ethersReadable con k seed overrides) (params\<lparr>beforeRedistribution := Some True\<rparr>) e)
        (redistribute_all redistributed)"
    by (simp add: ethersReadable_def ethers_getTroves_before ethers_getTroves_redistributed)
      (cases "listed k params overrides"; simp add: redistribute_all_def)
next
  fix params :: trove_listing_params and e :: unit and err
  assume "beforeRedistribution params \<noteq> Some True"
    and "getTotalRedistributed (ethersReadable con k seed overrides) e = Inl err"
  then show "\<exists>err'. getTroves (ethersReadable con k seed overrides) params e = Inl err'"
    using ethers_getTroves_fails by (simp add: ethersReadable_def)
qed

lemma cons_trial:
  fixes M :: int
  assumes "sum_list ts = n - m" "\<forall>t\<in>set ts. 1 \<le> t \<and> t \<le> M" "\<forall>t\<in>set (butlast ts). t = M"
    "1 \<le> m" "m \<le> M" "m \<noteq> M \<Longrightarrow> ts = []"
  shows "sum_list (m # ts) = n \<and> (\<forall>t\<in>set (m # ts). 1 \<le> t \<and> t \<le> M)
     \<and> (\<forall>t\<in>set (butlast (m # ts)). t = M)"
proof -
  have "sum_list (m # ts) = n" using assms(1) by simp
  moreover have "\<forall>t\<in>set (m # ts). 1 \<le> t \<and> t \<le> M" using assms(2,4,5) by (metis set_ConsD)
  moreover have "\<forall>t\<in>set (butlast (m # ts)). t = M"
    using assms(3,6) by (cases "ts = []") (simp, metis butlast.simps(2) set_ConsD)
  ultimately show ?thesis by blast
qed

lemma trials_loop_props:
  "0 \<le> n \<Longrightarrow> sum_list (trials_loop n) = n \<and> (\<forall>t\<in>set (trials_loop n). 1 \<le> t \<and> t \<le> maxNumberOfTrialsAtOnce)
     \<and> (\<forall>t\<in>set (butlast (trials_loop n)). t = maxNumberOfTrialsAtOnce)"
proof (induction n rule: trials_loop.induct)
  case (1 n)
  show ?case
  proof (cases "n \<le> 0")
    case True
    with 1 show ?thesis by (simp add: trials_loop.simps)
  next
    case False
    let ?m = "min n maxNumberOfTrialsAtOnce"
    from False have loop: "trials_loop n = ?m # trials_loop (n - ?m)"
      by (subst trials_loop.simps) (simp add: Let_def)
    have "0 \<le> n - ?m" by simp
    from 1(1) [OF False refl this] have IH: "sum_list (trials_loop (n - ?m)) = n - ?m"
      "\<forall>t\<in>set (trials_loop (n - ?m)). 1 \<le> t \<and> t \<le> maxNumberOfTrialsAtOnce"
      "\<forall>t\<in>set (butlast (trials_loop (n - ?m))). t = maxNumberOfTrialsAtOnce"
      by blast+
    have last: "trials_loop (n - ?m) = []" if "?m \<noteq> maxNumberOfTrialsAtOnce"
      using that by (subst trials_loop.simps) (auto simp: min_def split: if_splits)
    have m: "1 \<le> ?m" "?m \<le> maxNumberOfTrialsAtOnce"
      using False by (simp_all add: maxNumberOfTrialsAtOnce_def)
    show ?thesis
      unfolding loop by (rule cons_trial [OF IH m last])
  qed
qed

section \<open>Hints name neighbours\<close>

text \<open>The neighbours at a gap of a list, \<open>AddressZero\<close> beyond its ends.\<close>

definition gap :: "string list \<Rightarrow> nat \<Rightarrow> string \<times> string" where
  "gap l i = (if i = 0 then AddressZero else l ! (i - 1), if i < length l then l ! i else AddressZero)"

text \<open>
  The documented behaviour of the \<open>SortedTroves\<close> contract over the list \<open>l\<close> it keeps:
  the first node, the neighbours of a node, and the search for a position, which ends at a gap of the list.
\<close>

definition sorted_troves :: "contracts \<Rightarrow> string list \<Rightarrow> bool" where
  "sorted_troves k l \<longleftrightarrow> distinct l \<and> AddressZero \<notin> set l
     \<and> sortedTroves_getFirst k = Inr (snd (gap l 0))
     \<and> (\<forall>i<length l. sortedTroves_getPrev k (l ! i) = Inr (fst (gap l i)))
     \<and> (\<forall>i<length l. sortedTroves_getNext k (l ! i) = Inr (snd (gap l (Suc i))))
     \<and> (\<forall>nicr a b overrides. \<exists>i\<le>length l. sortedTroves_findInsertPosition k nicr a b overrides = Inr (gap l i))"

text \<open>The list the trove will be inserted into: without the trove itself.\<close>

definition without :: "string option \<Rightarrow> string list \<Rightarrow> string list" where
  "without own l = (case own of None \<Rightarrow> l | Some a \<Rightarrow> if a = '''' then l else remove1 a l)"

lemma gap_ends:
  "i \<le> length l \<Longrightarrow> fst (gap l i) \<in> insert AddressZero (set l) \<and> snd (gap l i) \<in> insert AddressZero (set l)"
  by (auto simp: gap_def)

lemma gap_remove:
  shows "j < length xs \<Longrightarrow> gap (xs @ ys) j = gap (xs @ a # ys) j"
    and "length xs < j \<Longrightarrow> gap (xs @ ys) j = gap (xs @ a # ys) (Suc j)"
    and "gap (xs @ ys) (length xs) = (fst (gap (xs @ a # ys) (length xs)), snd (gap (xs @ a # ys) (Suc (length xs))))"
proof -
  show "length xs < j \<Longrightarrow> gap (xs @ ys) j = gap (xs @ a # ys) (Suc j)"
    by (cases "j - length xs") (auto simp: gap_def nth_append Suc_diff_le less_imp_le intro: arg_cong [of _ _ "(!) ys"])
qed (auto simp: gap_def nth_append nth_Cons split: nat.splits)

lemma gap_fst_iff:
  assumes "distinct (xs @ a # ys)" "AddressZero \<notin> set (xs @ a # ys)" "i \<le> length (xs @ a # ys)"
  shows "fst (gap (xs @ a # ys) i) = a \<longleftrightarrow> i = Suc (length xs)"
    and "snd (gap (xs @ a # ys) i) = a \<longleftrightarrow> i = length xs"
proof -
  have nth: "(xs @ a # ys) ! j = a \<longleftrightarrow> j = length xs" if "j < length (xs @ a # ys)" for j
    using assms(1) that nth_eq_iff_index_eq [OF assms(1) that, of "length xs"] by simp
  have nz: "a \<noteq> AddressZero" using assms(2) by auto
  show "fst (gap (xs @ a # ys) i) = a \<longleftrightarrow> i = Suc (length xs)"
    using nth [of "i - 1"] nz assms(3) by (cases i) (auto simp: gap_def simp del: length_append)
  show "snd (gap (xs @ a # ys) i) = a \<longleftrightarrow> i = length xs"
    using nth [of i] nz assms(3) by (auto simp: gap_def)
qed

lemma jumpOver_gap:
  assumes k: "sorted_troves k l" and i: "i \<le> length l" and own: "own \<noteq> Some AddressZero"
  shows "\<exists>i'\<le>length (without own l). jumpOver k own (gap l i) = Inr (gap (without own l) i')"
proof (cases "\<exists>a. own = Some a \<and> a \<noteq> '''' \<and> a \<in> set l")
  case False
  then have "without own l = l" "jumpOver k own (gap l i) = Inr (gap l i)"
    using gap_ends [OF i] own
    by (auto simp: without_def jumpOver_def remove1_idem split: option.splits prod.splits)
  with i show ?thesis by auto
next
  case True
  then obtain a xs ys where a: "own = Some a" "a \<noteq> ''''" and l: "l = xs @ a # ys"
    by (auto dest: split_list)
  have d: "distinct (xs @ a # ys)" "AddressZero \<notin> set (xs @ a # ys)"
    using k unfolding l by (simp_all add: sorted_troves_def)
  have w: "without own l = xs @ ys" using a d by (simp add: without_def l remove1_append)
  note iff = gap_fst_iff [OF d i [unfolded l]]
  have nbs: "sortedTroves_getPrev k a = Inr (fst (gap l (length xs)))"
    "sortedTroves_getNext k a = Inr (snd (gap l (Suc (length xs))))"
    using k by (auto simp: sorted_troves_def l dest!: spec [of _ "length xs"])
  consider "i = Suc (length xs)" | "i = length xs" | "i < length xs" | j where "i = Suc j" "length xs < j"
    by (cases i) (metis not_gr_zero, metis less_Suc_eq linorder_less_linear not_less_eq)
  then show ?thesis
  proof cases
    case 1
    then have "jumpOver k own (gap l i) = Inr (gap (xs @ ys) (length xs))"
      using a iff nbs by (simp add: jumpOver_def gap_remove(3) [of xs ys a] l case_prod_unfold)
    then show ?thesis unfolding w by (intro exI [of _ "length xs"]) simp
  next
    case 2
    then have "jumpOver k own (gap l i) = Inr (gap (xs @ ys) (length xs))"
      using a iff nbs by (simp add: jumpOver_def gap_remove(3) [of xs ys a] l case_prod_unfold)
    then show ?thesis unfolding w by (intro exI [of _ "length xs"]) simp
  next
    case 3
    then have "jumpOver k own (gap l i) = Inr (gap (xs @ ys) i)"
      using a iff by (simp add: jumpOver_def gap_remove(1) [of i xs ys a] l case_prod_unfold)
    with 3 show ?thesis unfolding w by (intro exI [of _ i]) simp
  next
    case (4 j)
    then have "jumpOver k own (gap l i) = Inr (gap (xs @ ys) j)"
      using a iff by (simp add: jumpOver_def gap_remove(2) [of xs j ys a] l case_prod_unfold)
    with 4 i show ?thesis unfolding w by (intro exI [of _ j]) (simp add: l)
  qed
qed

lemma avoidZero_gap:
  assumes "AddressZero \<notin> set l" and "i \<le> length l" and "l \<noteq> []"
  shows "fst (avoidZero (gap l i)) \<in> set l \<and> snd (avoidZero (gap l i)) \<in> set l"
proof -
  have nz: "l ! j \<noteq> AddressZero" if "j < length l" for j using assms(1) that by (metis nth_mem)
  show ?thesis
    using assms nz [of i] nz [of "i - 1"] by (cases i) (auto simp: avoidZero_def gap_def)
qed

lemma collectApproxHints_Inr:
  assumes "\<And>n s. \<exists>h. hintHelpers_getApproxHint k (bigNumber nicr) n s (spread overrides) = Inr h"
  shows "snd x \<noteq> [] \<Longrightarrow> \<exists>seed rs. collectApproxHints k nicr overrides (Inr x) ts = Inr (seed, rs) \<and> rs \<noteq> []"
proof (induction ts arbitrary: x)
  case Nil
  then show ?case by (cases x) simp
next
  case (Cons n ts)
  obtain h where "hintHelpers_getApproxHint k (bigNumber nicr) (nat n) (fst x) (spread overrides) = Inr h"
    using assms by blast
  then have "collectApproxHint k nicr overrides x n
      = Inr (latestRandomSeed h, snd x @ [(hint_diff h, hintAddress h)])"
    by (simp add: collectApproxHint_def case_prod_unfold)
  with Cons.IH [of "(latestRandomSeed h, snd x @ [(hint_diff h, hintAddress h)])"] show ?case by simp
qed

lemma trialsFor_pos: "0 < n \<Longrightarrow> 0 < trialsFor n"
  by (simp add: trialsFor_def)

lemma closestHint_Inr: "rs \<noteq> [] \<Longrightarrow> \<exists>d a. closestHint rs = Inr (d, a)"
  by (cases rs) (auto intro: surj_pair)

lemma set_without: "set (without own l) \<subseteq> set l"
  using set_remove1_subset by (fastforce simp: without_def split: option.splits if_splits)

lemma finite_hints:
  assumes "sorted_troves k l" and "own \<noteq> Some AddressZero"
    and "ethers_getNumberOfTroves k None = Inr (int (length l))"
    and "\<forall>n s. \<exists>h. hintHelpers_getApproxHint k (bigNumber nicr) n s (spread overrides) = Inr h"
    and "nicr \<noteq> INFINITY" and "0 < int (length l)"
  shows "\<exists>prev nxt i. ethers_findHintsForNominalCollateralRatio seed k nicr own overrides = Inr (prev, nxt)
    \<and> i \<le> length (without own l) \<and> (prev, nxt) = avoidZero (gap (without own l) i)
    \<and> (without own l \<noteq> [] \<longrightarrow> prev \<in> set (without own l) \<and> nxt \<in> set (without own l))
    \<and> (without own l = [] \<longrightarrow> prev = AddressZero \<and> nxt = AddressZero)"
proof -
  note hint = assms(4) [rule_format]
  from trialsFor_pos [OF assms(6)] obtain ts where
    ts: "generateTrials (trialsFor (int (length l))) = Inr ts" by (simp add: generateTrials_def)
  obtain h where "hintHelpers_getApproxHint k (bigNumber nicr) (nat (hd ts)) seed (spread overrides) = Inr h"
    using hint by blast
  then have "collectApproxHint k nicr overrides (seed, []) (hd ts)
      = Inr (latestRandomSeed h, [(hint_diff h, hintAddress h)])"
    by (simp add: collectApproxHint_def)
  moreover from collectApproxHints_Inr [OF hint, of "(latestRandomSeed h, [(hint_diff h, hintAddress h)])"]
  obtain s rs where "collectApproxHints k nicr overrides
      (Inr (latestRandomSeed h, [(hint_diff h, hintAddress h)])) (tl ts) = Inr (s, rs)" "rs \<noteq> []"
    by fastforce
  moreover from closestHint_Inr [OF \<open>rs \<noteq> []\<close>] obtain d a where "closestHint rs = Inr (d, a)" by blast
  moreover from assms(1) obtain i where i: "i \<le> length l"
    "sortedTroves_findInsertPosition k (bigNumber nicr) a a (spread overrides) = Inr (gap l i)"
    unfolding sorted_troves_def by blast
  moreover from jumpOver_gap [OF assms(1) i(1) assms(2)] obtain j where
    j: "j \<le> length (without own l)" "jumpOver k own (gap l i) = Inr (gap (without own l) j)" by blast
  ultimately have "ethers_findHintsForNominalCollateralRatio seed k nicr own overrides
      = Inr (avoidZero (gap (without own l) j))"
    using assms(3,5,6) ts by (simp add: ethers_findHintsForNominalCollateralRatio_def)
  moreover have "AddressZero \<notin> set (without own l)"
    using assms(1) set_without by (auto simp: sorted_troves_def)
  ultimately show ?thesis
    using j(1) avoidZero_gap [of "without own l" j]
    by (intro exI [of _ "fst (avoidZero (gap (without own l) j))"]
        exI [of _ "snd (avoidZero (gap (without own l) j))"] exI [of _ j])
      (auto simp: avoidZero_def gap_def)
qed

section \<open>Properties\<close>

text \<open>
  C35: The search for an approximate hint is split into calls that a public provider accepts:
  with any positive number of troves its assertion holds, every call makes from 1 to 2500
  trials, all but the last one 2500, and together they make ten times the square root of the
  number of troves, rounded up.
\<close>

theorem hint_search_is_bounded:
  assumes "0 < numberOfTroves"
  shows "\<exists>ts. generateTrials (trialsFor numberOfTroves) = Inr ts
    \<and> sum_list ts = trialsFor numberOfTroves
    \<and> 10 * sqrt (real_of_int numberOfTroves) \<le> real_of_int (sum_list ts)
    \<and> real_of_int (sum_list ts) < 10 * sqrt (real_of_int numberOfTroves) + 1
    \<and> (\<forall>t\<in>set ts. 1 \<le> t \<and> t \<le> 2500) \<and> (\<forall>t\<in>set (butlast ts). t = 2500)"
proof -
  note pos = trialsFor_pos [OF assms]
  have "10 * sqrt (real_of_int numberOfTroves) \<le> real_of_int (trialsFor numberOfTroves)"
    "real_of_int (trialsFor numberOfTroves) < 10 * sqrt (real_of_int numberOfTroves) + 1"
    unfolding trialsFor_def by linarith+
  with pos trials_loop_props [OF less_imp_le [OF pos]] show ?thesis
    by (auto simp: generateTrials_def maxNumberOfTrialsAtOnce_def)
qed

theorem hint_search_is_bounded_witness:
  "\<exists>ts. generateTrials (trialsFor 1000000) = Inr ts \<and> sum_list ts = 10000"
proof -
  have "sqrt 1000000 = 1000" by (rule real_sqrt_unique) simp_all
  then have "trialsFor 1000000 = 10000" by (simp add: trialsFor_def)
  with hint_search_is_bounded [of 1000000] show ?thesis by auto
qed

text \<open>
  C10: Caching is transparent to a caller that reads the chain: when the cache holds nothing but
  what the chain's readable would answer, 25 of the 26 reads through the cached readable give
  the readable's own answer or error, for every argument.  The 26th, the listing of troves,
  does so too, except that when the total redistributed cannot be read, where both fail, it may
  report another error than the readable, which checks its parameters first.
\<close>

theorem cached_reads_transparent:
  assumes "coherent cache (ethersReadable con k seed overrides)"
  shows "(cachedReadable cache (ethersReadable con k seed overrides))\<lparr>getTroves := \<lambda>p _. ethers_getTroves k p overrides\<rparr>
      = ethersReadable con k seed overrides
    \<and> (getTroves (cachedReadable cache (ethersReadable con k seed overrides)) params () = ethers_getTroves k params overrides
       \<or> (beforeRedistribution params \<noteq> Some True
         \<and> (\<exists>err err'. ethers_getTotalRedistributed k overrides = Inl err
              \<and> getTroves (cachedReadable cache (ethersReadable con k seed overrides)) params () = Inl err
              \<and> ethers_getTroves k params overrides = Inl err')))"
  using ethers.transparent_but_getTroves [OF assms] ethers.cached_getTroves_transparent [OF assms, of params "()"]
  by (simp add: ethersReadable_def)

text \<open>
  C11: Hints name neighbours.  Over the contracts' sorted list of troves, when they count as many
  troves as it has and answer the approximate searches, for an own address other than the zero
  address, the search for hints returns.  For a finite ratio the two hints are
  neighbours at a gap of the list without the trove that is to be inserted again: never that
  trove, never the zero address unless no other trove is listed, the one neighbour twice at an
  end of the list.  For an infinite ratio, that of a trove without debt, they are the zero
  address and the first trove of the list, which may be the trove itself.
\<close>

theorem hints_are_neighbours:
  assumes "sorted_troves k l" and "own \<noteq> Some AddressZero"
    and "ethers_getNumberOfTroves k None = Inr (int (length l))"
    and "\<forall>n s. \<exists>h. hintHelpers_getApproxHint k (bigNumber nicr) n s (spread overrides) = Inr h"
  shows "\<exists>prev nxt. ethers_findHintsForNominalCollateralRatio seed k nicr own overrides = Inr (prev, nxt)
    \<and> (nicr \<noteq> INFINITY \<longrightarrow> (\<exists>i \<le> length (without own l). (prev, nxt) = avoidZero (gap (without own l) i)
         \<and> (without own l \<noteq> [] \<longrightarrow> prev \<in> set (without own l) \<and> nxt \<in> set (without own l))
         \<and> (without own l = [] \<longrightarrow> prev = AddressZero \<and> nxt = AddressZero)))
    \<and> (nicr = INFINITY \<longrightarrow> prev = AddressZero \<and> nxt = (if l = [] then AddressZero else hd l))"
proof (cases "l = [] \<or> nicr = INFINITY")
  case True
  have "without own [] = []" by (simp add: without_def split: option.split)
  with True assms show ?thesis
    by (auto simp: ethers_findHintsForNominalCollateralRatio_def sorted_troves_def gap_def avoidZero_def hd_conv_nth)
next
  case False
  then have nicr: "nicr \<noteq> INFINITY" and pos: "0 < int (length l)" by auto
  from finite_hints [OF assms nicr pos] show ?thesis using nicr by blast
qed

definition sample_contracts :: contracts where
  "sample_contracts =
     \<lparr>troveManager_L_FIL = \<lambda>_. Inr 1,
      troveManager_L_Debt = \<lambda>_. Inr 1,
      troveManager_Troves = \<lambda>_ _. Inr \<lparr>td_debt = 1, td_coll = 1, td_stake = 1, td_status = 1\<rparr>,
      troveManager_rewardSnapshots = \<lambda>_ _. Inr \<lparr>snap_FIL = 0, snap_debt = 0\<rparr>,
      troveManager_getTroveOwnersCount = \<lambda>_. Inr 2,
      troveManager_lastFeeOperationTime = \<lambda>_. Inr 1,
      troveManager_baseRate = \<lambda>_. Inr 1,
      priceFeed_fetchPrice = \<lambda>_. Inr 1,
      activePool_getFIL = \<lambda>_. Inr 1,
      activePool_getDebt = \<lambda>_. Inr 1,
      defaultPool_getFIL = \<lambda>_. Inr 1,
      defaultPool_getDebt = \<lambda>_. Inr 1,
      stabilityPool_deposits = \<lambda>_ _. Inr (AddressZero, 1),
      stabilityPool_getCompoundedDebtTokenDeposit = \<lambda>_ _. Inr 1,
      stabilityPool_getDepositorFILGain = \<lambda>_ _. Inr 1,
      stabilityPool_getDepositorProtocolTokenGain = \<lambda>_ _. Inr 1,
      stabilityPool_getTotalDebtTokenDeposits = \<lambda>_. Inr 1,
      stabilityPool_frontEnds = \<lambda>_ _. Inr (True, 1),
      communityIssuance_totalProtocolTokenIssued = \<lambda>_. Inr 1,
      debtToken_balanceOf = \<lambda>_ _. Inr 1,
      protocolToken_balanceOf = \<lambda>_ _. Inr 1,
      uniToken_balanceOf = \<lambda>_ _. Inr 1,
      uniToken_allowance = \<lambda>_ _ _. Inr 1,
      unipool_address = ''0xf'',
      unipool_totalSupply = \<lambda>_. Inr 1,
      unipool_rewardRate = \<lambda>_. Inr 1,
      unipool_periodFinish = \<lambda>_. Inr 1,
      unipool_lastUpdateTime = \<lambda>_. Inr 1,
      unipool_balanceOf = \<lambda>_ _. Inr 1,
      unipool_earned = \<lambda>_ _. Inr 1,
      collSurplusPool_getCollateral = \<lambda>_ _. Inr 1,
      multiTroveGetter_getMultipleSortedTroves = \<lambda>_ _ _. Inr [],
      protocolTokenStaking_stakes = \<lambda>_ _. Inr 1,
      protocolTokenStaking_getPendingFILGain = \<lambda>_ _. Inr 1,
      protocolTokenStaking_getPendingDebtTokenGain = \<lambda>_ _. Inr 1,
      protocolTokenStaking_totalProtocolTokenStaked = \<lambda>_. Inr 1,
      sortedTroves_getFirst = Inr ''0xa'',
      sortedTroves_getPrev = \<lambda>a. Inr (if a = ''0xb'' then ''0xa'' else AddressZero),
      sortedTroves_getNext = \<lambda>a. Inr (if a = ''0xa'' then ''0xb'' else AddressZero),
      sortedTroves_findInsertPosition = \<lambda>_ _ _ _. Inr (''0xa'', ''0xb''),
      hintHelpers_getApproxHint = \<lambda>_ _ s _. Inr \<lparr>hintAddress = ''0xa'', hint_diff = 1, latestRandomSeed = s\<rparr>,
      hintHelpers_getRedemptionHints = \<lambda>a _ _ _. Inr \<lparr>firstRedemptionHint = ''0xb'', partialRedemptionHintNICR = 0, truncatedDebtTokenAmount = a\<rparr>,
      usdfcView_getDebtInFront = \<lambda>_ _ _ _. Inr (AddressZero, 1)\<rparr>"

lemma sample_sorted_troves: "sorted_troves sample_contracts [''0xa'', ''0xb'']"
  by (auto simp: sorted_troves_def sample_contracts_def AddressZero_def gap_def less_Suc_eq nth_Cons
      split: nat.splits intro!: exI [of _ "Suc 0"])

theorem hints_are_neighbours_witness:
  "ethers_findHintsForNominalCollateralRatio 0 sample_contracts ONE (Some ''0xa'') None = Inr (''0xb'', ''0xb'')"
proof -
  have "ethers_getNumberOfTroves sample_contracts None = Inr (int (length [''0xa'', ''0xb'']))"
    by (simp add: ethers_getNumberOfTroves_def sample_contracts_def numberify_def MAX_SAFE_INTEGER_def)
  moreover have "\<forall>n s. \<exists>h. hintHelpers_getApproxHint sample_contracts (bigNumber ONE) n s (spread None) = Inr h"
    by (simp add: sample_contracts_def)
  moreover have "ONE \<noteq> INFINITY" by (simp add: ONE_def INFINITY_def DIGITS_eq MAX_UINT_256_def)
  ultimately obtain p n where
    "ethers_findHintsForNominalCollateralRatio 0 sample_contracts ONE (Some ''0xa'') None = Inr (p, n)"
    "p \<in> set (without (Some ''0xa'') [''0xa'', ''0xb''])" "n \<in> set (without (Some ''0xa'') [''0xa'', ''0xb''])"
    using hints_are_neighbours [OF sample_sorted_troves, of "Some ''0xa''" ONE None 0]
    by (auto simp: AddressZero_def without_def)
  then show ?thesis by (simp add: without_def)
qed

text \<open>A cache that holds three of the answers of the sample contracts.\<close>

definition sample_chain_cache :: "unit read_cache" where
  "sample_chain_cache = sample_cache
     \<lparr>cache_getPrice := \<lambda>_. Some (Decimal 1),
      cache_getTotalRedistributed := \<lambda>_. Some \<lparr>collateral = Decimal 1, debt = Decimal 1\<rparr>,
      cache_getTroves := \<lambda>p _. if expectPositiveInt (Some (listing_first p)) ''first'' = Inr (Some 1)
          \<and> startingAt p = None \<and> sortedBy p = ''descendingCollateralRatio'' \<and> beforeRedistribution p = Some True
        then Some (Inl []) else None\<rparr>"

lemma sample_chain_coherent: "coherent sample_chain_cache (ethersReadable con sample_contracts seed None)"
  by (auto simp: coherent_def sample_chain_cache_def sample_cache_def ethersReadable_def sample_contracts_def
      ethers_getPrice_def ethers_getTotalRedistributed_def read_trove_def ethers_getTroves_def
      expectPositiveInt_def validSortingOptions_def split: if_splits)

definition sample_connection :: "(unit, unit, unit) connection" where
  "sample_connection =
     \<lparr>con_provider = sample_provider, con_signer = None, con_contracts = [], multicall = None,
      con_chainId = 314, con_deploymentDate = 0, totalStabilityPoolProtocolTokenReward = ONE,
      liquidityMiningProtocolTokenRewardRate = ZERO, con_deployment = sample_deployment,
      userAddress = Some ''0xa'', con_frontendTag = Some ''0xf'', useStore = Some ''blockPolled''\<rparr>"

theorem cached_reads_transparent_witness:
  "cachedReadable sample_chain_cache (ethersReadable sample_connection sample_contracts 0 None)
     = ethersReadable sample_connection sample_contracts 0 None"
proof -
  let ?r = "ethersReadable sample_connection sample_contracts 0 None"
  let ?c = "cachedReadable sample_chain_cache ?r"
  note t = cached_reads_transparent [OF sample_chain_coherent [of sample_connection 0]]
  have "ethers_getTotalRedistributed sample_contracts None = Inr \<lparr>collateral = Decimal 1, debt = Decimal 1\<rparr>"
    by (simp add: ethers_getTotalRedistributed_def read_trove_def sample_contracts_def)
  then have "getTroves ?c p () = ethers_getTroves sample_contracts p None" for p using t [of p] by auto
  then have "?c\<lparr>getTroves := \<lambda>p _. ethers_getTroves sample_contracts p None\<rparr> = ?c" by (intro readable.equality) (simp_all add: fun_eq_iff)
  with t show ?thesis by simp
qed

end
