(* ===== verification/Ethers_Logs.thy ===== *)
theory Ethers_Logs
  imports Ethers_Readable
begin

text \<open>
  Logs of transactions: \<open>extractEvents\<close> of \<^verbatim>\<open>packages/lib-ethers/src/contracts.ts\<close> and
  \<^verbatim>\<open>src/parseLogs.ts\<close>, which prints the logs of a receipt.

  How ethers decodes a log is a parameter: a contract is its address with the function
  \<open>parseLog\<close> of its interface, which throws on a log it does not know.  A decoded log has a
  name and arguments in the order of \<open>Object.entries\<close>, each a \<open>BigNumber\<close>, a string, or
  something else with the text \<open>String\<close> gives for it.
\<close>

section \<open>Logs and events\<close>

record log_entry =
  log_address :: string
  log_data :: string

datatype event_arg =
    ABigNumber nat
  | AString string
  | AOther string

record log_description =
  ld_name :: string
  ld_args :: "(string \<times> event_arg) list"

record event_contract =
  ec_address :: string
  ec_parseLog :: "log_entry \<Rightarrow> log_description result"

definition extractEvents :: "event_contract \<Rightarrow> log_entry list \<Rightarrow> string \<Rightarrow> log_description list result" where
  "extractEvents this logs name =
     result_map (filter (\<lambda>e. ld_name e = name))
       (result_list (ec_parseLog this) (filter (\<lambda>log. log_address log = ec_address this) logs))"

text \<open>
  Destructuring \<open>args\<close> by name: \<open>decimalify\<close> of an argument throws unless it is a
  \<open>BigNumber\<close>; an argument compared with an address is equal to it or not.
\<close>

definition amount_arg :: "log_description \<Rightarrow> string \<Rightarrow> decimal result" where
  "amount_arg e key =
     (case map_of (ld_args e) key of
        Some (ABigNumber n) \<Rightarrow> decimalify n
      | _ \<Rightarrow> Inl (TypeError ''bigNumber.toHexString is not a function''))"

definition address_arg :: "log_description \<Rightarrow> string \<Rightarrow> string option" where
  "address_arg e key =
     (case map_of (ld_args e) key of Some (AString a) \<Rightarrow> Some a | _ \<Rightarrow> None)"

text \<open>\<open>const [x] = events.map(f)\<close>: every event is mapped, the first result is kept.\<close>

definition first_of :: "('a \<Rightarrow> 'b result) \<Rightarrow> 'a list \<Rightarrow> 'b option result" where
  "first_of f xs = result_map (\<lambda>ys. case ys of [] \<Rightarrow> None | y # _ \<Rightarrow> Some y) (result_list f xs)"

section \<open>\<^verbatim>\<open>parseLogs.ts\<close>\<close>

type_synonym contract_lookup = "(string \<times> event_contract) list"

text \<open>\<open>Object.fromEntries\<close>: of two entries with one key, the later wins.\<close>

definition interfaceLookupFrom :: "contract_lookup \<Rightarrow> string \<rightharpoonup> (log_entry \<Rightarrow> log_description result)" where
  "interfaceLookupFrom contracts = map_of (rev (map (\<lambda>(_, c). (ec_address c, ec_parseLog c)) contracts))"

definition nameLookupFrom :: "contract_lookup \<Rightarrow> string \<rightharpoonup> string" where
  "nameLookupFrom contracts = map_of (rev (map (\<lambda>(name, c). (ec_address c, name)) contracts))"

type_synonym parsed_log = "string \<times> log_description"

definition tryToParseLog ::
  "log_entry \<Rightarrow> (string \<rightharpoonup> (log_entry \<Rightarrow> log_description result)) \<Rightarrow> parsed_log option" where
  "tryToParseLog entry interfaces =
     (case interfaces (log_address entry) of
        None \<Rightarrow> None
      | Some parse \<Rightarrow>
          (case parse entry of
             Inl _ \<Rightarrow> None
           | Inr description \<Rightarrow> Some (log_address entry, description)))"

fun parseLogs ::
  "log_entry list \<Rightarrow> (string \<rightharpoonup> (log_entry \<Rightarrow> log_description result)) \<Rightarrow> parsed_log list \<times> log_entry list" where
  "parseLogs [] interfaces = ([], [])"
| "parseLogs (entry # logs) interfaces =
     (let (parsed, unparsed) = parseLogs logs interfaces
      in case tryToParseLog entry interfaces of
           Some p \<Rightarrow> (p # parsed, unparsed)
         | None \<Rightarrow> (parsed, entry # unparsed))"

definition VERY_BIG :: nat where
  "VERY_BIG = 10 ^ 9"

definition prettify_arg :: "event_arg \<Rightarrow> (string \<rightharpoonup> string) \<Rightarrow> string" where
  "prettify_arg arg names =
     (case arg of
        ABigNumber n \<Rightarrow>
          (if VERY_BIG \<le> n then showDecimal (Decimal n) @ ''e18'' else show_nat n)
      | AString s \<Rightarrow>
          (if s = AddressZero then ''address(0)''
           else case names s of Some name \<Rightarrow> name | None \<Rightarrow> s)
      | AOther s \<Rightarrow> s)"

fun join_with :: "string \<Rightarrow> string list \<Rightarrow> string" where
  "join_with sep [] = []"
| "join_with sep [x] = x"
| "join_with sep (x # xs) = x @ sep @ join_with sep xs"

definition starts_with_digit :: "string \<Rightarrow> bool" where
  "starts_with_digit key \<longleftrightarrow> (case key of [] \<Rightarrow> False | c # _ \<Rightarrow> is_digit c)"

definition logDescriptionToString :: "log_description \<Rightarrow> (string \<rightharpoonup> string) \<Rightarrow> string" where
  "logDescriptionToString e names =
     (let prettyEntries =
            map (\<lambda>(key, v). key @ '': '' @ prettify_arg v names)
              (filter (\<lambda>(key, _). \<not> starts_with_digit key) (ld_args e))
      in ld_name e @ ''({ '' @ join_with '', '' prettyEntries @ '' })'')"

record receipt =
  rc_status :: bool
  rc_from :: string
  rc_logs :: "log_entry list"
  rc_transactionHash :: string

text \<open>An address without a name prints as \<open>undefined\<close>; the parsed ones all have one.\<close>

definition logsToString :: "receipt \<Rightarrow> contract_lookup \<Rightarrow> string" where
  "logsToString rc contracts =
     (let names = nameLookupFrom contracts;
          nameLookup = [rc_from rc \<mapsto> ''user''] ++ names;
          (parsed, unparsed) = parseLogs (rc_logs rc) (interfaceLookupFrom contracts)
      in if parsed \<noteq> []
         then ''Logs of tx '' @ rc_transactionHash rc @ '':'' @ [CHR 0x0A] @
              join_with [CHR 0x0A]
                (map (\<lambda>(a, e). ''  '' @ (case names a of Some name \<Rightarrow> name | None \<Rightarrow> ''undefined'') @
                     ''.'' @ logDescriptionToString e nameLookup) parsed)
         else ''No logs were parsed in tx '' @ rc_transactionHash rc)"

section \<open>Lemmas\<close>

text \<open>Events of a contract depend on the logs it emitted only.\<close>

definition emitted_by :: "string set \<Rightarrow> log_entry list \<Rightarrow> log_entry list" where
  "emitted_by addresses logs = filter (\<lambda>log. log_address log \<in> addresses) logs"

lemma extractEvents_emitted:
  "ec_address c \<in> A \<Longrightarrow> extractEvents c (emitted_by A logs) name = extractEvents c logs name"
proof -
  assume "ec_address c \<in> A"
  then have "filter (\<lambda>log. log_address log = ec_address c) (emitted_by A logs)
      = filter (\<lambda>log. log_address log = ec_address c) logs"
    by (induction logs) (auto simp: emitted_by_def)
  then show ?thesis by (simp add: extractEvents_def)
qed

lemma result_list_set:
  "result_list f xs = Inr ys \<Longrightarrow> y \<in> set ys \<Longrightarrow> \<exists>x\<in>set xs. f x = Inr y"
  by (induction xs arbitrary: ys) (auto simp: result_bind_Inr)

lemma extractEvents_sound:
  assumes "extractEvents c logs name = Inr es" and "e \<in> set es"
  shows "ld_name e = name \<and> (\<exists>log\<in>set logs. log_address log = ec_address c \<and> ec_parseLog c log = Inr e)"
  using assms result_list_set [of "ec_parseLog c" "filter (\<lambda>log. log_address log = ec_address c) logs"]
  by (fastforce simp: extractEvents_def result_map_Inr)

lemma interface_has_name:
  "interfaceLookupFrom contracts a = Some p \<Longrightarrow> \<exists>name. nameLookupFrom contracts a = Some name"
  using map_of_eq_None_iff [of "rev (map (\<lambda>(name, c). (ec_address c, name)) contracts)" a]
    map_of_eq_None_iff [of "rev (map (\<lambda>(_, c). (ec_address c, ec_parseLog c)) contracts)" a]
  by (auto simp: interfaceLookupFrom_def nameLookupFrom_def image_image case_prod_beta)

lemma parseLogs_parsed:
  "(a, e) \<in> set (fst (parseLogs logs interfaces)) \<Longrightarrow> interfaces a \<noteq> None"
  by (induction logs)
    (auto simp: Let_def tryToParseLog_def split: prod.splits option.splits sum.splits)

lemma parseLogs_partition:
  "fst (parseLogs logs interfaces) = List.map_filter (\<lambda>entry. tryToParseLog entry interfaces) logs
   \<and> snd (parseLogs logs interfaces) = filter (\<lambda>entry. tryToParseLog entry interfaces = None) logs"
  by (induction logs) (auto simp: Let_def map_filter_simps split: prod.splits option.splits)

section \<open>Properties\<close>

text \<open>
  Printing the logs of a receipt never fails and loses none: each log is either parsed, and
  then printed under the name of the contract that emitted it, or kept among the unparsed
  ones, in their order; a contract's events come from logs it emitted itself.
\<close>

theorem logs_parsed_or_kept:
  "fst (parseLogs logs (interfaceLookupFrom contracts))
     = List.map_filter (\<lambda>entry. tryToParseLog entry (interfaceLookupFrom contracts)) logs
   \<and> snd (parseLogs logs (interfaceLookupFrom contracts))
     = filter (\<lambda>entry. tryToParseLog entry (interfaceLookupFrom contracts) = None) logs
   \<and> length (fst (parseLogs logs (interfaceLookupFrom contracts)))
     + length (snd (parseLogs logs (interfaceLookupFrom contracts))) = length logs
   \<and> fst ` set (fst (parseLogs logs (interfaceLookupFrom contracts))) \<subseteq> dom (nameLookupFrom contracts)"
proof -
  have "length (fst (parseLogs logs i)) + length (snd (parseLogs logs i)) = length logs" for i
    by (induction logs) (auto simp: Let_def split: prod.splits option.splits)
  moreover have "fst ` set (fst (parseLogs logs (interfaceLookupFrom contracts))) \<subseteq> dom (nameLookupFrom contracts)"
    using parseLogs_parsed interface_has_name by fastforce
  ultimately show ?thesis using parseLogs_partition by blast
qed

end
