(* ===== verification/Ethers_Calls.thy ===== *)
theory Ethers_Calls
  imports Ethers_Logs "HOL-Library.Log_Nat"
begin

text \<open>
  Calls of the contracts that change state: the estimating wrappers of
  \<^verbatim>\<open>packages/lib-ethers/src/contracts.ts\<close> and, of \<^verbatim>\<open>src/PopulatableEthers.ts\<close>, the gas added to
  an estimate and the details parsed out of a receipt.

  A call is the contract's method with its arguments; an amount is the big number the code
  passes as \<open>hex\<close>.  What estimates the gas of a call and populates its transaction is a
  parameter, the record \<open>tx_network\<close>.
\<close>

section \<open>Calls\<close>

datatype contract_call =
    Call_openTrove (oc_maxRate: nat) (oc_debt: nat) (oc_upper: string) (oc_lower: string) (oc_value: nat)
  | Call_closeTrove
  | Call_adjustTrove (ac_maxRate: nat) (ac_withdraw: nat) (ac_debt: nat) (ac_isIncrease: bool)
      (ac_upper: string) (ac_lower: string) (ac_value: "nat option")
  | Call_claimCollateral
  | Call_setPrice nat
  | Call_batchLiquidateTroves "string list"
  | Call_liquidate string
  | Call_liquidateTroves int
  | Call_provideToSP nat string
  | Call_withdrawFromSP nat
  | Call_withdrawFILGainToTrove string string
  | Call_registerFrontEnd nat
  | Call_transferDebtToken string nat
  | Call_transferProtocolToken string nat
  | Call_redeemCollateral (rc_amount: nat) (rc_firstHint: string) (rc_upper: string) (rc_lower: string)
      (rc_partialNICR: nat) (rc_maxIterations: nat) (rc_maxFee: nat)
  | Call_stake nat
  | Call_unstake nat
  | Call_mint string nat
  | Call_approve string nat
  | Call_stakeUni nat
  | Call_withdrawUni nat
  | Call_claimReward
  | Call_withdrawAndClaim

record 'p tx_network =
  estimateGas :: "contract_call \<Rightarrow> tx_overrides \<Rightarrow> nat result"
  populateTransaction :: "contract_call \<Rightarrow> tx_overrides \<Rightarrow> 'p result"

text \<open>The wrapper \<open>buildEstimatedFunctions\<close> makes for each method.\<close>

definition estimateAndPopulate ::
  "'p tx_network \<Rightarrow> contract_call \<Rightarrow> tx_overrides \<Rightarrow> (nat \<Rightarrow> nat) \<Rightarrow> 'p result" where
  "estimateAndPopulate net call overrides adjustEstimate =
     result_bind
       (if ov_gasLimit overrides = None
        then result_map (\<lambda>estimatedGas. overrides\<lparr>ov_gasLimit := Some (adjustEstimate estimatedGas)\<rparr>)
               (estimateGas net call overrides)
        else Inr overrides)
       (populateTransaction net call)"

section \<open>Gas\<close>

definition bigNumberMax :: "nat \<Rightarrow> nat option \<Rightarrow> nat" where
  "bigNumberMax a b = (case b of None \<Rightarrow> a | Some y \<Rightarrow> if a < y then y else a)"

text \<open>\<open>Math.ceil(Math.log2(n + 1))\<close> in exact arithmetic; the minutes are whole.\<close>

definition addGasForBaseRateUpdate :: "nat \<Rightarrow> nat \<Rightarrow> nat" where
  "addGasForBaseRateUpdate maxMinutesSinceLastUpdate gas =
     gas + (10000 + 1414 * ceillog2 (maxMinutesSinceLastUpdate + 1))"

definition addGasForPotentialListTraversal :: "nat \<Rightarrow> nat" where
  "addGasForPotentialListTraversal gas = gas + 80000"

definition addGasForProtocolTokenIssuance :: "nat \<Rightarrow> nat" where
  "addGasForProtocolTokenIssuance gas = gas + 50000"

definition addGasForUnipoolRewardUpdate :: "nat \<Rightarrow> nat" where
  "addGasForUnipoolRewardUpdate gas = gas + 20000"

definition defaultBorrowingRateSlippageTolerance :: "decimal result" where
  "defaultBorrowingRateSlippageTolerance = from_ish (DNumber ''0.005'')"

definition defaultRedemptionRateSlippageTolerance :: "decimal result" where
  "defaultRedemptionRateSlippageTolerance = from_ish (DNumber ''0.001'')"

definition defaultBorrowingFeeDecayToleranceMinutes :: nat where
  "defaultBorrowingFeeDecayToleranceMinutes = 10"

section \<open>Details of a receipt\<close>

text \<open>The contracts whose events are read.\<close>

record event_contracts =
  ev_activePool :: event_contract
  ev_borrowerOperations :: event_contract
  ev_debtToken :: event_contract
  ev_stabilityPool :: event_contract
  ev_troveManager :: event_contract

record 'a trove_change_details =
  tc_params :: 'a
  tc_newTrove :: "trove option"
  tc_fee :: "decimal option"

record closure_details =
  cd_withdrawCollateral :: "decimal option"
  cd_repayDebtToken :: "decimal option"

record liquidation_totals =
  lt_collateralGasCompensation :: decimal
  lt_debtGasCompensation :: decimal
  lt_totalLiquidated :: trove

record liquidation_details =
  li_liquidatedAddresses :: "string option list"
  li_totals :: "liquidation_totals option"

record gains_details =
  ga_debtTokenLoss :: decimal
  ga_newDebtTokenDeposit :: "decimal option"
  ga_collateralGain :: decimal
  ga_protocolTokenReward :: "decimal option"

datatype deposit_change_made =
    MadeDeposit decimal
  | MadeWithdrawal "decimal option" bool

record deposit_change_details =
  dd_gains :: gains_details
  dd_change :: deposit_change_made

record gain_transfer_details =
  gt_gains :: gains_details
  gt_newTrove :: "trove option"

record redemption_details =
  re_attempted :: decimal
  re_actual :: decimal
  re_collateralTaken :: decimal
  re_fee :: decimal

text \<open>\<open>const [x] = contract.extractEvents(logs, name).filter(p).map(f)\<close>\<close>

definition first_event ::
  "event_contract \<Rightarrow> receipt \<Rightarrow> string \<Rightarrow> (log_description \<Rightarrow> bool) \<Rightarrow>
     (log_description \<Rightarrow> 'b result) \<Rightarrow> 'b option result" where
  "first_event c rc name p f =
     result_bind (extractEvents c (rc_logs rc) name) (\<lambda>es. first_of f (filter p es))"

definition trove_arg :: "string \<Rightarrow> string \<Rightarrow> log_description \<Rightarrow> trove result" where
  "trove_arg coll dbt e =
     result_bind (amount_arg e coll) (\<lambda>c. result_map (\<lambda>d. \<lparr>collateral = c, debt = d\<rparr>) (amount_arg e dbt))"

definition parseTroveChangeWithFees :: "event_contracts \<Rightarrow> 'a \<Rightarrow> receipt \<Rightarrow> 'a trove_change_details result" where
  "parseTroveChangeWithFees ev params rc =
     result_bind (first_event (ev_borrowerOperations ev) rc ''TroveUpdated'' (\<lambda>_. True)
                    (trove_arg ''_coll'' ''_debt'')) (\<lambda>newTrove.
     result_map (\<lambda>fee. \<lparr>tc_params = params, tc_newTrove = newTrove, tc_fee = fee\<rparr>)
       (first_event (ev_borrowerOperations ev) rc ''DebtTokenBorrowingFeePaid'' (\<lambda>_. True)
          (\<lambda>e. amount_arg e ''_debtTokenFee'')))"

definition parseTroveClosure :: "event_contracts \<Rightarrow> receipt \<Rightarrow> closure_details result" where
  "parseTroveClosure ev rc =
     result_bind (first_event (ev_debtToken ev) rc ''Transfer''
         (\<lambda>e. address_arg e ''from'' = Some (rc_from rc) \<and> address_arg e ''to'' = Some AddressZero)
         (\<lambda>e. amount_arg e ''value'')) (\<lambda>repay.
     result_bind (first_event (ev_activePool ev) rc ''FILSent''
         (\<lambda>e. address_arg e ''_to'' = Some (rc_from rc)) (\<lambda>e. amount_arg e ''_amount'')) (\<lambda>withdraw.
     case repay of
       None \<Rightarrow> Inl (TypeError ''repayDebtToken is undefined'')
     | Some r \<Rightarrow>
         Inr \<lparr>cd_withdrawCollateral = withdraw,
              cd_repayDebtToken = (if nonZero_dec r \<noteq> None then Some r else None)\<rparr>))"

definition parseLiquidation :: "event_contracts \<Rightarrow> receipt \<Rightarrow> liquidation_details result" where
  "parseLiquidation ev rc =
     result_bind (extractEvents (ev_troveManager ev) (rc_logs rc) ''TroveLiquidated'') (\<lambda>liquidated.
     result_map (\<lambda>totals. \<lparr>li_liquidatedAddresses = map (\<lambda>e. address_arg e ''_borrower'') liquidated,
                           li_totals = totals\<rparr>)
       (first_event (ev_troveManager ev) rc ''Liquidation'' (\<lambda>_. True) (\<lambda>e.
          result_bind (amount_arg e ''_collGasCompensation'') (\<lambda>c.
          result_bind (amount_arg e ''_debtGasCompensation'') (\<lambda>d.
          result_map (\<lambda>t. \<lparr>lt_collateralGasCompensation = c, lt_debtGasCompensation = d,
                           lt_totalLiquidated = t\<rparr>)
            (trove_arg ''_liquidatedColl'' ''_liquidatedDebt'' e))))))"

text \<open>Destructuring the pair of a missing event throws.\<close>

definition extractStabilityPoolGainsWithdrawalDetails ::
  "event_contracts \<Rightarrow> receipt \<Rightarrow> gains_details result" where
  "extractStabilityPoolGainsWithdrawalDetails ev rc =
     result_bind (first_event (ev_stabilityPool ev) rc ''UserDepositChanged'' (\<lambda>_. True)
                    (\<lambda>e. amount_arg e ''_newDeposit'')) (\<lambda>newDeposit.
     result_bind (first_event (ev_stabilityPool ev) rc ''FILGainWithdrawn'' (\<lambda>_. True)
                    (\<lambda>e. result_bind (amount_arg e ''_FIL'') (\<lambda>gain.
                         result_map (\<lambda>loss. (gain, loss)) (amount_arg e ''_debtTokenLoss'')))) (\<lambda>pair.
     case pair of
       None \<Rightarrow> Inl (TypeError ''undefined is not iterable'')
     | Some (gain, loss) \<Rightarrow>
         result_map (\<lambda>reward. \<lparr>ga_debtTokenLoss = loss, ga_newDebtTokenDeposit = newDeposit,
                               ga_collateralGain = gain, ga_protocolTokenReward = reward\<rparr>)
           (first_event (ev_stabilityPool ev) rc ''ProtocolTokenPaidToDepositor'' (\<lambda>_. True)
              (\<lambda>e. amount_arg e ''_protocolToken''))))"

definition parseStabilityDepositTopup ::
  "event_contracts \<Rightarrow> decimal \<Rightarrow> receipt \<Rightarrow> deposit_change_details result" where
  "parseStabilityDepositTopup ev depositDebtToken rc =
     result_map (\<lambda>gains. \<lparr>dd_gains = gains, dd_change = MadeDeposit depositDebtToken\<rparr>)
       (extractStabilityPoolGainsWithdrawalDetails ev rc)"

definition parseStabilityDepositWithdrawal ::
  "event_contracts \<Rightarrow> receipt \<Rightarrow> deposit_change_details result" where
  "parseStabilityDepositWithdrawal ev rc =
     result_bind (extractStabilityPoolGainsWithdrawalDetails ev rc) (\<lambda>gains.
     result_bind (first_event (ev_debtToken ev) rc ''Transfer''
         (\<lambda>e. address_arg e ''from'' = Some (ec_address (ev_stabilityPool ev))
            \<and> address_arg e ''to'' = Some (rc_from rc))
         (\<lambda>e. amount_arg e ''value'')) (\<lambda>withdraw.
     case ga_newDebtTokenDeposit gains of
       None \<Rightarrow> Inl (TypeError ''newDebtTokenDeposit is undefined'')
     | Some d \<Rightarrow> Inr \<lparr>dd_gains = gains, dd_change = MadeWithdrawal withdraw (isZero d)\<rparr>))"

definition parseCollateralGainTransfer :: "event_contracts \<Rightarrow> receipt \<Rightarrow> gain_transfer_details result" where
  "parseCollateralGainTransfer ev rc =
     result_bind (first_event (ev_borrowerOperations ev) rc ''TroveUpdated'' (\<lambda>_. True)
                    (trove_arg ''_coll'' ''_debt'')) (\<lambda>newTrove.
     result_map (\<lambda>gains. \<lparr>gt_gains = gains, gt_newTrove = newTrove\<rparr>)
       (extractStabilityPoolGainsWithdrawalDetails ev rc))"

definition parseRedemption :: "event_contracts \<Rightarrow> receipt \<Rightarrow> redemption_details option result" where
  "parseRedemption ev rc =
     first_event (ev_troveManager ev) rc ''Redemption'' (\<lambda>_. True) (\<lambda>e.
       result_bind (amount_arg e ''_attemptedDebtTokenAmount'') (\<lambda>attempted.
       result_bind (amount_arg e ''_actualDebtTokenAmount'') (\<lambda>actual.
       result_bind (amount_arg e ''_FILSent'') (\<lambda>sent.
       result_map (\<lambda>fee. \<lparr>re_attempted = attempted, re_actual = actual,
                          re_collateralTaken = sent, re_fee = fee\<rparr>)
         (amount_arg e ''_FILFee'')))))"

section \<open>Lemmas\<close>

lemma ceillog2_10: "ceillog2 11 = 4"
  by (rule ceillog2_eqI) simp_all

lemma estimateAndPopulate_Inr:
  "estimateAndPopulate net call ov adjustEstimate = Inr raw \<longleftrightarrow>
     (\<exists>ov'. populateTransaction net call ov' = Inr raw
        \<and> (case ov_gasLimit ov of
             Some _ \<Rightarrow> ov' = ov
           | None \<Rightarrow> \<exists>gas. estimateGas net call ov = Inr gas \<and> ov' = ov\<lparr>ov_gasLimit := Some (adjustEstimate gas)\<rparr>))"
  by (auto simp: estimateAndPopulate_def result_bind_Inr result_map_Inr split: option.splits)

lemma bigNumberMax_eq: "bigNumberMax a b = (case b of None \<Rightarrow> a | Some y \<Rightarrow> max a y)"
  by (simp add: bigNumberMax_def max_def split: option.split)

definition own_addresses :: "event_contracts \<Rightarrow> string set" where
  "own_addresses ev =
     {ec_address (ev_activePool ev), ec_address (ev_borrowerOperations ev), ec_address (ev_debtToken ev),
      ec_address (ev_stabilityPool ev), ec_address (ev_troveManager ev)}"

definition own_logs :: "event_contracts \<Rightarrow> receipt \<Rightarrow> receipt" where
  "own_logs ev rc = rc\<lparr>rc_logs := emitted_by (own_addresses ev) (rc_logs rc)\<rparr>"

lemma own_logs_simps [simp]:
  "rc_from (own_logs ev rc) = rc_from rc"
  "rc_logs (own_logs ev rc) = emitted_by (own_addresses ev) (rc_logs rc)"
  by (simp_all add: own_logs_def)

lemma own_addresses_simps [simp]:
  "ec_address (ev_activePool ev) \<in> own_addresses ev"
  "ec_address (ev_borrowerOperations ev) \<in> own_addresses ev"
  "ec_address (ev_debtToken ev) \<in> own_addresses ev"
  "ec_address (ev_stabilityPool ev) \<in> own_addresses ev"
  "ec_address (ev_troveManager ev) \<in> own_addresses ev"
  by (simp_all add: own_addresses_def)

lemma first_event_own [simp]:
  "ec_address c \<in> own_addresses ev \<Longrightarrow> first_event c (own_logs ev rc) name p f = first_event c rc name p f"
  by (simp add: first_event_def extractEvents_emitted)

lemma gains_own [simp]:
  "extractStabilityPoolGainsWithdrawalDetails ev (own_logs ev rc)
     = extractStabilityPoolGainsWithdrawalDetails ev rc"
  unfolding extractStabilityPoolGainsWithdrawalDetails_def
  by (simp cong: option.case_cong prod.case_cong)

section \<open>Properties\<close>

text \<open>
  The details of a mined transaction come from the protocol's own events: whatever other
  contracts logged in the same transaction, under the same event names or not, every parser
  gives the same details or the same error.
\<close>

theorem details_from_own_logs:
  "parseTroveChangeWithFees ev params (own_logs ev rc) = parseTroveChangeWithFees ev params rc
   \<and> parseTroveClosure ev (own_logs ev rc) = parseTroveClosure ev rc
   \<and> parseLiquidation ev (own_logs ev rc) = parseLiquidation ev rc
   \<and> parseStabilityDepositTopup ev d (own_logs ev rc) = parseStabilityDepositTopup ev d rc
   \<and> parseStabilityDepositWithdrawal ev (own_logs ev rc) = parseStabilityDepositWithdrawal ev rc
   \<and> parseCollateralGainTransfer ev (own_logs ev rc) = parseCollateralGainTransfer ev rc
   \<and> parseRedemption ev (own_logs ev rc) = parseRedemption ev rc"
  by (simp add: parseTroveChangeWithFees_def parseTroveClosure_def parseLiquidation_def
      parseStabilityDepositTopup_def parseStabilityDepositWithdrawal_def parseCollateralGainTransfer_def
      parseRedemption_def extractEvents_emitted)

end
