(* ===== verification/Ethers_Receipts.thy ===== *)
theory Ethers_Receipts
  imports Ethers_Logs
begin

text \<open>
  Sent transactions: \<open>SentEthersTransaction\<close>, the error classification and
  \<open>PopulatedEthersTransaction.send\<close> of \<^verbatim>\<open>packages/lib-ethers/src/PopulatableEthers.ts\<close>, the receipts of
  \<^verbatim>\<open>packages/lib-base/src/SendableProtocol.ts\<close> and \<open>waitForSuccess\<close> of \<^verbatim>\<open>EthersSfStablecoin.ts\<close>.

  What the network does to a transaction is a parameter: \<open>sent_wait\<close>, the \<open>wait\<close> of the sent
  transaction, settles to a receipt, to \<open>null\<close> (\<open>None\<close>), or throws.
\<close>

section \<open>What can be thrown\<close>

record raw_error =
  err_code :: "string option"
  err_reason :: "string option"
  err_cancelled :: bool
  err_receipt :: receipt

text \<open>A thrown value is an \<open>Error\<close> with the properties ethers adds, or something else.\<close>

datatype wait_error = RawError raw_error | NotAnError string

datatype tx_failure =
    Thrown js_error
  | Rethrown wait_error
  | TransactionCancelled receipt string
  | TransactionFailed receipt

type_synonym 'a tx_result = "tx_failure + 'a"

definition tx_bind :: "'a tx_result \<Rightarrow> ('a \<Rightarrow> 'b tx_result) \<Rightarrow> 'b tx_result" where
  "tx_bind r f = (case r of Inl e \<Rightarrow> Inl e | Inr x \<Rightarrow> f x)"

definition tx_lift :: "'a result \<Rightarrow> 'a tx_result" where
  "tx_lift r = (case r of Inl e \<Rightarrow> Inl (Thrown e) | Inr x \<Rightarrow> Inr x)"

lemma tx_simps [simp]:
  "tx_bind (Inl e) f = Inl e" "tx_bind (Inr x) f = f x"
  "tx_lift (Inl j) = Inl (Thrown j)" "tx_lift (Inr y) = Inr y"
  by (simp_all add: tx_bind_def tx_lift_def)

lemma tx_bind_Inr: "tx_bind r f = Inr y \<longleftrightarrow> (\<exists>x. r = Inr x \<and> f x = Inr y)"
  by (cases r) simp_all

lemma tx_lift_Inr: "tx_lift r = Inr y \<longleftrightarrow> r = Inr y"
  by (cases r) simp_all

section \<open>Classifying errors\<close>

definition TRANSACTION_FAILED :: string where
  "TRANSACTION_FAILED = ''transaction failed''"

definition TRANSACTION_REPRICED :: string where
  "TRANSACTION_REPRICED = ''repriced''"

definition transactionReplacementReasons :: "string list" where
  "transactionReplacementReasons = [''cancelled'', ''replaced'', TRANSACTION_REPRICED]"

definition isTransactionFailedError :: "raw_error \<Rightarrow> bool" where
  "isTransactionFailedError e \<longleftrightarrow>
     err_code e = Some ''CALL_EXCEPTION'' \<and> err_reason e = Some TRANSACTION_FAILED"

definition isTransactionReplacedError :: "raw_error \<Rightarrow> bool" where
  "isTransactionReplacedError e \<longleftrightarrow>
     err_code e = Some ''TRANSACTION_REPLACED'' \<and>
     (case err_reason e of Some r \<Rightarrow> r \<in> set transactionReplacementReasons | None \<Rightarrow> False)"

text \<open>The constructor of \<open>EthersTransactionCancelledError\<close>, which asserts.\<close>

definition cancelledError :: "raw_error \<Rightarrow> tx_failure" where
  "cancelledError e =
     (if err_reason e \<noteq> Some TRANSACTION_REPRICED
      then TransactionCancelled (err_receipt e)
             (''Transaction '' @ (case err_reason e of Some r \<Rightarrow> r | None \<Rightarrow> ''undefined''))
      else Thrown (AssertionError ''assertion failed''))"

section \<open>Receipts\<close>

datatype 'd protocol_receipt =
    PendingReceipt
  | FailedReceipt receipt
  | SuccessfulReceipt receipt 'd string

record 'd sent_transaction =
  sent_wait :: "nat option \<Rightarrow> wait_error + receipt option"
  sent_contracts :: contract_lookup
  sent_parse :: "receipt \<Rightarrow> 'd result"

definition receiptFrom :: "'d sent_transaction \<Rightarrow> receipt option \<Rightarrow> 'd protocol_receipt tx_result" where
  "receiptFrom this rawReceipt =
     (case rawReceipt of
        None \<Rightarrow> Inr PendingReceipt
      | Some rc \<Rightarrow>
          (if rc_status rc
           then tx_bind (tx_lift (sent_parse this rc)) (\<lambda>details.
                  Inr (SuccessfulReceipt rc details (logsToString rc (sent_contracts this))))
           else Inr (FailedReceipt rc)))"

definition waitForRawReceipt :: "'d sent_transaction \<Rightarrow> nat option \<Rightarrow> receipt option tx_result" where
  "waitForRawReceipt this confirmations =
     (case sent_wait this confirmations of
        Inr r \<Rightarrow> Inr r
      | Inl (RawError e) \<Rightarrow>
          (if isTransactionFailedError e then Inr (Some (err_receipt e))
           else if isTransactionReplacedError e then
             (if err_cancelled e then Inl (cancelledError e) else Inr (Some (err_receipt e)))
           else Inl (Rethrown (RawError e)))
      | Inl other \<Rightarrow> Inl (Rethrown other))"

definition getReceipt :: "'d sent_transaction \<Rightarrow> 'd protocol_receipt tx_result" where
  "getReceipt this = tx_bind (waitForRawReceipt this (Some 0)) (receiptFrom this)"

definition waitForReceipt :: "'d sent_transaction \<Rightarrow> 'd protocol_receipt tx_result" where
  "waitForReceipt this =
     tx_bind (tx_bind (waitForRawReceipt this None) (receiptFrom this)) (\<lambda>rc.
       tx_lift (js_assert (rc \<noteq> PendingReceipt) (Inr rc)))"

definition waitForSuccess :: "'d sent_transaction \<Rightarrow> 'd tx_result" where
  "waitForSuccess tx =
     tx_bind (waitForReceipt tx) (\<lambda>rc.
       case rc of
         SuccessfulReceipt raw details str \<Rightarrow> Inr details
       | FailedReceipt raw \<Rightarrow> Inl (TransactionFailed raw)
       | PendingReceipt \<Rightarrow> Inl (Thrown (TypeError ''receipt.rawReceipt is undefined'')))"

section \<open>Populated transactions\<close>

text \<open>What the signer's \<open>sendTransaction\<close> returns is the \<open>wait\<close> of the transaction it sent.\<close>

type_synonym raw_sent = "nat option \<Rightarrow> wait_error + receipt option"

record ('p, 'd) populated =
  rawPopulatedTransaction :: 'p
  gasHeadroom :: "int option"
  pt_parse :: "receipt \<Rightarrow> 'd result"

definition send ::
  "('abi, 'p, raw_sent) connection \<Rightarrow> contract_lookup \<Rightarrow> ('p, 'd, 'z) populated_scheme \<Rightarrow> 'd sent_transaction result" where
  "send con contracts this =
     result_bind (requireSigner con) (\<lambda>s.
     result_map (\<lambda>raw. \<lparr>sent_wait = raw, sent_contracts = contracts, sent_parse = pt_parse this\<rparr>)
       (sendTransaction s (rawPopulatedTransaction this)))"

section \<open>The receipt that counts\<close>

text \<open>The receipt that counts: of the transaction, or the one that replaced it.\<close>

fun final_receipt :: "wait_error + receipt option \<Rightarrow> receipt option" where
  "final_receipt (Inr r) = r"
| "final_receipt (Inl (RawError e)) =
     (if isTransactionFailedError e \<or> isTransactionReplacedError e \<and> \<not> err_cancelled e
      then Some (err_receipt e) else None)"
| "final_receipt (Inl (NotAnError s)) = None"

lemma failed_not_replaced: "isTransactionFailedError e \<Longrightarrow> \<not> isTransactionReplacedError e"
  by (simp add: isTransactionFailedError_def isTransactionReplacedError_def)

lemma waitForRawReceipt_Some:
  "waitForRawReceipt tx c = Inr (Some rc) \<longleftrightarrow> final_receipt (sent_wait tx c) = Some rc"
  by (auto simp: waitForRawReceipt_def failed_not_replaced split: sum.splits wait_error.splits)

lemma waitForReceipt_Inr:
  "waitForReceipt tx = Inr r \<longleftrightarrow>
     (\<exists>rc. final_receipt (sent_wait tx None) = Some rc
        \<and> (if rc_status rc
           then \<exists>d. sent_parse tx rc = Inr d \<and> r = SuccessfulReceipt rc d (logsToString rc (sent_contracts tx))
           else r = FailedReceipt rc))"
proof -
  have pending: "receiptFrom tx raw = Inr r' \<Longrightarrow> raw \<noteq> None \<Longrightarrow> r' \<noteq> PendingReceipt" for raw r'
    by (auto simp: receiptFrom_def tx_bind_Inr split: option.splits if_splits)
  have "waitForReceipt tx = Inr r \<longleftrightarrow>
      (\<exists>rc. waitForRawReceipt tx None = Inr (Some rc) \<and> receiptFrom tx (Some rc) = Inr r)"
  proof
    assume "waitForReceipt tx = Inr r"
    then obtain raw where raw: "waitForRawReceipt tx None = Inr raw" "receiptFrom tx raw = Inr r" "r \<noteq> PendingReceipt"
      by (auto simp: waitForReceipt_def tx_bind_Inr tx_lift_Inr js_assert_Inr)
    then have "raw \<noteq> None" by (cases raw) (auto simp: receiptFrom_def)
    with raw show "\<exists>rc. waitForRawReceipt tx None = Inr (Some rc) \<and> receiptFrom tx (Some rc) = Inr r" by auto
  next
    assume "\<exists>rc. waitForRawReceipt tx None = Inr (Some rc) \<and> receiptFrom tx (Some rc) = Inr r"
    with pending show "waitForReceipt tx = Inr r"
      by (auto simp: waitForReceipt_def)
  qed
  then show ?thesis
    by (auto simp: waitForRawReceipt_Some receiptFrom_def tx_bind_Inr tx_lift_Inr)
qed

text \<open>
  A wait for success returns details only when the transaction, or the one that replaced it
  without cancelling it, was mined with a success status, and then the details its parser
  reads from that receipt; it reports a mined failure as such, with the receipt, and nothing
  else.
\<close>

lemma waitForSuccess_exact:
  "(waitForSuccess tx = Inr d \<longleftrightarrow>
     (\<exists>rc. final_receipt (sent_wait tx None) = Some rc \<and> rc_status rc \<and> sent_parse tx rc = Inr d))
   \<and> (waitForSuccess tx = Inl (TransactionFailed rc) \<longleftrightarrow>
     final_receipt (sent_wait tx None) = Some rc \<and> \<not> rc_status rc)"
proof (cases "waitForReceipt tx")
  case (Inr r)
  then have "waitForSuccess tx = (case r of
         SuccessfulReceipt raw details str \<Rightarrow> Inr details
       | FailedReceipt raw \<Rightarrow> Inl (TransactionFailed raw)
       | PendingReceipt \<Rightarrow> Inl (Thrown (TypeError ''receipt.rawReceipt is undefined'')))"
    by (simp only: waitForSuccess_def tx_simps)
  with waitForReceipt_Inr [THEN iffD1, OF Inr] show ?thesis
    by (auto split: if_splits)
next
  case (Inl e)
  have "\<And>r. waitForReceipt tx \<noteq> Inr r" using Inl by simp
  then have no: "\<not> (final_receipt (sent_wait tx None) = Some rc \<and> \<not> rc_status rc)"
    and no': "\<not> (\<exists>rc. final_receipt (sent_wait tx None) = Some rc \<and> rc_status rc \<and> sent_parse tx rc = Inr d)"
    unfolding waitForReceipt_Inr by (metis, metis)
  have "e \<noteq> TransactionFailed rc"
    using Inl
    by (auto simp: waitForReceipt_def waitForRawReceipt_def receiptFrom_def tx_bind_def tx_lift_def js_assert_def
        cancelledError_def split: sum.splits option.splits if_splits wait_error.splits)
  with no no' Inl show ?thesis by (auto simp: waitForSuccess_def)
qed

end
