(* ===== verification/Sdk_Store.thy ===== *)
theory Sdk_Store
  imports Protocol_Types Sdk_Fees Sdk_Trove Deposits
begin

text \<open>
  \<open>SfStablecoinStore\<close> of \<^verbatim>\<open>packages/lib-base/src/SfStablecoinStore.ts\<close>: the data store that
  keeps what was read from the blockchain, derives values from it, and tells its listeners
  what changed.

  The store compares values with their own \<open>eq\<close> or \<open>equals\<close> to decide whether to keep the
  object it has, and later finds what changed with \<open>!==\<close>, which compares object identities.
  So an object is modelled with its identity: \<open>Obj a x\<close> is the object at address \<open>a\<close>, with
  content \<open>x\<close> (the objects are immutable).  Which objects the expressions of \<open>_derive\<close>
  evaluate to (new ones, or constants such as \<open>Decimal.ZERO\<close>) is an argument, \<open>addresses\<close>.

  The methods return the store they leave, also when they throw.  The timers of the host are
  part of the state: \<open>timers\<close> holds the identifiers of the pending timeouts.  The callbacks
  are arguments: \<open>react\<close> gives a listener's effect on the store, \<open>reduceExtra\<close> the abstract
  method of that name.  Console logging is not modelled.
\<close>

section \<open>Objects and values\<close>

datatype 'a obj = Obj (address: nat) (content: 'a)

datatype store_object =
    OFrontend frontend_status
  | ODecimal decimal
  | OTrove trove
  | OUserTrove user_trove
  | OPendingTrove pending_trove
  | ODeposit stability_deposit
  | OFees fees
  | OStake protocol_token_stake
  | OPair "decimal \<times> string"
  | OFunction

datatype store_value =
    JNumber int
  | JBool bool
  | JObject "store_object obj"

text \<open>\<open>a === b\<close>, and equality of the values as values.\<close>

fun strict_equal :: "store_value \<Rightarrow> store_value \<Rightarrow> bool" where
  "strict_equal (JNumber a) (JNumber b) = (a = b)"
| "strict_equal (JBool a) (JBool b) = (a = b)"
| "strict_equal (JObject a) (JObject b) = (address a = address b)"
| "strict_equal a b = False"

fun same_value :: "store_value \<Rightarrow> store_value \<Rightarrow> bool" where
  "same_value (JNumber a) (JNumber b) = (a = b)"
| "same_value (JBool a) (JBool b) = (a = b)"
| "same_value (JObject a) (JObject b) = (content a = content b)"
| "same_value a b = False"

definition object_value :: "('a \<Rightarrow> store_object) \<Rightarrow> 'a obj \<Rightarrow> store_value" where
  "object_value f x = JObject (Obj (address x) (f (content x)))"

definition on_content :: "('a \<Rightarrow> 'a \<Rightarrow> bool) \<Rightarrow> 'a obj \<Rightarrow> 'a obj \<Rightarrow> bool" where
  "on_content e x y = e (content x) (content y)"

section \<open>State\<close>

record base_state =
  frontend :: "frontend_status obj"
  ownFrontend :: "frontend_status obj"
  numberOfTroves :: int
  accountBalance :: "decimal obj"
  debtTokenBalance :: "decimal obj"
  protocolTokenBalance :: "decimal obj"
  uniTokenBalance :: "decimal obj"
  uniTokenAllowance :: "decimal obj"
  remainingProtocolMiningProtocolTokenReward :: "decimal obj"
  liquidityMiningStake :: "decimal obj"
  totalStakedUniTokens :: "decimal obj"
  liquidityMiningProtocolTokenReward :: "decimal obj"
  collateralSurplusBalance :: "decimal obj"
  price :: "decimal obj"
  debtTokenInStabilityPool :: "decimal obj"
  total_trove :: "trove obj"
  totalRedistributed :: "trove obj"
  troveBeforeRedistribution :: "pending_trove obj"
  stabilityDeposit :: "stability_deposit obj"
  remainingStabilityPoolProtocolTokenReward :: "decimal obj"
  feesInNormalMode :: "fees obj"
  protocolTokenStake :: "protocol_token_stake obj"
  totalStakedProtocolToken :: "decimal obj"
  riskiestTroveBeforeRedistribution :: "pending_trove obj"
  debtInFront :: "(decimal \<times> string) obj"


record base_state_update =
  new_frontend :: "frontend_status obj option"
  new_ownFrontend :: "frontend_status obj option"
  new_numberOfTroves :: "int option"
  new_accountBalance :: "decimal obj option"
  new_debtTokenBalance :: "decimal obj option"
  new_protocolTokenBalance :: "decimal obj option"
  new_uniTokenBalance :: "decimal obj option"
  new_uniTokenAllowance :: "decimal obj option"
  new_remainingProtocolMiningProtocolTokenReward :: "decimal obj option"
  new_liquidityMiningStake :: "decimal obj option"
  new_totalStakedUniTokens :: "decimal obj option"
  new_liquidityMiningProtocolTokenReward :: "decimal obj option"
  new_collateralSurplusBalance :: "decimal obj option"
  new_price :: "decimal obj option"
  new_debtTokenInStabilityPool :: "decimal obj option"
  new_total_trove :: "trove obj option"
  new_totalRedistributed :: "trove obj option"
  new_troveBeforeRedistribution :: "pending_trove obj option"
  new_stabilityDeposit :: "stability_deposit obj option"
  new_remainingStabilityPoolProtocolTokenReward :: "decimal obj option"
  new_feesInNormalMode :: "fees obj option"
  new_protocolTokenStake :: "protocol_token_stake obj option"
  new_totalStakedProtocolToken :: "decimal obj option"
  new_riskiestTroveBeforeRedistribution :: "pending_trove obj option"
  new_debtInFront :: "(decimal \<times> string) obj option"


record derived_state =
  derived_trove :: "user_trove obj"
  derived_fees :: "fees obj"
  derived_borrowingRate :: "decimal obj"
  derived_redemptionRate :: "decimal obj"
  haveUndercollateralizedTroves :: bool

type_synonym state_view = "string \<rightharpoonup> store_value"

record listener_params =
  newState :: state_view
  oldState :: state_view
  stateChange :: state_view

text \<open>
  A registered listener is its wrapper's identity with the function it wraps; the set keeps
  insertion order.
\<close>

record 'f store =
  loaded :: bool
  baseState :: "base_state option"
  derivedState :: "derived_state option"
  extraState :: "state_view option"
  updateTimeoutId :: "nat option"
  listeners :: "(nat \<times> 'f) list"
  next_wrapper :: nat
  timers :: "nat list"
  next_timer :: nat

definition new_store :: "'f store" where
  "new_store =
     \<lparr>loaded = False, baseState = None, derivedState = None, extraState = None,
      updateTimeoutId = None, listeners = [], next_wrapper = 0, timers = [], next_timer = 0\<rparr>"

definition base_keys :: "string list" where
  "base_keys =
     [''frontend'',
      ''ownFrontend'',
      ''numberOfTroves'',
      ''accountBalance'',
      ''debtTokenBalance'',
      ''protocolTokenBalance'',
      ''uniTokenBalance'',
      ''uniTokenAllowance'',
      ''remainingProtocolMiningProtocolTokenReward'',
      ''liquidityMiningStake'',
      ''totalStakedUniTokens'',
      ''liquidityMiningProtocolTokenReward'',
      ''collateralSurplusBalance'',
      ''price'',
      ''debtTokenInStabilityPool'',
      ''total'',
      ''totalRedistributed'',
      ''troveBeforeRedistribution'',
      ''stabilityDeposit'',
      ''remainingStabilityPoolProtocolTokenReward'',
      ''_feesInNormalMode'',
      ''protocolTokenStake'',
      ''totalStakedProtocolToken'',
      ''_riskiestTroveBeforeRedistribution'',
      ''debtInFront'']"


definition base_values :: "base_state \<Rightarrow> store_value list" where
  "base_values b =
     [object_value OFrontend (frontend b),
      object_value OFrontend (ownFrontend b),
      JNumber (numberOfTroves b),
      object_value ODecimal (accountBalance b),
      object_value ODecimal (debtTokenBalance b),
      object_value ODecimal (protocolTokenBalance b),
      object_value ODecimal (uniTokenBalance b),
      object_value ODecimal (uniTokenAllowance b),
      object_value ODecimal (remainingProtocolMiningProtocolTokenReward b),
      object_value ODecimal (liquidityMiningStake b),
      object_value ODecimal (totalStakedUniTokens b),
      object_value ODecimal (liquidityMiningProtocolTokenReward b),
      object_value ODecimal (collateralSurplusBalance b),
      object_value ODecimal (price b),
      object_value ODecimal (debtTokenInStabilityPool b),
      object_value OTrove (total_trove b),
      object_value OTrove (totalRedistributed b),
      object_value OPendingTrove (troveBeforeRedistribution b),
      object_value ODeposit (stabilityDeposit b),
      object_value ODecimal (remainingStabilityPoolProtocolTokenReward b),
      object_value OFees (feesInNormalMode b),
      object_value OStake (protocolTokenStake b),
      object_value ODecimal (totalStakedProtocolToken b),
      object_value OPendingTrove (riskiestTroveBeforeRedistribution b),
      object_value OPair (debtInFront b)]"


definition update_values :: "base_state_update \<Rightarrow> store_value option list" where
  "update_values u =
     [map_option (object_value OFrontend) (new_frontend u),
      map_option (object_value OFrontend) (new_ownFrontend u),
      map_option JNumber (new_numberOfTroves u),
      map_option (object_value ODecimal) (new_accountBalance u),
      map_option (object_value ODecimal) (new_debtTokenBalance u),
      map_option (object_value ODecimal) (new_protocolTokenBalance u),
      map_option (object_value ODecimal) (new_uniTokenBalance u),
      map_option (object_value ODecimal) (new_uniTokenAllowance u),
      map_option (object_value ODecimal) (new_remainingProtocolMiningProtocolTokenReward u),
      map_option (object_value ODecimal) (new_liquidityMiningStake u),
      map_option (object_value ODecimal) (new_totalStakedUniTokens u),
      map_option (object_value ODecimal) (new_liquidityMiningProtocolTokenReward u),
      map_option (object_value ODecimal) (new_collateralSurplusBalance u),
      map_option (object_value ODecimal) (new_price u),
      map_option (object_value ODecimal) (new_debtTokenInStabilityPool u),
      map_option (object_value OTrove) (new_total_trove u),
      map_option (object_value OTrove) (new_totalRedistributed u),
      map_option (object_value OPendingTrove) (new_troveBeforeRedistribution u),
      map_option (object_value ODeposit) (new_stabilityDeposit u),
      map_option (object_value ODecimal) (new_remainingStabilityPoolProtocolTokenReward u),
      map_option (object_value OFees) (new_feesInNormalMode u),
      map_option (object_value OStake) (new_protocolTokenStake u),
      map_option (object_value ODecimal) (new_totalStakedProtocolToken u),
      map_option (object_value OPendingTrove) (new_riskiestTroveBeforeRedistribution u),
      map_option (object_value OPair) (new_debtInFront u)]"


definition derived_keys :: "string list" where
  "derived_keys = [''trove'', ''fees'', ''borrowingRate'', ''redemptionRate'', ''haveUndercollateralizedTroves'']"

definition derived_values :: "derived_state \<Rightarrow> store_value list" where
  "derived_values d =
     [object_value OUserTrove (derived_trove d),
      object_value OFees (derived_fees d),
      object_value ODecimal (derived_borrowingRate d),
      object_value ODecimal (derived_redemptionRate d),
      JBool (haveUndercollateralizedTroves d)]"

text \<open>\<open>get state()\<close>: later sources of \<open>Object.assign\<close> override earlier ones.\<close>

definition base_view :: "base_state option \<Rightarrow> state_view" where
  "base_view b = (case b of None \<Rightarrow> Map.empty | Some x \<Rightarrow> map_of (zip base_keys (base_values x)))"

definition derived_view :: "derived_state option \<Rightarrow> state_view" where
  "derived_view d = (case d of None \<Rightarrow> Map.empty | Some x \<Rightarrow> map_of (zip derived_keys (derived_values x)))"

definition extra_view :: "state_view option \<Rightarrow> state_view" where
  "extra_view e = (case e of None \<Rightarrow> Map.empty | Some x \<Rightarrow> x)"

definition state :: "'f store \<Rightarrow> state_view" where
  "state this = base_view (baseState this) ++ derived_view (derivedState this) ++ extra_view (extraState this)"

definition difference :: "state_view \<Rightarrow> state_view \<Rightarrow> state_view" where
  "difference a b = (\<lambda>key. case a key of
       None \<Rightarrow> None
     | Some v \<Rightarrow> (case b key of
           None \<Rightarrow> Some v
         | Some w \<Rightarrow> if strict_equal v w then None else Some v))"

section \<open>Reducing and deriving\<close>

definition frontendStatusEquals :: "frontend_status \<Rightarrow> frontend_status \<Rightarrow> bool" where
  "frontendStatusEquals a b =
     (case a of
        Unregistered \<Rightarrow> b = Unregistered
      | Registered ka \<Rightarrow> (case b of Unregistered \<Rightarrow> False | Registered kb \<Rightarrow> eq_dec ka kb))"

definition showFrontendStatus :: "frontend_status \<Rightarrow> string" where
  "showFrontendStatus x =
     (case x of
        Unregistered \<Rightarrow> ''{ status: '' @ [CHR 0x22] @ ''unregistered'' @ [CHR 0x22] @ '' }''
      | Registered k \<Rightarrow> ''{ status: '' @ [CHR 0x22] @ ''registered'' @ [CHR 0x22] @
          '', kickbackRate: '' @ showDecimal k @ '' }'')"

definition pair_equals :: "decimal \<times> string \<Rightarrow> decimal \<times> string \<Rightarrow> bool" where
  "pair_equals a b \<longleftrightarrow> eq_dec (fst a) (fst b) \<and> snd a = snd b"

text \<open>
  \<open>_updateIfChanged\<close> and \<open>_silentlyUpdateIfChanged\<close>: they differ in logging only.
\<close>

definition updateIfChanged :: "('u \<Rightarrow> 'u \<Rightarrow> bool) \<Rightarrow> 'u \<Rightarrow> 'u option \<Rightarrow> 'u" where
  "updateIfChanged equals prev next =
     (case next of None \<Rightarrow> prev | Some n \<Rightarrow> if \<not> equals prev n then n else prev)"

definition updateFees :: "fees obj \<Rightarrow> fees obj option \<Rightarrow> fees obj" where
  "updateFees prev next =
     (case next of
        None \<Rightarrow> prev
      | Some n \<Rightarrow> if \<not> fees_equals (content n) (content prev) then n else prev)"

definition reduce :: "base_state \<Rightarrow> base_state_update \<Rightarrow> base_state" where
  "reduce old upd =
     \<lparr>frontend = updateIfChanged (on_content frontendStatusEquals) (frontend old) (new_frontend upd),
      ownFrontend = updateIfChanged (on_content frontendStatusEquals) (ownFrontend old) (new_ownFrontend upd),
      numberOfTroves = updateIfChanged (=) (numberOfTroves old) (new_numberOfTroves upd),
      accountBalance = updateIfChanged (on_content eq_dec) (accountBalance old) (new_accountBalance upd),
      debtTokenBalance = updateIfChanged (on_content eq_dec) (debtTokenBalance old) (new_debtTokenBalance upd),
      protocolTokenBalance = updateIfChanged (on_content eq_dec) (protocolTokenBalance old) (new_protocolTokenBalance upd),
      uniTokenBalance = updateIfChanged (on_content eq_dec) (uniTokenBalance old) (new_uniTokenBalance upd),
      uniTokenAllowance = updateIfChanged (on_content eq_dec) (uniTokenAllowance old) (new_uniTokenAllowance upd),
      remainingProtocolMiningProtocolTokenReward = updateIfChanged (on_content eq_dec) (remainingProtocolMiningProtocolTokenReward old) (new_remainingProtocolMiningProtocolTokenReward upd),
      liquidityMiningStake = updateIfChanged (on_content eq_dec) (liquidityMiningStake old) (new_liquidityMiningStake upd),
      totalStakedUniTokens = updateIfChanged (on_content eq_dec) (totalStakedUniTokens old) (new_totalStakedUniTokens upd),
      liquidityMiningProtocolTokenReward = updateIfChanged (on_content eq_dec) (liquidityMiningProtocolTokenReward old) (new_liquidityMiningProtocolTokenReward upd),
      collateralSurplusBalance = updateIfChanged (on_content eq_dec) (collateralSurplusBalance old) (new_collateralSurplusBalance upd),
      price = updateIfChanged (on_content eq_dec) (price old) (new_price upd),
      debtTokenInStabilityPool = updateIfChanged (on_content eq_dec) (debtTokenInStabilityPool old) (new_debtTokenInStabilityPool upd),
      total_trove = updateIfChanged (on_content trove_equals) (total_trove old) (new_total_trove upd),
      totalRedistributed = updateIfChanged (on_content trove_equals) (totalRedistributed old) (new_totalRedistributed upd),
      troveBeforeRedistribution = updateIfChanged (on_content pending_trove_equals) (troveBeforeRedistribution old) (new_troveBeforeRedistribution upd),
      stabilityDeposit = updateIfChanged (on_content deposit_equals) (stabilityDeposit old) (new_stabilityDeposit upd),
      remainingStabilityPoolProtocolTokenReward = updateIfChanged (on_content eq_dec) (remainingStabilityPoolProtocolTokenReward old) (new_remainingStabilityPoolProtocolTokenReward upd),
      feesInNormalMode = updateIfChanged (on_content fees_equals) (feesInNormalMode old) (new_feesInNormalMode upd),
      protocolTokenStake = updateIfChanged (on_content stake_equals) (protocolTokenStake old) (new_protocolTokenStake upd),
      totalStakedProtocolToken = updateIfChanged (on_content eq_dec) (totalStakedProtocolToken old) (new_totalStakedProtocolToken upd),
      riskiestTroveBeforeRedistribution = updateIfChanged (on_content pending_trove_equals) (riskiestTroveBeforeRedistribution old) (new_riskiestTroveBeforeRedistribution upd),
      debtInFront = updateIfChanged (on_content pair_equals) (debtInFront old) (new_debtInFront upd)\<rparr>"

record addresses =
  addr_trove :: nat
  addr_fees :: nat
  addr_borrowingRate :: nat
  addr_redemptionRate :: nat

definition derive :: "addresses \<Rightarrow> base_state \<Rightarrow> derived_state result" where
  "derive addrs b =
     result_bind
       (setRecoveryMode (content (feesInNormalMode b))
         (collateralRatioIsBelowCritical (content (total_trove b)) (content (price b)))) (\<lambda>fees.
     result_bind (borrowingRate fees None) (\<lambda>borrowing.
     result_bind (redemptionRate fees None None) (\<lambda>redemption.
       Inr \<lparr>derived_trove =
              Obj (addr_trove addrs)
                (applyRedistribution (content (troveBeforeRedistribution b)) (content (totalRedistributed b))),
            derived_fees = Obj (addr_fees addrs) fees,
            derived_borrowingRate = Obj (addr_borrowingRate addrs) borrowing,
            derived_redemptionRate = Obj (addr_redemptionRate addrs) redemption,
            haveUndercollateralizedTroves =
              collateralRatioIsBelowMinimum
                (applyRedistribution (content (riskiestTroveBeforeRedistribution b))
                  (content (totalRedistributed b)))
                (content (price b))\<rparr>)))"

definition reduceDerived :: "derived_state \<Rightarrow> derived_state \<Rightarrow> derived_state" where
  "reduceDerived old upd =
     \<lparr>derived_trove =
        updateIfChanged (on_content user_trove_equals) (derived_trove old)
          (Some (derived_trove upd)),
      derived_fees = updateFees (derived_fees old) (Some (derived_fees upd)),
      derived_borrowingRate =
        updateIfChanged (on_content eq_dec) (derived_borrowingRate old)
          (Some (derived_borrowingRate upd)),
      derived_redemptionRate =
        updateIfChanged (on_content eq_dec) (derived_redemptionRate old)
          (Some (derived_redemptionRate upd)),
      haveUndercollateralizedTroves =
        updateIfChanged (=) (haveUndercollateralizedTroves old)
          (Some (haveUndercollateralizedTroves upd))\<rparr>"

section \<open>Timers and listeners\<close>

definition cancelUpdateIfScheduled :: "'f store \<Rightarrow> 'f store" where
  "cancelUpdateIfScheduled this =
     (case updateTimeoutId this of
        None \<Rightarrow> this
      | Some t \<Rightarrow> this\<lparr>timers := removeAll t (timers this)\<rparr>)"

definition scheduleUpdate :: "'f store \<Rightarrow> 'f store" where
  "scheduleUpdate this =
     (let this = cancelUpdateIfScheduled this
      in this\<lparr>updateTimeoutId := Some (next_timer this),
              timers := next_timer this # timers this,
              next_timer := Suc (next_timer this)\<rparr>)"

text \<open>\<open>subscribe\<close> returns the identity its \<open>unsubscribe\<close> closure deletes.\<close>

definition subscribe :: "'f store \<Rightarrow> 'f \<Rightarrow> nat \<times> 'f store" where
  "subscribe this listener =
     (next_wrapper this,
      this\<lparr>listeners := listeners this @ [(next_wrapper this, listener)],
           next_wrapper := Suc (next_wrapper this)\<rparr>)"

definition unsubscribe :: "'f store \<Rightarrow> nat \<Rightarrow> 'f store" where
  "unsubscribe this l = this\<lparr>listeners := filter (\<lambda>x. fst x \<noteq> l) (listeners this)\<rparr>"

text \<open>
  A listener's reaction leaves a store and may throw; then \<open>forEach\<close> stops.  \<open>notify_loop\<close>
  also returns which listeners were called, in order.
\<close>

type_synonym 'f reaction = "'f \<Rightarrow> listener_params \<Rightarrow> 'f store \<Rightarrow> 'f store \<times> unit result"

fun notify_loop ::
  "'f reaction \<Rightarrow> listener_params \<Rightarrow> (nat \<times> 'f) list \<Rightarrow> 'f store \<Rightarrow> nat list \<times> 'f store \<times> unit result" where
  "notify_loop react params [] this = ([], this, Inr ())"
| "notify_loop react params ((i, listener) # rest) this =
     (if i \<in> fst ` set (listeners this) then
        (case react listener params this of
           (this', Inl e) \<Rightarrow> ([i], this', Inl e)
         | (this', Inr _) \<Rightarrow>
             (case notify_loop react params rest this' of
                (called, this'', r) \<Rightarrow> (i # called, this'', r)))
      else notify_loop react params rest this)"

definition notify ::
  "'f reaction \<Rightarrow> listener_params \<Rightarrow> 'f store \<Rightarrow> nat list \<times> 'f store \<times> unit result" where
  "notify react params this = notify_loop react params (listeners this) this"

section \<open>Loading and updating\<close>

definition load ::
  "('f store \<Rightarrow> 'f store \<times> unit result) \<Rightarrow> addresses \<Rightarrow> base_state \<Rightarrow> state_view option \<Rightarrow> 'f store \<Rightarrow>
     'f store \<times> unit result" where
  "load onLoaded addrs base extra this =
     (if loaded this then (this, js_assert False (Inr ()))
      else
        let this = this\<lparr>baseState := Some base\<rparr>
        in case derive addrs base of
             Inl e \<Rightarrow> (this, Inl e)
           | Inr derived \<Rightarrow>
               onLoaded (scheduleUpdate
                 (this\<lparr>derivedState := Some derived, extraState := extra, loaded := True\<rparr>)))"

text \<open>
  \<open>_update\<close>: \<open>update_state\<close> is the body up to the call of \<open>_notify\<close>, with that call's
  argument as its result.
\<close>

definition update_state ::
  "(state_view \<Rightarrow> state_view \<Rightarrow> state_view) \<Rightarrow> addresses \<Rightarrow>
     base_state_update option \<Rightarrow> state_view option \<Rightarrow> 'f store \<Rightarrow> 'f store \<times> listener_params result" where
  "update_state reduceExtra addrs baseStateUpdate extraStateUpdate this =
     (case (baseState this, derivedState this) of
        (Some base, Some derived) \<Rightarrow>
          (let old = state this;
               base' = (case baseStateUpdate of None \<Rightarrow> base | Some u \<Rightarrow> reduce base u);
               this = this\<lparr>baseState := Some base'\<rparr>
           in case derive addrs base' of
                Inl e \<Rightarrow> (this, Inl e)
              | Inr fresh \<Rightarrow>
                  (let this = this\<lparr>derivedState := Some (reduceDerived derived fresh)\<rparr>
                   in case (extraStateUpdate, extraState this) of
                        (Some _, None) \<Rightarrow> (this, Inl (AssertionError ''assertion failed''))
                      | (x, e) \<Rightarrow>
                          (let this = (case (x, e) of
                                  (Some u, Some s) \<Rightarrow> this\<lparr>extraState := Some (reduceExtra s u)\<rparr>
                                | _ \<Rightarrow> this);
                               this = scheduleUpdate this
                           in (this, Inr \<lparr>newState = state this, oldState = old,
                                          stateChange = difference (state this) old\<rparr>))))
      | _ \<Rightarrow> (this, Inl (AssertionError ''assertion failed'')))"

definition update ::
  "(state_view \<Rightarrow> state_view \<Rightarrow> state_view) \<Rightarrow> 'f reaction \<Rightarrow> addresses \<Rightarrow>
     base_state_update option \<Rightarrow> state_view option \<Rightarrow> 'f store \<Rightarrow> 'f store \<times> unit result" where
  "update reduceExtra react addrs baseStateUpdate extraStateUpdate this =
     (case update_state reduceExtra addrs baseStateUpdate extraStateUpdate this of
        (this, Inl e) \<Rightarrow> (this, Inl e)
      | (this, Inr params) \<Rightarrow> snd (notify react params this))"

text \<open>The timeout's callback, and the function \<open>start\<close> returns.\<close>

definition fire_timer ::
  "(state_view \<Rightarrow> state_view \<Rightarrow> state_view) \<Rightarrow> 'f reaction \<Rightarrow> addresses \<Rightarrow> nat \<Rightarrow> 'f store \<Rightarrow>
     'f store \<times> unit result" where
  "fire_timer reduceExtra react addrs t this =
     update reduceExtra react addrs None None
       (this\<lparr>timers := removeAll t (timers this), updateTimeoutId := None\<rparr>)"

definition stop :: "('f store \<Rightarrow> 'f store) \<Rightarrow> 'f store \<Rightarrow> 'f store" where
  "stop doStop this = cancelUpdateIfScheduled (doStop this)"

end
