(* ===== verification/Store_Facts.thy ===== *)
theory Store_Facts
  imports Sdk_Store "HOL-Library.Sublist"
begin

text \<open>
  What the store of \<open>Sdk_Store\<close> guarantees: an update changes exactly the fields it gives,
  the change reported to the listeners is exactly the set of values that differ, derived
  values agree with the base state, listeners are called as the comments of \<open>_notify\<close> say,
  and one timeout at most is pending.
\<close>

section \<open>Reducing, field by field\<close>

text \<open>The specification of a reducer: one value, one optional new value.\<close>

definition keep :: "store_value \<Rightarrow> store_value option \<Rightarrow> store_value" where
  "keep prev next =
     (case next of None \<Rightarrow> prev | Some n \<Rightarrow> if same_value prev n then prev else n)"

lemma same_value_refl [simp]: "same_value v v"
  by (cases v) simp_all

lemma strict_equal_refl [simp]: "strict_equal v v"
  by (cases v) simp_all

lemma same_value_sym: "same_value v w = same_value w v"
  by (cases v; cases w) auto

lemma strict_equal_sym: "strict_equal v w = strict_equal w v"
  by (cases v; cases w) auto

lemma same_value_trans: "same_value u v \<Longrightarrow> same_value v w \<Longrightarrow> same_value u w"
  by (cases u; cases v; cases w) auto

lemma object_keep:
  assumes "\<And>x y. e x y \<longleftrightarrow> x = y" and "inj f"
  shows "object_value f (updateIfChanged (on_content e) p n) = keep (object_value f p) (map_option (object_value f) n)"
  using assms
  by (auto simp: updateIfChanged_def keep_def on_content_def object_value_def inj_eq split: option.splits)

lemma number_keep: "JNumber (updateIfChanged (=) p n) = keep (JNumber p) (map_option JNumber n)"
  by (auto simp: updateIfChanged_def keep_def split: option.splits)

lemma bool_keep: "JBool (updateIfChanged (=) p n) = keep (JBool p) (map_option JBool n)"
  by (auto simp: updateIfChanged_def keep_def split: option.splits)

lemma updateFees_eq: "updateFees p n = updateIfChanged (on_content fees_equals) p n"
  by (auto simp: updateFees_def updateIfChanged_def on_content_def fees_equals_iff split: option.splits)

lemma frontendStatusEquals_iff: "frontendStatusEquals a b \<longleftrightarrow> a = b"
  by (auto simp: frontendStatusEquals_def split: frontend_status.splits)

lemma pair_equals_iff: "pair_equals a b \<longleftrightarrow> a = b"
  by (auto simp: pair_equals_def prod_eq_iff)

lemma inj_store_object:
  "inj OFrontend" "inj ODecimal" "inj OTrove" "inj OUserTrove" "inj OPendingTrove"
  "inj ODeposit" "inj OFees" "inj OStake" "inj OPair"
  by (simp_all add: inj_def)

lemmas keep_simps =
  object_keep [OF frontendStatusEquals_iff inj_store_object(1)]
  object_keep [OF eq_dec_iff inj_store_object(2)]
  object_keep [OF trove_equals_iff inj_store_object(3)]
  object_keep [OF user_trove_equals_iff inj_store_object(4)]
  object_keep [OF pending_trove_equals_iff inj_store_object(5)]
  object_keep [OF deposit_equals_iff inj_store_object(6)]
  object_keep [OF fees_equals_iff inj_store_object(7)]
  object_keep [OF stake_equals_iff inj_store_object(8)]
  object_keep [OF pair_equals_iff inj_store_object(9)]
  number_keep bool_keep

lemma base_values_reduce: "base_values (reduce b u) = map2 keep (base_values b) (update_values u)"
  by (simp add: base_values_def reduce_def update_values_def keep_simps)

lemma derived_values_reduce:
  "derived_values (reduceDerived d f) = map2 keep (derived_values d) (map Some (derived_values f))"
  using keep_simps(3)
  by (simp add: derived_values_def reduceDerived_def updateFees_eq keep_simps)

section \<open>What changed\<close>

text \<open>
  Immutable objects with one identity have one content: \<open>heap_ok\<close> says it of a set of values.
\<close>

definition heap_ok :: "store_value set \<Rightarrow> bool" where
  "heap_ok V \<longleftrightarrow> (\<forall>v\<in>V. \<forall>w\<in>V. strict_equal v w \<longrightarrow> same_value v w)"

definition update_objects :: "base_state_update option \<Rightarrow> store_value set" where
  "update_objects u = (case u of None \<Rightarrow> {} | Some x \<Rightarrow> {v. Some v \<in> set (update_values x)})"

text \<open>The specification of \<open>difference\<close>: the values that differ, whatever object holds them.\<close>

definition changed :: "state_view \<Rightarrow> state_view \<Rightarrow> state_view" where
  "changed old new = (\<lambda>k. case (old k, new k) of
       (Some v, Some w) \<Rightarrow> if same_value v w then None else Some w
     | (None, w) \<Rightarrow> w
     | (_, None) \<Rightarrow> None)"

text \<open>
  \<open>tracked m m'\<close>: the same keys, and identity of the two values under a key means they are
  equal.
\<close>

definition tracked :: "state_view \<Rightarrow> state_view \<Rightarrow> bool" where
  "tracked m m' \<longleftrightarrow> (\<forall>k. case (m k, m' k) of
       (Some v, Some w) \<Rightarrow> strict_equal w v = same_value v w
     | (None, None) \<Rightarrow> True
     | _ \<Rightarrow> False)"

lemma tracked_refl [simp]: "tracked m m"
  by (simp add: tracked_def split: option.splits)

lemma tracked_add:
  assumes "tracked a a'" and "tracked b b'"
  shows "tracked (a ++ b) (a' ++ b')"
  unfolding tracked_def
proof
  fix k
  from assms have "case (a k, a' k) of (Some v, Some w) \<Rightarrow> strict_equal w v = same_value v w
      | (None, None) \<Rightarrow> True | _ \<Rightarrow> False"
    and "case (b k, b' k) of (Some v, Some w) \<Rightarrow> strict_equal w v = same_value v w
      | (None, None) \<Rightarrow> True | _ \<Rightarrow> False"
    by (simp_all only: tracked_def)
  then show "case ((a ++ b) k, (a' ++ b') k) of (Some v, Some w) \<Rightarrow> strict_equal w v = same_value v w
      | (None, None) \<Rightarrow> True | _ \<Rightarrow> False"
    by (auto simp: map_add_def split: option.splits)
qed

lemma difference_tracked: "tracked old new \<Longrightarrow> difference new old = changed old new"
proof
  fix k
  assume "tracked old new"
  then have "case (old k, new k) of (Some v, Some w) \<Rightarrow> strict_equal w v = same_value v w
      | (None, None) \<Rightarrow> True | _ \<Rightarrow> False" by (simp only: tracked_def)
  then show "difference new old k = changed old new k"
    by (auto simp: difference_def changed_def split: option.splits)
qed

lemma keep_strict:
  assumes "heap_ok V" and "v \<in> V" and "\<And>u. n = Some u \<Longrightarrow> u \<in> V"
  shows "strict_equal (keep v n) v = same_value v (keep v n)"
  using assms unfolding heap_ok_def keep_def
  by (cases n) (auto simp: same_value_sym [of _ v] strict_equal_sym [of _ v])

lemma tracked_keep:
  assumes "heap_ok V" and "length ks = length vs" and "length vs = length ns"
    and "set vs \<subseteq> V" and "\<And>u. Some u \<in> set ns \<Longrightarrow> u \<in> V"
  shows "tracked (map_of (zip ks vs)) (map_of (zip ks (map2 keep vs ns)))"
  using assms(2-)
proof (induction ks vs ns rule: list_induct3)
  case (Cons k ks v vs n ns)
  then have IH: "tracked (map_of (zip ks vs)) (map_of (zip ks (map2 keep vs ns)))" by simp
  have "strict_equal (keep v n) v = same_value v (keep v n)"
    by (rule keep_strict [OF assms(1)]) (use Cons.prems in auto)
  with IH show ?case by (simp add: tracked_def)
qed simp

lemma length_values [simp]:
  "length base_keys = 25" "length (base_values b) = 25" "length (update_values u) = 25"
  "length derived_keys = 5" "length (derived_values d) = 5"
  by (simp_all add: base_keys_def base_values_def update_values_def derived_keys_def derived_values_def)

lemma tracked_base:
  assumes "heap_ok V" and "set (base_values b) \<subseteq> V" and "update_objects u \<subseteq> V"
  shows "tracked (base_view (Some b)) (base_view (Some (case u of None \<Rightarrow> b | Some x \<Rightarrow> reduce b x)))"
  using assms tracked_keep [of V base_keys "base_values b" "update_values (the u)"]
  by (cases u) (auto simp: base_view_def base_values_reduce update_objects_def subset_iff)

lemma tracked_derived:
  assumes "heap_ok V" and "set (derived_values d) \<subseteq> V" and "set (derived_values f) \<subseteq> V"
  shows "tracked (derived_view (Some d)) (derived_view (Some (reduceDerived d f)))"
  unfolding derived_view_def option.case derived_values_reduce
  by (rule tracked_keep [OF assms(1)]) (use assms in auto)

lemma update_state_Inr:
  "update_state R addrs u x st = (st', Inr p) \<longleftrightarrow>
     (\<exists>b d f. baseState st = Some b \<and> derivedState st = Some d
       \<and> derive addrs (case u of None \<Rightarrow> b | Some v \<Rightarrow> reduce b v) = Inr f
       \<and> (x \<noteq> None \<longrightarrow> extraState st \<noteq> None)
       \<and> st' = scheduleUpdate (st
           \<lparr>baseState := Some (case u of None \<Rightarrow> b | Some v \<Rightarrow> reduce b v),
            derivedState := Some (reduceDerived d f),
            extraState := (case x of None \<Rightarrow> extraState st | Some v \<Rightarrow> Some (R (the (extraState st)) v))\<rparr>)
       \<and> p = \<lparr>newState = state st', oldState = state st, stateChange = difference (state st') (state st)\<rparr>)"
  by (cases st; cases x; cases "extraState st")
    (auto simp: update_state_def Let_def split: option.splits sum.splits)

lemma scheduleUpdate_fields [simp]:
  "baseState (scheduleUpdate st) = baseState st" "derivedState (scheduleUpdate st) = derivedState st"
  "extraState (scheduleUpdate st) = extraState st" "listeners (scheduleUpdate st) = listeners st"
  "loaded (scheduleUpdate st) = loaded st" "next_wrapper (scheduleUpdate st) = next_wrapper st"
  by (simp_all add: scheduleUpdate_def cancelUpdateIfScheduled_def Let_def split: option.splits)

lemma state_scheduleUpdate [simp]: "state (scheduleUpdate st) = state st"
  by (simp add: state_def)

text \<open>The objects an update without extra state works on.\<close>

definition live_values :: "addresses \<Rightarrow> base_state_update option \<Rightarrow> 'f store \<Rightarrow> store_value set" where
  "live_values addrs u st =
     (case (baseState st, derivedState st) of
        (Some b, Some d) \<Rightarrow>
          set (base_values b) \<union> set (derived_values d) \<union> update_objects u \<union>
          (case derive addrs (case u of None \<Rightarrow> b | Some v \<Rightarrow> reduce b v) of
             Inl _ \<Rightarrow> {} | Inr f \<Rightarrow> set (derived_values f))
      | _ \<Rightarrow> {})"

lemma update_tracked:
  assumes "update_state R addrs u None st = (st', Inr p)" and "heap_ok (live_values addrs u st)"
  shows "tracked (state st) (state st')"
proof -
  obtain b d f where *: "baseState st = Some b" "derivedState st = Some d"
      "derive addrs (case u of None \<Rightarrow> b | Some v \<Rightarrow> reduce b v) = Inr f"
      "state st' = base_view (Some (case u of None \<Rightarrow> b | Some v \<Rightarrow> reduce b v))
         ++ derived_view (Some (reduceDerived d f)) ++ extra_view (extraState st)"
    using assms(1) by (auto simp: update_state_Inr state_def)
  have "tracked (base_view (Some b)) (base_view (Some (case u of None \<Rightarrow> b | Some v \<Rightarrow> reduce b v)))"
    by (rule tracked_base [OF assms(2)]) (use * in \<open>auto simp: live_values_def\<close>)
  moreover have "tracked (derived_view (Some d)) (derived_view (Some (reduceDerived d f)))"
    by (rule tracked_derived [OF assms(2)]) (use * in \<open>auto simp: live_values_def\<close>)
  ultimately show ?thesis
    unfolding *(4) state_def [of st] *(1,2) by (intro tracked_add tracked_refl)
qed

section \<open>Derived values follow the base state\<close>

lemma list_all2_keep: "length vs = length fs \<Longrightarrow> list_all2 same_value (map2 keep vs (map Some fs)) fs"
  by (induction vs fs rule: list_induct2) (simp_all add: keep_def)

lemma keep_same: "list_all2 same_value vs fs \<Longrightarrow> map2 keep vs (map Some fs) = vs"
  by (induction vs fs rule: list_all2_induct) (simp_all add: keep_def)

lemma derived_values_inj: "derived_values d = derived_values d' \<Longrightarrow> d = d'"
  by (cases d; cases d') (auto simp: derived_values_def object_value_def intro: obj.expand)

definition in_sync :: "'f store \<Rightarrow> bool" where
  "in_sync st \<longleftrightarrow> (\<exists>b d addrs f. baseState st = Some b \<and> derivedState st = Some d
     \<and> derive addrs b = Inr f \<and> list_all2 same_value (derived_values d) (derived_values f))"

lemma derive_addresses:
  "derive addrs b = Inr f \<Longrightarrow> \<exists>g. derive addrs' b = Inr g \<and> list_all2 same_value (derived_values f) (derived_values g)"
  by (auto simp: derive_def result_bind_Inr derived_values_def object_value_def)

lemma list_all2_same_trans:
  "list_all2 same_value us vs \<Longrightarrow> list_all2 same_value vs ws \<Longrightarrow> list_all2 same_value us ws"
  by (rule list_all2_trans [OF same_value_trans])

lemma in_sync_reduce:
  assumes "in_sync st" and "baseState st = Some b" and "derivedState st = Some d" and "derive addrs b = Inr f"
  shows "reduceDerived d f = d"
proof -
  obtain a g where "derive a b = Inr g" "list_all2 same_value (derived_values d) (derived_values g)"
    using assms(1-3) by (auto simp: in_sync_def)
  with derive_addresses [of a b g addrs] assms(4)
  have "list_all2 same_value (derived_values d) (derived_values f)"
    by (auto intro: list_all2_same_trans)
  then have "derived_values (reduceDerived d f) = derived_values d"
    by (simp add: derived_values_reduce keep_same)
  then show ?thesis by (rule derived_values_inj)
qed

lemma difference_self [simp]: "difference s s = Map.empty"
  by (auto simp: difference_def split: option.splits)

section \<open>Listeners\<close>

text \<open>
  What a listener may do to the store from outside it: subscribe, unsubscribe, and throw, each as
  it chooses from what it is told.  \<open>expected_calls\<close> is which listeners a notification calls, from
  the snapshot alone, and how it ends: with the first error thrown.
\<close>

datatype 'f listener_action = Subscribe 'f | Unsubscribe nat

fun run_actions :: "'f listener_action list \<Rightarrow> 'f store \<Rightarrow> 'f store" where
  "run_actions [] st = st"
| "run_actions (Subscribe f # as) st = run_actions as (snd (subscribe st f))"
| "run_actions (Unsubscribe i # as) st = run_actions as (unsubscribe st i)"

type_synonym 'f behaviour = "'f \<Rightarrow> listener_params \<Rightarrow> 'f listener_action list \<times> unit result"

definition acting :: "'f behaviour \<Rightarrow> 'f reaction" where
  "acting b f p st = (run_actions (fst (b f p)) st, snd (b f p))"

fun expected_calls ::
  "'f behaviour \<Rightarrow> listener_params \<Rightarrow> (nat \<times> 'f) list \<Rightarrow> nat set \<Rightarrow> nat list \<times> unit result" where
  "expected_calls b p [] gone = ([], Inr ())"
| "expected_calls b p ((i, f) # rest) gone =
     (if i \<in> gone then expected_calls b p rest gone
      else (case snd (b f p) of
              Inl e \<Rightarrow> ([i], Inl e)
            | Inr _ \<Rightarrow> apfst ((#) i) (expected_calls b p rest (gone \<union> {j. Unsubscribe j \<in> set (fst (b f p))}))))"

definition listener_ids :: "'f store \<Rightarrow> nat set" where
  "listener_ids st = fst ` set (listeners st)"

definition listeners_ok :: "'f store \<Rightarrow> bool" where
  "listeners_ok st \<longleftrightarrow> distinct (map fst (listeners st)) \<and> (\<forall>i \<in> listener_ids st. i < next_wrapper st)"

lemma listener_ids_simps [simp]:
  "listener_ids (snd (subscribe st f)) = insert (next_wrapper st) (listener_ids st)"
  "listener_ids (unsubscribe st i) = listener_ids st - {i}"
  "next_wrapper (snd (subscribe st f)) = Suc (next_wrapper st)"
  "next_wrapper (unsubscribe st i) = next_wrapper st"
  by (auto simp: listener_ids_def subscribe_def unsubscribe_def)

lemma run_actions_ids:
  "i < next_wrapper st \<Longrightarrow>
     i \<in> listener_ids (run_actions as st) \<longleftrightarrow> i \<in> listener_ids st \<and> Unsubscribe i \<notin> set as"
  by (induction as st rule: run_actions.induct) auto

lemma run_actions_next: "next_wrapper st \<le> next_wrapper (run_actions as st)"
  by (induction as st rule: run_actions.induct) (auto dest: Suc_leD)

lemma notify_loop_acting:
  "notify_loop (acting b) p ((i, f) # xs) st =
     (if i \<in> listener_ids st then
        (case snd (b f p) of
           Inl e \<Rightarrow> ([i], run_actions (fst (b f p)) st, Inl e)
         | Inr _ \<Rightarrow> (let r = notify_loop (acting b) p xs (run_actions (fst (b f p)) st) in (i # fst r, snd r)))
      else notify_loop (acting b) p xs st)"
  by (simp add: acting_def listener_ids_def Let_def case_prod_beta split: sum.split)

definition calls_of :: "nat list \<times> 'f store \<times> unit result \<Rightarrow> nat list \<times> unit result" where
  "calls_of r = (fst r, snd (snd r))"

lemma notify_loop_expected:
  assumes "\<And>i. i \<in> fst ` set xs \<Longrightarrow> i < next_wrapper st"
    and "\<And>i. i \<in> fst ` set xs \<Longrightarrow> i \<in> listener_ids st \<longleftrightarrow> i \<notin> gone"
  shows "calls_of (notify_loop (acting b) p xs st) = expected_calls b p xs gone"
  using assms
proof (induction xs arbitrary: st gone)
  case Nil
  then show ?case by (simp add: calls_of_def)
next
  case (Cons x xs)
  obtain i f where x: "x = (i, f)" by (cases x)
  show ?case
  proof (cases "i \<in> gone")
    case True
    with Cons x show ?thesis by (simp add: notify_loop_acting del: notify_loop.simps)
  next
    case False
    let ?as = "fst (b f p)"
    have IH: "calls_of (notify_loop (acting b) p xs (run_actions ?as st))
        = expected_calls b p xs (gone \<union> {j. Unsubscribe j \<in> set ?as})"
    proof (rule Cons.IH)
      fix j assume j: "j \<in> fst ` set xs"
      with Cons.prems(1) [of j] have *: "j < next_wrapper st" by simp
      with run_actions_next [of st ?as] show "j < next_wrapper (run_actions ?as st)" by simp
      show "(j \<in> listener_ids (run_actions ?as st)) = (j \<notin> gone \<union> {j. Unsubscribe j \<in> set ?as})"
        using Cons.prems(2) [of j] j * by (simp add: run_actions_ids)
    qed
    show ?thesis
      unfolding x expected_calls.simps IH [symmetric] using False Cons.prems(2) [of i] x
      by (simp add: notify_loop_acting calls_of_def Let_def del: notify_loop.simps split: sum.split)
  qed
qed

lemma notify_expected:
  assumes "listeners_ok st"
  shows "calls_of (notify (acting b) p st) = expected_calls b p (listeners st) {}"
  unfolding notify_def
  by (rule notify_loop_expected) (use assms in \<open>auto simp: listeners_ok_def listener_ids_def\<close>)

lemma expected_calls_subseq: "subseq (fst (expected_calls b p xs gone)) (map fst xs)"
  by (induction b p xs gone rule: expected_calls.induct) (auto split: sum.split)

lemma subseq_distinct: "subseq xs ys \<Longrightarrow> distinct ys \<Longrightarrow> distinct xs"
proof (induction rule: list_emb.induct)
  case (list_emb_Cons2 x y xs ys)
  then show ?case by (auto dest: list_emb_set)
qed auto

section \<open>The store as a state machine\<close>

text \<open>
  The steps a store's clients and its timer take: loading, updating (with or without an
  error), the timer going off, subscribing, unsubscribing, stopping.  Callbacks may
  subscribe, unsubscribe and throw.
\<close>

definition same_core :: "'f store \<Rightarrow> 'f store \<Rightarrow> bool" where
  "same_core st st' \<longleftrightarrow>
     loaded st' = loaded st \<and> baseState st' = baseState st \<and> derivedState st' = derivedState st \<and>
     extraState st' = extraState st \<and> updateTimeoutId st' = updateTimeoutId st \<and>
     timers st' = timers st \<and> next_timer st' = next_timer st"

inductive store_step ::
  "(state_view \<Rightarrow> state_view \<Rightarrow> state_view) \<Rightarrow> 'f behaviour \<Rightarrow> 'f store \<Rightarrow> 'f store \<Rightarrow> bool"
  for R b where
  step_load: "store_step R b st (fst (load (\<lambda>s. (run_actions as s, r)) addrs base extra st))"
| step_update: "store_step R b st (fst (update R (acting b) addrs u x st))"
| step_fire: "t \<in> set (timers st) \<Longrightarrow> store_step R b st (fst (fire_timer R (acting b) addrs t st))"
| step_subscribe: "store_step R b st (snd (subscribe st f))"
| step_unsubscribe: "store_step R b st (unsubscribe st i)"
| step_stop: "store_step R b st (stop id st)"

definition reachable_store ::
  "(state_view \<Rightarrow> state_view \<Rightarrow> state_view) \<Rightarrow> 'f behaviour \<Rightarrow> 'f store \<Rightarrow> bool" where
  "reachable_store R b st \<longleftrightarrow> (store_step R b)\<^sup>*\<^sup>* new_store st"

lemma reachable_new: "reachable_store R b new_store"
  by (simp add: reachable_store_def)

lemma reachable_subscribe: "reachable_store R b st \<Longrightarrow> reachable_store R b (snd (subscribe st f))"
  unfolding reachable_store_def by (erule rtranclp.rtrancl_into_rtrancl) (rule step_subscribe)

definition timers_ok :: "'f store \<Rightarrow> bool" where
  "timers_ok st \<longleftrightarrow> timers st = [] \<or> (\<exists>t. updateTimeoutId st = Some t \<and> timers st = [t])"

definition core_ok :: "'f store \<Rightarrow> bool" where
  "core_ok st \<longleftrightarrow>
     (loaded st \<longleftrightarrow> derivedState st \<noteq> None) \<and> (derivedState st \<noteq> None \<longrightarrow> baseState st \<noteq> None) \<and>
     timers_ok st"

lemma timers_ok_fields [simp]:
  "timers_ok (st\<lparr>baseState := x\<rparr>) = timers_ok st" "timers_ok (st\<lparr>derivedState := y\<rparr>) = timers_ok st"
  "timers_ok (st\<lparr>extraState := z\<rparr>) = timers_ok st" "timers_ok (st\<lparr>loaded := l\<rparr>) = timers_ok st"
  by (simp_all add: timers_ok_def)

lemma timers_schedule:
  "timers_ok st \<Longrightarrow> timers (scheduleUpdate st) = [next_timer st] \<and> updateTimeoutId (scheduleUpdate st) = Some (next_timer st)"
  by (auto simp: timers_ok_def scheduleUpdate_def cancelUpdateIfScheduled_def Let_def split: option.splits)

lemma timers_ok_schedule [simp]: "timers_ok st \<Longrightarrow> timers_ok (scheduleUpdate st)"
  using timers_schedule [of st] by (simp add: timers_ok_def)

lemma core_ok_cong: "same_core st st' \<Longrightarrow> core_ok st \<Longrightarrow> core_ok st'"
  by (simp add: same_core_def core_ok_def timers_ok_def)

lemma same_core_refl [simp]: "same_core st st"
  by (simp add: same_core_def)

lemma same_core_trans: "same_core a b \<Longrightarrow> same_core b c \<Longrightarrow> same_core a c"
  by (simp add: same_core_def)

lemma same_core_subscribe [simp]: "same_core st (snd (subscribe st f))"
  by (simp add: same_core_def subscribe_def)

lemma same_core_unsubscribe [simp]: "same_core st (unsubscribe st i)"
  by (simp add: same_core_def unsubscribe_def)

lemma same_core_actions [simp]: "same_core st (run_actions as st)"
  by (induction as st rule: run_actions.induct)
    (auto intro: same_core_trans [OF same_core_subscribe] same_core_trans [OF same_core_unsubscribe])

lemma same_core_notify: "same_core st (fst (snd (notify_loop (acting b) p xs st)))"
proof (induction xs arbitrary: st)
  case (Cons x xs)
  then show ?case
    using same_core_trans [OF same_core_actions Cons]
    by (cases x) (simp add: notify_loop_acting Let_def del: notify_loop.simps split: sum.split)
qed simp

lemma core_ok_update_state: "core_ok st \<Longrightarrow> core_ok (fst (update_state R addrs u x st))"
  by (auto simp: core_ok_def update_state_def Let_def split: option.splits sum.splits)

lemma core_ok_update:
  assumes "core_ok st"
  shows "core_ok (fst (update R (acting b) addrs u x st))"
proof -
  obtain st1 r where st1: "update_state R addrs u x st = (st1, r)" by force
  with core_ok_update_state [OF assms, of R addrs u x] have "core_ok st1" by simp
  with st1 show ?thesis
    by (cases r) (auto simp: update_def notify_def intro: core_ok_cong [OF same_core_notify])
qed

lemma core_ok_load: "core_ok st \<Longrightarrow> core_ok (fst (load (\<lambda>s. (run_actions as s, r)) addrs base extra st))"
  by (auto simp: load_def Let_def split: sum.splits intro!: core_ok_cong [OF same_core_actions])
    (auto simp: core_ok_def)

lemma core_ok_stop: "core_ok st \<Longrightarrow> core_ok (stop (\<lambda>st. st) st)"
  by (auto simp: core_ok_def timers_ok_def stop_def cancelUpdateIfScheduled_def split: option.splits)

lemma core_ok_expired:
  "core_ok st \<Longrightarrow> t \<in> set (timers st) \<Longrightarrow> core_ok (st\<lparr>timers := removeAll t (timers st), updateTimeoutId := None\<rparr>)"
  by (auto simp: core_ok_def timers_ok_def)

lemma core_ok_step: "store_step R b st st' \<Longrightarrow> core_ok st \<Longrightarrow> core_ok st'"
proof (induction rule: store_step.induct)
  case (step_fire t st addrs)
  then show ?case unfolding fire_timer_def by (intro core_ok_update core_ok_expired)
next
  case (step_stop st)
  then show ?case using core_ok_stop by (simp add: id_def)
qed (auto intro: core_ok_update core_ok_load core_ok_cong [OF same_core_subscribe] core_ok_cong [OF same_core_unsubscribe])

lemma core_ok_reachable: "reachable_store R b st \<Longrightarrow> core_ok st"
  unfolding reachable_store_def
proof (induction rule: rtranclp_induct)
  case base
  then show ?case by (simp add: core_ok_def timers_ok_def new_store_def)
next
  case (step st st')
  then show ?case by (blast intro: core_ok_step)
qed

lemma listeners_ok_cong:
  "listeners st' = listeners st \<Longrightarrow> next_wrapper st' = next_wrapper st \<Longrightarrow> listeners_ok st \<Longrightarrow> listeners_ok st'"
  by (simp add: listeners_ok_def listener_ids_def)

lemma listeners_ok_subscribe: "listeners_ok st \<Longrightarrow> listeners_ok (snd (subscribe st f))"
  by (fastforce simp: listeners_ok_def listener_ids_def subscribe_def)

lemma listeners_ok_unsubscribe: "listeners_ok st \<Longrightarrow> listeners_ok (unsubscribe st i)"
  by (auto simp: listeners_ok_def listener_ids_def unsubscribe_def distinct_map_filter)

lemma listeners_ok_actions: "listeners_ok st \<Longrightarrow> listeners_ok (run_actions as st)"
  by (induction as st rule: run_actions.induct)
    (simp_all add: listeners_ok_subscribe listeners_ok_unsubscribe)

lemma listeners_ok_notify: "listeners_ok st \<Longrightarrow> listeners_ok (fst (snd (notify_loop (acting b) p xs st)))"
proof (induction xs arbitrary: st)
  case (Cons x xs)
  then show ?case
    by (cases x) (simp add: notify_loop_acting Let_def listeners_ok_actions del: notify_loop.simps split: sum.split)
qed simp

lemma update_state_listeners:
  "listeners (fst (update_state R addrs u x st)) = listeners st"
  "next_wrapper (fst (update_state R addrs u x st)) = next_wrapper st"
  by (auto simp: update_state_def Let_def split: option.splits sum.splits)

lemma listeners_ok_update:
  assumes "listeners_ok st"
  shows "listeners_ok (fst (update R (acting b) addrs u x st))"
proof -
  obtain st1 r where st1: "update_state R addrs u x st = (st1, r)" by force
  with listeners_ok_cong [OF update_state_listeners assms, of R addrs u x] have "listeners_ok st1" by simp
  with st1 show ?thesis
    by (cases r) (auto simp: update_def notify_def intro: listeners_ok_notify)
qed

lemma listeners_ok_load:
  "listeners_ok st \<Longrightarrow> listeners_ok (fst (load (\<lambda>s. (run_actions as s, r)) addrs base extra st))"
  by (auto simp: load_def Let_def split: sum.splits intro!: listeners_ok_actions)
    (auto intro: listeners_ok_cong [of _ st])

lemma listeners_ok_step: "store_step R b st st' \<Longrightarrow> listeners_ok st \<Longrightarrow> listeners_ok st'"
proof (induction rule: store_step.induct)
  case (step_fire t st addrs)
  then show ?case
    unfolding fire_timer_def by (intro listeners_ok_update) (auto intro: listeners_ok_cong [of _ st])
next
  case (step_stop st)
  then show ?case
    by (auto simp: stop_def cancelUpdateIfScheduled_def split: option.splits intro: listeners_ok_cong [of _ st])
qed (auto intro: listeners_ok_update listeners_ok_load listeners_ok_subscribe listeners_ok_unsubscribe)

lemma listeners_ok_reachable: "reachable_store R b st \<Longrightarrow> listeners_ok st"
  unfolding reachable_store_def
proof (induction rule: rtranclp_induct)
  case base
  then show ?case by (simp add: listeners_ok_def new_store_def listener_ids_def)
next
  case (step st st')
  then show ?case by (blast intro: listeners_ok_step)
qed

section \<open>A sample store, for the witnesses\<close>

definition sample_fees :: fees where
  "sample_fees =
     \<lparr>baseRateWithoutDecay = ZERO, minuteDecayFactor = HALF, beta = ONE,
      lastFeeOperation = 0, timeOfLatestBlock = 0, recoveryMode = False\<rparr>"

definition sample_trove :: pending_trove where
  "sample_trove =
     \<lparr>collateral = ZERO, debt = ZERO, ownerAddress = '''', status = nonExistent,
      stake = ZERO, snapshotOfTotalRedistributed = emptyTrove\<rparr>"

definition sample_object :: "nat \<Rightarrow> store_object" where
  "sample_object a =
     [OFrontend Unregistered, ODecimal ZERO, OTrove emptyTrove, OPendingTrove sample_trove,
      ODeposit \<lparr>initialDebtToken = ZERO, currentDebtToken = ZERO, collateralGain = ZERO,
        protocolTokenReward = ZERO, frontendTag = ''''\<rparr>,
      OFees sample_fees,
      OStake \<lparr>stakedProtocolToken = ZERO, stakeCollateralGain = ZERO, debtTokenGain = ZERO\<rparr>,
      OPair (ZERO, ''''),
      OUserTrove \<lparr>collateral = ZERO, debt = ZERO, ownerAddress = '''', status = nonExistent\<rparr>,
      OFees sample_fees,
      ODecimal MINIMUM_BORROWING_RATE, ODecimal MINIMUM_REDEMPTION_RATE, ODecimal ONE] ! a"

definition sample_base :: base_state where
  "sample_base =
     (let zero = Obj 1 ZERO; front = Obj 0 Unregistered; t = Obj 2 emptyTrove; p = Obj 3 sample_trove
      in \<lparr>frontend = front, ownFrontend = front, numberOfTroves = 0, accountBalance = zero,
          debtTokenBalance = zero, protocolTokenBalance = zero, uniTokenBalance = zero,
          uniTokenAllowance = zero, remainingProtocolMiningProtocolTokenReward = zero,
          liquidityMiningStake = zero, totalStakedUniTokens = zero,
          liquidityMiningProtocolTokenReward = zero, collateralSurplusBalance = zero, price = zero,
          debtTokenInStabilityPool = zero, total_trove = t, totalRedistributed = t,
          troveBeforeRedistribution = p,
          stabilityDeposit =
            Obj 4 \<lparr>initialDebtToken = ZERO, currentDebtToken = ZERO, collateralGain = ZERO,
                    protocolTokenReward = ZERO, frontendTag = ''''\<rparr>,
          remainingStabilityPoolProtocolTokenReward = zero, feesInNormalMode = Obj 5 sample_fees,
          protocolTokenStake =
            Obj 6 \<lparr>stakedProtocolToken = ZERO, stakeCollateralGain = ZERO, debtTokenGain = ZERO\<rparr>,
          totalStakedProtocolToken = zero, riskiestTroveBeforeRedistribution = p,
          debtInFront = Obj 7 (ZERO, '''')\<rparr>)"

definition sample_update :: base_state_update where
  "sample_update =
     \<lparr>new_frontend = None, new_ownFrontend = None, new_numberOfTroves = Some 1,
      new_accountBalance = Some (Obj 12 ONE),
      new_debtTokenBalance = None, new_protocolTokenBalance = None, new_uniTokenBalance = None,
      new_uniTokenAllowance = None, new_remainingProtocolMiningProtocolTokenReward = None,
      new_liquidityMiningStake = None, new_totalStakedUniTokens = None,
      new_liquidityMiningProtocolTokenReward = None, new_collateralSurplusBalance = None,
      new_price = None, new_debtTokenInStabilityPool = None, new_total_trove = None,
      new_totalRedistributed = None, new_troveBeforeRedistribution = None, new_stabilityDeposit = None,
      new_remainingStabilityPoolProtocolTokenReward = None, new_feesInNormalMode = None,
      new_protocolTokenStake = None, new_totalStakedProtocolToken = None,
      new_riskiestTroveBeforeRedistribution = None, new_debtInFront = None\<rparr>"

definition sample_addresses :: addresses where
  "sample_addresses =
     \<lparr>addr_trove = 8, addr_fees = 9, addr_borrowingRate = 10, addr_redemptionRate = 11\<rparr>"

definition sample_derived :: derived_state where
  "sample_derived =
     \<lparr>derived_trove = Obj 8 \<lparr>collateral = ZERO, debt = ZERO, ownerAddress = '''', status = nonExistent\<rparr>,
      derived_fees = Obj 9 sample_fees, derived_borrowingRate = Obj 10 MINIMUM_BORROWING_RATE,
      derived_redemptionRate = Obj 11 MINIMUM_REDEMPTION_RATE, haveUndercollateralizedTroves = False\<rparr>"

definition sample_store :: "unit store" where
  "sample_store = new_store\<lparr>loaded := True, baseState := Some sample_base, derivedState := Some sample_derived\<rparr>"

lemma sample_rates:
  "borrowingRate (sample_fees\<lparr>recoveryMode := False\<rparr>) None = Inr MINIMUM_BORROWING_RATE"
  "redemptionRate (sample_fees\<lparr>recoveryMode := False\<rparr>) None None = Inr MINIMUM_REDEMPTION_RATE"
proof -
  have b: "baseRate (sample_fees\<lparr>recoveryMode := False\<rparr>) None = Inr ZERO"
    by (subst baseRate_no_decay) (simp_all add: sample_fees_def when_of_def)
  show "borrowingRate (sample_fees\<lparr>recoveryMode := False\<rparr>) None = Inr MINIMUM_BORROWING_RATE"
    using rates_less(1) by (simp add: borrowingRate_def b min_def)
  show "redemptionRate (sample_fees\<lparr>recoveryMode := False\<rparr>) None None = Inr MINIMUM_REDEMPTION_RATE"
    using rates_less(3) by (simp add: redemptionRate_def b nonZero_dec_def min_def Let_def)
qed

lemma sample_ratios:
  "collateralRatioIsBelowCritical emptyTrove p = False"
  "collateralRatioIsBelowMinimum (applyRedistribution sample_trove emptyTrove) p = False"
  by (simp_all add: collateralRatioIsBelowCritical_def collateralRatioIsBelowMinimum_def
      collateralRatio_less_iff emptyTrove_def sample_trove_def applyRedistribution_def trove_ops
      Let_def decimal_eq_iff saturating_sub_def)

lemma sample_derive:
  assumes "content (feesInNormalMode b) = sample_fees" and "content (total_trove b) = emptyTrove"
    and "content (troveBeforeRedistribution b) = sample_trove"
    and "content (riskiestTroveBeforeRedistribution b) = sample_trove"
    and "content (totalRedistributed b) = emptyTrove"
  shows "derive sample_addresses b = Inr sample_derived"
proof -
  have "setRecoveryMode sample_fees False = Inr (sample_fees\<lparr>recoveryMode := False\<rparr>)"
    by (rule setRecoveryMode_eq) (simp add: fees_ok_def sample_fees_def HALF_def ONE_def DIGITS_eq)
  moreover have "sample_fees\<lparr>recoveryMode := False\<rparr> = sample_fees" by (simp add: sample_fees_def)
  ultimately show ?thesis
    using sample_rates
    by (simp add: derive_def assms sample_ratios sample_addresses_def sample_derived_def)
      (simp add: sample_trove_def applyRedistribution_def trove_ops emptyTrove_def Let_def
        decimal_eq_iff saturating_sub_def)
qed

lemmas sample_defs = sample_base_def sample_update_def sample_derived_def Let_def

lemma heap_okI:
  assumes "\<And>x. JObject x \<in> V \<Longrightarrow> content x = c (address x)"
  shows "heap_ok V"
  unfolding heap_ok_def
proof (intro ballI impI)
  fix v w
  assume "v \<in> V" "w \<in> V" "strict_equal v w"
  with assms show "same_value v w" by (cases v; cases w) force+
qed

lemma sample_heap: "heap_ok (live_values sample_addresses (Some sample_update) sample_store)"
proof (rule heap_okI)
  fix x
  assume "JObject x \<in> live_values sample_addresses (Some sample_update) sample_store"
  then have "x \<in> (\<lambda>a. Obj a (sample_object a)) ` {0..<13}"
    by (simp add: live_values_def sample_store_def sample_derive reduce_def update_objects_def
        update_values_def base_values_def derived_values_def object_value_def
        sample_defs updateIfChanged_def on_content_def)
      (elim disjE; simp add: sample_object_def image_iff)
  then show "content x = sample_object (address x)" by auto
qed

lemma sample_update_state:
  "\<exists>st' p. update_state R sample_addresses (Some sample_update) None sample_store = (st', Inr p)"
  by (simp add: update_state_Inr sample_store_def sample_derive reduce_def sample_defs
      updateIfChanged_def on_content_def)

lemma sample_in_sync: "in_sync sample_store"
  unfolding in_sync_def
  by (intro exI [of _ sample_base] exI [of _ sample_derived] exI [of _ sample_addresses])
    (simp add: sample_store_def sample_derive sample_base_def Let_def list_all2_refl)

section \<open>Properties\<close>

text \<open>
  C5: Reducing an update into the base state sets every one of the 25 fields the update
  gives a different value for, under its own key, and keeps the very object it had in every
  other field.
\<close>

theorem reduce_updates_fields:
  "map_of (zip base_keys (base_values (reduce b u))) =
     map_of (zip base_keys (map2 (\<lambda>prev next. case next of
         None \<Rightarrow> prev
       | Some n \<Rightarrow> if same_value prev n then prev else n) (base_values b) (update_values u)))"
  by (simp add: base_values_reduce keep_def [abs_def])

text \<open>
  The change an update reports to the listeners is exactly the set of state variables
  whose value differs from before, with their new values, as long as no two live objects
  with one identity differ; \<open>oldState\<close> and \<open>newState\<close> are the states before and after.
\<close>

theorem update_reports_changes:
  assumes "update_state R addrs u None st = (st', Inr p)" and "heap_ok (live_values addrs u st)"
  shows "oldState p = state st \<and> newState p = state st' \<and> stateChange p = changed (state st) (state st')"
  using difference_tracked [OF update_tracked [OF assms]] assms(1) by (auto simp: update_state_Inr)

theorem update_reports_changes_witness:
  "\<exists>st' p. update_state (\<lambda>s u. s) sample_addresses (Some sample_update) None sample_store = (st', Inr p)
     \<and> oldState p = state sample_store \<and> newState p = state st'
     \<and> stateChange p = changed (state sample_store) (state st')"
  using sample_update_state [of "\<lambda>s u. s"] update_reports_changes [OF _ sample_heap, of "\<lambda>s u. s"] by blast

text \<open>
  After a successful update the derived state holds the values \<open>_derive\<close> computes from
  the new base state, whatever the store held before.
\<close>

theorem update_derives:
  assumes "update_state R addrs u x st = (st', Inr p)"
  shows "\<exists>b d f. baseState st' = Some b \<and> derivedState st' = Some d \<and> derive addrs b = Inr f
    \<and> list_all2 same_value (derived_values d) (derived_values f)"
  using assms by (auto simp: update_state_Inr derived_values_reduce intro!: list_all2_keep)

theorem update_derives_witness:
  "\<exists>st' p. update_state (\<lambda>s u. s) sample_addresses (Some sample_update) None sample_store = (st', Inr p)
     \<and> (\<exists>b d f. baseState st' = Some b \<and> derivedState st' = Some d \<and> derive sample_addresses b = Inr f
       \<and> list_all2 same_value (derived_values d) (derived_values f))"
  using sample_update_state [of "\<lambda>s u. s"] update_derives [of "\<lambda>s u. s" sample_addresses] by blast

text \<open>
  When the timer goes off in a store whose derived values are up to date, nothing
  changes but the timer itself: the state stays the same and the listeners are told of an
  empty change.
\<close>

theorem timer_changes_nothing:
  assumes "in_sync st"
    and "update_state R addrs None None (st\<lparr>timers := removeAll t (timers st), updateTimeoutId := None\<rparr>)
           = (st', Inr p)"
  shows "state st' = state st \<and> stateChange p = Map.empty \<and> baseState st' = baseState st
    \<and> derivedState st' = derivedState st \<and> in_sync st'"
proof -
  obtain b d f where *: "baseState st = Some b" "derivedState st = Some d" "derive addrs b = Inr f"
      "baseState st' = Some b" "derivedState st' = Some (reduceDerived d f)" "extraState st' = extraState st"
      "stateChange p = difference (state st') (state (st\<lparr>timers := removeAll t (timers st), updateTimeoutId := None\<rparr>))"
    using assms(2) by (auto simp: update_state_Inr)
  from in_sync_reduce [OF assms(1) *(1-3)] have d: "derivedState st' = Some d" using * by simp
  then have "state st' = state st" using * by (simp add: state_def)
  moreover have "in_sync st'" using assms(1) * d by (simp add: in_sync_def)
  ultimately show ?thesis using * d by (simp add: state_def)
qed

theorem timer_changes_nothing_witness:
  "\<exists>st' p. update_state (\<lambda>s u. s) sample_addresses None None
        (sample_store\<lparr>timers := removeAll 0 (timers sample_store), updateTimeoutId := None\<rparr>) = (st', Inr p)
    \<and> state st' = state sample_store \<and> stateChange p = Map.empty \<and> baseState st' = baseState sample_store
    \<and> derivedState st' = derivedState sample_store \<and> in_sync st'"
proof -
  have "\<exists>st' p. update_state (\<lambda>s u. s) sample_addresses None None
      (sample_store\<lparr>timers := removeAll 0 (timers sample_store), updateTimeoutId := None\<rparr>) = (st', Inr p)"
    by (simp add: update_state_Inr sample_store_def sample_derive sample_base_def Let_def)
  then show ?thesis using timer_changes_nothing [OF sample_in_sync, of "\<lambda>s u. s"] by blast
qed

text \<open>
  C16: A notification calls, in order of subscription, exactly the listeners subscribed when
  it began, less those an earlier called listener unsubscribed, up to and including the first
  that throws, and ends with the error of that one; listeners subscribed meanwhile are not
  called, and none is called twice.  A listener may subscribe, unsubscribe and throw, as it
  chooses from what it is told.
\<close>

theorem notify_calls_expected:
  assumes "reachable_store R b st"
  shows "(fst (notify (acting b) p st), snd (snd (notify (acting b) p st))) = expected_calls b p (listeners st) {}
    \<and> subseq (fst (notify (acting b) p st)) (map fst (listeners st))
    \<and> distinct (fst (notify (acting b) p st))"
  using notify_expected [OF listeners_ok_reachable [OF assms], of b p] listeners_ok_reachable [OF assms]
    expected_calls_subseq [of b p "listeners st" "{}"]
  unfolding calls_of_def by (metis fst_conv listeners_ok_def subseq_distinct)

definition sample_behaviour :: "bool behaviour" where
  "sample_behaviour f p = (if f then ([], Inl (Error ''x'')) else ([Unsubscribe 1, Subscribe False], Inr ()))"

definition sample_params :: listener_params where
  "sample_params = \<lparr>newState = Map.empty, oldState = Map.empty, stateChange = Map.empty\<rparr>"

text \<open>Of four listeners the first unsubscribes the second, the third throws, the last is not called.\<close>

definition sample_listening :: "bool store" where
  "sample_listening = snd (subscribe (snd (subscribe (snd (subscribe (snd (subscribe new_store False)) False)) True)) False)"

theorem notify_calls_expected_witness:
  "reachable_store (\<lambda>s u. s) sample_behaviour sample_listening
   \<and> fst (notify (acting sample_behaviour) sample_params sample_listening) = [0, 2]
   \<and> snd (snd (notify (acting sample_behaviour) sample_params sample_listening)) = Inl (Error ''x'')"
proof -
  have r: "reachable_store (\<lambda>s u. s) sample_behaviour sample_listening"
    unfolding sample_listening_def by (intro reachable_subscribe reachable_new)
  have "listeners sample_listening = [(0, False), (1, False), (2, True), (3, False)]"
    by (simp add: sample_listening_def subscribe_def new_store_def)
  with notify_calls_expected [OF r, of sample_params] r show ?thesis
    by (simp add: sample_behaviour_def)
qed

text \<open>
  C17: In every reachable store, whatever threw on the way, listeners and \<open>onLoaded\<close> included: it
  is loaded exactly when it has a derived state, and then it has a base state; one timeout at
  most is pending, the one it remembers, so stopping the store leaves none; and the registered
  listeners are distinct.
\<close>

theorem store_invariant:
  assumes "reachable_store R b st"
  shows "loaded st = (derivedState st \<noteq> None) \<and> (derivedState st = None \<or> baseState st \<noteq> None)
    \<and> timers st \<in> {[], [the (updateTimeoutId st)]} \<and> timers (stop id st) = []
    \<and> distinct (map fst (listeners st))"
  using core_ok_reachable [OF assms] listeners_ok_reachable [OF assms]
  by (auto simp: core_ok_def timers_ok_def listeners_ok_def stop_def cancelUpdateIfScheduled_def
      split: option.splits)

theorem store_invariant_witness:
  "let st = fst (load (\<lambda>s. (run_actions [] s, Inr ())) sample_addresses sample_base None new_store)
   in loaded st \<and> loaded st = (derivedState st \<noteq> None) \<and> timers st = [0] \<and> timers (stop id st) = []"
proof -
  let ?st = "fst (load (\<lambda>s. (run_actions [] s, Inr ())) sample_addresses sample_base None
      (new_store :: unit store))"
  have "reachable_store (\<lambda>s u. s) (\<lambda>f p. ([], Inr ())) ?st"
    unfolding reachable_store_def by (rule r_into_rtranclp) (rule step_load)
  from store_invariant [OF this] show ?thesis
    by (simp add: Let_def load_def new_store_def sample_derive sample_base_def scheduleUpdate_def
        cancelUpdateIfScheduled_def stop_def)
qed

text \<open>
  A store is loaded at most once and not updated before: loading again, or updating a
  store that is not loaded, fails the assertion and leaves the store as it was.
\<close>

theorem load_once_before_update:
  assumes "reachable_store R b st"
  shows "if loaded st
         then load onLoaded addrs base extra st = (st, Inl (AssertionError ''assertion failed''))
         else update R react addrs u x st = (st, Inl (AssertionError ''assertion failed''))"
  using core_ok_reachable [OF assms]
  by (auto simp: core_ok_def load_def update_def update_state_def split: option.splits)

theorem load_once_before_update_witness:
  "update (\<lambda>s u. s) (acting (\<lambda>f p. ([], Inr ()))) sample_addresses (Some sample_update) None (new_store :: unit store)
     = (new_store, Inl (AssertionError ''assertion failed''))"
  using load_once_before_update [of "\<lambda>s u. s" "\<lambda>f p. ([], Inr ())" new_store "\<lambda>s. (s, Inr ())" sample_addresses
      sample_base None "acting (\<lambda>f p. ([], Inr ()))" "Some sample_update" None]
  by (simp add: reachable_store_def new_store_def)

end
