(* ===== verification/Block_Polled.thy ===== *)
theory Block_Polled
  imports Ethers_Readable Store_Facts
begin

text \<open>
  The store that follows the chain, \<^verbatim>\<open>packages/lib-ethers/src/BlockPolledSfStablecoinStore.ts\<close>,
  and \<open>_BlockPolledReadableEthers\<close> of \<^verbatim>\<open>ReadableEthers.ts\<close>, which answers reads from it.

  \<open>polled_get\<close> is the fetch of a block's state; \<open>polled_handle\<close> what the store makes of it,
  composed of the store's own \<open>reduce\<close>, \<open>derive\<close> and \<open>reduceDerived\<close>.  The identities of the
  objects a fetch creates are an argument, \<open>alloc\<close>.
\<close>

section \<open>Fetching\<close>

record polled_extra =
  extra_blockTag :: "int option"
  extra_blockTimestamp :: int
  extra_feesFactory :: "int \<Rightarrow> bool \<Rightarrow> fees result"

definition nonExistent_trove :: pending_trove where
  "nonExistent_trove =
     \<lparr>collateral = ZERO, debt = ZERO, ownerAddress = AddressZero, status = nonExistent, stake = ZERO,
      snapshotOfTotalRedistributed = emptyTrove\<rparr>"

definition getRiskiestTroveBeforeRedistribution ::
  "contracts \<Rightarrow> call_overrides option \<Rightarrow> pending_trove result" where
  "getRiskiestTroveBeforeRedistribution k overrides =
     result_bind
       (ethers_getTroves k
          \<lparr>listing_first = 1, sortedBy = ''ascendingCollateralRatio'', startingAt = None,
           beforeRedistribution = Some True\<rparr> overrides) (\<lambda>riskiestTroves.
       case riskiestTroves of
         Inl (t # _) \<Rightarrow> Inr t
       | _ \<Rightarrow> Inr nonExistent_trove)"

text \<open>The values that depend on the user, and what stands for them without one.\<close>

record user_values =
  uv_accountBalance :: decimal
  uv_debtTokenBalance :: decimal
  uv_protocolTokenBalance :: decimal
  uv_uniTokenBalance :: decimal
  uv_uniTokenAllowance :: decimal
  uv_liquidityMiningStake :: decimal
  uv_liquidityMiningProtocolTokenReward :: decimal
  uv_collateralSurplusBalance :: decimal
  uv_troveBeforeRedistribution :: pending_trove
  uv_stabilityDeposit :: stability_deposit
  uv_protocolTokenStake :: protocol_token_stake
  uv_ownFrontend :: frontend_status
  uv_debtInFront :: "decimal \<times> string"

definition no_user_values :: "user_values result" where
  "no_user_values =
     result_map (\<lambda>deposit.
       \<lparr>uv_accountBalance = ZERO, uv_debtTokenBalance = ZERO, uv_protocolTokenBalance = ZERO,
        uv_uniTokenBalance = ZERO, uv_uniTokenAllowance = ZERO, uv_liquidityMiningStake = ZERO,
        uv_liquidityMiningProtocolTokenReward = ZERO, uv_collateralSurplusBalance = ZERO,
        uv_troveBeforeRedistribution = nonExistent_trove, uv_stabilityDeposit = deposit,
        uv_protocolTokenStake =
          \<lparr>stakedProtocolToken = ZERO, stakeCollateralGain = ZERO, debtTokenGain = ZERO\<rparr>,
        uv_ownFrontend = Unregistered, uv_debtInFront = (ZERO, AddressZero)\<rparr>)
       (new_StabilityDeposit ZERO ZERO ZERO ZERO AddressZero)"

definition fetch_user_values ::
  "('abi, 'p, 't) connection \<Rightarrow> contracts \<Rightarrow> string \<Rightarrow> block_tag option \<Rightarrow> user_values result" where
  "fetch_user_values con k user tag =
     (let o' = Some \<lparr>blockTag = tag\<rparr>; a = Some user in
     result_bind (result_bind (getBalance (con_provider con) user tag) decimalify) (\<lambda>balance.
     result_bind (ethers_getDebtTokenBalance con k a o') (\<lambda>debtBalance.
     result_bind (ethers_getProtocolTokenBalance con k a o') (\<lambda>protocolBalance.
     result_bind (ethers_getUniTokenBalance con k a o') (\<lambda>uniBalance.
     result_bind (ethers_getUniTokenAllowance con k a o') (\<lambda>uniAllowance.
     result_bind (ethers_getLiquidityMiningStake con k a o') (\<lambda>miningStake.
     result_bind (ethers_getLiquidityMiningProtocolTokenReward con k a o') (\<lambda>miningReward.
     result_bind (ethers_getCollateralSurplusBalance con k a o') (\<lambda>surplus.
     result_bind (ethers_getTroveBeforeRedistribution con k a o') (\<lambda>troveBefore.
     result_bind (ethers_getStabilityDeposit con k a o') (\<lambda>deposit.
     result_bind (ethers_getProtocolTokenStake con k a o') (\<lambda>staked.
     result_bind (ethers_getFrontendStatus con k a o') (\<lambda>ownFrontendStatus.
     result_bind (ethers_getDebtInFront k user 500 o') (\<lambda>inFront.
       Inr \<lparr>uv_accountBalance = balance, uv_debtTokenBalance = debtBalance,
            uv_protocolTokenBalance = protocolBalance, uv_uniTokenBalance = uniBalance,
            uv_uniTokenAllowance = uniAllowance, uv_liquidityMiningStake = miningStake,
            uv_liquidityMiningProtocolTokenReward = miningReward, uv_collateralSurplusBalance = surplus,
            uv_troveBeforeRedistribution = troveBefore, uv_stabilityDeposit = deposit,
            uv_protocolTokenStake = staked, uv_ownFrontend = ownFrontendStatus,
            uv_debtInFront = inFront\<rparr>))))))))))))))"

definition polled_get ::
  "('abi, 'p, 't) connection \<Rightarrow> contracts \<Rightarrow> (string \<Rightarrow> nat) \<Rightarrow> int option \<Rightarrow>
     (base_state \<times> polled_extra) result" where
  "polled_get con k alloc tagNumber =
     (let tag = map_option BlockNumber tagNumber; o' = Some \<lparr>blockTag = tag\<rparr> in
     result_bind (getBlockTimestamp con tag) (\<lambda>blockTimestamp.
     result_bind (getFeesFactory k o') (\<lambda>feesFactory.
     result_bind (getRemainingProtocolMiningProtocolTokenRewardCalculator k o') (\<lambda>calculateRemainingProtocolToken.
     result_bind (ethers_getPrice k o') (\<lambda>currentPrice.
     result_bind (ethers_getNumberOfTroves k o') (\<lambda>troveCount.
     result_bind (ethers_getTotalRedistributed k o') (\<lambda>redistributed.
     result_bind (ethers_getTotal k o') (\<lambda>totalTrove.
     result_bind (ethers_getDebtTokenInStabilityPool k o') (\<lambda>inPool.
     result_bind (ethers_getTotalStakedProtocolToken k o') (\<lambda>totalStaked.
     result_bind (getRiskiestTroveBeforeRedistribution k o') (\<lambda>riskiest.
     result_bind (ethers_getTotalStakedUniTokens k o') (\<lambda>totalUni.
     result_bind (ethers_getRemainingStabilityPoolProtocolTokenReward con k o') (\<lambda>remainingReward.
     result_bind (case con_frontendTag con of
         Some f \<Rightarrow> if f = '''' then Inr Unregistered else ethers_getFrontendStatus con k (Some f) o'
       | None \<Rightarrow> Inr Unregistered) (\<lambda>frontendStatus.
     result_bind (case userAddress con of
         Some u \<Rightarrow> if u = '''' then no_user_values else fetch_user_values con k u tag
       | None \<Rightarrow> no_user_values) (\<lambda>user.
     result_bind (feesFactory blockTimestamp False) (\<lambda>normalFees.
       Inr (\<lparr>frontend = Obj (alloc ''frontend'') frontendStatus,
             ownFrontend = Obj (alloc ''ownFrontend'') (uv_ownFrontend user),
             numberOfTroves = troveCount,
             accountBalance = Obj (alloc ''accountBalance'') (uv_accountBalance user),
             debtTokenBalance = Obj (alloc ''debtTokenBalance'') (uv_debtTokenBalance user),
             protocolTokenBalance = Obj (alloc ''protocolTokenBalance'') (uv_protocolTokenBalance user),
             uniTokenBalance = Obj (alloc ''uniTokenBalance'') (uv_uniTokenBalance user),
             uniTokenAllowance = Obj (alloc ''uniTokenAllowance'') (uv_uniTokenAllowance user),
             remainingProtocolMiningProtocolTokenReward =
               Obj (alloc ''remainingProtocolMiningProtocolTokenReward'')
                 (calculateRemainingProtocolToken blockTimestamp),
             liquidityMiningStake = Obj (alloc ''liquidityMiningStake'') (uv_liquidityMiningStake user),
             totalStakedUniTokens = Obj (alloc ''totalStakedUniTokens'') totalUni,
             liquidityMiningProtocolTokenReward =
               Obj (alloc ''liquidityMiningProtocolTokenReward'') (uv_liquidityMiningProtocolTokenReward user),
             collateralSurplusBalance = Obj (alloc ''collateralSurplusBalance'') (uv_collateralSurplusBalance user),
             price = Obj (alloc ''price'') currentPrice,
             debtTokenInStabilityPool = Obj (alloc ''debtTokenInStabilityPool'') inPool,
             total_trove = Obj (alloc ''total'') totalTrove,
             totalRedistributed = Obj (alloc ''totalRedistributed'') redistributed,
             troveBeforeRedistribution = Obj (alloc ''troveBeforeRedistribution'') (uv_troveBeforeRedistribution user),
             stabilityDeposit = Obj (alloc ''stabilityDeposit'') (uv_stabilityDeposit user),
             remainingStabilityPoolProtocolTokenReward =
               Obj (alloc ''remainingStabilityPoolProtocolTokenReward'') remainingReward,
             feesInNormalMode = Obj (alloc ''_feesInNormalMode'') normalFees,
             protocolTokenStake = Obj (alloc ''protocolTokenStake'') (uv_protocolTokenStake user),
             totalStakedProtocolToken = Obj (alloc ''totalStakedProtocolToken'') totalStaked,
             riskiestTroveBeforeRedistribution = Obj (alloc ''_riskiestTroveBeforeRedistribution'') riskiest,
             debtInFront = Obj (alloc ''debtInFront'') (uv_debtInFront user)\<rparr>,
            \<lparr>extra_blockTag = tagNumber, extra_blockTimestamp = blockTimestamp,
             extra_feesFactory = feesFactory\<rparr>)))))))))))))))))"

section \<open>The store's state\<close>

record polled_state =
  polled_base :: base_state
  polled_derived :: derived_state
  polled_extra_state :: polled_extra

text \<open>The update has every field; absent members would keep the old ones.\<close>

definition full_update :: "base_state \<Rightarrow> base_state_update" where
  "full_update b =
     \<lparr>new_frontend = Some (frontend b), new_ownFrontend = Some (ownFrontend b),
      new_numberOfTroves = Some (numberOfTroves b), new_accountBalance = Some (accountBalance b),
      new_debtTokenBalance = Some (debtTokenBalance b), new_protocolTokenBalance = Some (protocolTokenBalance b),
      new_uniTokenBalance = Some (uniTokenBalance b), new_uniTokenAllowance = Some (uniTokenAllowance b),
      new_remainingProtocolMiningProtocolTokenReward = Some (remainingProtocolMiningProtocolTokenReward b),
      new_liquidityMiningStake = Some (liquidityMiningStake b),
      new_totalStakedUniTokens = Some (totalStakedUniTokens b),
      new_liquidityMiningProtocolTokenReward = Some (liquidityMiningProtocolTokenReward b),
      new_collateralSurplusBalance = Some (collateralSurplusBalance b), new_price = Some (price b),
      new_debtTokenInStabilityPool = Some (debtTokenInStabilityPool b), new_total_trove = Some (total_trove b),
      new_totalRedistributed = Some (totalRedistributed b),
      new_troveBeforeRedistribution = Some (troveBeforeRedistribution b),
      new_stabilityDeposit = Some (stabilityDeposit b),
      new_remainingStabilityPoolProtocolTokenReward = Some (remainingStabilityPoolProtocolTokenReward b),
      new_feesInNormalMode = Some (feesInNormalMode b), new_protocolTokenStake = Some (protocolTokenStake b),
      new_totalStakedProtocolToken = Some (totalStakedProtocolToken b),
      new_riskiestTroveBeforeRedistribution = Some (riskiestTroveBeforeRedistribution b),
      new_debtInFront = Some (debtInFront b)\<rparr>"

definition polled_reduceExtra :: "polled_extra \<Rightarrow> polled_extra \<Rightarrow> polled_extra" where
  "polled_reduceExtra old upd =
     \<lparr>extra_blockTag = (case extra_blockTag upd of Some n \<Rightarrow> Some n | None \<Rightarrow> extra_blockTag old),
      extra_blockTimestamp = extra_blockTimestamp upd,
      extra_feesFactory = extra_feesFactory upd\<rparr>"

text \<open>\<open>handleBlock\<close> after its fetch: \<open>_load\<close> the first state, \<open>_update\<close> a loaded one.\<close>

definition polled_handle ::
  "addresses \<Rightarrow> polled_state option \<Rightarrow> base_state \<times> polled_extra \<Rightarrow> polled_state result" where
  "polled_handle addrs prior fetched =
     (let (b, x) = fetched
      in case prior of
           None \<Rightarrow> result_map (\<lambda>d. \<lparr>polled_base = b, polled_derived = d, polled_extra_state = x\<rparr>) (derive addrs b)
         | Some s \<Rightarrow>
             (let b' = reduce (polled_base s) (full_update b)
              in result_map (\<lambda>d. \<lparr>polled_base = b', polled_derived = reduceDerived (polled_derived s) d,
                                  polled_extra_state = polled_reduceExtra (polled_extra_state s) x\<rparr>)
                   (derive addrs b')))"



section \<open>Reads\<close>

text \<open>
  The methods of \<open>_BlockPolledReadableEthers\<close>, over the state \<open>s\<close> of its store, which has
  loaded: a hit is answered from the state, a miss by the wrapped readable.
\<close>

definition blockHit :: "polled_state \<Rightarrow> call_overrides option \<Rightarrow> bool" where
  "blockHit s overrides \<longleftrightarrow>
     (case overrides of
        None \<Rightarrow> True
      | Some x \<Rightarrow> (case blockTag x of
                   None \<Rightarrow> True
                 | Some t \<Rightarrow> Some t = map_option BlockNumber (extra_blockTag (polled_extra_state s))))"

definition userHit :: "('abi, 'p, 't) connection \<Rightarrow> polled_state \<Rightarrow> string option \<Rightarrow> call_overrides option \<Rightarrow> bool" where
  "userHit con s a overrides \<longleftrightarrow>
     blockHit s overrides \<and> (a = None \<or> a = userAddress con)"

definition frontendHit :: "('abi, 'p, 't) connection \<Rightarrow> polled_state \<Rightarrow> string option \<Rightarrow> call_overrides option \<Rightarrow> bool" where
  "frontendHit con s a overrides \<longleftrightarrow>
     blockHit s overrides \<and> (a = None \<or> a = con_frontendTag con)"

definition polled_getTotalRedistributed ::
  "contracts \<Rightarrow> polled_state \<Rightarrow> call_overrides option \<Rightarrow> trove result" where
  "polled_getTotalRedistributed k s overrides =
     (if blockHit s overrides then Inr (content (totalRedistributed (polled_base s))) else ethers_getTotalRedistributed k overrides)"

definition polled_getNumberOfTroves ::
  "contracts \<Rightarrow> polled_state \<Rightarrow> call_overrides option \<Rightarrow> int result" where
  "polled_getNumberOfTroves k s overrides =
     (if blockHit s overrides then Inr (numberOfTroves (polled_base s)) else ethers_getNumberOfTroves k overrides)"

definition polled_getTotal ::
  "contracts \<Rightarrow> polled_state \<Rightarrow> call_overrides option \<Rightarrow> trove result" where
  "polled_getTotal k s overrides =
     (if blockHit s overrides then Inr (content (total_trove (polled_base s))) else ethers_getTotal k overrides)"

definition polled_getRemainingStabilityPoolProtocolTokenReward ::
  "('abi, 'p, 't) connection \<Rightarrow> contracts \<Rightarrow> polled_state \<Rightarrow> call_overrides option \<Rightarrow> decimal result" where
  "polled_getRemainingStabilityPoolProtocolTokenReward con k s overrides =
     (if blockHit s overrides then Inr (content (remainingStabilityPoolProtocolTokenReward (polled_base s))) else ethers_getRemainingStabilityPoolProtocolTokenReward con k overrides)"

definition polled_getDebtTokenInStabilityPool ::
  "contracts \<Rightarrow> polled_state \<Rightarrow> call_overrides option \<Rightarrow> decimal result" where
  "polled_getDebtTokenInStabilityPool k s overrides =
     (if blockHit s overrides then Inr (content (debtTokenInStabilityPool (polled_base s))) else ethers_getDebtTokenInStabilityPool k overrides)"

definition polled_getRemainingProtocolMiningProtocolTokenReward ::
  "('abi, 'p, 't) connection \<Rightarrow> contracts \<Rightarrow> polled_state \<Rightarrow> call_overrides option \<Rightarrow> decimal result" where
  "polled_getRemainingProtocolMiningProtocolTokenReward con k s overrides =
     (if blockHit s overrides then Inr (content (remainingProtocolMiningProtocolTokenReward (polled_base s))) else ethers_getRemainingProtocolMiningProtocolTokenReward con k overrides)"

definition polled_getTotalStakedUniTokens ::
  "contracts \<Rightarrow> polled_state \<Rightarrow> call_overrides option \<Rightarrow> decimal result" where
  "polled_getTotalStakedUniTokens k s overrides =
     (if blockHit s overrides then Inr (content (totalStakedUniTokens (polled_base s))) else ethers_getTotalStakedUniTokens k overrides)"

definition polled_getFees ::
  "('abi, 'p, 't) connection \<Rightarrow> contracts \<Rightarrow> polled_state \<Rightarrow> call_overrides option \<Rightarrow> fees result" where
  "polled_getFees con k s overrides =
     (if blockHit s overrides then Inr (content (derived_fees (polled_derived s))) else ethers_getFees con k overrides)"

definition polled_getTotalStakedProtocolToken ::
  "contracts \<Rightarrow> polled_state \<Rightarrow> call_overrides option \<Rightarrow> decimal result" where
  "polled_getTotalStakedProtocolToken k s overrides =
     (if blockHit s overrides then Inr (content (totalStakedProtocolToken (polled_base s))) else ethers_getTotalStakedProtocolToken k overrides)"

definition polled_getTroveBeforeRedistribution ::
  "('abi, 'p, 't) connection \<Rightarrow> contracts \<Rightarrow> polled_state \<Rightarrow> string option \<Rightarrow> call_overrides option \<Rightarrow> pending_trove result" where
  "polled_getTroveBeforeRedistribution con k s a overrides =
     (if userHit con s a overrides then Inr (content (troveBeforeRedistribution (polled_base s)))
      else ethers_getTroveBeforeRedistribution con k a overrides)"

definition polled_getTrove ::
  "('abi, 'p, 't) connection \<Rightarrow> contracts \<Rightarrow> polled_state \<Rightarrow> string option \<Rightarrow> call_overrides option \<Rightarrow> user_trove result" where
  "polled_getTrove con k s a overrides =
     (if userHit con s a overrides then Inr (content (derived_trove (polled_derived s)))
      else ethers_getTrove con k a overrides)"

definition polled_getStabilityDeposit ::
  "('abi, 'p, 't) connection \<Rightarrow> contracts \<Rightarrow> polled_state \<Rightarrow> string option \<Rightarrow> call_overrides option \<Rightarrow> stability_deposit result" where
  "polled_getStabilityDeposit con k s a overrides =
     (if userHit con s a overrides then Inr (content (stabilityDeposit (polled_base s)))
      else ethers_getStabilityDeposit con k a overrides)"

definition polled_getDebtTokenBalance ::
  "('abi, 'p, 't) connection \<Rightarrow> contracts \<Rightarrow> polled_state \<Rightarrow> string option \<Rightarrow> call_overrides option \<Rightarrow> decimal result" where
  "polled_getDebtTokenBalance con k s a overrides =
     (if userHit con s a overrides then Inr (content (debtTokenBalance (polled_base s)))
      else ethers_getDebtTokenBalance con k a overrides)"

definition polled_getProtocolTokenBalance ::
  "('abi, 'p, 't) connection \<Rightarrow> contracts \<Rightarrow> polled_state \<Rightarrow> string option \<Rightarrow> call_overrides option \<Rightarrow> decimal result" where
  "polled_getProtocolTokenBalance con k s a overrides =
     (if userHit con s a overrides then Inr (content (protocolTokenBalance (polled_base s)))
      else ethers_getProtocolTokenBalance con k a overrides)"

definition polled_getUniTokenBalance ::
  "('abi, 'p, 't) connection \<Rightarrow> contracts \<Rightarrow> polled_state \<Rightarrow> string option \<Rightarrow> call_overrides option \<Rightarrow> decimal result" where
  "polled_getUniTokenBalance con k s a overrides =
     (if userHit con s a overrides then Inr (content (uniTokenBalance (polled_base s)))
      else ethers_getUniTokenBalance con k a overrides)"

definition polled_getUniTokenAllowance ::
  "('abi, 'p, 't) connection \<Rightarrow> contracts \<Rightarrow> polled_state \<Rightarrow> string option \<Rightarrow> call_overrides option \<Rightarrow> decimal result" where
  "polled_getUniTokenAllowance con k s a overrides =
     (if userHit con s a overrides then Inr (content (uniTokenAllowance (polled_base s)))
      else ethers_getUniTokenAllowance con k a overrides)"

definition polled_getLiquidityMiningStake ::
  "('abi, 'p, 't) connection \<Rightarrow> contracts \<Rightarrow> polled_state \<Rightarrow> string option \<Rightarrow> call_overrides option \<Rightarrow> decimal result" where
  "polled_getLiquidityMiningStake con k s a overrides =
     (if userHit con s a overrides then Inr (content (liquidityMiningStake (polled_base s)))
      else ethers_getLiquidityMiningStake con k a overrides)"

definition polled_getLiquidityMiningProtocolTokenReward ::
  "('abi, 'p, 't) connection \<Rightarrow> contracts \<Rightarrow> polled_state \<Rightarrow> string option \<Rightarrow> call_overrides option \<Rightarrow> decimal result" where
  "polled_getLiquidityMiningProtocolTokenReward con k s a overrides =
     (if userHit con s a overrides then Inr (content (liquidityMiningProtocolTokenReward (polled_base s)))
      else ethers_getLiquidityMiningProtocolTokenReward con k a overrides)"

definition polled_getCollateralSurplusBalance ::
  "('abi, 'p, 't) connection \<Rightarrow> contracts \<Rightarrow> polled_state \<Rightarrow> string option \<Rightarrow> call_overrides option \<Rightarrow> decimal result" where
  "polled_getCollateralSurplusBalance con k s a overrides =
     (if userHit con s a overrides then Inr (content (collateralSurplusBalance (polled_base s)))
      else ethers_getCollateralSurplusBalance con k a overrides)"

definition polled_getProtocolTokenStake ::
  "('abi, 'p, 't) connection \<Rightarrow> contracts \<Rightarrow> polled_state \<Rightarrow> string option \<Rightarrow> call_overrides option \<Rightarrow> protocol_token_stake result" where
  "polled_getProtocolTokenStake con k s a overrides =
     (if userHit con s a overrides then Inr (content (protocolTokenStake (polled_base s)))
      else ethers_getProtocolTokenStake con k a overrides)"

definition polled_getFrontendStatus ::
  "('abi, 'p, 't) connection \<Rightarrow> contracts \<Rightarrow> polled_state \<Rightarrow> string option \<Rightarrow> call_overrides option \<Rightarrow>
     frontend_status result" where
  "polled_getFrontendStatus con k s a overrides =
     (if frontendHit con s a overrides then Inr (content (frontend (polled_base s)))
      else ethers_getFrontendStatus con k a overrides)"

definition polled_getBlockTimestamp ::
  "('abi, 'p, 't) connection \<Rightarrow> polled_state \<Rightarrow> block_tag option \<Rightarrow> int result" where
  "polled_getBlockTimestamp con s tag =
     (if blockHit s (Some \<lparr>blockTag = tag\<rparr>) then Inr (extra_blockTimestamp (polled_extra_state s))
      else getBlockTimestamp con tag)"

definition polled_getFeesFactory ::
  "contracts \<Rightarrow> polled_state \<Rightarrow> call_overrides option \<Rightarrow> (int \<Rightarrow> bool \<Rightarrow> fees result) result" where
  "polled_getFeesFactory k s overrides =
     (if blockHit s overrides then Inr (extra_feesFactory (polled_extra_state s))
      else getFeesFactory k overrides)"

text \<open>
  On a miss \<open>getPrice\<close> calls \<open>this.getPrice\<close>, itself, with the same overrides; \<open>None\<close> is the
  recursion that never ends.  The calls are synchronous, so a host runs out of stack, and the
  promise rejects: \<open>price_or_overflow\<close> is what the caller sees.
\<close>

partial_function (option) polled_getPrice ::
  "polled_state \<Rightarrow> call_overrides option \<Rightarrow> decimal result option" where
  "polled_getPrice s overrides =
     (if blockHit s overrides then Some (Inr (content (price (polled_base s))))
      else polled_getPrice s overrides)"

definition price_or_overflow :: "decimal result option \<Rightarrow> decimal result" where
  "price_or_overflow r =
     (case r of Some x \<Rightarrow> x | None \<Rightarrow> Inl (Error ''Maximum call stack size exceeded''))"

text \<open>
  The readable of a caller that passes \<open>overrides\<close> in every call.  The four methods not
  replaced (the listing, the hints and the debt in front) are forwarded.
\<close>

definition polledReadable ::
  "('abi, 'p, 't) connection \<Rightarrow> contracts \<Rightarrow> nat \<Rightarrow> polled_state \<Rightarrow> call_overrides option \<Rightarrow> unit readable" where
  "polledReadable con k randomInteger s overrides =
     (ethersReadable con k randomInteger overrides)
     \<lparr>getTotalRedistributed := \<lambda>_. polled_getTotalRedistributed k s overrides,
      getTroveBeforeRedistribution := \<lambda>a _. polled_getTroveBeforeRedistribution con k s a overrides,
      getTrove := \<lambda>a _. polled_getTrove con k s a overrides,
      getNumberOfTroves := \<lambda>_. polled_getNumberOfTroves k s overrides,
      getPrice := \<lambda>_. price_or_overflow (polled_getPrice s overrides),
      getTotal := \<lambda>_. polled_getTotal k s overrides,
      getStabilityDeposit := \<lambda>a _. polled_getStabilityDeposit con k s a overrides,
      getRemainingStabilityPoolProtocolTokenReward := \<lambda>_. polled_getRemainingStabilityPoolProtocolTokenReward con k s overrides,
      getDebtTokenInStabilityPool := \<lambda>_. polled_getDebtTokenInStabilityPool k s overrides,
      getDebtTokenBalance := \<lambda>a _. polled_getDebtTokenBalance con k s a overrides,
      getProtocolTokenBalance := \<lambda>a _. polled_getProtocolTokenBalance con k s a overrides,
      getUniTokenBalance := \<lambda>a _. polled_getUniTokenBalance con k s a overrides,
      getUniTokenAllowance := \<lambda>a _. polled_getUniTokenAllowance con k s a overrides,
      getRemainingProtocolMiningProtocolTokenReward := \<lambda>_. polled_getRemainingProtocolMiningProtocolTokenReward con k s overrides,
      getLiquidityMiningStake := \<lambda>a _. polled_getLiquidityMiningStake con k s a overrides,
      getTotalStakedUniTokens := \<lambda>_. polled_getTotalStakedUniTokens k s overrides,
      getLiquidityMiningProtocolTokenReward := \<lambda>a _. polled_getLiquidityMiningProtocolTokenReward con k s a overrides,
      getCollateralSurplusBalance := \<lambda>a _. polled_getCollateralSurplusBalance con k s a overrides,
      getFees := \<lambda>_. polled_getFees con k s overrides,
      getProtocolTokenStake := \<lambda>a _. polled_getProtocolTokenStake con k s a overrides,
      getTotalStakedProtocolToken := \<lambda>_. polled_getTotalStakedProtocolToken k s overrides,
      getFrontendStatus := \<lambda>a _. polled_getFrontendStatus con k s a overrides\<rparr>"

section \<open>Lemmas\<close>

text \<open>The fetched values are what the readable answers at the fetched block.\<close>

lemma polled_get_block:
  assumes "polled_get con k alloc (Some n) = Inr (b, x)"
  defines "o' \<equiv> Some \<lparr>blockTag = Some (BlockNumber n)\<rparr>"
  shows "ethers_getPrice k o' = Inr (content (price b))
    \<and> ethers_getNumberOfTroves k o' = Inr (numberOfTroves b)
    \<and> ethers_getTotalRedistributed k o' = Inr (content (totalRedistributed b))
    \<and> ethers_getTotal k o' = Inr (content (total_trove b))
    \<and> ethers_getDebtTokenInStabilityPool k o' = Inr (content (debtTokenInStabilityPool b))
    \<and> ethers_getTotalStakedProtocolToken k o' = Inr (content (totalStakedProtocolToken b))
    \<and> ethers_getTotalStakedUniTokens k o' = Inr (content (totalStakedUniTokens b))
    \<and> ethers_getRemainingStabilityPoolProtocolTokenReward con k o'
        = Inr (content (remainingStabilityPoolProtocolTokenReward b))
    \<and> ethers_getRemainingProtocolMiningProtocolTokenReward con k o'
        = Inr (content (remainingProtocolMiningProtocolTokenReward b))
    \<and> getBlockTimestamp con (Some (BlockNumber n)) = Inr (extra_blockTimestamp x)
    \<and> getFeesFactory k o' = Inr (extra_feesFactory x)
    \<and> extra_feesFactory x (extra_blockTimestamp x) False = Inr (content (feesInNormalMode b))
    \<and> extra_blockTag x = Some n"
  using assms(1) unfolding polled_get_def Let_def o'_def
  by (auto simp: result_bind_Inr ethers_getRemainingProtocolMiningProtocolTokenReward_def)

lemma polled_get_frontend:
  assumes "polled_get con k alloc (Some n) = Inr (b, x)" and "con_frontendTag con = Some f" "f \<noteq> []"
  shows "ethers_getFrontendStatus con k (Some f) (Some \<lparr>blockTag = Some (BlockNumber n)\<rparr>)
    = Inr (content (frontend b))"
  using assms unfolding polled_get_def Let_def by (auto simp: result_bind_Inr)

lemma polled_get_no_frontend:
  assumes "polled_get con k alloc (Some n) = Inr (b, x)" and "con_frontendTag con \<in> {None, Some []}"
  shows "content (frontend b) = Unregistered"
  using assms unfolding polled_get_def Let_def by (auto simp: result_bind_Inr)

lemma polled_get_user:
  assumes "polled_get con k alloc (Some n) = Inr (b, x)" and "userAddress con = Some u" "u \<noteq> []"
  shows "\<exists>v. fetch_user_values con k u (Some (BlockNumber n)) = Inr v
    \<and> content (ownFrontend b) = uv_ownFrontend v \<and> content (accountBalance b) = uv_accountBalance v
    \<and> content (debtTokenBalance b) = uv_debtTokenBalance v
    \<and> content (protocolTokenBalance b) = uv_protocolTokenBalance v
    \<and> content (uniTokenBalance b) = uv_uniTokenBalance v
    \<and> content (uniTokenAllowance b) = uv_uniTokenAllowance v
    \<and> content (liquidityMiningStake b) = uv_liquidityMiningStake v
    \<and> content (liquidityMiningProtocolTokenReward b) = uv_liquidityMiningProtocolTokenReward v
    \<and> content (collateralSurplusBalance b) = uv_collateralSurplusBalance v
    \<and> content (troveBeforeRedistribution b) = uv_troveBeforeRedistribution v
    \<and> content (stabilityDeposit b) = uv_stabilityDeposit v
    \<and> content (protocolTokenStake b) = uv_protocolTokenStake v
    \<and> content (debtInFront b) = uv_debtInFront v"
  using assms unfolding polled_get_def Let_def by (auto simp: result_bind_Inr)

lemma fetch_user_values_Inr:
  assumes "fetch_user_values con k u tag = Inr v"
  defines "o' \<equiv> Some \<lparr>blockTag = tag\<rparr>"
  shows "ethers_getDebtTokenBalance con k (Some u) o' = Inr (uv_debtTokenBalance v)
    \<and> ethers_getProtocolTokenBalance con k (Some u) o' = Inr (uv_protocolTokenBalance v)
    \<and> ethers_getUniTokenBalance con k (Some u) o' = Inr (uv_uniTokenBalance v)
    \<and> ethers_getUniTokenAllowance con k (Some u) o' = Inr (uv_uniTokenAllowance v)
    \<and> ethers_getLiquidityMiningStake con k (Some u) o' = Inr (uv_liquidityMiningStake v)
    \<and> ethers_getLiquidityMiningProtocolTokenReward con k (Some u) o'
        = Inr (uv_liquidityMiningProtocolTokenReward v)
    \<and> ethers_getCollateralSurplusBalance con k (Some u) o' = Inr (uv_collateralSurplusBalance v)
    \<and> ethers_getTroveBeforeRedistribution con k (Some u) o' = Inr (uv_troveBeforeRedistribution v)
    \<and> ethers_getStabilityDeposit con k (Some u) o' = Inr (uv_stabilityDeposit v)
    \<and> ethers_getProtocolTokenStake con k (Some u) o' = Inr (uv_protocolTokenStake v)"
  using assms(1) unfolding fetch_user_values_def Let_def o'_def
  by (auto simp: result_bind_Inr)

text \<open>An absent address is the connection's own.\<close>

lemma own_address:
  assumes "userAddress con = Some u"
  shows "address_or_user con None = address_or_user con (Some u)"
  using assms by (simp add: address_or_user_def requireAddress_def)

lemmas own_address_reads =
  ethers_getDebtTokenBalance_def ethers_getProtocolTokenBalance_def ethers_getUniTokenBalance_def
  ethers_getUniTokenAllowance_def ethers_getLiquidityMiningStake_def
  ethers_getLiquidityMiningProtocolTokenReward_def ethers_getCollateralSurplusBalance_def
  ethers_getTroveBeforeRedistribution_def ethers_getStabilityDeposit_def ethers_getProtocolTokenStake_def

lemma own_reads:
  assumes "userAddress con = Some u"
  shows "ethers_getDebtTokenBalance con k None p = ethers_getDebtTokenBalance con k (Some u) p"
    "ethers_getProtocolTokenBalance con k None p = ethers_getProtocolTokenBalance con k (Some u) p"
    "ethers_getUniTokenBalance con k None p = ethers_getUniTokenBalance con k (Some u) p"
    "ethers_getUniTokenAllowance con k None p = ethers_getUniTokenAllowance con k (Some u) p"
    "ethers_getLiquidityMiningStake con k None p = ethers_getLiquidityMiningStake con k (Some u) p"
    "ethers_getLiquidityMiningProtocolTokenReward con k None p
       = ethers_getLiquidityMiningProtocolTokenReward con k (Some u) p"
    "ethers_getCollateralSurplusBalance con k None p = ethers_getCollateralSurplusBalance con k (Some u) p"
    "ethers_getTroveBeforeRedistribution con k None p = ethers_getTroveBeforeRedistribution con k (Some u) p"
    "ethers_getStabilityDeposit con k None p = ethers_getStabilityDeposit con k (Some u) p"
    "ethers_getProtocolTokenStake con k None p = ethers_getProtocolTokenStake con k (Some u) p"
  unfolding own_address_reads own_address [OF assms] by simp_all

lemma own_frontend:
  "con_frontendTag con = Some f \<Longrightarrow>
     ethers_getFrontendStatus con k None p = ethers_getFrontendStatus con k (Some f) p"
  by (simp add: ethers_getFrontendStatus_def address_or_frontend_def requireFrontendAddress_def)

text \<open>One recovery mode's fees are the other's with the mode set.\<close>

lemma setRecoveryMode_factory:
  assumes "getFeesFactory k p = Inr create" and "create t False = Inr f"
  shows "setRecoveryMode f m = create t m"
proof -
  obtain lastTime rate where create: "create = (\<lambda>t m.
      result_bind MINUTE_DECAY_FACTOR (\<lambda>factor.
      result_bind BETA (\<lambda>b.
      result_bind (numberify lastTime) (\<lambda>l.
        new_Fees (DDecimal rate) (DDecimal factor) (DDecimal b) (convertToDate l) (convertToDate t) m))))"
    using assms(1) unfolding getFeesFactory_def result_bind_Inr by blast
  from assms(2) obtain factor b l where
    c: "MINUTE_DECAY_FACTOR = Inr factor" "BETA = Inr b" "numberify lastTime = Inr l" and
    f: "new_Fees (DDecimal rate) (DDecimal factor) (DDecimal b) (convertToDate l) (convertToDate t) False = Inr f"
    unfolding create result_bind_Inr by blast
  from f show ?thesis
    unfolding create c result_bind_simps setRecoveryMode_def
    by (auto simp: new_Fees_def result_bind_Inr js_assert_Inr)
qed

definition same_contents :: "base_state \<Rightarrow> base_state \<Rightarrow> bool" where
  "same_contents a b \<longleftrightarrow> list_all2 same_value (base_values a) (base_values b)"

lemma same_contents_full_update: "same_contents (reduce old (full_update b)) b"
proof -
  have "update_values (full_update b) = map Some (base_values b)"
    by (simp add: update_values_def full_update_def base_values_def)
  then show ?thesis
    by (simp add: same_contents_def base_values_reduce list_all2_keep)
qed

lemma same_contents_fields:
  assumes "same_contents a b"
  shows "content (frontend a) = content (frontend b)" "content (ownFrontend a) = content (ownFrontend b)"
    "numberOfTroves a = numberOfTroves b"
    "content (debtTokenBalance a) = content (debtTokenBalance b)"
    "content (protocolTokenBalance a) = content (protocolTokenBalance b)"
    "content (uniTokenBalance a) = content (uniTokenBalance b)"
    "content (uniTokenAllowance a) = content (uniTokenAllowance b)"
    "content (remainingProtocolMiningProtocolTokenReward a) = content (remainingProtocolMiningProtocolTokenReward b)"
    "content (liquidityMiningStake a) = content (liquidityMiningStake b)"
    "content (totalStakedUniTokens a) = content (totalStakedUniTokens b)"
    "content (liquidityMiningProtocolTokenReward a) = content (liquidityMiningProtocolTokenReward b)"
    "content (collateralSurplusBalance a) = content (collateralSurplusBalance b)"
    "content (price a) = content (price b)"
    "content (debtTokenInStabilityPool a) = content (debtTokenInStabilityPool b)"
    "content (total_trove a) = content (total_trove b)"
    "content (totalRedistributed a) = content (totalRedistributed b)"
    "content (troveBeforeRedistribution a) = content (troveBeforeRedistribution b)"
    "content (stabilityDeposit a) = content (stabilityDeposit b)"
    "content (remainingStabilityPoolProtocolTokenReward a) = content (remainingStabilityPoolProtocolTokenReward b)"
    "content (feesInNormalMode a) = content (feesInNormalMode b)"
    "content (protocolTokenStake a) = content (protocolTokenStake b)"
    "content (totalStakedProtocolToken a) = content (totalStakedProtocolToken b)"
    "content (riskiestTroveBeforeRedistribution a) = content (riskiestTroveBeforeRedistribution b)"
    "content (debtInFront a) = content (debtInFront b)"
  using assms by (simp_all add: same_contents_def base_values_def object_value_def)

lemma same_contents_refl [simp]: "same_contents b b"
  by (simp add: same_contents_def list_all2_refl)

text \<open>What \<open>_derive\<close> says of the trove and the fees, kept by \<open>_reduceDerived\<close>.\<close>

definition derived_of :: "derived_state \<Rightarrow> base_state \<Rightarrow> bool" where
  "derived_of d b \<longleftrightarrow>
     content (derived_trove d)
       = applyRedistribution (content (troveBeforeRedistribution b)) (content (totalRedistributed b))
   \<and> setRecoveryMode (content (feesInNormalMode b))
       (collateralRatioIsBelowCritical (content (total_trove b)) (content (price b)))
     = Inr (content (derived_fees d))"

lemma derive_derived_of: "derive addrs b = Inr d \<Longrightarrow> derived_of d b"
  by (auto simp: derive_def derived_of_def result_bind_Inr)

lemma derived_of_reduce: "derived_of d b \<Longrightarrow> derived_of (reduceDerived old d) b"
  by (simp add: derived_of_def reduceDerived_def updateIfChanged_def updateFees_def on_content_def
      user_trove_equals_iff fees_equals_iff)

lemma derived_of_same: "same_contents a b \<Longrightarrow> derived_of d a = derived_of d b"
  by (simp add: derived_of_def same_contents_fields)

lemma derive_same: "same_contents a b \<Longrightarrow> derive addrs a = derive addrs b"
  by (simp add: derive_def same_contents_fields)

lemma polled_handle_Inr:
  assumes "polled_handle addrs prior (b, x) = Inr s" and "extra_blockTag x = Some n"
  shows "same_contents (polled_base s) b \<and> derived_of (polled_derived s) b \<and> polled_extra_state s = x"
proof (cases prior)
  case None
  with assms show ?thesis
    by (auto simp: polled_handle_def result_map_Inr derive_derived_of)
next
  case (Some old)
  define b' where "b' = reduce (polled_base old) (full_update b)"
  have same: "same_contents b' b" by (simp add: b'_def same_contents_full_update)
  from assms(1) Some obtain d where d: "derive addrs b' = Inr d"
    and s: "s = \<lparr>polled_base = b', polled_derived = reduceDerived (polled_derived old) d,
      polled_extra_state = polled_reduceExtra (polled_extra_state old) x\<rparr>"
    by (auto simp: polled_handle_def result_map_Inr b'_def [symmetric])
  have "polled_extra_state s = x"
    using assms(2) by (cases x) (simp add: s polled_reduceExtra_def)
  with derived_of_reduce [OF derive_derived_of [OF d]] same show ?thesis
    by (simp add: s derived_of_same)
qed

text \<open>Handling a fetch is the store's own \<open>_load\<close> and \<open>_update\<close>, as far as reads go.\<close>

lemma polled_handle_load:
  assumes "\<not> loaded st" and "polled_handle addrs None (b, x) = Inr s"
  shows "baseState (fst (load (\<lambda>st. (st, Inr ())) addrs b e st)) = Some (polled_base s)
    \<and> derivedState (fst (load (\<lambda>st. (st, Inr ())) addrs b e st)) = Some (polled_derived s)"
  using assms by (auto simp: polled_handle_def load_def Let_def result_map_Inr)

lemma polled_handle_update:
  assumes "baseState st = Some (polled_base old)" "derivedState st = Some (polled_derived old)"
    and "extraState st = Some e" "polled_handle addrs (Some old) (b, x) = Inr s"
  shows "baseState (fst (update_state R addrs (Some (full_update b)) (Some e') st)) = Some (polled_base s)
    \<and> derivedState (fst (update_state R addrs (Some (full_update b)) (Some e') st)) = Some (polled_derived s)"
  using assms by (auto simp: polled_handle_def update_state_def Let_def result_map_Inr)

lemma polled_getPrice_hit:
  "blockHit s p \<Longrightarrow> polled_getPrice s p = Some (Inr (content (price (polled_base s))))"
  by (subst polled_getPrice.simps) simp

lemma polled_getPrice_Some: "polled_getPrice s p = Some r \<Longrightarrow> blockHit s p"
  by (rule polled_getPrice.raw_induct [of "\<lambda>s p r. blockHit s p"]) (auto split: if_splits)

lemma polled_getPrice_miss: "\<not> blockHit s p \<Longrightarrow> polled_getPrice s p = None"
  using polled_getPrice_Some by fastforce

lemma user_read:
  "(\<And>a. a = None \<or> a = Some u \<Longrightarrow> f a = r) \<Longrightarrow> (if h \<and> (a = None \<or> a = Some u) then r else f a) = f a"
  by auto

text \<open>The frontend's status, of the tag the connection has or of any other address.\<close>

lemma polled_frontend_read:
  assumes "polled_get con k alloc (Some n) = Inr (b, x)"
    and "blockHit s (Some \<lparr>blockTag = Some (BlockNumber n)\<rparr>)"
    and "content (frontend (polled_base s)) = content (frontend b)"
  shows "polled_getFrontendStatus con k s a (Some \<lparr>blockTag = Some (BlockNumber n)\<rparr>)
    = (if con_frontendTag con \<in> {None, Some []} \<and> a \<in> {None, con_frontendTag con} then Inr Unregistered
       else ethers_getFrontendStatus con k a (Some \<lparr>blockTag = Some (BlockNumber n)\<rparr>))"
proof (cases "con_frontendTag con \<in> {None, Some []}")
  case True
  with polled_get_no_frontend [OF assms(1)] assms(2,3) show ?thesis
    by (auto simp: polled_getFrontendStatus_def frontendHit_def)
next
  case False
  then obtain f where f: "con_frontendTag con = Some f" "f \<noteq> []" by auto
  show ?thesis
    using polled_get_frontend [OF assms(1) f] own_frontend [OF f(1)] assms(2,3) f
    by (simp add: polled_getFrontendStatus_def frontendHit_def user_read)
qed

section \<open>Properties\<close>

text \<open>
  C24: Answering from the store is transparent: after the store of a connection with a user address
  handled block \<open>n\<close>, whatever it held before, each of the 26 reads of a caller that asks for
  that block gives what reading the contracts at that block gives, the fees and the trove that
  the store derives itself included, for the user's own address and for any other.  The one
  exception is \<open>getFrontendStatus\<close> of a connection without a frontend tag: asked for no
  address, or for the empty tag the connection has, the store answers that it is unregistered
  without reading the contracts.
\<close>

theorem polled_reads_transparent:
  assumes "polled_get con k alloc (Some n) = Inr fetched" and "polled_handle addrs prior fetched = Inr s"
    and "userAddress con = Some u" "u \<noteq> []"
  shows "(polledReadable con k seed s (Some \<lparr>blockTag = Some (BlockNumber n)\<rparr>))
      \<lparr>getFrontendStatus := \<lambda>a _. ethers_getFrontendStatus con k a (Some \<lparr>blockTag = Some (BlockNumber n)\<rparr>)\<rparr>
    = ethersReadable con k seed (Some \<lparr>blockTag = Some (BlockNumber n)\<rparr>)
    \<and> getFrontendStatus (polledReadable con k seed s (Some \<lparr>blockTag = Some (BlockNumber n)\<rparr>)) a ()
    = (if con_frontendTag con \<in> {None, Some []} \<and> a \<in> {None, con_frontendTag con} then Inr Unregistered
       else ethers_getFrontendStatus con k a (Some \<lparr>blockTag = Some (BlockNumber n)\<rparr>))"
proof -
  obtain b x where bx: "fetched = (b, x)" by fastforce
  let ?o = "Some \<lparr>blockTag = Some (BlockNumber n)\<rparr>"
  note get = assms(1) [unfolded bx]
  note block = polled_get_block [OF get]
  from polled_get_user [OF get assms(3,4)] obtain v where
    v: "fetch_user_values con k u (Some (BlockNumber n)) = Inr v" and
    user: "content (debtTokenBalance b) = uv_debtTokenBalance v"
      "content (protocolTokenBalance b) = uv_protocolTokenBalance v"
      "content (uniTokenBalance b) = uv_uniTokenBalance v"
      "content (uniTokenAllowance b) = uv_uniTokenAllowance v"
      "content (liquidityMiningStake b) = uv_liquidityMiningStake v"
      "content (liquidityMiningProtocolTokenReward b) = uv_liquidityMiningProtocolTokenReward v"
      "content (collateralSurplusBalance b) = uv_collateralSurplusBalance v"
      "content (troveBeforeRedistribution b) = uv_troveBeforeRedistribution v"
      "content (stabilityDeposit b) = uv_stabilityDeposit v"
      "content (protocolTokenStake b) = uv_protocolTokenStake v" by blast
  note reads = fetch_user_values_Inr [OF v] own_reads [OF assms(3)]
  from polled_handle_Inr [OF assms(2) [unfolded bx]] block have
    same: "same_contents (polled_base s) b" and derived: "derived_of (polled_derived s) b" and
    extra: "polled_extra_state s = x" by blast+
  have hit: "blockHit s ?o" using block by (simp add: blockHit_def extra)
  note fields = same_contents_fields [OF same]
  have trove: "ethers_getTrove con k (Some u) ?o = Inr (content (derived_trove (polled_derived s)))"
    using derived block reads user by (simp add: ethers_getTrove_def derived_of_def)
  have fees: "ethers_getFees con k ?o = Inr (content (derived_fees (polled_derived s)))"
    using derived block setRecoveryMode_factory [of k ?o "extra_feesFactory x" "extra_blockTimestamp x"]
    by (simp add: ethers_getFees_def derived_of_def)
  have own_trove: "ethers_getTrove con k None ?o = ethers_getTrove con k (Some u) ?o"
    by (simp add: ethers_getTrove_def reads)
  have "(polledReadable con k seed s ?o)\<lparr>getFrontendStatus := \<lambda>a _. ethers_getFrontendStatus con k a ?o\<rparr>
      = ethersReadable con k seed ?o"
    unfolding polledReadable_def
    by (rule readable.equality)
      (simp_all add: ethersReadable_def fun_eq_iff polled_getPrice_hit [OF hit] price_or_overflow_def
        block fields hit fees trove own_trove reads user assms(3) userHit_def
        polled_getTotalRedistributed_def polled_getTroveBeforeRedistribution_def polled_getTrove_def
        polled_getNumberOfTroves_def polled_getTotal_def polled_getStabilityDeposit_def
        polled_getRemainingStabilityPoolProtocolTokenReward_def polled_getDebtTokenInStabilityPool_def
        polled_getDebtTokenBalance_def polled_getProtocolTokenBalance_def polled_getUniTokenBalance_def
        polled_getUniTokenAllowance_def polled_getRemainingProtocolMiningProtocolTokenReward_def
        polled_getLiquidityMiningStake_def polled_getTotalStakedUniTokens_def
        polled_getLiquidityMiningProtocolTokenReward_def polled_getCollateralSurplusBalance_def
        polled_getFees_def polled_getProtocolTokenStake_def polled_getTotalStakedProtocolToken_def user_read)
  moreover have "getFrontendStatus (polledReadable con k seed s ?o) a () = polled_getFrontendStatus con k s a ?o"
    by (simp add: polledReadable_def)
  moreover have "content (frontend (polled_base s)) = content (frontend b)"
    using fields by simp
  ultimately show ?thesis
    using polled_frontend_read [OF get, of s a] hit by simp
qed

text \<open>
  The price alone can be read through the store's readable at no block but the store's own: asked
  for another block \<open>getPrice\<close> calls itself until the stack is exhausted, where the total, like
  every other read, is forwarded to the contracts.
\<close>

theorem polled_getPrice_returns_iff_hit:
  "polled_getPrice s overrides
     = (if blockHit s overrides then Some (Inr (content (price (polled_base s)))) else None)
   \<and> polled_getTotal k s overrides
     = (if blockHit s overrides then Inr (content (total_trove (polled_base s))) else ethers_getTotal k overrides)"
  by (simp add: polled_getPrice_hit polled_getPrice_miss polled_getTotal_def)

section \<open>A sample\<close>

lemma ethers_constants:
  "MINUTE_DECAY_FACTOR = Inr (Decimal 999037758833783000)" "BETA = Inr (Decimal 2000000000000000000)"
  using fromString_fraction [of "''0''" "''999037758833783000''"] fromString_digits [of "''2''"]
  by (simp_all add: MINUTE_DECAY_FACTOR_def BETA_def numeral_eval)

definition contract_fees :: "bool \<Rightarrow> fees" where
  "contract_fees mode =
     \<lparr>baseRateWithoutDecay = Decimal 1, minuteDecayFactor = Decimal 999037758833783000,
      beta = Decimal 2000000000000000000, lastFeeOperation = 1000, timeOfLatestBlock = 0,
      recoveryMode = mode\<rparr>"

lemma contract_fees_ok: "fees_ok (contract_fees mode)"
  by (simp add: fees_ok_def contract_fees_def ONE_def DIGITS_eq)

lemma contract_fees_rates:
  "\<exists>r. borrowingRate (contract_fees mode) None = Inr r"
  "\<exists>r. redemptionRate (contract_fees mode) None None = Inr r"
proof -
  have b: "baseRate (contract_fees mode) None = Inr (Decimal 1)"
    by (subst baseRate_no_decay) (simp_all add: contract_fees_def when_of_def)
  show "\<exists>r. borrowingRate (contract_fees mode) None = Inr r"
    by (simp add: borrowingRate_def b)
  show "\<exists>r. redemptionRate (contract_fees mode) None None = Inr r"
    by (simp add: redemptionRate_def b nonZero_dec_def Let_def)
qed

lemma contract_fees_mode: "setRecoveryMode (contract_fees m) mode = Inr (contract_fees mode)"
  using setRecoveryMode_eq [OF contract_fees_ok] by (simp add: contract_fees_def)

lemma derive_contract_fees:
  assumes "content (feesInNormalMode b) = contract_fees m"
  obtains d where "derive addrs b = Inr d"
proof -
  let ?f = "contract_fees (collateralRatioIsBelowCritical (content (total_trove b)) (content (price b)))"
  obtain r r' where "borrowingRate ?f None = Inr r" "redemptionRate ?f None None = Inr r'"
    using contract_fees_rates by blast
  then show thesis using that by (simp add: derive_def assms contract_fees_mode)
qed

lemma sample_polled_get:
  "\<exists>b x. polled_get sample_connection sample_contracts (\<lambda>_. 0) (Some 5) = Inr (b, x)
     \<and> content (feesInNormalMode b) = contract_fees False"
proof -
  have "new_Fees (DDecimal (Decimal 1)) (DDecimal (Decimal 999037758833783000))
      (DDecimal (Decimal 2000000000000000000)) 1000 0 False = Inr (contract_fees False)"
    using contract_fees_mode [of False False] by (simp add: setRecoveryMode_def contract_fees_def)
  then show ?thesis
    by (simp add: polled_get_def Let_def getBlockTimestamp_def sample_connection_def sample_provider_def
        getFeesFactory_def ethers_constants sample_contracts_def numberify_def MAX_SAFE_INTEGER_def
        convertToDate_def getRemainingProtocolMiningProtocolTokenRewardCalculator_def ethers_getPrice_def
        ethers_getNumberOfTroves_def ethers_getTotalRedistributed_def read_trove_def ethers_getTotal_def
        getActivePool_def getDefaultPool_def ethers_getDebtTokenInStabilityPool_def
        ethers_getTotalStakedProtocolToken_def getRiskiestTroveBeforeRedistribution_def
        ethers_getTroves_def expectPositiveInt_def validSortingOptions_def
        ethers_getTotalStakedUniTokens_def ethers_getRemainingStabilityPoolProtocolTokenReward_def
        sub_dec_ok ONE_def DIGITS_eq ethers_getFrontendStatus_def address_or_frontend_def
        fetch_user_values_def ethers_getDebtInFront_def own_address_reads address_or_user_def
        new_StabilityDeposit_def backend_active_def userTroveStatusFrom_def)
qed

theorem polled_reads_transparent_witness:
  "\<exists>b x s. polled_get sample_connection sample_contracts (\<lambda>_. 0) (Some 5) = Inr (b, x)
     \<and> polled_handle sample_addresses None (b, x) = Inr s
     \<and> polledReadable sample_connection sample_contracts 0 s (Some \<lparr>blockTag = Some (BlockNumber 5)\<rparr>)
       = ethersReadable sample_connection sample_contracts 0 (Some \<lparr>blockTag = Some (BlockNumber 5)\<rparr>)"
proof -
  from sample_polled_get obtain b x where
    get: "polled_get sample_connection sample_contracts (\<lambda>_. 0) (Some 5) = Inr (b, x)" and
    fees: "content (feesInNormalMode b) = contract_fees False" by blast
  obtain s where s: "polled_handle sample_addresses None (b, x) = Inr s"
    by (rule derive_contract_fees [OF fees, of sample_addresses]) (simp add: polled_handle_def)
  let ?o = "Some \<lparr>blockTag = Some (BlockNumber 5)\<rparr> :: call_overrides option"
  have con: "userAddress sample_connection = Some ''0xa''" "con_frontendTag sample_connection = Some ''0xf''"
    by (simp_all add: sample_connection_def)
  note t = polled_reads_transparent [OF get s con(1), of 0]
  have "getFrontendStatus (polledReadable sample_connection sample_contracts 0 s ?o)
      = (\<lambda>a _. ethers_getFrontendStatus sample_connection sample_contracts a ?o)"
    using t con(2) by (simp add: fun_eq_iff)
  then have "(polledReadable sample_connection sample_contracts 0 s ?o)
      \<lparr>getFrontendStatus := \<lambda>a _. ethers_getFrontendStatus sample_connection sample_contracts a ?o\<rparr>
      = polledReadable sample_connection sample_contracts 0 s ?o"
    by (intro readable.equality) simp_all
  with t get s show ?thesis by auto
qed

end
