(* ===== verification/Ethers_Populatable.thy ===== *)
theory Ethers_Populatable
  imports Ethers_Calls Ethers_Receipts Block_Polled Trove_Params
begin

text \<open>
  The class \<open>PopulatableEthers\<close> of \<^verbatim>\<open>packages/lib-ethers/src/PopulatableEthers.ts\<close>: every
  operation reads the chain, normalises its arguments, estimates the gas of its call and
  returns the populated transaction with the parser of its receipt.

  What it reads is the record \<open>populating_readable\<close>, with one instance for \<open>ReadableEthers\<close> and
  one for the block-polled readable.  The tolerance in minutes is a whole number.
\<close>

section \<open>What an operation uses\<close>

record populating_readable =
  pr_getFeesFactory :: "(int \<Rightarrow> bool \<Rightarrow> fees result) result"
  pr_getBlockTimestamp :: "int result"
  pr_getTotal :: "trove result"
  pr_getPrice :: "decimal result"
  pr_getFees :: "fees result"
  pr_getTrove :: "string option \<Rightarrow> user_trove result"
  pr_getStabilityDeposit :: "string option \<Rightarrow> stability_deposit result"
  pr_findHints :: "decimal \<Rightarrow> string option \<Rightarrow> (string \<times> string) result"
  pr_findRedemptionHints :: "decimal \<Rightarrow> (decimal \<times> string \<times> string \<times> string \<times> nat) result"

definition ethersPopulating :: "('abi, 'p, 't) connection \<Rightarrow> contracts \<Rightarrow> nat \<Rightarrow> populating_readable" where
  "ethersPopulating con k randomInteger =
     \<lparr>pr_getFeesFactory = getFeesFactory k None,
      pr_getBlockTimestamp = getBlockTimestamp con None,
      pr_getTotal = ethers_getTotal k None,
      pr_getPrice = ethers_getPrice k None,
      pr_getFees = ethers_getFees con k None,
      pr_getTrove = \<lambda>a. ethers_getTrove con k a None,
      pr_getStabilityDeposit = \<lambda>a. ethers_getStabilityDeposit con k a None,
      pr_findHints = \<lambda>nicr own. ethers_findHintsForNominalCollateralRatio randomInteger k nicr own None,
      pr_findRedemptionHints = \<lambda>amount. ethers_findRedemptionHints randomInteger k amount None\<rparr>"

definition polledPopulating ::
  "('abi, 'p, 't) connection \<Rightarrow> contracts \<Rightarrow> nat \<Rightarrow> polled_state \<Rightarrow> populating_readable" where
  "polledPopulating con k randomInteger s =
     \<lparr>pr_getFeesFactory = polled_getFeesFactory k s None,
      pr_getBlockTimestamp = polled_getBlockTimestamp con s None,
      pr_getTotal = polled_getTotal k s None,
      pr_getPrice = price_or_overflow (polled_getPrice s None),
      pr_getFees = polled_getFees con k s None,
      pr_getTrove = \<lambda>a. polled_getTrove con k s a None,
      pr_getStabilityDeposit = \<lambda>a. polled_getStabilityDeposit con k s a None,
      pr_findHints = \<lambda>nicr own. ethers_findHintsForNominalCollateralRatio randomInteger k nicr own None,
      pr_findRedemptionHints = \<lambda>amount. ethers_findRedemptionHints randomInteger k amount None\<rparr>"

record ('abi, 'p) populatable =
  pe_constants :: constants
  pe_connection :: "('abi, 'p, raw_sent) connection"
  pe_readable :: populating_readable
  pe_network :: "'p tx_network"
  pe_events :: event_contracts
  pe_contracts :: contract_lookup
  pe_unipool :: string

section \<open>Shared steps\<close>

text \<open>\<open>Decimalish | BorrowingOperationOptionalParams | undefined\<close>\<close>

datatype borrowing_params =
    NoBorrowingParams
  | MaxBorrowingRate decimalish
  | BorrowingParams "decimalish option" "nat option"

definition default_max_rate :: "decimal option \<Rightarrow> decimal result" where
  "default_max_rate currentBorrowingRate =
     (case currentBorrowingRate of
        None \<Rightarrow> Inr ZERO
      | Some r \<Rightarrow> result_map (add_dec r) defaultBorrowingRateSlippageTolerance)"

definition normalizeBorrowingOperationOptionalParams ::
  "borrowing_params \<Rightarrow> decimal option \<Rightarrow> (decimal \<times> nat) result" where
  "normalizeBorrowingOperationOptionalParams params currentBorrowingRate =
     (case params of
        NoBorrowingParams \<Rightarrow>
          result_map (\<lambda>m. (m, defaultBorrowingFeeDecayToleranceMinutes)) (default_max_rate currentBorrowingRate)
      | MaxBorrowingRate x \<Rightarrow>
          result_map (\<lambda>m. (m, defaultBorrowingFeeDecayToleranceMinutes)) (from_ish x)
      | BorrowingParams maxBorrowingRate minutes \<Rightarrow>
          result_map
            (\<lambda>m. (m, case minutes of Some n \<Rightarrow> n | None \<Rightarrow> defaultBorrowingFeeDecayToleranceMinutes))
            (case maxBorrowingRate of
               Some x \<Rightarrow> from_ish x
             | None \<Rightarrow> default_max_rate currentBorrowingRate))"

definition prepareOverrides :: "('abi, 'p) populatable \<Rightarrow> tx_overrides option \<Rightarrow> tx_overrides result" where
  "prepareOverrides this overrides =
     result_map (\<lambda>a. (case overrides of None \<Rightarrow> no_overrides | Some x \<Rightarrow> x)\<lparr>ov_from := Some a\<rparr>)
       (requireAddress (pe_connection this) overrides)"

datatype any_trove = PlainTrove trove | PendingTrove pending_trove

definition findHints ::
  "('abi, 'p) populatable \<Rightarrow> any_trove \<Rightarrow> string option \<Rightarrow> (string \<times> string) result" where
  "findHints this t ownAddress =
     (case t of
        PendingTrove _ \<Rightarrow> Inl (Error ''Rewards must be applied to this Trove'')
      | PlainTrove x \<Rightarrow> pr_findHints (pe_readable this) (nominalCollateralRatio x) ownAddress)"

definition wrapTransaction :: "(receipt \<Rightarrow> 'd result) \<Rightarrow> 'p \<Rightarrow> ('p, 'd) populated" where
  "wrapTransaction parse raw = \<lparr>rawPopulatedTransaction = raw, gasHeadroom = None, pt_parse = parse\<rparr>"

definition wrapSimpleTransaction :: "'p \<Rightarrow> ('p, unit) populated" where
  "wrapSimpleTransaction = wrapTransaction (\<lambda>_. Inr ())"

definition wrapTroveChangeWithFees ::
  "('abi, 'p) populatable \<Rightarrow> 'a \<Rightarrow> 'p \<Rightarrow> int option \<Rightarrow> ('p, 'a trove_change_details) populated" where
  "wrapTroveChangeWithFees this params raw headroom =
     \<lparr>rawPopulatedTransaction = raw, gasHeadroom = headroom,
      pt_parse = parseTroveChangeWithFees (pe_events this) params\<rparr>"

text \<open>The shape most operations share: one estimated call, wrapped with a parser.\<close>

definition simple_operation ::
  "('abi, 'p) populatable \<Rightarrow> tx_overrides option \<Rightarrow> (nat \<Rightarrow> nat) \<Rightarrow> (tx_overrides \<Rightarrow> contract_call result) \<Rightarrow>
     (receipt \<Rightarrow> 'd result) \<Rightarrow> ('p, 'd) populated result" where
  "simple_operation this overrides adjustGas call parse =
     result_bind (prepareOverrides this overrides) (\<lambda>ov.
     result_bind (call ov) (\<lambda>c.
     result_map (wrapTransaction parse) (estimateAndPopulate (pe_network this) c ov adjustGas)))"

text \<open>\<open>Decimal.from(amount).hex\<close>\<close>

definition hex_of :: "decimalish \<Rightarrow> nat result" where
  "hex_of amount = result_map bigNumber (from_ish amount)"

section \<open>Opening and closing\<close>

text \<open>The rate of the fees the factory makes for a later time.\<close>

definition decayed_rate :: "(int \<Rightarrow> bool \<Rightarrow> fees result) \<Rightarrow> int \<Rightarrow> bool \<Rightarrow> int \<Rightarrow> decimal result" where
  "decayed_rate createFees blockTimestamp recovery seconds =
     result_bind (createFees (blockTimestamp + seconds) recovery) (\<lambda>f. borrowingRate f None)"

definition debt_might_fall :: "constants \<Rightarrow> nat \<Rightarrow> js_error" where
  "debt_might_fall k minutes =
     Error (''Trove'' @ [CHR 0x27] @ ''s debt might fall below '' @ showDecimal (MINIMUM_DEBT k) @
       '' within '' @ show_nat minutes @ '' minutes'')"

text \<open>The block that runs when the caller gives no gas limit: the limit and the headroom.\<close>

definition openTrove_gas ::
  "('abi, 'p) populatable \<Rightarrow> creation_params \<Rightarrow> (int \<Rightarrow> decimal result) \<Rightarrow> decimal \<Rightarrow> nat \<Rightarrow>
     (decimal \<Rightarrow> contract_call) \<Rightarrow> tx_overrides \<Rightarrow> (tx_overrides \<times> int option) result" where
  "openTrove_gas this params decayBorrowingRate currentBorrowingRate minutes txParams ov =
     result_bind (decayBorrowingRate (60 * int minutes)) (\<lambda>decayedRate.
     result_bind (create (pe_constants this) (creation_object params) (Some (DDecimal decayedRate))) (\<lambda>decayedTrove.
     result_bind (recreate (pe_constants this) decayedTrove (Some (DDecimal currentBorrowingRate))) (\<lambda>simulating.
     if debt decayedTrove < MINIMUM_DEBT (pe_constants this)
     then Inl (debt_might_fall (pe_constants this) minutes)
     else
       result_bind (estimateGas (pe_network this) (txParams (cr_borrowDebtToken params)) ov) (\<lambda>gasNow.
       result_bind (estimateGas (pe_network this) (txParams (cr_borrowDebtToken simulating)) ov) (\<lambda>gasLater.
         let gasLimit = addGasForBaseRateUpdate minutes
               (bigNumberMax (addGasForPotentialListTraversal gasNow) (Some gasLater))
         in result_map (\<lambda>headroom. (ov\<lparr>ov_gasLimit := Some gasLimit\<rparr>, Some headroom))
              (numberify (gasLimit - gasNow)))))))"

definition populate_openTrove ::
  "('abi, 'p) populatable \<Rightarrow> js_object \<Rightarrow> borrowing_params \<Rightarrow> tx_overrides option \<Rightarrow>
     ('p, creation_params trove_change_details) populated result" where
  "populate_openTrove this params rateOrParams overrides =
     result_bind (prepareOverrides this overrides) (\<lambda>ov.
     result_bind (normalizeTroveCreation params) (\<lambda>normalizedParams.
     result_bind (pr_getFeesFactory (pe_readable this)) (\<lambda>createFees.
     result_bind (pr_getBlockTimestamp (pe_readable this)) (\<lambda>blockTimestamp.
     result_bind (pr_getTotal (pe_readable this)) (\<lambda>totalTrove.
     result_bind (pr_getPrice (pe_readable this)) (\<lambda>currentPrice.
     let recovery = collateralRatioIsBelowCritical totalTrove currentPrice;
         decayBorrowingRate = decayed_rate createFees blockTimestamp recovery
     in
     result_bind (decayBorrowingRate 0) (\<lambda>currentBorrowingRate.
     result_bind (create (pe_constants this) (creation_object normalizedParams)
                    (Some (DDecimal currentBorrowingRate))) (\<lambda>newTrove.
     result_bind (findHints this (PlainTrove newTrove) None) (\<lambda>(upper, lower).
     result_bind (normalizeBorrowingOperationOptionalParams rateOrParams (Some currentBorrowingRate))
       (\<lambda>(maxBorrowingRate, minutes).
     let txParams = (\<lambda>borrow. Call_openTrove (bigNumber maxBorrowingRate) (bigNumber borrow) upper lower
                       (bigNumber (cr_depositCollateral normalizedParams)))
     in
     result_bind
       (if ov_gasLimit ov = None
        then openTrove_gas this normalizedParams decayBorrowingRate currentBorrowingRate minutes txParams ov
        else Inr (ov, None)) (\<lambda>(ov', headroom).
     result_map (\<lambda>raw. wrapTroveChangeWithFees this normalizedParams raw headroom)
       (populateTransaction (pe_network this) (txParams (cr_borrowDebtToken normalizedParams)) ov'))))))))))))"

definition populate_closeTrove ::
  "('abi, 'p) populatable \<Rightarrow> tx_overrides option \<Rightarrow> ('p, closure_details) populated result" where
  "populate_closeTrove this overrides =
     simple_operation this overrides id (\<lambda>_. Inr Call_closeTrove) (parseTroveClosure (pe_events this))"

section \<open>Adjusting\<close>

definition adjustTrove_gas ::
  "('abi, 'p) populatable \<Rightarrow> trove \<Rightarrow> adjustment_params \<Rightarrow> (int \<Rightarrow> decimal option result) \<Rightarrow> decimal option \<Rightarrow> nat \<Rightarrow>
     (decimal option \<Rightarrow> contract_call) \<Rightarrow> tx_overrides \<Rightarrow> (tx_overrides \<times> int option) result" where
  "adjustTrove_gas this t params decayBorrowingRate currentBorrowingRate minutes txParams ov =
     result_bind (decayBorrowingRate (60 * int minutes)) (\<lambda>decayedRate.
     result_bind (adjust (pe_constants this) t (adjustment_object params) (map_option DDecimal decayedRate))
       (\<lambda>decayedTrove.
     result_bind (adjustTo (pe_constants this) t decayedTrove (map_option DDecimal currentBorrowingRate))
       (\<lambda>simulating.
     if debt decayedTrove < MINIMUM_DEBT (pe_constants this)
     then Inl (debt_might_fall (pe_constants this) minutes)
     else
       result_bind (estimateGas (pe_network this) (txParams (borrowDebtToken params)) ov) (\<lambda>gasNow.
       result_bind
         (if borrowDebtToken params \<noteq> None
          then result_map Some (estimateGas (pe_network this) (txParams (borrowDebtToken simulating)) ov)
          else Inr None) (\<lambda>gasLater.
         let gasLimit0 = bigNumberMax (addGasForPotentialListTraversal gasNow) gasLater;
             gasLimit = (if borrowDebtToken params \<noteq> None then addGasForBaseRateUpdate minutes gasLimit0
                         else gasLimit0)
         in result_map (\<lambda>headroom. (ov\<lparr>ov_gasLimit := Some gasLimit\<rparr>, Some headroom))
              (numberify (gasLimit - gasNow)))))))"

text \<open>The values \<open>promiseAllValues\<close> collects when the adjustment borrows.\<close>

definition read_fee_vars ::
  "('abi, 'p) populatable \<Rightarrow> adjustment_params \<Rightarrow> ((int \<Rightarrow> bool \<Rightarrow> fees result) \<times> int \<times> trove \<times> decimal) option result" where
  "read_fee_vars this params =
     (if borrowDebtToken params = None then Inr None
      else
        result_bind (pr_getFeesFactory (pe_readable this)) (\<lambda>createFees.
        result_bind (pr_getBlockTimestamp (pe_readable this)) (\<lambda>blockTimestamp.
        result_bind (pr_getTotal (pe_readable this)) (\<lambda>totalTrove.
        result_map (\<lambda>currentPrice. Some (createFees, blockTimestamp, totalTrove, currentPrice)) (pr_getPrice (pe_readable this))))))"

definition decayed_rate_of ::
  "((int \<Rightarrow> bool \<Rightarrow> fees result) \<times> int \<times> trove \<times> decimal) option \<Rightarrow> int \<Rightarrow> decimal option result" where
  "decayed_rate_of feeVars seconds =
     (case feeVars of
        None \<Rightarrow> Inr None
      | Some (createFees, blockTimestamp, totalTrove, currentPrice) \<Rightarrow>
          result_map Some
            (decayed_rate createFees blockTimestamp (collateralRatioIsBelowCritical totalTrove currentPrice) seconds))"

definition adjust_call ::
  "decimal \<Rightarrow> adjustment_params \<Rightarrow> string \<Rightarrow> string \<Rightarrow> decimal option \<Rightarrow> contract_call" where
  "adjust_call maxBorrowingRate params upper lower borrow =
     Call_adjustTrove (bigNumber maxBorrowingRate)
       (bigNumber (value_or_zero (withdrawCollateral params)))
       (bigNumber (case borrow of Some b \<Rightarrow> b | None \<Rightarrow> value_or_zero (repayDebtToken params)))
       (borrow \<noteq> None) upper lower (map_option bigNumber (depositCollateral params))"

definition populate_adjustTrove ::
  "('abi, 'p) populatable \<Rightarrow> js_object \<Rightarrow> borrowing_params \<Rightarrow> tx_overrides option \<Rightarrow>
     ('p, adjustment_params trove_change_details) populated result" where
  "populate_adjustTrove this params rateOrParams overrides =
     result_bind (prepareOverrides this overrides) (\<lambda>ov.
     result_bind (normalizeTroveAdjustment params) (\<lambda>normalizedParams.
     result_bind (result_map trove.truncate (pr_getTrove (pe_readable this) (ov_from ov))) (\<lambda>t.
     result_bind (read_fee_vars this normalizedParams) (\<lambda>feeVars.
     let decayBorrowingRate = decayed_rate_of feeVars in
     result_bind (decayBorrowingRate 0) (\<lambda>currentBorrowingRate.
     result_bind (adjust (pe_constants this) t (adjustment_object normalizedParams)
                    (map_option DDecimal currentBorrowingRate)) (\<lambda>adjustedTrove.
     result_bind (findHints this (PlainTrove adjustedTrove) (ov_from ov)) (\<lambda>(upper, lower).
     result_bind (normalizeBorrowingOperationOptionalParams rateOrParams currentBorrowingRate)
       (\<lambda>(maxBorrowingRate, minutes).
     let txParams = adjust_call maxBorrowingRate normalizedParams upper lower in
     result_bind
       (if ov_gasLimit ov = None
        then adjustTrove_gas this t normalizedParams decayBorrowingRate currentBorrowingRate minutes txParams ov
        else Inr (ov, None)) (\<lambda>(ov', headroom).
     result_map (\<lambda>raw. wrapTroveChangeWithFees this normalizedParams raw headroom)
       (populateTransaction (pe_network this) (txParams (borrowDebtToken normalizedParams)) ov'))))))))))"

definition populate_depositCollateral where
  "populate_depositCollateral this amount overrides =
     populate_adjustTrove this [(''depositCollateral'', Some amount)] NoBorrowingParams overrides"

definition populate_withdrawCollateral where
  "populate_withdrawCollateral this amount overrides =
     populate_adjustTrove this [(''withdrawCollateral'', Some amount)] NoBorrowingParams overrides"

definition populate_borrowDebtToken where
  "populate_borrowDebtToken this amount maxBorrowingRate overrides =
     populate_adjustTrove this [(''borrowDebtToken'', Some amount)]
       (case maxBorrowingRate of None \<Rightarrow> NoBorrowingParams | Some x \<Rightarrow> MaxBorrowingRate x) overrides"

definition populate_repayDebtToken where
  "populate_repayDebtToken this amount overrides =
     populate_adjustTrove this [(''repayDebtToken'', Some amount)] NoBorrowingParams overrides"

section \<open>Lemmas\<close>

lemma borrowingRate_le_ONE: "borrowingRate f w = Inr r \<Longrightarrow> r \<le> ONE"
  using rates_less(2) by (auto simp: borrowingRate_def result_map_Inr split: if_splits intro: min.coboundedI2)

lemma decayed_rate_le_ONE: "decayed_rate createFees ts recovery s = Inr r \<Longrightarrow> r \<le> ONE"
  by (auto simp: decayed_rate_def result_bind_Inr dest: borrowingRate_le_ONE)

lemma create_Inr:
  "create k (creation_object p) (Some (DDecimal r)) = Inr t \<Longrightarrow>
     collateral t = cr_depositCollateral p \<and> LIQUIDATION_RESERVE k \<le> debt t"
  by (auto simp: create_def apply_change_def result_map_Inr add_dec_def decimal_le_iff)

lemma recreate_nonempty: "recreate k t r = Inr p \<Longrightarrow> \<not> isEmpty t"
  by (auto simp: recreate_def isEmpty_eq)

lemma numberify_Inr: "numberify n = Inr i \<longleftrightarrow> int n \<le> MAX_SAFE_INTEGER \<and> i = int n"
  by (auto simp: numberify_def)

lemma slippage: "defaultBorrowingRateSlippageTolerance = Inr (Decimal 5000000000000000)"
  unfolding defaultBorrowingRateSlippageTolerance_def
  using constants_from_source(3) by (simp only: MINIMUM_BORROWING_RATE_def)

lemma prepareOverrides_Inr:
  assumes "prepareOverrides this overrides = Inr ov"
  shows "ov_from ov \<noteq> None" "ov_gasLimit ov = Option.bind overrides ov_gasLimit"
  using assms by (auto simp: prepareOverrides_def result_map_Inr no_overrides_def split: option.splits)

lemma openTrove_gas_Inr:
  "openTrove_gas this p decay current minutes txParams ov = Inr (ov', h) \<longleftrightarrow>
     (\<exists>later decayed simulating gasNow gasLater.
        decay (60 * int minutes) = Inr later
      \<and> create (pe_constants this) (creation_object p) (Some (DDecimal later)) = Inr decayed
      \<and> recreate (pe_constants this) decayed (Some (DDecimal current)) = Inr simulating
      \<and> MINIMUM_DEBT (pe_constants this) \<le> debt decayed
      \<and> estimateGas (pe_network this) (txParams (cr_borrowDebtToken p)) ov = Inr gasNow
      \<and> estimateGas (pe_network this) (txParams (cr_borrowDebtToken simulating)) ov = Inr gasLater
      \<and> numberify (addGasForBaseRateUpdate minutes (max (gasNow + 80000) gasLater) - gasNow) = Inr (the h)
      \<and> h \<noteq> None
      \<and> ov' = ov\<lparr>ov_gasLimit := Some (addGasForBaseRateUpdate minutes (max (gasNow + 80000) gasLater))\<rparr>)"
  unfolding openTrove_gas_def
  by (auto simp: result_bind_Inr result_map_Inr Let_def bigNumberMax_eq addGasForPotentialListTraversal_def
      not_less split: if_splits)

lemma populate_openTrove_Inr:
  assumes "populate_openTrove this params rateOrParams overrides = Inr tx"
  obtains ov norm createFees ts total price current new hs ms gs where
    "prepareOverrides this overrides = Inr ov"
    "normalizeTroveCreation params = Inr norm"
    "pr_getFeesFactory (pe_readable this) = Inr createFees"
    "pr_getBlockTimestamp (pe_readable this) = Inr ts"
    "pr_getTotal (pe_readable this) = Inr total"
    "pr_getPrice (pe_readable this) = Inr price"
    "decayed_rate createFees ts (collateralRatioIsBelowCritical total price) 0 = Inr current"
    "create (pe_constants this) (creation_object norm) (Some (DDecimal current)) = Inr new"
    "findHints this (PlainTrove new) None = Inr hs"
    "normalizeBorrowingOperationOptionalParams rateOrParams (Some current) = Inr ms"
    "(if ov_gasLimit ov = None
      then openTrove_gas this norm (decayed_rate createFees ts (collateralRatioIsBelowCritical total price)) current (snd ms)
             (\<lambda>borrow. Call_openTrove (bigNumber (fst ms)) (bigNumber borrow) (fst hs) (snd hs)
                (bigNumber (cr_depositCollateral norm))) ov
      else Inr (ov, None)) = Inr gs"
    "populateTransaction (pe_network this)
       (Call_openTrove (bigNumber (fst ms)) (bigNumber (cr_borrowDebtToken norm)) (fst hs) (snd hs)
          (bigNumber (cr_depositCollateral norm))) (fst gs) = Inr (rawPopulatedTransaction tx)"
    "gasHeadroom tx = snd gs"
proof -
  from assms show ?thesis
    unfolding populate_openTrove_def Let_def case_prod_unfold result_bind_Inr result_map_Inr
    by (elim exE conjE) (rule that, assumption+, simp_all add: wrapTroveChangeWithFees_def)
qed

text \<open>What the estimate for later simulates: at today's rate, the debt the trove will have.\<close>

lemma simulated_open:
  assumes "create k (creation_object p) (Some (DDecimal later)) = Inr decayed"
    and "recreate k decayed (Some (DDecimal current)) = Inr simulating" and "current \<le> ONE"
  shows "\<exists>t. create k (creation_object simulating) (Some (DDecimal current)) = Inr t
    \<and> collateral t = cr_depositCollateral p
    \<and> debt decayed \<le> debt t \<and> bigNumber (debt t) \<le> bigNumber (debt decayed) + 1"
  using recreate_reaches [of k decayed current] create_Inr [OF assms(1)] recreate_nonempty [OF assms(2)] assms(2,3)
  by auto

lemma adjustTo_changes:
  assumes "adjustTo k a b r = Inr p"
  shows "a \<noteq> b \<and> \<not> isEmpty a \<and> \<not> isEmpty b"
proof (intro conjI notI)
  assume "a = b"
  with assms show False by (simp add: adjustTo_def)
next
  assume "isEmpty a"
  with assms show False
    by (auto simp: adjustTo_def whatChanged_def result_bind_Inr result_map_Inr Let_def split: if_splits)
next
  assume "isEmpty b"
  with assms show False
    by (auto simp: adjustTo_def whatChanged_def result_bind_Inr result_map_Inr Let_def split: if_splits)
qed

lemma simulated_adjustment:
  assumes "adjustTo k t decayed (Some (DDecimal current)) = Inr simulating" and "current \<le> ONE"
  shows "\<exists>s. adjust k t (adjustment_object simulating) (Some (DDecimal current)) = Inr s
    \<and> collateral s = collateral decayed \<and> debt decayed \<le> debt s
    \<and> bigNumber (debt s) \<le> bigNumber (debt decayed) + 1"
  using adjustTo_changes [OF assms(1)] adjustTo_reaches [of t decayed current k] assms by auto

text \<open>The limit of an adjustment, as a sum of today's estimate and a headroom.\<close>

definition adjust_limit :: "adjustment_params \<Rightarrow> nat \<Rightarrow> nat \<Rightarrow> nat option \<Rightarrow> nat" where
  "adjust_limit p minutes gasNow gasLater =
     (if borrowDebtToken p \<noteq> None
      then addGasForBaseRateUpdate minutes (bigNumberMax (gasNow + 80000) gasLater)
      else bigNumberMax (gasNow + 80000) gasLater)"

lemma adjust_limit_headroom:
  obtains headroom where "adjust_limit p minutes gasNow gasLater = gasNow + headroom" "80000 \<le> headroom"
    "borrowDebtToken p \<noteq> None \<Longrightarrow> 90000 + 1414 * ceillog2 (minutes + 1) \<le> headroom"
    "borrowDebtToken p \<noteq> None \<Longrightarrow> gasLater = Some g \<Longrightarrow>
       g + 10000 + 1414 * ceillog2 (minutes + 1) \<le> gasNow + headroom"
  by (rule that [of "adjust_limit p minutes gasNow gasLater - gasNow"])
    (auto simp: adjust_limit_def addGasForBaseRateUpdate_def bigNumberMax_eq split: option.splits)

lemma adjustTrove_gas_Inr:
  assumes "adjustTrove_gas this t p decay current minutes txParams ov = Inr gs"
  obtains later decayed simulating gasNow gasLater where
    "decay (60 * int minutes) = Inr later"
    "adjust (pe_constants this) t (adjustment_object p) (map_option DDecimal later) = Inr decayed"
    "adjustTo (pe_constants this) t decayed (map_option DDecimal current) = Inr simulating"
    "MINIMUM_DEBT (pe_constants this) \<le> debt decayed"
    "estimateGas (pe_network this) (txParams (borrowDebtToken p)) ov = Inr gasNow"
    "(if borrowDebtToken p \<noteq> None
      then result_map Some (estimateGas (pe_network this) (txParams (borrowDebtToken simulating)) ov)
      else Inr None) = Inr gasLater"
    "fst gs = ov\<lparr>ov_gasLimit := Some (adjust_limit p minutes gasNow gasLater)\<rparr>"
    "snd gs = Some (int (adjust_limit p minutes gasNow gasLater - gasNow))"
  using assms that
  unfolding adjustTrove_gas_def Let_def addGasForPotentialListTraversal_def adjust_limit_def [symmetric]
  by (auto simp: result_bind_Inr result_map_Inr numberify_Inr not_less simp del: of_nat_diff split: if_splits)

lemma populate_adjustTrove_Inr:
  assumes "populate_adjustTrove this params rateOrParams overrides = Inr tx"
  obtains ov norm t feeVars current adjusted hs ms gs where
    "prepareOverrides this overrides = Inr ov"
    "normalizeTroveAdjustment params = Inr norm"
    "result_map trove.truncate (pr_getTrove (pe_readable this) (ov_from ov)) = Inr t"
    "read_fee_vars this norm = Inr feeVars"
    "decayed_rate_of feeVars 0 = Inr current"
    "adjust (pe_constants this) t (adjustment_object norm) (map_option DDecimal current) = Inr adjusted"
    "findHints this (PlainTrove adjusted) (ov_from ov) = Inr hs"
    "normalizeBorrowingOperationOptionalParams rateOrParams current = Inr ms"
    "(if ov_gasLimit ov = None
      then adjustTrove_gas this t norm (decayed_rate_of feeVars) current (snd ms)
             (adjust_call (fst ms) norm (fst hs) (snd hs)) ov
      else Inr (ov, None)) = Inr gs"
    "populateTransaction (pe_network this)
       (adjust_call (fst ms) norm (fst hs) (snd hs) (borrowDebtToken norm)) (fst gs)
     = Inr (rawPopulatedTransaction tx)"
    "gasHeadroom tx = snd gs"
proof -
  from assms show ?thesis
    unfolding populate_adjustTrove_def Let_def case_prod_unfold result_bind_Inr
    by (elim exE conjE) (simp only: result_map_Inr [of _ "populateTransaction _ _ _"], elim exE conjE,
        rule that, assumption+, simp_all add: wrapTroveChangeWithFees_def)
qed

lemma decayed_rate_of_le_ONE: "decayed_rate_of feeVars s = Inr (Some r) \<Longrightarrow> r \<le> ONE"
  by (auto simp: decayed_rate_of_def result_map_Inr dest: decayed_rate_le_ONE split: option.splits)

lemma borrowing_has_rate:
  assumes "read_fee_vars this p = Inr feeVars" and "decayed_rate_of feeVars s = Inr r"
  shows "r \<noteq> None \<longleftrightarrow> borrowDebtToken p \<noteq> None"
  using assms
  by (auto simp: read_fee_vars_def decayed_rate_of_def result_bind_Inr result_map_Inr split: if_splits)

text \<open>What was read when the adjustment borrows, and the rates it gives now and later.\<close>

lemma fees_read:
  assumes "read_fee_vars this p = Inr feeVars" and "borrowDebtToken p \<noteq> None"
    and "decayed_rate_of feeVars 0 = Inr current" and "decayed_rate_of feeVars s = Inr later"
  shows "\<exists>createFees ts total price fees laterFees rate laterRate.
      pr_getFeesFactory (pe_readable this) = Inr createFees
    \<and> pr_getBlockTimestamp (pe_readable this) = Inr ts
    \<and> pr_getTotal (pe_readable this) = Inr total \<and> pr_getPrice (pe_readable this) = Inr price
    \<and> createFees ts (collateralRatioIsBelowCritical total price) = Inr fees
    \<and> borrowingRate fees None = Inr rate \<and> current = Some rate
    \<and> createFees (ts + s) (collateralRatioIsBelowCritical total price) = Inr laterFees
    \<and> borrowingRate laterFees None = Inr laterRate \<and> later = Some laterRate"
  using assms
  by (auto simp: read_fee_vars_def decayed_rate_of_def decayed_rate_def result_bind_Inr result_map_Inr)

text \<open>What the gas limits cover.\<close>

lemma openTrove_gas_covers:
  assumes "openTrove_gas this cp decay current minutes txParams ov = Inr gs" and "current \<le> ONE"
  obtains later decayed simulating s gasNow gasLater headroom where
    "decay (60 * int minutes) = Inr later"
    "create (pe_constants this) (creation_object cp) (Some (DDecimal later)) = Inr decayed"
    "MINIMUM_DEBT (pe_constants this) \<le> debt decayed"
    "create (pe_constants this) (creation_object simulating) (Some (DDecimal current)) = Inr s"
    "collateral s = cr_depositCollateral cp" "debt decayed \<le> debt s"
    "bigNumber (debt s) \<le> bigNumber (debt decayed) + 1"
    "estimateGas (pe_network this) (txParams (cr_borrowDebtToken cp)) ov = Inr gasNow"
    "estimateGas (pe_network this) (txParams (cr_borrowDebtToken simulating)) ov = Inr gasLater"
    "fst gs = ov\<lparr>ov_gasLimit := Some (gasNow + headroom)\<rparr>" "snd gs = Some (int headroom)"
    "90000 + 1414 * ceillog2 (minutes + 1) \<le> headroom"
    "gasLater + 10000 + 1414 * ceillog2 (minutes + 1) \<le> gasNow + headroom"
proof -
  have "openTrove_gas this cp decay current minutes txParams ov = Inr (fst gs, snd gs)" using assms(1) by simp
  then obtain later decayed simulating gasNow gasLater where
    g: "decay (60 * int minutes) = Inr later"
      "create (pe_constants this) (creation_object cp) (Some (DDecimal later)) = Inr decayed"
      "recreate (pe_constants this) decayed (Some (DDecimal current)) = Inr simulating"
      "MINIMUM_DEBT (pe_constants this) \<le> debt decayed"
      "estimateGas (pe_network this) (txParams (cr_borrowDebtToken cp)) ov = Inr gasNow"
      "estimateGas (pe_network this) (txParams (cr_borrowDebtToken simulating)) ov = Inr gasLater"
    and n: "numberify (addGasForBaseRateUpdate minutes (max (gasNow + 80000) gasLater) - gasNow) = Inr (the (snd gs))"
      "snd gs \<noteq> None"
    and limit: "fst gs = ov\<lparr>ov_gasLimit := Some (addGasForBaseRateUpdate minutes (max (gasNow + 80000) gasLater))\<rparr>"
    unfolding openTrove_gas_Inr by blast
  obtain s where s: "create (pe_constants this) (creation_object simulating) (Some (DDecimal current)) = Inr s"
    "collateral s = cr_depositCollateral cp" "debt decayed \<le> debt s"
    "bigNumber (debt s) \<le> bigNumber (debt decayed) + 1"
    using simulated_open [OF g(2,3) assms(2)] by blast
  let ?h = "addGasForBaseRateUpdate minutes (max (gasNow + 80000) gasLater) - gasNow"
  show ?thesis
    by (rule that [of later decayed simulating s gasNow gasLater ?h])
      (use g s n limit in \<open>auto simp: numberify_Inr addGasForBaseRateUpdate_def\<close>)
qed

lemma adjustTrove_gas_covers:
  assumes "adjustTrove_gas this t p decay current minutes txParams ov = Inr gs"
    and "current \<noteq> None \<longleftrightarrow> borrowDebtToken p \<noteq> None" and "\<And>r. current = Some r \<Longrightarrow> r \<le> ONE"
  obtains later decayed gasNow headroom where
    "decay (60 * int minutes) = Inr later"
    "adjust (pe_constants this) t (adjustment_object p) (map_option DDecimal later) = Inr decayed"
    "MINIMUM_DEBT (pe_constants this) \<le> debt decayed"
    "estimateGas (pe_network this) (txParams (borrowDebtToken p)) ov = Inr gasNow" "80000 \<le> headroom"
    "fst gs = ov\<lparr>ov_gasLimit := Some (gasNow + headroom)\<rparr>" "snd gs = Some (int headroom)"
    "borrowDebtToken p \<noteq> None \<longrightarrow> (\<exists>r simulating s gasLater. current = Some r
       \<and> adjust (pe_constants this) t (adjustment_object simulating) (Some (DDecimal r)) = Inr s
       \<and> collateral s = collateral decayed \<and> debt decayed \<le> debt s
       \<and> bigNumber (debt s) \<le> bigNumber (debt decayed) + 1
       \<and> estimateGas (pe_network this) (txParams (borrowDebtToken simulating)) ov = Inr gasLater
       \<and> 90000 + 1414 * ceillog2 (minutes + 1) \<le> headroom
       \<and> gasLater + 10000 + 1414 * ceillog2 (minutes + 1) \<le> gasNow + headroom)"
proof (rule adjustTrove_gas_Inr [OF assms(1)])
  fix later decayed simulating gasNow gasLater
  assume g: "decay (60 * int minutes) = Inr later"
      "adjust (pe_constants this) t (adjustment_object p) (map_option DDecimal later) = Inr decayed"
      "MINIMUM_DEBT (pe_constants this) \<le> debt decayed"
      "estimateGas (pe_network this) (txParams (borrowDebtToken p)) ov = Inr gasNow"
    and to: "adjustTo (pe_constants this) t decayed (map_option DDecimal current) = Inr simulating"
    and later: "(if borrowDebtToken p \<noteq> None
        then result_map Some (estimateGas (pe_network this) (txParams (borrowDebtToken simulating)) ov)
        else Inr None) = Inr gasLater"
    and gs: "fst gs = ov\<lparr>ov_gasLimit := Some (adjust_limit p minutes gasNow gasLater)\<rparr>"
      "snd gs = Some (int (adjust_limit p minutes gasNow gasLater - gasNow))"
  obtain headroom where h: "adjust_limit p minutes gasNow gasLater = gasNow + headroom" "80000 \<le> headroom"
      "borrowDebtToken p \<noteq> None \<Longrightarrow> 90000 + 1414 * ceillog2 (minutes + 1) \<le> headroom"
      "\<And>g. borrowDebtToken p \<noteq> None \<Longrightarrow> gasLater = Some g \<Longrightarrow>
         g + 10000 + 1414 * ceillog2 (minutes + 1) \<le> gasNow + headroom"
    using adjust_limit_headroom [of p minutes gasNow gasLater] by (metis option.exhaust_sel)
  show ?thesis
  proof (rule that [OF g(1-4) h(2)])
    show "borrowDebtToken p \<noteq> None \<longrightarrow> (\<exists>r simulating s gasLater. current = Some r
       \<and> adjust (pe_constants this) t (adjustment_object simulating) (Some (DDecimal r)) = Inr s
       \<and> collateral s = collateral decayed \<and> debt decayed \<le> debt s
       \<and> bigNumber (debt s) \<le> bigNumber (debt decayed) + 1
       \<and> estimateGas (pe_network this) (txParams (borrowDebtToken simulating)) ov = Inr gasLater
       \<and> 90000 + 1414 * ceillog2 (minutes + 1) \<le> headroom
       \<and> gasLater + 10000 + 1414 * ceillog2 (minutes + 1) \<le> gasNow + headroom)"
    proof
      assume b: "borrowDebtToken p \<noteq> None"
      then obtain r g' where r: "current = Some r" "gasLater = Some g'"
          "estimateGas (pe_network this) (txParams (borrowDebtToken simulating)) ov = Inr g'"
        using assms(2) later by (auto simp: result_map_Inr)
      with simulated_adjustment [of "pe_constants this" t decayed r simulating] to assms(3) h(3,4) b
      show "\<exists>r simulating s gasLater. current = Some r
       \<and> adjust (pe_constants this) t (adjustment_object simulating) (Some (DDecimal r)) = Inr s
       \<and> collateral s = collateral decayed \<and> debt decayed \<le> debt s
       \<and> bigNumber (debt s) \<le> bigNumber (debt decayed) + 1
       \<and> estimateGas (pe_network this) (txParams (borrowDebtToken simulating)) ov = Inr gasLater
       \<and> 90000 + 1414 * ceillog2 (minutes + 1) \<le> headroom
       \<and> gasLater + 10000 + 1414 * ceillog2 (minutes + 1) \<le> gasNow + headroom"
        by (metis option.simps(9))
    qed
  qed (use gs h(1) in simp_all)
qed

section \<open>Properties\<close>

text \<open>
  C2: When the caller gives no gas limit, a populated opening asks for the normalised amounts,
  at a maximum rate of the current one plus 0.5% when the caller names none, with the hints for
  the trove it makes at the current rate.  The current rate is that of the fees at the
  timestamp of the latest block, in recovery mode exactly when the collateral of all troves at
  the price read is below the critical ratio; the later rate is that of the fees the tolerated
  minutes later, in the same mode.  The gas limit has room for the rate decaying to the later
  one while the transaction is pending: it exceeds today's estimate by at least 90000 plus the
  cost of updating the base rate, and by at least that cost an estimate made for a borrowing
  which at the current rate gives the debt the trove will have at the later one, to one unit;
  that debt is at least the minimum.
\<close>

theorem openTrove_prepared:
  assumes "populate_openTrove this params rateOrParams overrides = Inr tx"
    and "Option.bind overrides ov_gasLimit = None"
  shows "\<exists>ov norm createFees ts total price fees laterFees current later new minutes maxRate upper lower decayed
        simulating t gasNow gasLater headroom.
      prepareOverrides this overrides = Inr ov \<and> normalizeTroveCreation params = Inr norm
    \<and> pr_getFeesFactory (pe_readable this) = Inr createFees
    \<and> pr_getBlockTimestamp (pe_readable this) = Inr ts
    \<and> pr_getTotal (pe_readable this) = Inr total \<and> pr_getPrice (pe_readable this) = Inr price
    \<and> createFees ts (collateralRatioIsBelowCritical total price) = Inr fees
    \<and> borrowingRate fees None = Inr current
    \<and> createFees (ts + 60 * int minutes) (collateralRatioIsBelowCritical total price) = Inr laterFees
    \<and> borrowingRate laterFees None = Inr later
    \<and> create (pe_constants this) (creation_object norm) (Some (DDecimal current)) = Inr new
    \<and> findHints this (PlainTrove new) None = Inr (upper, lower)
    \<and> normalizeBorrowingOperationOptionalParams rateOrParams (Some current) = Inr (maxRate, minutes)
    \<and> (rateOrParams = NoBorrowingParams \<longrightarrow> maxRate = add_dec current (Decimal 5000000000000000))
    \<and> create (pe_constants this) (creation_object norm) (Some (DDecimal later)) = Inr decayed
    \<and> MINIMUM_DEBT (pe_constants this) \<le> debt decayed
    \<and> create (pe_constants this) (creation_object simulating) (Some (DDecimal current)) = Inr t
    \<and> collateral t = cr_depositCollateral norm
    \<and> debt decayed \<le> debt t \<and> bigNumber (debt t) \<le> bigNumber (debt decayed) + 1
    \<and> estimateGas (pe_network this) (Call_openTrove (bigNumber maxRate) (bigNumber (cr_borrowDebtToken norm))
         upper lower (bigNumber (cr_depositCollateral norm))) ov = Inr gasNow
    \<and> estimateGas (pe_network this) (Call_openTrove (bigNumber maxRate) (bigNumber (cr_borrowDebtToken simulating))
         upper lower (bigNumber (cr_depositCollateral norm))) ov = Inr gasLater
    \<and> gasHeadroom tx = Some (int headroom)
    \<and> 90000 + 1414 * ceillog2 (minutes + 1) \<le> headroom
    \<and> gasLater + 10000 + 1414 * ceillog2 (minutes + 1) \<le> gasNow + headroom
    \<and> populateTransaction (pe_network this) (Call_openTrove (bigNumber maxRate) (bigNumber (cr_borrowDebtToken norm))
         upper lower (bigNumber (cr_depositCollateral norm))) (ov\<lparr>ov_gasLimit := Some (gasNow + headroom)\<rparr>)
       = Inr (rawPopulatedTransaction tx)"
proof (rule populate_openTrove_Inr [OF assms(1)])
  fix ov norm createFees ts total price current new hs ms and gs :: "tx_overrides \<times> int option"
  assume ov: "prepareOverrides this overrides = Inr ov"
    and norm: "normalizeTroveCreation params = Inr norm"
    and fees: "pr_getFeesFactory (pe_readable this) = Inr createFees" "pr_getBlockTimestamp (pe_readable this) = Inr ts"
    and system: "pr_getTotal (pe_readable this) = Inr total" "pr_getPrice (pe_readable this) = Inr price"
    and current: "decayed_rate createFees ts (collateralRatioIsBelowCritical total price) 0 = Inr current"
    and new: "create (pe_constants this) (creation_object norm) (Some (DDecimal current)) = Inr new"
    and hs: "findHints this (PlainTrove new) None = Inr hs"
    and ms: "normalizeBorrowingOperationOptionalParams rateOrParams (Some current) = Inr ms"
    and gas: "(if ov_gasLimit ov = None
      then openTrove_gas this norm (decayed_rate createFees ts (collateralRatioIsBelowCritical total price)) current (snd ms)
             (\<lambda>borrow. Call_openTrove (bigNumber (fst ms)) (bigNumber borrow) (fst hs) (snd hs)
                (bigNumber (cr_depositCollateral norm))) ov
      else Inr (ov, None)) = Inr gs"
    and raw: "populateTransaction (pe_network this)
       (Call_openTrove (bigNumber (fst ms)) (bigNumber (cr_borrowDebtToken norm)) (fst hs) (snd hs)
          (bigNumber (cr_depositCollateral norm))) (fst gs) = Inr (rawPopulatedTransaction tx)"
    and head: "gasHeadroom tx = snd gs"
  have "openTrove_gas this norm (decayed_rate createFees ts (collateralRatioIsBelowCritical total price)) current (snd ms)
             (\<lambda>borrow. Call_openTrove (bigNumber (fst ms)) (bigNumber borrow) (fst hs) (snd hs)
                (bigNumber (cr_depositCollateral norm))) ov = Inr gs"
    using gas prepareOverrides_Inr(2) [OF ov] assms(2) by simp
  from openTrove_gas_covers [OF this decayed_rate_le_ONE [OF current]] obtain later decayed simulating s gasNow gasLater headroom
    where later: "decayed_rate createFees ts (collateralRatioIsBelowCritical total price) (60 * int (snd ms)) = Inr later"
      and g: "create (pe_constants this) (creation_object norm) (Some (DDecimal later)) = Inr decayed"
      "MINIMUM_DEBT (pe_constants this) \<le> debt decayed"
      "create (pe_constants this) (creation_object simulating) (Some (DDecimal current)) = Inr s"
      "collateral s = cr_depositCollateral norm" "debt decayed \<le> debt s"
      "bigNumber (debt s) \<le> bigNumber (debt decayed) + 1"
      "estimateGas (pe_network this) (Call_openTrove (bigNumber (fst ms)) (bigNumber (cr_borrowDebtToken norm))
         (fst hs) (snd hs) (bigNumber (cr_depositCollateral norm))) ov = Inr gasNow"
      "estimateGas (pe_network this) (Call_openTrove (bigNumber (fst ms)) (bigNumber (cr_borrowDebtToken simulating))
         (fst hs) (snd hs) (bigNumber (cr_depositCollateral norm))) ov = Inr gasLater"
      "90000 + 1414 * ceillog2 (snd ms + 1) \<le> headroom"
      "gasLater + 10000 + 1414 * ceillog2 (snd ms + 1) \<le> gasNow + headroom"
    and gs: "fst gs = ov\<lparr>ov_gasLimit := Some (gasNow + headroom)\<rparr>" "snd gs = Some (int headroom)" .
  have "rateOrParams = NoBorrowingParams \<longrightarrow> fst ms = add_dec current (Decimal 5000000000000000)"
    using ms by (auto simp: normalizeBorrowingOperationOptionalParams_def default_max_rate_def slippage)
  moreover have "normalizeBorrowingOperationOptionalParams rateOrParams (Some current) = Inr (fst ms, snd ms)"
    using ms by simp
  moreover obtain now laterFees where "createFees ts (collateralRatioIsBelowCritical total price) = Inr now"
    "borrowingRate now None = Inr current"
    "createFees (ts + 60 * int (snd ms)) (collateralRatioIsBelowCritical total price) = Inr laterFees"
    "borrowingRate laterFees None = Inr later"
    using current later by (auto simp: decayed_rate_def result_bind_Inr)
  moreover have "findHints this (PlainTrove new) None = Inr (fst hs, snd hs)" using hs by simp
  ultimately show ?thesis
    using ov norm fees system new g raw [unfolded gs] head [unfolded gs] by - (intro exI conjI, assumption+)
qed

definition sample_tx_fees :: fees where
  "sample_tx_fees =
     \<lparr>baseRateWithoutDecay = ZERO, minuteDecayFactor = HALF, beta = ONE,
      lastFeeOperation = 0, timeOfLatestBlock = 0, recoveryMode = True\<rparr>"

definition sample_populatable :: "(unit, contract_call \<times> tx_overrides) populatable" where
  "sample_populatable =
     \<lparr>pe_constants = default_constants,
      pe_connection =
        \<lparr>con_provider = \<lparr>getNetwork_chainId = Inr 1, getBlock_timestamp = \<lambda>_. Inr 0, getBalance = \<lambda>_ _. Inr 0\<rparr>,
         con_signer = Some \<lparr>signer_provider = None, getAddress = Inr ''0xa'',
                             sendTransaction = \<lambda>_. Inr (\<lambda>_. Inr None)\<rparr>,
         con_contracts = [], multicall = None, con_chainId = 1, con_deploymentDate = 0,
         totalStabilityPoolProtocolTokenReward = ZERO, liquidityMiningProtocolTokenRewardRate = ZERO,
         con_deployment =
           \<lparr>chainId = 1, deployment_addresses = [], version = '''', deploymentDate = 0, startBlock = 0,
            bootstrapPeriod = 0, dep_totalStabilityPoolProtocolTokenReward = ''0'',
            dep_liquidityMiningProtocolTokenRewardRate = ''0'', priceFeedIsTestnet = False,
            uniTokenIsMock = False, isDev = True\<rparr>,
         userAddress = Some ''0xa'', con_frontendTag = None, useStore = None\<rparr>,
      pe_readable =
        \<lparr>pr_getFeesFactory = Inr (\<lambda>_ _. Inr sample_tx_fees), pr_getBlockTimestamp = Inr 0,
         pr_getTotal = Inr \<lparr>collateral = ONE, debt = ONE\<rparr>, pr_getPrice = Inr ONE,
         pr_getFees = Inr (sample_tx_fees\<lparr>recoveryMode := False\<rparr>),
         pr_getTrove = \<lambda>a. Inr \<lparr>collateral = Decimal (10 * DIGITS), debt = Decimal (1000 * DIGITS),
                                ownerAddress = the a, status = open_trove\<rparr>,
         pr_getStabilityDeposit = \<lambda>_. Inl (Error ''no deposit''),
         pr_findHints = \<lambda>_ _. Inr (''0xb'', ''0xc''),
         pr_findRedemptionHints = \<lambda>a. Inr (Decimal (bigNumber a - 1), ''0xb'', ''0xb'', ''0xc'', 1)\<rparr>,
      pe_network = \<lparr>estimateGas = \<lambda>_ _. Inr 200000, populateTransaction = \<lambda>c ov. Inr (c, ov)\<rparr>,
      pe_events =
        (let c = (\<lambda>a. \<lparr>ec_address = a, ec_parseLog = \<lambda>_. Inl (Error ''no matching event'')\<rparr>)
         in \<lparr>ev_activePool = c ''0x1'', ev_borrowerOperations = c ''0x2'', ev_debtToken = c ''0x3'',
             ev_stabilityPool = c ''0x4'', ev_troveManager = c ''0x5''\<rparr>),
      pe_contracts = [], pe_unipool = ''0x6''\<rparr>"

lemma sample_overrides:
  "prepareOverrides sample_populatable None = Inr (no_overrides\<lparr>ov_from := Some ''0xa''\<rparr>)"
  by (simp add: prepareOverrides_def requireAddress_def sample_populatable_def)

lemma sample_rate: "decayed_rate (\<lambda>_ _. Inr sample_tx_fees) ts recovery s = Inr ZERO"
  by (simp add: decayed_rate_def borrowingRate_def sample_tx_fees_def)

lemma sample_readable:
  "pe_readable sample_populatable =
     \<lparr>pr_getFeesFactory = Inr (\<lambda>_ _. Inr sample_tx_fees), pr_getBlockTimestamp = Inr 0,
      pr_getTotal = Inr \<lparr>collateral = ONE, debt = ONE\<rparr>, pr_getPrice = Inr ONE,
      pr_getFees = Inr (sample_tx_fees\<lparr>recoveryMode := False\<rparr>),
      pr_getTrove = \<lambda>a. Inr \<lparr>collateral = Decimal (10 * DIGITS), debt = Decimal (1000 * DIGITS),
                             ownerAddress = the a, status = open_trove\<rparr>,
      pr_getStabilityDeposit = \<lambda>_. Inl (Error ''no deposit''),
      pr_findHints = \<lambda>_ _. Inr (''0xb'', ''0xc''),
      pr_findRedemptionHints = \<lambda>a. Inr (Decimal (bigNumber a - 1), ''0xb'', ''0xb'', ''0xc'', 1)\<rparr>"
  by (simp add: sample_populatable_def)

lemma sample_network:
  "estimateGas (pe_network sample_populatable) c ov = Inr 200000"
  "populateTransaction (pe_network sample_populatable) c ov = Inr (c, ov)"
  by (simp_all add: sample_populatable_def)

lemma sample_constants [simp]: "pe_constants sample_populatable = default_constants"
  by (simp add: sample_populatable_def)

lemmas sample_steps =
  sample_overrides sample_readable sample_rate sample_network findHints_def
  normalizeBorrowingOperationOptionalParams_def default_max_rate_def slippage no_overrides_def
  defaultBorrowingFeeDecayToleranceMinutes_def numberify_def MAX_SAFE_INTEGER_def
  addGasForBaseRateUpdate_def ceillog2_10 bigNumberMax_def addGasForPotentialListTraversal_def Let_def

definition sample_creation :: creation_params where
  "sample_creation = \<lparr>cr_depositCollateral = ONE, cr_borrowDebtToken = Decimal (1000 * DIGITS)\<rparr>"

lemma sample_create:
  "create default_constants (creation_object sample_creation) (Some (DDecimal ZERO))
     = Inr \<lparr>collateral = ONE, debt = Decimal (1020 * DIGITS)\<rparr>"
  by (simp add: create_def apply_change_def sample_creation_def default_constants_def add_dec_def mul_dec_def
      ONE_def ZERO_def)

lemma sample_recreate:
  "\<exists>p. recreate default_constants \<lparr>collateral = ONE, debt = Decimal (1020 * DIGITS)\<rparr> (Some (DDecimal ZERO)) = Inr p"
  using recreate_reaches [of default_constants "\<lparr>collateral = ONE, debt = Decimal (1020 * DIGITS)\<rparr>" ZERO]
  by (auto simp: default_constants_def isEmpty_iff ONE_def ZERO_def DIGITS_eq)

theorem openTrove_prepared_witness:
  "\<exists>tx headroom. populate_openTrove sample_populatable (creation_object sample_creation) NoBorrowingParams None = Inr tx
    \<and> gasHeadroom tx = Some (int headroom) \<and> 95656 \<le> headroom"
proof -
  obtain p where p: "recreate default_constants \<lparr>collateral = ONE, debt = Decimal (1020 * DIGITS)\<rparr>
      (Some (DDecimal ZERO)) = Inr p" using sample_recreate by blast
  have min: "MINIMUM_DEBT default_constants = Decimal (220 * DIGITS)" by (simp add: default_constants_def)
  have "\<exists>tx. populate_openTrove sample_populatable (creation_object sample_creation) NoBorrowingParams None = Inr tx"
    using p
    by (simp add: populate_openTrove_def openTrove_gas_def sample_create min sample_steps)
  then obtain tx where
    tx: "populate_openTrove sample_populatable (creation_object sample_creation) NoBorrowingParams None = Inr tx"
    by blast
  from openTrove_prepared [OF tx] obtain headroom current maxRate minutes where
    "normalizeBorrowingOperationOptionalParams NoBorrowingParams (Some current) = Inr (maxRate, minutes)"
    "gasHeadroom tx = Some (int headroom)" "90000 + 1414 * ceillog2 (minutes + 1) \<le> headroom"
    by auto
  moreover from this have "minutes = 10"
    by (auto simp: normalizeBorrowingOperationOptionalParams_def result_map_Inr
        defaultBorrowingFeeDecayToleranceMinutes_def)
  ultimately show ?thesis using tx ceillog2_10 by auto
qed


definition sample_adjustment :: adjustment_params where
  "sample_adjustment = no_params\<lparr>borrowDebtToken := Some (Decimal (100 * DIGITS))\<rparr>"

lemma normalize_valid: "valid_params p \<Longrightarrow> normalizeTroveAdjustment (adjustment_object p) = Inr p"
  using drop_zeros_valid [of p]
  unfolding normalizeTroveAdjustment_object troveAdjustmentParams_adjustment
  by (simp add: valid_params_def)

lemma sample_normalize: "normalizeTroveAdjustment (adjustment_object sample_adjustment) = Inr sample_adjustment"
  by (rule normalize_valid)
    (simp add: valid_params_def sample_adjustment_def no_params_def ZERO_def)

lemma sample_adjust:
  "adjust default_constants \<lparr>collateral = Decimal (10 * DIGITS), debt = Decimal (1000 * DIGITS)\<rparr>
     (adjustment_object sample_adjustment) (Some (DDecimal ZERO))
   = Inr \<lparr>collateral = Decimal (10 * DIGITS), debt = Decimal (1100 * DIGITS)\<rparr>"
  by (simp add: adjust_def sample_normalize apply_change_def apply_adjustment_def)
    (simp add: sample_adjustment_def no_params_def trove_ops add_dec_def mul_dec_def ONE_def ZERO_def
      saturating_sub_def)

lemma sample_adjustTo:
  "\<exists>p. adjustTo default_constants \<lparr>collateral = Decimal (10 * DIGITS), debt = Decimal (1000 * DIGITS)\<rparr>
     \<lparr>collateral = Decimal (10 * DIGITS), debt = Decimal (1100 * DIGITS)\<rparr> (Some (DDecimal ZERO)) = Inr p"
  using adjustTo_reaches [of "\<lparr>collateral = Decimal (10 * DIGITS), debt = Decimal (1000 * DIGITS)\<rparr>"
      "\<lparr>collateral = Decimal (10 * DIGITS), debt = Decimal (1100 * DIGITS)\<rparr>" ZERO default_constants]
  by (auto simp: isEmpty_iff ZERO_def ONE_def)

lemma sample_fee_vars:
  "read_fee_vars sample_populatable sample_adjustment
     = Inr (Some (\<lambda>_ _. Inr sample_tx_fees, 0, \<lparr>collateral = ONE, debt = ONE\<rparr>, ONE))"
  by (simp add: read_fee_vars_def sample_readable sample_adjustment_def)

lemma sample_adjustTrove:
  "\<exists>tx. populate_adjustTrove sample_populatable (adjustment_object sample_adjustment) NoBorrowingParams None = Inr tx"
proof -
  have min: "MINIMUM_DEBT default_constants = Decimal (220 * DIGITS)" by (simp add: default_constants_def)
  have borrow: "borrowDebtToken sample_adjustment = Some (Decimal (100 * DIGITS))"
    by (simp add: sample_adjustment_def)
  obtain p where p: "adjustTo default_constants \<lparr>collateral = Decimal (10 * DIGITS), debt = Decimal (1000 * DIGITS)\<rparr>
      \<lparr>collateral = Decimal (10 * DIGITS), debt = Decimal (1100 * DIGITS)\<rparr> (Some (DDecimal ZERO)) = Inr p"
    using sample_adjustTo by blast
  then show ?thesis
    by (simp add: populate_adjustTrove_def adjustTrove_gas_def sample_normalize sample_fee_vars
        decayed_rate_of_def sample_adjust trove.truncate_def min borrow sample_steps)
qed


lemma single_adjustment:
  assumes "key \<in> set allowedTroveAdjustmentKeys" and "normalizeTroveAdjustment [(key, Some amount)] = Inr p"
  shows "\<exists>d. from_ish amount = Inr d \<and> d \<noteq> ZERO
    \<and> p = \<lparr>depositCollateral = (if key = ''depositCollateral'' then Some d else None),
          withdrawCollateral = (if key = ''withdrawCollateral'' then Some d else None),
          borrowDebtToken = (if key = ''borrowDebtToken'' then Some d else None),
          repayDebtToken = (if key = ''repayDebtToken'' then Some d else None)\<rparr>"
  using assms
  by (auto simp: allowedTroveAdjustmentKeys_def normalizeTroveAdjustment_def checkAllowedTroveAdjustmentKeys_def
      decimalize_def result_bind_Inr result_map_Inr nonZero_entry_def troveAdjustmentParamsFromEntries_def
      fromEntries_def collateralChangeFrom_def debtChangeFrom_def no_params_def split: if_splits)

lemma adjust_without_borrowing:
  assumes "populate_adjustTrove this params NoBorrowingParams overrides = Inr tx"
    and "normalizeTroveAdjustment params = Inr p" and "borrowDebtToken p = None"
  shows "\<exists>upper lower ov. populateTransaction (pe_network this) (adjust_call ZERO p upper lower None) ov
    = Inr (rawPopulatedTransaction tx)"
proof (rule populate_adjustTrove_Inr [OF assms(1)])
  fix ov q t feeVars current adjusted hs ms and gs :: "tx_overrides \<times> int option"
  assume q: "normalizeTroveAdjustment params = Inr q"
    and vars: "read_fee_vars this q = Inr feeVars" "decayed_rate_of feeVars 0 = Inr current"
    and ms: "normalizeBorrowingOperationOptionalParams NoBorrowingParams current = Inr ms"
    and raw: "populateTransaction (pe_network this)
       (adjust_call (fst ms) q (fst hs) (snd hs) (borrowDebtToken q)) (fst gs) = Inr (rawPopulatedTransaction tx)"
  have "q = p" using q assms(2) by simp
  then have "current = None" using borrowing_has_rate [OF vars] assms(3) by simp
  then have "fst ms = ZERO"
    using ms by (auto simp: normalizeBorrowingOperationOptionalParams_def default_max_rate_def)
  with raw assms(3) \<open>q = p\<close> show ?thesis by auto
qed

text \<open>
  The shorthands for a deposit, a withdrawal and a repayment change that one thing: the
  amount, which must not be zero, is passed in its place of the call (a deposit as the value
  sent), the other amounts and the maximum rate are zero, and the debt is not increased.
\<close>

theorem shorthands_change_one_thing:
  assumes "populate_depositCollateral this amount ov1 = Inr tx1"
    and "populate_withdrawCollateral this amount ov2 = Inr tx2"
    and "populate_repayDebtToken this amount ov3 = Inr tx3"
  shows "\<exists>d u1 l1 o1 u2 l2 o2 u3 l3 o3. from_ish amount = Inr d \<and> d \<noteq> ZERO
    \<and> populateTransaction (pe_network this) (Call_adjustTrove 0 0 0 False u1 l1 (Some (bigNumber d))) o1
        = Inr (rawPopulatedTransaction tx1)
    \<and> populateTransaction (pe_network this) (Call_adjustTrove 0 (bigNumber d) 0 False u2 l2 None) o2
        = Inr (rawPopulatedTransaction tx2)
    \<and> populateTransaction (pe_network this) (Call_adjustTrove 0 0 (bigNumber d) False u3 l3 None) o3
        = Inr (rawPopulatedTransaction tx3)"
proof -
  note a = assms [unfolded populate_depositCollateral_def populate_withdrawCollateral_def populate_repayDebtToken_def]
  have norm: "\<exists>p. normalizeTroveAdjustment params = Inr p"
    if "populate_adjustTrove this params NoBorrowingParams ov = Inr tx" for params ov tx
    using populate_adjustTrove_Inr [OF that] by metis
  obtain p1 p2 p3 where p:
    "normalizeTroveAdjustment [(''depositCollateral'', Some amount)] = Inr p1"
    "normalizeTroveAdjustment [(''withdrawCollateral'', Some amount)] = Inr p2"
    "normalizeTroveAdjustment [(''repayDebtToken'', Some amount)] = Inr p3"
    using norm [OF a(1)] norm [OF a(2)] norm [OF a(3)] by auto
  obtain d where d: "from_ish amount = Inr d" "d \<noteq> ZERO"
    and p1: "p1 = no_params\<lparr>depositCollateral := Some d\<rparr>"
    using single_adjustment [OF _ p(1)] by (auto simp: allowedTroveAdjustmentKeys_def no_params_def)
  moreover have "p2 = no_params\<lparr>withdrawCollateral := Some d\<rparr>"
    using single_adjustment [OF _ p(2)] d by (auto simp: allowedTroveAdjustmentKeys_def no_params_def)
  moreover have "p3 = no_params\<lparr>repayDebtToken := Some d\<rparr>"
    using single_adjustment [OF _ p(3)] d by (auto simp: allowedTroveAdjustmentKeys_def no_params_def)
  ultimately show ?thesis
    using adjust_without_borrowing [OF a(1) p(1)] adjust_without_borrowing [OF a(2) p(2)]
      adjust_without_borrowing [OF a(3) p(3)]
    by (simp add: adjust_call_def)
qed

definition sample_limit :: tx_overrides where
  "sample_limit = no_overrides\<lparr>ov_gasLimit := Some 1\<rparr>"

lemma sample_shorthand:
  assumes "key \<in> {''depositCollateral'', ''withdrawCollateral'', ''repayDebtToken''}"
  shows "\<exists>tx. populate_adjustTrove sample_populatable [(key, Some (DDecimal ONE))] NoBorrowingParams (Some sample_limit)
    = Inr tx"
proof -
  have over: "prepareOverrides sample_populatable (Some sample_limit) = Inr (sample_limit\<lparr>ov_from := Some ''0xa''\<rparr>)"
    by (simp add: prepareOverrides_def requireAddress_def sample_populatable_def sample_limit_def no_overrides_def)
  obtain p where p: "normalizeTroveAdjustment [(key, Some (DDecimal ONE))] = Inr p"
    "valid_params p" "borrowDebtToken p = None"
    using assms
    by (auto simp: normalizeTroveAdjustment_def checkAllowedTroveAdjustmentKeys_def allowedTroveAdjustmentKeys_def
        decimalize_def nonZero_entry_def troveAdjustmentParamsFromEntries_def fromEntries_def
        collateralChangeFrom_def debtChangeFrom_def no_params_def valid_params_def ONE_def ZERO_def)
  obtain t where "adjust default_constants \<lparr>collateral = Decimal (10 * DIGITS), debt = Decimal (1000 * DIGITS)\<rparr>
      (adjustment_object p) None = Inr t"
    using p by (simp add: adjust_def normalize_valid apply_change_def apply_adjustment_def)
  then show ?thesis
    using p
    by (simp add: populate_adjustTrove_def over read_fee_vars_def decayed_rate_of_def sample_readable sample_network
        trove.truncate_def findHints_def normalizeBorrowingOperationOptionalParams_def default_max_rate_def
        Let_def) (simp add: sample_limit_def)
qed

theorem shorthands_change_one_thing_witness:
  "\<exists>tx1 tx2 tx3. populate_depositCollateral sample_populatable (DDecimal ONE) (Some sample_limit) = Inr tx1
     \<and> populate_withdrawCollateral sample_populatable (DDecimal ONE) (Some sample_limit) = Inr tx2
     \<and> populate_repayDebtToken sample_populatable (DDecimal ONE) (Some sample_limit) = Inr tx3
     \<and> fst (rawPopulatedTransaction tx2) \<noteq> fst (rawPopulatedTransaction tx3)"
proof -
  obtain tx1 tx2 tx3 where tx:
    "populate_depositCollateral sample_populatable (DDecimal ONE) (Some sample_limit) = Inr tx1"
    "populate_withdrawCollateral sample_populatable (DDecimal ONE) (Some sample_limit) = Inr tx2"
    "populate_repayDebtToken sample_populatable (DDecimal ONE) (Some sample_limit) = Inr tx3"
    using sample_shorthand [of "''depositCollateral''"] sample_shorthand [of "''withdrawCollateral''"]
      sample_shorthand [of "''repayDebtToken''"]
    by (auto simp: populate_depositCollateral_def populate_withdrawCollateral_def populate_repayDebtToken_def)
  from shorthands_change_one_thing [OF tx] obtain d u2 l2 o2 u3 l3 o3 where d: "d \<noteq> ZERO"
    and two: "populateTransaction (pe_network sample_populatable)
      (Call_adjustTrove 0 (bigNumber d) 0 False u2 l2 None) o2 = Inr (rawPopulatedTransaction tx2)"
    and three: "populateTransaction (pe_network sample_populatable)
      (Call_adjustTrove 0 0 (bigNumber d) False u3 l3 None) o3 = Inr (rawPopulatedTransaction tx3)"
    by blast
  have "bigNumber d \<noteq> 0" using d by (simp add: decimal_eq_iff)
  moreover have "fst (rawPopulatedTransaction tx2) = Call_adjustTrove 0 (bigNumber d) 0 False u2 l2 None"
    "fst (rawPopulatedTransaction tx3) = Call_adjustTrove 0 0 (bigNumber d) False u3 l3 None"
    using two three unfolding sample_network by (metis Inr_inject fst_conv)+
  ultimately have "fst (rawPopulatedTransaction tx2) \<noteq> fst (rawPopulatedTransaction tx3)" by simp
  with tx show ?thesis by blast
qed

end
