(* ===== verification/Ethers_Operations.thy ===== *)
theory Ethers_Operations
  imports Ethers_Populatable
begin

text \<open>
  The other operations of \<open>PopulatableEthers\<close> (\<^verbatim>\<open>packages/lib-ethers/src/PopulatableEthers.ts\<close>):
  liquidations, the stability pool, transfers, redemptions, staking and liquidity mining.

  A contract has \<open>setPrice\<close> or \<open>mint\<close> exactly when the deployment says its price feed is the
  testnet one or its Uniswap token the mock, since that chooses its ABI.
\<close>

section \<open>Surplus, price, liquidations\<close>

definition populate_claimCollateralSurplus ::
  "('abi, 'p) populatable \<Rightarrow> tx_overrides option \<Rightarrow> ('p, unit) populated result" where
  "populate_claimCollateralSurplus this overrides =
     simple_operation this overrides id (\<lambda>_. Inr Call_claimCollateral) (\<lambda>_. Inr ())"

definition populate_setPrice ::
  "('abi, 'p) populatable \<Rightarrow> decimalish \<Rightarrow> tx_overrides option \<Rightarrow> ('p, unit) populated result" where
  "populate_setPrice this newPrice overrides =
     simple_operation this overrides id
       (\<lambda>_. if \<not> priceFeedIsTestnet (con_deployment (pe_connection this))
            then Inl (Error ''setPrice() unavailable on this deployment of the protocol'')
            else result_map Call_setPrice (hex_of newPrice))
       (\<lambda>_. Inr ())"

text \<open>The argument is one address or an array of them.\<close>

definition populate_liquidate ::
  "('abi, 'p) populatable \<Rightarrow> string + string list \<Rightarrow> tx_overrides option \<Rightarrow>
     ('p, liquidation_details) populated result" where
  "populate_liquidate this target overrides =
     simple_operation this overrides addGasForProtocolTokenIssuance
       (\<lambda>_. Inr (case target of
                   Inr addresses \<Rightarrow> Call_batchLiquidateTroves addresses
                 | Inl a \<Rightarrow> Call_liquidate a))
       (parseLiquidation (pe_events this))"

definition populate_liquidateUpTo ::
  "('abi, 'p) populatable \<Rightarrow> int \<Rightarrow> tx_overrides option \<Rightarrow> ('p, liquidation_details) populated result" where
  "populate_liquidateUpTo this maximumNumberOfTrovesToLiquidate overrides =
     simple_operation this overrides addGasForProtocolTokenIssuance
       (\<lambda>_. Inr (Call_liquidateTroves maximumNumberOfTrovesToLiquidate))
       (parseLiquidation (pe_events this))"

section \<open>The stability pool\<close>

definition populate_depositDebtTokenInStabilityPool ::
  "('abi, 'p) populatable \<Rightarrow> decimalish \<Rightarrow> string option \<Rightarrow> tx_overrides option \<Rightarrow>
     ('p, deposit_change_details) populated result" where
  "populate_depositDebtTokenInStabilityPool this amount frontendTagOpt overrides =
     result_bind (prepareOverrides this overrides) (\<lambda>ov.
     result_bind (from_ish amount) (\<lambda>depositDebtToken.
     result_map (wrapTransaction (parseStabilityDepositTopup (pe_events this) depositDebtToken))
       (estimateAndPopulate (pe_network this)
          (Call_provideToSP (bigNumber depositDebtToken)
             (case frontendTagOpt of
                Some a \<Rightarrow> a
              | None \<Rightarrow> (case con_frontendTag (pe_connection this) of Some a \<Rightarrow> a | None \<Rightarrow> AddressZero)))
          ov addGasForProtocolTokenIssuance)))"

definition populate_withdrawDebtTokenFromStabilityPool ::
  "('abi, 'p) populatable \<Rightarrow> decimalish \<Rightarrow> tx_overrides option \<Rightarrow> ('p, deposit_change_details) populated result" where
  "populate_withdrawDebtTokenFromStabilityPool this amount overrides =
     simple_operation this overrides addGasForProtocolTokenIssuance
       (\<lambda>_. result_map Call_withdrawFromSP (hex_of amount))
       (parseStabilityDepositWithdrawal (pe_events this))"

definition populate_withdrawGainsFromStabilityPool ::
  "('abi, 'p) populatable \<Rightarrow> tx_overrides option \<Rightarrow> ('p, gains_details) populated result" where
  "populate_withdrawGainsFromStabilityPool this overrides =
     simple_operation this overrides addGasForProtocolTokenIssuance
       (\<lambda>_. Inr (Call_withdrawFromSP (bigNumber ZERO)))
       (extractStabilityPoolGainsWithdrawalDetails (pe_events this))"

definition populate_transferCollateralGainToTrove ::
  "('abi, 'p) populatable \<Rightarrow> tx_overrides option \<Rightarrow> ('p, gain_transfer_details) populated result" where
  "populate_transferCollateralGainToTrove this overrides =
     simple_operation this overrides (addGasForPotentialListTraversal \<circ> addGasForProtocolTokenIssuance)
       (\<lambda>ov. result_bind (pr_getTrove (pe_readable this) (ov_from ov)) (\<lambda>initialTrove.
             result_bind (pr_getStabilityDeposit (pe_readable this) (ov_from ov)) (\<lambda>stabilityDeposit.
             let finalTrove = addCollateral initialTrove (collateralGain stabilityDeposit)
             in result_map (\<lambda>(upper, lower). Call_withdrawFILGainToTrove upper lower)
                  (findHints this (PlainTrove finalTrove) (ov_from ov)))))
       (parseCollateralGainTransfer (pe_events this))"

section \<open>Transfers\<close>

definition populate_sendDebtToken ::
  "('abi, 'p) populatable \<Rightarrow> string \<Rightarrow> decimalish \<Rightarrow> tx_overrides option \<Rightarrow> ('p, unit) populated result" where
  "populate_sendDebtToken this toAddress amount overrides =
     simple_operation this overrides id
       (\<lambda>_. result_map (Call_transferDebtToken toAddress) (hex_of amount)) (\<lambda>_. Inr ())"

definition populate_sendProtocolToken ::
  "('abi, 'p) populatable \<Rightarrow> string \<Rightarrow> decimalish \<Rightarrow> tx_overrides option \<Rightarrow> ('p, unit) populated result" where
  "populate_sendProtocolToken this toAddress amount overrides =
     simple_operation this overrides id
       (\<lambda>_. result_map (Call_transferProtocolToken toAddress) (hex_of amount)) (\<lambda>_. Inr ())"

section \<open>Redemptions\<close>

text \<open>
  What the closure \<open>populateRedemption\<close> captures, and what the optional function of a populated
  redemption would call it with: the truncated amount and the rate it was given.
\<close>

record redemption_context =
  rx_overrides :: tx_overrides
  rx_fees :: fees
  rx_total :: trove
  rx_firstRedemptionHint :: string

record ('p, 'd) populated_redemption = "('p, 'd) populated" +
  attemptedDebtTokenAmount :: decimal
  redeemableDebtTokenAmount :: decimal
  isTruncated :: bool
  increase_from :: "(redemption_context \<times> decimal \<times> decimalish option) option"

definition defaultMaxRedemptionRate :: "redemption_context \<Rightarrow> decimal \<Rightarrow> decimal result" where
  "defaultMaxRedemptionRate ctx amount =
     result_bind (redemptionRate (rx_fees ctx) (Some (DDecimal (div_dec amount (debt (rx_total ctx))))) None)
       (\<lambda>r. result_map (\<lambda>tolerance. min_dec (add_dec r tolerance) ONE) defaultRedemptionRateSlippageTolerance)"

definition populateRedemption ::
  "('abi, 'p) populatable \<Rightarrow> redemption_context \<Rightarrow> decimal \<Rightarrow> decimalish option \<Rightarrow> decimal option \<Rightarrow>
     (string \<times> string \<times> nat) option \<Rightarrow> ('p, redemption_details option) populated_redemption result" where
  "populateRedemption this ctx attempted maxRedemptionRate truncatedOpt partialHintsOpt =
     (let truncatedAmount = (case truncatedOpt of Some a \<Rightarrow> a | None \<Rightarrow> attempted);
          (upper, lower, nicr) =
            (case partialHintsOpt of Some h \<Rightarrow> h | None \<Rightarrow> (AddressZero, AddressZero, 0))
      in
      result_bind
        (case maxRedemptionRate of
           Some x \<Rightarrow> from_ish x
         | None \<Rightarrow> defaultMaxRedemptionRate ctx truncatedAmount) (\<lambda>maxRedemptionRateOrDefault.
      result_map
        (\<lambda>raw. \<lparr>rawPopulatedTransaction = raw, gasHeadroom = None,
                pt_parse = parseRedemption (pe_events this),
                attemptedDebtTokenAmount = attempted,
                redeemableDebtTokenAmount = truncatedAmount,
                isTruncated = (truncatedAmount < attempted),
                increase_from =
                  (if truncatedAmount < attempted then Some (ctx, truncatedAmount, maxRedemptionRate)
                   else None)\<rparr>)
        (estimateAndPopulate (pe_network this)
           (Call_redeemCollateral (bigNumber truncatedAmount) (rx_firstRedemptionHint ctx) upper lower nicr
              redeemMaxIterations (bigNumber maxRedemptionRateOrDefault))
           (rx_overrides ctx) (addGasForBaseRateUpdate 10))))"

definition increaseAmountByMinimumNetDebt ::
  "('abi, 'p) populatable \<Rightarrow> ('p, redemption_details option) populated_redemption \<Rightarrow> decimalish option \<Rightarrow>
     ('p, redemption_details option) populated_redemption result" where
  "increaseAmountByMinimumNetDebt this redemption newMaxRedemptionRate =
     (case increase_from redemption of
        None \<Rightarrow>
          Inl (Error (''PopulatedEthersRedemption: increaseAmountByMinimumNetDebt() can '' @
                      ''only be called when amount is truncated''))
      | Some (ctx, truncatedAmount, maxRedemptionRate) \<Rightarrow>
          populateRedemption this ctx (add_dec truncatedAmount (MINIMUM_NET_DEBT (pe_constants this)))
            (case newMaxRedemptionRate of Some x \<Rightarrow> Some x | None \<Rightarrow> maxRedemptionRate) None None)"

definition populate_redeemDebtToken ::
  "('abi, 'p) populatable \<Rightarrow> decimalish \<Rightarrow> decimalish option \<Rightarrow> tx_overrides option \<Rightarrow>
     ('p, redemption_details option) populated_redemption result" where
  "populate_redeemDebtToken this amount maxRedemptionRate overrides =
     result_bind (prepareOverrides this overrides) (\<lambda>preparedOverrides.
     result_bind (from_ish amount) (\<lambda>attempted.
     result_bind (pr_getFees (pe_readable this)) (\<lambda>currentFees.
     result_bind (pr_getTotal (pe_readable this)) (\<lambda>totalTrove.
     result_bind (pr_findRedemptionHints (pe_readable this) attempted)
       (\<lambda>(truncatedAmount, firstHint, partialHints).
     if isZero truncatedAmount
     then Inl (Error (''redeemDebtToken: amount too low to redeem (try at least '' @
                      showDecimal (MINIMUM_NET_DEBT (pe_constants this)) @ '')''))
     else
       populateRedemption this
         \<lparr>rx_overrides = preparedOverrides, rx_fees = currentFees, rx_total = totalTrove,
          rx_firstRedemptionHint = firstHint\<rparr>
         attempted maxRedemptionRate (Some truncatedAmount) (Some partialHints))))))"

section \<open>Staking and frontends\<close>

definition populate_stakeProtocolToken ::
  "('abi, 'p) populatable \<Rightarrow> decimalish \<Rightarrow> tx_overrides option \<Rightarrow> ('p, unit) populated result" where
  "populate_stakeProtocolToken this amount overrides =
     simple_operation this overrides id (\<lambda>_. result_map Call_stake (hex_of amount)) (\<lambda>_. Inr ())"

definition populate_unstakeProtocolToken ::
  "('abi, 'p) populatable \<Rightarrow> decimalish \<Rightarrow> tx_overrides option \<Rightarrow> ('p, unit) populated result" where
  "populate_unstakeProtocolToken this amount overrides =
     simple_operation this overrides id (\<lambda>_. result_map Call_unstake (hex_of amount)) (\<lambda>_. Inr ())"

definition populate_withdrawGainsFromStaking ::
  "('abi, 'p) populatable \<Rightarrow> tx_overrides option \<Rightarrow> ('p, unit) populated result" where
  "populate_withdrawGainsFromStaking this overrides =
     populate_unstakeProtocolToken this (DDecimal ZERO) overrides"

definition populate_registerFrontend ::
  "('abi, 'p) populatable \<Rightarrow> decimalish \<Rightarrow> tx_overrides option \<Rightarrow> ('p, unit) populated result" where
  "populate_registerFrontend this kickbackRate overrides =
     simple_operation this overrides id
       (\<lambda>_. result_map Call_registerFrontEnd (hex_of kickbackRate)) (\<lambda>_. Inr ())"

section \<open>Liquidity mining\<close>

definition populate_mintUniToken ::
  "('abi, 'p) populatable \<Rightarrow> decimalish \<Rightarrow> string option \<Rightarrow> tx_overrides option \<Rightarrow> ('p, unit) populated result" where
  "populate_mintUniToken this amount addressOpt overrides =
     result_bind
       (case addressOpt of Some a \<Rightarrow> Inr a | None \<Rightarrow> requireAddress (pe_connection this) overrides) (\<lambda>a.
     simple_operation this overrides id
       (\<lambda>_. if \<not> uniTokenIsMock (con_deployment (pe_connection this))
            then Inl (Error ''_mintUniToken() unavailable on this deployment of the protocol'')
            else result_map (Call_mint a) (hex_of amount))
       (\<lambda>_. Inr ()))"

definition populate_approveUniTokens ::
  "('abi, 'p) populatable \<Rightarrow> decimalish option \<Rightarrow> tx_overrides option \<Rightarrow> ('p, unit) populated result" where
  "populate_approveUniTokens this allowance overrides =
     simple_operation this overrides id
       (\<lambda>_. result_map (Call_approve (pe_unipool this))
              (hex_of (case allowance of Some x \<Rightarrow> x | None \<Rightarrow> DDecimal INFINITY)))
       (\<lambda>_. Inr ())"

definition populate_stakeUniTokens ::
  "('abi, 'p) populatable \<Rightarrow> decimalish \<Rightarrow> tx_overrides option \<Rightarrow> ('p, unit) populated result" where
  "populate_stakeUniTokens this amount overrides =
     simple_operation this overrides addGasForUnipoolRewardUpdate
       (\<lambda>_. result_map Call_stakeUni (hex_of amount)) (\<lambda>_. Inr ())"

definition populate_unstakeUniTokens ::
  "('abi, 'p) populatable \<Rightarrow> decimalish \<Rightarrow> tx_overrides option \<Rightarrow> ('p, unit) populated result" where
  "populate_unstakeUniTokens this amount overrides =
     simple_operation this overrides addGasForUnipoolRewardUpdate
       (\<lambda>_. result_map Call_withdrawUni (hex_of amount)) (\<lambda>_. Inr ())"

definition populate_withdrawProtocolTokenRewardFromProtocolMining ::
  "('abi, 'p) populatable \<Rightarrow> tx_overrides option \<Rightarrow> ('p, unit) populated result" where
  "populate_withdrawProtocolTokenRewardFromProtocolMining this overrides =
     simple_operation this overrides addGasForUnipoolRewardUpdate (\<lambda>_. Inr Call_claimReward) (\<lambda>_. Inr ())"

definition populate_exitLiquidityMining ::
  "('abi, 'p) populatable \<Rightarrow> tx_overrides option \<Rightarrow> ('p, unit) populated result" where
  "populate_exitLiquidityMining this overrides =
     simple_operation this overrides addGasForUnipoolRewardUpdate (\<lambda>_. Inr Call_withdrawAndClaim) (\<lambda>_. Inr ())"

section \<open>Redemptions: what is populated\<close>

lemma redemption_slippage: "defaultRedemptionRateSlippageTolerance = Inr (Decimal 1000000000000000)"
  using fromString_fraction [of "''0''" "''001''"]
  by (simp add: defaultRedemptionRateSlippageTolerance_def numeral_eval)

lemma defaultMaxRedemptionRate_le_ONE: "defaultMaxRedemptionRate ctx a = Inr r \<Longrightarrow> r \<le> ONE"
  by (auto simp: defaultMaxRedemptionRate_def result_bind_Inr result_map_Inr)

lemma populateRedemption_Inr:
  assumes "populateRedemption this ctx attempted rate truncatedOpt partialHintsOpt = Inr r"
  shows "attemptedDebtTokenAmount r = attempted"
    and "redeemableDebtTokenAmount r = (case truncatedOpt of Some a \<Rightarrow> a | None \<Rightarrow> attempted)"
    and "isTruncated r \<longleftrightarrow> redeemableDebtTokenAmount r < attempted"
    and "increase_from r = (if isTruncated r then Some (ctx, redeemableDebtTokenAmount r, rate) else None)"
    and "\<exists>maxRate upper lower nicr ov.
      (case rate of Some x \<Rightarrow> from_ish x = Inr maxRate
       | None \<Rightarrow> defaultMaxRedemptionRate ctx (redeemableDebtTokenAmount r) = Inr maxRate)
      \<and> populateTransaction (pe_network this)
          (Call_redeemCollateral (bigNumber (redeemableDebtTokenAmount r)) (rx_firstRedemptionHint ctx) upper lower
             nicr redeemMaxIterations (bigNumber maxRate)) ov = Inr (rawPopulatedTransaction r)"
  using assms
  by (auto simp: populateRedemption_def Let_def case_prod_unfold result_bind_Inr result_map_Inr
      estimateAndPopulate_Inr split: option.splits)

text \<open>
  A redemption that is populated asks for a positive amount, of which it knows whether it is
  less than what was attempted, at a rate of at most 100% unless the caller names one.  Only a
  truncated one can be increased: the increase attempts the truncated amount plus the minimum
  net debt, all of it, so that it cannot be increased again, and keeps the caller's rate when
  no new one is named.
\<close>

theorem redemption_increases_once:
  assumes "populate_redeemDebtToken this amount rate overrides = Inr r"
  shows "redeemableDebtTokenAmount r \<noteq> ZERO
    \<and> from_ish amount = Inr (attemptedDebtTokenAmount r)
    \<and> (isTruncated r \<longleftrightarrow> redeemableDebtTokenAmount r < attemptedDebtTokenAmount r)
    \<and> (\<exists>first upper lower nicr maxRate ov.
         populateTransaction (pe_network this)
           (Call_redeemCollateral (bigNumber (redeemableDebtTokenAmount r)) first upper lower nicr
              redeemMaxIterations (bigNumber maxRate)) ov = Inr (rawPopulatedTransaction r)
       \<and> (case rate of Some x \<Rightarrow> from_ish x = Inr maxRate | None \<Rightarrow> maxRate \<le> ONE))
    \<and> (\<not> isTruncated r \<longrightarrow> (\<forall>new. \<exists>msg. increaseAmountByMinimumNetDebt this r new = Inl (Error msg)))
    \<and> (\<forall>new r'. increaseAmountByMinimumNetDebt this r new = Inr r' \<longrightarrow>
         attemptedDebtTokenAmount r' = add_dec (redeemableDebtTokenAmount r) (MINIMUM_NET_DEBT (pe_constants this))
       \<and> redeemableDebtTokenAmount r' = attemptedDebtTokenAmount r' \<and> \<not> isTruncated r'
       \<and> (\<forall>x. \<exists>msg. increaseAmountByMinimumNetDebt this r' x = Inl (Error msg)))"
proof -
  from assms obtain ctx truncated hints where
    r: "populateRedemption this ctx (attemptedDebtTokenAmount r) rate (Some truncated) hints = Inr r"
    and asked: "from_ish amount = Inr (attemptedDebtTokenAmount r)" and nz: "truncated \<noteq> ZERO"
    unfolding populate_redeemDebtToken_def case_prod_unfold result_bind_Inr
    using populateRedemption_Inr(1) by (fastforce split: if_splits)
  note R = populateRedemption_Inr [OF r]
  have stuck: "\<exists>msg. increaseAmountByMinimumNetDebt this s x = Inl (Error msg)"
    if "increase_from s = None" for s x
    using that by (simp add: increaseAmountByMinimumNetDebt_def)
  have again: "attemptedDebtTokenAmount r' = add_dec (redeemableDebtTokenAmount r) (MINIMUM_NET_DEBT (pe_constants this))
      \<and> redeemableDebtTokenAmount r' = attemptedDebtTokenAmount r' \<and> \<not> isTruncated r' \<and> increase_from r' = None"
    if "increaseAmountByMinimumNetDebt this r new = Inr r'" for new r'
  proof -
    from that obtain rate' where r': "populateRedemption this ctx
        (add_dec (redeemableDebtTokenAmount r) (MINIMUM_NET_DEBT (pe_constants this))) rate' None None = Inr r'"
      using R(4) by (auto simp: increaseAmountByMinimumNetDebt_def split: if_splits)
    note R' = populateRedemption_Inr [OF r']
    from R'(1-3) have "\<not> isTruncated r'" by simp
    with R'(1,2,4) show ?thesis by simp
  qed
  show ?thesis
  proof (intro conjI allI impI)
    show "redeemableDebtTokenAmount r \<noteq> ZERO" using R(2) nz by simp
    show "from_ish amount = Inr (attemptedDebtTokenAmount r)" by (rule asked)
    show "isTruncated r \<longleftrightarrow> redeemableDebtTokenAmount r < attemptedDebtTokenAmount r" by (rule R(3))
    show "\<exists>first upper lower nicr maxRate ov.
         populateTransaction (pe_network this)
           (Call_redeemCollateral (bigNumber (redeemableDebtTokenAmount r)) first upper lower nicr
              redeemMaxIterations (bigNumber maxRate)) ov = Inr (rawPopulatedTransaction r)
       \<and> (case rate of Some x \<Rightarrow> from_ish x = Inr maxRate | None \<Rightarrow> maxRate \<le> ONE)"
      using R(5) defaultMaxRedemptionRate_le_ONE by (cases rate) (simp, blast, simp, blast)
  next
    fix new assume "\<not> isTruncated r"
    then show "\<exists>msg. increaseAmountByMinimumNetDebt this r new = Inl (Error msg)" using R(4) stuck by simp
  next
    fix new r' x assume "increaseAmountByMinimumNetDebt this r new = Inr r'"
    from again [OF this] stuck
    show "attemptedDebtTokenAmount r' = add_dec (redeemableDebtTokenAmount r) (MINIMUM_NET_DEBT (pe_constants this))"
      "redeemableDebtTokenAmount r' = attemptedDebtTokenAmount r'"
      "\<not> isTruncated r'" "\<exists>msg. increaseAmountByMinimumNetDebt this r' x = Inl (Error msg)"
      by (auto simp only:)
  qed
qed

theorem redemption_increases_once_witness:
  "\<exists>r. populate_redeemDebtToken sample_populatable (DDecimal ONE) (Some (DDecimal HALF)) None = Inr r
     \<and> redeemableDebtTokenAmount r \<noteq> ZERO \<and> isTruncated r
     \<and> (\<forall>r' x. increaseAmountByMinimumNetDebt sample_populatable r None = Inr r' \<longrightarrow>
          (\<exists>msg. increaseAmountByMinimumNetDebt sample_populatable r' x = Inl (Error msg)))"
proof -
  have "\<exists>r. populate_redeemDebtToken sample_populatable (DDecimal ONE) (Some (DDecimal HALF)) None = Inr r
      \<and> isTruncated r"
    by (simp add: populate_redeemDebtToken_def sample_overrides sample_readable populateRedemption_def
        estimateAndPopulate_def sample_network no_overrides_def result_map_def result_bind_def Let_def ONE_def ZERO_def DIGITS_eq)
  then obtain r where
    r: "populate_redeemDebtToken sample_populatable (DDecimal ONE) (Some (DDecimal HALF)) None = Inr r" "isTruncated r"
    by blast
  from redemption_increases_once [OF r(1)] r show ?thesis by blast
qed

end
