(* ===== verification/Ethers_Facade.thy ===== *)
theory Ethers_Facade
  imports Ethers_Operations
begin

text \<open>
  The classes that act: \<open>SendableEthers\<close> of \<^verbatim>\<open>packages/lib-ethers/src/SendableEthers.ts\<close>, which
  sends what \<open>PopulatableEthers\<close> populated, and \<open>EthersSfStablecoin\<close> of
  \<^verbatim>\<open>src/EthersSfStablecoin.ts\<close>, which waits for what was sent and forwards the reads.
\<close>

section \<open>\<open>SendableEthers\<close>\<close>

definition sendTransaction_of ::
  "('abi, 'p) populatable \<Rightarrow> ('p, 'd, 'z) populated_scheme result \<Rightarrow> 'd sent_transaction result" where
  "sendTransaction_of this tx = result_bind tx (send (pe_connection this) (pe_contracts this))"

definition send_openTrove ::
  "('abi, 'p) populatable \<Rightarrow> js_object \<Rightarrow> borrowing_params \<Rightarrow> tx_overrides option \<Rightarrow> creation_params trove_change_details sent_transaction result" where
  "send_openTrove this params rateOrParams overrides =
     sendTransaction_of this (populate_openTrove this params rateOrParams overrides)"

definition send_closeTrove ::
  "('abi, 'p) populatable \<Rightarrow> tx_overrides option \<Rightarrow> closure_details sent_transaction result" where
  "send_closeTrove this overrides =
     sendTransaction_of this (populate_closeTrove this overrides)"

definition send_adjustTrove ::
  "('abi, 'p) populatable \<Rightarrow> js_object \<Rightarrow> borrowing_params \<Rightarrow> tx_overrides option \<Rightarrow> adjustment_params trove_change_details sent_transaction result" where
  "send_adjustTrove this params rateOrParams overrides =
     sendTransaction_of this (populate_adjustTrove this params rateOrParams overrides)"

definition send_depositCollateral ::
  "('abi, 'p) populatable \<Rightarrow> decimalish \<Rightarrow> tx_overrides option \<Rightarrow> adjustment_params trove_change_details sent_transaction result" where
  "send_depositCollateral this amount overrides =
     sendTransaction_of this (populate_depositCollateral this amount overrides)"

definition send_withdrawCollateral ::
  "('abi, 'p) populatable \<Rightarrow> decimalish \<Rightarrow> tx_overrides option \<Rightarrow> adjustment_params trove_change_details sent_transaction result" where
  "send_withdrawCollateral this amount overrides =
     sendTransaction_of this (populate_withdrawCollateral this amount overrides)"

definition send_borrowDebtToken ::
  "('abi, 'p) populatable \<Rightarrow> decimalish \<Rightarrow> decimalish option \<Rightarrow> tx_overrides option \<Rightarrow> adjustment_params trove_change_details sent_transaction result" where
  "send_borrowDebtToken this amount maxBorrowingRate overrides =
     sendTransaction_of this (populate_borrowDebtToken this amount maxBorrowingRate overrides)"

definition send_repayDebtToken ::
  "('abi, 'p) populatable \<Rightarrow> decimalish \<Rightarrow> tx_overrides option \<Rightarrow> adjustment_params trove_change_details sent_transaction result" where
  "send_repayDebtToken this amount overrides =
     sendTransaction_of this (populate_repayDebtToken this amount overrides)"

definition send_setPrice ::
  "('abi, 'p) populatable \<Rightarrow> decimalish \<Rightarrow> tx_overrides option \<Rightarrow> unit sent_transaction result" where
  "send_setPrice this newPrice overrides =
     sendTransaction_of this (populate_setPrice this newPrice overrides)"

definition send_liquidate ::
  "('abi, 'p) populatable \<Rightarrow> string + string list \<Rightarrow> tx_overrides option \<Rightarrow> liquidation_details sent_transaction result" where
  "send_liquidate this target overrides =
     sendTransaction_of this (populate_liquidate this target overrides)"

definition send_liquidateUpTo ::
  "('abi, 'p) populatable \<Rightarrow> int \<Rightarrow> tx_overrides option \<Rightarrow> liquidation_details sent_transaction result" where
  "send_liquidateUpTo this maximumNumberOfTrovesToLiquidate overrides =
     sendTransaction_of this (populate_liquidateUpTo this maximumNumberOfTrovesToLiquidate overrides)"

definition send_depositDebtTokenInStabilityPool ::
  "('abi, 'p) populatable \<Rightarrow> decimalish \<Rightarrow> string option \<Rightarrow> tx_overrides option \<Rightarrow> deposit_change_details sent_transaction result" where
  "send_depositDebtTokenInStabilityPool this amount frontendTagOpt overrides =
     sendTransaction_of this (populate_depositDebtTokenInStabilityPool this amount frontendTagOpt overrides)"

definition send_withdrawDebtTokenFromStabilityPool ::
  "('abi, 'p) populatable \<Rightarrow> decimalish \<Rightarrow> tx_overrides option \<Rightarrow> deposit_change_details sent_transaction result" where
  "send_withdrawDebtTokenFromStabilityPool this amount overrides =
     sendTransaction_of this (populate_withdrawDebtTokenFromStabilityPool this amount overrides)"

definition send_withdrawGainsFromStabilityPool ::
  "('abi, 'p) populatable \<Rightarrow> tx_overrides option \<Rightarrow> gains_details sent_transaction result" where
  "send_withdrawGainsFromStabilityPool this overrides =
     sendTransaction_of this (populate_withdrawGainsFromStabilityPool this overrides)"

definition send_transferCollateralGainToTrove ::
  "('abi, 'p) populatable \<Rightarrow> tx_overrides option \<Rightarrow> gain_transfer_details sent_transaction result" where
  "send_transferCollateralGainToTrove this overrides =
     sendTransaction_of this (populate_transferCollateralGainToTrove this overrides)"

definition send_sendDebtToken ::
  "('abi, 'p) populatable \<Rightarrow> string \<Rightarrow> decimalish \<Rightarrow> tx_overrides option \<Rightarrow> unit sent_transaction result" where
  "send_sendDebtToken this toAddress amount overrides =
     sendTransaction_of this (populate_sendDebtToken this toAddress amount overrides)"

definition send_sendProtocolToken ::
  "('abi, 'p) populatable \<Rightarrow> string \<Rightarrow> decimalish \<Rightarrow> tx_overrides option \<Rightarrow> unit sent_transaction result" where
  "send_sendProtocolToken this toAddress amount overrides =
     sendTransaction_of this (populate_sendProtocolToken this toAddress amount overrides)"

definition send_redeemDebtToken ::
  "('abi, 'p) populatable \<Rightarrow> decimalish \<Rightarrow> decimalish option \<Rightarrow> tx_overrides option \<Rightarrow> redemption_details option sent_transaction result" where
  "send_redeemDebtToken this amount maxRedemptionRate overrides =
     sendTransaction_of this (populate_redeemDebtToken this amount maxRedemptionRate overrides)"

definition send_claimCollateralSurplus ::
  "('abi, 'p) populatable \<Rightarrow> tx_overrides option \<Rightarrow> unit sent_transaction result" where
  "send_claimCollateralSurplus this overrides =
     sendTransaction_of this (populate_claimCollateralSurplus this overrides)"

definition send_stakeProtocolToken ::
  "('abi, 'p) populatable \<Rightarrow> decimalish \<Rightarrow> tx_overrides option \<Rightarrow> unit sent_transaction result" where
  "send_stakeProtocolToken this amount overrides =
     sendTransaction_of this (populate_stakeProtocolToken this amount overrides)"

definition send_unstakeProtocolToken ::
  "('abi, 'p) populatable \<Rightarrow> decimalish \<Rightarrow> tx_overrides option \<Rightarrow> unit sent_transaction result" where
  "send_unstakeProtocolToken this amount overrides =
     sendTransaction_of this (populate_unstakeProtocolToken this amount overrides)"

definition send_withdrawGainsFromStaking ::
  "('abi, 'p) populatable \<Rightarrow> tx_overrides option \<Rightarrow> unit sent_transaction result" where
  "send_withdrawGainsFromStaking this overrides =
     sendTransaction_of this (populate_withdrawGainsFromStaking this overrides)"

definition send_registerFrontend ::
  "('abi, 'p) populatable \<Rightarrow> decimalish \<Rightarrow> tx_overrides option \<Rightarrow> unit sent_transaction result" where
  "send_registerFrontend this kickbackRate overrides =
     sendTransaction_of this (populate_registerFrontend this kickbackRate overrides)"

definition send_mintUniToken ::
  "('abi, 'p) populatable \<Rightarrow> decimalish \<Rightarrow> string option \<Rightarrow> tx_overrides option \<Rightarrow> unit sent_transaction result" where
  "send_mintUniToken this amount addressOpt overrides =
     sendTransaction_of this (populate_mintUniToken this amount addressOpt overrides)"

definition send_approveUniTokens ::
  "('abi, 'p) populatable \<Rightarrow> decimalish option \<Rightarrow> tx_overrides option \<Rightarrow> unit sent_transaction result" where
  "send_approveUniTokens this allowance overrides =
     sendTransaction_of this (populate_approveUniTokens this allowance overrides)"

definition send_stakeUniTokens ::
  "('abi, 'p) populatable \<Rightarrow> decimalish \<Rightarrow> tx_overrides option \<Rightarrow> unit sent_transaction result" where
  "send_stakeUniTokens this amount overrides =
     sendTransaction_of this (populate_stakeUniTokens this amount overrides)"

definition send_unstakeUniTokens ::
  "('abi, 'p) populatable \<Rightarrow> decimalish \<Rightarrow> tx_overrides option \<Rightarrow> unit sent_transaction result" where
  "send_unstakeUniTokens this amount overrides =
     sendTransaction_of this (populate_unstakeUniTokens this amount overrides)"

definition send_withdrawProtocolTokenRewardFromProtocolMining ::
  "('abi, 'p) populatable \<Rightarrow> tx_overrides option \<Rightarrow> unit sent_transaction result" where
  "send_withdrawProtocolTokenRewardFromProtocolMining this overrides =
     sendTransaction_of this (populate_withdrawProtocolTokenRewardFromProtocolMining this overrides)"

definition send_exitLiquidityMining ::
  "('abi, 'p) populatable \<Rightarrow> tx_overrides option \<Rightarrow> unit sent_transaction result" where
  "send_exitLiquidityMining this overrides =
     sendTransaction_of this (populate_exitLiquidityMining this overrides)"

section \<open>\<open>EthersSfStablecoin\<close>: transactions\<close>

definition succeed :: "'d sent_transaction result \<Rightarrow> 'd tx_result" where
  "succeed tx = tx_bind (tx_lift tx) waitForSuccess"

definition sdk_openTrove ::
  "('abi, 'p) populatable \<Rightarrow> js_object \<Rightarrow> borrowing_params \<Rightarrow> tx_overrides option \<Rightarrow> creation_params trove_change_details tx_result" where
  "sdk_openTrove this params rateOrParams overrides =
     succeed (send_openTrove this params rateOrParams overrides)"

definition sdk_closeTrove ::
  "('abi, 'p) populatable \<Rightarrow> tx_overrides option \<Rightarrow> closure_details tx_result" where
  "sdk_closeTrove this overrides =
     succeed (send_closeTrove this overrides)"

definition sdk_adjustTrove ::
  "('abi, 'p) populatable \<Rightarrow> js_object \<Rightarrow> borrowing_params \<Rightarrow> tx_overrides option \<Rightarrow> adjustment_params trove_change_details tx_result" where
  "sdk_adjustTrove this params rateOrParams overrides =
     succeed (send_adjustTrove this params rateOrParams overrides)"

definition sdk_depositCollateral ::
  "('abi, 'p) populatable \<Rightarrow> decimalish \<Rightarrow> tx_overrides option \<Rightarrow> adjustment_params trove_change_details tx_result" where
  "sdk_depositCollateral this amount overrides =
     succeed (send_depositCollateral this amount overrides)"

definition sdk_withdrawCollateral ::
  "('abi, 'p) populatable \<Rightarrow> decimalish \<Rightarrow> tx_overrides option \<Rightarrow> adjustment_params trove_change_details tx_result" where
  "sdk_withdrawCollateral this amount overrides =
     succeed (send_withdrawCollateral this amount overrides)"

definition sdk_borrowDebtToken ::
  "('abi, 'p) populatable \<Rightarrow> decimalish \<Rightarrow> decimalish option \<Rightarrow> tx_overrides option \<Rightarrow> adjustment_params trove_change_details tx_result" where
  "sdk_borrowDebtToken this amount maxBorrowingRate overrides =
     succeed (send_borrowDebtToken this amount maxBorrowingRate overrides)"

definition sdk_repayDebtToken ::
  "('abi, 'p) populatable \<Rightarrow> decimalish \<Rightarrow> tx_overrides option \<Rightarrow> adjustment_params trove_change_details tx_result" where
  "sdk_repayDebtToken this amount overrides =
     succeed (send_repayDebtToken this amount overrides)"

definition sdk_setPrice ::
  "('abi, 'p) populatable \<Rightarrow> decimalish \<Rightarrow> tx_overrides option \<Rightarrow> unit tx_result" where
  "sdk_setPrice this newPrice overrides =
     succeed (send_setPrice this newPrice overrides)"

definition sdk_liquidate ::
  "('abi, 'p) populatable \<Rightarrow> string + string list \<Rightarrow> tx_overrides option \<Rightarrow> liquidation_details tx_result" where
  "sdk_liquidate this target overrides =
     succeed (send_liquidate this target overrides)"

definition sdk_liquidateUpTo ::
  "('abi, 'p) populatable \<Rightarrow> int \<Rightarrow> tx_overrides option \<Rightarrow> liquidation_details tx_result" where
  "sdk_liquidateUpTo this maximumNumberOfTrovesToLiquidate overrides =
     succeed (send_liquidateUpTo this maximumNumberOfTrovesToLiquidate overrides)"

definition sdk_depositDebtTokenInStabilityPool ::
  "('abi, 'p) populatable \<Rightarrow> decimalish \<Rightarrow> string option \<Rightarrow> tx_overrides option \<Rightarrow> deposit_change_details tx_result" where
  "sdk_depositDebtTokenInStabilityPool this amount frontendTagOpt overrides =
     succeed (send_depositDebtTokenInStabilityPool this amount frontendTagOpt overrides)"

definition sdk_withdrawDebtTokenFromStabilityPool ::
  "('abi, 'p) populatable \<Rightarrow> decimalish \<Rightarrow> tx_overrides option \<Rightarrow> deposit_change_details tx_result" where
  "sdk_withdrawDebtTokenFromStabilityPool this amount overrides =
     succeed (send_withdrawDebtTokenFromStabilityPool this amount overrides)"

definition sdk_withdrawGainsFromStabilityPool ::
  "('abi, 'p) populatable \<Rightarrow> tx_overrides option \<Rightarrow> gains_details tx_result" where
  "sdk_withdrawGainsFromStabilityPool this overrides =
     succeed (send_withdrawGainsFromStabilityPool this overrides)"

definition sdk_transferCollateralGainToTrove ::
  "('abi, 'p) populatable \<Rightarrow> tx_overrides option \<Rightarrow> gain_transfer_details tx_result" where
  "sdk_transferCollateralGainToTrove this overrides =
     succeed (send_transferCollateralGainToTrove this overrides)"

definition sdk_sendDebtToken ::
  "('abi, 'p) populatable \<Rightarrow> string \<Rightarrow> decimalish \<Rightarrow> tx_overrides option \<Rightarrow> unit tx_result" where
  "sdk_sendDebtToken this toAddress amount overrides =
     succeed (send_sendDebtToken this toAddress amount overrides)"

definition sdk_sendProtocolToken ::
  "('abi, 'p) populatable \<Rightarrow> string \<Rightarrow> decimalish \<Rightarrow> tx_overrides option \<Rightarrow> unit tx_result" where
  "sdk_sendProtocolToken this toAddress amount overrides =
     succeed (send_sendProtocolToken this toAddress amount overrides)"

definition sdk_redeemDebtToken ::
  "('abi, 'p) populatable \<Rightarrow> decimalish \<Rightarrow> decimalish option \<Rightarrow> tx_overrides option \<Rightarrow> redemption_details option tx_result" where
  "sdk_redeemDebtToken this amount maxRedemptionRate overrides =
     succeed (send_redeemDebtToken this amount maxRedemptionRate overrides)"

definition sdk_claimCollateralSurplus ::
  "('abi, 'p) populatable \<Rightarrow> tx_overrides option \<Rightarrow> unit tx_result" where
  "sdk_claimCollateralSurplus this overrides =
     succeed (send_claimCollateralSurplus this overrides)"

definition sdk_stakeProtocolToken ::
  "('abi, 'p) populatable \<Rightarrow> decimalish \<Rightarrow> tx_overrides option \<Rightarrow> unit tx_result" where
  "sdk_stakeProtocolToken this amount overrides =
     succeed (send_stakeProtocolToken this amount overrides)"

definition sdk_unstakeProtocolToken ::
  "('abi, 'p) populatable \<Rightarrow> decimalish \<Rightarrow> tx_overrides option \<Rightarrow> unit tx_result" where
  "sdk_unstakeProtocolToken this amount overrides =
     succeed (send_unstakeProtocolToken this amount overrides)"

definition sdk_withdrawGainsFromStaking ::
  "('abi, 'p) populatable \<Rightarrow> tx_overrides option \<Rightarrow> unit tx_result" where
  "sdk_withdrawGainsFromStaking this overrides =
     succeed (send_withdrawGainsFromStaking this overrides)"

definition sdk_registerFrontend ::
  "('abi, 'p) populatable \<Rightarrow> decimalish \<Rightarrow> tx_overrides option \<Rightarrow> unit tx_result" where
  "sdk_registerFrontend this kickbackRate overrides =
     succeed (send_registerFrontend this kickbackRate overrides)"

definition sdk_mintUniToken ::
  "('abi, 'p) populatable \<Rightarrow> decimalish \<Rightarrow> string option \<Rightarrow> tx_overrides option \<Rightarrow> unit tx_result" where
  "sdk_mintUniToken this amount addressOpt overrides =
     succeed (send_mintUniToken this amount addressOpt overrides)"

definition sdk_approveUniTokens ::
  "('abi, 'p) populatable \<Rightarrow> decimalish option \<Rightarrow> tx_overrides option \<Rightarrow> unit tx_result" where
  "sdk_approveUniTokens this allowance overrides =
     succeed (send_approveUniTokens this allowance overrides)"

definition sdk_stakeUniTokens ::
  "('abi, 'p) populatable \<Rightarrow> decimalish \<Rightarrow> tx_overrides option \<Rightarrow> unit tx_result" where
  "sdk_stakeUniTokens this amount overrides =
     succeed (send_stakeUniTokens this amount overrides)"

definition sdk_unstakeUniTokens ::
  "('abi, 'p) populatable \<Rightarrow> decimalish \<Rightarrow> tx_overrides option \<Rightarrow> unit tx_result" where
  "sdk_unstakeUniTokens this amount overrides =
     succeed (send_unstakeUniTokens this amount overrides)"

definition sdk_withdrawProtocolTokenRewardFromProtocolMining ::
  "('abi, 'p) populatable \<Rightarrow> tx_overrides option \<Rightarrow> unit tx_result" where
  "sdk_withdrawProtocolTokenRewardFromProtocolMining this overrides =
     succeed (send_withdrawProtocolTokenRewardFromProtocolMining this overrides)"

definition sdk_exitLiquidityMining ::
  "('abi, 'p) populatable \<Rightarrow> tx_overrides option \<Rightarrow> unit tx_result" where
  "sdk_exitLiquidityMining this overrides =
     succeed (send_exitLiquidityMining this overrides)"

section \<open>\<open>EthersSfStablecoin\<close>: reads\<close>

text \<open>The reads are forwarded; the two searches for hints convert the \<open>Decimalish\<close> first.\<close>

definition sdkReadable :: "'e readable \<Rightarrow> 'e readable" where
  "sdkReadable r =
     \<lparr>getTotalRedistributed = getTotalRedistributed r,
      getTroveBeforeRedistribution = getTroveBeforeRedistribution r,
      getTrove = getTrove r,
      getNumberOfTroves = getNumberOfTroves r,
      getPrice = getPrice r,
      getTotal = getTotal r,
      getStabilityDeposit = getStabilityDeposit r,
      getRemainingStabilityPoolProtocolTokenReward = getRemainingStabilityPoolProtocolTokenReward r,
      getDebtTokenInStabilityPool = getDebtTokenInStabilityPool r,
      getDebtTokenBalance = getDebtTokenBalance r,
      getProtocolTokenBalance = getProtocolTokenBalance r,
      getUniTokenBalance = getUniTokenBalance r,
      getUniTokenAllowance = getUniTokenAllowance r,
      getRemainingProtocolMiningProtocolTokenReward = getRemainingProtocolMiningProtocolTokenReward r,
      getLiquidityMiningStake = getLiquidityMiningStake r,
      getTotalStakedUniTokens = getTotalStakedUniTokens r,
      getLiquidityMiningProtocolTokenReward = getLiquidityMiningProtocolTokenReward r,
      getCollateralSurplusBalance = getCollateralSurplusBalance r,
      getTroves = getTroves r,
      getFees = getFees r,
      getProtocolTokenStake = getProtocolTokenStake r,
      getTotalStakedProtocolToken = getTotalStakedProtocolToken r,
      getFrontendStatus = getFrontendStatus r,
      findHintsForNominalCollateralRatio = \<lambda>nicr e.
        result_bind (from_ish nicr) (\<lambda>d. findHintsForNominalCollateralRatio r (DDecimal d) e),
      findRedemptionHints = \<lambda>amount e.
        result_bind (from_ish amount) (\<lambda>d. findRedemptionHints r (DDecimal d) e),
      getDebtInFront = getDebtInFront r\<rparr>"

text \<open>\<open>hasStore\<close> of the class, and of the variant \<open>_from\<close> makes when the connection uses a store.\<close>

definition hasStore :: "('abi, 'p, 't) connection \<Rightarrow> string option \<Rightarrow> bool" where
  "hasStore con store =
     (if usingStore con then store = None \<or> store = useStore con else False)"

section \<open>Lemmas\<close>

lemma sendTransaction_of_Inr:
  "sendTransaction_of this tx = Inr sent \<longleftrightarrow>
     (\<exists>p s raw. tx = Inr p \<and> con_signer (pe_connection this) = Some s
        \<and> sendTransaction s (rawPopulatedTransaction p) = Inr raw
        \<and> sent = \<lparr>sent_wait = raw, sent_contracts = pe_contracts this, sent_parse = pt_parse p\<rparr>)"
  by (auto simp: sendTransaction_of_def send_def requireSigner_def result_bind_Inr result_map_Inr
      split: option.splits)

text \<open>
  How a facade operation settles, from what populating it gave: with details, as a failed
  transaction, and with the error thrown where nothing was sent.
\<close>

definition settles_as ::
  "('abi, 'p) populatable \<Rightarrow> ('p, 'd, 'z) populated_scheme result \<Rightarrow> 'd tx_result \<Rightarrow> bool" where
  "settles_as this populated r \<longleftrightarrow>
     (\<forall>d. r = Inr d \<longleftrightarrow>
        (\<exists>p s w rc. populated = Inr p \<and> con_signer (pe_connection this) = Some s
           \<and> sendTransaction s (rawPopulatedTransaction p) = Inr w
           \<and> final_receipt (w None) = Some rc \<and> rc_status rc \<and> pt_parse p rc = Inr d)) \<and>
     (\<forall>rc. r = Inl (TransactionFailed rc) \<longleftrightarrow>
        (\<exists>p s w. populated = Inr p \<and> con_signer (pe_connection this) = Some s
           \<and> sendTransaction s (rawPopulatedTransaction p) = Inr w
           \<and> final_receipt (w None) = Some rc \<and> \<not> rc_status rc)) \<and>
     (\<forall>e. populated = Inl e \<longrightarrow> r = Inl (Thrown e)) \<and>
     (\<forall>p. populated = Inr p \<and> con_signer (pe_connection this) = None \<longrightarrow>
        r = Inl (Thrown (Error ''Must be connected through a Signer''))) \<and>
     (\<forall>p s e. populated = Inr p \<and> con_signer (pe_connection this) = Some s
        \<and> sendTransaction s (rawPopulatedTransaction p) = Inl e \<longrightarrow> r = Inl (Thrown e))"

lemma succeed_settles: "settles_as this populated (succeed (sendTransaction_of this populated))"
proof -
  let ?sent = "sendTransaction_of this populated"
  have out: "succeed ?sent = r \<longleftrightarrow>
      (case ?sent of Inl e \<Rightarrow> r = Inl (Thrown e) | Inr x \<Rightarrow> waitForSuccess x = r)" for r
    by (auto simp: succeed_def split: sum.split)
  have "succeed ?sent = Inr d \<longleftrightarrow> (\<exists>x. ?sent = Inr x \<and> waitForSuccess x = Inr d)"
    "succeed ?sent = Inl (TransactionFailed rc) \<longleftrightarrow> (\<exists>x. ?sent = Inr x \<and> waitForSuccess x = Inl (TransactionFailed rc))"
    for d rc unfolding out by (auto split: sum.split)
  moreover have "?sent = Inl e \<Longrightarrow> succeed ?sent = Inl (Thrown e)" for e by (simp add: succeed_def)
  ultimately show ?thesis
    unfolding settles_as_def sendTransaction_of_Inr
    by (auto simp: waitForSuccess_exact sendTransaction_of_def send_def requireSigner_def)
qed

section \<open>Properties\<close>

text \<open>
  C3: Each of the 28 operations of the facade that send a transaction returns details exactly
  when it was populated, a signer sent it, and the transaction, or the one that replaced it
  without cancelling it, was mined with a success status: they are the details its own parser
  reads from that receipt.  It reports a failed transaction exactly when that receipt has a
  failure status.  When populating throws, when there is no signer, or when the signer throws, the
  operation throws that error.
\<close>

theorem transaction_outcome:
  "settles_as this (populate_openTrove this params rateOrParams overrides) (sdk_openTrove this params rateOrParams overrides)
    \<and> settles_as this (populate_closeTrove this overrides) (sdk_closeTrove this overrides)
    \<and> settles_as this (populate_adjustTrove this params rateOrParams overrides) (sdk_adjustTrove this params rateOrParams overrides)
    \<and> settles_as this (populate_depositCollateral this amount overrides) (sdk_depositCollateral this amount overrides)
    \<and> settles_as this (populate_withdrawCollateral this amount overrides) (sdk_withdrawCollateral this amount overrides)
    \<and> settles_as this (populate_borrowDebtToken this amount maxBorrowingRate overrides) (sdk_borrowDebtToken this amount maxBorrowingRate overrides)
    \<and> settles_as this (populate_repayDebtToken this amount overrides) (sdk_repayDebtToken this amount overrides)
    \<and> settles_as this (populate_setPrice this newPrice overrides) (sdk_setPrice this newPrice overrides)
    \<and> settles_as this (populate_liquidate this target overrides) (sdk_liquidate this target overrides)
    \<and> settles_as this (populate_liquidateUpTo this maximumNumberOfTrovesToLiquidate overrides) (sdk_liquidateUpTo this maximumNumberOfTrovesToLiquidate overrides)
    \<and> settles_as this (populate_depositDebtTokenInStabilityPool this amount frontendTagOpt overrides) (sdk_depositDebtTokenInStabilityPool this amount frontendTagOpt overrides)
    \<and> settles_as this (populate_withdrawDebtTokenFromStabilityPool this amount overrides) (sdk_withdrawDebtTokenFromStabilityPool this amount overrides)
    \<and> settles_as this (populate_withdrawGainsFromStabilityPool this overrides) (sdk_withdrawGainsFromStabilityPool this overrides)
    \<and> settles_as this (populate_transferCollateralGainToTrove this overrides) (sdk_transferCollateralGainToTrove this overrides)
    \<and> settles_as this (populate_sendDebtToken this toAddress amount overrides) (sdk_sendDebtToken this toAddress amount overrides)
    \<and> settles_as this (populate_sendProtocolToken this toAddress amount overrides) (sdk_sendProtocolToken this toAddress amount overrides)
    \<and> settles_as this (populate_redeemDebtToken this amount maxRedemptionRate overrides) (sdk_redeemDebtToken this amount maxRedemptionRate overrides)
    \<and> settles_as this (populate_claimCollateralSurplus this overrides) (sdk_claimCollateralSurplus this overrides)
    \<and> settles_as this (populate_stakeProtocolToken this amount overrides) (sdk_stakeProtocolToken this amount overrides)
    \<and> settles_as this (populate_unstakeProtocolToken this amount overrides) (sdk_unstakeProtocolToken this amount overrides)
    \<and> settles_as this (populate_withdrawGainsFromStaking this overrides) (sdk_withdrawGainsFromStaking this overrides)
    \<and> settles_as this (populate_registerFrontend this kickbackRate overrides) (sdk_registerFrontend this kickbackRate overrides)
    \<and> settles_as this (populate_mintUniToken this amount addressOpt overrides) (sdk_mintUniToken this amount addressOpt overrides)
    \<and> settles_as this (populate_approveUniTokens this allowance overrides) (sdk_approveUniTokens this allowance overrides)
    \<and> settles_as this (populate_stakeUniTokens this amount overrides) (sdk_stakeUniTokens this amount overrides)
    \<and> settles_as this (populate_unstakeUniTokens this amount overrides) (sdk_unstakeUniTokens this amount overrides)
    \<and> settles_as this (populate_withdrawProtocolTokenRewardFromProtocolMining this overrides) (sdk_withdrawProtocolTokenRewardFromProtocolMining this overrides)
    \<and> settles_as this (populate_exitLiquidityMining this overrides) (sdk_exitLiquidityMining this overrides)"
  unfolding sdk_openTrove_def send_openTrove_def sdk_closeTrove_def send_closeTrove_def
    sdk_adjustTrove_def send_adjustTrove_def sdk_depositCollateral_def send_depositCollateral_def
    sdk_withdrawCollateral_def send_withdrawCollateral_def sdk_borrowDebtToken_def send_borrowDebtToken_def
    sdk_repayDebtToken_def send_repayDebtToken_def sdk_setPrice_def send_setPrice_def
    sdk_liquidate_def send_liquidate_def sdk_liquidateUpTo_def send_liquidateUpTo_def
    sdk_depositDebtTokenInStabilityPool_def send_depositDebtTokenInStabilityPool_def sdk_withdrawDebtTokenFromStabilityPool_def send_withdrawDebtTokenFromStabilityPool_def
    sdk_withdrawGainsFromStabilityPool_def send_withdrawGainsFromStabilityPool_def sdk_transferCollateralGainToTrove_def send_transferCollateralGainToTrove_def
    sdk_sendDebtToken_def send_sendDebtToken_def sdk_sendProtocolToken_def send_sendProtocolToken_def
    sdk_redeemDebtToken_def send_redeemDebtToken_def sdk_claimCollateralSurplus_def send_claimCollateralSurplus_def
    sdk_stakeProtocolToken_def send_stakeProtocolToken_def sdk_unstakeProtocolToken_def send_unstakeProtocolToken_def
    sdk_withdrawGainsFromStaking_def send_withdrawGainsFromStaking_def sdk_registerFrontend_def send_registerFrontend_def
    sdk_mintUniToken_def send_mintUniToken_def sdk_approveUniTokens_def send_approveUniTokens_def
    sdk_stakeUniTokens_def send_stakeUniTokens_def sdk_unstakeUniTokens_def send_unstakeUniTokens_def
    sdk_withdrawProtocolTokenRewardFromProtocolMining_def send_withdrawProtocolTokenRewardFromProtocolMining_def sdk_exitLiquidityMining_def send_exitLiquidityMining_def
  by (intro conjI succeed_settles)

end
