(* ===== verification/Ethers_Observable.thy ===== *)
theory Ethers_Observable
  imports Ethers_Readable
begin

text \<open>
  Watching the chain: \<^verbatim>\<open>packages/lib-ethers/src/ObservableEthers.ts\<close>.

  A watcher is what it subscribes to and what it reads: its filters, each with the test its
  listener makes on the event's address, and the read of the block the debounced listener is
  called with.  Events carry the time they arrive at, in milliseconds; the timer of
  \<open>setTimeout\<close> is its deadline, and it fires before an event that arrives at or after it.
\<close>

section \<open>\<open>debounce\<close>\<close>

definition debouncingDelayMs :: nat where
  "debouncingDelayMs = 50"

record debouncer =
  deadline :: "nat option"
  latestBlock :: nat

definition new_debouncer :: debouncer where
  "new_debouncer = \<lparr>deadline = None, latestBlock = 0\<rparr>"

text \<open>The function \<open>debounce\<close> returns, called at a time with an event's block number.\<close>

definition debounce_event :: "nat \<Rightarrow> nat option \<Rightarrow> debouncer \<Rightarrow> debouncer" where
  "debounce_event now blockNumber this =
     \<lparr>deadline = Some (now + debouncingDelayMs),
      latestBlock = (case blockNumber of
                       Some n \<Rightarrow> if latestBlock this < n then n else latestBlock this
                     | None \<Rightarrow> latestBlock this)\<rparr>"

text \<open>The timer's callback, when the deadline has come: the block the listener is called with.\<close>

definition debounce_timer :: "nat \<Rightarrow> debouncer \<Rightarrow> nat list \<times> debouncer" where
  "debounce_timer now this =
     (case deadline this of
        Some d \<Rightarrow> if d \<le> now then ([latestBlock this], this\<lparr>deadline := None\<rparr>) else ([], this)
      | None \<Rightarrow> ([], this))"

text \<open>A run over events in the order they arrive, ended by the timer when no more come.\<close>

fun debounce_run :: "(nat \<times> nat option) list \<Rightarrow> debouncer \<Rightarrow> nat list" where
  "debounce_run [] this = (case deadline this of Some _ \<Rightarrow> [latestBlock this] | None \<Rightarrow> [])"
| "debounce_run ((now, blockNumber) # events) this =
     (let (calls, this') = debounce_timer now this
      in calls @ debounce_run events (debounce_event now blockNumber this'))"

section \<open>The watchers\<close>

record event_filter =
  ef_contract :: string
  ef_event :: string
  ef_args :: "string option list"

definition event_filter_of :: "string \<Rightarrow> string \<Rightarrow> string option list \<Rightarrow> event_filter" where
  "event_filter_of c e args = \<lparr>ef_contract = c, ef_event = e, ef_args = args\<rparr>"

type_synonym listener_test = "string \<Rightarrow> bool"

record 'a watcher =
  w_filters :: "(event_filter \<times> listener_test) list"
  w_read :: "nat \<Rightarrow> 'a result"

definition at_block :: "nat \<Rightarrow> call_overrides option" where
  "at_block n = Some \<lparr>blockTag = Some (BlockNumber (int n))\<rparr>"

text \<open>The addresses of the contracts that are watched.\<close>

record watched_contracts =
  wc_activePool :: string
  wc_defaultPool :: string
  wc_troveManager :: string
  wc_borrowerOperations :: string
  wc_stabilityPool :: string
  wc_debtToken :: string

definition any_event :: listener_test where
  "any_event = (\<lambda>_. True)"

definition watchTotalRedistributed :: "contracts \<Rightarrow> watched_contracts \<Rightarrow> trove watcher" where
  "watchTotalRedistributed k wc =
     \<lparr>w_filters = [(event_filter_of (wc_activePool wc) ''FILSent'' [], \<lambda>toAddress. toAddress = wc_defaultPool wc)],
      w_read = \<lambda>n. ethers_getTotalRedistributed k (at_block n)\<rparr>"

definition watchTroveWithoutRewards ::
  "('abi, 'p, 't) connection \<Rightarrow> contracts \<Rightarrow> watched_contracts \<Rightarrow> string option \<Rightarrow> pending_trove watcher result" where
  "watchTroveWithoutRewards con k wc addressOpt =
     result_map (\<lambda>a.
       \<lparr>w_filters = [(event_filter_of (wc_troveManager wc) ''TroveUpdated'' [Some a], any_event),
                     (event_filter_of (wc_borrowerOperations wc) ''TroveUpdated'' [Some a], any_event)],
        w_read = \<lambda>n. ethers_getTroveBeforeRedistribution con k (Some a) (at_block n)\<rparr>)
       (address_or_user con addressOpt)"

definition watchNumberOfTroves :: "contracts \<Rightarrow> watched_contracts \<Rightarrow> int watcher" where
  "watchNumberOfTroves k wc =
     \<lparr>w_filters = [(event_filter_of (wc_troveManager wc) ''TroveUpdated'' [], any_event)],
      w_read = \<lambda>n. ethers_getNumberOfTroves k (at_block n)\<rparr>"

definition watchPrice :: "decimal watcher result" where
  "watchPrice = Inl (Error ''Method not implemented.'')"

definition watchTotal :: "contracts \<Rightarrow> watched_contracts \<Rightarrow> trove watcher" where
  "watchTotal k wc =
     \<lparr>w_filters = [(event_filter_of (wc_troveManager wc) ''TroveUpdated'' [], any_event)],
      w_read = \<lambda>n. ethers_getTotal k (at_block n)\<rparr>"

definition watchStabilityDeposit ::
  "('abi, 'p, 't) connection \<Rightarrow> contracts \<Rightarrow> watched_contracts \<Rightarrow> string option \<Rightarrow> stability_deposit watcher result" where
  "watchStabilityDeposit con k wc addressOpt =
     result_map (\<lambda>a.
       \<lparr>w_filters = [(event_filter_of (wc_stabilityPool wc) ''UserDepositChanged'' [Some a], any_event),
                     (event_filter_of (wc_activePool wc) ''FILSent'' [],
                      \<lambda>toAddress. toAddress = wc_stabilityPool wc)],
        w_read = \<lambda>n. ethers_getStabilityDeposit con k (Some a) (at_block n)\<rparr>)
       (address_or_user con addressOpt)"

definition watchDebtTokenInStabilityPool :: "contracts \<Rightarrow> watched_contracts \<Rightarrow> decimal watcher" where
  "watchDebtTokenInStabilityPool k wc =
     \<lparr>w_filters = [(event_filter_of (wc_debtToken wc) ''Transfer'' [Some (wc_stabilityPool wc)], any_event),
                   (event_filter_of (wc_debtToken wc) ''Transfer'' [None, Some (wc_stabilityPool wc)], any_event)],
      w_read = \<lambda>n. ethers_getDebtTokenInStabilityPool k (at_block n)\<rparr>"

definition watchDebtTokenBalance ::
  "('abi, 'p, 't) connection \<Rightarrow> contracts \<Rightarrow> watched_contracts \<Rightarrow> string option \<Rightarrow> decimal watcher result" where
  "watchDebtTokenBalance con k wc addressOpt =
     result_map (\<lambda>a.
       \<lparr>w_filters = [(event_filter_of (wc_debtToken wc) ''Transfer'' [Some a], any_event),
                     (event_filter_of (wc_debtToken wc) ''Transfer'' [None, Some a], any_event)],
        w_read = \<lambda>n. ethers_getDebtTokenBalance con k (Some a) (at_block n)\<rparr>)
       (address_or_user con addressOpt)"

section \<open>What a listener gets\<close>

text \<open>
  The events a listener is called with: of those that match a filter (a relation between
  filters and events that ethers decides) the ones whose address passes the filter's test.
\<close>

definition heard ::
  "(event_filter \<Rightarrow> 'e \<Rightarrow> bool) \<Rightarrow> ('e \<Rightarrow> string) \<Rightarrow> 'a watcher \<Rightarrow> 'e \<Rightarrow> bool" where
  "heard matches address_of w e \<longleftrightarrow> (\<exists>(f, test) \<in> set (w_filters w). matches f e \<and> test (address_of e))"

text \<open>Bursts: events less than the delay apart.\<close>

fun bursts :: "(nat \<times> nat option) list \<Rightarrow> nat" where
  "bursts [] = 0"
| "bursts [e] = 1"
| "bursts (e # e' # events) = (if fst e + debouncingDelayMs \<le> fst e' then 1 else 0) + bursts (e' # events)"

definition see_block :: "nat \<times> nat option \<Rightarrow> nat \<Rightarrow> nat" where
  "see_block e m = (case snd e of Some n \<Rightarrow> max m n | None \<Rightarrow> m)"

definition highest_block :: "(nat \<times> nat option) list \<Rightarrow> nat" where
  "highest_block events = fold see_block events 0"

lemma debounce_event_eq:
  "debounce_event now b s = \<lparr>deadline = Some (now + debouncingDelayMs), latestBlock = see_block (now, b) (latestBlock s)\<rparr>"
  by (simp add: debounce_event_def see_block_def max_def split: option.split)

lemma see_block_ge: "m \<le> see_block e m"
  by (simp add: see_block_def split: option.split)

text \<open>A run after an event: its deadline pending, the highest block so far kept.\<close>

lemma debounce_run_from:
  "length (debounce_run events \<lparr>deadline = Some (t + debouncingDelayMs), latestBlock = m\<rparr>) = bursts ((t, b) # events)
   \<and> debounce_run events \<lparr>deadline = Some (t + debouncingDelayMs), latestBlock = m\<rparr> \<noteq> []
   \<and> last (debounce_run events \<lparr>deadline = Some (t + debouncingDelayMs), latestBlock = m\<rparr>) = fold see_block events m
   \<and> sorted (debounce_run events \<lparr>deadline = Some (t + debouncingDelayMs), latestBlock = m\<rparr>)
   \<and> (\<forall>n\<in>set (debounce_run events \<lparr>deadline = Some (t + debouncingDelayMs), latestBlock = m\<rparr>). m \<le> n)"
proof (induction events arbitrary: t b m)
  case Nil
  then show ?case by simp
next
  case (Cons e events)
  obtain t' b' where e: "e = (t', b')" by (cases e)
  let ?m' = "see_block (t', b') m"
  let ?rest = "debounce_run events \<lparr>deadline = Some (t' + debouncingDelayMs), latestBlock = ?m'\<rparr>"
  have run: "debounce_run (e # events) \<lparr>deadline = Some (t + debouncingDelayMs), latestBlock = m\<rparr>
      = (if t + debouncingDelayMs \<le> t' then [m] else []) @ ?rest"
    by (simp add: e debounce_timer_def debounce_event_eq)
  note IH = Cons.IH [of t' ?m' b']
  have "m \<le> ?m'" by (rule see_block_ge)
  with IH show ?case unfolding run by (auto simp: e intro: order_trans)
qed

section \<open>Properties\<close>

text \<open>
  A watcher reads once per burst of events: with events in the order they arrive, the number
  of calls is the number of bursts (runs of events less than 50 ms apart), the blocks read
  never go back, and the last read, which always comes, is of the highest block any event
  named.
\<close>

theorem watcher_reads_each_burst:
  assumes "events \<noteq> []"
  shows "length (debounce_run events new_debouncer) = bursts events
    \<and> sorted (debounce_run events new_debouncer)
    \<and> debounce_run events new_debouncer \<noteq> []
    \<and> last (debounce_run events new_debouncer) = highest_block events"
proof -
  obtain t b rest where e: "events = (t, b) # rest" using assms by (metis list.exhaust surj_pair)
  have "debounce_run events new_debouncer
      = debounce_run rest \<lparr>deadline = Some (t + debouncingDelayMs), latestBlock = see_block (t, b) 0\<rparr>"
    by (simp add: e new_debouncer_def debounce_timer_def debounce_event_eq)
  with debounce_run_from [of rest t "see_block (t, b) 0" b] show ?thesis
    by (simp add: e highest_block_def)
qed

theorem watcher_reads_each_burst_witness:
  "debounce_run [(0, Some 7), (10, Some 5), (70, Some 9)] new_debouncer = [7, 9]
   \<and> length (debounce_run [(0, Some 7), (10, Some 5), (70, Some 9)] new_debouncer) = 2"
  using watcher_reads_each_burst [of "[(0, Some 7), (10, Some 5), (70, Some 9)]"]
  by (simp add: new_debouncer_def debounce_timer_def debounce_event_def debouncingDelayMs_def)

end
