(* ===== verification/Subgraph_Base.thy ===== *)
theory Subgraph_Base
  imports Sdk_Prelude "HOL-Library.Word" "HOL-Library.Signed_Division"
begin

text \<open>
  The data of the subgraph, \<^verbatim>\<open>packages/subgraph\<close>: the entities of \<^verbatim>\<open>schema.graphql\<close> that its
  event handlers keep, the store that holds them, and the handlers' effects.

  \<^item> An entity is a record, loading one gives a copy, and \<open>save\<close> puts it in the store.  A
    field that may be null, or that the code leaves unset at first, is an option; reading
    an unset one aborts the handler, as does \<^verbatim>\<open>!\<close> on null.
  \<^item> A handler maps a store to its result and the store it leaves, or to an error; then
    the host drops what it did.
  \<^item> An \<^verbatim>\<open>i32\<close> is a 32-bit word, a \<^verbatim>\<open>BigInt\<close> an integer, an address its \<open>toHexString()\<close>.
  \<^item> \<^verbatim>\<open>BigDecimal\<close>, whose arithmetic is the host's, is a parameter: the record \<open>big_decimal\<close>
    of its operations, over an arbitrary type \<open>'d\<close>.
\<close>

section \<open>Numbers\<close>

type_synonym i32 = "32 word"
type_synonym address = string

definition show_int :: "int \<Rightarrow> string" where
  "show_int n = (if n < 0 then CHR ''-'' # show_nat (nat (- n)) else show_nat (nat n))"

definition show_i32 :: "i32 \<Rightarrow> string" where
  "show_i32 w = show_int (sint w)"

lemma show_nat_inj: "show_nat m = show_nat n \<Longrightarrow> m = n"
  by (metis nat_of_digits_show_nat)

lemma show_nat_not_minus: "show_nat n \<noteq> CHR ''-'' # xs"
  by (metis list.pred_inject(2) not_is_digit(3) show_nat_digits)

lemma show_i32_inj [simp]: "show_i32 a = show_i32 b \<longleftrightarrow> a = b"
proof
  have minus: "show_nat n \<noteq> CHR ''-'' # xs" "CHR ''-'' # xs \<noteq> show_nat n" for n xs
    using show_nat_not_minus by metis+
  assume "show_i32 a = show_i32 b"
  then have "sint a = sint b"
    by (auto simp: show_i32_def show_int_def minus split: if_splits dest!: show_nat_inj)
  then show "a = b" by (rule signed_word_eqI)
qed simp

text \<open>\<open>BigInt.toI32\<close> aborts when the number does not fit.\<close>

definition toI32 :: "int \<Rightarrow> i32 result" where
  "toI32 n = (if - (2 ^ 31) \<le> n \<and> n < 2 ^ 31 then Inr (word_of_int n)
              else Inl (Error ''integer does not fit in i32''))"

text \<open>The host's decimal numbers; \<open>bd_div\<close> is undefined for a zero divisor.\<close>

record 'd big_decimal =
  bd_fromString :: "string \<Rightarrow> 'd"
  bd_divDecimal :: "int \<Rightarrow> 'd \<Rightarrow> 'd"
  bd_plus :: "'d \<Rightarrow> 'd \<Rightarrow> 'd"
  bd_minus :: "'d \<Rightarrow> 'd \<Rightarrow> 'd"
  bd_times :: "'d \<Rightarrow> 'd \<Rightarrow> 'd"
  bd_div :: "'d \<Rightarrow> 'd \<Rightarrow> 'd option"
  bd_truncate :: "'d \<Rightarrow> nat \<Rightarrow> 'd"
  bd_equals :: "'d \<Rightarrow> 'd \<Rightarrow> bool"
  bd_less :: "'d \<Rightarrow> 'd \<Rightarrow> bool"
  bd_less_eq :: "'d \<Rightarrow> 'd \<Rightarrow> bool"

section \<open>Entities\<close>

record 'd global =
  systemStateCount :: i32
  transactionCount :: i32
  changeCount :: i32
  liquidationCount :: i32
  redemptionCount :: i32
  numberOfOpenTroves :: i32
  numberOfLiquidatedTroves :: i32
  numberOfRedeemedTroves :: i32
  numberOfTrovesClosedByOwner :: i32
  totalNumberOfTroves :: i32
  totalNumberOfProtocolTokenStakes :: i32
  numberOfActiveProtocolTokenStakes :: i32
  totalBorrowingFeesPaid :: 'd
  totalRedemptionFeesPaid :: 'd
  rawTotalRedistributedCollateral :: int
  rawTotalRedistributedDebt :: int
  currentSystemState :: "string option"
  currentLiquidation :: "string option"
  currentRedemption :: "string option"
  tmpDepositUpdate :: "int option"

record 'd system_state =
  ss_id :: string
  ss_sequenceNumber :: i32
  ss_price :: "'d option"
  totalCollateral :: 'd
  totalDebt :: 'd
  totalCollateralRatio :: "'d option"
  tokensInStabilityPool :: 'd
  collSurplusPoolBalance :: 'd
  totalProtocolTokensStaked :: 'd

record 'd user =
  user_id :: string
  user_trove :: "string option"
  user_stabilityDeposit :: "string option"
  user_stake :: "string option"
  user_frontend :: "string option"
  collSurplus :: 'd

record 'd trove_entity =
  trove_id :: string
  trove_owner :: string
  trove_status :: string
  trove_collateral :: 'd
  trove_debt :: 'd
  rawCollateral :: "int option"
  rawDebt :: "int option"
  rawStake :: "int option"
  rawSnapshotOfTotalRedistributedCollateral :: "int option"
  rawSnapshotOfTotalRedistributedDebt :: "int option"
  collateralRatioSortKey :: "int option"

record transaction =
  tx_id :: string
  tx_sequenceNumber :: i32
  tx_blockNumber :: i32
  tx_timestamp :: i32

text \<open>What every change entity has; \<open>systemStateAfter\<close> is set last.\<close>

record change =
  change_id :: string
  change_sequenceNumber :: i32
  change_transaction :: string
  systemStateBefore :: string
  systemStateAfter :: "string option"

record 'd trove_change =
  tc_change :: change
  tc_trove :: string
  troveOperation :: string
  collateralBefore :: 'd
  collateralChange :: 'd
  collateralAfter :: 'd
  debtBefore :: 'd
  debtChange :: 'd
  debtAfter :: 'd
  borrowingFee :: "'d option"
  collateralRatioBefore :: "'d option"
  collateralRatioAfter :: "'d option"
  tc_liquidation :: "string option"
  tc_redemption :: "string option"

record 'd price_change =
  pc_change :: change
  priceChange :: 'd

record 'd coll_surplus_change =
  cs_change :: change
  cs_user :: string
  collSurplusBefore :: 'd
  collSurplusChange :: 'd
  collSurplusAfter :: 'd

record 'd deposit_entity =
  deposit_id :: string
  deposit_owner :: string
  depositedAmount :: 'd
  deposit_frontend :: "string option"

record 'd deposit_change =
  dc_change :: change
  dc_stabilityDeposit :: string
  stabilityDepositOperation :: string
  depositedAmountBefore :: 'd
  depositedAmountChange :: 'd
  depositedAmountAfter :: 'd
  dc_collateralGain :: "'d option"

record 'd stake_entity =
  stake_id :: string
  stake_owner :: string
  stake_amount :: 'd

record 'd stake_entity_change =
  sc_change :: change
  sc_stake :: string
  stakeOperation :: string
  stakedAmountBefore :: 'd
  stakedAmountChange :: 'd
  stakedAmountAfter :: 'd
  issuanceGain :: 'd
  redemptionGain :: 'd

record 'd liquidation =
  liquidation_id :: string
  liquidation_sequenceNumber :: i32
  liquidation_transaction :: string
  liquidator :: string
  liquidatedDebt :: 'd
  liquidatedCollateral :: 'd
  collGasCompensation :: 'd
  tokenGasCompensation :: 'd

record 'd redemption =
  redemption_id :: string
  redemption_sequenceNumber :: i32
  redemption_transaction :: string
  redeemer :: string
  tokensAttemptedToRedeem :: 'd
  tokensActuallyRedeemed :: 'd
  collateralRedeemed :: 'd
  redemption_partial :: bool
  redemption_fee :: 'd

record token =
  token_id :: string
  token_name :: string
  token_symbol :: string
  totalSupply :: int

record token_balance =
  balance_id :: string
  balance_token :: string
  balance_owner :: string
  balance :: int

record token_allowance =
  allowance_id :: string
  allowance_token :: string
  allowance_owner :: string
  allowance_spender :: string
  allowance_value :: int

record 'd frontend_entity =
  frontend_id :: string
  frontend_owner :: string
  frontend_kickbackRate :: 'd

section \<open>The store\<close>

record 'd subgraph =
  globals :: "'d global option"
  systemStates :: "string \<rightharpoonup> 'd system_state"
  users :: "string \<rightharpoonup> 'd user"
  troves :: "string \<rightharpoonup> 'd trove_entity"
  transactions :: "string \<rightharpoonup> transaction"
  troveChanges :: "string \<rightharpoonup> 'd trove_change"
  priceChanges :: "string \<rightharpoonup> 'd price_change"
  collSurplusChanges :: "string \<rightharpoonup> 'd coll_surplus_change"
  depositEntities :: "string \<rightharpoonup> 'd deposit_entity"
  depositChanges :: "string \<rightharpoonup> 'd deposit_change"
  stakeEntities :: "string \<rightharpoonup> 'd stake_entity"
  stakeChanges :: "string \<rightharpoonup> 'd stake_entity_change"
  liquidations :: "string \<rightharpoonup> 'd liquidation"
  redemptions :: "string \<rightharpoonup> 'd redemption"
  tokens :: "string \<rightharpoonup> token"
  tokenBalances :: "string \<rightharpoonup> token_balance"
  tokenAllowances :: "string \<rightharpoonup> token_allowance"
  frontends :: "string \<rightharpoonup> 'd frontend_entity"

definition empty_subgraph :: "'d subgraph" where
  "empty_subgraph =
     \<lparr>globals = None, systemStates = Map.empty, users = Map.empty, troves = Map.empty,
      transactions = Map.empty, troveChanges = Map.empty, priceChanges = Map.empty,
      collSurplusChanges = Map.empty, depositEntities = Map.empty, depositChanges = Map.empty,
      stakeEntities = Map.empty, stakeChanges = Map.empty, liquidations = Map.empty,
      redemptions = Map.empty, tokens = Map.empty, tokenBalances = Map.empty,
      tokenAllowances = Map.empty, frontends = Map.empty\<rparr>"

text \<open>The part of an event every handler may read.\<close>

record event =
  event_address :: address
  event_hash :: string
  event_from :: address
  event_blockNumber :: int
  event_timestamp :: int

section \<open>Handlers\<close>

type_synonym ('d, 'a) handler = "'d subgraph \<Rightarrow> ('a \<times> 'd subgraph) result"

definition ret :: "'a \<Rightarrow> ('d, 'a) handler" where
  "ret x s = Inr (x, s)"

definition bind :: "('d, 'a) handler \<Rightarrow> ('a \<Rightarrow> ('d, 'b) handler) \<Rightarrow> ('d, 'b) handler" where
  "bind m f s = (case m s of Inl e \<Rightarrow> Inl e | Inr (x, s') \<Rightarrow> f x s')"

definition gets :: "('d subgraph \<Rightarrow> 'a) \<Rightarrow> ('d, 'a) handler" where
  "gets f s = Inr (f s, s)"

definition modify :: "('d subgraph \<Rightarrow> 'd subgraph) \<Rightarrow> ('d, unit) handler" where
  "modify f s = Inr ((), f s)"

definition lift_result :: "'a result \<Rightarrow> ('d, 'a) handler" where
  "lift_result r s = (case r of Inl e \<Rightarrow> Inl e | Inr x \<Rightarrow> Inr (x, s))"

text \<open>Reading a value that must be there.\<close>

definition require :: "'a option \<Rightarrow> ('d, 'a) handler" where
  "require x s = (case x of None \<Rightarrow> Inl (TypeError ''unexpected null'') | Some v \<Rightarrow> Inr (v, s))"

text \<open>Loading by an identifier that may be null finds nothing for null.\<close>

definition load_opt :: "(string \<rightharpoonup> 'a) \<Rightarrow> string option \<Rightarrow> 'a option" where
  "load_opt m i = (case i of None \<Rightarrow> None | Some k \<Rightarrow> m k)"

lemma ret_apply [simp]: "ret x s = Inr (x, s)" by (simp add: ret_def)
lemma gets_apply [simp]: "gets f s = Inr (f s, s)" by (simp add: gets_def)
lemma modify_apply [simp]: "modify f s = Inr ((), f s)" by (simp add: modify_def)

lemma bind_Inr:
  "bind m f s = Inr (y, s'') \<longleftrightarrow> (\<exists>x s'. m s = Inr (x, s') \<and> f x s' = Inr (y, s''))"
  by (auto simp: bind_def split: sum.splits)

lemma bind_apply [simp]:
  "bind (ret x) f s = f x s" "bind (gets g) f s = f (g s) s" "bind (modify h) k s = k () (h s)"
  by (simp_all add: bind_def)

lemma require_Inr: "require x s = Inr (v, s') \<longleftrightarrow> x = Some v \<and> s' = s"
  by (auto simp: require_def split: option.splits)

lemma require_Some [simp]: "require (Some v) s = Inr (v, s)"
  by (simp add: require_def)

lemma lift_result_Inr: "lift_result r s = Inr (v, s') \<longleftrightarrow> r = Inr v \<and> s' = s"
  by (auto simp: lift_result_def split: sum.splits)

section \<open>\<^verbatim>\<open>utils/bignumbers.ts\<close>, \<^verbatim>\<open>constants.ts\<close>, \<^verbatim>\<open>collateralRatio.ts\<close>\<close>

definition DECIMAL_PRECISION :: nat where
  "DECIMAL_PRECISION = 18"

definition DECIMAL_SCALING_FACTOR :: "'d big_decimal \<Rightarrow> 'd" where
  "DECIMAL_SCALING_FACTOR bd = bd_fromString bd ''1000000000000000000''"

definition BIGINT_SCALING_FACTOR :: int where
  "BIGINT_SCALING_FACTOR = 10 ^ 18"

definition DECIMAL_ZERO :: "'d big_decimal \<Rightarrow> 'd" where
  "DECIMAL_ZERO bd = bd_fromString bd ''0''"

definition DECIMAL_ONE :: "'d big_decimal \<Rightarrow> 'd" where
  "DECIMAL_ONE bd = bd_fromString bd ''1''"

definition DECIMAL_COLLATERAL_GAS_COMPENSATION_DIVISOR :: "'d big_decimal \<Rightarrow> 'd" where
  "DECIMAL_COLLATERAL_GAS_COMPENSATION_DIVISOR bd = bd_fromString bd ''200''"

definition decimalize :: "'d big_decimal \<Rightarrow> int \<Rightarrow> 'd" where
  "decimalize bd n = bd_divDecimal bd n (DECIMAL_SCALING_FACTOR bd)"

definition ZERO_ADDRESS :: address where
  "ZERO_ADDRESS = ''0x'' @ replicate 40 CHR ''0''"

text \<open>Dividing by zero aborts; the guard keeps the code from it.\<close>

definition calculateCollateralRatio ::
  "'d big_decimal \<Rightarrow> 'd \<Rightarrow> 'd \<Rightarrow> 'd \<Rightarrow> ('s, 'd option) handler" where
  "calculateCollateralRatio bd coll debt price =
     (if bd_equals bd debt (DECIMAL_ZERO bd) then ret None
      else bind (require (bd_div bd (bd_times bd coll price) debt))
             (\<lambda>q. ret (Some (bd_truncate bd q DECIMAL_PRECISION))))"

section \<open>\<^verbatim>\<open>types/TroveOperation.ts\<close>\<close>

definition getTroveOperationFromBorrowerOperation :: "i32 \<Rightarrow> string" where
  "getTroveOperationFromBorrowerOperation operation =
     (if operation = 0 then ''openTrove''
      else if operation = 1 then ''closeTrove''
      else if operation = 2 then ''adjustTrove''
      else ''unreached'')"

definition isBorrowerOperation :: "string \<Rightarrow> bool" where
  "isBorrowerOperation op \<longleftrightarrow> op = ''openTrove'' \<or> op = ''closeTrove'' \<or> op = ''adjustTrove''"

definition getTroveOperationFromTroveManagerOperation :: "i32 \<Rightarrow> string" where
  "getTroveOperationFromTroveManagerOperation operation =
     (if operation = 0 then ''accrueRewards''
      else if operation = 1 then ''liquidateInNormalMode''
      else if operation = 2 then ''liquidateInRecoveryMode''
      else if operation = 3 then ''redeemCollateral''
      else ''unreached'')"

definition isLiquidation :: "string \<Rightarrow> bool" where
  "isLiquidation op \<longleftrightarrow> op = ''liquidateInNormalMode'' \<or> op = ''liquidateInRecoveryMode''"

definition isRecoveryModeLiquidation :: "string \<Rightarrow> bool" where
  "isRecoveryModeLiquidation op \<longleftrightarrow> op = ''liquidateInRecoveryMode''"

definition isRedemption :: "string \<Rightarrow> bool" where
  "isRedemption op \<longleftrightarrow> op = ''redeemCollateral''"

end
