(* ===== verification/Subgraph_System.thy ===== *)
theory Subgraph_System
  imports Subgraph_Base
begin

text \<open>
  The bookkeeping every handler of the subgraph uses:
  \<^verbatim>\<open>packages/subgraph/src/entities/Global.ts\<close>, \<^verbatim>\<open>Transaction.ts\<close>, \<^verbatim>\<open>SystemState.ts\<close>,
  \<^verbatim>\<open>Change.ts\<close> and \<^verbatim>\<open>User.ts\<close>.  Counters are in one global entity; every change of the system
  is recorded with the system states before and after it.
\<close>

section \<open>\<^verbatim>\<open>Global.ts\<close>\<close>

definition new_Global :: "'d big_decimal \<Rightarrow> 'd global" where
  "new_Global bd =
     \<lparr>systemStateCount = 0, transactionCount = 0, changeCount = 0, liquidationCount = 0,
      redemptionCount = 0, numberOfOpenTroves = 0, numberOfLiquidatedTroves = 0,
      numberOfRedeemedTroves = 0, numberOfTrovesClosedByOwner = 0, totalNumberOfTroves = 0,
      totalNumberOfProtocolTokenStakes = 0, numberOfActiveProtocolTokenStakes = 0,
      totalBorrowingFeesPaid = DECIMAL_ZERO bd, totalRedemptionFeesPaid = DECIMAL_ZERO bd,
      rawTotalRedistributedCollateral = 0, rawTotalRedistributedDebt = 0,
      currentSystemState = None, currentLiquidation = None, currentRedemption = None,
      tmpDepositUpdate = None\<rparr>"

definition getGlobal :: "'d big_decimal \<Rightarrow> 'd subgraph \<Rightarrow> 'd global" where
  "getGlobal bd s = (case globals s of Some g \<Rightarrow> g | None \<Rightarrow> new_Global bd)"

text \<open>Get the global entity, change it, save it.\<close>

definition update_global ::
  "'d big_decimal \<Rightarrow> ('d global \<Rightarrow> 'd global) \<Rightarrow> 'd subgraph \<Rightarrow> 'd subgraph" where
  "update_global bd f s = s\<lparr>globals := Some (f (getGlobal bd s))\<rparr>"

datatype counter = SystemStateCount | TransactionCount | ChangeCount | LiquidationCount | RedemptionCount

fun get_counter :: "counter \<Rightarrow> 'd global \<Rightarrow> i32" where
  "get_counter SystemStateCount g = systemStateCount g"
| "get_counter TransactionCount g = transactionCount g"
| "get_counter ChangeCount g = changeCount g"
| "get_counter LiquidationCount g = liquidationCount g"
| "get_counter RedemptionCount g = redemptionCount g"

fun set_counter :: "counter \<Rightarrow> i32 \<Rightarrow> 'd global \<Rightarrow> 'd global" where
  "set_counter SystemStateCount n g = g\<lparr>systemStateCount := n\<rparr>"
| "set_counter TransactionCount n g = g\<lparr>transactionCount := n\<rparr>"
| "set_counter ChangeCount n g = g\<lparr>changeCount := n\<rparr>"
| "set_counter LiquidationCount n g = g\<lparr>liquidationCount := n\<rparr>"
| "set_counter RedemptionCount n g = g\<lparr>redemptionCount := n\<rparr>"

definition increaseCounter :: "'d big_decimal \<Rightarrow> counter \<Rightarrow> ('d, i32) handler" where
  "increaseCounter bd key =
     bind (gets (\<lambda>s. get_counter key (getGlobal bd s))) (\<lambda>count.
     bind (modify (update_global bd (set_counter key (count + 1)))) (\<lambda>_.
     ret count))"

definition getSystemStateSequenceNumber :: "'d big_decimal \<Rightarrow> ('d, i32) handler" where
  "getSystemStateSequenceNumber bd = increaseCounter bd SystemStateCount"

definition getTransactionSequenceNumber :: "'d big_decimal \<Rightarrow> ('d, i32) handler" where
  "getTransactionSequenceNumber bd = increaseCounter bd TransactionCount"

definition getChangeSequenceNumber :: "'d big_decimal \<Rightarrow> ('d, i32) handler" where
  "getChangeSequenceNumber bd = increaseCounter bd ChangeCount"

definition getLastChangeSequenceNumber :: "'d big_decimal \<Rightarrow> 'd subgraph \<Rightarrow> i32" where
  "getLastChangeSequenceNumber bd s = changeCount (getGlobal bd s) - 1"

definition getLiquidationSequenceNumber :: "'d big_decimal \<Rightarrow> ('d, i32) handler" where
  "getLiquidationSequenceNumber bd = increaseCounter bd LiquidationCount"

definition getRedemptionSequenceNumber :: "'d big_decimal \<Rightarrow> ('d, i32) handler" where
  "getRedemptionSequenceNumber bd = increaseCounter bd RedemptionCount"

definition updateTotalRedistributed :: "'d big_decimal \<Rightarrow> int \<Rightarrow> int \<Rightarrow> ('d, unit) handler" where
  "updateTotalRedistributed bd L_FIL L_Debt =
     modify (update_global bd (\<lambda>g. g\<lparr>rawTotalRedistributedCollateral := L_FIL,
                                     rawTotalRedistributedDebt := L_Debt\<rparr>))"

definition increaseNumberOfOpenTroves :: "'d big_decimal \<Rightarrow> ('d, unit) handler" where
  "increaseNumberOfOpenTroves bd =
     modify (update_global bd (\<lambda>g. g\<lparr>numberOfOpenTroves := numberOfOpenTroves g + 1,
                                     totalNumberOfTroves := totalNumberOfTroves g + 1\<rparr>))"

definition increaseNumberOfLiquidatedTroves :: "'d big_decimal \<Rightarrow> ('d, unit) handler" where
  "increaseNumberOfLiquidatedTroves bd =
     modify (update_global bd (\<lambda>g. g\<lparr>numberOfLiquidatedTroves := numberOfLiquidatedTroves g + 1,
                                     numberOfOpenTroves := numberOfOpenTroves g - 1\<rparr>))"

definition decreaseNumberOfLiquidatedTroves :: "'d big_decimal \<Rightarrow> ('d, unit) handler" where
  "decreaseNumberOfLiquidatedTroves bd =
     modify (update_global bd (\<lambda>g. g\<lparr>numberOfLiquidatedTroves := numberOfLiquidatedTroves g - 1,
                                     numberOfOpenTroves := numberOfOpenTroves g + 1\<rparr>))"

definition increaseNumberOfRedeemedTroves :: "'d big_decimal \<Rightarrow> ('d, unit) handler" where
  "increaseNumberOfRedeemedTroves bd =
     modify (update_global bd (\<lambda>g. g\<lparr>numberOfRedeemedTroves := numberOfRedeemedTroves g + 1,
                                     numberOfOpenTroves := numberOfOpenTroves g - 1\<rparr>))"

definition decreaseNumberOfRedeemedTroves :: "'d big_decimal \<Rightarrow> ('d, unit) handler" where
  "decreaseNumberOfRedeemedTroves bd =
     modify (update_global bd (\<lambda>g. g\<lparr>numberOfRedeemedTroves := numberOfRedeemedTroves g - 1,
                                     numberOfOpenTroves := numberOfOpenTroves g + 1\<rparr>))"

definition increaseNumberOfTrovesClosedByOwner :: "'d big_decimal \<Rightarrow> ('d, unit) handler" where
  "increaseNumberOfTrovesClosedByOwner bd =
     modify (update_global bd (\<lambda>g. g\<lparr>numberOfTrovesClosedByOwner := numberOfTrovesClosedByOwner g + 1,
                                     numberOfOpenTroves := numberOfOpenTroves g - 1\<rparr>))"

definition decreaseNumberOfTrovesClosedByOwner :: "'d big_decimal \<Rightarrow> ('d, unit) handler" where
  "decreaseNumberOfTrovesClosedByOwner bd =
     modify (update_global bd (\<lambda>g. g\<lparr>numberOfTrovesClosedByOwner := numberOfTrovesClosedByOwner g - 1,
                                     numberOfOpenTroves := numberOfOpenTroves g + 1\<rparr>))"

definition increaseTotalNumberOfProtocolTokenStakes :: "'d big_decimal \<Rightarrow> ('d, unit) handler" where
  "increaseTotalNumberOfProtocolTokenStakes bd =
     modify (update_global bd (\<lambda>g.
       g\<lparr>totalNumberOfProtocolTokenStakes := totalNumberOfProtocolTokenStakes g + 1,
         numberOfActiveProtocolTokenStakes := numberOfActiveProtocolTokenStakes g + 1\<rparr>))"

definition increaseNumberOfActiveProtocolTokenStakes :: "'d big_decimal \<Rightarrow> ('d, unit) handler" where
  "increaseNumberOfActiveProtocolTokenStakes bd =
     modify (update_global bd (\<lambda>g.
       g\<lparr>numberOfActiveProtocolTokenStakes := numberOfActiveProtocolTokenStakes g + 1\<rparr>))"

definition decreaseNumberOfActiveProtocolTokenStakes :: "'d big_decimal \<Rightarrow> ('d, unit) handler" where
  "decreaseNumberOfActiveProtocolTokenStakes bd =
     modify (update_global bd (\<lambda>g.
       g\<lparr>numberOfActiveProtocolTokenStakes := numberOfActiveProtocolTokenStakes g - 1\<rparr>))"

definition increaseTotalBorrowingFeesPaid :: "'d big_decimal \<Rightarrow> int \<Rightarrow> ('d, unit) handler" where
  "increaseTotalBorrowingFeesPaid bd debtTokenFee =
     modify (update_global bd (\<lambda>g.
       g\<lparr>totalBorrowingFeesPaid := bd_plus bd (totalBorrowingFeesPaid g) (decimalize bd debtTokenFee)\<rparr>))"

section \<open>\<^verbatim>\<open>Transaction.ts\<close>\<close>

definition getTransaction :: "'d big_decimal \<Rightarrow> event \<Rightarrow> ('d, transaction) handler" where
  "getTransaction bd event =
     (let transactionId = event_hash event in
      bind (gets (\<lambda>s. transactions s transactionId)) (\<lambda>transactionOrNull.
        case transactionOrNull of
          Some t \<Rightarrow> ret t
        | None \<Rightarrow>
            bind (getTransactionSequenceNumber bd) (\<lambda>n.
            bind (lift_result (toI32 (event_blockNumber event))) (\<lambda>blockNumber.
            bind (lift_result (toI32 (event_timestamp event))) (\<lambda>timestamp.
              let newTransaction =
                    \<lparr>tx_id = transactionId, tx_sequenceNumber = n,
                     tx_blockNumber = blockNumber, tx_timestamp = timestamp\<rparr>
              in bind (modify (\<lambda>s. s\<lparr>transactions := (transactions s)(transactionId \<mapsto> newTransaction)\<rparr>)) (\<lambda>_.
                 ret newTransaction))))))"

section \<open>\<^verbatim>\<open>SystemState.ts\<close>: the current state\<close>

definition save_systemState :: "'d system_state \<Rightarrow> ('d, unit) handler" where
  "save_systemState x = modify (\<lambda>s. s\<lparr>systemStates := (systemStates s)(ss_id x \<mapsto> x)\<rparr>)"

definition getCurrentSystemState :: "'d big_decimal \<Rightarrow> ('d, 'd system_state) handler" where
  "getCurrentSystemState bd =
     bind (gets (\<lambda>s. load_opt (systemStates s) (currentSystemState (getGlobal bd s)))) (\<lambda>currentOrNull.
       case currentOrNull of
         Some x \<Rightarrow> ret x
       | None \<Rightarrow>
           bind (getSystemStateSequenceNumber bd) (\<lambda>sequenceNumber.
             let newSystemState =
                   \<lparr>ss_id = show_i32 sequenceNumber, ss_sequenceNumber = sequenceNumber, ss_price = None,
                    totalCollateral = DECIMAL_ZERO bd, totalDebt = DECIMAL_ZERO bd,
                    totalCollateralRatio = None, tokensInStabilityPool = DECIMAL_ZERO bd,
                    collSurplusPoolBalance = DECIMAL_ZERO bd, totalProtocolTokensStaked = DECIMAL_ZERO bd\<rparr>
             in bind (save_systemState newSystemState) (\<lambda>_.
                bind (modify (update_global bd (\<lambda>g. g\<lparr>currentSystemState := Some (ss_id newSystemState)\<rparr>))) (\<lambda>_.
                ret newSystemState))))"

definition bumpSystemState :: "'d big_decimal \<Rightarrow> 'd system_state \<Rightarrow> ('d, unit) handler" where
  "bumpSystemState bd systemState =
     bind (getSystemStateSequenceNumber bd) (\<lambda>sequenceNumber.
       let systemState' = systemState\<lparr>ss_id := show_i32 sequenceNumber, ss_sequenceNumber := sequenceNumber\<rparr>
       in bind (save_systemState systemState') (\<lambda>_.
          modify (update_global bd (\<lambda>g. g\<lparr>currentSystemState := Some (ss_id systemState')\<rparr>))))"

definition getCurrentPrice :: "'d big_decimal \<Rightarrow> ('d, 'd) handler" where
  "getCurrentPrice bd = bind (getCurrentSystemState bd) (\<lambda>x. require (ss_price x))"

section \<open>\<^verbatim>\<open>Change.ts\<close>\<close>

definition beginChange :: "'d big_decimal \<Rightarrow> ('d, i32) handler" where
  "beginChange bd = getChangeSequenceNumber bd"

definition initChange :: "'d big_decimal \<Rightarrow> event \<Rightarrow> i32 \<Rightarrow> ('d, change) handler" where
  "initChange bd event sequenceNumber =
     bind (getTransaction bd event) (\<lambda>t.
     bind (getCurrentSystemState bd) (\<lambda>x.
       ret \<lparr>change_id = show_i32 sequenceNumber, change_sequenceNumber = sequenceNumber,
            change_transaction = tx_id t, systemStateBefore = ss_id x, systemStateAfter = None\<rparr>))"

definition finishChange :: "'d big_decimal \<Rightarrow> change \<Rightarrow> ('d, change) handler" where
  "finishChange bd c =
     bind (getCurrentSystemState bd) (\<lambda>x. ret (c\<lparr>systemStateAfter := Some (ss_id x)\<rparr>))"

text \<open>
  \<open>createTroveChange\<close>, \<open>createPriceChange\<close> and the like: begin a change and fill in what
  every change has.
\<close>

definition createChange :: "'d big_decimal \<Rightarrow> event \<Rightarrow> ('d, change) handler" where
  "createChange bd event = bind (beginChange bd) (initChange bd event)"

section \<open>\<^verbatim>\<open>SystemState.ts\<close>: updates\<close>

definition finishPriceChange :: "'d big_decimal \<Rightarrow> 'd price_change \<Rightarrow> ('d, unit) handler" where
  "finishPriceChange bd c =
     bind (finishChange bd (pc_change c)) (\<lambda>h.
       modify (\<lambda>s. s\<lparr>priceChanges := (priceChanges s)(change_id h \<mapsto> c\<lparr>pc_change := h\<rparr>)\<rparr>))"

definition updatePrice :: "'d big_decimal \<Rightarrow> event \<Rightarrow> int \<Rightarrow> ('d, unit) handler" where
  "updatePrice bd event lastGoodPrice =
     bind (getCurrentSystemState bd) (\<lambda>systemState.
       let newPrice = decimalize bd lastGoodPrice in
       case ss_price systemState of
         None \<Rightarrow> save_systemState (systemState\<lparr>ss_price := Some newPrice\<rparr>)
       | Some oldPrice \<Rightarrow>
           if \<not> bd_equals bd newPrice oldPrice then
             bind (createChange bd event) (\<lambda>h.
             bind (bumpSystemState bd (systemState\<lparr>ss_price := Some newPrice\<rparr>)) (\<lambda>_.
               finishPriceChange bd \<lparr>pc_change = h, priceChange = bd_minus bd newPrice oldPrice\<rparr>))
           else ret ())"

definition tryToOffsetWithTokensFromStabilityPool ::
  "'d big_decimal \<Rightarrow> 'd system_state \<Rightarrow> 'd \<Rightarrow> 'd \<Rightarrow> ('d, 'd system_state) handler" where
  "tryToOffsetWithTokensFromStabilityPool bd systemState collateralToLiquidate debtToLiquidate =
     (let tokens = tokensInStabilityPool systemState in
      if bd_less_eq bd debtToLiquidate tokens then
        ret (systemState
          \<lparr>totalCollateral := bd_minus bd (totalCollateral systemState) collateralToLiquidate,
           totalDebt := bd_minus bd (totalDebt systemState) debtToLiquidate,
           tokensInStabilityPool := bd_minus bd tokens debtToLiquidate\<rparr>)
      else if bd_less bd (DECIMAL_ZERO bd) tokens then
        bind (require (bd_div bd (bd_times bd collateralToLiquidate tokens) debtToLiquidate)) (\<lambda>q.
        ret (systemState
          \<lparr>totalCollateral := bd_minus bd (totalCollateral systemState) (bd_truncate bd q DECIMAL_PRECISION),
           totalDebt := bd_minus bd (totalDebt systemState) tokens,
           tokensInStabilityPool := DECIMAL_ZERO bd\<rparr>))
      else ret systemState)"

definition updateSystemStateByTroveChange :: "'d big_decimal \<Rightarrow> 'd trove_change \<Rightarrow> ('d, unit) handler" where
  "updateSystemStateByTroveChange bd troveChange =
     bind (getCurrentSystemState bd) (\<lambda>systemState.
       let operation = troveOperation troveChange in
     bind (if isBorrowerOperation operation \<or> isRedemption operation then
             ret (systemState
               \<lparr>totalCollateral := bd_plus bd (totalCollateral systemState) (collateralChange troveChange),
                totalDebt := bd_plus bd (totalDebt systemState) (debtChange troveChange)\<rparr>)
           else if isLiquidation operation then
             let collateral = collateralBefore troveChange; debt = debtBefore troveChange in
             bind (require (bd_div bd collateral (DECIMAL_COLLATERAL_GAS_COMPENSATION_DIVISOR bd))) (\<lambda>q.
             let collateralGasCompensation = bd_truncate bd q DECIMAL_PRECISION;
                 systemState1 = systemState\<lparr>totalCollateral :=
                   bd_minus bd (totalCollateral systemState) collateralGasCompensation\<rparr>
             in
             bind (if \<not> isRecoveryModeLiquidation operation then ret True
                   else bind (require (collateralRatioBefore troveChange)) (\<lambda>r.
                        ret (bd_less bd (DECIMAL_ONE bd) r))) (\<lambda>offset.
               if offset then
                 tryToOffsetWithTokensFromStabilityPool bd systemState1
                   (bd_minus bd collateral collateralGasCompensation) debt
               else ret systemState1))
           else ret systemState) (\<lambda>systemState2.
     bind (require (ss_price systemState2)) (\<lambda>price.
     bind (calculateCollateralRatio bd (totalCollateral systemState2) (totalDebt systemState2) price) (\<lambda>ratio.
       bumpSystemState bd (systemState2\<lparr>totalCollateralRatio := ratio\<rparr>)))))"

definition updateSystemStateByStabilityDepositChange ::
  "'d big_decimal \<Rightarrow> 'd deposit_change \<Rightarrow> ('d, unit) handler" where
  "updateSystemStateByStabilityDepositChange bd c =
     bind (getCurrentSystemState bd) (\<lambda>systemState.
       let operation = stabilityDepositOperation c in
       bumpSystemState bd
         (if operation = ''depositTokens'' \<or> operation = ''withdrawTokens''
          then systemState\<lparr>tokensInStabilityPool :=
                 bd_plus bd (tokensInStabilityPool systemState) (depositedAmountChange c)\<rparr>
          else systemState))"

definition updateSystemStateByCollSurplusChange ::
  "'d big_decimal \<Rightarrow> 'd coll_surplus_change \<Rightarrow> ('d, unit) handler" where
  "updateSystemStateByCollSurplusChange bd c =
     bind (getCurrentSystemState bd) (\<lambda>systemState.
       bumpSystemState bd (systemState\<lparr>collSurplusPoolBalance :=
         bd_plus bd (collSurplusPoolBalance systemState) (collSurplusChange c)\<rparr>))"

definition updateSystemStateByProtocolTokenStakeChange ::
  "'d big_decimal \<Rightarrow> 'd stake_entity_change \<Rightarrow> ('d, unit) handler" where
  "updateSystemStateByProtocolTokenStakeChange bd c =
     bind (getCurrentSystemState bd) (\<lambda>systemState.
       bumpSystemState bd (systemState\<lparr>totalProtocolTokensStaked :=
         bd_plus bd (totalProtocolTokensStaked systemState) (stakedAmountChange c)\<rparr>))"

section \<open>\<^verbatim>\<open>User.ts\<close>\<close>

definition save_user :: "'d user \<Rightarrow> ('d, unit) handler" where
  "save_user u = modify (\<lambda>s. s\<lparr>users := (users s)(user_id u \<mapsto> u)\<rparr>)"

definition getUser :: "'d big_decimal \<Rightarrow> address \<Rightarrow> ('d, 'd user) handler" where
  "getUser bd i =
     bind (gets (\<lambda>s. users s i)) (\<lambda>userOrNull.
       case userOrNull of
         Some u \<Rightarrow> ret u
       | None \<Rightarrow>
           (let newUser = \<lparr>user_id = i, user_trove = None, user_stabilityDeposit = None,
                           user_stake = None, user_frontend = None, collSurplus = DECIMAL_ZERO bd\<rparr>
            in bind (save_user newUser) (\<lambda>_. ret newUser)))"

definition finishCollSurplusChange :: "'d big_decimal \<Rightarrow> 'd coll_surplus_change \<Rightarrow> ('d, unit) handler" where
  "finishCollSurplusChange bd c =
     bind (finishChange bd (cs_change c)) (\<lambda>h.
       modify (\<lambda>s. s\<lparr>collSurplusChanges := (collSurplusChanges s)(change_id h \<mapsto> c\<lparr>cs_change := h\<rparr>)\<rparr>))"

definition updateUserClaimColl :: "'d big_decimal \<Rightarrow> event \<Rightarrow> address \<Rightarrow> int \<Rightarrow> ('d, unit) handler" where
  "updateUserClaimColl bd event borrower amount =
     bind (getUser bd borrower) (\<lambda>user.
       let newCollSurplus = decimalize bd amount in
       if bd_equals bd newCollSurplus (collSurplus user) then ret ()
       else
         bind (createChange bd event) (\<lambda>h.
           let c = \<lparr>cs_change = h, cs_user = user_id user, collSurplusBefore = collSurplus user,
                    collSurplusChange = bd_minus bd newCollSurplus (collSurplus user),
                    collSurplusAfter = newCollSurplus\<rparr>
           in bind (updateSystemStateByCollSurplusChange bd c) (\<lambda>_.
              bind (finishCollSurplusChange bd c) (\<lambda>_.
              save_user (user\<lparr>collSurplus := newCollSurplus\<rparr>)))))"

end
