(* ===== verification/Subgraph_Troves.thy ===== *)
theory Subgraph_Troves
  imports Subgraph_System
begin

text \<open>
  Troves in the subgraph, with the liquidations and redemptions that change them:
  \<^verbatim>\<open>packages/subgraph/src/entities/Liquidation.ts\<close>, \<^verbatim>\<open>Redemption.ts\<close> and \<^verbatim>\<open>Trove.ts\<close>.
\<close>

section \<open>\<^verbatim>\<open>Liquidation.ts\<close>\<close>

definition save_liquidation :: "'d liquidation \<Rightarrow> ('d, unit) handler" where
  "save_liquidation l = modify (\<lambda>s. s\<lparr>liquidations := (liquidations s)(liquidation_id l \<mapsto> l)\<rparr>)"

definition getCurrentLiquidation :: "'d big_decimal \<Rightarrow> event \<Rightarrow> ('d, 'd liquidation) handler" where
  "getCurrentLiquidation bd event =
     bind (gets (\<lambda>s. load_opt (liquidations s) (currentLiquidation (getGlobal bd s)))) (\<lambda>currentOrNull.
       case currentOrNull of
         Some l \<Rightarrow> ret l
       | None \<Rightarrow>
           bind (getLiquidationSequenceNumber bd) (\<lambda>sequenceNumber.
           bind (getTransaction bd event) (\<lambda>t.
           bind (getUser bd (event_from event)) (\<lambda>u.
             let newLiquidation =
                   \<lparr>liquidation_id = show_i32 sequenceNumber, liquidation_sequenceNumber = sequenceNumber,
                    liquidation_transaction = tx_id t, liquidator = user_id u,
                    liquidatedDebt = DECIMAL_ZERO bd, liquidatedCollateral = DECIMAL_ZERO bd,
                    collGasCompensation = DECIMAL_ZERO bd, tokenGasCompensation = DECIMAL_ZERO bd\<rparr>
             in bind (save_liquidation newLiquidation) (\<lambda>_.
                bind (modify (update_global bd (\<lambda>g. g\<lparr>currentLiquidation := Some (liquidation_id newLiquidation)\<rparr>))) (\<lambda>_.
                ret newLiquidation))))))"

definition finishCurrentLiquidation ::
  "'d big_decimal \<Rightarrow> event \<Rightarrow> int \<Rightarrow> int \<Rightarrow> int \<Rightarrow> int \<Rightarrow> ('d, unit) handler" where
  "finishCurrentLiquidation bd event coll debt collGas debtGas =
     bind (getCurrentLiquidation bd event) (\<lambda>l.
     bind (save_liquidation (l\<lparr>liquidatedCollateral := decimalize bd coll,
                               liquidatedDebt := decimalize bd debt,
                               collGasCompensation := decimalize bd collGas,
                               tokenGasCompensation := decimalize bd debtGas\<rparr>)) (\<lambda>_.
       modify (update_global bd (\<lambda>g. g\<lparr>currentLiquidation := None\<rparr>))))"

section \<open>\<^verbatim>\<open>Redemption.ts\<close>\<close>

definition save_redemption :: "'d redemption \<Rightarrow> ('d, unit) handler" where
  "save_redemption r = modify (\<lambda>s. s\<lparr>redemptions := (redemptions s)(redemption_id r \<mapsto> r)\<rparr>)"

definition getCurrentRedemption :: "'d big_decimal \<Rightarrow> event \<Rightarrow> ('d, 'd redemption) handler" where
  "getCurrentRedemption bd event =
     bind (gets (\<lambda>s. load_opt (redemptions s) (currentRedemption (getGlobal bd s)))) (\<lambda>currentOrNull.
       case currentOrNull of
         Some r \<Rightarrow> ret r
       | None \<Rightarrow>
           bind (getRedemptionSequenceNumber bd) (\<lambda>sequenceNumber.
           bind (getTransaction bd event) (\<lambda>t.
           bind (getUser bd (event_from event)) (\<lambda>u.
             let newRedemption =
                   \<lparr>redemption_id = show_i32 sequenceNumber, redemption_sequenceNumber = sequenceNumber,
                    redemption_transaction = tx_id t, redeemer = user_id u,
                    tokensAttemptedToRedeem = DECIMAL_ZERO bd, tokensActuallyRedeemed = DECIMAL_ZERO bd,
                    collateralRedeemed = DECIMAL_ZERO bd, redemption_partial = False,
                    redemption_fee = DECIMAL_ZERO bd\<rparr>
             in bind (save_redemption newRedemption) (\<lambda>_.
                bind (modify (update_global bd (\<lambda>g. g\<lparr>currentRedemption := Some (redemption_id newRedemption)\<rparr>))) (\<lambda>_.
                ret newRedemption))))))"

definition finishCurrentRedemption ::
  "'d big_decimal \<Rightarrow> event \<Rightarrow> int \<Rightarrow> int \<Rightarrow> int \<Rightarrow> int \<Rightarrow> ('d, unit) handler" where
  "finishCurrentRedemption bd event attempted actual sent FILFee =
     (let fee = decimalize bd FILFee in
     bind (getCurrentRedemption bd event) (\<lambda>r.
     bind (save_redemption (r\<lparr>tokensAttemptedToRedeem := decimalize bd attempted,
                              tokensActuallyRedeemed := decimalize bd actual,
                              collateralRedeemed := decimalize bd sent,
                              redemption_partial := actual < attempted,
                              redemption_fee := fee\<rparr>)) (\<lambda>_.
       modify (update_global bd (\<lambda>g. g\<lparr>currentRedemption := None,
                                       totalRedemptionFeesPaid := bd_plus bd (totalRedemptionFeesPaid g) fee\<rparr>)))))"

section \<open>\<^verbatim>\<open>Trove.ts\<close>\<close>

text \<open>A new trove is counted, and its owner points to it, but it is not saved yet.\<close>

definition getTrove_entity :: "'d big_decimal \<Rightarrow> address \<Rightarrow> ('d, 'd trove_entity) handler" where
  "getTrove_entity bd i =
     bind (gets (\<lambda>s. troves s i)) (\<lambda>troveOrNull.
       case troveOrNull of
         Some t \<Rightarrow> ret t
       | None \<Rightarrow>
           bind (getUser bd i) (\<lambda>owner.
             let newTrove =
                   \<lparr>trove_id = i, trove_owner = user_id owner, trove_status = ''open'',
                    trove_collateral = DECIMAL_ZERO bd, trove_debt = DECIMAL_ZERO bd,
                    rawCollateral = None, rawDebt = None, rawStake = None,
                    rawSnapshotOfTotalRedistributedCollateral = None,
                    rawSnapshotOfTotalRedistributedDebt = None, collateralRatioSortKey = None\<rparr>
             in bind (increaseNumberOfOpenTroves bd) (\<lambda>_.
                bind (save_user (owner\<lparr>user_trove := Some (trove_id newTrove)\<rparr>)) (\<lambda>_.
                ret newTrove))))"

definition setTroveStatus :: "'d big_decimal \<Rightarrow> 'd trove_entity \<Rightarrow> string \<Rightarrow> ('d, 'd trove_entity) handler" where
  "setTroveStatus bd trove status =
     (let statusBefore = trove_status trove in
      if status \<noteq> statusBefore then
        bind (if status = ''open'' then
                (if statusBefore = ''closedByOwner'' then decreaseNumberOfTrovesClosedByOwner bd
                 else if statusBefore = ''closedByLiquidation'' then decreaseNumberOfLiquidatedTroves bd
                 else if statusBefore = ''closedByRedemption'' then decreaseNumberOfRedeemedTroves bd
                 else ret ())
              else if status = ''closedByOwner'' then increaseNumberOfTrovesClosedByOwner bd
              else if status = ''closedByLiquidation'' then increaseNumberOfLiquidatedTroves bd
              else if status = ''closedByRedemption'' then increaseNumberOfRedeemedTroves bd
              else ret ()) (\<lambda>_.
          ret (trove\<lparr>trove_status := status\<rparr>))
      else ret trove)"

definition finishTroveChange :: "'d big_decimal \<Rightarrow> 'd trove_change \<Rightarrow> ('d, unit) handler" where
  "finishTroveChange bd c =
     bind (finishChange bd (tc_change c)) (\<lambda>h.
       modify (\<lambda>s. s\<lparr>troveChanges := (troveChanges s)(change_id h \<mapsto> c\<lparr>tc_change := h\<rparr>)\<rparr>))"

text \<open>
  \<open>BigInt.div\<close> truncates.  The trove's raw fields after the update, and the status its
  collateral and the operation give.
\<close>

definition set_raw :: "'d global \<Rightarrow> int \<Rightarrow> int \<Rightarrow> int \<Rightarrow> 'd trove_entity \<Rightarrow> 'd trove_entity" where
  "set_raw global coll debt stake trove =
     (let trove = trove\<lparr>rawCollateral := Some coll, rawDebt := Some debt, rawStake := Some stake\<rparr>
      in if stake \<noteq> 0 then
           trove\<lparr>rawSnapshotOfTotalRedistributedCollateral := Some (rawTotalRedistributedCollateral global),
                 rawSnapshotOfTotalRedistributedDebt := Some (rawTotalRedistributedDebt global),
                 collateralRatioSortKey :=
                   Some ((debt * BIGINT_SCALING_FACTOR) sdiv stake - rawTotalRedistributedDebt global)\<rparr>
         else
           trove\<lparr>rawSnapshotOfTotalRedistributedCollateral := Some 0,
                 rawSnapshotOfTotalRedistributedDebt := Some 0,
                 collateralRatioSortKey := None\<rparr>)"

definition status_after :: "string \<Rightarrow> int \<Rightarrow> string" where
  "status_after operation coll =
     (if coll = 0 then
        (if isLiquidation operation then ''closedByLiquidation''
         else if isRedemption operation then ''closedByRedemption''
         else ''closedByOwner'')
      else ''open'')"

definition updateTrove ::
  "'d big_decimal \<Rightarrow> event \<Rightarrow> string \<Rightarrow> address \<Rightarrow> int \<Rightarrow> int \<Rightarrow> int \<Rightarrow> ('d, unit) handler" where
  "updateTrove bd event operation borrower coll debt stake =
     bind (gets (getGlobal bd)) (\<lambda>global.
     bind (getTrove_entity bd borrower) (\<lambda>trove.
       let newCollateral = decimalize bd coll; newDebt = decimalize bd debt in
       if bd_equals bd newCollateral (trove_collateral trove) \<and> bd_equals bd newDebt (trove_debt trove)
       then ret ()
       else
         bind (createChange bd event) (\<lambda>h.
         bind (getCurrentPrice bd) (\<lambda>price.
         bind (calculateCollateralRatio bd (trove_collateral trove) (trove_debt trove) price) (\<lambda>ratioBefore.
         bind (calculateCollateralRatio bd newCollateral newDebt price) (\<lambda>ratioAfter.
         bind (if isLiquidation operation
               then bind (getCurrentLiquidation bd event) (\<lambda>l. ret (Some (liquidation_id l)))
               else ret None) (\<lambda>liquidationOrNull.
         bind (if isRedemption operation
               then bind (getCurrentRedemption bd event) (\<lambda>r. ret (Some (redemption_id r)))
               else ret None) (\<lambda>redemptionOrNull.
           let troveChange =
                 \<lparr>tc_change = h, tc_trove = trove_id trove, troveOperation = operation,
                  collateralBefore = trove_collateral trove,
                  collateralChange = bd_minus bd newCollateral (trove_collateral trove),
                  collateralAfter = newCollateral,
                  debtBefore = trove_debt trove,
                  debtChange = bd_minus bd newDebt (trove_debt trove),
                  debtAfter = newDebt,
                  borrowingFee = None,
                  collateralRatioBefore = ratioBefore,
                  collateralRatioAfter = ratioAfter,
                  tc_liquidation = liquidationOrNull,
                  tc_redemption = redemptionOrNull\<rparr>
           in
         bind (updateSystemStateByTroveChange bd troveChange) (\<lambda>_.
         bind (finishTroveChange bd troveChange) (\<lambda>_.
         bind (setTroveStatus bd
                 (set_raw global coll debt stake
                   (trove\<lparr>trove_collateral := newCollateral, trove_debt := newDebt\<rparr>))
                 (status_after operation coll)) (\<lambda>trove'.
           modify (\<lambda>s. s\<lparr>troves := (troves s)(trove_id trove' \<mapsto> trove')\<rparr>))))))))))))"

definition setBorrowingFeeOfLastTroveChange :: "'d big_decimal \<Rightarrow> int \<Rightarrow> ('d, unit) handler" where
  "setBorrowingFeeOfLastTroveChange bd debtTokenFee =
     bind (gets (getLastChangeSequenceNumber bd)) (\<lambda>n.
     bind (gets (\<lambda>s. troveChanges s (show_i32 n))) (\<lambda>lastOrNull.
     bind (require lastOrNull) (\<lambda>lastTroveChange.
       let c = lastTroveChange\<lparr>borrowingFee := Some (decimalize bd debtTokenFee)\<rparr>
       in modify (\<lambda>s. s\<lparr>troveChanges := (troveChanges s)(change_id (tc_change c) \<mapsto> c)\<rparr>))))"

definition applyRedistributionToTroveBeforeLiquidation ::
  "'d big_decimal \<Rightarrow> event \<Rightarrow> address \<Rightarrow> ('d, unit) handler" where
  "applyRedistributionToTroveBeforeLiquidation bd event borrower =
     bind (gets (getGlobal bd)) (\<lambda>global.
     bind (getTrove_entity bd borrower) (\<lambda>trove.
     bind (require (rawSnapshotOfTotalRedistributedCollateral trove)) (\<lambda>snapshotCollateral.
     bind (require (rawStake trove)) (\<lambda>stake.
     bind (require (rawSnapshotOfTotalRedistributedDebt trove)) (\<lambda>snapshotDebt.
     bind (require (rawCollateral trove)) (\<lambda>coll.
     bind (require (rawDebt trove)) (\<lambda>debt.
       let redistributedCollateral =
             ((rawTotalRedistributedCollateral global - snapshotCollateral) * stake) sdiv BIGINT_SCALING_FACTOR;
           redistributedDebt =
             ((rawTotalRedistributedDebt global - snapshotDebt) * stake) sdiv BIGINT_SCALING_FACTOR
       in updateTrove bd event ''accrueRewards'' borrower
            (coll + redistributedCollateral) (debt + redistributedDebt) 0)))))))"

end
