(* ===== verification/Subgraph_Pools.thy ===== *)
theory Subgraph_Pools
  imports Subgraph_System
begin

text \<open>
  Deposits, stakes, frontends and tokens in the subgraph:
  \<^verbatim>\<open>packages/subgraph/src/entities/StabilityDeposit.ts\<close>, \<^verbatim>\<open>ProtocolTokenStake.ts\<close>,
  \<^verbatim>\<open>Frontend.ts\<close>, \<^verbatim>\<open>Token.ts\<close>, \<^verbatim>\<open>TokenBalance.ts\<close> and \<^verbatim>\<open>TokenAllowance.ts\<close>.
\<close>

section \<open>\<^verbatim>\<open>StabilityDeposit.ts\<close>\<close>

definition getStabilityDeposit_entity :: "'d big_decimal \<Rightarrow> address \<Rightarrow> ('d, 'd deposit_entity) handler" where
  "getStabilityDeposit_entity bd i =
     bind (gets (\<lambda>s. depositEntities s i)) (\<lambda>depositOrNull.
       case depositOrNull of
         Some d \<Rightarrow> ret d
       | None \<Rightarrow>
           bind (getUser bd i) (\<lambda>owner.
             let newDeposit = \<lparr>deposit_id = i, deposit_owner = user_id owner,
                               depositedAmount = DECIMAL_ZERO bd, deposit_frontend = None\<rparr>
             in bind (save_user (owner\<lparr>user_stabilityDeposit := Some (deposit_id newDeposit)\<rparr>)) (\<lambda>_.
                ret newDeposit)))"

definition finishStabilityDepositChange :: "'d big_decimal \<Rightarrow> 'd deposit_change \<Rightarrow> ('d, unit) handler" where
  "finishStabilityDepositChange bd c =
     bind (finishChange bd (dc_change c)) (\<lambda>h.
       modify (\<lambda>s. s\<lparr>depositChanges := (depositChanges s)(change_id h \<mapsto> c\<lparr>dc_change := h\<rparr>)\<rparr>))"

definition save_deposit :: "'d deposit_entity \<Rightarrow> ('d, unit) handler" where
  "save_deposit d = modify (\<lambda>s. s\<lparr>depositEntities := (depositEntities s)(deposit_id d \<mapsto> d)\<rparr>)"

definition updateStabilityDepositByOperation ::
  "'d big_decimal \<Rightarrow> event \<Rightarrow> 'd deposit_entity \<Rightarrow> string \<Rightarrow> 'd \<Rightarrow> 'd option \<Rightarrow> ('d, 'd deposit_entity) handler" where
  "updateStabilityDepositByOperation bd event deposit operation newDepositedAmount gain =
     bind (createChange bd event) (\<lambda>h.
       let c = \<lparr>dc_change = h, dc_stabilityDeposit = deposit_id deposit,
                stabilityDepositOperation = operation,
                depositedAmountBefore = depositedAmount deposit,
                depositedAmountChange = bd_minus bd newDepositedAmount (depositedAmount deposit),
                depositedAmountAfter = newDepositedAmount,
                dc_collateralGain = gain\<rparr>
       in bind (updateSystemStateByStabilityDepositChange bd c) (\<lambda>_.
          bind (finishStabilityDepositChange bd c) (\<lambda>_.
          ret (deposit\<lparr>depositedAmount := newDepositedAmount\<rparr>))))"

definition updateStabilityDeposit :: "'d big_decimal \<Rightarrow> event \<Rightarrow> address \<Rightarrow> int \<Rightarrow> ('d, unit) handler" where
  "updateStabilityDeposit bd event i amount =
     bind (getStabilityDeposit_entity bd i) (\<lambda>deposit.
       let newDepositedAmount = decimalize bd amount in
     bind (getUser bd i) (\<lambda>owner.
       if bd_equals bd newDepositedAmount (depositedAmount deposit) then ret ()
       else
         let deposit' = (if user_frontend owner \<noteq> deposit_frontend deposit
                         then deposit\<lparr>deposit_frontend := user_frontend owner\<rparr> else deposit) in
         bind (updateStabilityDepositByOperation bd event deposit'
                 (if bd_less bd (depositedAmount deposit') newDepositedAmount
                  then ''depositTokens'' else ''withdrawTokens'')
                 newDepositedAmount None) save_deposit))"

definition withdrawCollateralGainFromStabilityDeposit ::
  "'d big_decimal \<Rightarrow> event \<Rightarrow> address \<Rightarrow> int \<Rightarrow> int \<Rightarrow> ('d, unit) handler" where
  "withdrawCollateralGainFromStabilityDeposit bd event i FIL debtTokenLoss =
     (if FIL = 0 \<and> debtTokenLoss = 0 then ret ()
      else
        bind (getStabilityDeposit_entity bd i) (\<lambda>deposit.
        bind (updateStabilityDepositByOperation bd event deposit ''withdrawCollateralGain''
                (bd_minus bd (depositedAmount deposit) (decimalize bd debtTokenLoss))
                (Some (decimalize bd FIL))) save_deposit))"

section \<open>\<^verbatim>\<open>ProtocolTokenStake.ts\<close>\<close>

definition finishProtocolTokenStakeChange :: "'d big_decimal \<Rightarrow> 'd stake_entity_change \<Rightarrow> ('d, unit) handler" where
  "finishProtocolTokenStakeChange bd c =
     bind (finishChange bd (sc_change c)) (\<lambda>h.
       modify (\<lambda>s. s\<lparr>stakeChanges := (stakeChanges s)(change_id h \<mapsto> c\<lparr>sc_change := h\<rparr>)\<rparr>))"

definition getUserStake :: "'d big_decimal \<Rightarrow> address \<Rightarrow> ('d, 'd stake_entity option) handler" where
  "getUserStake bd i =
     bind (getUser bd i) (\<lambda>user. gets (\<lambda>s. load_opt (stakeEntities s) (user_stake user)))"

definition createStake :: "'d big_decimal \<Rightarrow> address \<Rightarrow> ('d, 'd stake_entity) handler" where
  "createStake bd i =
     bind (getUser bd i) (\<lambda>user.
       let stake = \<lparr>stake_id = i, stake_owner = user_id user, stake_amount = DECIMAL_ZERO bd\<rparr>
       in bind (save_user (user\<lparr>user_stake := Some (stake_id stake)\<rparr>)) (\<lambda>_. ret stake))"

definition getOperationType :: "'d big_decimal \<Rightarrow> 'd stake_entity \<Rightarrow> 'd \<Rightarrow> string" where
  "getOperationType bd stake nextStakeAmount =
     (if bd_equals bd (stake_amount stake) (DECIMAL_ZERO bd) \<and> bd_less bd (DECIMAL_ZERO bd) nextStakeAmount
      then ''stakeCreated''
      else if bd_less bd (stake_amount stake) nextStakeAmount then ''stakeIncreased''
      else if bd_equals bd nextStakeAmount (DECIMAL_ZERO bd) then ''stakeRemoved''
      else ''stakeDecreased'')"

definition save_stake :: "'d stake_entity \<Rightarrow> ('d, unit) handler" where
  "save_stake x = modify (\<lambda>s. s\<lparr>stakeEntities := (stakeEntities s)(stake_id x \<mapsto> x)\<rparr>)"

definition updateStake :: "'d big_decimal \<Rightarrow> event \<Rightarrow> address \<Rightarrow> int \<Rightarrow> ('d, unit) handler" where
  "updateStake bd event i newStake =
     bind (getUserStake bd i) (\<lambda>stakeOrNull.
     bind (case stakeOrNull of None \<Rightarrow> createStake bd i | Some x \<Rightarrow> ret x) (\<lambda>stake.
       let nextStakeAmount = decimalize bd newStake in
     bind (createChange bd event) (\<lambda>h.
       let c = \<lparr>sc_change = h, sc_stake = stake_id stake,
                stakeOperation = getOperationType bd stake nextStakeAmount,
                stakedAmountBefore = stake_amount stake,
                stakedAmountChange = bd_minus bd nextStakeAmount (stake_amount stake),
                stakedAmountAfter = nextStakeAmount,
                issuanceGain = DECIMAL_ZERO bd, redemptionGain = DECIMAL_ZERO bd\<rparr>
       in
     bind (if stakeOperation c = ''stakeCreated'' then
             (if stakeOrNull = None then increaseTotalNumberOfProtocolTokenStakes bd
              else increaseNumberOfActiveProtocolTokenStakes bd)
           else if stakeOperation c = ''stakeRemoved'' then decreaseNumberOfActiveProtocolTokenStakes bd
           else ret ()) (\<lambda>_.
     bind (updateSystemStateByProtocolTokenStakeChange bd c) (\<lambda>_.
     bind (finishProtocolTokenStakeChange bd c) (\<lambda>_.
       save_stake (stake\<lparr>stake_amount := nextStakeAmount\<rparr>)))))))"

definition withdrawStakeGains :: "'d big_decimal \<Rightarrow> event \<Rightarrow> address \<Rightarrow> int \<Rightarrow> int \<Rightarrow> ('d, unit) handler" where
  "withdrawStakeGains bd event i debtTokenGain FILGain =
     (if debtTokenGain = 0 \<and> FILGain = 0 then ret ()
      else
        bind (getUserStake bd i) (\<lambda>stakeOrNull.
        bind (case stakeOrNull of None \<Rightarrow> createStake bd i | Some x \<Rightarrow> ret x) (\<lambda>stake.
        bind (createChange bd event) (\<lambda>h.
          let c = \<lparr>sc_change = h, sc_stake = stake_id stake, stakeOperation = ''gainsWithdrawn'',
                   stakedAmountBefore = stake_amount stake, stakedAmountChange = DECIMAL_ZERO bd,
                   stakedAmountAfter = stake_amount stake,
                   issuanceGain = decimalize bd debtTokenGain, redemptionGain = decimalize bd FILGain\<rparr>
          in
        bind (updateSystemStateByProtocolTokenStakeChange bd c) (\<lambda>_.
        bind (finishProtocolTokenStakeChange bd c) (\<lambda>_.
          save_stake stake))))))"

section \<open>\<^verbatim>\<open>Frontend.ts\<close>\<close>

definition registerFrontend :: "'d big_decimal \<Rightarrow> address \<Rightarrow> int \<Rightarrow> ('d, unit) handler" where
  "registerFrontend bd ownerAddress kickbackRate =
     bind (getUser bd ownerAddress) (\<lambda>owner.
       let frontend = \<lparr>frontend_id = user_id owner, frontend_owner = user_id owner,
                       frontend_kickbackRate = decimalize bd kickbackRate\<rparr>
       in modify (\<lambda>s. s\<lparr>frontends := (frontends s)(frontend_id frontend \<mapsto> frontend)\<rparr>))"

definition assignFrontendToDepositor :: "'d big_decimal \<Rightarrow> address \<Rightarrow> address \<Rightarrow> ('d, unit) handler" where
  "assignFrontendToDepositor bd depositorAddress frontendAddress =
     bind (gets (\<lambda>s. frontends s frontendAddress)) (\<lambda>frontendOrNull.
       case frontendOrNull of
         None \<Rightarrow> ret ()
       | Some frontend \<Rightarrow>
           bind (getUser bd depositorAddress) (\<lambda>depositor.
             save_user (depositor\<lparr>user_frontend := Some (frontend_id frontend)\<rparr>)))"

section \<open>\<^verbatim>\<open>Token.ts\<close>, \<^verbatim>\<open>TokenBalance.ts\<close>, \<^verbatim>\<open>TokenAllowance.ts\<close>\<close>

text \<open>The contract's \<open>name()\<close> and \<open>symbol()\<close> are calls to the chain: an argument.\<close>

type_synonym erc20 = "address \<Rightarrow> string \<times> string"

definition save_token :: "token \<Rightarrow> ('d, unit) handler" where
  "save_token t = modify (\<lambda>s. s\<lparr>tokens := (tokens s)(token_id t \<mapsto> t)\<rparr>)"

definition createToken :: "address \<Rightarrow> string \<Rightarrow> string \<Rightarrow> ('d, token) handler" where
  "createToken i name symbol =
     (let token = \<lparr>token_id = i, token_name = name, token_symbol = symbol, totalSupply = 0\<rparr>
      in bind (save_token token) (\<lambda>_. ret token))"

definition getToken :: "erc20 \<Rightarrow> address \<Rightarrow> ('d, token) handler" where
  "getToken contract i =
     bind (gets (\<lambda>s. tokens s i)) (\<lambda>tokenOrNull.
       case tokenOrNull of
         Some t \<Rightarrow> ret t
       | None \<Rightarrow> createToken i (fst (contract i)) (snd (contract i)))"

definition save_balance :: "token_balance \<Rightarrow> ('d, unit) handler" where
  "save_balance b = modify (\<lambda>s. s\<lparr>tokenBalances := (tokenBalances s)(balance_id b \<mapsto> b)\<rparr>)"

definition getTokenBalance :: "'d big_decimal \<Rightarrow> address \<Rightarrow> address \<Rightarrow> ('d, token_balance) handler" where
  "getTokenBalance bd token owner =
     (let i = token @ ''-'' @ owner in
      bind (getUser bd owner) (\<lambda>user.
      bind (gets (\<lambda>s. tokenBalances s i)) (\<lambda>balanceOrNull.
        case balanceOrNull of
          Some b \<Rightarrow> ret b
        | None \<Rightarrow>
            (let newBalance = \<lparr>balance_id = i, balance_token = token, balance_owner = user_id user, balance = 0\<rparr>
             in bind (save_balance newBalance) (\<lambda>_. ret newBalance)))))"

definition updateBalance ::
  "'d big_decimal \<Rightarrow> erc20 \<Rightarrow> event \<Rightarrow> address \<Rightarrow> address \<Rightarrow> int \<Rightarrow> ('d, unit) handler" where
  "updateBalance bd contract event sender receiver amount =
     (let tokenAddress = event_address event in
      bind (getToken contract tokenAddress) (\<lambda>token.
      bind (if sender = ZERO_ADDRESS then
              let token' = token\<lparr>totalSupply := totalSupply token + amount\<rparr>
              in bind (save_token token') (\<lambda>_. ret token')
            else
              bind (getTokenBalance bd tokenAddress sender) (\<lambda>b.
              bind (save_balance (b\<lparr>balance := balance b - amount\<rparr>)) (\<lambda>_.
              ret token))) (\<lambda>token.
        if receiver = ZERO_ADDRESS then
          save_token (token\<lparr>totalSupply := totalSupply token - amount\<rparr>)
        else
          bind (getTokenBalance bd tokenAddress receiver) (\<lambda>b.
            save_balance (b\<lparr>balance := balance b + amount\<rparr>)))))"

definition save_allowance :: "token_allowance \<Rightarrow> ('d, unit) handler" where
  "save_allowance a = modify (\<lambda>s. s\<lparr>tokenAllowances := (tokenAllowances s)(allowance_id a \<mapsto> a)\<rparr>)"

definition getTokenAllowance ::
  "'d big_decimal \<Rightarrow> address \<Rightarrow> address \<Rightarrow> address \<Rightarrow> ('d, token_allowance) handler" where
  "getTokenAllowance bd token owner spender =
     (let i = token @ ''-'' @ owner @ ''-'' @ spender in
      bind (getUser bd owner) (\<lambda>owner'.
      bind (getUser bd spender) (\<lambda>spender'.
      bind (gets (\<lambda>s. tokenAllowances s i)) (\<lambda>allowanceOrNull.
        case allowanceOrNull of
          Some a \<Rightarrow> ret a
        | None \<Rightarrow>
            (let newAllowance = \<lparr>allowance_id = i, allowance_token = token, allowance_owner = user_id owner',
                                 allowance_spender = user_id spender', allowance_value = 0\<rparr>
             in bind (save_allowance newAllowance) (\<lambda>_. ret newAllowance))))))"

definition updateAllowance ::
  "'d big_decimal \<Rightarrow> event \<Rightarrow> address \<Rightarrow> address \<Rightarrow> int \<Rightarrow> ('d, unit) handler" where
  "updateAllowance bd event owner spender amount =
     bind (getTokenAllowance bd (event_address event) owner spender) (\<lambda>a.
       save_allowance (a\<lparr>allowance_value := amount\<rparr>))"

end
