(* ===== verification/Subgraph_Handlers.thy ===== *)
theory Subgraph_Handlers
  imports Subgraph_Troves Subgraph_Pools
begin

text \<open>
  The event handlers of \<^verbatim>\<open>packages/subgraph/src/mappings\<close>, and the subgraph as a machine that
  handles a sequence of contract events.
\<close>

section \<open>\<^verbatim>\<open>mappings/*.ts\<close>\<close>

definition BorrowerOperations_handleTroveUpdated ::
  "'d big_decimal \<Rightarrow> event \<Rightarrow> i32 \<Rightarrow> address \<Rightarrow> int \<Rightarrow> int \<Rightarrow> int \<Rightarrow> ('d, unit) handler" where
  "BorrowerOperations_handleTroveUpdated bd event operation borrower coll debt stake =
     updateTrove bd event (getTroveOperationFromBorrowerOperation operation) borrower coll debt stake"

definition handleDebtTokenBorrowingFeePaid :: "'d big_decimal \<Rightarrow> event \<Rightarrow> int \<Rightarrow> ('d, unit) handler" where
  "handleDebtTokenBorrowingFeePaid bd event debtTokenFee =
     bind (setBorrowingFeeOfLastTroveChange bd debtTokenFee) (\<lambda>_.
       increaseTotalBorrowingFeesPaid bd debtTokenFee)"

definition handleCollSurplusBalanceUpdated ::
  "'d big_decimal \<Rightarrow> event \<Rightarrow> address \<Rightarrow> int \<Rightarrow> ('d, unit) handler" where
  "handleCollSurplusBalanceUpdated bd event i newBalance = updateUserClaimColl bd event i newBalance"

definition handleLastGoodPriceUpdated :: "'d big_decimal \<Rightarrow> event \<Rightarrow> int \<Rightarrow> ('d, unit) handler" where
  "handleLastGoodPriceUpdated bd event price = updatePrice bd event price"

definition handleStakeChanged :: "'d big_decimal \<Rightarrow> event \<Rightarrow> address \<Rightarrow> int \<Rightarrow> ('d, unit) handler" where
  "handleStakeChanged bd event staker newStake = updateStake bd event staker newStake"

definition handleStakeGainsWithdrawn ::
  "'d big_decimal \<Rightarrow> event \<Rightarrow> address \<Rightarrow> int \<Rightarrow> int \<Rightarrow> ('d, unit) handler" where
  "handleStakeGainsWithdrawn bd event staker debtTokenGain FILGain =
     withdrawStakeGains bd event staker debtTokenGain FILGain"

definition swapTmpDepositUpdate :: "'d big_decimal \<Rightarrow> int \<Rightarrow> ('d, int option) handler" where
  "swapTmpDepositUpdate bd valueToSetIfNull =
     bind (gets (\<lambda>s. tmpDepositUpdate (getGlobal bd s))) (\<lambda>tmp.
     bind (modify (update_global bd (\<lambda>g. g\<lparr>tmpDepositUpdate :=
             (case tmp of None \<Rightarrow> Some valueToSetIfNull | Some _ \<Rightarrow> None)\<rparr>))) (\<lambda>_.
     ret tmp))"

definition handleUserDepositChanged :: "'d big_decimal \<Rightarrow> event \<Rightarrow> address \<Rightarrow> int \<Rightarrow> ('d, unit) handler" where
  "handleUserDepositChanged bd event depositor newDeposit =
     bind (swapTmpDepositUpdate bd newDeposit) (\<lambda>gainWithdrawn.
       if gainWithdrawn \<noteq> None then updateStabilityDeposit bd event depositor newDeposit else ret ())"

definition handleFILGainWithdrawn ::
  "'d big_decimal \<Rightarrow> event \<Rightarrow> address \<Rightarrow> int \<Rightarrow> int \<Rightarrow> ('d, unit) handler" where
  "handleFILGainWithdrawn bd event depositor FIL debtTokenLoss =
     bind (swapTmpDepositUpdate bd 0) (\<lambda>depositUpdate.
     bind (withdrawCollateralGainFromStabilityDeposit bd event depositor FIL debtTokenLoss) (\<lambda>_.
       case depositUpdate of
         None \<Rightarrow> ret ()
       | Some amount \<Rightarrow> updateStabilityDeposit bd event depositor amount))"

definition handleFrontendRegistered :: "'d big_decimal \<Rightarrow> event \<Rightarrow> address \<Rightarrow> int \<Rightarrow> ('d, unit) handler" where
  "handleFrontendRegistered bd event frontEnd kickbackRate = registerFrontend bd frontEnd kickbackRate"

definition handleFrontendTagSet :: "'d big_decimal \<Rightarrow> event \<Rightarrow> address \<Rightarrow> address \<Rightarrow> ('d, unit) handler" where
  "handleFrontendTagSet bd event depositor frontEnd = assignFrontendToDepositor bd depositor frontEnd"

definition handleTokenTransfer ::
  "'d big_decimal \<Rightarrow> erc20 \<Rightarrow> event \<Rightarrow> address \<Rightarrow> address \<Rightarrow> int \<Rightarrow> ('d, unit) handler" where
  "handleTokenTransfer bd contract event sender receiver amount =
     updateBalance bd contract event sender receiver amount"

definition handleTokenApproval ::
  "'d big_decimal \<Rightarrow> event \<Rightarrow> address \<Rightarrow> address \<Rightarrow> int \<Rightarrow> ('d, unit) handler" where
  "handleTokenApproval bd event owner spender amount = updateAllowance bd event owner spender amount"

definition TroveManager_handleTroveUpdated ::
  "'d big_decimal \<Rightarrow> event \<Rightarrow> i32 \<Rightarrow> address \<Rightarrow> int \<Rightarrow> int \<Rightarrow> int \<Rightarrow> ('d, unit) handler" where
  "TroveManager_handleTroveUpdated bd event operation borrower coll debt stake =
     updateTrove bd event (getTroveOperationFromTroveManagerOperation operation) borrower coll debt stake"

definition handleTroveLiquidated :: "'d big_decimal \<Rightarrow> event \<Rightarrow> address \<Rightarrow> ('d, unit) handler" where
  "handleTroveLiquidated bd event borrower = applyRedistributionToTroveBeforeLiquidation bd event borrower"

definition handleLiquidation ::
  "'d big_decimal \<Rightarrow> event \<Rightarrow> int \<Rightarrow> int \<Rightarrow> int \<Rightarrow> int \<Rightarrow> ('d, unit) handler" where
  "handleLiquidation bd event coll debt collGas debtGas =
     finishCurrentLiquidation bd event coll debt collGas debtGas"

definition handleRedemption ::
  "'d big_decimal \<Rightarrow> event \<Rightarrow> int \<Rightarrow> int \<Rightarrow> int \<Rightarrow> int \<Rightarrow> ('d, unit) handler" where
  "handleRedemption bd event attempted actual sent fee =
     finishCurrentRedemption bd event attempted actual sent fee"

definition handleLTermsUpdated :: "'d big_decimal \<Rightarrow> event \<Rightarrow> int \<Rightarrow> int \<Rightarrow> ('d, unit) handler" where
  "handleLTermsUpdated bd event L_FIL L_Debt = updateTotalRedistributed bd L_FIL L_Debt"

section \<open>The machine\<close>

datatype contract_event =
    BorrowerTroveUpdated i32 address int int int
  | DebtTokenBorrowingFeePaid int
  | CollBalanceUpdated address int
  | LastGoodPriceUpdated int
  | StakeChanged address int
  | StakingGainsWithdrawn address int int
  | UserDepositChanged address int
  | FILGainWithdrawn address int int
  | FrontEndRegistered address int
  | FrontEndTagSet address address
  | Transfer address address int
  | Approval address address int
  | ManagerTroveUpdated i32 address int int int
  | TroveLiquidated address
  | Liquidation int int int int
  | Redemption int int int int
  | LTermsUpdated int int

fun handle :: "'d big_decimal \<Rightarrow> erc20 \<Rightarrow> event \<Rightarrow> contract_event \<Rightarrow> ('d, unit) handler" where
  "handle bd c e (BorrowerTroveUpdated op i coll debt stake) =
     BorrowerOperations_handleTroveUpdated bd e op i coll debt stake"
| "handle bd c e (DebtTokenBorrowingFeePaid fee) = handleDebtTokenBorrowingFeePaid bd e fee"
| "handle bd c e (CollBalanceUpdated i n) = handleCollSurplusBalanceUpdated bd e i n"
| "handle bd c e (LastGoodPriceUpdated p) = handleLastGoodPriceUpdated bd e p"
| "handle bd c e (StakeChanged i n) = handleStakeChanged bd e i n"
| "handle bd c e (StakingGainsWithdrawn i d f) = handleStakeGainsWithdrawn bd e i d f"
| "handle bd c e (UserDepositChanged i n) = handleUserDepositChanged bd e i n"
| "handle bd c e (FILGainWithdrawn i f l) = handleFILGainWithdrawn bd e i f l"
| "handle bd c e (FrontEndRegistered i k) = handleFrontendRegistered bd e i k"
| "handle bd c e (FrontEndTagSet i f) = handleFrontendTagSet bd e i f"
| "handle bd c e (Transfer x y n) = handleTokenTransfer bd c e x y n"
| "handle bd c e (Approval x y n) = handleTokenApproval bd e x y n"
| "handle bd c e (ManagerTroveUpdated op i coll debt stake) =
     TroveManager_handleTroveUpdated bd e op i coll debt stake"
| "handle bd c e (TroveLiquidated i) = handleTroveLiquidated bd e i"
| "handle bd c e (Liquidation a b x y) = handleLiquidation bd e a b x y"
| "handle bd c e (Redemption a b x y) = handleRedemption bd e a b x y"
| "handle bd c e (LTermsUpdated a b) = handleLTermsUpdated bd e a b"

inductive subgraph_step :: "'d big_decimal \<Rightarrow> erc20 \<Rightarrow> 'd subgraph \<Rightarrow> 'd subgraph \<Rightarrow> bool" for bd c where
  step: "handle bd c e x s = Inr ((), s') \<Longrightarrow> subgraph_step bd c s s'"

definition reachable_subgraph :: "'d big_decimal \<Rightarrow> erc20 \<Rightarrow> 'd subgraph \<Rightarrow> bool" where
  "reachable_subgraph bd c s \<longleftrightarrow> (subgraph_step bd c)\<^sup>*\<^sup>* empty_subgraph s"

text \<open>Handling a list of events; an abort stops it.\<close>

fun run_events :: "'d big_decimal \<Rightarrow> erc20 \<Rightarrow> (event \<times> contract_event) list \<Rightarrow> 'd subgraph \<Rightarrow> 'd subgraph result" where
  "run_events bd c [] s = Inr s"
| "run_events bd c ((e, x) # xs) s =
     (case handle bd c e x s of Inl err \<Rightarrow> Inl err | Inr (_, s') \<Rightarrow> run_events bd c xs s')"

lemma run_events_reachable:
  assumes "run_events bd c xs empty_subgraph = Inr s"
  shows "reachable_subgraph bd c s"
proof -
  have "run_events bd c xs s0 = Inr s \<Longrightarrow> (subgraph_step bd c)\<^sup>*\<^sup>* s0 s" for s0
  proof (induction xs arbitrary: s0)
    case (Cons x xs)
    obtain e y where x: "x = (e, y)" by (cases x)
    with Cons.prems obtain s1 where "handle bd c e y s0 = Inr ((), s1)" "run_events bd c xs s1 = Inr s"
      by (auto split: sum.splits)
    with Cons.IH show ?case by (meson subgraph_step.step converse_rtranclp_into_rtranclp)
  qed simp
  with assms show ?thesis by (simp add: reachable_subgraph_def)
qed

end
