(* ===== verification/Subgraph_Logic.thy ===== *)
theory Subgraph_Logic
  imports Subgraph_Handlers
begin

text \<open>
  A small program logic for the handlers: \<open>valid P m Q\<close> says that from a store with \<open>P\<close>, when
  \<open>m\<close> does not abort, its result and the store it leaves satisfy \<open>Q\<close>; \<open>keeps P m\<close> that \<open>m\<close>
  keeps \<open>P\<close>.  The frame facts tell which parts of the store each operation leaves alone.
\<close>

named_theorems hoare \<open>rules of the logic\<close>
named_theorems handler_defs \<open>definitions of the handlers\<close>

definition valid :: "('d subgraph \<Rightarrow> bool) \<Rightarrow> ('d, 'a) handler \<Rightarrow> ('a \<Rightarrow> 'd subgraph \<Rightarrow> bool) \<Rightarrow> bool" where
  "valid P m Q \<longleftrightarrow> (\<forall>s x s'. P s \<longrightarrow> m s = Inr (x, s') \<longrightarrow> Q x s')"

definition keeps :: "('d subgraph \<Rightarrow> bool) \<Rightarrow> ('d, 'a) handler \<Rightarrow> bool" where
  "keeps P m \<longleftrightarrow> valid P m (\<lambda>_. P)"

lemma validD: "valid P m Q \<Longrightarrow> P s \<Longrightarrow> m s = Inr (x, s') \<Longrightarrow> Q x s'"
  by (simp add: valid_def)

lemma validI: "(\<And>s x s'. P s \<Longrightarrow> m s = Inr (x, s') \<Longrightarrow> Q x s') \<Longrightarrow> valid P m Q"
  by (simp add: valid_def)

lemma valid_bind: "valid P m R \<Longrightarrow> (\<And>x. valid (R x) (f x) Q) \<Longrightarrow> valid P (bind m f) Q"
  by (fastforce simp: valid_def bind_Inr)

lemma valid_weaken: "valid P' m Q' \<Longrightarrow> (\<And>s. P s \<Longrightarrow> P' s) \<Longrightarrow> (\<And>x s. Q' x s \<Longrightarrow> Q x s) \<Longrightarrow> valid P m Q"
  unfolding valid_def by blast

lemma valid_keeps: "keeps P m \<Longrightarrow> valid P m (\<lambda>_. P)"
  by (simp add: keeps_def)

lemma keepsD: "keeps P m \<Longrightarrow> P s \<Longrightarrow> m s = Inr (x, s') \<Longrightarrow> P s'"
  by (auto simp: keeps_def valid_def)

lemma valid_bind_keeps: "keeps P m \<Longrightarrow> (\<And>x. valid P (f x) Q) \<Longrightarrow> valid P (bind m f) Q"
  unfolding keeps_def by (rule valid_bind)

lemma valid_if: "(b \<Longrightarrow> valid P m Q) \<Longrightarrow> (\<not> b \<Longrightarrow> valid P m' Q) \<Longrightarrow> valid P (if b then m else m') Q"
  by simp

lemma valid_pure: "(A \<Longrightarrow> valid P m Q) \<Longrightarrow> valid (\<lambda>s. P s \<and> A) m Q"
  by (auto simp: valid_def)

lemma keeps_ret [hoare]: "keeps P (ret x)"
  by (simp add: keeps_def valid_def)

lemma keeps_gets [hoare]: "keeps P (gets f)"
  by (simp add: keeps_def valid_def)

lemma keeps_require [hoare]: "keeps P (require x)"
  by (simp add: keeps_def valid_def require_Inr)

lemma keeps_lift [hoare]: "keeps P (lift_result r)"
  by (simp add: keeps_def valid_def lift_result_Inr)

lemma keeps_modify: "(\<And>s. P s \<Longrightarrow> P (f s)) \<Longrightarrow> keeps P (modify f)"
  by (simp add: keeps_def valid_def)

lemma keeps_bind [hoare]: "keeps P m \<Longrightarrow> (\<And>x. keeps P (f x)) \<Longrightarrow> keeps P (bind m f)"
  unfolding keeps_def by (rule valid_bind)

lemma keeps_if [hoare]: "keeps P m \<Longrightarrow> keeps P m' \<Longrightarrow> keeps P (if b then m else m')"
  by simp

lemma keeps_option [hoare]: "keeps P m \<Longrightarrow> (\<And>x. keeps P (f x)) \<Longrightarrow> keeps P (case z of None \<Rightarrow> m | Some x \<Rightarrow> f x)"
  by (cases z) simp_all

lemma keeps_let [hoare]: "(\<And>x. keeps P (f x)) \<Longrightarrow> keeps P (let x = v in f x)"
  by simp

lemma keeps_calculateCollateralRatio [hoare]: "keeps P (calculateCollateralRatio bd a b p)"
  unfolding calculateCollateralRatio_def by (intro hoare)

declare increaseCounter_def [handler_defs] getSystemStateSequenceNumber_def [handler_defs]
  getTransactionSequenceNumber_def [handler_defs] getChangeSequenceNumber_def [handler_defs]
  getLiquidationSequenceNumber_def [handler_defs] getRedemptionSequenceNumber_def [handler_defs]
  updateTotalRedistributed_def [handler_defs] increaseNumberOfOpenTroves_def [handler_defs]
  increaseNumberOfLiquidatedTroves_def [handler_defs] decreaseNumberOfLiquidatedTroves_def [handler_defs]
  increaseNumberOfRedeemedTroves_def [handler_defs] decreaseNumberOfRedeemedTroves_def [handler_defs]
  increaseNumberOfTrovesClosedByOwner_def [handler_defs] decreaseNumberOfTrovesClosedByOwner_def [handler_defs]
  increaseTotalNumberOfProtocolTokenStakes_def [handler_defs]
  increaseNumberOfActiveProtocolTokenStakes_def [handler_defs]
  decreaseNumberOfActiveProtocolTokenStakes_def [handler_defs]
  increaseTotalBorrowingFeesPaid_def [handler_defs] getTransaction_def [handler_defs]
  save_systemState_def [handler_defs] getCurrentSystemState_def [handler_defs]
  bumpSystemState_def [handler_defs] getCurrentPrice_def [handler_defs] beginChange_def [handler_defs]
  initChange_def [abs_def, handler_defs] finishChange_def [handler_defs] createChange_def [handler_defs]
  finishPriceChange_def [handler_defs] updatePrice_def [handler_defs]
  tryToOffsetWithTokensFromStabilityPool_def [handler_defs]
  updateSystemStateByTroveChange_def [handler_defs]
  updateSystemStateByStabilityDepositChange_def [handler_defs]
  updateSystemStateByCollSurplusChange_def [handler_defs]
  updateSystemStateByProtocolTokenStakeChange_def [handler_defs]
  save_user_def [handler_defs] getUser_def [handler_defs] finishCollSurplusChange_def [handler_defs]
  updateUserClaimColl_def [handler_defs]
  save_liquidation_def [handler_defs] getCurrentLiquidation_def [handler_defs]
  finishCurrentLiquidation_def [handler_defs] save_redemption_def [handler_defs]
  getCurrentRedemption_def [handler_defs] finishCurrentRedemption_def [handler_defs]
  getTrove_entity_def [handler_defs] setTroveStatus_def [handler_defs] finishTroveChange_def [handler_defs]
  updateTrove_def [handler_defs] setBorrowingFeeOfLastTroveChange_def [handler_defs]
  applyRedistributionToTroveBeforeLiquidation_def [handler_defs]
  getStabilityDeposit_entity_def [handler_defs] finishStabilityDepositChange_def [handler_defs]
  save_deposit_def [abs_def, handler_defs] updateStabilityDepositByOperation_def [handler_defs]
  updateStabilityDeposit_def [handler_defs] withdrawCollateralGainFromStabilityDeposit_def [handler_defs]
  finishProtocolTokenStakeChange_def [handler_defs] getUserStake_def [handler_defs]
  createStake_def [handler_defs] save_stake_def [handler_defs] updateStake_def [handler_defs]
  withdrawStakeGains_def [handler_defs] registerFrontend_def [handler_defs]
  assignFrontendToDepositor_def [handler_defs] save_token_def [handler_defs] createToken_def [handler_defs]
  getToken_def [handler_defs] save_balance_def [handler_defs] getTokenBalance_def [handler_defs]
  updateBalance_def [handler_defs] save_allowance_def [handler_defs] getTokenAllowance_def [handler_defs]
  updateAllowance_def [handler_defs] swapTmpDepositUpdate_def [handler_defs]
  BorrowerOperations_handleTroveUpdated_def [handler_defs]
  handleDebtTokenBorrowingFeePaid_def [handler_defs] handleCollSurplusBalanceUpdated_def [handler_defs]
  handleLastGoodPriceUpdated_def [handler_defs] handleStakeChanged_def [handler_defs]
  handleStakeGainsWithdrawn_def [handler_defs] handleUserDepositChanged_def [handler_defs]
  handleFILGainWithdrawn_def [handler_defs] handleFrontendRegistered_def [handler_defs]
  handleFrontendTagSet_def [handler_defs] handleTokenTransfer_def [handler_defs]
  handleTokenApproval_def [handler_defs] TroveManager_handleTroveUpdated_def [handler_defs]
  handleTroveLiquidated_def [handler_defs] handleLiquidation_def [handler_defs]
  handleRedemption_def [handler_defs] handleLTermsUpdated_def [handler_defs]

lemma getGlobal_update_global [simp]: "getGlobal bd (update_global bd f s) = f (getGlobal bd s)"
  by (simp add: getGlobal_def update_global_def)

lemma getGlobal_fields [simp]:
  "getGlobal bd (s\<lparr>systemStates := a\<rparr>) = getGlobal bd s" "getGlobal bd (s\<lparr>users := b\<rparr>) = getGlobal bd s"
  "getGlobal bd (s\<lparr>troves := c\<rparr>) = getGlobal bd s" "getGlobal bd (s\<lparr>transactions := d\<rparr>) = getGlobal bd s"
  "getGlobal bd (s\<lparr>troveChanges := e\<rparr>) = getGlobal bd s" "getGlobal bd (s\<lparr>priceChanges := f\<rparr>) = getGlobal bd s"
  "getGlobal bd (s\<lparr>collSurplusChanges := g\<rparr>) = getGlobal bd s"
  "getGlobal bd (s\<lparr>depositEntities := h\<rparr>) = getGlobal bd s" "getGlobal bd (s\<lparr>depositChanges := i\<rparr>) = getGlobal bd s"
  "getGlobal bd (s\<lparr>stakeEntities := j\<rparr>) = getGlobal bd s" "getGlobal bd (s\<lparr>stakeChanges := k\<rparr>) = getGlobal bd s"
  "getGlobal bd (s\<lparr>liquidations := l\<rparr>) = getGlobal bd s" "getGlobal bd (s\<lparr>redemptions := m\<rparr>) = getGlobal bd s"
  "getGlobal bd (s\<lparr>tokens := n\<rparr>) = getGlobal bd s" "getGlobal bd (s\<lparr>tokenBalances := q\<rparr>) = getGlobal bd s"
  "getGlobal bd (s\<lparr>tokenAllowances := r\<rparr>) = getGlobal bd s" "getGlobal bd (s\<lparr>frontends := t\<rparr>) = getGlobal bd s"
  by (simp_all add: getGlobal_def)

lemma update_global_fields [simp]:
  "systemStates (update_global bd f s) = systemStates s" "users (update_global bd f s) = users s"
  "troves (update_global bd f s) = troves s" "transactions (update_global bd f s) = transactions s"
  "troveChanges (update_global bd f s) = troveChanges s" "priceChanges (update_global bd f s) = priceChanges s"
  "collSurplusChanges (update_global bd f s) = collSurplusChanges s"
  "depositEntities (update_global bd f s) = depositEntities s"
  "depositChanges (update_global bd f s) = depositChanges s"
  "stakeEntities (update_global bd f s) = stakeEntities s" "stakeChanges (update_global bd f s) = stakeChanges s"
  "liquidations (update_global bd f s) = liquidations s" "redemptions (update_global bd f s) = redemptions s"
  "tokens (update_global bd f s) = tokens s" "tokenBalances (update_global bd f s) = tokenBalances s"
  "tokenAllowances (update_global bd f s) = tokenAllowances s" "frontends (update_global bd f s) = frontends s"
  by (simp_all add: update_global_def)

lemma getGlobal_empty [simp]: "getGlobal bd empty_subgraph = new_Global bd"
  by (simp add: getGlobal_def empty_subgraph_def)

text \<open>An invariant all handlers keep holds in every reachable store.\<close>

lemma reachable_induct:
  assumes "reachable_subgraph bd c s" and "P empty_subgraph" and "\<And>e x. keeps P (handle bd c e x)"
  shows "P s"
  using assms(1) unfolding reachable_subgraph_def
proof (induction rule: rtranclp_induct)
  case base
  then show ?case by (rule assms(2))
next
  case (step s s')
  then show ?case by (auto elim!: subgraph_step.cases intro: keepsD [OF assms(3)])
qed

section \<open>A sample, for the witnesses\<close>

text \<open>Exact rational arithmetic is one instance of the host's decimals.\<close>

definition rat_decimal :: "rat big_decimal" where
  "rat_decimal =
     \<lparr>bd_fromString = (\<lambda>s. of_nat (nat_of_digits s)),
      bd_divDecimal = (\<lambda>n d. of_int n / d),
      bd_plus = (+), bd_minus = (-), bd_times = (*),
      bd_div = (\<lambda>a b. if b = 0 then None else Some (a / b)),
      bd_truncate = (\<lambda>x n. of_int (if 0 \<le> x then floor (x * 10 ^ n) else ceiling (x * 10 ^ n)) / 10 ^ n),
      bd_equals = (=), bd_less = (<), bd_less_eq = (\<le>)\<rparr>"

definition sample_event :: event where
  "sample_event = \<lparr>event_address = ''0xt'', event_hash = ''0xh'', event_from = ''0xs'',
                   event_blockNumber = 1, event_timestamp = 2\<rparr>"

definition sample_erc20 :: erc20 where
  "sample_erc20 i = (''Token'', ''T'')"

lemma rat_decimal_simps [simp]:
  "bd_fromString rat_decimal s = of_nat (nat_of_digits s)" "bd_divDecimal rat_decimal n d = of_int n / d"
  "bd_plus rat_decimal = (+)" "bd_minus rat_decimal = (-)" "bd_times rat_decimal = (*)"
  "bd_div rat_decimal a b = (if b = 0 then None else Some (a / b))"
  "bd_equals rat_decimal = (=)" "bd_less rat_decimal = (<)" "bd_less_eq rat_decimal = (\<le>)"
  by (simp_all add: rat_decimal_def)

lemma rat_decimal_constants [simp]:
  "DECIMAL_ZERO rat_decimal = 0" "DECIMAL_ONE rat_decimal = 1"
  "DECIMAL_SCALING_FACTOR rat_decimal = 10 ^ 18"
  "DECIMAL_COLLATERAL_GAS_COMPENSATION_DIVISOR rat_decimal = 200"
  "decimalize rat_decimal n = of_int n / 10 ^ 18"
  by (simp_all add: DECIMAL_ZERO_def DECIMAL_ONE_def DECIMAL_SCALING_FACTOR_def decimalize_def
      DECIMAL_COLLATERAL_GAS_COMPENSATION_DIVISOR_def nat_of_digits_def digit_val_def)

lemma show_i32_samples [simp]:
  "show_i32 0 = ''0''" "show_i32 1 = ''1''" "show_i32 2 = ''2''" "show_i32 3 = ''3''"
  by (simp_all add: show_i32_def show_int_def show_nat.simps digit_char_def)

text \<open>Rules to run a handler on a concrete store by simplification.\<close>

lemma bind_assoc: "bind (bind m f) g = bind m (\<lambda>x. bind (f x) g)"
  by (rule ext) (simp add: bind_def split: sum.splits)

lemma bind_values:
  "bind (require (Some v)) f s = f v s" "bind (lift_result (Inr v)) f s = f v s"
  "bind (if b then m else m') f s = (if b then bind m f s else bind m' f s)"
  "bind (case z of None \<Rightarrow> m | Some x \<Rightarrow> k x) f s = (case z of None \<Rightarrow> bind m f s | Some x \<Rightarrow> bind (k x) f s)"
  by (simp_all add: bind_def lift_result_def split: option.split)

lemmas run_simps =
  handler_defs bind_assoc bind_values Let_def empty_subgraph_def getGlobal_def new_Global_def
  update_global_def load_opt_def toI32_def sample_event_def sample_erc20_def calculateCollateralRatio_def
  isBorrowerOperation_def isLiquidation_def isRedemption_def isRecoveryModeLiquidation_def
  getTroveOperationFromBorrowerOperation_def getTroveOperationFromTroveManagerOperation_def
  set_raw_def status_after_def

end
