(* ===== verification/Subgraph_Counters.thy ===== *)
theory Subgraph_Counters
  imports Subgraph_Logic
begin

text \<open>
  The trove counters of the global entity: they add up, whatever happens, and they are the
  numbers of troves with each status, unless an event reports zero collateral and debt for
  a borrower without a trove; that event counts a trove that is not saved.
\<close>

section \<open>The counters add up\<close>

definition troves_add_up :: "'d big_decimal \<Rightarrow> 'd subgraph \<Rightarrow> bool" where
  "troves_add_up bd s \<longleftrightarrow>
     (let g = getGlobal bd s in
      totalNumberOfTroves g =
        numberOfOpenTroves g + numberOfLiquidatedTroves g + numberOfRedeemedTroves g + numberOfTrovesClosedByOwner g)"

lemma counters_set_counter [simp]:
  "totalNumberOfTroves (set_counter k n g) = totalNumberOfTroves g"
  "numberOfOpenTroves (set_counter k n g) = numberOfOpenTroves g"
  "numberOfLiquidatedTroves (set_counter k n g) = numberOfLiquidatedTroves g"
  "numberOfRedeemedTroves (set_counter k n g) = numberOfRedeemedTroves g"
  "numberOfTrovesClosedByOwner (set_counter k n g) = numberOfTrovesClosedByOwner g"
  by (cases k; simp)+

lemma keeps_troves_add_up: "keeps (troves_add_up bd) (handle bd c e x)"
  by (cases x; simp only: handle.simps handler_defs; intro hoare keeps_modify;
      simp add: troves_add_up_def Let_def algebra_simps)

section \<open>The counters count\<close>

text \<open>
  \<open>statuses_counted\<close> relates the statuses of the saved troves to the counters;
  \<open>virtual_save\<close> is the store with a loaded trove saved as it is.
\<close>

definition trove_statuses :: "string set" where
  "trove_statuses = {''open'', ''closedByOwner'', ''closedByLiquidation'', ''closedByRedemption''}"

definition count_status :: "(string \<rightharpoonup> string) \<Rightarrow> string \<Rightarrow> i32" where
  "count_status m st = of_nat (card {i. m i = Some st})"

definition statuses_counted :: "(string \<rightharpoonup> string) \<Rightarrow> 'd global \<Rightarrow> bool" where
  "statuses_counted m g \<longleftrightarrow>
     finite (dom m) \<and> ran m \<subseteq> trove_statuses \<and>
     numberOfOpenTroves g = count_status m ''open'' \<and>
     numberOfTrovesClosedByOwner g = count_status m ''closedByOwner'' \<and>
     numberOfLiquidatedTroves g = count_status m ''closedByLiquidation'' \<and>
     numberOfRedeemedTroves g = count_status m ''closedByRedemption'' \<and>
     totalNumberOfTroves g = of_nat (card (dom m))"

definition statuses :: "'d subgraph \<Rightarrow> string \<rightharpoonup> string" where
  "statuses s = (\<lambda>i. map_option trove_status (troves s i))"

definition troves_counted :: "'d big_decimal \<Rightarrow> 'd subgraph \<Rightarrow> bool" where
  "troves_counted bd s \<longleftrightarrow>
     statuses_counted (statuses s) (getGlobal bd s) \<and> (\<forall>i t. troves s i = Some t \<longrightarrow> trove_id t = i)"

definition counted_with :: "'d big_decimal \<Rightarrow> string \<Rightarrow> string \<Rightarrow> 'd subgraph \<Rightarrow> bool" where
  "counted_with bd i st s \<longleftrightarrow>
     statuses_counted ((statuses s)(i \<mapsto> st)) (getGlobal bd s) \<and> (\<forall>i t. troves s i = Some t \<longrightarrow> trove_id t = i)"

lemma finite_count [simp]: "finite (dom m) \<Longrightarrow> finite {i. m i = Some st}"
  by (rule finite_subset [of _ "dom m"]) auto

lemma of_nat_counted:
  "a + (if p then 1 else 0) = b + (if q then 1 else 0) \<Longrightarrow>
     (of_nat a :: i32) = of_nat b + (if q then 1 else 0) - (if p then 1 else 0)" for a b :: nat
  by (cases p; cases q) auto

lemma count_status_upd:
  assumes "finite (dom m)"
  shows "count_status (m(i \<mapsto> st)) st' =
    count_status m st' + (if st' = st then 1 else 0) - (if m i = Some st' then 1 else 0)"
proof -
  let ?A = "{j. m j = Some st'}"
  have fin: "finite ?A" using assms by simp
  have "m i = Some st' \<Longrightarrow> 0 < card ?A" using fin by (auto simp: card_gt_0_iff)
  moreover have "{j. (m(i \<mapsto> st)) j = Some st'} = (if st' = st then insert i ?A else ?A - {i})" by auto
  ultimately have "card {j. (m(i \<mapsto> st)) j = Some st'} + (if m i = Some st' then 1 else 0) = card ?A + (if st' = st then 1 else 0)"
    using fin by (auto simp: card_insert_if)
  then show ?thesis unfolding count_status_def by (rule of_nat_counted)
qed

lemma statuses_counted_new:
  assumes "statuses_counted m g" and "m i = None"
  shows "statuses_counted (m(i \<mapsto> ''open''))
    (g\<lparr>numberOfOpenTroves := numberOfOpenTroves g + 1, totalNumberOfTroves := totalNumberOfTroves g + 1\<rparr>)"
  using assms
  by (auto simp: statuses_counted_def count_status_upd card_insert_if domIff trove_statuses_def
      ran_def split: if_splits)

lemma statuses_counted_change:
  assumes "statuses_counted (m(i \<mapsto> a)) g" and "a \<noteq> b" and "b \<in> trove_statuses"
    and "numberOfOpenTroves g' = numberOfOpenTroves g + (if b = ''open'' then 1 else 0) - (if a = ''open'' then 1 else 0)"
    and "numberOfTrovesClosedByOwner g' = numberOfTrovesClosedByOwner g
      + (if b = ''closedByOwner'' then 1 else 0) - (if a = ''closedByOwner'' then 1 else 0)"
    and "numberOfLiquidatedTroves g' = numberOfLiquidatedTroves g
      + (if b = ''closedByLiquidation'' then 1 else 0) - (if a = ''closedByLiquidation'' then 1 else 0)"
    and "numberOfRedeemedTroves g' = numberOfRedeemedTroves g
      + (if b = ''closedByRedemption'' then 1 else 0) - (if a = ''closedByRedemption'' then 1 else 0)"
    and "totalNumberOfTroves g' = totalNumberOfTroves g"
  shows "statuses_counted (m(i \<mapsto> b)) g'"
proof -
  have m: "m(i \<mapsto> b) = (m(i \<mapsto> a))(i \<mapsto> b)" by simp
  have fin: "finite (dom (m(i \<mapsto> a)))" using assms(1) by (simp add: statuses_counted_def)
  have c: "count_status (m(i \<mapsto> b)) st =
      count_status (m(i \<mapsto> a)) st + (if st = b then 1 else 0) - (if a = st then 1 else 0)" for st
    unfolding m by (subst count_status_upd [OF fin]) auto
  have "ran (m(i \<mapsto> b)) \<subseteq> trove_statuses"
    using assms(1,3) by (auto simp: statuses_counted_def ran_def split: if_splits)
  with assms(1) show ?thesis
    unfolding statuses_counted_def c assms(4-8) by (simp add: eq_commute)
qed

lemma statuses_fields [simp]:
  "statuses (update_global bd f s) = statuses s"
  "statuses (s\<lparr>systemStates := a\<rparr>) = statuses s" "statuses (s\<lparr>users := b\<rparr>) = statuses s"
  "statuses (s\<lparr>transactions := d\<rparr>) = statuses s"
  "statuses (s\<lparr>troveChanges := e\<rparr>) = statuses s" "statuses (s\<lparr>priceChanges := p\<rparr>) = statuses s"
  "statuses (s\<lparr>collSurplusChanges := g\<rparr>) = statuses s"
  "statuses (s\<lparr>depositEntities := h\<rparr>) = statuses s" "statuses (s\<lparr>depositChanges := i\<rparr>) = statuses s"
  "statuses (s\<lparr>stakeEntities := j\<rparr>) = statuses s" "statuses (s\<lparr>stakeChanges := k\<rparr>) = statuses s"
  "statuses (s\<lparr>liquidations := l\<rparr>) = statuses s" "statuses (s\<lparr>redemptions := m\<rparr>) = statuses s"
  "statuses (s\<lparr>tokens := n\<rparr>) = statuses s" "statuses (s\<lparr>tokenBalances := q\<rparr>) = statuses s"
  "statuses (s\<lparr>tokenAllowances := r\<rparr>) = statuses s" "statuses (s\<lparr>frontends := t\<rparr>) = statuses s"
  "statuses (s\<lparr>troves := u\<rparr>) = (\<lambda>i. map_option trove_status (u i))"
  by (simp_all add: statuses_def)

text \<open>The operations an update of a trove makes besides do not touch what is counted.\<close>

lemma counted_with_frame:
  "keeps (counted_with bd i st) (createChange bd e)"
  "keeps (counted_with bd i st) (getCurrentPrice bd)"
  "keeps (counted_with bd i st) (getCurrentLiquidation bd e)"
  "keeps (counted_with bd i st) (getCurrentRedemption bd e)"
  "keeps (counted_with bd i st) (updateSystemStateByTroveChange bd tc)"
  "keeps (counted_with bd i st) (finishTroveChange bd tc)"
  by (simp only: handler_defs; intro hoare keeps_modify;
      simp add: counted_with_def statuses_counted_def)+

section \<open>Updating a trove\<close>

lemma counted_with_known:
  "troves s i = Some t \<Longrightarrow> trove_status t = st \<Longrightarrow> counted_with bd i st s = troves_counted bd s"
  by (simp add: counted_with_def troves_counted_def statuses_def map_upd_triv)

lemma valid_getTrove:
  "valid (troves_counted bd) (getTrove_entity bd i) (\<lambda>t s.
     counted_with bd i (trove_status t) s \<and> trove_id t = i \<and>
     (troves s i = Some t \<or> troves s i = None \<and> trove_status t = ''open'' \<and>
        trove_collateral t = DECIMAL_ZERO bd \<and> trove_debt t = DECIMAL_ZERO bd))"
proof (rule validI)
  fix s s' t
  assume s: "troves_counted bd s" and t: "getTrove_entity bd i s = Inr (t, s')"
  show "counted_with bd i (trove_status t) s' \<and> trove_id t = i \<and>
     (troves s' i = Some t \<or> troves s' i = None \<and> trove_status t = ''open'' \<and>
        trove_collateral t = DECIMAL_ZERO bd \<and> trove_debt t = DECIMAL_ZERO bd)"
  proof (cases "troves s i")
    case (Some u)
    with s t show ?thesis
      by (simp add: getTrove_entity_def counted_with_known) (simp add: troves_counted_def)
  next
    case None
    obtain o' s1 where u: "getUser bd i s = Inr (o', s1)" and s1: "troves s1 = troves s" "getGlobal bd s1 = getGlobal bd s"
      by (cases "users s i") (auto simp: getUser_def save_user_def Let_def)
    from None have i: "statuses s i = None" by (simp add: statuses_def)
    from s have "statuses_counted (statuses s) (getGlobal bd s)" and ids: "\<forall>i t. troves s i = Some t \<longrightarrow> trove_id t = i"
      by (simp_all add: troves_counted_def)
    from statuses_counted_new [OF this(1) i] ids None t u s1 show ?thesis
      by (auto simp: getTrove_entity_def bind_def [of "getUser bd i"] increaseNumberOfOpenTroves_def
          save_user_def Let_def counted_with_def statuses_def)
  qed
qed

lemma status_neq [simp]:
  "''closedByOwner'' \<noteq> ''open''" "''closedByLiquidation'' \<noteq> ''open''" "''closedByRedemption'' \<noteq> ''open''"
  "''open'' \<noteq> ''closedByOwner''" "''open'' \<noteq> ''closedByLiquidation''" "''open'' \<noteq> ''closedByRedemption''"
  "''closedByOwner'' \<noteq> ''closedByLiquidation''" "''closedByOwner'' \<noteq> ''closedByRedemption''"
  "''closedByLiquidation'' \<noteq> ''closedByOwner''" "''closedByRedemption'' \<noteq> ''closedByOwner''"
  "''closedByLiquidation'' \<noteq> ''closedByRedemption''" "''closedByRedemption'' \<noteq> ''closedByLiquidation''"
  by simp_all

lemma counted_with_status: "counted_with bd i st s \<Longrightarrow> st \<in> trove_statuses"
  using ranI [of "(statuses s)(i \<mapsto> st)" i st] by (auto simp: counted_with_def statuses_counted_def)

lemma valid_setTroveStatus:
  assumes "st \<in> trove_statuses" and "st = ''open'' \<or> trove_status t = ''open''"
  shows "valid (counted_with bd i (trove_status t)) (setTroveStatus bd t st)
    (\<lambda>t' s. counted_with bd i st s \<and> trove_status t' = st \<and> trove_id t' = trove_id t)"
proof (rule validI)
  fix s s' t'
  assume s: "counted_with bd i (trove_status t) s" and t': "setTroveStatus bd t st s = Inr (t', s')"
  show "counted_with bd i st s' \<and> trove_status t' = st \<and> trove_id t' = trove_id t"
  proof (cases "st = trove_status t")
    case True
    with s t' show ?thesis by (simp add: setTroveStatus_def)
  next
    case False
    from s have c: "statuses_counted ((statuses s)(i \<mapsto> trove_status t)) (getGlobal bd s)"
      by (simp add: counted_with_def)
    from False s t' assms counted_with_status [OF s] have "troves s' = troves s \<and>
        statuses_counted ((statuses s)(i \<mapsto> st)) (getGlobal bd s') \<and> trove_status t' = st \<and> trove_id t' = trove_id t"
      unfolding trove_statuses_def
      by (elim insertE emptyE)
        (auto simp: setTroveStatus_def Let_def decreaseNumberOfTrovesClosedByOwner_def
          decreaseNumberOfLiquidatedTroves_def decreaseNumberOfRedeemedTroves_def
          increaseNumberOfTrovesClosedByOwner_def increaseNumberOfLiquidatedTroves_def
          increaseNumberOfRedeemedTroves_def trove_statuses_def
          intro!: statuses_counted_change [OF c])
    with s show ?thesis by (simp add: counted_with_def statuses_def)
  qed
qed

text \<open>
  What the contracts' events say of a trove: with zero collateral they close an open trove,
  otherwise the trove is known, or its amounts are not both zero.
\<close>

definition sensible_update :: "'d big_decimal \<Rightarrow> address \<Rightarrow> int \<Rightarrow> int \<Rightarrow> 'd subgraph \<Rightarrow> bool" where
  "sensible_update bd i coll debt s \<longleftrightarrow>
     (if coll = 0 then (\<exists>t. troves s i = Some t \<and> trove_status t = ''open'')
      else troves s i \<noteq> None \<or> \<not> (bd_equals bd (decimalize bd coll) (DECIMAL_ZERO bd)
                                     \<and> bd_equals bd (decimalize bd debt) (DECIMAL_ZERO bd)))"

lemma getTrove_entity_troves:
  assumes "getTrove_entity bd i s = Inr (t, s')"
  shows "troves s' = troves s" and "troves s i = Some u \<Longrightarrow> t = u"
proof -
  show "troves s' = troves s"
  proof (cases "troves s i")
    case None
    obtain o' s1 where "getUser bd i s = Inr (o', s1)" "troves s1 = troves s"
      by (cases "users s i") (auto simp: getUser_def save_user_def Let_def)
    with assms None show ?thesis
      by (auto simp: getTrove_entity_def bind_def [of "getUser bd i"] increaseNumberOfOpenTroves_def
          save_user_def Let_def)
  next
    case (Some v)
    with assms show ?thesis by (simp add: getTrove_entity_def)
  qed
  show "troves s i = Some u \<Longrightarrow> t = u" using assms by (simp add: getTrove_entity_def)
qed

lemma valid_getTrove_sensible:
  "valid (\<lambda>s. troves_counted bd s \<and> sensible_update bd i coll debt s) (getTrove_entity bd i) (\<lambda>t s.
     counted_with bd i (trove_status t) s \<and> trove_id t = i \<and> (coll = 0 \<longrightarrow> trove_status t = ''open'') \<and>
     (bd_equals bd (decimalize bd coll) (trove_collateral t) \<and> bd_equals bd (decimalize bd debt) (trove_debt t)
        \<longrightarrow> troves_counted bd s))"
proof (rule validI)
  fix s t s'
  assume s: "troves_counted bd s \<and> sensible_update bd i coll debt s" and t: "getTrove_entity bd i s = Inr (t, s')"
  note * = validD [OF valid_getTrove _ t] and ** = getTrove_entity_troves [OF t]
  show "counted_with bd i (trove_status t) s' \<and> trove_id t = i \<and> (coll = 0 \<longrightarrow> trove_status t = ''open'') \<and>
     (bd_equals bd (decimalize bd coll) (trove_collateral t) \<and> bd_equals bd (decimalize bd debt) (trove_debt t)
        \<longrightarrow> troves_counted bd s')"
  proof (cases "troves s i")
    case None
    with * ** s show ?thesis by (auto simp: sensible_update_def split: if_splits)
  next
    case (Some u)
    with * ** s counted_with_known [of s' i t "trove_status t" bd] show ?thesis
      by (auto simp: sensible_update_def split: if_splits)
  qed
qed

lemma status_after_trove_statuses [simp]: "status_after op coll \<in> trove_statuses"
  by (simp add: status_after_def trove_statuses_def)

lemma counted_with_save:
  "counted_with bd i (trove_status t) s \<Longrightarrow> trove_id t = i \<Longrightarrow>
     troves_counted bd (s\<lparr>troves := (troves s)(trove_id t \<mapsto> t)\<rparr>)"
  by (simp add: counted_with_def troves_counted_def statuses_def fun_upd_def if_distrib cong: if_cong)

lemma set_raw_simps [simp]:
  "trove_status (set_raw g c d st t) = trove_status t" "trove_id (set_raw g c d st t) = trove_id t"
  by (simp_all add: set_raw_def Let_def)

lemma valid_save_trove:
  assumes "trove_id t = i" and "coll = 0 \<longrightarrow> trove_status t = ''open''"
  shows "valid (counted_with bd i (trove_status t))
    (bind (setTroveStatus bd (set_raw g coll debt stake (t\<lparr>trove_collateral := x, trove_debt := y\<rparr>))
             (status_after op coll))
       (\<lambda>t'. modify (\<lambda>s. s\<lparr>troves := (troves s)(trove_id t' \<mapsto> t')\<rparr>))) (\<lambda>_. troves_counted bd)"
proof (rule valid_bind)
  let ?t = "set_raw g coll debt stake (t\<lparr>trove_collateral := x, trove_debt := y\<rparr>)"
  have "status_after op coll = ''open'' \<or> trove_status ?t = ''open''"
    using assms by (simp add: status_after_def)
  from valid_setTroveStatus [OF status_after_trove_statuses this, of bd i] assms
  show "valid (counted_with bd i (trove_status t)) (setTroveStatus bd ?t (status_after op coll))
    (\<lambda>t' s. counted_with bd i (status_after op coll) s \<and> trove_status t' = status_after op coll \<and> trove_id t' = i)"
    by simp
qed (auto simp: valid_def intro: counted_with_save)

lemma valid_updateTrove:
  "valid (\<lambda>s. troves_counted bd s \<and> sensible_update bd i coll debt s)
     (updateTrove bd e op i coll debt stake) (\<lambda>_. troves_counted bd)"
  unfolding updateTrove_def Let_def
proof (rule valid_bind [OF valid_keeps [OF keeps_gets]], rule valid_bind [OF valid_getTrove_sensible],
    rule valid_if, goal_cases)
  case (1 g t)
  then show ?case by (simp add: valid_def)
next
  case (2 g t)
  let ?P = "\<lambda>s. counted_with bd i (trove_status t) s \<and> trove_id t = i \<and> (coll = 0 \<longrightarrow> trove_status t = ''open'')"
  show ?case
  proof (rule valid_weaken [where P' = ?P and Q' = "\<lambda>_. troves_counted bd"], goal_cases)
    case 1
    show ?case
      by (rule valid_pure, (rule valid_bind_keeps, intro counted_with_frame hoare)+, rule valid_save_trove) simp_all
  qed simp_all
qed

section \<open>The counters in every store the contracts' events lead to\<close>

definition sensible :: "'d big_decimal \<Rightarrow> contract_event \<Rightarrow> 'd subgraph \<Rightarrow> bool" where
  "sensible bd x s \<longleftrightarrow>
     (case x of
        BorrowerTroveUpdated op i coll debt stake \<Rightarrow> sensible_update bd i coll debt s
      | ManagerTroveUpdated op i coll debt stake \<Rightarrow> sensible_update bd i coll debt s
      | TroveLiquidated i \<Rightarrow> (\<exists>t. troves s i = Some t \<and> trove_status t = ''open'')
      | _ \<Rightarrow> True)"

inductive sensible_step :: "'d big_decimal \<Rightarrow> erc20 \<Rightarrow> 'd subgraph \<Rightarrow> 'd subgraph \<Rightarrow> bool" for bd c where
  sensible_step: "sensible bd x s \<Longrightarrow> handle bd c e x s = Inr ((), s') \<Longrightarrow> sensible_step bd c s s'"

definition sensibly_reachable :: "'d big_decimal \<Rightarrow> erc20 \<Rightarrow> 'd subgraph \<Rightarrow> bool" where
  "sensibly_reachable bd c s \<longleftrightarrow> (sensible_step bd c)\<^sup>*\<^sup>* empty_subgraph s"

lemma valid_liquidated:
  "valid (\<lambda>s. troves_counted bd s \<and> (\<exists>t. troves s i = Some t \<and> trove_status t = ''open''))
     (applyRedistributionToTroveBeforeLiquidation bd e i) (\<lambda>_. troves_counted bd)"
proof (rule validI)
  fix s s' and x :: unit
  assume s: "troves_counted bd s \<and> (\<exists>t. troves s i = Some t \<and> trove_status t = ''open'')"
    and "applyRedistributionToTroveBeforeLiquidation bd e i s = Inr (x, s')"
  then obtain t coll debt where "troves s i = Some t" "trove_status t = ''open''"
    and u: "updateTrove bd e ''accrueRewards'' i coll debt 0 s = Inr (x, s')"
    by (auto simp: applyRedistributionToTroveBeforeLiquidation_def bind_Inr require_Inr getTrove_entity_def Let_def)
  with s show "troves_counted bd s'"
    by (intro validD [OF valid_updateTrove _ u]) (auto simp: sensible_update_def)
qed

lemma valid_handle: "valid (\<lambda>s. troves_counted bd s \<and> sensible bd x s) (handle bd c e x) (\<lambda>_. troves_counted bd)"
proof (cases x)
  case (BorrowerTroveUpdated op i coll debt stake)
  then show ?thesis
    using valid_updateTrove by (simp add: sensible_def BorrowerOperations_handleTroveUpdated_def)
next
  case (ManagerTroveUpdated op i coll debt stake)
  then show ?thesis
    using valid_updateTrove by (simp add: sensible_def TroveManager_handleTroveUpdated_def)
next
  case (TroveLiquidated i)
  then show ?thesis
    using valid_liquidated by (simp add: sensible_def handleTroveLiquidated_def)
qed (simp only: handle.simps handler_defs sensible_def contract_event.case simp_thms(21),
    rule valid_keeps, intro hoare keeps_modify; simp add: troves_counted_def statuses_counted_def)+

lemma sensible_counted: "sensibly_reachable bd c s \<Longrightarrow> troves_counted bd s"
  unfolding sensibly_reachable_def
proof (induction rule: rtranclp_induct)
  case base
  then show ?case
    by (simp add: troves_counted_def statuses_counted_def statuses_def empty_subgraph_def
        getGlobal_def new_Global_def count_status_def dom_def)
next
  case (step s s')
  then show ?case by (auto elim!: sensible_step.cases intro: validD [OF valid_handle])
qed

lemma statuses_Some: "statuses s i = Some st \<longleftrightarrow> (\<exists>t. troves s i = Some t \<and> trove_status t = st)"
  by (auto simp: statuses_def)

section \<open>Properties\<close>

text \<open>
  In every store the handlers reach, whatever events they handle, the open, liquidated,
  redeemed and owner-closed troves add up to the total number of troves, as 32-bit
  numbers.
\<close>

theorem trove_counters_add_up:
  assumes "reachable_subgraph bd c s"
  shows "totalNumberOfTroves (getGlobal bd s) =
    numberOfOpenTroves (getGlobal bd s) + numberOfLiquidatedTroves (getGlobal bd s)
    + numberOfRedeemedTroves (getGlobal bd s) + numberOfTrovesClosedByOwner (getGlobal bd s)"
proof -
  have "troves_add_up bd s"
    by (rule reachable_induct [OF assms _ keeps_troves_add_up]) (simp add: troves_add_up_def new_Global_def)
  then show ?thesis by (simp add: troves_add_up_def Let_def)
qed

theorem trove_counters_add_up_witness:
  "\<exists>s. run_events rat_decimal sample_erc20
        [(sample_event, LastGoodPriceUpdated (10 ^ 18)),
         (sample_event, BorrowerTroveUpdated 0 ''0xa'' (2 * 10 ^ 18) (10 ^ 18) 5),
         (sample_event, BorrowerTroveUpdated 1 ''0xa'' 0 0 0)] empty_subgraph = Inr s
     \<and> numberOfTrovesClosedByOwner (getGlobal rat_decimal s) = 1
     \<and> totalNumberOfTroves (getGlobal rat_decimal s) =
         numberOfOpenTroves (getGlobal rat_decimal s) + numberOfLiquidatedTroves (getGlobal rat_decimal s)
         + numberOfRedeemedTroves (getGlobal rat_decimal s) + numberOfTrovesClosedByOwner (getGlobal rat_decimal s)"
proof -
  have "\<exists>s. run_events rat_decimal sample_erc20
        [(sample_event, LastGoodPriceUpdated (10 ^ 18)),
         (sample_event, BorrowerTroveUpdated 0 ''0xa'' (2 * 10 ^ 18) (10 ^ 18) 5),
         (sample_event, BorrowerTroveUpdated 1 ''0xa'' 0 0 0)] empty_subgraph = Inr s
     \<and> numberOfTrovesClosedByOwner (getGlobal rat_decimal s) = 1"
    by (simp add: run_simps)
  then show ?thesis using trove_counters_add_up [OF run_events_reachable] by blast
qed

text \<open>
  C27: When every event of a trove makes sense (with zero collateral it closes an open trove,
  and only open troves are liquidated), the counters are the numbers of saved troves with
  each status.
\<close>

theorem trove_counters_count:
  assumes "sensibly_reachable bd c s"
  shows "numberOfOpenTroves (getGlobal bd s) =
      of_nat (card {i. \<exists>t. troves s i = Some t \<and> trove_status t = ''open''})
    \<and> numberOfTrovesClosedByOwner (getGlobal bd s) =
      of_nat (card {i. \<exists>t. troves s i = Some t \<and> trove_status t = ''closedByOwner''})
    \<and> numberOfLiquidatedTroves (getGlobal bd s) =
      of_nat (card {i. \<exists>t. troves s i = Some t \<and> trove_status t = ''closedByLiquidation''})
    \<and> numberOfRedeemedTroves (getGlobal bd s) =
      of_nat (card {i. \<exists>t. troves s i = Some t \<and> trove_status t = ''closedByRedemption''})
    \<and> totalNumberOfTroves (getGlobal bd s) = of_nat (card {i. \<exists>t. troves s i = Some t})"
  using sensible_counted [OF assms]
  by (auto simp: troves_counted_def statuses_counted_def count_status_def statuses_Some dom_def statuses_def)

theorem trove_counters_count_witness:
  "\<exists>s. run_events rat_decimal sample_erc20
        [(sample_event, LastGoodPriceUpdated (10 ^ 18)),
         (sample_event, BorrowerTroveUpdated 0 ''0xa'' (2 * 10 ^ 18) (10 ^ 18) 5)] empty_subgraph = Inr s
     \<and> numberOfOpenTroves (getGlobal rat_decimal s) =
         of_nat (card {i. \<exists>t. troves s i = Some t \<and> trove_status t = ''open''})
     \<and> troves s ''0xa'' \<noteq> None"
proof -
  obtain s1 where 1: "handle rat_decimal sample_erc20 sample_event (LastGoodPriceUpdated (10 ^ 18)) empty_subgraph
      = Inr ((), s1)"
    and t1: "troves s1 = Map.empty"
    by (simp add: run_simps)
  then obtain s2 where 2: "handle rat_decimal sample_erc20 sample_event
        (BorrowerTroveUpdated 0 ''0xa'' (2 * 10 ^ 18) (10 ^ 18) 5) s1 = Inr ((), s2)"
    and t2: "troves s2 ''0xa'' \<noteq> None"
    by (auto simp: run_simps)
  have "sensible_step rat_decimal sample_erc20 empty_subgraph s1"
    using 1 by (rule sensible_step [rotated]) (simp add: sensible_def)
  moreover have "sensible_step rat_decimal sample_erc20 s1 s2"
    using 2 by (rule sensible_step [rotated]) (simp add: sensible_def sensible_update_def)
  ultimately have "sensibly_reachable rat_decimal sample_erc20 s2"
    unfolding sensibly_reachable_def by (meson rtranclp.simps)
  from trove_counters_count [OF this] 1 2 t2 show ?thesis by auto
qed

text \<open>
  C34: An event with zero collateral and debt for a borrower without a trove counts one more
  open trove and makes it the user's, but saves no trove, whether the subgraph knew the user
  before (saved, as every entity is, under its own id) or not, where the host's decimals take
  the integer zero to zero.
\<close>

theorem zero_update_counts_unsaved_trove:
  assumes "troves s i = None" and "\<forall>u. users s i = Some u \<longrightarrow> user_id u = i"
    and "bd_equals bd (decimalize bd 0) (DECIMAL_ZERO bd)"
  shows "\<exists>s'. updateTrove bd e op i 0 0 stake s = Inr ((), s') \<and> troves s' = troves s
    \<and> map_option user_trove (users s' i) = Some (Some i)
    \<and> numberOfOpenTroves (getGlobal bd s') = numberOfOpenTroves (getGlobal bd s) + 1
    \<and> totalNumberOfTroves (getGlobal bd s') = totalNumberOfTroves (getGlobal bd s) + 1"
  using assms
  by (cases "users s i")
    (simp_all add: updateTrove_def getTrove_entity_def getUser_def save_user_def bind_assoc Let_def
      increaseNumberOfOpenTroves_def)

theorem zero_update_counts_unsaved_trove_witness:
  "\<exists>s'. updateTrove rat_decimal sample_event ''adjustTrove'' ''0xa'' 0 0 0 empty_subgraph = Inr ((), s')
    \<and> troves s' = troves empty_subgraph \<and> map_option user_trove (users s' ''0xa'') = Some (Some ''0xa'')
    \<and> numberOfOpenTroves (getGlobal rat_decimal s') = numberOfOpenTroves (getGlobal rat_decimal empty_subgraph) + 1
    \<and> totalNumberOfTroves (getGlobal rat_decimal s') = totalNumberOfTroves (getGlobal rat_decimal empty_subgraph) + 1"
  by (rule zero_update_counts_unsaved_trove) (simp_all add: empty_subgraph_def)

end
