(* ===== verification/Subgraph_Changes.thy ===== *)
theory Subgraph_Changes
  imports Subgraph_Logic
begin

text \<open>
  Every change the subgraph records, of a price, a trove, a deposit, a stake or a surplus,
  connects two consecutive system states, both of them saved.
\<close>

section \<open>The invariant\<close>

definition states_ok :: "'d big_decimal \<Rightarrow> 'd subgraph \<Rightarrow> bool" where
  "states_ok bd s \<longleftrightarrow>
     (\<forall>i. currentSystemState (getGlobal bd s) = Some i \<longrightarrow>
        systemStates s i \<noteq> None \<and> i = show_i32 (systemStateCount (getGlobal bd s) - 1)) \<and>
     (\<forall>i x. systemStates s i = Some x \<longrightarrow> ss_id x = i \<and> i = show_i32 (ss_sequenceNumber x))"

definition linked :: "(string \<rightharpoonup> 'd system_state) \<Rightarrow> change \<Rightarrow> bool" where
  "linked states c \<longleftrightarrow>
     (\<exists>n. systemStateBefore c = show_i32 n \<and> systemStateAfter c = Some (show_i32 (n + 1)) \<and>
          states (show_i32 n) \<noteq> None \<and> states (show_i32 (n + 1)) \<noteq> None)"

definition all_linked :: "'d subgraph \<Rightarrow> bool" where
  "all_linked s \<longleftrightarrow>
     (\<forall>i c. priceChanges s i = Some c \<longrightarrow> linked (systemStates s) (pc_change c)) \<and>
     (\<forall>i c. troveChanges s i = Some c \<longrightarrow> linked (systemStates s) (tc_change c)) \<and>
     (\<forall>i c. depositChanges s i = Some c \<longrightarrow> linked (systemStates s) (dc_change c)) \<and>
     (\<forall>i c. stakeChanges s i = Some c \<longrightarrow> linked (systemStates s) (sc_change c)) \<and>
     (\<forall>i c. collSurplusChanges s i = Some c \<longrightarrow> linked (systemStates s) (cs_change c))"

definition changes_ok :: "'d big_decimal \<Rightarrow> 'd subgraph \<Rightarrow> bool" where
  "changes_ok bd s \<longleftrightarrow> states_ok bd s \<and> all_linked s"

text \<open>
  While a change is under way: \<open>at_state\<close> says the current system state has identifier \<open>i\<close>,
  \<open>moved\<close> that it is the successor of that one.
\<close>

definition at_state :: "'d big_decimal \<Rightarrow> string \<Rightarrow> 'd subgraph \<Rightarrow> bool" where
  "at_state bd i s \<longleftrightarrow> changes_ok bd s \<and> currentSystemState (getGlobal bd s) = Some i"

definition moved :: "'d big_decimal \<Rightarrow> string \<Rightarrow> 'd subgraph \<Rightarrow> bool" where
  "moved bd i s \<longleftrightarrow> changes_ok bd s \<and>
     (\<exists>n. i = show_i32 n \<and> systemStates s i \<noteq> None \<and>
          currentSystemState (getGlobal bd s) = Some (show_i32 (n + 1)))"

lemma linked_upd: "linked st c \<Longrightarrow> linked (st(i \<mapsto> x)) c"
  by (auto simp: linked_def)

lemma all_linked_upd: "all_linked s \<Longrightarrow> all_linked (s\<lparr>systemStates := (systemStates s)(i \<mapsto> x)\<rparr>)"
  by (auto simp: all_linked_def intro!: linked_upd)

lemma all_linked_global [simp]: "all_linked (update_global bd f s) = all_linked s"
  by (simp add: all_linked_def)

lemma states_set_counter [simp]:
  "currentSystemState (set_counter k n g) = currentSystemState g"
  "k \<noteq> SystemStateCount \<Longrightarrow> systemStateCount (set_counter k n g) = systemStateCount g"
  by (cases k; simp)+

section \<open>The current state\<close>

lemma at_state_current:
  assumes "at_state bd i s"
  shows "\<exists>x. getCurrentSystemState bd s = Inr (x, s) \<and> systemStates s i = Some x \<and> ss_id x = i"
  using assms by (auto simp: at_state_def changes_ok_def states_ok_def getCurrentSystemState_def load_opt_def)

lemma save_next_state:
  assumes "changes_ok bd s" and "n = systemStateCount (getGlobal bd s)"
    and "ss_id x = show_i32 n" and "ss_sequenceNumber x = n"
    and "s' = update_global bd (\<lambda>g. g\<lparr>currentSystemState := Some (show_i32 n)\<rparr>)
      ((update_global bd (set_counter SystemStateCount (n + 1)) s)
        \<lparr>systemStates := (systemStates s)(show_i32 n \<mapsto> x)\<rparr>)"
  shows "at_state bd (show_i32 n) s' \<and> systemStates s' = (systemStates s)(show_i32 n \<mapsto> x)"
proof -
  have "all_linked s'"
    using assms(1) unfolding assms(5) by (auto simp: changes_ok_def all_linked_def intro!: linked_upd)
  moreover have "states_ok bd s'"
    using assms(1-4) unfolding assms(5) by (auto simp: changes_ok_def states_ok_def)
  ultimately show ?thesis by (simp add: at_state_def changes_ok_def assms(5))
qed

lemma valid_current:
  "valid (changes_ok bd) (getCurrentSystemState bd)
     (\<lambda>x s. at_state bd (ss_id x) s \<and> systemStates s (ss_id x) = Some x)"
proof (rule validI)
  fix s x s'
  assume s: "changes_ok bd s" and x: "getCurrentSystemState bd s = Inr (x, s')"
  show "at_state bd (ss_id x) s' \<and> systemStates s' (ss_id x) = Some x"
  proof (cases "load_opt (systemStates s) (currentSystemState (getGlobal bd s))")
    case (Some y)
    with s x show ?thesis
      by (auto simp: getCurrentSystemState_def load_opt_def at_state_def changes_ok_def states_ok_def split: option.splits)
  next
    case None
    with x have "ss_id x = show_i32 (systemStateCount (getGlobal bd s))"
      "ss_sequenceNumber x = systemStateCount (getGlobal bd s)"
      "s' = update_global bd (\<lambda>g. g\<lparr>currentSystemState := Some (show_i32 (systemStateCount (getGlobal bd s)))\<rparr>)
        ((update_global bd (set_counter SystemStateCount (systemStateCount (getGlobal bd s) + 1)) s)
          \<lparr>systemStates := (systemStates s)(show_i32 (systemStateCount (getGlobal bd s)) \<mapsto> x)\<rparr>)"
      by (auto simp: getCurrentSystemState_def getSystemStateSequenceNumber_def increaseCounter_def bind_assoc
          save_systemState_def Let_def)
    from save_next_state [OF s refl this] show ?thesis using \<open>ss_id x = _\<close> by simp
  qed
qed

lemma keeps_at_state_current [hoare]: "keeps (at_state bd i) (getCurrentSystemState bd)"
  using at_state_current by (fastforce simp: keeps_def valid_def)

lemma keeps_ok_current [hoare]: "keeps (changes_ok bd) (getCurrentSystemState bd)"
  using valid_current unfolding keeps_def by (rule valid_weaken) (simp_all add: at_state_def)

lemma valid_bump: "valid (at_state bd i) (bumpSystemState bd x) (\<lambda>_. moved bd i)"
proof (rule validI)
  fix s s' and u :: unit
  assume s: "at_state bd i s" and b: "bumpSystemState bd x s = Inr (u, s')"
  let ?n = "systemStateCount (getGlobal bd s)"
  let ?x = "x\<lparr>ss_id := show_i32 ?n, ss_sequenceNumber := ?n\<rparr>"
  from b have "s' = update_global bd (\<lambda>g. g\<lparr>currentSystemState := Some (show_i32 ?n)\<rparr>)
      ((update_global bd (set_counter SystemStateCount (?n + 1)) s)
        \<lparr>systemStates := (systemStates s)(show_i32 ?n \<mapsto> ?x)\<rparr>)"
    by (simp add: bumpSystemState_def getSystemStateSequenceNumber_def increaseCounter_def bind_assoc
        save_systemState_def Let_def)
  with s save_next_state [of bd s ?n ?x s']
  have "at_state bd (show_i32 ?n) s' \<and> systemStates s' = (systemStates s)(show_i32 ?n \<mapsto> ?x)"
    by (simp add: at_state_def)
  moreover have "i = show_i32 (?n - 1)" "systemStates s i \<noteq> None"
    using s by (auto simp: at_state_def changes_ok_def states_ok_def)
  ultimately show "moved bd i s'"
    unfolding moved_def at_state_def by (auto intro!: exI [of _ "?n - 1"])
qed

section \<open>Recording a change\<close>

lemma keeps_transaction [hoare]:
  "keeps (changes_ok bd) (beginChange bd)" "keeps (changes_ok bd) (getTransaction bd e)"
  "keeps (changes_ok bd) (getUser bd i)" "keeps (at_state bd j) (getTransaction bd e)"
  "keeps (at_state bd j) (getUser bd i)"
  by (simp only: handler_defs; intro hoare keeps_modify;
      simp add: at_state_def changes_ok_def states_ok_def all_linked_def)+

lemma valid_createChange: "valid (changes_ok bd) (createChange bd e) (\<lambda>h. at_state bd (systemStateBefore h))"
proof -
  have "valid (changes_ok bd) (bind (getCurrentSystemState bd) (\<lambda>x. ret \<lparr>change_id = show_i32 n,
      change_sequenceNumber = n, change_transaction = tx_id t, systemStateBefore = ss_id x, systemStateAfter = None\<rparr>))
    (\<lambda>h. at_state bd (systemStateBefore h))" for n t
    by (rule valid_bind [OF valid_current]) (simp add: valid_def)
  note * = this
  show ?thesis
    unfolding createChange_def initChange_def [abs_def]
    by (rule valid_bind_keeps [OF keeps_transaction(1)], rule valid_bind_keeps [OF keeps_transaction(2)], rule *)
qed

lemma valid_finishChange:
  "valid (moved bd (systemStateBefore h)) (finishChange bd h)
     (\<lambda>h' s. changes_ok bd s \<and> linked (systemStates s) h')"
proof (rule validI)
  fix s h' s'
  assume s: "moved bd (systemStateBefore h) s" and h: "finishChange bd h s = Inr (h', s')"
  from s obtain n where n: "systemStateBefore h = show_i32 n" "systemStates s (show_i32 n) \<noteq> None"
      "at_state bd (show_i32 (n + 1)) s"
    by (auto simp: moved_def at_state_def)
  from at_state_current [OF n(3)] h have "s' = s" "h' = h\<lparr>systemStateAfter := Some (show_i32 (n + 1))\<rparr>"
    by (auto simp: finishChange_def bind_Inr)
  with n at_state_current [OF n(3)] show "changes_ok bd s' \<and> linked (systemStates s') h'"
    by (auto simp: at_state_def linked_def)
qed

lemma valid_finish:
  assumes "\<And>h' s. changes_ok bd s \<Longrightarrow> linked (systemStates s) h' \<Longrightarrow> changes_ok bd (f h' s)"
  shows "valid (moved bd (systemStateBefore h)) (bind (finishChange bd h) (\<lambda>h'. modify (f h'))) (\<lambda>_. changes_ok bd)"
  by (rule valid_bind [OF valid_finishChange]) (auto simp: valid_def assms)

lemma valid_finishers:
  "pc_change p = h \<Longrightarrow> valid (moved bd (systemStateBefore h)) (finishPriceChange bd p) (\<lambda>_. changes_ok bd)"
  "tc_change t = h \<Longrightarrow> valid (moved bd (systemStateBefore h)) (finishTroveChange bd t) (\<lambda>_. changes_ok bd)"
  "dc_change d = h \<Longrightarrow> valid (moved bd (systemStateBefore h)) (finishStabilityDepositChange bd d) (\<lambda>_. changes_ok bd)"
  "sc_change k = h \<Longrightarrow> valid (moved bd (systemStateBefore h)) (finishProtocolTokenStakeChange bd k) (\<lambda>_. changes_ok bd)"
  "cs_change c = h \<Longrightarrow> valid (moved bd (systemStateBefore h)) (finishCollSurplusChange bd c) (\<lambda>_. changes_ok bd)"
  unfolding finishPriceChange_def finishTroveChange_def finishStabilityDepositChange_def
    finishProtocolTokenStakeChange_def finishCollSurplusChange_def
  by (simp_all only:) (rule valid_finish; simp add: changes_ok_def states_ok_def all_linked_def)+

lemma keeps_change:
  "(\<And>h. valid (at_state bd (systemStateBefore h)) (f h) (\<lambda>_. changes_ok bd)) \<Longrightarrow>
     keeps (changes_ok bd) (bind (createChange bd e) f)"
  unfolding keeps_def by (rule valid_bind [OF valid_createChange])

lemma valid_then_keeps:
  "valid P m (\<lambda>_. changes_ok bd) \<Longrightarrow> (\<And>x. keeps (changes_ok bd) (f x)) \<Longrightarrow> valid P (bind m f) (\<lambda>_. changes_ok bd)"
  unfolding keeps_def by (rule valid_bind)

lemma at_state_offset [hoare]: "keeps (at_state bd i) (tryToOffsetWithTokensFromStabilityPool bd x c d)"
  unfolding tryToOffsetWithTokensFromStabilityPool_def by (intro hoare)

lemma valid_system_updates:
  "valid (at_state bd i) (updateSystemStateByTroveChange bd t) (\<lambda>_. moved bd i)"
  "valid (at_state bd i) (updateSystemStateByStabilityDepositChange bd d) (\<lambda>_. moved bd i)"
  "valid (at_state bd i) (updateSystemStateByCollSurplusChange bd c) (\<lambda>_. moved bd i)"
  "valid (at_state bd i) (updateSystemStateByProtocolTokenStakeChange bd k) (\<lambda>_. moved bd i)"
  unfolding updateSystemStateByTroveChange_def updateSystemStateByStabilityDepositChange_def
    updateSystemStateByCollSurplusChange_def updateSystemStateByProtocolTokenStakeChange_def Let_def
  by ((rule valid_bump | (rule valid_bind_keeps, intro hoare))+)

lemma keeps_saves [hoare]:
  "keeps (changes_ok bd) (save_user u)" "keeps (changes_ok bd) (save_deposit d)"
  "keeps (changes_ok bd) (save_stake k)" "keeps (changes_ok bd) (save_liquidation l)"
  "keeps (changes_ok bd) (save_redemption r)" "keeps (changes_ok bd) (setTroveStatus bd t st)"
  "keeps (changes_ok bd) (getTrove_entity bd i)" "keeps (changes_ok bd) (getStabilityDeposit_entity bd i)"
  "keeps (changes_ok bd) (getUserStake bd i)" "keeps (changes_ok bd) (createStake bd i)"
  "keeps (changes_ok bd) (getCurrentLiquidation bd e)" "keeps (changes_ok bd) (getCurrentRedemption bd e)"
  "keeps (at_state bd j) (getCurrentLiquidation bd e)" "keeps (at_state bd j) (getCurrentRedemption bd e)"
  "keeps (changes_ok bd) (swapTmpDepositUpdate bd v)"
  by (simp only: handler_defs; intro hoare keeps_modify;
      simp add: at_state_def changes_ok_def states_ok_def all_linked_def)+

lemma keeps_price [hoare]: "keeps (at_state bd j) (getCurrentPrice bd)"
  unfolding getCurrentPrice_def by (intro hoare)

lemma keeps_stake_counters [hoare]:
  "keeps (at_state bd j) (increaseTotalNumberOfProtocolTokenStakes bd)"
  "keeps (at_state bd j) (increaseNumberOfActiveProtocolTokenStakes bd)"
  "keeps (at_state bd j) (decreaseNumberOfActiveProtocolTokenStakes bd)"
  by (simp only: handler_defs; intro hoare keeps_modify;
      simp add: at_state_def changes_ok_def states_ok_def all_linked_def)+

section \<open>The handlers that record changes\<close>

lemma keeps_updateUserClaimColl [hoare]: "keeps (changes_ok bd) (updateUserClaimColl bd e i n)"
  unfolding updateUserClaimColl_def Let_def
  by (rule keeps_bind [OF keeps_transaction(3)], rule keeps_if [OF keeps_ret], rule keeps_change,
      rule valid_bind [OF valid_system_updates(3)], rule valid_then_keeps [OF valid_finishers(5)])
    (simp, intro hoare)

lemma keeps_updateStabilityDepositByOperation [hoare]:
  "keeps (changes_ok bd) (updateStabilityDepositByOperation bd e x op n g)"
  unfolding updateStabilityDepositByOperation_def Let_def
  by (rule keeps_change, rule valid_bind [OF valid_system_updates(2)],
      rule valid_then_keeps [OF valid_finishers(3)]) (simp, intro hoare)

lemma keeps_updateStabilityDeposit [hoare]: "keeps (changes_ok bd) (updateStabilityDeposit bd e i n)"
  unfolding updateStabilityDeposit_def Let_def by (intro hoare keeps_transaction)

lemma keeps_withdrawCollateralGain [hoare]:
  "keeps (changes_ok bd) (withdrawCollateralGainFromStabilityDeposit bd e i f l)"
  unfolding withdrawCollateralGainFromStabilityDeposit_def by (intro hoare)

lemma keeps_updateStake [hoare]: "keeps (changes_ok bd) (updateStake bd e i n)"
  unfolding updateStake_def Let_def
  by (rule keeps_bind, intro hoare, rule keeps_bind, intro hoare, rule keeps_change,
      rule valid_bind_keeps, intro hoare, rule valid_bind [OF valid_system_updates(4)],
      rule valid_then_keeps [OF valid_finishers(4)]) (simp, intro hoare)

lemma keeps_withdrawStakeGains [hoare]: "keeps (changes_ok bd) (withdrawStakeGains bd e i a b)"
  unfolding withdrawStakeGains_def Let_def
  by (rule keeps_if [OF keeps_ret], rule keeps_bind, intro hoare, rule keeps_bind, intro hoare,
      rule keeps_change, rule valid_bind [OF valid_system_updates(4)],
      rule valid_then_keeps [OF valid_finishers(4)]) (simp, intro hoare)

lemma keeps_updateTrove [hoare]: "keeps (changes_ok bd) (updateTrove bd e op i coll debt stake)"
  unfolding updateTrove_def Let_def
  by (rule keeps_bind [OF keeps_gets], rule keeps_bind, intro hoare, rule keeps_if [OF keeps_ret],
      rule keeps_change, (rule valid_bind_keeps, intro hoare)+,
      rule valid_bind [OF valid_system_updates(1)], rule valid_then_keeps [OF valid_finishers(2)])
    (simp, intro hoare keeps_modify, simp add: changes_ok_def states_ok_def all_linked_def)

lemma keeps_updatePrice [hoare]: "keeps (changes_ok bd) (updatePrice bd e p)"
proof -
  have first: "valid (\<lambda>s. at_state bd (ss_id x) s \<and> systemStates s (ss_id x) = Some x)
      (save_systemState (x\<lparr>ss_price := v\<rparr>)) (\<lambda>_. changes_ok bd)" for x v
  proof (rule validI)
    fix s s' and u :: unit
    assume s: "at_state bd (ss_id x) s \<and> systemStates s (ss_id x) = Some x"
      and "save_systemState (x\<lparr>ss_price := v\<rparr>) s = Inr (u, s')"
    then have s': "s' = s\<lparr>systemStates := (systemStates s)(ss_id x \<mapsto> x\<lparr>ss_price := v\<rparr>)\<rparr>"
      by (simp add: save_systemState_def)
    have "all_linked s'" unfolding s' using s by (intro all_linked_upd) (simp add: at_state_def changes_ok_def)
    moreover have "states_ok bd s'" unfolding s' using s by (auto simp: at_state_def changes_ok_def states_ok_def)
    ultimately show "changes_ok bd s'" by (simp add: changes_ok_def)
  qed
  have later: "keeps (changes_ok bd) (bind (createChange bd e) (\<lambda>h. bind (bumpSystemState bd y) (\<lambda>_.
      finishPriceChange bd \<lparr>pc_change = h, priceChange = d\<rparr>)))" for y d
    by (rule keeps_change, rule valid_bind [OF valid_bump], rule valid_finishers(1)) simp
  have "valid (\<lambda>s. at_state bd (ss_id x) s \<and> systemStates s (ss_id x) = Some x)
      (case ss_price x of None \<Rightarrow> save_systemState (x\<lparr>ss_price := Some (decimalize bd p)\<rparr>)
       | Some oldPrice \<Rightarrow>
           if \<not> bd_equals bd (decimalize bd p) oldPrice then
             bind (createChange bd e) (\<lambda>h. bind (bumpSystemState bd (x\<lparr>ss_price := Some (decimalize bd p)\<rparr>)) (\<lambda>_.
               finishPriceChange bd \<lparr>pc_change = h, priceChange = bd_minus bd (decimalize bd p) oldPrice\<rparr>))
           else ret ()) (\<lambda>_. changes_ok bd)" for x
  proof (cases "ss_price x")
    case None
    then show ?thesis using first [of x] by simp
  next
    case (Some a)
    show ?thesis
      unfolding Some option.case
      by (rule valid_weaken [OF valid_keeps [OF keeps_if [OF later keeps_ret]]]) (auto simp: at_state_def)
  qed
  then show ?thesis
    unfolding updatePrice_def Let_def keeps_def by (rule valid_bind [OF valid_current])
qed

lemma keeps_borrowingFee [hoare]: "keeps (changes_ok bd) (setBorrowingFeeOfLastTroveChange bd fee)"
proof -
  have "changes_ok bd s'"
    if "changes_ok bd s" "troveChanges s i = Some c"
      "s' = s\<lparr>troveChanges := (troveChanges s)(change_id (tc_change c) \<mapsto> c\<lparr>borrowingFee := v\<rparr>)\<rparr>" for s s' i c v
    using that by (auto simp: changes_ok_def states_ok_def all_linked_def)
  then show ?thesis
    by (auto simp: keeps_def valid_def setBorrowingFeeOfLastTroveChange_def bind_Inr require_Inr Let_def)
qed

lemma keeps_changes_ok_handle: "keeps (changes_ok bd) (handle bd c e x)"
proof (cases x)
  case (DebtTokenBorrowingFeePaid fee)
  then show ?thesis
    by (simp only: handle.simps handleDebtTokenBorrowingFeePaid_def increaseTotalBorrowingFeesPaid_def;
        intro hoare keeps_modify; simp add: changes_ok_def states_ok_def)
next
  case (UserDepositChanged i n)
  then show ?thesis by (simp only: handle.simps handleUserDepositChanged_def; intro hoare)
next
  case (FILGainWithdrawn i f l)
  then show ?thesis by (simp only: handle.simps handleFILGainWithdrawn_def; intro hoare)
next
  case (TroveLiquidated i)
  then show ?thesis
    by (simp only: handle.simps handleTroveLiquidated_def applyRedistributionToTroveBeforeLiquidation_def; intro hoare)
next
  case (Liquidation a b x y)
  then show ?thesis
    by (simp only: handle.simps handleLiquidation_def finishCurrentLiquidation_def; intro hoare keeps_modify;
        simp add: changes_ok_def states_ok_def)
next
  case (Redemption a b x y)
  then show ?thesis
    by (simp only: handle.simps handleRedemption_def finishCurrentRedemption_def; intro hoare keeps_modify;
        simp add: changes_ok_def states_ok_def)
next
  case (FrontEndRegistered i k)
  then show ?thesis
    by (simp only: handle.simps handler_defs; intro hoare keeps_modify;
        simp add: changes_ok_def states_ok_def all_linked_def)
next
  case (FrontEndTagSet i f)
  then show ?thesis
    by (simp only: handle.simps handler_defs; intro hoare keeps_modify;
        simp add: changes_ok_def states_ok_def all_linked_def)
next
  case (Transfer a b n)
  then show ?thesis
    by (simp only: handle.simps handler_defs; intro hoare keeps_modify;
        simp add: changes_ok_def states_ok_def all_linked_def)
next
  case (Approval a b n)
  then show ?thesis
    by (simp only: handle.simps handler_defs; intro hoare keeps_modify;
        simp add: changes_ok_def states_ok_def all_linked_def)
next
  case (LTermsUpdated a b)
  then show ?thesis
    by (simp only: handle.simps handler_defs; intro hoare keeps_modify;
        simp add: changes_ok_def states_ok_def all_linked_def)
qed (simp only: handle.simps BorrowerOperations_handleTroveUpdated_def handleCollSurplusBalanceUpdated_def
      handleLastGoodPriceUpdated_def handleStakeChanged_def handleStakeGainsWithdrawn_def
      TroveManager_handleTroveUpdated_def; intro hoare)+

lemma reachable_changes_ok: "reachable_subgraph bd c s \<Longrightarrow> changes_ok bd s"
  by (erule reachable_induct [OF _ _ keeps_changes_ok_handle])
    (simp add: changes_ok_def states_ok_def all_linked_def new_Global_def empty_subgraph_def getGlobal_def)

lemma states_ok_sequence:
  assumes "states_ok bd s" and "systemStates s (show_i32 n) = Some x"
  shows "ss_sequenceNumber x = n \<and> ss_id x = show_i32 n"
proof -
  from assms have "ss_id x = show_i32 n \<and> show_i32 n = show_i32 (ss_sequenceNumber x)"
    unfolding states_ok_def by blast
  then show ?thesis by simp
qed

section \<open>Properties\<close>

text \<open>
  C8: In every store the handlers reach, each recorded change, of any of the five kinds,
  names a saved system state before it and a saved one after it, and the second is the
  immediate successor of the first; the current system state is saved and is the last one.
\<close>

theorem changes_link_system_states:
  assumes "reachable_subgraph bd c s"
    and "h \<in> (pc_change ` ran (priceChanges s)) \<union> (tc_change ` ran (troveChanges s))
      \<union> (dc_change ` ran (depositChanges s)) \<union> (sc_change ` ran (stakeChanges s))
      \<union> (cs_change ` ran (collSurplusChanges s))"
    and "currentSystemState (getGlobal bd s) = Some i"
  shows "\<exists>x y z. systemStates s (systemStateBefore h) = Some x
    \<and> systemStateAfter h = Some (ss_id y) \<and> systemStates s (ss_id y) = Some y
    \<and> ss_sequenceNumber y = ss_sequenceNumber x + 1
    \<and> systemStates s i = Some z \<and> ss_sequenceNumber z = systemStateCount (getGlobal bd s) - 1"
proof -
  have ok: "states_ok bd s" and links: "all_linked s"
    using reachable_changes_ok [OF assms(1)] by (simp_all add: changes_ok_def)
  from assms(2) have "linked (systemStates s) h"
    by (elim UnE imageE; use links in \<open>simp add: all_linked_def ran_def\<close>) blast+
  then obtain n x y where n: "systemStateBefore h = show_i32 n" "systemStateAfter h = Some (show_i32 (n + 1))"
      "systemStates s (show_i32 n) = Some x" "systemStates s (show_i32 (n + 1)) = Some y"
    by (auto simp: linked_def)
  note xy = states_ok_sequence [OF ok n(3)] states_ok_sequence [OF ok n(4)]
  from ok assms(3) have i: "systemStates s i \<noteq> None \<and> i = show_i32 (systemStateCount (getGlobal bd s) - 1)"
    unfolding states_ok_def by blast
  then obtain z where z: "systemStates s i = Some z" by blast
  with i have "systemStates s (show_i32 (systemStateCount (getGlobal bd s) - 1)) = Some z" by simp
  from states_ok_sequence [OF ok this] n xy z
  show ?thesis by (intro exI [of _ x] exI [of _ y] exI [of _ z]) simp
qed

theorem changes_link_system_states_witness:
  "\<exists>s h. run_events rat_decimal sample_erc20
        [(sample_event, LastGoodPriceUpdated (10 ^ 18)),
         (sample_event, BorrowerTroveUpdated 0 ''0xa'' (2 * 10 ^ 18) (10 ^ 18) 5)] empty_subgraph = Inr s
     \<and> map_option tc_change (troveChanges s ''0'') = Some h
     \<and> (\<exists>x y z. systemStates s (systemStateBefore h) = Some x
       \<and> systemStateAfter h = Some (ss_id y) \<and> systemStates s (ss_id y) = Some y
       \<and> ss_sequenceNumber y = ss_sequenceNumber x + 1
       \<and> systemStates s ''1'' = Some z \<and> ss_sequenceNumber z = systemStateCount (getGlobal rat_decimal s) - 1)"
proof -
  obtain s where s: "run_events rat_decimal sample_erc20
        [(sample_event, LastGoodPriceUpdated (10 ^ 18)),
         (sample_event, BorrowerTroveUpdated 0 ''0xa'' (2 * 10 ^ 18) (10 ^ 18) 5)] empty_subgraph = Inr s"
      "troveChanges s ''0'' \<noteq> None" "currentSystemState (getGlobal rat_decimal s) = Some ''1''"
    by (simp add: run_simps)
  then obtain t where t: "troveChanges s ''0'' = Some t" by blast
  have "tc_change t \<in> (pc_change ` ran (priceChanges s)) \<union> (tc_change ` ran (troveChanges s))
      \<union> (dc_change ` ran (depositChanges s)) \<union> (sc_change ` ran (stakeChanges s))
      \<union> (cs_change ` ran (collSurplusChanges s))"
    using t by (auto simp: ran_def)
  from changes_link_system_states [OF run_events_reachable [OF s(1)] this s(3)] s t show ?thesis by auto
qed

end
