(* ===== verification/Block_Poller.thy ===== *)
theory Block_Poller
  imports Block_Polled "HOL-Library.Option_ord"
begin

text \<open>
  \<open>_doStart\<close> of \<^verbatim>\<open>packages/lib-ethers/src/BlockPolledSfStablecoinStore.ts\<close> as a state machine.
  The provider announces blocks, a timer of 50 ms gathers announcements, a fetch is in flight
  until it settles; the store is the one of \<open>Sdk_Store\<close>, with its own timer.  The events
  happen in any order: fetches may settle in another order than they were started, and after
  the poller was stopped.  The listeners of the store leave it alone.
\<close>

section \<open>State\<close>

record poller =
  latestBlock :: "int option"
  timerId :: "nat option"
  pendingTimers :: "nat list"
  nextTimer :: nat
  listening :: bool
  inFlight :: "int option list"
  pollStore :: "unit store"

text \<open>The extra state as the store keeps it.\<close>

definition extra_as_view :: "nat \<Rightarrow> polled_extra \<Rightarrow> state_view" where
  "extra_as_view a x =
     (\<lambda>key. if key = ''blockTag'' then map_option JNumber (extra_blockTag x)
            else if key = ''blockTimestamp'' then Some (JNumber (extra_blockTimestamp x))
            else if key = ''_feesFactory'' then Some (JObject (Obj a OFunction))
            else None)"

definition reduceExtra_view :: "state_view \<Rightarrow> state_view \<Rightarrow> state_view" where
  "reduceExtra_view old upd =
     (\<lambda>key. if key \<in> {''blockTag'', ''blockTimestamp'', ''_feesFactory''}
            then (case upd key of Some v \<Rightarrow> Some v | None \<Rightarrow> old key)
            else None)"

definition quiet :: "unit reaction" where
  "quiet listener params st = (st, Inr ())"

section \<open>Steps\<close>

text \<open>The state \<open>_doStart\<close> leaves: one fetch, of no particular block, and a listener.\<close>

definition doStart :: "unit store \<Rightarrow> poller" where
  "doStart st =
     \<lparr>latestBlock = None, timerId = None, pendingTimers = [], nextTimer = 0, listening = True,
      inFlight = [None], pollStore = st\<rparr>"

definition clearTimer :: "poller \<Rightarrow> poller" where
  "clearTimer p =
     (case timerId p of None \<Rightarrow> p | Some t \<Rightarrow> p\<lparr>pendingTimers := removeAll t (pendingTimers p)\<rparr>)"

definition blockListener :: "int \<Rightarrow> poller \<Rightarrow> poller" where
  "blockListener n p =
     (let p = clearTimer
            (p\<lparr>latestBlock := Some (max n (case latestBlock p of Some m \<Rightarrow> m | None \<Rightarrow> n))\<rparr>)
      in p\<lparr>timerId := Some (nextTimer p), pendingTimers := nextTimer p # pendingTimers p,
           nextTimer := Suc (nextTimer p)\<rparr>)"

text \<open>The timer's callback starts a fetch; its assertion fails without a block.\<close>

definition timerFires :: "nat \<Rightarrow> poller \<Rightarrow> poller result" where
  "timerFires t p =
     (let p = p\<lparr>pendingTimers := removeAll t (pendingTimers p)\<rparr>
      in js_assert (latestBlock p \<noteq> None) (Inr (p\<lparr>inFlight := inFlight p @ [latestBlock p]\<rparr>)))"

text \<open>
  A fetch settles with a state.  The first one, of no block, loads a store that is not
  loaded; a block's one loads it or updates it.
\<close>

definition settle ::
  "addresses \<Rightarrow> nat \<Rightarrow> base_state \<times> polled_extra \<Rightarrow> unit store \<Rightarrow> unit store" where
  "settle addrs a fetched st =
     (let (b, x) = fetched; view = Some (extra_as_view a x) in
      if loaded st then
        (case extra_blockTag x of
           None \<Rightarrow> st
         | Some _ \<Rightarrow> fst (update reduceExtra_view quiet addrs (Some (full_update b)) view st))
      else fst (load (\<lambda>st. (st, Inr ())) addrs b view st))"

definition drop_nth :: "nat \<Rightarrow> 'a list \<Rightarrow> 'a list" where
  "drop_nth i xs = take i xs @ drop (Suc i) xs"

definition fetchSettles :: "addresses \<Rightarrow> nat \<Rightarrow> nat \<Rightarrow> base_state \<times> polled_extra \<Rightarrow> poller \<Rightarrow> poller" where
  "fetchSettles addrs a i fetched p =
     p\<lparr>inFlight := drop_nth i (inFlight p), pollStore := settle addrs a fetched (pollStore p)\<rparr>"

definition fetchFails :: "nat \<Rightarrow> poller \<Rightarrow> poller" where
  "fetchFails i p = p\<lparr>inFlight := drop_nth i (inFlight p)\<rparr>"

text \<open>The function \<open>start\<close> returns: the store's \<open>stop\<close> around \<open>_doStart\<close>'s own.\<close>

definition stopPolling :: "poller \<Rightarrow> poller" where
  "stopPolling p =
     (clearTimer (p\<lparr>listening := False\<rparr>))\<lparr>pollStore := stop (\<lambda>st. st) (pollStore p)\<rparr>"

inductive poll_step :: "poller \<Rightarrow> poller \<Rightarrow> bool" where
  announced: "listening p \<Longrightarrow> poll_step p (blockListener n p)"
| fired: "t \<in> set (pendingTimers p) \<Longrightarrow> timerFires t p = Inr p' \<Longrightarrow> poll_step p p'"
| settled: "i < length (inFlight p) \<Longrightarrow> extra_blockTag x = inFlight p ! i \<Longrightarrow>
    poll_step p (fetchSettles addrs a i (b, x) p)"
| failed: "i < length (inFlight p) \<Longrightarrow> poll_step p (fetchFails i p)"
| stopped: "poll_step p (stopPolling p)"
| store_timer: "t \<in> set (timers (pollStore p)) \<Longrightarrow>
    poll_step p (p\<lparr>pollStore := fst (fire_timer reduceExtra_view quiet addrs t (pollStore p))\<rparr>)"

inductive polled_reachable :: "poller \<Rightarrow> bool" where
  start: "\<not> loaded st \<Longrightarrow> extraState st = None \<Longrightarrow> polled_reachable (doStart st)"
| step: "polled_reachable p \<Longrightarrow> poll_step p p' \<Longrightarrow> polled_reachable p'"

text \<open>The steps in which only the oldest fetch in flight settles.\<close>

inductive in_order_step :: "poller \<Rightarrow> poller \<Rightarrow> bool" where
  announced: "listening p \<Longrightarrow> in_order_step p (blockListener n p)"
| fired: "t \<in> set (pendingTimers p) \<Longrightarrow> timerFires t p = Inr p' \<Longrightarrow> in_order_step p p'"
| settled: "inFlight p \<noteq> [] \<Longrightarrow> extra_blockTag x = hd (inFlight p) \<Longrightarrow>
    in_order_step p (fetchSettles addrs a 0 (b, x) p)"
| failed: "i < length (inFlight p) \<Longrightarrow> in_order_step p (fetchFails i p)"
| stopped: "in_order_step p (stopPolling p)"
| store_timer: "t \<in> set (timers (pollStore p)) \<Longrightarrow>
    in_order_step p (p\<lparr>pollStore := fst (fire_timer reduceExtra_view quiet addrs t (pollStore p))\<rparr>)"

inductive in_order_reachable :: "poller \<Rightarrow> bool" where
  start: "\<not> loaded st \<Longrightarrow> extraState st = None \<Longrightarrow> in_order_reachable (doStart st)"
| step: "in_order_reachable p \<Longrightarrow> in_order_step p p' \<Longrightarrow> in_order_reachable p'"

text \<open>The block the store's state is of.\<close>

definition shown_block :: "poller \<Rightarrow> int option" where
  "shown_block p =
     (case Option.bind (extraState (pollStore p)) (\<lambda>x. x ''blockTag'') of
        Some (JNumber n) \<Rightarrow> Some n
      | _ \<Rightarrow> None)"

section \<open>Lemmas\<close>

definition tag_of :: "unit store \<Rightarrow> int option" where
  "tag_of st =
     (case Option.bind (extraState st) (\<lambda>x. x ''blockTag'') of Some (JNumber n) \<Rightarrow> Some n | _ \<Rightarrow> None)"

lemma shown_block_tag: "shown_block p = tag_of (pollStore p)"
  by (simp add: shown_block_def tag_of_def)

lemma quiet_loop: "\<exists>c. notify_loop quiet params ls st = (c, st, Inr ())"
proof (induction ls)
  case (Cons l ls)
  then show ?case by (cases l) (auto simp: quiet_def [abs_def] split: prod.splits)
qed simp

lemma update_quiet: "fst (update R quiet addrs u x st) = fst (update_state R addrs u x st)"
proof -
  obtain st' r where st': "update_state R addrs u x st = (st', r)" by fastforce
  show ?thesis
  proof (cases r)
    case (Inr params)
    obtain c where "notify_loop quiet params (listeners st') st' = (c, st', Inr ())"
      using quiet_loop by blast
    then show ?thesis by (simp add: update_def notify_def st' Inr)
  qed (simp add: update_def st')
qed

lemma update_state_extra:
  "extraState (fst (update_state R addrs u x st)) = extraState st
   \<or> (\<exists>s v. extraState st = Some s \<and> x = Some v \<and> extraState (fst (update_state R addrs u x st)) = Some (R s v))"
  by (auto simp: update_state_def Let_def split: option.splits sum.splits)

lemma update_state_loaded: "loaded (fst (update_state R addrs u x st)) = loaded st"
  by (auto simp: update_state_def Let_def split: option.splits sum.splits)

lemma settle_tag:
  "tag_of (settle addrs a (b, x) st) = tag_of st \<or> tag_of (settle addrs a (b, x) st) = extra_blockTag x"
  unfolding settle_def Let_def update_quiet
  using update_state_extra [of reduceExtra_view addrs "Some (full_update b)" "Some (extra_as_view a x)" st]
  by (auto simp: tag_of_def load_def Let_def extra_as_view_def reduceExtra_view_def
      split: option.splits sum.splits)

lemma settle_loaded:
  "\<not> loaded (settle addrs a f st) \<Longrightarrow> \<not> loaded st \<and> extraState (settle addrs a f st) = extraState st"
  unfolding settle_def Let_def update_quiet
  by (auto simp: update_state_loaded load_def Let_def split: prod.splits option.splits sum.splits if_splits)

lemma settle_keeps:
  "loaded st \<or> extraState st = None \<Longrightarrow> tag_of st \<le> extra_blockTag x \<Longrightarrow>
     tag_of st \<le> tag_of (settle addrs a (b, x) st) \<and> tag_of (settle addrs a (b, x) st) \<le> extra_blockTag x"
  using settle_tag [of addrs a b x st] by auto

lemma fire_timer_tag: "tag_of (fst (fire_timer R quiet addrs t st)) = tag_of st"
  using update_state_extra [of R addrs None None "st\<lparr>timers := removeAll t (timers st), updateTimeoutId := None\<rparr>"]
  by (simp add: fire_timer_def update_quiet tag_of_def)

lemma fire_timer_loaded: "loaded (fst (fire_timer R quiet addrs t st)) = loaded st"
  by (simp add: fire_timer_def update_quiet update_state_loaded)

lemma fire_timer_extra: "extraState (fst (fire_timer R quiet addrs t st)) = extraState st"
  using update_state_extra [of R addrs None None "st\<lparr>timers := removeAll t (timers st), updateTimeoutId := None\<rparr>"]
  by (simp add: fire_timer_def update_quiet)

lemma stop_tag: "tag_of (stop (\<lambda>st. st) st) = tag_of st" "loaded (stop (\<lambda>st. st) st) = loaded st"
  "extraState (stop (\<lambda>st. st) st) = extraState st"
  by (simp_all add: stop_def cancelUpdateIfScheduled_def tag_of_def split: option.splits)

lemma clearTimer_simps [simp]:
  "latestBlock (clearTimer p) = latestBlock p" "timerId (clearTimer p) = timerId p"
  "nextTimer (clearTimer p) = nextTimer p" "listening (clearTimer p) = listening p"
  "inFlight (clearTimer p) = inFlight p" "pollStore (clearTimer p) = pollStore p"
  by (simp_all add: clearTimer_def split: option.splits)

lemma set_drop_nth: "set (drop_nth i xs) \<subseteq> set xs"
  by (auto simp: drop_nth_def dest: in_set_takeD in_set_dropD)

lemma sorted_drop_nth:
  fixes xs :: "'a::linorder list"
  assumes "sorted xs"
  shows "sorted (drop_nth i xs)"
proof -
  have "sorted (take i xs @ drop i xs)" using assms by simp
  moreover have "set (drop (Suc i) xs) \<subseteq> set (drop i xs)" by (simp add: set_drop_subset_set_drop)
  moreover have "sorted (drop (Suc i) xs)" using assms by (rule sorted_wrt_drop)
  ultimately show ?thesis unfolding drop_nth_def sorted_append by blast
qed

lemma removeAll_unique: "\<forall>t\<in>set ts. t = a \<Longrightarrow> removeAll a ts = []"
  by (induction ts) auto

section \<open>Invariants\<close>

text \<open>Timers: at most one is pending, the current one, and never without a block.\<close>

definition timers_inv :: "poller \<Rightarrow> bool" where
  "timers_inv p \<longleftrightarrow> distinct (pendingTimers p) \<and> (\<forall>t\<in>set (pendingTimers p). timerId p = Some t)
     \<and> (pendingTimers p \<noteq> [] \<longrightarrow> latestBlock p \<noteq> None) \<and> (\<not> listening p \<longrightarrow> pendingTimers p = [])"

text \<open>Blocks: fetches are started in order, none for a block not announced.\<close>

definition blocks_inv :: "poller \<Rightarrow> bool" where
  "blocks_inv p \<longleftrightarrow> sorted (inFlight p) \<and> (\<forall>t\<in>set (inFlight p). t \<le> latestBlock p)
     \<and> shown_block p \<le> latestBlock p \<and> (loaded (pollStore p) \<or> extraState (pollStore p) = None)"

lemma clearTimer_pending: "timers_inv p \<Longrightarrow> pendingTimers (clearTimer p) = []"
  by (cases "timerId p") (auto simp: clearTimer_def timers_inv_def removeAll_unique)

lemma timers_inv_latest: "timers_inv p \<Longrightarrow> timers_inv (p\<lparr>latestBlock := Some n\<rparr>)"
  by (simp add: timers_inv_def)

lemma timers_inv_step: "poll_step p p' \<Longrightarrow> timers_inv p \<Longrightarrow> timers_inv p'"
proof (induction rule: poll_step.induct)
  case (announced p n)
  have "pendingTimers (clearTimer (p\<lparr>latestBlock := Some b\<rparr>)) = []" for b
    using clearTimer_pending timers_inv_latest announced by blast
  with announced show ?case by (auto simp: blockListener_def Let_def timers_inv_def)
next
  case (fired t p p')
  then show ?case
    by (auto simp: timerFires_def Let_def js_assert_Inr timers_inv_def distinct_removeAll)
next
  case (stopped p)
  then have "pendingTimers (clearTimer (p\<lparr>listening := False\<rparr>)) = []"
    by (cases "timerId p") (auto simp: clearTimer_def timers_inv_def removeAll_unique)
  then show ?case by (simp add: stopPolling_def timers_inv_def)
qed (simp_all add: timers_inv_def fetchSettles_def fetchFails_def)

lemma le_max_block: "latestBlock p \<le> Some (max n (case latestBlock p of Some m \<Rightarrow> m | None \<Rightarrow> n))"
  by (cases "latestBlock p") simp_all

lemma sorted_snoc: "sorted (xs @ [y]) \<longleftrightarrow> sorted xs \<and> (\<forall>x\<in>set xs. x \<le> y)" for y :: "'a::linorder"
  by (auto simp: sorted_append)

lemma blocks_inv_step: "poll_step p p' \<Longrightarrow> blocks_inv p \<Longrightarrow> blocks_inv p'"
proof (induction rule: poll_step.induct)
  case (announced p n)
  then show ?case
    using le_max_block [of p n]
    by (auto simp: blockListener_def Let_def blocks_inv_def shown_block_tag intro: order_trans)
next
  case (fired t p p')
  then show ?case
    by (auto simp: timerFires_def Let_def js_assert_Inr blocks_inv_def shown_block_tag sorted_append)
next
  case (settled i p x addrs a b)
  have "tag_of (settle addrs a (b, x) (pollStore p)) \<le> latestBlock p"
    using settle_tag [of addrs a b x "pollStore p"] settled nth_mem [OF settled(1)]
    by (auto simp: blocks_inv_def shown_block_tag)
  with settled show ?case
    using sorted_drop_nth set_drop_nth settle_loaded [of addrs a "(b, x)" "pollStore p"]
    by (fastforce simp: fetchSettles_def blocks_inv_def shown_block_tag)
next
  case (failed i p)
  then show ?case
    using sorted_drop_nth set_drop_nth by (fastforce simp: fetchFails_def blocks_inv_def shown_block_tag)
next
  case (stopped p)
  then show ?case by (simp add: stopPolling_def blocks_inv_def shown_block_tag stop_tag)
next
  case (store_timer t p addrs)
  then show ?case
    by (simp add: blocks_inv_def shown_block_tag fire_timer_tag fire_timer_loaded fire_timer_extra)
qed

lemma invs_start: "\<not> loaded st \<Longrightarrow> extraState st = None \<Longrightarrow> timers_inv (doStart st) \<and> blocks_inv (doStart st)"
  by (simp add: timers_inv_def blocks_inv_def doStart_def shown_block_def)

lemma invs_reachable: "polled_reachable p \<Longrightarrow> timers_inv p \<and> blocks_inv p"
  by (induction rule: polled_reachable.induct) (use invs_start timers_inv_step blocks_inv_step in blast)+

text \<open>In order, no fetch in flight is for an older block than the state shown.\<close>

definition order_inv :: "poller \<Rightarrow> bool" where
  "order_inv p \<longleftrightarrow> (\<forall>t\<in>set (inFlight p). shown_block p \<le> t)"

lemma in_order_poll_step: "in_order_step p p' \<Longrightarrow> poll_step p p'"
  by (induction rule: in_order_step.induct)
    (auto intro: poll_step.intros simp: hd_conv_nth)

lemma in_order_reachable_polled: "in_order_reachable p \<Longrightarrow> polled_reachable p"
  by (induction rule: in_order_reachable.induct)
    (auto intro: polled_reachable.intros in_order_poll_step)

lemma in_order_shown:
  assumes "in_order_step p p'" and "order_inv p" "blocks_inv p"
  shows "shown_block p \<le> shown_block p' \<and> order_inv p'"
  using assms
proof (induction rule: in_order_step.induct)
  case (announced p n)
  then show ?case by (simp add: blockListener_def Let_def order_inv_def shown_block_tag)
next
  case (fired t p p')
  then show ?case
    by (auto simp: timerFires_def Let_def js_assert_Inr order_inv_def blocks_inv_def shown_block_tag)
next
  case (settled p x addrs a b)
  then obtain t ts where p: "inFlight p = t # ts" "extra_blockTag x = t" by (cases "inFlight p") auto
  with settled have "tag_of (pollStore p) \<le> extra_blockTag x" "\<forall>u\<in>set ts. extra_blockTag x \<le> u"
    by (auto simp: order_inv_def blocks_inv_def shown_block_tag)
  moreover from this(1) settled have
    "tag_of (pollStore p) \<le> tag_of (settle addrs a (b, x) (pollStore p))
     \<and> tag_of (settle addrs a (b, x) (pollStore p)) \<le> extra_blockTag x"
    by (intro settle_keeps) (auto simp: blocks_inv_def)
  ultimately show ?case
    by (auto simp: fetchSettles_def order_inv_def shown_block_tag p drop_nth_def intro: order_trans)
next
  case (failed i p)
  then show ?case using set_drop_nth by (fastforce simp: fetchFails_def order_inv_def shown_block_tag)
next
  case (stopped p)
  then show ?case by (simp add: stopPolling_def order_inv_def shown_block_tag stop_tag)
next
  case (store_timer t p addrs)
  then show ?case by (simp add: order_inv_def shown_block_tag fire_timer_tag)
qed

lemma order_inv_reachable: "in_order_reachable p \<Longrightarrow> order_inv p"
proof (induction rule: in_order_reachable.induct)
  case (start st)
  then show ?case by (simp add: order_inv_def doStart_def shown_block_def)
next
  case (step p p')
  then show ?case using in_order_shown invs_reachable in_order_reachable_polled by blast
qed

text \<open>
  The store: that of \<open>Store_Facts\<close>, with an extra state once it is loaded.  A fetch of a block
  then updates it, when the state can be derived.
\<close>

definition store_inv :: "unit store \<Rightarrow> bool" where
  "store_inv st \<longleftrightarrow> core_ok st \<and> (loaded st \<longrightarrow> extraState st \<noteq> None)"

lemma settle_unloaded: "\<not> loaded st \<Longrightarrow> settle addrs a (b, x) st = fst (load (\<lambda>st. (st, Inr ())) addrs b (Some (extra_as_view a x)) st)"
  by (simp add: settle_def)

lemma settle_updates:
  "loaded st \<Longrightarrow> settle addrs a (b, x) st = st
     \<or> settle addrs a (b, x) st
       = fst (update_state reduceExtra_view addrs (Some (full_update b)) (Some (extra_as_view a x)) st)"
  by (simp add: settle_def update_quiet split: option.split)

lemma store_inv_load: "store_inv st \<Longrightarrow> store_inv (fst (load (\<lambda>st. (st, Inr ())) addrs b (Some e) st))"
  using core_ok_load [of st "[]" "Inr ()" addrs b "Some e"]
  by (auto simp: store_inv_def load_def Let_def split: sum.splits if_splits)

lemma store_inv_update_state: "store_inv st \<Longrightarrow> store_inv (fst (update_state R addrs u x st))"
  using core_ok_update_state [of st R addrs u x] update_state_extra [of R addrs u x st]
  by (auto simp: store_inv_def update_state_loaded)

lemma store_inv_settle: "store_inv st \<Longrightarrow> store_inv (settle addrs a (b, x) st)"
  using store_inv_load store_inv_update_state settle_updates settle_unloaded by (metis (full_types))

lemma store_inv_step: "poll_step p p' \<Longrightarrow> store_inv (pollStore p) \<Longrightarrow> store_inv (pollStore p')"
proof (induction rule: poll_step.induct)
  case (store_timer t p addrs)
  then have "store_inv ((pollStore p)\<lparr>timers := removeAll t (timers (pollStore p)), updateTimeoutId := None\<rparr>)"
    using core_ok_expired by (auto simp: store_inv_def)
  then show ?case by (simp add: fire_timer_def update_quiet store_inv_update_state)
next
  case (stopped p)
  then show ?case using core_ok_stop by (auto simp: store_inv_def stopPolling_def stop_tag)
qed (auto simp: blockListener_def timerFires_def Let_def js_assert_Inr fetchSettles_def fetchFails_def
    store_inv_settle)

lemma store_inv_steps: "poll_step\<^sup>*\<^sup>* (doStart new_store) p \<Longrightarrow> store_inv (pollStore p)"
proof (induction rule: rtranclp_induct)
  case base
  then show ?case by (simp add: store_inv_def doStart_def new_store_def core_ok_def timers_ok_def)
qed (rule store_inv_step)

lemma polled_reachable_steps: "poll_step\<^sup>*\<^sup>* (doStart new_store) p \<Longrightarrow> polled_reachable p"
proof (induction rule: rtranclp_induct)
  case base
  then show ?case by (rule polled_reachable.start) (simp_all add: new_store_def)
qed (rule polled_reachable.step)

lemma scheduleUpdate_pending: "timers (scheduleUpdate st) \<noteq> []"
  by (simp add: scheduleUpdate_def Let_def)

lemma settle_late:
  assumes "store_inv st" and "loaded st" and "extra_blockTag x = Some n" and "derive addrs b = Inr f"
  shows "tag_of (settle addrs a (b, x) st) = Some n \<and> timers (settle addrs a (b, x) st) \<noteq> []"
proof -
  obtain b0 d e where st: "baseState st = Some b0" "derivedState st = Some d" "extraState st = Some e"
    using assms(1,2) by (auto simp: store_inv_def core_ok_def)
  have "derive addrs (reduce b0 (full_update b)) = Inr f"
    using derive_same [OF same_contents_full_update] assms(4) by simp
  with st assms(2,3) show ?thesis
    by (auto simp: settle_def update_quiet update_state_def Let_def tag_of_def reduceExtra_view_def
        extra_as_view_def scheduleUpdate_pending)
qed

lemma stop_timers: "core_ok st \<Longrightarrow> timers (stop (\<lambda>st. st) st) = []"
  by (auto simp: core_ok_def timers_ok_def stop_def cancelUpdateIfScheduled_def split: option.split)

section \<open>Properties\<close>

text \<open>
  C28: However announcements, timers, fetches and the stop interleave, at most one timer of the
  poller is pending, its callback's assertion never fails, and none is pending once the poller
  was stopped, so no fetch is started then; fetches are started in the order of their blocks,
  and neither a fetch in flight nor the state shown is of a block not announced yet.
\<close>

theorem poller_invariant:
  assumes "polled_reachable p"
  shows "length (pendingTimers p) \<le> 1
    \<and> (\<forall>t\<in>set (pendingTimers p). timerId p = Some t
         \<and> timerFires t p = Inr (p\<lparr>pendingTimers := [], inFlight := inFlight p @ [latestBlock p]\<rparr>))
    \<and> (listening p \<or> pendingTimers p = [])
    \<and> sorted (inFlight p) \<and> (\<forall>t\<in>set (inFlight p). t \<le> latestBlock p) \<and> shown_block p \<le> latestBlock p"
proof -
  have inv: "timers_inv p" "blocks_inv p" using invs_reachable [OF assms] by auto
  have one: "pendingTimers p = [] \<or> (\<exists>t. pendingTimers p = [t] \<and> timerId p = Some t)"
    using inv(1) unfolding timers_inv_def
    by (cases "pendingTimers p"; cases "tl (pendingTimers p)") auto
  with inv show ?thesis
    by (auto simp: timers_inv_def blocks_inv_def timerFires_def Let_def)
qed

text \<open>
  When fetches settle in the order they were started, whatever else happens in between, a
  step never moves the store's state back to an earlier block.
\<close>

theorem shown_block_advances:
  assumes "in_order_reachable p" and "in_order_step p p'"
  shows "shown_block p \<le> shown_block p'"
  using in_order_shown [OF assms(2) order_inv_reachable [OF assms(1)]]
    invs_reachable [OF in_order_reachable_polled [OF assms(1)]] by blast

theorem shown_block_advances_witness:
  "shown_block (doStart (new_store :: unit store)) \<le> shown_block (blockListener 7 (doStart new_store))"
proof (rule shown_block_advances)
  show "in_order_reachable (doStart (new_store :: unit store))"
    by (rule in_order_reachable.start) (simp_all add: new_store_def)
  show "in_order_step (doStart new_store) (blockListener 7 (doStart new_store))"
    by (rule in_order_step.announced) (simp add: doStart_def)
qed

definition sample_extra :: "int \<Rightarrow> polled_extra" where
  "sample_extra n =
     \<lparr>extra_blockTag = Some n, extra_blockTimestamp = 0, extra_feesFactory = \<lambda>_ _. Inr sample_fees\<rparr>"

text \<open>Two blocks are announced and fetched; the second fetch settles first.\<close>

definition two_fetches :: poller where
  "two_fetches =
     \<lparr>latestBlock = Some 2, timerId = Some 1, pendingTimers = [], nextTimer = 2, listening = True,
      inFlight = [None, Some 1, Some 2], pollStore = new_store\<rparr>"

lemma two_fetches_reachable: "poll_step\<^sup>*\<^sup>* (doStart new_store) two_fetches"
proof -
  let ?p0 = "doStart (new_store :: unit store)"
  let ?p1 = "blockListener 1 ?p0"
  let ?p2 = "?p1\<lparr>pendingTimers := [], inFlight := [None, Some 1]\<rparr>"
  let ?p3 = "blockListener 2 ?p2"
  have "poll_step ?p0 ?p1" by (rule poll_step.announced) (simp add: doStart_def)
  moreover have "poll_step ?p1 ?p2"
    by (rule poll_step.fired [of 0])
      (simp_all add: blockListener_def doStart_def clearTimer_def timerFires_def Let_def)
  moreover have "poll_step ?p2 ?p3"
    by (rule poll_step.announced) (simp add: blockListener_def doStart_def Let_def)
  moreover have "poll_step ?p3 two_fetches"
    by (rule poll_step.fired [of 1])
      (simp_all add: blockListener_def doStart_def clearTimer_def timerFires_def Let_def two_fetches_def)
  ultimately show ?thesis by (meson converse_rtranclp_into_rtranclp rtranclp.rtrancl_refl)
qed

lemma sample_base_derive: "derive sample_addresses sample_base = Inr sample_derived"
  by (rule sample_derive) (simp_all add: sample_base_def Let_def)

definition second_settled :: poller where
  "second_settled = fetchSettles sample_addresses 0 2 (sample_base, sample_extra 2) two_fetches"

lemma second_settled_reachable: "poll_step\<^sup>*\<^sup>* (doStart new_store) second_settled"
proof -
  have "poll_step two_fetches second_settled"
    unfolding second_settled_def
    by (rule poll_step.settled) (simp_all add: two_fetches_def sample_extra_def numeral_2_eq_2)
  with two_fetches_reachable show ?thesis by (rule rtranclp.rtrancl_into_rtrancl)
qed

lemmas second_settled_simps =
  second_settled_def fetchSettles_def two_fetches_def settle_def load_def new_store_def sample_base_derive
  Let_def scheduleUpdate_def cancelUpdateIfScheduled_def shown_block_def extra_as_view_def sample_extra_def
  drop_nth_def

theorem poller_invariant_witness:
  "shown_block second_settled = Some 2 \<and> inFlight second_settled = [None, Some 1]
    \<and> sorted (inFlight second_settled) \<and> shown_block second_settled \<le> latestBlock second_settled"
  using poller_invariant [OF polled_reachable_steps [OF second_settled_reachable]]
  by (simp add: second_settled_simps)

text \<open>
  C37: A fetch that settles late is not dropped, at any time of a poller started over a new store.
  Once the store is loaded, a fetch of block \<open>n\<close> that settles leaves it at block \<open>n\<close>, also
  when it was at a later one, provided the fees of the fetched state can be derived.  Stopping
  leaves no timer of the store pending; but a fetch in flight that settles after the stop
  updates the store all the same, and an update timer is pending again although the poller no
  longer listens.
\<close>

theorem late_fetch_moves_back:
  assumes "poll_step\<^sup>*\<^sup>* (doStart new_store) p" and "loaded (pollStore p)"
    and "i < length (inFlight p)" and "inFlight p ! i = Some n"
    and "extra_blockTag x = Some n" and "derive addrs b = Inr f"
  shows "poll_step p (fetchSettles addrs a i (b, x) p)
    \<and> shown_block (fetchSettles addrs a i (b, x) p) = Some n
    \<and> timers (pollStore (stopPolling p)) = []
    \<and> poll_step (stopPolling p) (fetchSettles addrs a i (b, x) (stopPolling p))
    \<and> \<not> listening (fetchSettles addrs a i (b, x) (stopPolling p))
    \<and> shown_block (fetchSettles addrs a i (b, x) (stopPolling p)) = Some n
    \<and> timers (pollStore (fetchSettles addrs a i (b, x) (stopPolling p))) \<noteq> []"
proof -
  note inv = store_inv_steps [OF assms(1)]
  have "poll_step\<^sup>*\<^sup>* (doStart new_store) (stopPolling p)"
    using assms(1) poll_step.stopped by (rule rtranclp.rtrancl_into_rtrancl)
  note inv' = store_inv_steps [OF this]
  have stopped: "inFlight (stopPolling p) = inFlight p" "loaded (pollStore (stopPolling p))"
    "\<not> listening (stopPolling p)"
    using assms(2) by (simp_all add: stopPolling_def stop_tag)
  have "timers (pollStore (stopPolling p)) = []"
    using inv stop_timers by (auto simp: stopPolling_def store_inv_def)
  moreover have "poll_step p (fetchSettles addrs a i (b, x) p)"
    "poll_step (stopPolling p) (fetchSettles addrs a i (b, x) (stopPolling p))"
    using assms(3-5) stopped(1) by (auto intro!: poll_step.settled)
  ultimately show ?thesis
    using settle_late [OF inv assms(2,5,6)] settle_late [OF inv' stopped(2) assms(5,6)] stopped(3)
    by (simp add: fetchSettles_def shown_block_tag)
qed

theorem late_fetch_moves_back_witness:
  "shown_block second_settled = Some 2
    \<and> shown_block (fetchSettles sample_addresses 0 1 (sample_base, sample_extra 1) second_settled) = Some 1
    \<and> timers (pollStore (fetchSettles sample_addresses 0 1 (sample_base, sample_extra 1) (stopPolling second_settled)))
      \<noteq> []"
proof -
  have "shown_block second_settled = Some 2" "loaded (pollStore second_settled)"
    "inFlight second_settled = [None, Some 1]" "extra_blockTag (sample_extra 1) = Some 1"
    by (simp_all add: second_settled_simps)
  with late_fetch_moves_back [OF second_settled_reachable, of 1 1 "sample_extra 1" sample_addresses sample_base]
    sample_base_derive show ?thesis by simp
qed

end
