(* ===== verification/Subgraph_SortKey.thy ===== *)
theory Subgraph_SortKey
  imports Subgraph_Logic
begin

text \<open>
  The fields a trove entity keeps twice: every saved trove's decimal amounts are its raw ones,
  it is open exactly while it has collateral, and its \<open>collateralRatioSortKey\<close> is its debt per
  stake less the redistributed debt per stake at its snapshot, so that the key orders troves by
  their debt per stake, redistributions included.
\<close>

definition sort_key :: "int \<Rightarrow> int \<Rightarrow> int \<Rightarrow> int" where
  "sort_key debt stake snapshotDebt = (debt * BIGINT_SCALING_FACTOR) sdiv stake - snapshotDebt"

definition trove_consistent :: "'d big_decimal \<Rightarrow> 'd trove_entity \<Rightarrow> bool" where
  "trove_consistent bd t \<longleftrightarrow>
     (case (rawCollateral t, rawDebt t, rawStake t,
            rawSnapshotOfTotalRedistributedCollateral t, rawSnapshotOfTotalRedistributedDebt t) of
        (Some coll, Some debt, Some stake, Some snapshotColl, Some snapshotDebt) \<Rightarrow>
          trove_collateral t = decimalize bd coll \<and> trove_debt t = decimalize bd debt \<and>
          (trove_status t = ''open'' \<longleftrightarrow> coll \<noteq> 0) \<and>
          collateralRatioSortKey t = (if stake = 0 then None else Some (sort_key debt stake snapshotDebt))
      | _ \<Rightarrow> False)"

definition troves_consistent :: "'d big_decimal \<Rightarrow> 'd subgraph \<Rightarrow> bool" where
  "troves_consistent bd s \<longleftrightarrow> (\<forall>i t. troves s i = Some t \<longrightarrow> trove_consistent bd t)"

lemma set_raw_consistent:
  "trove_consistent bd ((set_raw g coll debt stake (t\<lparr>trove_collateral := decimalize bd coll,
      trove_debt := decimalize bd debt\<rparr>))\<lparr>trove_status := status_after op coll\<rparr>)"
  by (simp add: trove_consistent_def set_raw_def sort_key_def status_after_def Let_def)

lemma setTroveStatus_result:
  "setTroveStatus bd t st s = Inr (t', s') \<Longrightarrow> t' = t\<lparr>trove_status := st\<rparr> \<and> troves s' = troves s"
  by (auto simp: setTroveStatus_def Let_def decreaseNumberOfTrovesClosedByOwner_def
      decreaseNumberOfLiquidatedTroves_def decreaseNumberOfRedeemedTroves_def
      increaseNumberOfTrovesClosedByOwner_def increaseNumberOfLiquidatedTroves_def
      increaseNumberOfRedeemedTroves_def split: if_splits)

lemma keeps_save_trove:
  "keeps (troves_consistent bd)
     (bind (setTroveStatus bd (set_raw g coll debt stake (t\<lparr>trove_collateral := decimalize bd coll,
               trove_debt := decimalize bd debt\<rparr>)) (status_after op coll))
        (\<lambda>t'. modify (\<lambda>s. s\<lparr>troves := (troves s)(trove_id t' \<mapsto> t')\<rparr>)))"
  unfolding keeps_def
  by (rule validI)
    (auto simp: bind_Inr troves_consistent_def set_raw_consistent dest!: setTroveStatus_result split: if_splits)

lemma consistent_frame:
  "keeps (troves_consistent bd) (createChange bd e)"
  "keeps (troves_consistent bd) (getCurrentPrice bd)"
  "keeps (troves_consistent bd) (getCurrentLiquidation bd e)"
  "keeps (troves_consistent bd) (getCurrentRedemption bd e)"
  "keeps (troves_consistent bd) (updateSystemStateByTroveChange bd tc)"
  "keeps (troves_consistent bd) (finishTroveChange bd tc)"
  "keeps (troves_consistent bd) (getTrove_entity bd i)"
  by (simp only: handler_defs; intro hoare keeps_modify; simp add: troves_consistent_def)+

lemma keeps_consistent_updateTrove:
  "keeps (troves_consistent bd) (updateTrove bd e op i coll debt stake)"
  unfolding updateTrove_def Let_def
  by (rule keeps_bind [OF keeps_gets], rule keeps_bind [OF consistent_frame(7)], rule keeps_if [OF keeps_ret],
      (rule keeps_bind, intro consistent_frame hoare)+, rule keeps_save_trove)

lemma keeps_troves_consistent: "keeps (troves_consistent bd) (handle bd c e x)"
proof (cases x)
  case (BorrowerTroveUpdated op i coll debt stake)
  then show ?thesis by (simp add: BorrowerOperations_handleTroveUpdated_def keeps_consistent_updateTrove)
next
  case (ManagerTroveUpdated op i coll debt stake)
  then show ?thesis by (simp add: TroveManager_handleTroveUpdated_def keeps_consistent_updateTrove)
next
  case (TroveLiquidated i)
  then show ?thesis
    by (simp add: handleTroveLiquidated_def applyRedistributionToTroveBeforeLiquidation_def)
      (intro hoare consistent_frame keeps_consistent_updateTrove)
qed (simp only: handle.simps handler_defs, intro hoare keeps_modify; simp add: troves_consistent_def)+

lemma reachable_consistent:
  assumes "reachable_subgraph bd c s"
  shows "troves_consistent bd s"
  by (rule reachable_induct [OF assms _ keeps_troves_consistent])
    (simp add: troves_consistent_def empty_subgraph_def)

section \<open>Properties\<close>

text \<open>
  C6: In every store the handlers reach, every saved trove is consistent: its decimal amounts are
  its raw ones, it is open exactly while it has collateral, and its sort key is null without a
  stake and otherwise its debt per stake less its snapshot of the redistributed debt.
\<close>

theorem troves_stay_consistent:
  assumes "reachable_subgraph bd c s" and "troves s i = Some t"
  shows "trove_consistent bd t"
  using reachable_consistent [OF assms(1)] assms(2) by (simp add: troves_consistent_def)

theorem troves_stay_consistent_witness:
  "\<exists>s t. run_events rat_decimal sample_erc20
        [(sample_event, LastGoodPriceUpdated (10 ^ 18)),
         (sample_event, BorrowerTroveUpdated 0 ''0xa'' (2 * 10 ^ 18) (10 ^ 18) 5)] empty_subgraph = Inr s
     \<and> troves s ''0xa'' = Some t \<and> collateralRatioSortKey t = Some (2 * 10 ^ 35) \<and> trove_consistent rat_decimal t"
proof -
  have "\<exists>s t. run_events rat_decimal sample_erc20
        [(sample_event, LastGoodPriceUpdated (10 ^ 18)),
         (sample_event, BorrowerTroveUpdated 0 ''0xa'' (2 * 10 ^ 18) (10 ^ 18) 5)] empty_subgraph = Inr s
     \<and> troves s ''0xa'' = Some t \<and> collateralRatioSortKey t = Some (2 * 10 ^ 35)"
    by (simp add: run_simps BIGINT_SCALING_FACTOR_def signed_divide_int_def)
  then show ?thesis using troves_stay_consistent [OF run_events_reachable] by blast
qed

end
