(* ===== verification/Subgraph_Client.thy ===== *)
theory Subgraph_Client
  imports Cached_Readable Subgraph_SortKey
begin

text \<open>
  The client of the subgraph: class \<open>SubgraphSfStablecoin\<close> of
  \<^verbatim>\<open>packages/lib-subgraph/src/SubgraphSfStablecoin.ts\<close> and class \<open>Query\<close> of \<^verbatim>\<open>Query.ts\<close>.

  The GraphQL server is a parameter, the record \<open>subgraph_server\<close> of the answers to the four
  queries, and so is \<open>getAddress\<close> of ethers.  A \<open>BigInt\<close> field is the integer its text denotes,
  a \<open>BigDecimal\<close> field its text.  \<open>serves\<close> states what the server documents of the listing
  query, for a store of the subgraph.
\<close>

section \<open>Answers\<close>

record trove_row =
  row_owner :: string
  row_status :: userTroveStatus
  row_collateral :: int
  row_debt :: int
  row_stake :: int
  row_snapshotCollateral :: int
  row_snapshotDebt :: int

record system_state_row =
  ssr_price :: "string option"
  ssr_totalCollateral :: string
  ssr_totalDebt :: string
  ssr_tokensInStabilityPool :: string

record global_row =
  gr_numberOfOpenTroves :: int
  gr_rawTotalRedistributedCollateral :: int
  gr_rawTotalRedistributedDebt :: int
  gr_currentSystemState :: "system_state_row option"

datatype order_direction = Asc | Desc

text \<open>\<open>srv_block n k\<close> answers the \<open>k\<close>th query for block \<open>n\<close>; \<open>srv_user\<close> gives \<open>user?.trove\<close>.\<close>

record subgraph_server =
  srv_global :: "global_row option result"
  srv_user :: "string \<Rightarrow> trove_row option result"
  srv_troves :: "order_direction \<Rightarrow> rat \<Rightarrow> rat \<Rightarrow> trove_row list result"
  srv_block :: "nat \<Rightarrow> nat \<Rightarrow> unit result"
  srv_getAddress :: "string \<Rightarrow> string result"

section \<open>\<open>Query\<close>\<close>

record ('t, 'u, 'v) query =
  query_answer :: "subgraph_server \<Rightarrow> 'v \<Rightarrow> 'u result"
  mapResult :: "'u \<Rightarrow> 'v \<Rightarrow> 't result"

definition query_get :: "('t, 'u, 'v) query \<Rightarrow> subgraph_server \<Rightarrow> 'v \<Rightarrow> 't result" where
  "query_get q server variables =
     result_bind (query_answer q server variables) (\<lambda>u. mapResult q u variables)"

text \<open>What \<open>onChanged\<close> is called with for the results a subscription receives.\<close>

definition query_watch :: "('t, 'u, 'v) query \<Rightarrow> 'u list \<Rightarrow> 'v \<Rightarrow> 't result list" where
  "query_watch q results variables = map (\<lambda>u. mapResult q u variables) results"

section \<open>The queries\<close>

definition normalizeAddress :: "string option \<Rightarrow> string result" where
  "normalizeAddress address_opt =
     (case address_opt of
        None \<Rightarrow> Inl (Error ''An address is required'')
      | Some a \<Rightarrow> Inr (js_toLowerCase a))"

definition numberOfTrovesQuery :: "(int, global_row option, unit) query" where
  "numberOfTrovesQuery =
     \<lparr>query_answer = \<lambda>server _. srv_global server,
      mapResult = \<lambda>g _. Inr (case g of Some r \<Rightarrow> gr_numberOfOpenTroves r | None \<Rightarrow> 0)\<rparr>"

definition totalRedistributedQuery :: "(trove, global_row option, unit) query" where
  "totalRedistributedQuery =
     \<lparr>query_answer = \<lambda>server _. srv_global server,
      mapResult = \<lambda>g _.
        case g of
          None \<Rightarrow> Inr emptyTrove
        | Some r \<Rightarrow>
            result_bind (fromBigNumberString (gr_rawTotalRedistributedCollateral r)) (\<lambda>c.
            result_map (\<lambda>d. \<lparr>collateral = c, debt = d\<rparr>)
              (fromBigNumberString (gr_rawTotalRedistributedDebt r)))\<rparr>"

definition priceQuery :: "(decimal, global_row option, unit) query" where
  "priceQuery =
     \<lparr>query_answer = \<lambda>server _. srv_global server,
      mapResult = \<lambda>g _.
        from_ish (case Option.bind (Option.bind g gr_currentSystemState) ssr_price of
                    Some p \<Rightarrow> DString p
                  | None \<Rightarrow> DNumber ''200'')\<rparr>"

text \<open>
  The fields of \<open>total\<close> are the strings of the answer: neither the query nor the constructor of
  \<open>Trove\<close> converts them.  What a method of such an object does, at the example of
  \<open>collateralRatio\<close>: strings have no \<open>mulDiv\<close>.
\<close>

datatype total_trove = ActualTrove trove | TroveOfStrings string string

definition totalQuery :: "(total_trove, global_row option, unit) query" where
  "totalQuery =
     \<lparr>query_answer = \<lambda>server _. srv_global server,
      mapResult = \<lambda>g _.
        Inr (case Option.bind g gr_currentSystemState of
               Some ss \<Rightarrow> TroveOfStrings (ssr_totalCollateral ss) (ssr_totalDebt ss)
             | None \<Rightarrow> ActualTrove emptyTrove)\<rparr>"

fun total_collateralRatio :: "total_trove \<Rightarrow> decimal \<Rightarrow> decimal result" where
  "total_collateralRatio (ActualTrove t) p = Inr (collateralRatio t p)"
| "total_collateralRatio (TroveOfStrings c d) p =
     Inl (TypeError ''this.collateral.mulDiv is not a function'')"

definition tokensInStabilityPoolQuery :: "(decimal, global_row option, unit) query" where
  "tokensInStabilityPoolQuery =
     \<lparr>query_answer = \<lambda>server _. srv_global server,
      mapResult = \<lambda>g _.
        from_ish (case Option.bind g gr_currentSystemState of
                    Some ss \<Rightarrow> DString (ssr_tokensInStabilityPool ss)
                  | None \<Rightarrow> DNumber ''0'')\<rparr>"

definition troveFromRawFields :: "(string \<Rightarrow> string result) \<Rightarrow> trove_row \<Rightarrow> pending_trove result" where
  "troveFromRawFields getAddress row =
     result_bind (getAddress (row_owner row)) (\<lambda>owner.
     result_bind (fromBigNumberString (row_collateral row)) (\<lambda>coll.
     result_bind (fromBigNumberString (row_debt row)) (\<lambda>d.
     result_bind (fromBigNumberString (row_stake row)) (\<lambda>st.
     result_bind (fromBigNumberString (row_snapshotCollateral row)) (\<lambda>snapshotColl.
     result_bind (fromBigNumberString (row_snapshotDebt row)) (\<lambda>snapshotDebt.
       Inr \<lparr>collateral = coll, debt = d, ownerAddress = owner, status = row_status row,
            stake = st, snapshotOfTotalRedistributed = \<lparr>collateral = snapshotColl, debt = snapshotDebt\<rparr>\<rparr>))))))"

definition troveBeforeRedistributionQuery ::
  "(string \<Rightarrow> string result) \<Rightarrow> (pending_trove, trove_row option, string) query" where
  "troveBeforeRedistributionQuery getAddress =
     \<lparr>query_answer = srv_user,
      mapResult = \<lambda>t a.
        case t of
          Some row \<Rightarrow> troveFromRawFields getAddress row
        | None \<Rightarrow> Inr \<lparr>collateral = ZERO, debt = ZERO, ownerAddress = a, status = nonExistent,
                        stake = ZERO, snapshotOfTotalRedistributed = emptyTrove\<rparr>\<rparr>"

definition trovesQuery ::
  "(string \<Rightarrow> string result) \<Rightarrow> (pending_trove list, trove_row list, order_direction \<times> rat \<times> rat) query" where
  "trovesQuery getAddress =
     \<lparr>query_answer = \<lambda>server (orderDirection, startingAt, first). srv_troves server orderDirection startingAt first,
      mapResult = \<lambda>rows _. result_list (troveFromRawFields getAddress) rows\<rparr>"

definition blockNumberDummyQuery :: "(unit, unit, nat \<times> nat) query" where
  "blockNumberDummyQuery =
     \<lparr>query_answer = \<lambda>server (blockNumber, k). srv_block server blockNumber k, mapResult = \<lambda>_ _. Inr ()\<rparr>"

section \<open>\<open>SubgraphSfStablecoin\<close>\<close>

definition subgraph_getTotalRedistributed :: "subgraph_server \<Rightarrow> trove result" where
  "subgraph_getTotalRedistributed client = query_get totalRedistributedQuery client ()"

definition subgraph_getTroveBeforeRedistribution :: "subgraph_server \<Rightarrow> string option \<Rightarrow> pending_trove result" where
  "subgraph_getTroveBeforeRedistribution client a =
     result_bind (normalizeAddress a) (query_get (troveBeforeRedistributionQuery (srv_getAddress client)) client)"

definition subgraph_getTrove :: "subgraph_server \<Rightarrow> string option \<Rightarrow> user_trove result" where
  "subgraph_getTrove client a =
     result_bind (subgraph_getTroveBeforeRedistribution client a) (\<lambda>t.
     result_map (applyRedistribution t) (subgraph_getTotalRedistributed client))"

definition subgraph_getNumberOfTroves :: "subgraph_server \<Rightarrow> int result" where
  "subgraph_getNumberOfTroves client = query_get numberOfTrovesQuery client ()"

definition subgraph_getPrice :: "subgraph_server \<Rightarrow> decimal result" where
  "subgraph_getPrice client = query_get priceQuery client ()"

definition subgraph_getTotal :: "subgraph_server \<Rightarrow> total_trove result" where
  "subgraph_getTotal client = query_get totalQuery client ()"

definition subgraph_getDebtTokenInStabilityPool :: "subgraph_server \<Rightarrow> decimal result" where
  "subgraph_getDebtTokenInStabilityPool client = query_get tokensInStabilityPoolQuery client ()"

definition subgraph_getTroves ::
  "subgraph_server \<Rightarrow> trove_listing_params \<Rightarrow> (pending_trove list + user_trove list) result" where
  "subgraph_getTroves client params =
     result_bind
       (if beforeRedistribution params = Some True then Inr None
        else result_map Some (subgraph_getTotalRedistributed client)) (\<lambda>totalRedistributed.
     result_bind
       (query_get (trovesQuery (srv_getAddress client)) client
          (if sortedBy params = ''ascendingCollateralRatio'' then Asc else Desc,
           case startingAt params of Some n \<Rightarrow> n | None \<Rightarrow> 0,
           listing_first params)) (\<lambda>ts.
       case totalRedistributed of
         Some redistributed \<Rightarrow> Inr (Inr (map (\<lambda>t. applyRedistribution t redistributed) ts))
       | None \<Rightarrow> Inr (Inl ts)))"

text \<open>
  The loop of \<open>waitForBlock\<close>, from its \<open>k\<close>th attempt; its value is the number of failed
  attempts, after each of which it waits 100 milliseconds.
\<close>

partial_function (option) waitForBlock_from :: "subgraph_server \<Rightarrow> nat \<Rightarrow> nat \<Rightarrow> nat option" where
  "waitForBlock_from client blockNumber k =
     (case query_get blockNumberDummyQuery client (blockNumber, k) of
        Inr _ \<Rightarrow> Some k
      | Inl _ \<Rightarrow> waitForBlock_from client blockNumber (k + 1))"

definition waitForBlock :: "subgraph_server \<Rightarrow> nat \<Rightarrow> nat option" where
  "waitForBlock client blockNumber = waitForBlock_from client blockNumber 0"

text \<open>The watches: what their listeners are called with.\<close>

definition subgraph_watchTotalRedistributed :: "global_row option list \<Rightarrow> trove result list" where
  "subgraph_watchTotalRedistributed results = query_watch totalRedistributedQuery results ()"

definition subgraph_watchTroveWithoutRewards ::
  "subgraph_server \<Rightarrow> trove_row option list \<Rightarrow> string option \<Rightarrow> pending_trove result list result" where
  "subgraph_watchTroveWithoutRewards client results a =
     result_map (query_watch (troveBeforeRedistributionQuery (srv_getAddress client)) results) (normalizeAddress a)"

definition subgraph_watchNumberOfTroves :: "global_row option list \<Rightarrow> int result list" where
  "subgraph_watchNumberOfTroves results = query_watch numberOfTrovesQuery results ()"

definition subgraph_watchPrice :: "global_row option list \<Rightarrow> decimal result list" where
  "subgraph_watchPrice results = query_watch priceQuery results ()"

definition subgraph_watchTotal :: "global_row option list \<Rightarrow> total_trove result list" where
  "subgraph_watchTotal results = query_watch totalQuery results ()"

definition subgraph_watchDebtTokenInStabilityPool :: "global_row option list \<Rightarrow> decimal result list" where
  "subgraph_watchDebtTokenInStabilityPool results = query_watch tokensInStabilityPoolQuery results ()"

text \<open>The methods the class does not implement throw.\<close>

definition unimplementedMethods :: "string list" where
  "unimplementedMethods =
     [''getStabilityDeposit'', ''watchStabilityDeposit'', ''getDebtTokenBalance'', ''watchDebtTokenBalance'',
      ''getProtocolTokenBalance'', ''getCollateralSurplusBalance'', ''getFees'', ''getProtocolTokenStake'',
      ''getTotalStakedProtocolToken'', ''getFrontendStatus'', ''getUniTokenBalance'', ''getUniTokenAllowance'',
      ''getRemainingProtocolMiningProtocolTokenReward'', ''getLiquidityMiningStake'',
      ''getLiquidityMiningProtocolTokenReward'', ''getTotalStakedUniTokens'',
      ''getRemainingStabilityPoolProtocolTokenReward'', ''findHintsForNominalCollateralRatio'',
      ''findRedemptionHints'', ''getDebtInFront'']"

definition notImplemented :: "string \<Rightarrow> 'a result option" where
  "notImplemented method =
     (if method \<in> set unimplementedMethods then Some (Inl (Error ''Method not implemented.'')) else None)"

section \<open>What the server serves\<close>

text \<open>The GraphQL fields of a trove entity; one that is unset makes the query fail.\<close>

definition status_from :: "string \<Rightarrow> userTroveStatus option" where
  "status_from st = map_of (map (\<lambda>u. (show_status u, u))
     [open_trove, closedByOwner, closedByLiquidation, closedByRedemption]) st"

definition row_of :: "'d trove_entity \<Rightarrow> trove_row option" where
  "row_of t =
     (case (status_from (trove_status t), rawCollateral t, rawDebt t, rawStake t,
            rawSnapshotOfTotalRedistributedCollateral t, rawSnapshotOfTotalRedistributedDebt t) of
        (Some st, Some coll, Some d, Some sk, Some snapshotColl, Some snapshotDebt) \<Rightarrow>
          Some \<lparr>row_owner = trove_owner t, row_status = st, row_collateral = coll, row_debt = d,
                row_stake = sk, row_snapshotCollateral = snapshotColl, row_snapshotDebt = snapshotDebt\<rparr>
      | _ \<Rightarrow> None)"

definition key_ordered :: "order_direction \<Rightarrow> 'd trove_entity \<Rightarrow> 'd trove_entity \<Rightarrow> bool" where
  "key_ordered dir a b \<longleftrightarrow>
     (case (collateralRatioSortKey a, collateralRatioSortKey b) of
        (Some x, Some y) \<Rightarrow> if dir = Asc then x \<le> y else y \<le> x
      | _ \<Rightarrow> True)"

text \<open>
  The documented behaviour of a listing: \<open>where: {status: open}\<close>, \<open>orderBy:
  collateralRatioSortKey\<close> in the direction asked for.
\<close>

definition serves :: "subgraph_server \<Rightarrow> 'd subgraph \<Rightarrow> bool" where
  "serves server s \<longleftrightarrow>
     (\<forall>dir skip first rows. srv_troves server dir skip first = Inr rows \<longrightarrow>
        (\<exists>es. map row_of es = map Some rows \<and>
              (\<forall>t\<in>set es. (\<exists>i. troves s i = Some t) \<and> trove_status t = ''open'') \<and>
              sorted_wrt (key_ordered dir) es))"

text \<open>The sort key of a listed trove.\<close>

definition key_of :: "pending_trove \<Rightarrow> int" where
  "key_of t = sort_key (int (bigNumber (debt t))) (int (bigNumber (stake t)))
     (int (bigNumber (debt (snapshotOfTotalRedistributed t))))"

lemma fromBigNumberString_Inr: "fromBigNumberString n = Inr d \<longleftrightarrow> n = int (bigNumber d)"
  by (cases d) (auto simp: fromBigNumberString_def new_Decimal_def)

lemma result_list_nth:
  "result_list f xs = Inr ys \<Longrightarrow> length ys = length xs \<and> (\<forall>i<length xs. f (xs ! i) = Inr (ys ! i))"
  by (induction xs arbitrary: ys) (auto simp: result_bind_Inr nth_Cons split: nat.split)

text \<open>A listed trove's key is that of its entity.\<close>

lemma listed_key:
  assumes "trove_consistent bd e" and "row_of e = Some row" and "troveFromRawFields getAddress row = Inr t"
    and "stake t \<noteq> ZERO"
  shows "collateralRatioSortKey e = Some (key_of t)"
  using assms
  by (auto simp: trove_consistent_def row_of_def troveFromRawFields_def result_bind_Inr fromBigNumberString_Inr
      key_of_def decimal_eq_iff split: option.splits)

lemma listing_sorted:
  assumes reach: "reachable_subgraph bd c s" and serves: "serves client s"
    and ts: "subgraph_getTroves client p = Inr (Inl ts)"
    and ij: "i < j" "j < length ts" and "stake (ts ! i) \<noteq> ZERO" "stake (ts ! j) \<noteq> ZERO"
  shows "if sortedBy p = ''ascendingCollateralRatio'' then key_of (ts ! i) \<le> key_of (ts ! j)
         else key_of (ts ! j) \<le> key_of (ts ! i)"
proof -
  let ?dir = "if sortedBy p = ''ascendingCollateralRatio'' then Asc else Desc"
  from ts obtain rows where
    "srv_troves client ?dir (case startingAt p of Some n \<Rightarrow> n | None \<Rightarrow> 0) (listing_first p) = Inr rows"
    and rows: "result_list (troveFromRawFields (srv_getAddress client)) rows = Inr ts"
    by (auto simp: subgraph_getTroves_def query_get_def trovesQuery_def result_bind_Inr result_map_Inr
        split: option.splits)
  with serves obtain es where es: "map row_of es = map Some rows" "sorted_wrt (key_ordered ?dir) es"
    and saved: "\<And>t. t \<in> set es \<Longrightarrow> \<exists>i. troves s i = Some t"
    unfolding serves_def by blast
  have len: "length es = length rows" "length ts = length rows"
    using arg_cong [OF es(1), of length] result_list_nth [OF rows] by simp_all
  have key: "collateralRatioSortKey (es ! k) = Some (key_of (ts ! k))" if "k < length ts" "stake (ts ! k) \<noteq> ZERO" for k
  proof (rule listed_key [OF _ _ _ that(2)])
    show "trove_consistent bd (es ! k)"
      using reachable_consistent [OF reach] saved [of "es ! k"] that(1) len
      by (auto simp: troves_consistent_def)
    show "row_of (es ! k) = Some (rows ! k)"
      using arg_cong [OF es(1), of "\<lambda>xs. xs ! k"] that(1) len by simp
    show "troveFromRawFields (srv_getAddress client) (rows ! k) = Inr (ts ! k)"
      using result_list_nth [OF rows] that(1) len by simp
  qed
  from es(2) ij len have "key_ordered ?dir (es ! i) (es ! j)" by (auto simp: sorted_wrt_iff_nth_less)
  with key [of i] key [of j] assms(4-7) show ?thesis by (auto simp: key_ordered_def)
qed

text \<open>Keys compare debts per stake, so with the same collateral per stake they compare the ratios.\<close>

lemma debts_of_keys:
  fixes sa sb da db S :: nat
  assumes "0 < sa" "0 < sb" and less: "da * S div sa < db * S div sb"
  shows "da * sb < db * sa"
proof -
  have "da * S * sb < db * S * sa"
  proof (rule ccontr)
    assume "\<not> da * S * sb < db * S * sa"
    then have "db * S * sa div (sb * sa) \<le> da * S * sb div (sb * sa)" by (intro div_le_mono) (simp only: not_less)
    also have "\<dots> = da * S * sb div (sa * sb)" by (simp only: mult.commute)
    finally have "db * S div sb \<le> da * S div sa"
      using assms(1,2) by (simp only: div_mult_mult2 less_numeral_extra neq0_conv)
    with less show False by simp
  qed
  then show ?thesis by (auto simp: mult.commute mult.left_commute intro: Nat.gr0I)
qed

lemma exact_ratio_of_keys:
  fixes sa sb ca cb da db :: nat
  assumes "0 < sa" and share: "sa * cb = sb * ca" and d: "da * sb < db * sa"
  shows "cb * da \<le> ca * db" and "0 < ca \<Longrightarrow> cb * da < ca * db"
proof -
  have eq: "cb * da * sa = da * sb * ca" using share by (simp add: ac_simps)
  also have "\<dots> \<le> db * sa * ca" using d by simp
  finally show "cb * da \<le> ca * db" using assms(1) by (simp add: ac_simps)
  show "cb * da < ca * db" if "0 < ca"
  proof -
    have "cb * da * sa < db * sa * ca" unfolding eq using d that by simp
    then have "sa * (cb * da) < sa * (ca * db)" by (simp only: ac_simps)
    then show ?thesis by simp
  qed
qed

lemma ratio_of_keys:
  fixes sa sb ca cb da db P :: nat
  assumes "0 < sa" "0 < da" and "sa * cb = sb * ca" and d: "da * sb < db * sa"
  shows "cb * P div db \<le> ca * P div da"
proof -
  have db: "0 < db" using d by (auto intro: Nat.gr0I)
  have "cb * P * da \<le> ca * P * db"
    using exact_ratio_of_keys(1) [OF assms(1,3,4)] by (simp add: ac_simps)
  then have "cb * P * da div (da * db) \<le> ca * P * db div (da * db)" by (rule div_le_mono)
  then show ?thesis using assms(2) db by (simp add: mult.commute [of da db])
qed

lemma waitForBlock_reaches:
  "srv_block client n (k + m) = Inr () \<Longrightarrow> \<exists>r\<le>k + m. waitForBlock_from client n k = Some r"
proof (induction m arbitrary: k)
  case 0
  then show ?case by (subst waitForBlock_from.simps) (simp add: query_get_def blockNumberDummyQuery_def)
next
  case (Suc m)
  from Suc.prems Suc.IH [of "k + 1"] obtain r where "r \<le> k + 1 + m" "waitForBlock_from client n (k + 1) = Some r"
    by auto
  then show ?case
    by (subst waitForBlock_from.simps) (auto split: sum.split)
qed

lemma waitForBlock_result:
  assumes "waitForBlock_from client n k = Some r"
  shows "k \<le> r \<and> srv_block client n r = Inr ()"
proof (rule waitForBlock_from.raw_induct
    [OF _ assms, where P = "\<lambda>client n k r. k \<le> r \<and> srv_block client n r = Inr ()"], goal_cases)
  case (1 f client n k r)
  show ?case
  proof (cases "srv_block client n k")
    case (Inl e)
    with 1(2) have "f client n (k + 1) = Some r" by (simp add: query_get_def blockNumberDummyQuery_def)
    from 1(1) [OF this] show ?thesis by simp
  next
    case (Inr u)
    with 1(2) show ?thesis by (simp add: query_get_def blockNumberDummyQuery_def)
  qed
qed

text \<open>\<open>waitForBlock\<close> returns exactly when the server serves the block in some attempt.\<close>

lemma waitForBlock_returns_iff:
  "(\<exists>r. waitForBlock client n = Some r) \<longleftrightarrow> (\<exists>k. srv_block client n k = Inr ())"
proof
  assume "\<exists>r. waitForBlock client n = Some r"
  then show "\<exists>k. srv_block client n k = Inr ()"
    unfolding waitForBlock_def using waitForBlock_result by blast
next
  assume "\<exists>k. srv_block client n k = Inr ()"
  then show "\<exists>r. waitForBlock client n = Some r"
    unfolding waitForBlock_def using waitForBlock_reaches [of client n 0] by auto
qed

text \<open>On naturals the host's truncating division is the usual one.\<close>

lemma sdiv_nat: "int a sdiv int b = int (a div b)"
  by (cases "a = 0"; cases "b = 0") (simp_all add: signed_divide_int_def zdiv_int)

section \<open>Properties\<close>

text \<open>
  C39: The listing by collateral ratio is the wrong way round.  The subgraph's sort key orders
  troves by debt, so that in a listing before redistribution asked for as ascending, over a
  subgraph that any events made and a server that orders as documented, of two
  troves with stakes and an earlier debt that are not zero, the same collateral per stake and
  the same snapshot but different keys, the later one has the strictly lower ratio of
  collateral to debt, when there is collateral, and never the higher nominal collateral ratio,
  which is rounded down.
\<close>

theorem ascending_listing_descends:
  assumes "reachable_subgraph bd c s" and "serves client s"
    and "subgraph_getTroves client p = Inr (Inl ts)" and "sortedBy p = ''ascendingCollateralRatio''"
    and "i < j" and "j < length ts"
    and "stake (ts ! i) \<noteq> ZERO" and "stake (ts ! j) \<noteq> ZERO" and "debt (ts ! i) \<noteq> ZERO"
    and "snapshotOfTotalRedistributed (ts ! i) = snapshotOfTotalRedistributed (ts ! j)"
    and "bigNumber (stake (ts ! i)) * bigNumber (collateral (ts ! j))
           = bigNumber (stake (ts ! j)) * bigNumber (collateral (ts ! i))"
    and "key_of (ts ! i) \<noteq> key_of (ts ! j)"
  shows "nominalCollateralRatio (ts ! j) \<le> nominalCollateralRatio (ts ! i)
    \<and> (collateral (ts ! i) \<noteq> ZERO \<longrightarrow>
         bigNumber (collateral (ts ! j)) * bigNumber (debt (ts ! i))
           < bigNumber (collateral (ts ! i)) * bigNumber (debt (ts ! j)))"
proof -
  let ?a = "ts ! i" and ?b = "ts ! j"
  have pos: "0 < bigNumber (stake ?a)" "0 < bigNumber (stake ?b)" "0 < bigNumber (debt ?a)"
    using assms(7-9) by (auto simp: decimal_eq_iff ZERO_def)
  have "key_of ?a < key_of ?b"
    using listing_sorted [OF assms(1-3,5-8)] assms(4,12) by simp
  then have "int (bigNumber (debt ?a) * 10 ^ 18 div bigNumber (stake ?a))
      < int (bigNumber (debt ?b) * 10 ^ 18 div bigNumber (stake ?b))"
    using assms(10) sdiv_nat [of "bigNumber (debt ?a) * 10 ^ 18" "bigNumber (stake ?a)"]
      sdiv_nat [of "bigNumber (debt ?b) * 10 ^ 18" "bigNumber (stake ?b)"]
    by (simp add: key_of_def sort_key_def BIGINT_SCALING_FACTOR_def)
  then have less: "bigNumber (debt ?a) * 10 ^ 18 div bigNumber (stake ?a)
      < bigNumber (debt ?b) * 10 ^ 18 div bigNumber (stake ?b)" by (simp only: of_nat_less_iff)
  then have "0 < bigNumber (debt ?b)" by (cases "bigNumber (debt ?b)") simp_all
  moreover note d = debts_of_keys [OF pos(1,2) less]
  ultimately show ?thesis
    using ratio_of_keys [OF pos(1,3) assms(11) d] exact_ratio_of_keys(2) [OF pos(1) assms(11) d] pos
    by (simp add: nominalCollateralRatio_def mulDiv_def decimal_le_iff decimal_eq_iff ZERO_def isZero_def)
qed

definition sample_rows :: "trove_row list" where
  "sample_rows =
     [\<lparr>row_owner = ''0xa'', row_status = open_trove, row_collateral = 2 * 10 ^ 18, row_debt = 10 ^ 18,
       row_stake = 5, row_snapshotCollateral = 0, row_snapshotDebt = 0\<rparr>,
      \<lparr>row_owner = ''0xb'', row_status = open_trove, row_collateral = 2 * 10 ^ 18, row_debt = 2 * 10 ^ 18,
       row_stake = 5, row_snapshotCollateral = 0, row_snapshotDebt = 0\<rparr>]"

definition sample_server :: subgraph_server where
  "sample_server = \<lparr>srv_global = Inr None, srv_user = \<lambda>_. Inr None,
     srv_troves = \<lambda>dir skip first. Inr (if dir = Asc then sample_rows else rev sample_rows),
     srv_block = \<lambda>_ _. Inr (), srv_getAddress = Inr\<rparr>"

definition sample_events :: "(event \<times> contract_event) list" where
  "sample_events =
     [(sample_event, LastGoodPriceUpdated (10 ^ 18)),
      (sample_event, BorrowerTroveUpdated 0 ''0xa'' (2 * 10 ^ 18) (10 ^ 18) 5),
      (sample_event, BorrowerTroveUpdated 0 ''0xb'' (2 * 10 ^ 18) (2 * 10 ^ 18) 5)]"

lemma sample_troves:
  "\<exists>s a b. run_events rat_decimal sample_erc20 sample_events empty_subgraph = Inr s
     \<and> troves s ''0xa'' = Some a \<and> trove_status a = ''open'' \<and> collateralRatioSortKey a = Some (2 * 10 ^ 35)
     \<and> troves s ''0xb'' = Some b \<and> trove_status b = ''open'' \<and> collateralRatioSortKey b = Some (4 * 10 ^ 35)
     \<and> map row_of [a, b] = map Some sample_rows"
  by (simp add: run_simps sample_events_def BIGINT_SCALING_FACTOR_def signed_divide_int_def sample_rows_def
      row_of_def status_from_def)

lemma sample_serves:
  assumes "troves s ''0xa'' = Some a" "trove_status a = ''open''" "collateralRatioSortKey a = Some (2 * 10 ^ 35)"
    and "troves s ''0xb'' = Some b" "trove_status b = ''open''" "collateralRatioSortKey b = Some (4 * 10 ^ 35)"
    and "map row_of [a, b] = map Some sample_rows"
  shows "serves sample_server s"
  unfolding serves_def
proof (intro allI impI)
  fix dir skip first rows
  assume "srv_troves sample_server dir skip first = Inr rows"
  with assms have "map row_of (if dir = Asc then [a, b] else [b, a]) = map Some rows"
    by (auto simp: sample_server_def sample_rows_def)
  moreover have "sorted_wrt (key_ordered dir) (if dir = Asc then [a, b] else [b, a])"
    using assms by (simp add: key_ordered_def)
  ultimately show "\<exists>es. map row_of es = map Some rows \<and>
      (\<forall>t\<in>set es. (\<exists>i. troves s i = Some t) \<and> trove_status t = ''open'') \<and> sorted_wrt (key_ordered dir) es"
    using assms by (intro exI [of _ "if dir = Asc then [a, b] else [b, a]"]) auto
qed

definition sample_listing :: trove_listing_params where
  "sample_listing = \<lparr>listing_first = 2, sortedBy = ''ascendingCollateralRatio'', startingAt = None,
     beforeRedistribution = Some True\<rparr>"

definition sample_listed :: "pending_trove list" where
  "sample_listed = map (\<lambda>(a, d). \<lparr>collateral = Decimal (2 * 10 ^ 18), debt = Decimal (d * 10 ^ 18), ownerAddress = a,
     status = open_trove, stake = Decimal 5, snapshotOfTotalRedistributed = emptyTrove\<rparr>) [(''0xa'', 1), (''0xb'', 2)]"

lemma sample_listed:
  "subgraph_getTroves sample_server sample_listing = Inr (Inl sample_listed)"
  by (simp add: subgraph_getTroves_def query_get_def trovesQuery_def sample_server_def sample_listing_def
      sample_rows_def troveFromRawFields_def fromBigNumberString_def new_Decimal_def sample_listed_def
      emptyTrove_def ZERO_def)

theorem ascending_listing_descends_witness:
  "\<exists>s. run_events rat_decimal sample_erc20 sample_events empty_subgraph = Inr s \<and> serves sample_server s \<and>
     subgraph_getTroves sample_server sample_listing = Inr (Inl sample_listed) \<and>
     nominalCollateralRatio (sample_listed ! 1) \<le> nominalCollateralRatio (sample_listed ! 0) \<and>
     nominalCollateralRatio (sample_listed ! 1) \<noteq> nominalCollateralRatio (sample_listed ! 0) \<and>
     bigNumber (collateral (sample_listed ! 1)) * bigNumber (debt (sample_listed ! 0))
       < bigNumber (collateral (sample_listed ! 0)) * bigNumber (debt (sample_listed ! 1))"
proof -
  from sample_troves obtain s a b where run: "run_events rat_decimal sample_erc20 sample_events empty_subgraph = Inr s"
    and *: "troves s ''0xa'' = Some a" "trove_status a = ''open''" "collateralRatioSortKey a = Some (2 * 10 ^ 35)"
      "troves s ''0xb'' = Some b" "trove_status b = ''open''" "collateralRatioSortKey b = Some (4 * 10 ^ 35)"
      "map row_of [a, b] = map Some sample_rows" by blast
  from sample_serves [OF *] have serves: "serves sample_server s" .
  have "nominalCollateralRatio (sample_listed ! 1) \<le> nominalCollateralRatio (sample_listed ! 0) \<and>
      (collateral (sample_listed ! 0) \<noteq> ZERO \<longrightarrow> bigNumber (collateral (sample_listed ! 1)) * bigNumber (debt (sample_listed ! 0))
         < bigNumber (collateral (sample_listed ! 0)) * bigNumber (debt (sample_listed ! 1)))"
    by (rule ascending_listing_descends [OF run_events_reachable [OF run] serves sample_listed])
      (simp_all add: sample_listing_def sample_listed_def key_of_def sort_key_def BIGINT_SCALING_FACTOR_def
        signed_divide_int_def decimal_eq_iff ZERO_def)
  moreover have "nominalCollateralRatio (sample_listed ! 1) \<noteq> nominalCollateralRatio (sample_listed ! 0)"
    by (simp add: sample_listed_def nominalCollateralRatio_def mulDiv_def NOMINAL_COLLATERAL_RATIO_PRECISION_def
        DIGITS_eq isZero_def ZERO_def decimal_eq_iff)
  moreover have "collateral (sample_listed ! 0) \<noteq> ZERO" by (simp add: sample_listed_def decimal_eq_iff ZERO_def)
  ultimately show ?thesis using run serves sample_listed by blast
qed

end
