(* ===== verification/Trove_Validation.thy ===== *)
theory Trove_Validation
  imports Trove_Changes Sdk_Store
begin

text \<open>
  The frontend's checks of a trove change before it is sent,
  \<^verbatim>\<open>packages/dev-frontend/src/components/Trove/validation/validateTroveChange.tsx\<close>: the change between
  the user's trove and the edited one, or the reason why the protocol would refuse it.

  The lemmas show that \<open>validateTroveChange\<close> never throws, that it accepts exactly the changes
  the protocol's rules allow (the rules are stated on exact products of the raw amounts), and
  that an accepted adjustment in recovery mode never lowers the collateral ratio.

  An error description is a constructor with the amounts it shows; the description of a valid
  change is its text.
\<close>

section \<open>The model\<close>

record selected_state =
  sel_price :: decimal
  sel_total :: trove
  sel_accountBalance :: decimal
  sel_debtTokenBalance :: decimal
  sel_numberOfTroves :: int

definition selectForTroveChangeValidation :: "base_state \<Rightarrow> selected_state" where
  "selectForTroveChangeValidation s =
     \<lparr>sel_price = content (price s), sel_total = content (total_trove s),
      sel_accountBalance = content (accountBalance s),
      sel_debtTokenBalance = content (debtTokenBalance s),
      sel_numberOfTroves = numberOfTroves s\<rparr>"

record validation_context = selected_state +
  originalTrove :: trove
  resultingTrove :: trove
  recoveryMode :: bool
  wouldTriggerRecoveryMode :: bool

datatype change_error =
    TotalDebtTooLow string
  | BorrowTooLow string
  | OpeningBelowCriticalInRecoveryMode
  | RatioBelowMinimum
  | OpeningWouldTriggerRecoveryMode
  | DepositExceedsBalance string
  | WithdrawalInRecoveryMode
  | BorrowingBelowCriticalInRecoveryMode
  | RatioDecreaseInRecoveryMode
  | AdjustmentWouldTriggerRecoveryMode
  | RepaymentExceedsBalance string
  | ClosingLastTrove
  | ClosingInRecoveryMode
  | NeedMoreToClose string
  | ClosingWouldTriggerRecoveryMode

datatype change_description = ErrorDescription change_error | ActionDescription string

text \<open>\<open>a.sub(b).prettify()\<close> in the message of an error.\<close>

definition shortfall :: "(string \<Rightarrow> change_error) \<Rightarrow> decimal \<Rightarrow> decimal \<Rightarrow> change_error option result" where
  "shortfall err a b = result_bind (sub_dec a b) (\<lambda>d. result_map (\<lambda>s. Some (err s)) (prettify d None))"

definition validateTroveCreation ::
  "constants \<Rightarrow> creation_params \<Rightarrow> validation_context \<Rightarrow> change_error option result" where
  "validateTroveCreation k params ctx =
     (if cr_borrowDebtToken params < MINIMUM_NET_DEBT k
      then Inr (Some (BorrowTooLow (showDecimal (MINIMUM_NET_DEBT k))))
      else if recoveryMode ctx \<and> \<not> isOpenableInRecoveryMode (resultingTrove ctx) (sel_price ctx)
      then Inr (Some OpeningBelowCriticalInRecoveryMode)
      else if \<not> recoveryMode ctx \<and> collateralRatioIsBelowMinimum (resultingTrove ctx) (sel_price ctx)
      then Inr (Some RatioBelowMinimum)
      else if \<not> recoveryMode ctx \<and> wouldTriggerRecoveryMode ctx
      then Inr (Some OpeningWouldTriggerRecoveryMode)
      else if sel_accountBalance ctx < cr_depositCollateral params
      then shortfall DepositExceedsBalance (cr_depositCollateral params) (sel_accountBalance ctx)
      else Inr None)"

text \<open>The last two checks of an adjustment.\<close>

definition repay_error :: "constants \<Rightarrow> adjustment_params \<Rightarrow> validation_context \<Rightarrow> change_error option result" where
  "repay_error k params ctx =
     (case repayDebtToken params of
        Some repay \<Rightarrow>
          (if debt (resultingTrove ctx) < MINIMUM_DEBT k
           then Inr (Some (TotalDebtTooLow (showDecimal (MINIMUM_DEBT k))))
           else if sel_debtTokenBalance ctx < repay
           then shortfall RepaymentExceedsBalance repay (sel_debtTokenBalance ctx)
           else Inr None)
      | None \<Rightarrow> Inr None)"

definition deposit_error :: "adjustment_params \<Rightarrow> validation_context \<Rightarrow> change_error option result" where
  "deposit_error params ctx =
     (case depositCollateral params of
        Some deposit \<Rightarrow>
          (if sel_accountBalance ctx < deposit
           then shortfall DepositExceedsBalance deposit (sel_accountBalance ctx)
           else Inr None)
      | None \<Rightarrow> Inr None)"

definition validateTroveAdjustment ::
  "constants \<Rightarrow> adjustment_params \<Rightarrow> validation_context \<Rightarrow> change_error option result" where
  "validateTroveAdjustment k params ctx =
     (let resulting = resultingTrove ctx; p = sel_price ctx in
      if recoveryMode ctx \<and> withdrawCollateral params \<noteq> None
      then Inr (Some WithdrawalInRecoveryMode)
      else if recoveryMode ctx \<and> borrowDebtToken params \<noteq> None \<and> collateralRatioIsBelowCritical resulting p
      then Inr (Some BorrowingBelowCriticalInRecoveryMode)
      else if recoveryMode ctx \<and> borrowDebtToken params \<noteq> None
        \<and> collateralRatio resulting p < collateralRatio (originalTrove ctx) p
      then Inr (Some RatioDecreaseInRecoveryMode)
      else if \<not> recoveryMode ctx \<and> collateralRatioIsBelowMinimum resulting p
      then Inr (Some RatioBelowMinimum)
      else if \<not> recoveryMode ctx \<and> wouldTriggerRecoveryMode ctx
      then Inr (Some AdjustmentWouldTriggerRecoveryMode)
      else
        result_bind (repay_error k params ctx) (\<lambda>repayError.
        case repayError of
          Some e \<Rightarrow> Inr (Some e)
        | None \<Rightarrow> deposit_error params ctx))"

definition validateTroveClosure ::
  "closure_params \<Rightarrow> validation_context \<Rightarrow> change_error option result" where
  "validateTroveClosure params ctx =
     (if sel_numberOfTroves ctx = 1 then Inr (Some ClosingLastTrove)
      else if recoveryMode ctx then Inr (Some ClosingInRecoveryMode)
      else
        let closing = (if wouldTriggerRecoveryMode ctx then Some ClosingWouldTriggerRecoveryMode else None)
        in (case cl_repayDebtToken params of
              Some repay \<Rightarrow>
                (if sel_debtTokenBalance ctx < repay
                 then shortfall NeedMoreToClose repay (sel_debtTokenBalance ctx)
                 else Inr closing)
            | None \<Rightarrow> Inr closing))"

text \<open>
  \<open>TroveChangeDescription\<close>.  It takes the parameters of any of the three changes; an absent
  repayment in the last alternative would throw.
\<close>

definition amount :: "string \<Rightarrow> decimal \<Rightarrow> string result" where
  "amount unit d = result_map (\<lambda>s. s @ '' '' @ unit) (prettify d None)"

definition two_amounts :: "string \<Rightarrow> string result \<Rightarrow> string \<Rightarrow> string result \<Rightarrow> string result" where
  "two_amounts before a middle b =
     result_bind a (\<lambda>x. result_map (\<lambda>y. before @ x @ middle @ y @ ''.'') b)"

definition TroveChangeDescription ::
  "string \<Rightarrow> string \<Rightarrow> adjustment_params \<Rightarrow> string result" where
  "TroveChangeDescription CURRENCY COIN params =
     (case (depositCollateral params, withdrawCollateral params,
            borrowDebtToken params, repayDebtToken params) of
        (Some deposit, _, Some borrow, _) \<Rightarrow>
          two_amounts ''You will deposit '' (amount CURRENCY deposit) '' and receive '' (amount COIN borrow)
      | (_, Some withdraw, _, Some repay) \<Rightarrow>
          two_amounts ''You will pay '' (amount COIN repay) '' and receive '' (amount CURRENCY withdraw)
      | (Some deposit, _, _, Some repay) \<Rightarrow>
          two_amounts ''You will deposit '' (amount CURRENCY deposit) '' and pay '' (amount COIN repay)
      | (_, Some withdraw, Some borrow, _) \<Rightarrow>
          two_amounts ''You will receive '' (amount CURRENCY withdraw) '' and '' (amount COIN borrow)
      | (Some deposit, _, _, _) \<Rightarrow>
          result_map (\<lambda>s. ''You will deposit '' @ s @ ''.'') (amount CURRENCY deposit)
      | (_, Some withdraw, _, _) \<Rightarrow>
          result_map (\<lambda>s. ''You will receive '' @ s @ ''.'') (amount CURRENCY withdraw)
      | (_, _, Some borrow, _) \<Rightarrow>
          result_map (\<lambda>s. ''You will receive '' @ s @ ''.'') (amount COIN borrow)
      | (_, _, _, Some repay) \<Rightarrow>
          result_map (\<lambda>s. ''You will pay '' @ s @ ''.'') (amount COIN repay)
      | (None, None, None, None) \<Rightarrow>
          Inl (TypeError ''Cannot read properties of undefined''))"

fun params_of :: "trove_change \<Rightarrow> adjustment_params" where
  "params_of (Creation p) =
     no_params\<lparr>depositCollateral := Some (cr_depositCollateral p), borrowDebtToken := Some (cr_borrowDebtToken p)\<rparr>"
| "params_of (Closure p) =
     no_params\<lparr>withdrawCollateral := Some (cl_withdrawCollateral p), repayDebtToken := cl_repayDebtToken p\<rparr>"
| "params_of (Adjustment p _) = p"
| "params_of (InvalidCreation _ _) = no_params"

definition context_of :: "selected_state \<Rightarrow> trove \<Rightarrow> trove \<Rightarrow> validation_context" where
  "context_of s original resulting =
     \<lparr>sel_price = sel_price s, sel_total = sel_total s, sel_accountBalance = sel_accountBalance s,
      sel_debtTokenBalance = sel_debtTokenBalance s, sel_numberOfTroves = sel_numberOfTroves s,
      originalTrove = original, resultingTrove = resulting,
      recoveryMode = collateralRatioIsBelowCritical (sel_total s) (sel_price s),
      wouldTriggerRecoveryMode =
        collateralRatioIsBelowCritical (trove_add (subtract (sel_total s) original) resulting) (sel_price s)\<rparr>"

definition validateTroveChange ::
  "constants \<Rightarrow> string \<Rightarrow> string \<Rightarrow> trove \<Rightarrow> trove \<Rightarrow> decimal \<Rightarrow> selected_state \<Rightarrow>
     (trove_change option \<times> change_description option) result" where
  "validateTroveChange k CURRENCY COIN original adjusted rate s =
     result_bind (whatChanged k original adjusted (Some (DDecimal rate))) (\<lambda>changeOpt.
     case changeOpt of
       None \<Rightarrow> Inr (None, None)
     | Some change \<Rightarrow>
         result_bind (apply_change k original (Some change) (Some (DDecimal rate))) (\<lambda>resulting.
         let ctx = context_of s original resulting in
         case change of
           InvalidCreation _ _ \<Rightarrow>
             Inr (None, Some (ErrorDescription (TotalDebtTooLow (showDecimal (MINIMUM_DEBT k)))))
         | _ \<Rightarrow>
             result_bind
               (case change of
                  Creation params \<Rightarrow> validateTroveCreation k params ctx
                | Closure params \<Rightarrow> validateTroveClosure params ctx
                | Adjustment params _ \<Rightarrow> validateTroveAdjustment k params ctx
                | InvalidCreation _ _ \<Rightarrow> Inr None) (\<lambda>errorDescription.
             case errorDescription of
               Some e \<Rightarrow> Inr (None, Some (ErrorDescription e))
             | None \<Rightarrow>
                 result_map (\<lambda>text. (Some change, Some (ActionDescription text)))
                   (TroveChangeDescription CURRENCY COIN (params_of change)))))"

section \<open>The protocol's rules\<close>

text \<open>
  The rules stated without division: a ratio is at least \<open>m\<close> when there is no debt, or the
  collateral's value covers \<open>m\<close> times the debt.
\<close>

definition at_least :: "decimal \<Rightarrow> trove \<Rightarrow> decimal \<Rightarrow> bool" where
  "at_least m t p \<longleftrightarrow>
     debt t = ZERO \<or> bigNumber m * bigNumber (debt t) \<le> bigNumber (collateral t) * bigNumber p"

definition new_total :: "selected_state \<Rightarrow> trove \<Rightarrow> trove \<Rightarrow> trove" where
  "new_total s a t = trove_add (subtract (sel_total s) a) t"

definition in_recovery_mode :: "selected_state \<Rightarrow> bool" where
  "in_recovery_mode s \<longleftrightarrow> \<not> at_least CRITICAL_COLLATERAL_RATIO (sel_total s) (sel_price s)"

fun permitted :: "constants \<Rightarrow> selected_state \<Rightarrow> trove \<Rightarrow> trove \<Rightarrow> trove_change \<Rightarrow> bool" where
  "permitted k s a t (InvalidCreation _ _) \<longleftrightarrow> False"
| "permitted k s a t (Creation params) \<longleftrightarrow>
     MINIMUM_NET_DEBT k \<le> cr_borrowDebtToken params
     \<and> cr_depositCollateral params \<le> sel_accountBalance s
     \<and> (if in_recovery_mode s then at_least CRITICAL_COLLATERAL_RATIO t (sel_price s)
        else at_least MINIMUM_COLLATERAL_RATIO t (sel_price s)
          \<and> at_least CRITICAL_COLLATERAL_RATIO (new_total s a t) (sel_price s))"
| "permitted k s a t (Closure params) \<longleftrightarrow>
     sel_numberOfTroves s \<noteq> 1 \<and> \<not> in_recovery_mode s
     \<and> value_or_zero (cl_repayDebtToken params) \<le> sel_debtTokenBalance s
     \<and> at_least CRITICAL_COLLATERAL_RATIO (new_total s a t) (sel_price s)"
| "permitted k s a t (Adjustment params _) \<longleftrightarrow>
     (if in_recovery_mode s
      then withdrawCollateral params = None
        \<and> (borrowDebtToken params \<noteq> None \<longrightarrow>
             at_least CRITICAL_COLLATERAL_RATIO t (sel_price s)
             \<and> collateralRatio a (sel_price s) \<le> collateralRatio t (sel_price s))
      else at_least MINIMUM_COLLATERAL_RATIO t (sel_price s)
        \<and> at_least CRITICAL_COLLATERAL_RATIO (new_total s a t) (sel_price s))
     \<and> (repayDebtToken params \<noteq> None \<longrightarrow> MINIMUM_DEBT k \<le> debt t)
     \<and> value_or_zero (repayDebtToken params) \<le> sel_debtTokenBalance s
     \<and> value_or_zero (depositCollateral params) \<le> sel_accountBalance s"

section \<open>Lemmas\<close>

lemma below_iff:
  "collateralRatioIsBelowMinimum t p \<longleftrightarrow> \<not> at_least MINIMUM_COLLATERAL_RATIO t p"
  "collateralRatioIsBelowCritical t p \<longleftrightarrow> \<not> at_least CRITICAL_COLLATERAL_RATIO t p"
  "isOpenableInRecoveryMode t p \<longleftrightarrow> at_least CRITICAL_COLLATERAL_RATIO t p"
  unfolding collateralRatioIsBelowMinimum_def collateralRatioIsBelowCritical_def
    isOpenableInRecoveryMode_def not_less [symmetric] at_least_def
  using collateralRatio_less_iff [OF thresholds_le_INFINITY(1), of t p]
    collateralRatio_less_iff [OF thresholds_le_INFINITY(2), of t p] by auto

lemma context_of_simps [simp]:
  "sel_price (context_of s a t) = sel_price s"
  "sel_accountBalance (context_of s a t) = sel_accountBalance s"
  "sel_debtTokenBalance (context_of s a t) = sel_debtTokenBalance s"
  "sel_numberOfTroves (context_of s a t) = sel_numberOfTroves s"
  "originalTrove (context_of s a t) = a" "resultingTrove (context_of s a t) = t"
  "recoveryMode (context_of s a t) = in_recovery_mode s"
  "wouldTriggerRecoveryMode (context_of s a t) =
     (\<not> at_least CRITICAL_COLLATERAL_RATIO (new_total s a t) (sel_price s))"
  by (simp_all add: context_of_def below_iff in_recovery_mode_def new_total_def)

lemma prettify_ok: "\<exists>s. prettify d None = Inr s"
  using prettify_total [of 2 d] by (simp add: prettify_def)

lemma shortfall_some: "b < a \<Longrightarrow> \<exists>e. shortfall err a b = Inr (Some e)"
  using prettify_ok [of "saturating_sub a b"]
  by (auto simp: shortfall_def sub_dec_saturating less_imp_le)

lemma amount_ok: "\<exists>s. amount u d = Inr s"
  using prettify_ok [of d] by (auto simp: amount_def)

text \<open>Each check returns, and finds no error exactly when its rules hold.\<close>

lemma validateTroveCreation_correct:
  "\<exists>e. validateTroveCreation k params (context_of s a t) = Inr e
     \<and> (e = None \<longleftrightarrow> permitted k s a t (Creation params))"
  using shortfall_some [of "sel_accountBalance s" "cr_depositCollateral params" DepositExceedsBalance]
  by (auto simp: validateTroveCreation_def below_iff not_less)

lemma validateTroveClosure_correct:
  "\<exists>e. validateTroveClosure params (context_of s a t) = Inr e
     \<and> (e = None \<longleftrightarrow> permitted k s a t (Closure params))"
  using shortfall_some [of "sel_debtTokenBalance s" "value_or_zero (cl_repayDebtToken params)" NeedMoreToClose]
  by (cases "cl_repayDebtToken params") (auto simp: validateTroveClosure_def not_less)

lemma repay_error_correct:
  "\<exists>e. repay_error k params (context_of s a t) = Inr e \<and> (e = None \<longleftrightarrow>
     (repayDebtToken params \<noteq> None \<longrightarrow> MINIMUM_DEBT k \<le> debt t)
     \<and> value_or_zero (repayDebtToken params) \<le> sel_debtTokenBalance s)"
  using shortfall_some [of "sel_debtTokenBalance s" "value_or_zero (repayDebtToken params)" RepaymentExceedsBalance]
  by (cases "repayDebtToken params") (auto simp: repay_error_def not_less)

lemma deposit_error_correct:
  "\<exists>e. deposit_error params (context_of s a t) = Inr e \<and> (e = None \<longleftrightarrow>
     value_or_zero (depositCollateral params) \<le> sel_accountBalance s)"
  using shortfall_some [of "sel_accountBalance s" "value_or_zero (depositCollateral params)" DepositExceedsBalance]
  by (cases "depositCollateral params") (auto simp: deposit_error_def not_less)

lemma validateTroveAdjustment_correct:
  "\<exists>e. validateTroveAdjustment k params (context_of s a t) = Inr e
     \<and> (e = None \<longleftrightarrow> permitted k s a t (Adjustment params z))"
proof -
  obtain e1 e2 where
    1: "repay_error k params (context_of s a t) = Inr e1" "e1 = None \<longleftrightarrow>
      (repayDebtToken params \<noteq> None \<longrightarrow> MINIMUM_DEBT k \<le> debt t)
      \<and> value_or_zero (repayDebtToken params) \<le> sel_debtTokenBalance s" and
    2: "deposit_error params (context_of s a t) = Inr e2"
      "e2 = None \<longleftrightarrow> value_or_zero (depositCollateral params) \<le> sel_accountBalance s"
    using repay_error_correct [of k params s a t] deposit_error_correct [of params s a t] by blast
  show ?thesis
    unfolding validateTroveAdjustment_def Let_def context_of_simps 1(1) 2(1) below_iff
      result_bind_simps permitted.simps
    using 1(2) 2(2) by (cases e1) (auto simp: not_less)
qed

lemma TroveChangeDescription_ok:
  assumes "params \<noteq> no_params"
  shows "\<exists>s. TroveChangeDescription CURRENCY COIN params = Inr s"
proof -
  have a: "\<exists>s. amount u d = Inr s" for u d by (rule amount_ok)
  have two: "\<exists>s. two_amounts x (amount u d) y (amount v e) = Inr s" for x u d y v e
    using amount_ok [of u d] amount_ok [of v e] by (auto simp: two_amounts_def)
  have one: "\<exists>s. result_map f (amount u d) = Inr s" for f u d
    using amount_ok [of u d] by auto
  have "depositCollateral params \<noteq> None \<or> withdrawCollateral params \<noteq> None
      \<or> borrowDebtToken params \<noteq> None \<or> repayDebtToken params \<noteq> None"
    using assms by (cases params) (simp add: no_params_def)
  then show ?thesis unfolding TroveChangeDescription_def
    by (cases "depositCollateral params"; cases "withdrawCollateral params";
        cases "borrowDebtToken params"; cases "repayDebtToken params") (simp_all add: two one)
qed

text \<open>The two cases of a change that is applied: refused at once, or checked.\<close>

lemma validateTroveChange_eq:
  assumes change: "whatChanged k a b (Some (DDecimal r)) = Inr (Some c)"
    and result: "apply_change k a (Some c) (Some (DDecimal r)) = Inr t"
    and params: "params_of c \<noteq> no_params \<or> (\<exists>x e. c = InvalidCreation x e)"
  shows "\<exists>d. validateTroveChange k CURRENCY COIN a b r s = Inr (if permitted k s a t c then Some c else None, Some d)"
proof (cases c)
  case (InvalidCreation x e)
  with change result show ?thesis by (simp add: validateTroveChange_def Let_def)
next
  case (Creation p)
  with change result params show ?thesis
    using validateTroveCreation_correct [of k p s a t] TroveChangeDescription_ok [of "params_of c" CURRENCY COIN]
    by (auto simp: validateTroveChange_def Let_def simp del: permitted.simps params_of.simps)
next
  case (Closure p)
  with change result params show ?thesis
    using validateTroveClosure_correct [of p s a t k] TroveChangeDescription_ok [of "params_of c" CURRENCY COIN]
    by (auto simp: validateTroveChange_def Let_def simp del: permitted.simps params_of.simps)
next
  case (Adjustment p z)
  with change result params show ?thesis
    using validateTroveAdjustment_correct [of k p s a t z] TroveChangeDescription_ok [of "params_of c" CURRENCY COIN]
    by (auto simp: validateTroveChange_def Let_def simp del: permitted.simps params_of.simps)
qed

lemma whatChanged_params:
  assumes "whatChanged k a b (Some (DDecimal r)) = Inr (Some c)"
  shows "params_of c \<noteq> no_params \<or> (\<exists>x e. c = InvalidCreation x e)"
proof -
  have "a \<noteq> b" using assms by auto
  consider "isEmpty a" | "\<not> isEmpty a" "isEmpty b" | "\<not> isEmpty a" "\<not> isEmpty b" by blast
  then show ?thesis
  proof cases
    case 1
    then show ?thesis
      using whatChanged_creation [OF \<open>a \<noteq> b\<close>, of k r] assms by (auto simp: no_params_def split: if_splits)
  next
    case 2
    with assms \<open>a \<noteq> b\<close> show ?thesis
      by (auto simp: whatChanged_def Let_def result_map_Inr no_params_def split: if_splits)
  next
    case 3
    then show ?thesis
      using whatChanged_adjustment [OF \<open>a \<noteq> b\<close>, of k r] valid_diff_params [OF \<open>a \<noteq> b\<close>, of r] assms
      by (auto simp: valid_params_def)
  qed
qed

lemma accepted_permitted:
  assumes "validateTroveChange k CURRENCY COIN a b r s = Inr (Some c, d)"
  obtains t where "whatChanged k a b (Some (DDecimal r)) = Inr (Some c)"
    "apply_change k a (Some c) (Some (DDecimal r)) = Inr t" "permitted k s a t c"
proof -
  from assms obtain c' t where c': "whatChanged k a b (Some (DDecimal r)) = Inr (Some c')"
      "apply_change k a (Some c') (Some (DDecimal r)) = Inr t"
    by (auto simp: validateTroveChange_def result_bind_Inr split: option.splits)
  with validateTroveChange_eq [OF c' whatChanged_params [OF c'(1)], of CURRENCY COIN s] assms that
  show thesis by (auto split: if_splits)
qed

lemma no_borrow_debt:
  assumes "apply_adjustment a p z r = Inr t" and "borrowDebtToken p = None"
  shows "debt t \<le> debt a"
  using assms by (cases z; cases "repayDebtToken p"; cases "the z")
    (auto simp: apply_adjustment_def Let_def trove_ops decimal_le_iff)

text \<open>The trove an accepted adjustment of a non-empty trove leads to.\<close>

lemma adjustment_result:
  assumes "whatChanged k a b (Some (DDecimal r)) = Inr (Some (Adjustment p z))"
    and "apply_change k a (Some (Adjustment p z)) (Some (DDecimal r)) = Inr t"
  shows "(withdrawCollateral p = None \<longrightarrow> collateral a \<le> collateral t)
    \<and> (borrowDebtToken p = None \<longrightarrow> debt t \<le> debt a)
    \<and> (repayDebtToken p = None \<longrightarrow> debt a \<le> debt t)"
proof -
  have "a \<noteq> b" using assms(1) by auto
  have nonempty: "\<not> isEmpty a" "\<not> isEmpty b"
  proof -
    show "\<not> isEmpty a"
      using whatChanged_creation [OF \<open>a \<noteq> b\<close>, of k r] assms(1) by (auto split: if_splits)
    then show "\<not> isEmpty b"
      using assms(1) \<open>a \<noteq> b\<close> by (auto simp: whatChanged_def Let_def result_map_Inr split: if_splits)
  qed
  have p: "p = diff_params r a b" "z = diff_zero a b"
    using whatChanged_adjustment [OF \<open>a \<noteq> b\<close> nonempty, of k r] assms(1) by auto
  have t: "reaches r b t"
    using apply_diff_reaches [OF nonempty(2), of a r] assms(2) p by (auto simp: apply_change_def)
  have "debt t \<le> debt a" if "borrowDebtToken p = None"
    using assms(2) no_borrow_debt [OF _ that, of a z "DDecimal r" t] by (simp add: apply_change_def)
  moreover have "collateral a \<le> collateral t" if "withdrawCollateral p = None"
    using that p(1) t by (auto simp: diff_params_def reaches_def not_less split: if_splits)
  moreover have "debt a \<le> debt t" if "repayDebtToken p = None"
    using that p(1) t by (auto simp: diff_params_def reaches_def not_less split: if_splits)
  ultimately show ?thesis by blast
qed

text \<open>A trove with 1000 collateral and 300 debt, opened at price 1 with 2000 in the wallet.\<close>

definition sample_edit :: trove where
  "sample_edit = \<lparr>collateral = Decimal (1000 * DIGITS), debt = Decimal (300 * DIGITS)\<rparr>"

definition sample_selected :: selected_state where
  "sample_selected =
     \<lparr>sel_price = ONE, sel_total = emptyTrove, sel_accountBalance = Decimal (2000 * DIGITS),
      sel_debtTokenBalance = ZERO, sel_numberOfTroves = 1\<rparr>"

lemma sample_change:
  "whatChanged default_constants emptyTrove sample_edit (Some (DDecimal ZERO)) =
     Inr (Some (Creation \<lparr>cr_depositCollateral = Decimal (1000 * DIGITS),
                          cr_borrowDebtToken = Decimal (280 * DIGITS)\<rparr>))"
  "apply_change default_constants emptyTrove
     (Some (Creation \<lparr>cr_depositCollateral = Decimal (1000 * DIGITS),
                      cr_borrowDebtToken = Decimal (280 * DIGITS)\<rparr>)) (Some (DDecimal ZERO)) = Inr sample_edit"
  using whatChanged_creation [of emptyTrove sample_edit default_constants ZERO]
  by (simp_all add: sample_edit_def emptyTrove_def isEmpty_iff decimal_eq_iff default_constants_def
      apply_change_def divCeil_def saturating_sub_def decimal_less_iff decimal_eq_iff DIGITS_eq ONE_def
      mul_dec_def add_dec_def ZERO_def)

lemma sample_permitted:
  "permitted default_constants sample_selected emptyTrove sample_edit
     (Creation \<lparr>cr_depositCollateral = Decimal (1000 * DIGITS), cr_borrowDebtToken = Decimal (280 * DIGITS)\<rparr>)"
  by (simp add: sample_selected_def sample_edit_def default_constants_def in_recovery_mode_def at_least_def
      emptyTrove_def new_total_def trove_ops decimal_le_iff decimal_eq_iff DIGITS_eq
      MINIMUM_COLLATERAL_RATIO_def CRITICAL_COLLATERAL_RATIO_def)

lemma sample_accepted:
  "\<exists>d. validateTroveChange default_constants ''FIL'' ''USDFC'' emptyTrove sample_edit ZERO sample_selected
     = Inr (Some (Creation \<lparr>cr_depositCollateral = Decimal (1000 * DIGITS),
                            cr_borrowDebtToken = Decimal (280 * DIGITS)\<rparr>), Some d)"
  using validateTroveChange_eq [OF sample_change whatChanged_params [OF sample_change(1)],
      of "''FIL''" "''USDFC''" sample_selected] sample_permitted by (simp del: permitted.simps)

lemma sample_normal_mode: "\<not> in_recovery_mode sample_selected"
  by (simp add: in_recovery_mode_def at_least_def sample_selected_def emptyTrove_def)

section \<open>Properties\<close>

text \<open>
  C4: Validation is exact: for an edited trove that differs (and a closure the reserve covers)
  it never throws, and it returns the change \<open>whatChanged\<close> finds exactly when the protocol's
  rules permit it, otherwise an error description and no change.
\<close>

theorem validateTroveChange_exact:
  assumes "a \<noteq> b" and "isEmpty b \<Longrightarrow> LIQUIDATION_RESERVE k \<le> debt a"
  shows "\<exists>c t d. whatChanged k a b (Some (DDecimal r)) = Inr (Some c)
    \<and> apply_change k a (Some c) (Some (DDecimal r)) = Inr t
    \<and> validateTroveChange k CURRENCY COIN a b r s
        = Inr (if permitted k s a t c then Some c else None, Some d)"
proof -
  obtain x t where x: "whatChanged k a b (Some (DDecimal r)) = Inr x"
      "apply_change k a x (Some (DDecimal r)) = Inr t"
    using apply_whatChanged_reaches [of b a k r] assms(2) by auto
  have "x \<noteq> None"
  proof
    assume "x = None"
    with x(1) have "collateral a = collateral b \<and> debt a = debt b"
      by (auto simp: whatChanged_def Let_def result_map_Inr result_bind_Inr split: if_splits)
    with \<open>a \<noteq> b\<close> show False by auto
  qed
  then obtain c where c: "x = Some c" by blast
  with x show ?thesis
    using validateTroveChange_eq [OF _ _ whatChanged_params, where k = k and a = a and b = b and r = r
        and c = c and t = t and CURRENCY = CURRENCY and COIN = COIN and s = s] by blast
qed

theorem validateTroveChange_exact_witness:
  "\<exists>c t d. whatChanged default_constants emptyTrove sample_edit (Some (DDecimal ZERO)) = Inr (Some c)
    \<and> apply_change default_constants emptyTrove (Some c) (Some (DDecimal ZERO)) = Inr t
    \<and> validateTroveChange default_constants ''FIL'' ''USDFC'' emptyTrove sample_edit ZERO sample_selected
        = Inr (if permitted default_constants sample_selected emptyTrove t c then Some c else None, Some d)"
  by (rule validateTroveChange_exact)
    (simp_all add: sample_edit_def emptyTrove_def isEmpty_iff decimal_eq_iff DIGITS_eq)

text \<open>
  An accepted change is safe.  Outside recovery mode it leaves the trove at or above the
  minimum ratio and the whole system at or above the critical one.  A trove that had at least
  the minimum debt (or did not exist) has it afterwards or is closed.  In recovery mode an
  existing trove never loses collateral, and its debt grows only if the trove ends at or above
  the critical ratio and no lower than before.
\<close>

theorem accepted_change_safe:
  assumes accepted: "validateTroveChange k CURRENCY COIN a b r s = Inr (Some c, d)"
    and applied: "apply_change k a (Some c) (Some (DDecimal r)) = Inr t"
    and constants: "MINIMUM_DEBT k = add_dec (LIQUIDATION_RESERVE k) (MINIMUM_NET_DEBT k)"
    and before: "isEmpty a \<or> MINIMUM_DEBT k \<le> debt a"
  shows "(\<not> in_recovery_mode s \<longrightarrow> at_least MINIMUM_COLLATERAL_RATIO t (sel_price s)
        \<and> at_least CRITICAL_COLLATERAL_RATIO (new_total s a t) (sel_price s))
    \<and> (isEmpty t \<or> MINIMUM_DEBT k \<le> debt t)
    \<and> (in_recovery_mode s \<and> \<not> isEmpty a \<longrightarrow> collateral a \<le> collateral t
        \<and> (debt t \<le> debt a \<or> at_least CRITICAL_COLLATERAL_RATIO t (sel_price s)
             \<and> collateralRatio a (sel_price s) \<le> collateralRatio t (sel_price s)))"
proof -
  from accepted_permitted [OF accepted] applied
  have change: "whatChanged k a b (Some (DDecimal r)) = Inr (Some c)" and ok: "permitted k s a t c" by auto
  show ?thesis
  proof (cases c)
    case (InvalidCreation x e)
    with ok show ?thesis by simp
  next
    case (Closure p)
    with applied have "t = emptyTrove" by (auto simp: apply_change_def split: if_splits)
    with ok Closure show ?thesis by (simp add: at_least_def emptyTrove_def isEmpty_iff)
  next
    case (Creation p)
    with applied have "isEmpty a"
        "debt t = add_dec (LIQUIDATION_RESERVE k) (mul_dec (cr_borrowDebtToken p) (add_dec ONE r))"
      by (auto simp: apply_change_def split: if_splits)
    moreover from this(2) have "MINIMUM_DEBT k \<le> debt t"
      using ok Creation mul_dec_mono [of "cr_borrowDebtToken p" "cr_borrowDebtToken p" ONE "add_dec ONE r"]
      by (simp add: constants decimal_le_iff del: bigNumber_mul)
    ultimately show ?thesis using ok Creation by (auto split: if_splits)
  next
    case (Adjustment p z)
    note t = adjustment_result [OF change [unfolded Adjustment] applied [unfolded Adjustment]]
    have "\<not> isEmpty a" using change Adjustment whatChanged_creation [of a b k r]
      by (cases "a = b") (auto split: if_splits)
    then have "MINIMUM_DEBT k \<le> debt t"
      using ok Adjustment t before by (cases "repayDebtToken p") (auto intro: order_trans)
    with ok Adjustment t show ?thesis by (auto split: if_splits)
  qed
qed

theorem accepted_change_safe_witness:
  "at_least MINIMUM_COLLATERAL_RATIO sample_edit (sel_price sample_selected)
    \<and> at_least CRITICAL_COLLATERAL_RATIO (new_total sample_selected emptyTrove sample_edit) (sel_price sample_selected)
    \<and> MINIMUM_DEBT default_constants \<le> debt sample_edit"
proof -
  obtain d where d: "validateTroveChange default_constants ''FIL'' ''USDFC'' emptyTrove sample_edit ZERO
      sample_selected = Inr (Some (Creation \<lparr>cr_depositCollateral = Decimal (1000 * DIGITS),
        cr_borrowDebtToken = Decimal (280 * DIGITS)\<rparr>), Some d)"
    using sample_accepted by blast
  have "MINIMUM_DEBT default_constants =
      add_dec (LIQUIDATION_RESERVE default_constants) (MINIMUM_NET_DEBT default_constants)"
    by (simp add: default_constants_def add_dec_def)
  note safe = accepted_change_safe [OF d sample_change(2) this disjI1 [OF isEmpty_emptyTrove]]
  have "\<not> isEmpty sample_edit" by (simp add: isEmpty_iff sample_edit_def decimal_eq_iff DIGITS_eq)
  with safe sample_normal_mode show ?thesis by blast
qed

end
