(* ===== verification/Trove_Editor.thy ===== *)
theory Trove_Editor
  imports Trove_Validation
begin

text \<open>
  The trove editor of the frontend: the reducer of
  \<^verbatim>\<open>packages/dev-frontend/src/components/Trove/TroveManager.tsx\<close>, which keeps the user's edit while
  the store updates the trove under it, and the views of
  \<^verbatim>\<open>components/Trove/context/TroveViewProvider.tsx\<close>.

  The lemmas show how an edit is carried over to the updated trove, in which case the reducer
  throws instead, and that the view shown fits the trove's status.

  Of a \<open>UserTrove\<close> the reducer uses the collateral and the debt.  An action that is a store
  update carries \<open>newState.trove\<close> and whether \<open>stateChange.troveBeforeRedistribution\<close> is present.
\<close>

section \<open>The reducer\<close>

record trove_manager =
  original :: trove
  edited :: trove
  changePending :: bool
  debtDirty :: bool
  addedMinimumDebt :: bool

definition init_trove_manager :: "trove \<Rightarrow> trove_manager" where
  "init_trove_manager t =
     \<lparr>original = t, edited = t, changePending = False, debtDirty = False, addedMinimumDebt = False\<rparr>"

datatype trove_manager_action =
    StartChange
  | FinishChange
  | SetCollateral decimalish
  | SetDebt decimalish
  | AddMinimumDebt
  | RemoveMinimumDebt
  | Revert
  | UpdateStore trove bool

definition finishChange_edit :: "trove_manager \<Rightarrow> trove_manager" where
  "finishChange_edit st = st\<lparr>changePending := False\<rparr>"

definition revert_edit :: "trove_manager \<Rightarrow> trove_manager" where
  "revert_edit st = st\<lparr>edited := original st, debtDirty := False, addedMinimumDebt := False\<rparr>"

definition addMinimumDebt :: "constants \<Rightarrow> trove_manager \<Rightarrow> trove_manager" where
  "addMinimumDebt k st = st\<lparr>edited := setDebt (edited st) (MINIMUM_DEBT k), addedMinimumDebt := True\<rparr>"

definition removeMinimumDebt :: "trove_manager \<Rightarrow> trove_manager" where
  "removeMinimumDebt st = st\<lparr>edited := setDebt (edited st) ZERO, addedMinimumDebt := False\<rparr>"

definition updateStore_edit :: "constants \<Rightarrow> trove_manager \<Rightarrow> trove \<Rightarrow> bool \<Rightarrow> trove_manager result" where
  "updateStore_edit k st trove changeCommitted =
     (let newState = st\<lparr>original := trove\<rparr> in
      if changePending st \<and> changeCommitted then Inr (finishChange_edit (revert_edit newState))
      else
        result_bind (whatChanged k (original st) (edited st) (Some (DNumber ''0''))) (\<lambda>change.
          if (case change of
                Some (Creation _) \<Rightarrow> \<not> isEmpty trove
              | Some (Closure _) \<Rightarrow> isEmpty trove
              | _ \<Rightarrow> False)
          then Inr (revert_edit newState)
          else result_map (\<lambda>t. newState\<lparr>edited := t\<rparr>)
                 (apply_change k trove change (Some (DNumber ''0'')))))"

fun reduce_edit :: "constants \<Rightarrow> trove_manager \<Rightarrow> trove_manager_action \<Rightarrow> trove_manager result" where
  "reduce_edit k st StartChange = Inr (st\<lparr>changePending := True\<rparr>)"
| "reduce_edit k st FinishChange = Inr (finishChange_edit st)"
| "reduce_edit k st (SetCollateral newValue) =
     result_map (\<lambda>newCollateral.
       let newState = st\<lparr>edited := setCollateral (edited st) newCollateral\<rparr> in
       if \<not> debtDirty st \<and> isEmpty (edited st) \<and> nonZero_dec newCollateral \<noteq> None then addMinimumDebt k newState
       else if \<not> debtDirty st \<and> addedMinimumDebt st \<and> isZero newCollateral then removeMinimumDebt newState
       else newState) (from_ish newValue)"
| "reduce_edit k st (SetDebt newValue) =
     result_map (\<lambda>d. st\<lparr>edited := setDebt (edited st) d, debtDirty := True\<rparr>) (from_ish newValue)"
| "reduce_edit k st AddMinimumDebt = Inr (addMinimumDebt k st)"
| "reduce_edit k st RemoveMinimumDebt = Inr (removeMinimumDebt st)"
| "reduce_edit k st Revert = Inr (revert_edit st)"
| "reduce_edit k st (UpdateStore trove changeCommitted) = updateStore_edit k st trove changeCommitted"

text \<open>\<open>feeFrom\<close>: \<open>change.params.borrowDebtToken\<close> is a field of creations and adjustments only.\<close>

definition feeFrom :: "constants \<Rightarrow> trove \<Rightarrow> trove \<Rightarrow> decimal \<Rightarrow> decimal result" where
  "feeFrom k a b rate =
     result_map (\<lambda>change.
       case change of
         Some (Creation params) \<Rightarrow> mul_dec (cr_borrowDebtToken params) rate
       | Some (Adjustment params _) \<Rightarrow>
           (case borrowDebtToken params of Some borrow \<Rightarrow> mul_dec borrow rate | None \<Rightarrow> ZERO)
       | _ \<Rightarrow> ZERO) (whatChanged k a b (Some (DDecimal rate)))"

section \<open>The views\<close>

datatype trove_view = NoTrove | Liquidated | Redeemed | Opening | Adjusting | Closing | Active

datatype trove_event =
    OpenTrovePressed | AdjustTrovePressed | CloseTrovePressed | CancelAdjustTrovePressed
  | TroveAdjusted | TroveOpened | TroveClosed | TroveLiquidated_view | TroveRedeemed
  | TroveSurplusCollateralClaimed

fun transitions :: "trove_view \<Rightarrow> trove_event \<rightharpoonup> trove_view" where
  "transitions NoTrove e = (case e of
     OpenTrovePressed \<Rightarrow> Some Opening | TroveOpened \<Rightarrow> Some Active | _ \<Rightarrow> None)"
| "transitions Liquidated e = (case e of
     OpenTrovePressed \<Rightarrow> Some Opening | TroveSurplusCollateralClaimed \<Rightarrow> Some NoTrove
   | TroveOpened \<Rightarrow> Some Active | _ \<Rightarrow> None)"
| "transitions Redeemed e = (case e of
     OpenTrovePressed \<Rightarrow> Some Opening | TroveSurplusCollateralClaimed \<Rightarrow> Some NoTrove
   | TroveOpened \<Rightarrow> Some Active | _ \<Rightarrow> None)"
| "transitions Opening e = (case e of
     CancelAdjustTrovePressed \<Rightarrow> Some NoTrove | TroveOpened \<Rightarrow> Some Active | _ \<Rightarrow> None)"
| "transitions Adjusting e = (case e of
     CancelAdjustTrovePressed \<Rightarrow> Some Active | TroveAdjusted \<Rightarrow> Some Active | TroveClosed \<Rightarrow> Some NoTrove
   | TroveLiquidated_view \<Rightarrow> Some Liquidated | TroveRedeemed \<Rightarrow> Some Redeemed | _ \<Rightarrow> None)"
| "transitions Closing e = (case e of
     CancelAdjustTrovePressed \<Rightarrow> Some Active | TroveClosed \<Rightarrow> Some NoTrove | TroveAdjusted \<Rightarrow> Some Active
   | TroveLiquidated_view \<Rightarrow> Some Liquidated | TroveRedeemed \<Rightarrow> Some Redeemed | _ \<Rightarrow> None)"
| "transitions Active e = (case e of
     AdjustTrovePressed \<Rightarrow> Some Adjusting | CloseTrovePressed \<Rightarrow> Some Closing | TroveClosed \<Rightarrow> Some NoTrove
   | TroveLiquidated_view \<Rightarrow> Some Liquidated | TroveRedeemed \<Rightarrow> Some Redeemed | _ \<Rightarrow> None)"

fun troveStatusEvents :: "userTroveStatus \<rightharpoonup> trove_event" where
  "troveStatusEvents open_trove = Some TroveOpened"
| "troveStatusEvents closedByOwner = Some TroveClosed"
| "troveStatusEvents closedByLiquidation = Some TroveLiquidated_view"
| "troveStatusEvents closedByRedemption = Some TroveRedeemed"
| "troveStatusEvents nonExistent = None"

definition transition_view :: "trove_view \<Rightarrow> trove_event \<Rightarrow> trove_view" where
  "transition_view view event = (case transitions view event of Some v \<Rightarrow> v | None \<Rightarrow> view)"

definition getInitialView :: "userTroveStatus \<Rightarrow> trove_view" where
  "getInitialView troveStatus =
     (if troveStatus = closedByLiquidation then Liquidated
      else if troveStatus = closedByRedemption then Redeemed
      else if troveStatus = open_trove then Active
      else NoTrove)"

text \<open>
  The provider: it starts in the initial view of the current status, the buttons and the
  adjustment's confirmation send their events, and the effect on \<open>troveStatus\<close> sends the
  event of each new status.  A status never goes back to \<open>nonExistent\<close>.
\<close>

definition ui_events :: "trove_event set" where
  "ui_events = {OpenTrovePressed, AdjustTrovePressed, CloseTrovePressed, CancelAdjustTrovePressed,
     TroveAdjusted, TroveSurplusCollateralClaimed}"

definition status_effect :: "trove_view \<Rightarrow> userTroveStatus \<Rightarrow> trove_view" where
  "status_effect view troveStatus =
     (case troveStatusEvents troveStatus of Some event \<Rightarrow> transition_view view event | None \<Rightarrow> view)"

inductive view_step :: "userTroveStatus \<times> trove_view \<Rightarrow> userTroveStatus \<times> trove_view \<Rightarrow> bool" where
  ui: "e \<in> ui_events \<Longrightarrow> view_step (st, v) (st, transition_view v e)"
| status: "st' \<noteq> nonExistent \<Longrightarrow> view_step (st, v) (st', status_effect v st')"

definition reachable_view :: "userTroveStatus \<Rightarrow> trove_view \<Rightarrow> bool" where
  "reachable_view st v \<longleftrightarrow>
     (\<exists>st0. view_step\<^sup>*\<^sup>* (st0, getInitialView st0) (st, v))"

section \<open>Edits carried over\<close>

lemma zero_rate:
  "whatChanged k a b (Some (DNumber ''0'')) = whatChanged k a b (Some (DDecimal ZERO))"
  "apply_change k a c (Some (DNumber ''0'')) = apply_change k a c (Some (DDecimal ZERO))"
proof -
  have "fromString ''0'' = Inr ZERO" using constants_from_source(8) by simp
  then have "applyFee (DNumber ''0'') = applyFee (DDecimal ZERO)" "unapplyFee (DNumber ''0'') = unapplyFee (DDecimal ZERO)"
    by (simp_all add: fun_eq_iff applyFee_def unapplyFee_def with_ish_def)
  then show "whatChanged k a b (Some (DNumber ''0'')) = whatChanged k a b (Some (DDecimal ZERO))"
    "apply_change k a c (Some (DNumber ''0'')) = apply_change k a c (Some (DDecimal ZERO))"
    by (simp_all only: whatChanged_def debtChange_def apply_change_def apply_adjustment_def
        rate_or_default_Some Let_def)
qed

text \<open>
  What an edit from \<open>old\<close> to \<open>new\<close> does to another amount: an edit to zero is zero, any other
  moves the amount by the same difference, down to zero at most.
\<close>

definition carry :: "decimal \<Rightarrow> decimal \<Rightarrow> decimal \<Rightarrow> decimal" where
  "carry old new x =
     (if new = ZERO \<and> old \<noteq> ZERO then ZERO
      else saturating_sub (add_dec x (saturating_sub new old)) (saturating_sub old new))"

lemma carry_same [simp]: "carry old old x = x"
  by (simp add: carry_def decimal_eq_iff)

lemma carry_self [simp]: "carry old new old = new"
  by (auto simp: carry_def decimal_eq_iff)

lemma divCeil_ONE_eq [simp]: "divCeil d (add_dec ONE ZERO) = d"
  by (simp add: divCeil_def add_dec_def decimal_eq_iff DIGITS_eq ONE_def)

lemma apply_diff_carry:
  assumes "a \<noteq> b" and "\<not> isEmpty b"
  shows "apply_adjustment x (diff_params ZERO a b) (diff_zero a b) (DDecimal ZERO) =
     Inr \<lparr>collateral = carry (collateral a) (collateral b) (collateral x),
          debt = carry (debt a) (debt b) (debt x)\<rparr>"
proof -
  have inc: "(case borrowDebtToken (diff_params ZERO a b) of
      Some borrow \<Rightarrow> applyFee (DDecimal ZERO) borrow | None \<Rightarrow> Inr ZERO) = Inr (saturating_sub (debt b) (debt a))"
    by (cases "debt a < debt b") (simp_all add: diff_params_def saturating_sub_eq_ZERO [THEN iffD2] not_less)
  have vals: "value_or_zero (depositCollateral (diff_params ZERO a b)) = saturating_sub (collateral b) (collateral a)"
    "value_or_zero (withdrawCollateral (diff_params ZERO a b)) = saturating_sub (collateral a) (collateral b)"
    "value_or_zero (repayDebtToken (diff_params ZERO a b)) = saturating_sub (debt a) (debt b)"
    by (simp_all add: diff_params_def saturating_sub_eq_ZERO [THEN iffD2] not_less)
  show ?thesis
    unfolding apply_adjustment_def Let_def inc vals result_map_simps using assms
    by (auto simp: diff_zero_def carry_def trove_ops isEmpty_iff)
qed

lemma creation_carried:
  assumes "\<not> isEmpty b" and "LIQUIDATION_RESERVE k \<le> debt b"
  shows "apply_change k emptyTrove (Some (Creation
      \<lparr>cr_depositCollateral = collateral b,
       cr_borrowDebtToken = divCeil (saturating_sub (debt b) (LIQUIDATION_RESERVE k)) (add_dec ONE ZERO)\<rparr>))
      (Some (DDecimal ZERO)) = Inr b"
  using assms by (simp add: apply_change_def add_saturating)

lemma apply_cases:
  "apply_change k x (Some (Adjustment p z)) (Some r) = apply_adjustment x p z r"
  "apply_change k x (Some (Closure params)) r' =
     (if isEmpty x then Inl (Error ''Can't close empty Trove'') else Inr emptyTrove)"
  "apply_change k x (Some (InvalidCreation b e)) r' =
     (if isEmpty x then Inr b else Inl (Error ''Can't create onto existing Trove''))"
  by (simp_all add: apply_change_def)

lemma closure_of:
  assumes "\<not> isEmpty a" and "isEmpty b" and "LIQUIDATION_RESERVE k \<le> debt a"
  obtains params where "whatChanged k a b r = Inr (Some (Closure params))"
  using whatChanged_closure [of a b k r] assms by auto

lemma whatChanged_closes:
  "\<not> isEmpty a \<Longrightarrow> isEmpty b \<Longrightarrow> netDebt k a = Inl e \<Longrightarrow> whatChanged k a b r = Inl e"
  by (auto simp: whatChanged_def Let_def isEmpty_iff)

section \<open>Views and the status\<close>

lemmas view_simps = status_effect_def transition_view_def ui_events_def getInitialView_def

inductive_cases view_step_cases: "view_step (st, v) x"

lemma view_step_fits:
  assumes "view_step (st, v) (st', v')" and "st = open_trove \<longleftrightarrow> v \<in> {Adjusting, Closing, Active}"
  shows "st' = open_trove \<longleftrightarrow> v' \<in> {Adjusting, Closing, Active}"
  using assms(1)
proof (rule view_step_cases)
  fix e assume "(st', v') = (st, transition_view v e)" "e \<in> ui_events"
  with assms(2) show ?thesis by (cases v) (auto simp: view_simps)
next
  fix st'' assume "(st', v') = (st'', status_effect v st'')" "st'' \<noteq> nonExistent"
  with assms(2) show ?thesis by (cases v; cases st'') (auto simp: view_simps)
qed

lemma reachable_view_fits:
  assumes "view_step\<^sup>*\<^sup>* (st0, getInitialView st0) (st, v)"
  shows "st = open_trove \<longleftrightarrow> v \<in> {Adjusting, Closing, Active}"
  using assms
proof (induction "(st, v)" arbitrary: st v rule: rtranclp_induct)
  case base
  show ?case by (cases st0) (simp_all add: getInitialView_def)
next
  case (step y)
  then show ?case by (cases y) (auto dest!: view_step_fits)
qed

section \<open>Properties\<close>

text \<open>
  C29: What a store update does to the user's edit, in every case.  While a change is pending the
  update that commits it replaces the edit by the store's trove and ends the change.
  Otherwise an adjustment is carried over: each amount moves by the difference the user made,
  and one set to zero stays zero.  A trove being opened stays as edited while there is none, is
  given up when a trove appears, and makes the reducer throw when its debt is below the reserve
  at that moment.  A closure stays a closure until the trove is gone; where the trove to close
  has a debt below the reserve, the reducer throws.
\<close>

theorem updateStore_outcome:
  "reduce_edit k st (UpdateStore trove changeCommitted) =
    (if changePending st \<and> changeCommitted then
       Inr (st\<lparr>original := trove, edited := trove, changePending := False, debtDirty := False,
               addedMinimumDebt := False\<rparr>)
     else if isEmpty (original st) \<and> \<not> isEmpty (edited st) then
       (if isEmpty trove then Inr (st\<lparr>original := trove\<rparr>)
        else if LIQUIDATION_RESERVE k \<le> debt (edited st)
        then Inr (st\<lparr>original := trove, edited := trove, debtDirty := False, addedMinimumDebt := False\<rparr>)
        else Inl (Error ''Can't create onto existing Trove''))
     else if \<not> isEmpty (original st) \<and> isEmpty (edited st) then
       (if debt (original st) < LIQUIDATION_RESERVE k
        then Inl (Error (''netDebt should not be used when debt < '' @ showDecimal (LIQUIDATION_RESERVE k)))
        else if isEmpty trove
        then Inr (st\<lparr>original := trove, edited := trove, debtDirty := False, addedMinimumDebt := False\<rparr>)
        else Inr (st\<lparr>original := trove, edited := emptyTrove\<rparr>))
     else Inr (st\<lparr>original := trove, edited :=
        \<lparr>collateral = carry (collateral (original st)) (collateral (edited st)) (collateral trove),
         debt = carry (debt (original st)) (debt (edited st)) (debt trove)\<rparr>\<rparr>))"
proof (cases "changePending st \<and> changeCommitted")
  case True
  then show ?thesis by (simp add: updateStore_edit_def Let_def revert_edit_def finishChange_edit_def)
next
  case free: False
  let ?a = "original st" and ?b = "edited st"
  consider (same) "?a = ?b" | (create) "?a \<noteq> ?b" "isEmpty ?a" | (close) "?a \<noteq> ?b" "\<not> isEmpty ?a" "isEmpty ?b"
    | (adjust) "?a \<noteq> ?b" "\<not> isEmpty ?a" "\<not> isEmpty ?b" by blast
  then show ?thesis
  proof cases
    case same
    with free show ?thesis by (auto simp: updateStore_edit_def Let_def)
  next
    case create
    then have "\<not> isEmpty ?b" by (simp add: isEmpty_eq)
    with create free show ?thesis
      using whatChanged_creation [OF create, of k ZERO] creation_carried [of ?b k]
      by (auto simp: updateStore_edit_def revert_edit_def Let_def zero_rate isEmpty_eq apply_cases not_less
          simp del: divCeil_ONE_eq)
  next
    case close
    show ?thesis
    proof (cases "debt ?a < LIQUIDATION_RESERVE k")
      case True
      then have "netDebt k ?a = Inl (Error (''netDebt should not be used when debt < '' @ showDecimal (LIQUIDATION_RESERVE k)))"
        by (simp add: netDebt_def)
      with True close free show ?thesis by (auto simp: updateStore_edit_def Let_def whatChanged_closes)
    next
      case False
      with close obtain params where "whatChanged k ?a ?b (Some (DDecimal ZERO)) = Inr (Some (Closure params))"
        by (metis closure_of not_less)
      with close free False show ?thesis
        by (auto simp: updateStore_edit_def revert_edit_def Let_def zero_rate apply_cases)
    qed
  next
    case adjust
    with free show ?thesis
      using whatChanged_adjustment [OF adjust, of k ZERO] apply_diff_carry [OF adjust(1,3), of trove]
      by (auto simp: updateStore_edit_def Let_def zero_rate apply_cases)
  qed
qed

text \<open>
  The view fits the trove: whatever the user presses and however the status changes, the
  editing views and the active one are shown exactly while the trove is open.
\<close>

theorem view_fits_status:
  assumes "reachable_view st v"
  shows "st = open_trove \<longleftrightarrow> v \<in> {Adjusting, Closing, Active}"
  using assms reachable_view_fits unfolding reachable_view_def by blast

theorem view_fits_status_witness:
  "open_trove = open_trove \<longleftrightarrow> Closing \<in> {Adjusting, Closing, Active}"
proof (rule view_fits_status)
  have "view_step (open_trove, getInitialView open_trove) (open_trove, transition_view Active CloseTrovePressed)"
    using ui [of CloseTrovePressed open_trove Active] by (simp add: getInitialView_def ui_events_def)
  then show "reachable_view open_trove Closing"
    unfolding reachable_view_def by (auto simp: transition_view_def intro: r_into_rtranclp)
qed

end
