(* ===== verification/Frontend_Batching.thy ===== *)
theory Frontend_Batching
  imports Ethers_Connection
begin

text \<open>
  The provider that batches calls: class \<open>BatchedProvider\<close> of
  \<^verbatim>\<open>packages/dev-frontend/src/providers/BatchingProvider.ts\<close>.

  A call without sender, gas and value joins the batch, unless the batch is for another
  block; when the timer fires the batch becomes one call of the multicall contract.  The
  provider underneath and the multicall contract are parameters.  A promise is the number of
  its request; \<open>settled\<close> lists the promises settled so far.  Times are milliseconds.
\<close>

section \<open>Requests\<close>

record tx_request =
  tr_from :: "string option"
  tr_to :: "string option"
  tr_data :: "string option"
  tr_gasLimit :: "nat option"
  tr_gasPrice :: "nat option"
  tr_value :: "nat option"

record call_request =
  cq_target :: string
  cq_callData :: string

definition batchProviderMulticall :: "nat \<rightharpoonup> string" where
  "batchProviderMulticall = map_of
     [(1, ''0xeefBa1e63905eF1D7ACbA5a8513c70307C1cE441''),
      (3, ''0x53C43764255c17BD724F74c4eF150724AC50a3ed''),
      (4, ''0x42Ad527de7d4e9d9d011aC45B31D8551f8Fe9821''),
      (5, ''0x77dCa2C955b15e9dE4dbBCf1246B4B85b651e50e''),
      (42, ''0x2cc8688C5f75E365aaEEb4ea8D6a480405A48D2A''),
      (11155111, ''0xcA11bde05977b3631167028862bE2a173976CA11'')]"

definition batchableCall :: "tx_request \<Rightarrow> bool" where
  "batchableCall t \<longleftrightarrow> tr_from t = None \<and> tr_gasLimit t = None \<and> tr_gasPrice t = None \<and> tr_value t = None"

definition js_startsWith :: "string \<Rightarrow> string \<Rightarrow> bool" where
  "js_startsWith s prefix \<longleftrightarrow> take (length prefix) s = prefix"

definition batchedCall :: "tx_request \<Rightarrow> string \<Rightarrow> bool" where
  "batchedCall t multicall_address \<longleftrightarrow>
     tr_to t = Some multicall_address \<and>
     (case tr_data t of Some d \<Rightarrow> js_startsWith d ''0x252dba42'' | None \<Rightarrow> False)"

section \<open>The provider\<close>

text \<open>
  What is underneath: the calls and balances of the provider, the multicall contract's
  \<open>aggregate\<close>, and the encoding of its \<open>getEthBalance\<close>.
\<close>

record batching_env =
  pv_call :: "tx_request \<Rightarrow> block_tag \<Rightarrow> string result"
  pv_getBalance :: "string \<Rightarrow> block_tag \<Rightarrow> string result"
  pv_other :: "string \<Rightarrow> string result"
  pv_aggregate :: "call_request list \<Rightarrow> block_tag \<Rightarrow> string list result"
  pv_encodeBalance :: "string \<Rightarrow> string"
  pv_multicall :: "string option"

record batching =
  batch_tag :: block_tag
  batch_calls :: "call_request list"
  batch_callbacks :: "nat list"
  batch_timer :: "nat option"
  numberOfBatchedCalls :: nat
  numberOfActualCalls :: nat
  timeOfLastRatioCheck :: "nat option"
  settled :: "(nat \<times> string result) list"

definition emptyBatch :: "batching \<Rightarrow> batching" where
  "emptyBatch st = st\<lparr>batch_tag := BlockName ''latest'', batch_calls := [], batch_callbacks := []\<rparr>"

definition new_BatchedProvider :: batching where
  "new_BatchedProvider =
     \<lparr>batch_tag = BlockName ''latest'', batch_calls = [], batch_callbacks = [], batch_timer = None,
      numberOfBatchedCalls = 0, numberOfActualCalls = 0, timeOfLastRatioCheck = None, settled = []\<rparr>"

definition call_tx :: "call_request \<Rightarrow> tx_request" where
  "call_tx c = \<lparr>tr_from = None, tr_to = Some (cq_target c), tr_data = Some (cq_callData c),
                tr_gasLimit = None, tr_gasPrice = None, tr_value = None\<rparr>"

definition batchingDelayMs :: nat where
  "batchingDelayMs = 10"

definition enqueueCall :: "nat \<Rightarrow> nat \<Rightarrow> call_request \<Rightarrow> batching \<Rightarrow> batching" where
  "enqueueCall now promise c st =
     st\<lparr>batch_calls := batch_calls st @ [c], batch_timer := Some (now + batchingDelayMs),
        batch_callbacks := batch_callbacks st @ [promise]\<rparr>"

definition alreadyBatchedCallsConflictWith :: "block_tag \<Rightarrow> batching \<Rightarrow> bool" where
  "alreadyBatchedCallsConflictWith tag st \<longleftrightarrow> length (batch_calls st) \<noteq> 0 \<and> tag \<noteq> batch_tag st"

definition checkBatchingRatio :: "nat \<Rightarrow> batching \<Rightarrow> batching" where
  "checkBatchingRatio now st =
     (case timeOfLastRatioCheck st of
        None \<Rightarrow> st\<lparr>timeOfLastRatioCheck := Some now\<rparr>
      | Some t \<Rightarrow>
          (if 10000 \<le> int now - int t \<and> numberOfActualCalls st \<noteq> 0
           then st\<lparr>numberOfBatchedCalls := 0, numberOfActualCalls := 0, timeOfLastRatioCheck := Some now\<rparr>
           else st))"

definition countActualCall :: "batching \<Rightarrow> batching" where
  "countActualCall st = st\<lparr>numberOfActualCalls := numberOfActualCalls st + 1\<rparr>"

text \<open>
  The timer's callback.  The multicall contract is bound to this provider, so that
  \<open>aggregate\<close> comes back through \<open>_performCall\<close>, which counts it and sends it on.
  \<open>results[i]\<close> of a list that is too short would resolve with undefined; a batch without calls
  would fail on \<open>calls[0]\<close>.
\<close>

definition dispatchCalls :: "batching_env \<Rightarrow> nat \<Rightarrow> batching \<Rightarrow> batching" where
  "dispatchCalls env now st =
     (let calls = batch_calls st; callbacks = batch_callbacks st; tag = batch_tag st;
          st' = (emptyBatch st)\<lparr>batch_timer := None\<rparr>;
          st'' = (if length calls > 1 then countActualCall (checkBatchingRatio now st') else st');
          results =
            (if length calls > 1 then pv_aggregate env calls tag
             else case calls of
                    [] \<Rightarrow> Inl (TypeError ''calls[0] is undefined'')
                  | c # _ \<Rightarrow> result_map (\<lambda>r. [r]) (pv_call env (call_tx c) tag))
      in case results of
           Inr rs \<Rightarrow>
             st''\<lparr>settled := settled st'' @
                  map (\<lambda>(i, k). (k, if i < length rs then Inr (rs ! i)
                                    else Inl (TypeError ''resolved with undefined'')))
                    (zip [0..<length callbacks] callbacks)\<rparr>
         | Inl e \<Rightarrow> st''\<lparr>settled := settled st'' @ map (\<lambda>k. (k, Inl e)) callbacks\<rparr>)"

text \<open>A promise that settles at once.\<close>

definition settle_now :: "nat \<Rightarrow> string result \<Rightarrow> batching \<Rightarrow> batching" where
  "settle_now promise r st = st\<lparr>settled := settled st @ [(promise, r)]\<rparr>"

definition performCall ::
  "batching_env \<Rightarrow> nat \<Rightarrow> nat \<Rightarrow> tx_request \<Rightarrow> block_tag \<Rightarrow> batching \<Rightarrow> batching" where
  "performCall env now promise t tag st =
     (case pv_multicall env of
        None \<Rightarrow> settle_now promise (pv_call env t tag) st
      | Some m \<Rightarrow>
          let st1 = checkBatchingRatio now st in
          if batchedCall t m \<or> \<not> batchableCall t \<or> alreadyBatchedCallsConflictWith tag st1
          then settle_now promise (pv_call env t tag) (countActualCall st1)
          else
            let st2 = st1\<lparr>numberOfBatchedCalls := numberOfBatchedCalls st1 + 1\<rparr>;
                st3 = (if length (batch_calls st2) = 0 then st2\<lparr>batch_tag := tag\<rparr> else st2)
            in case (tr_to t, tr_data t) of
                 (Some target, Some callData) \<Rightarrow>
                   enqueueCall now promise \<lparr>cq_target = target, cq_callData = callData\<rparr> st3
               | _ \<Rightarrow> settle_now promise (Inl (AssertionError ''assertion failed'')) st3)"

definition performGetBalance ::
  "batching_env \<Rightarrow> nat \<Rightarrow> nat \<Rightarrow> string \<Rightarrow> block_tag \<Rightarrow> batching \<Rightarrow> batching" where
  "performGetBalance env now promise address tag st =
     (case pv_multicall env of
        None \<Rightarrow> settle_now promise (pv_getBalance env address tag) st
      | Some m \<Rightarrow>
          performCall env now promise
            (call_tx \<lparr>cq_target = m, cq_callData = pv_encodeBalance env address\<rparr>) tag st)"

datatype provider_request =
    RequestCall tx_request block_tag
  | RequestBalance string block_tag
  | RequestOther string

fun perform :: "batching_env \<Rightarrow> nat \<Rightarrow> nat \<Rightarrow> provider_request \<Rightarrow> batching \<Rightarrow> batching" where
  "perform env now promise (RequestCall t tag) st = performCall env now promise t tag st"
| "perform env now promise (RequestBalance a tag) st = performGetBalance env now promise a tag st"
| "perform env now promise (RequestOther m) st = settle_now promise (pv_other env m) st"

section \<open>Runs\<close>

text \<open>
  The states a provider can be in, with the requests made so far, numbered; the timer fires at
  its deadline or later.
\<close>

inductive batching_run :: "batching_env \<Rightarrow> provider_request list \<Rightarrow> batching \<Rightarrow> bool" for env where
  start: "batching_run env [] new_BatchedProvider"
| request: "batching_run env reqs st \<Longrightarrow>
    batching_run env (reqs @ [r]) (perform env now (length reqs) r st)"
| fires: "batching_run env reqs st \<Longrightarrow> batch_timer st = Some d \<Longrightarrow> d \<le> now \<Longrightarrow>
    batching_run env reqs (dispatchCalls env now st)"

inductive_cases batching_runE: "batching_run env reqs st"

text \<open>
  What a request would be answered without batching.  Where there is a multicall contract a
  balance is read by calling its \<open>getEthBalance\<close>, not by the provider's \<open>getBalance\<close>.
\<close>

definition answer :: "batching_env \<Rightarrow> provider_request \<Rightarrow> string result" where
  "answer env r =
     (case r of
        RequestCall t tag \<Rightarrow> pv_call env t tag
      | RequestBalance a tag \<Rightarrow>
          (case pv_multicall env of
             None \<Rightarrow> pv_getBalance env a tag
           | Some m \<Rightarrow> pv_call env (call_tx \<lparr>cq_target = m, cq_callData = pv_encodeBalance env a\<rparr>) tag)
      | RequestOther m \<Rightarrow> pv_other env m)"

text \<open>
  The documented behaviour of \<open>aggregate\<close>: it returns what each call would, in order, and
  fails when one of them does.
\<close>

definition aggregates :: "batching_env \<Rightarrow> bool" where
  "aggregates env \<longleftrightarrow>
     (\<forall>calls tag rs. pv_aggregate env calls tag = Inr rs \<longleftrightarrow>
        length rs = length calls \<and> (\<forall>i<length calls. pv_call env (call_tx (calls ! i)) tag = Inr (rs ! i)))"

lemma batchable_call_tx:
  "batchableCall t \<Longrightarrow> tr_to t = Some a \<Longrightarrow> tr_data t = Some d \<Longrightarrow>
     t = call_tx \<lparr>cq_target = a, cq_callData = d\<rparr>"
  by (cases t) (simp add: batchableCall_def call_tx_def)

text \<open>
  The invariant: the batch is a list of calls for one block, each with its promise, and the
  timer runs exactly while it is not empty; every request is either settled or in the batch.
\<close>

definition batching_inv :: "batching_env \<Rightarrow> provider_request list \<Rightarrow> batching \<Rightarrow> bool" where
  "batching_inv env reqs st \<longleftrightarrow>
     length (batch_calls st) = length (batch_callbacks st)
   \<and> (batch_timer st = None \<longleftrightarrow> batch_calls st = [])
   \<and> distinct (map fst (settled st) @ batch_callbacks st)
   \<and> set (map fst (settled st) @ batch_callbacks st) = {..<length reqs}
   \<and> (\<forall>i<length (batch_calls st).
        answer env (reqs ! (batch_callbacks st ! i)) = pv_call env (call_tx (batch_calls st ! i)) (batch_tag st))
   \<and> (\<forall>(k, r)\<in>set (settled st). \<forall>x. r = Inr x \<longrightarrow> answer env (reqs ! k) = Inr x)"

lemma batching_inv_counters [simp]:
  "batching_inv env reqs (st\<lparr>numberOfBatchedCalls := a\<rparr>) = batching_inv env reqs st"
  "batching_inv env reqs (st\<lparr>numberOfActualCalls := a\<rparr>) = batching_inv env reqs st"
  "batching_inv env reqs (st\<lparr>timeOfLastRatioCheck := t\<rparr>) = batching_inv env reqs st"
  "batching_inv env reqs (countActualCall st) = batching_inv env reqs st"
  by (simp_all add: batching_inv_def countActualCall_def)

lemma checkBatchingRatio_simps [simp]:
  "batching_inv env reqs (checkBatchingRatio now st) = batching_inv env reqs st"
  "batch_calls (checkBatchingRatio now st) = batch_calls st"
  "batch_tag (checkBatchingRatio now st) = batch_tag st"
  "batch_callbacks (checkBatchingRatio now st) = batch_callbacks st"
  "batch_timer (checkBatchingRatio now st) = batch_timer st"
  "settled (checkBatchingRatio now st) = settled st"
  by (simp_all add: checkBatchingRatio_def split: option.split)

lemma batching_invD:
  assumes "batching_inv env reqs st"
  shows "length (batch_callbacks st) = length (batch_calls st)"
    and "batch_timer st = None \<longleftrightarrow> batch_calls st = []"
    and "distinct (map fst (settled st) @ batch_callbacks st)"
    and "set (map fst (settled st) @ batch_callbacks st) = {..<length reqs}"
    and "\<And>i. i < length (batch_calls st) \<Longrightarrow>
      answer env (reqs ! (batch_callbacks st ! i)) = pv_call env (call_tx (batch_calls st ! i)) (batch_tag st)"
    and "\<And>k x. (k, Inr x) \<in> set (settled st) \<Longrightarrow> answer env (reqs ! k) = Inr x"
  using assms by (auto simp: batching_inv_def)

lemma batching_invI:
  assumes "length (batch_callbacks st) = length (batch_calls st)"
    and "batch_timer st = None \<longleftrightarrow> batch_calls st = []"
    and "distinct (map fst (settled st) @ batch_callbacks st)"
    and "set (map fst (settled st) @ batch_callbacks st) = {..<length reqs}"
    and "\<And>i. i < length (batch_calls st) \<Longrightarrow>
      answer env (reqs ! (batch_callbacks st ! i)) = pv_call env (call_tx (batch_calls st ! i)) (batch_tag st)"
    and "\<And>k x. (k, Inr x) \<in> set (settled st) \<Longrightarrow> answer env (reqs ! k) = Inr x"
  shows "batching_inv env reqs st"
  using assms by (auto simp: batching_inv_def)

lemma callbacks_in_range:
  assumes "batching_inv env reqs st" and "i < length (batch_calls st)"
  shows "batch_callbacks st ! i < length reqs"
proof -
  have "batch_callbacks st ! i \<in> set (batch_callbacks st)"
    using assms(2) batching_invD(1) [OF assms(1)] by simp
  with batching_invD(4) [OF assms(1)] show ?thesis by auto
qed

lemma settled_in_range:
  assumes "batching_inv env reqs st" and "(k, r) \<in> set (settled st)"
  shows "k < length reqs"
proof -
  have "k \<in> fst ` set (settled st)" using assms(2) by force
  with batching_invD(4) [OF assms(1)] show ?thesis by auto
qed

lemma settle_now_inv:
  assumes inv: "batching_inv env reqs st" and res: "\<And>x. res = Inr x \<Longrightarrow> answer env r = Inr x"
  shows "batching_inv env (reqs @ [r]) (settle_now (length reqs) res st)"
proof -
  note range = callbacks_in_range [OF inv] settled_in_range [OF inv]
  from inv have "distinct (map fst (settled st) @ batch_callbacks st)"
    "set (map fst (settled st) @ batch_callbacks st) = {..<length reqs}"
    by (simp_all add: batching_inv_def)
  then have "distinct (map fst (settled (settle_now (length reqs) res st)) @ batch_callbacks st)"
    "set (map fst (settled (settle_now (length reqs) res st)) @ batch_callbacks st) = {..<Suc (length reqs)}"
    by (auto simp: settle_now_def lessThan_Suc)
  with inv range res show ?thesis
    by (auto simp: batching_inv_def settle_now_def nth_append)
qed

lemma enqueueCall_inv:
  assumes inv: "batching_inv env reqs st" and tag: "batch_calls st \<noteq> [] \<Longrightarrow> tag = batch_tag st"
    and r: "answer env r = pv_call env (call_tx c) tag"
  shows "batching_inv env (reqs @ [r]) (enqueueCall now (length reqs) c (st\<lparr>batch_tag := tag\<rparr>))"
proof -
  note range = callbacks_in_range [OF inv] settled_in_range [OF inv]
  have len: "length (batch_callbacks st) = length (batch_calls st)" using inv by (simp add: batching_inv_def)
  from inv have "distinct (map fst (settled st) @ batch_callbacks st)"
    "set (map fst (settled st) @ batch_callbacks st) = {..<length reqs}"
    by (simp_all add: batching_inv_def)
  then have "distinct (map fst (settled st) @ batch_callbacks st @ [length reqs])"
    "set (map fst (settled st) @ batch_callbacks st @ [length reqs]) = {..<Suc (length reqs)}"
    by (auto simp: lessThan_Suc)
  moreover have "answer env ((reqs @ [r]) ! ((batch_callbacks st @ [length reqs]) ! i))
      = pv_call env (call_tx ((batch_calls st @ [c]) ! i)) tag" if "i < length (batch_calls st) + 1" for i
  proof (cases "i < length (batch_calls st)")
    case True
    then have "batch_calls st \<noteq> []" by auto
    with True inv range(1) [OF True] tag len show ?thesis
      by (simp add: batching_inv_def nth_append)
  next
    case False
    with that have "i = length (batch_calls st)" by simp
    with len r show ?thesis by (simp add: nth_append)
  qed
  ultimately show ?thesis
    using inv range(2) by (auto simp: batching_inv_def enqueueCall_def nth_append)
qed

lemma performCall_inv:
  assumes inv: "batching_inv env reqs st" and r: "answer env r = pv_call env t tag"
  shows "batching_inv env (reqs @ [r]) (performCall env now (length reqs) t tag st)"
proof (cases "pv_multicall env")
  case None
  with inv r show ?thesis by (simp add: performCall_def settle_now_inv)
next
  case (Some m)
  let ?st = "checkBatchingRatio now st"
  show ?thesis
  proof (cases "batchedCall t m \<or> \<not> batchableCall t \<or> alreadyBatchedCallsConflictWith tag ?st")
    case True
    with Some inv r show ?thesis by (simp add: performCall_def Let_def settle_now_inv)
  next
    case False
    then have tag: "batch_calls st \<noteq> [] \<Longrightarrow> tag = batch_tag st"
      by (auto simp: alreadyBatchedCallsConflictWith_def)
    let ?st2 = "?st\<lparr>numberOfBatchedCalls := numberOfBatchedCalls ?st + 1\<rparr>"
    have st3: "(if length (batch_calls ?st2) = 0 then ?st2\<lparr>batch_tag := tag\<rparr> else ?st2) = ?st2\<lparr>batch_tag := tag\<rparr>"
      using tag by (cases "batch_calls st") simp_all
    have inv2: "batching_inv env reqs ?st2" using inv by simp
    moreover have "batching_inv env reqs (?st2\<lparr>batch_tag := tag\<rparr>)"
      using inv2 tag by (cases "batch_calls st") (auto simp: batching_inv_def)
    ultimately have
      "batching_inv env (reqs @ [r]) (settle_now (length reqs) (Inl (AssertionError e)) (?st2\<lparr>batch_tag := tag\<rparr>))"
      "\<And>a d. tr_to t = Some a \<Longrightarrow> tr_data t = Some d \<Longrightarrow> batching_inv env (reqs @ [r])
         (enqueueCall now (length reqs) \<lparr>cq_target = a, cq_callData = d\<rparr> (?st2\<lparr>batch_tag := tag\<rparr>))" for e
      using False tag r batchable_call_tx by (auto intro!: settle_now_inv enqueueCall_inv)
    with False Some show ?thesis
      unfolding performCall_def Let_def st3 by (simp split: option.split)
  qed
qed

lemma perform_inv:
  assumes "batching_inv env reqs st"
  shows "batching_inv env (reqs @ [r]) (perform env now (length reqs) r st)"
  using assms
  by (cases r) (auto simp: answer_def performGetBalance_def intro: performCall_inv settle_now_inv split: option.split)

lemma dispatchCalls_inv:
  assumes agg: "aggregates env" and inv: "batching_inv env reqs st"
  shows "batching_inv env reqs (dispatchCalls env now st)
    \<and> batch_calls (dispatchCalls env now st) = []
    \<and> (\<forall>k\<in>set (batch_callbacks st). \<exists>r. (k, r) \<in> set (settled (dispatchCalls env now st)))"
proof -
  let ?calls = "batch_calls st" and ?tag = "batch_tag st" and ?cbs = "batch_callbacks st"
  define results where "results =
    (if length ?calls > 1 then pv_aggregate env ?calls ?tag
     else case ?calls of [] \<Rightarrow> Inl (TypeError ''calls[0] is undefined'')
          | c # _ \<Rightarrow> result_map (\<lambda>r. [r]) (pv_call env (call_tx c) ?tag))"
  define new where "new = (case results of
      Inr rs \<Rightarrow> map (\<lambda>(i, k). (k, if i < length rs then Inr (rs ! i)
                                    else Inl (TypeError ''resolved with undefined''))) (zip [0..<length ?cbs] ?cbs)
    | Inl e \<Rightarrow> map (\<lambda>k. (k, Inl e)) ?cbs)"
  have len: "length ?cbs = length ?calls" using inv by (simp add: batching_inv_def)
  let ?st = "(emptyBatch st)\<lparr>batch_timer := None\<rparr>"
  define counted where "counted = (if length ?calls > 1 then countActualCall (checkBatchingRatio now ?st) else ?st)"
  have d: "dispatchCalls env now st = counted\<lparr>settled := settled counted @ new\<rparr>"
    unfolding dispatchCalls_def Let_def new_def results_def [symmetric] counted_def [symmetric]
    by (simp split: sum.split)
  have counted: "batch_calls counted = []" "batch_callbacks counted = []" "batch_timer counted = None"
    "settled counted = settled st"
    by (simp_all add: counted_def countActualCall_def emptyBatch_def)
  have keys: "map fst new = ?cbs"
    unfolding new_def by (auto simp: case_prod_unfold comp_def split: sum.split)
  have right: "pv_call env (call_tx (?calls ! i)) ?tag = Inr (rs ! i)" if "results = Inr rs" "i < length ?calls" for rs i
    using that agg by (cases ?calls) (auto simp: results_def aggregates_def result_map_Inr split: if_splits)
  have ans: "answer env (reqs ! k) = Inr x" if "(k, Inr x) \<in> set new" for k x
  proof -
    from that obtain rs i where "results = Inr rs" "i < length ?calls" "k = ?cbs ! i" "x = rs ! i"
      using len by (auto simp: new_def in_set_conv_nth split: sum.splits if_splits)
    with right inv show ?thesis by (simp add: batching_inv_def)
  qed
  have "batching_inv env reqs (dispatchCalls env now st)"
  proof (rule batching_invI)
    show "distinct (map fst (settled (dispatchCalls env now st)) @ batch_callbacks (dispatchCalls env now st))"
      using batching_invD(3) [OF inv] unfolding keys [symmetric] by (simp add: d counted)
    show "set (map fst (settled (dispatchCalls env now st)) @ batch_callbacks (dispatchCalls env now st)) = {..<length reqs}"
      using batching_invD(4) [OF inv] unfolding keys [symmetric] by (simp add: d counted)
    show "answer env (reqs ! k) = Inr x" if "(k, Inr x) \<in> set (settled (dispatchCalls env now st))" for k x
    proof -
      have "(k, Inr x) \<in> set (settled st) \<or> (k, Inr x) \<in> set new"
        using that by (simp add: d counted)
      then show ?thesis
      proof
        assume "(k, Inr x) \<in> set (settled st)"
        then show ?thesis by (rule batching_invD(6) [OF inv])
      qed (rule ans)
    qed
  qed (simp_all add: d counted)
  moreover have "\<exists>r. (k, r) \<in> set new" if "k \<in> set ?cbs" for k
    using that unfolding keys [symmetric] by auto
  ultimately show ?thesis unfolding d by (auto simp: counted)
qed

lemma batching_run_inv:
  "batching_run env reqs st \<Longrightarrow> aggregates env \<Longrightarrow> batching_inv env reqs st"
proof (induction rule: batching_run.induct)
  case start
  then show ?case by (simp add: batching_inv_def new_BatchedProvider_def)
qed (simp_all add: perform_inv dispatchCalls_inv)

section \<open>Properties\<close>

text \<open>
  C7: Batching answers every request as the provider underneath would: when the multicall
  contract aggregates as documented, each request is either settled, once, or waiting in the
  batch with a timer running, a request that was answered got the answer its own call at its own
  block gives (a balance, where there is a multicall contract, that of the contract's
  \<open>getEthBalance\<close>), and when the timer fires nothing is left waiting.
\<close>

theorem batching_is_transparent:
  assumes "batching_run env reqs st" and "aggregates env"
  shows "distinct (map fst (settled st) @ batch_callbacks st)
    \<and> set (map fst (settled st) @ batch_callbacks st) = {..<length reqs}
    \<and> (batch_timer st = None \<longleftrightarrow> batch_callbacks st = [])
    \<and> (\<forall>(k, r)\<in>set (settled st). \<forall>x. r = Inr x \<longrightarrow> answer env (reqs ! k) = Inr x)
    \<and> (\<forall>k<length reqs. \<exists>r. (k, r) \<in> set (settled (dispatchCalls env now st)))"
proof -
  note inv = batching_run_inv [OF assms]
  have len: "length (batch_callbacks st) = length (batch_calls st)" using inv by (simp add: batching_inv_def)
  have "\<exists>r. (k, r) \<in> set (settled (dispatchCalls env now st))" if "k < length reqs" for k
  proof -
    have "batching_inv env reqs (dispatchCalls env now st)" "batch_calls (dispatchCalls env now st) = []"
      using dispatchCalls_inv [OF assms(2) inv, of now] by simp_all
    then have "set (map fst (settled (dispatchCalls env now st)) @ []) = {..<length reqs}"
      using batching_invD(1,4) by (metis length_0_conv)
    then have "k \<in> fst ` set (settled (dispatchCalls env now st))" using that by auto
    then show ?thesis by auto
  qed
  moreover have "batch_timer st = None \<longleftrightarrow> batch_callbacks st = []"
    using inv len by (auto simp: batching_inv_def)
  ultimately show ?thesis using inv by (simp add: batching_inv_def)
qed

definition sample_batching_env :: batching_env where
  "sample_batching_env =
     \<lparr>pv_call = \<lambda>t tag. case tr_data t of Some d \<Rightarrow> Inr d | None \<Rightarrow> Inl (Error ''no data''),
      pv_getBalance = \<lambda>a tag. Inr a, pv_other = \<lambda>m. Inr m,
      pv_aggregate = \<lambda>calls tag. Inr (map cq_callData calls),
      pv_encodeBalance = (\<lambda>a. a), pv_multicall = Some ''0xm''\<rparr>"

theorem batching_is_transparent_witness:
  "\<exists>st. batching_run sample_batching_env
      [RequestCall (call_tx \<lparr>cq_target = ''0xa'', cq_callData = ''1''\<rparr>) (BlockNumber 5),
       RequestCall (call_tx \<lparr>cq_target = ''0xb'', cq_callData = ''2''\<rparr>) (BlockNumber 5)] st
    \<and> batch_callbacks st = [0, 1] \<and> batch_timer st \<noteq> None
    \<and> (\<forall>k<2. \<exists>r. (k, r) \<in> set (settled (dispatchCalls sample_batching_env 11 st)))"
proof -
  let ?r1 = "RequestCall (call_tx \<lparr>cq_target = ''0xa'', cq_callData = ''1''\<rparr>) (BlockNumber 5)"
    and ?r2 = "RequestCall (call_tx \<lparr>cq_target = ''0xb'', cq_callData = ''2''\<rparr>) (BlockNumber 5)"
  let ?s1 = "perform sample_batching_env 0 0 ?r1 new_BatchedProvider"
  let ?s2 = "perform sample_batching_env 1 1 ?r2 ?s1"
  have "batching_run sample_batching_env ([] @ [?r1]) ?s1"
    using batching_run.request [OF batching_run.start, of sample_batching_env ?r1 0] by simp
  from batching_run.request [OF this, of ?r2 1]
  have run: "batching_run sample_batching_env [?r1, ?r2] ?s2" by simp
  have agg: "aggregates sample_batching_env"
    by (auto simp: aggregates_def sample_batching_env_def call_tx_def list_eq_iff_nth_eq)
  have "batch_callbacks ?s2 = [0, 1]"
    by (simp add: performCall_def sample_batching_env_def new_BatchedProvider_def checkBatchingRatio_def
        batchedCall_def batchableCall_def call_tx_def alreadyBatchedCallsConflictWith_def enqueueCall_def Let_def)
  moreover from this batching_is_transparent [OF run agg] have
    "batch_timer ?s2 \<noteq> None" "\<forall>k<2. \<exists>r. (k, r) \<in> set (settled (dispatchCalls sample_batching_env 11 ?s2))"
    by (simp_all add: numeral_2_eq_2)
  ultimately show ?thesis using run by blast
qed

end
