(* ===== verification/Frontend_Transaction.thy ===== *)
theory Frontend_Transaction
  imports Sdk_Prelude
begin

text \<open>
  Transactions in the frontend: \<^verbatim>\<open>packages/dev-frontend/src/components/Transaction.tsx\<close>.

  One state, shared by all components, says what the current transaction does; buttons send
  transactions, and the monitor waits for the receipt of the one that is waiting for
  confirmation and shows its outcome for five seconds.

  React runs effects when one of their dependencies changed: \<open>render\<close> is one rendering with a
  new state, the cleanups before the effects, and \<open>set_state\<close> renders until no effect sets the
  state again.  A sent transaction is its hash; the provider does not change.  \<open>rendered\<close> keeps
  the states rendered so far, which is what the other components' effects see.
\<close>

section \<open>States\<close>

datatype transaction_state =
    Idle
  | Failed string string
  | WaitingForApproval string
  | Cancelled string
  | WaitingForConfirmation string string
  | Confirmed string
  | ConfirmedOneShot string

fun state_type :: "transaction_state \<Rightarrow> string" where
  "state_type Idle = ''idle''"
| "state_type (Failed _ _) = ''failed''"
| "state_type (WaitingForApproval _) = ''waitingForApproval''"
| "state_type (Cancelled _) = ''cancelled''"
| "state_type (WaitingForConfirmation _ _) = ''waitingForConfirmation''"
| "state_type (Confirmed _) = ''confirmed''"
| "state_type (ConfirmedOneShot _) = ''confirmedOneShot''"

fun state_id :: "transaction_state \<Rightarrow> string option" where
  "state_id Idle = None"
| "state_id (Failed i _) = Some i"
| "state_id (WaitingForApproval i) = Some i"
| "state_id (Cancelled i) = Some i"
| "state_id (WaitingForConfirmation i _) = Some i"
| "state_id (Confirmed i) = Some i"
| "state_id (ConfirmedOneShot i) = Some i"

fun state_tx :: "transaction_state \<Rightarrow> string option" where
  "state_tx (WaitingForConfirmation _ tx) = Some tx"
| "state_tx _ = None"

text \<open>\<open>myId\<close> is a string or a regular expression; the latter is the predicate of its matches.\<close>

datatype my_id = ExactId string | MatchingId "string \<Rightarrow> bool"

definition useMyTransactionState :: "my_id \<Rightarrow> transaction_state \<Rightarrow> transaction_state" where
  "useMyTransactionState myId st =
     (case state_id st of
        None \<Rightarrow> Idle
      | Some i \<Rightarrow>
          (if (case myId of ExactId m \<Rightarrow> i = m | MatchingId matches \<Rightarrow> matches i) then st else Idle))"

section \<open>The button\<close>

record transaction_trigger =
  tg_disabled :: bool
  tg_danger :: bool
  tg_text :: "string option"
  tg_sends :: bool
  tg_tooltip :: "string option"

datatype failure_display = AsTooltip | AsChildText

definition failureReasons :: "(bool \<times> string) list \<Rightarrow> transaction_state \<Rightarrow> string list" where
  "failureReasons requires st =
     map snd (filter (\<lambda>(requirement, _). \<not> requirement) requires) @
     (if state_type st = ''waitingForApproval'' \<or> state_type st = ''waitingForConfirmation''
      then [''You must wait for confirmation''] else [])"

definition Transaction ::
  "string option \<Rightarrow> failure_display option \<Rightarrow> (bool \<times> string) list \<Rightarrow> transaction_state \<Rightarrow> transaction_trigger" where
  "Transaction tooltip showFailure requires st =
     (let reasons = failureReasons requires st;
          truthy = (\<lambda>t. t \<noteq> None \<and> t \<noteq> Some '''');
          showFailure =
            (if length reasons > 0
             then Some (case showFailure of Some f \<Rightarrow> f | None \<Rightarrow> if truthy tooltip then AsTooltip else AsChildText)
             else None);
          tooltip = (if showFailure = Some AsTooltip then Some (reasons ! 0) else tooltip);
          tooltip = (if truthy tooltip then tooltip else None)
      in case showFailure of
           Some AsChildText \<Rightarrow> \<lparr>tg_disabled = True, tg_danger = True, tg_text = Some (reasons ! 0),
                                tg_sends = False, tg_tooltip = tooltip\<rparr>
         | Some AsTooltip \<Rightarrow> \<lparr>tg_disabled = True, tg_danger = False, tg_text = None,
                              tg_sends = False, tg_tooltip = tooltip\<rparr>
         | None \<Rightarrow> \<lparr>tg_disabled = False, tg_danger = False, tg_text = None,
                    tg_sends = True, tg_tooltip = tooltip\<rparr>)"

section \<open>Revert reasons\<close>

text \<open>The provider's call and the hex and ABI functions of ethers are parameters.\<close>

record raw_receipt =
  rr_hash :: string
  rr_blockNumber :: nat

record revert_env =
  rv_call :: "raw_receipt \<Rightarrow> nat \<Rightarrow> string result"
  rv_hexDataLength :: "string \<Rightarrow> nat"
  rv_hexDataSlice :: "string \<Rightarrow> nat \<Rightarrow> nat option \<Rightarrow> string"
  rv_decodeString :: "string \<Rightarrow> string result"

definition tryToGetRevertReason :: "revert_env \<Rightarrow> raw_receipt \<Rightarrow> string option" where
  "tryToGetRevertReason env tx =
     (case rv_call env tx (rr_blockNumber tx) of
        Inl _ \<Rightarrow> None
      | Inr r \<Rightarrow>
          (if rv_hexDataLength env r mod 32 = 4 \<and> rv_hexDataSlice env r 0 (Some 4) = ''0x08c379a0''
           then (case rv_decodeString env (rv_hexDataSlice env r 4 None) of Inl _ \<Rightarrow> None | Inr reason \<Rightarrow> Some reason)
           else None))"

section \<open>The monitor\<close>

text \<open>
  A run of the monitor's first effect: it waits for the receipt, then, when the transaction
  reverted, for the reason; \<open>finished\<close> is set when the receipt has come.
\<close>

datatype monitor_phase = AwaitingReceipt | AwaitingReason raw_receipt | Done

record monitor =
  mon_id :: string
  mon_tx :: string
  mon_phase :: monitor_phase

record tx_ui =
  tx_state :: transaction_state
  tx_sends :: "string list"
  tx_monitor :: "monitor option"
  tx_detached :: "monitor list"
  tx_timer :: "nat option"
  rendered :: "transaction_state list"

definition TransactionProvider :: tx_ui where
  "TransactionProvider = \<lparr>tx_state = Idle, tx_sends = [], tx_monitor = None, tx_detached = [],
     tx_timer = None, rendered = [Idle]\<rparr>"

text \<open>
  The first effect's cleanup: a run without its receipt is cancelled and sets the state to
  idle; one that has it goes on by itself until it knows the reason.
\<close>

definition monitor_cleanup :: "tx_ui \<Rightarrow> tx_ui \<times> transaction_state option" where
  "monitor_cleanup ui =
     (case tx_monitor ui of
        None \<Rightarrow> (ui, None)
      | Some m \<Rightarrow>
          (case mon_phase m of
             AwaitingReceipt \<Rightarrow> (ui\<lparr>tx_monitor := None\<rparr>, Some Idle)
           | AwaitingReason _ \<Rightarrow> (ui\<lparr>tx_monitor := None, tx_detached := tx_detached ui @ [m]\<rparr>, None)
           | Done \<Rightarrow> (ui\<lparr>tx_monitor := None\<rparr>, None)))"

definition monitor_effect :: "transaction_state \<Rightarrow> tx_ui \<Rightarrow> tx_ui" where
  "monitor_effect st ui =
     (case (state_id st, state_tx st) of
        (Some i, Some tx) \<Rightarrow>
          (if i \<noteq> '''' then ui\<lparr>tx_monitor := Some \<lparr>mon_id = i, mon_tx = tx, mon_phase = AwaitingReceipt\<rparr>\<rparr> else ui)
      | _ \<Rightarrow> ui)"

definition outcome_effect :: "nat \<Rightarrow> transaction_state \<Rightarrow> tx_ui \<Rightarrow> tx_ui \<times> transaction_state option" where
  "outcome_effect now st ui =
     (case st of
        ConfirmedOneShot i \<Rightarrow> (ui, if i \<noteq> '''' then Some (Confirmed i) else None)
      | Confirmed _ \<Rightarrow> (ui\<lparr>tx_timer := Some (now + 5000)\<rparr>, None)
      | Failed _ _ \<Rightarrow> (ui\<lparr>tx_timer := Some (now + 5000)\<rparr>, None)
      | Cancelled _ \<Rightarrow> (ui\<lparr>tx_timer := Some (now + 5000)\<rparr>, None)
      | _ \<Rightarrow> (ui, None))"

definition render :: "nat \<Rightarrow> transaction_state \<Rightarrow> tx_ui \<Rightarrow> tx_ui \<times> transaction_state option" where
  "render now st ui =
     (let old = tx_state ui;
          deps1 = (state_id st, state_tx st) \<noteq> (state_id old, state_tx old);
          deps2 = (state_type st, state_id st) \<noteq> (state_type old, state_id old);
          ui = ui\<lparr>tx_state := st, rendered := rendered ui @ [st]\<rparr>;
          (ui, set1) = (if deps1 then monitor_cleanup ui else (ui, None));
          ui = (if deps2 then ui\<lparr>tx_timer := None\<rparr> else ui);
          ui = (if deps1 then monitor_effect st ui else ui);
          (ui, set2) = (if deps2 then outcome_effect now st ui else (ui, None))
      in (ui, case set2 of Some s \<Rightarrow> Some s | None \<Rightarrow> set1))"

definition set_state :: "nat \<Rightarrow> transaction_state \<Rightarrow> tx_ui \<Rightarrow> tx_ui" where
  "set_state now st ui =
     (case render now st ui of
        (ui1, None) \<Rightarrow> ui1
      | (ui1, Some st1) \<Rightarrow>
          (case render now st1 ui1 of
             (ui2, None) \<Rightarrow> ui2
           | (ui2, Some st2) \<Rightarrow> fst (render now st2 ui2)))"

section \<open>What happens\<close>

text \<open>\<open>send\<close> may throw anything: \<open>Inl\<close> has its message, if it has one.\<close>

definition js_includes :: "string \<Rightarrow> string \<Rightarrow> bool" where
  "js_includes s part \<longleftrightarrow> list_ex (\<lambda>i. take (length part) (drop i s) = part) [0..<length s + 1]"

definition send_starts :: "nat \<Rightarrow> string \<Rightarrow> tx_ui \<Rightarrow> tx_ui" where
  "send_starts now i ui = set_state now (WaitingForApproval i) (ui\<lparr>tx_sends := tx_sends ui @ [i]\<rparr>)"

definition send_settles :: "nat \<Rightarrow> string \<Rightarrow> string option + string \<Rightarrow> tx_ui \<Rightarrow> tx_ui" where
  "send_settles now i r ui =
     set_state now
       (case r of
          Inr tx \<Rightarrow> WaitingForConfirmation i tx
        | Inl e \<Rightarrow>
            (if (case e of Some msg \<Rightarrow> js_includes msg ''User denied transaction signature'' | None \<Rightarrow> False)
             then Cancelled i else Failed i ''Failed to send transaction (try again)''))
       (ui\<lparr>tx_sends := remove1 i (tx_sends ui)\<rparr>)"

datatype receipt_outcome = Succeeded | Reverted raw_receipt | WasCancelled | WaitFailed

definition receipt_arrives :: "nat \<Rightarrow> receipt_outcome \<Rightarrow> tx_ui \<Rightarrow> tx_ui" where
  "receipt_arrives now r ui =
     (case tx_monitor ui of
        None \<Rightarrow> ui
      | Some m \<Rightarrow>
          if mon_phase m \<noteq> AwaitingReceipt then ui
          else
            let finish = (\<lambda>p. ui\<lparr>tx_monitor := Some (m\<lparr>mon_phase := p\<rparr>)\<rparr>) in
            case r of
              Succeeded \<Rightarrow> set_state now (ConfirmedOneShot (mon_id m)) (finish Done)
            | Reverted raw \<Rightarrow> finish (AwaitingReason raw)
            | WasCancelled \<Rightarrow> set_state now (Cancelled (mon_id m)) (finish Done)
            | WaitFailed \<Rightarrow> set_state now (Failed (mon_id m) ''Failed'') (finish Done))"

definition reverted_state :: "revert_env \<Rightarrow> string \<Rightarrow> raw_receipt \<Rightarrow> transaction_state" where
  "reverted_state env i raw =
     Failed i (case tryToGetRevertReason env raw of
                 Some reason \<Rightarrow> if reason \<noteq> '''' then ''Reverted: '' @ reason else ''Failed''
               | None \<Rightarrow> ''Failed'')"

definition reason_arrives :: "revert_env \<Rightarrow> nat \<Rightarrow> tx_ui \<Rightarrow> tx_ui" where
  "reason_arrives env now ui =
     (case tx_monitor ui of
        None \<Rightarrow> ui
      | Some m \<Rightarrow>
          (case mon_phase m of
             AwaitingReason raw \<Rightarrow>
               set_state now (reverted_state env (mon_id m) raw) (ui\<lparr>tx_monitor := Some (m\<lparr>mon_phase := Done\<rparr>)\<rparr>)
           | _ \<Rightarrow> ui))"

definition detached_reason_arrives :: "revert_env \<Rightarrow> nat \<Rightarrow> nat \<Rightarrow> tx_ui \<Rightarrow> tx_ui" where
  "detached_reason_arrives env now k ui =
     (if k < length (tx_detached ui) then
        (let m = tx_detached ui ! k;
             ui' = ui\<lparr>tx_detached := take k (tx_detached ui) @ drop (k + 1) (tx_detached ui)\<rparr>
         in case mon_phase m of
              AwaitingReason raw \<Rightarrow> set_state now (reverted_state env (mon_id m) raw) ui'
            | _ \<Rightarrow> ui')
      else ui)"

definition timer_fires :: "nat \<Rightarrow> tx_ui \<Rightarrow> tx_ui" where
  "timer_fires now ui = set_state now Idle (ui\<lparr>tx_timer := None\<rparr>)"

text \<open>
  Runs of the interface; \<open>gate\<close> says in which states a transaction may be sent.  The buttons of
  \<open>Transaction\<close> are gated, those that call \<open>useTransactionFunction\<close> themselves are not.
\<close>

inductive tx_run :: "(transaction_state \<Rightarrow> bool) \<Rightarrow> revert_env \<Rightarrow> tx_ui \<Rightarrow> bool" for gate env where
  start: "tx_run gate env TransactionProvider"
| send: "tx_run gate env ui \<Longrightarrow> gate (tx_state ui) \<Longrightarrow> i \<noteq> '''' \<Longrightarrow> tx_run gate env (send_starts now i ui)"
| sent: "tx_run gate env ui \<Longrightarrow> i \<in> set (tx_sends ui) \<Longrightarrow> tx_run gate env (send_settles now i r ui)"
| receipt: "tx_run gate env ui \<Longrightarrow> tx_run gate env (receipt_arrives now out ui)"
| reason: "tx_run gate env ui \<Longrightarrow> tx_run gate env (reason_arrives env now ui)"
| detached: "tx_run gate env ui \<Longrightarrow> tx_run gate env (detached_reason_arrives env now k ui)"
| timer: "tx_run gate env ui \<Longrightarrow> tx_timer ui = Some d \<Longrightarrow> d \<le> now \<Longrightarrow> tx_run gate env (timer_fires now ui)"

definition button_gate :: "transaction_state \<Rightarrow> bool" where
  "button_gate st \<longleftrightarrow> tg_sends (Transaction None None [] st)"

section \<open>The invariant\<close>

definition outcome_types :: "string set" where
  "outcome_types = {''failed'', ''cancelled'', ''confirmed''}"

text \<open>
  \<open>monitor_fits\<close>: a monitor runs exactly while a transaction is waiting for confirmation, and
  it is that transaction's; \<open>timer_fits\<close>: the timer runs exactly while an outcome is shown.
\<close>

definition monitor_fits :: "tx_ui \<Rightarrow> bool" where
  "monitor_fits ui \<longleftrightarrow>
     (case tx_monitor ui of
        None \<Rightarrow> state_tx (tx_state ui) = None
      | Some m \<Rightarrow> tx_state ui = WaitingForConfirmation (mon_id m) (mon_tx m) \<and> mon_id m \<noteq> '''')"

definition timer_fits :: "tx_ui \<Rightarrow> bool" where
  "timer_fits ui \<longleftrightarrow> (tx_timer ui \<noteq> None \<longleftrightarrow> state_type (tx_state ui) \<in> outcome_types)"

definition tx_inv :: "tx_ui \<Rightarrow> bool" where
  "tx_inv ui \<longleftrightarrow>
     monitor_fits ui \<and> timer_fits ui \<and> state_type (tx_state ui) \<noteq> ''confirmedOneShot''
   \<and> (\<forall>m. tx_monitor ui = Some m \<longrightarrow> mon_phase m \<noteq> Done)
   \<and> '''' \<notin> set (tx_sends ui) \<and> (\<forall>m\<in>set (tx_detached ui). mon_id m \<noteq> '''')"

text \<open>
  The states \<open>set_state\<close> is called in: as the invariant says, but that the monitor may be done
  when the next state is not waiting for confirmation, and the timer may have fired when the
  next state is idle.
\<close>

definition ready_for :: "transaction_state \<Rightarrow> tx_ui \<Rightarrow> bool" where
  "ready_for st ui \<longleftrightarrow>
     monitor_fits ui \<and> state_type (tx_state ui) \<noteq> ''confirmedOneShot''
   \<and> (timer_fits ui \<or> st = Idle \<and> tx_timer ui = None)
   \<and> (\<forall>m. tx_monitor ui = Some m \<longrightarrow> mon_phase m = Done \<longrightarrow> state_tx st = None)
   \<and> '''' \<notin> set (tx_sends ui) \<and> (\<forall>m\<in>set (tx_detached ui). mon_id m \<noteq> '''')"

lemmas render_simps =
  render_def monitor_cleanup_def monitor_effect_def outcome_effect_def Let_def

lemma set_state_inv:
  assumes "ready_for st ui" and "state_id st \<noteq> Some ''''"
  shows "tx_inv (set_state now st ui)"
proof (cases "tx_monitor ui")
  case None
  with assms show ?thesis
    by (cases st; cases "tx_state ui")
      (auto simp: ready_for_def tx_inv_def monitor_fits_def timer_fits_def outcome_types_def
        set_state_def render_simps)
next
  case (Some m)
  with assms have st: "tx_state ui = WaitingForConfirmation (mon_id m) (mon_tx m)" "mon_id m \<noteq> ''''"
    by (auto simp: ready_for_def monitor_fits_def)
  with Some assms show ?thesis
    by (cases st; cases "mon_phase m")
      (auto simp: ready_for_def tx_inv_def monitor_fits_def timer_fits_def outcome_types_def
        set_state_def render_simps)
qed

lemma render_keeps [simp]: "tx_sends (fst (render now st ui)) = tx_sends ui"
  by (cases "tx_monitor ui"; cases st; cases "mon_phase (the (tx_monitor ui))")
    (auto simp: render_simps split: option.split)

lemma set_state_keeps [simp]: "tx_sends (set_state now st ui) = tx_sends ui"
  by (simp add: set_state_def case_prod_unfold split: option.split)

lemma set_state_result:
  assumes "tx_monitor ui = None \<or> tx_monitor ui = Some m \<and> mon_phase m = Done"
    and "state_type st \<noteq> ''confirmedOneShot''" and "state_tx st = None \<or> tx_monitor ui = None"
  shows "tx_state (set_state now st ui) = st" "tx_detached (set_state now st ui) = tx_detached ui"
    "rendered (set_state now st ui) = rendered ui @ [st]"
proof -
  have "tx_state (set_state now st ui) = st \<and> tx_detached (set_state now st ui) = tx_detached ui \<and>
    rendered (set_state now st ui) = rendered ui @ [st]"
  proof (cases "tx_monitor ui")
    case None
    with assms(2) show ?thesis by (cases st) (auto simp: set_state_def render_simps split: option.split)
  next
    case (Some m')
    with assms show ?thesis by (cases st) (auto simp: set_state_def render_simps split: option.split)
  qed
  then show "tx_state (set_state now st ui) = st" "tx_detached (set_state now st ui) = tx_detached ui"
    "rendered (set_state now st ui) = rendered ui @ [st]" by simp_all
qed

lemma set_state_finish:
  assumes "state_type st \<noteq> ''confirmedOneShot''" and "state_tx st = None"
  shows "tx_state (set_state now st (ui\<lparr>tx_monitor := Some (m\<lparr>mon_phase := Done\<rparr>)\<rparr>)) = st"
    "tx_detached (set_state now st (ui\<lparr>tx_monitor := Some (m\<lparr>mon_phase := Done\<rparr>)\<rparr>)) = tx_detached ui"
    "rendered (set_state now st (ui\<lparr>tx_monitor := Some (m\<lparr>mon_phase := Done\<rparr>)\<rparr>)) = rendered ui @ [st]"
  using assms set_state_result [of "ui\<lparr>tx_monitor := Some (m\<lparr>mon_phase := Done\<rparr>)\<rparr>" "m\<lparr>mon_phase := Done\<rparr>" st now]
  by simp_all

lemma set_state_confirmed:
  assumes "tx_monitor ui = Some m" and "mon_phase m = Done" and "i \<noteq> ''''"
    and "tx_state ui = WaitingForConfirmation i tx"
  shows "tx_state (set_state now (ConfirmedOneShot i) ui) = Confirmed i"
    "tx_detached (set_state now (ConfirmedOneShot i) ui) = tx_detached ui"
    "rendered (set_state now (ConfirmedOneShot i) ui) = rendered ui @ [ConfirmedOneShot i, Confirmed i]"
  using assms by (auto simp: set_state_def render_simps)

lemma ready_for_inv:
  "tx_inv ui \<Longrightarrow> '''' \<notin> set sends \<Longrightarrow> ready_for st (ui\<lparr>tx_sends := sends\<rparr>)"
  "tx_inv ui \<Longrightarrow> set ds \<subseteq> set (tx_detached ui) \<Longrightarrow> ready_for st (ui\<lparr>tx_detached := ds\<rparr>)"
  "tx_inv ui \<Longrightarrow> ready_for Idle (ui\<lparr>tx_timer := None\<rparr>)"
  "tx_inv ui \<Longrightarrow> tx_monitor ui = Some m \<Longrightarrow> state_tx st = None \<Longrightarrow>
     ready_for st (ui\<lparr>tx_monitor := Some (m\<lparr>mon_phase := p\<rparr>)\<rparr>)"
  "tx_inv ui \<Longrightarrow> set ds \<subseteq> set (tx_detached ui) \<Longrightarrow> tx_inv (ui\<lparr>tx_detached := ds\<rparr>)"
  by (auto simp: tx_inv_def ready_for_def monitor_fits_def timer_fits_def cong: option.case_cong)

lemma inv_monitor:
  assumes "tx_inv ui" and "tx_monitor ui = Some m"
  shows "mon_id m \<noteq> ''''" "tx_state ui = WaitingForConfirmation (mon_id m) (mon_tx m)"
  using assms by (simp_all add: tx_inv_def monitor_fits_def)

lemma inv_phase:
  "tx_inv ui \<Longrightarrow> tx_monitor ui = Some m \<Longrightarrow> p \<noteq> Done \<Longrightarrow>
     tx_inv (ui\<lparr>tx_monitor := Some (m\<lparr>mon_phase := p\<rparr>)\<rparr>)"
  by (auto simp: tx_inv_def monitor_fits_def timer_fits_def)

lemma tx_run_inv: "tx_run gate env ui \<Longrightarrow> tx_inv ui"
proof (induction rule: tx_run.induct)
  case start
  then show ?case by (simp add: TransactionProvider_def tx_inv_def monitor_fits_def timer_fits_def outcome_types_def)
next
  case (send ui i now)
  then show ?case
    unfolding send_starts_def by (intro set_state_inv ready_for_inv) (auto simp: tx_inv_def)
next
  case (sent ui i now r)
  moreover from this have "'''' \<notin> set (remove1 i (tx_sends ui))" "i \<noteq> ''''"
    using set_remove1_subset [of i "tx_sends ui"] by (auto simp: tx_inv_def)
  ultimately show ?case
    unfolding send_settles_def by (intro set_state_inv ready_for_inv) (auto split: sum.split)
next
  case (receipt ui now out)
  show ?case
  proof (cases "tx_monitor ui")
    case None
    with receipt show ?thesis by (simp add: receipt_arrives_def)
  next
    case (Some m)
    with receipt.IH show ?thesis
      by (cases out)
        (auto simp: receipt_arrives_def Let_def inv_monitor intro!: set_state_inv ready_for_inv inv_phase)
  qed
next
  case (reason ui now)
  then show ?case
    by (auto simp: reason_arrives_def reverted_state_def inv_monitor split: option.split monitor_phase.split
        intro!: set_state_inv ready_for_inv)
next
  case (detached ui now k)
  show ?case
  proof (cases "k < length (tx_detached ui)")
    case True
    let ?ds = "take k (tx_detached ui) @ drop (k + 1) (tx_detached ui)"
    have sub: "set ?ds \<subseteq> set (tx_detached ui)"
      using set_take_subset [of k "tx_detached ui"] set_drop_subset [of "k + 1" "tx_detached ui"] by auto
    moreover from True detached.IH have "mon_id (tx_detached ui ! k) \<noteq> ''''" by (auto simp: tx_inv_def)
    moreover from detached.IH sub have "tx_inv (ui\<lparr>tx_detached := ?ds\<rparr>)" by (rule ready_for_inv(5))
    ultimately show ?thesis
      using True detached.IH
      by (auto simp: detached_reason_arrives_def Let_def reverted_state_def split: monitor_phase.split
          intro!: set_state_inv ready_for_inv)
  next
    case False
    with detached show ?thesis by (simp add: detached_reason_arrives_def)
  qed
next
  case (timer ui d now)
  then show ?case unfolding timer_fires_def by (intro set_state_inv ready_for_inv) auto
qed

section \<open>Gated runs\<close>

lemma button_gate_iff:
  "button_gate st \<longleftrightarrow> state_type st \<noteq> ''waitingForApproval'' \<and> state_type st \<noteq> ''waitingForConfirmation''"
  by (simp add: button_gate_def Transaction_def failureReasons_def Let_def)

text \<open>With gated buttons one transaction is sent at a time, and no monitor is left behind.\<close>

definition one_at_a_time :: "tx_ui \<Rightarrow> bool" where
  "one_at_a_time ui \<longleftrightarrow>
     tx_detached ui = [] \<and>
     tx_sends ui = (case tx_state ui of WaitingForApproval i \<Rightarrow> [i] | _ \<Rightarrow> [])"

lemma inv_no_monitor: "tx_inv ui \<Longrightarrow> state_tx (tx_state ui) = None \<Longrightarrow> tx_monitor ui = None"
  by (auto simp: tx_inv_def monitor_fits_def split: option.splits)

lemma gated_one_at_a_time: "tx_run button_gate env ui \<Longrightarrow> one_at_a_time ui"
proof (induction rule: tx_run.induct)
  case start
  then show ?case by (simp add: one_at_a_time_def TransactionProvider_def)
next
  case (send ui i now)
  have "tx_monitor ui = None" "tx_sends ui = []" "tx_detached ui = []"
    using send inv_no_monitor [OF tx_run_inv [OF send(1)]]
    by (cases "tx_state ui"; simp add: button_gate_iff one_at_a_time_def)+
  then show ?case
    by (simp add: one_at_a_time_def send_starts_def set_state_result)
next
  case (sent ui i now r)
  then have "tx_state ui = WaitingForApproval i" "tx_sends ui = [i]" "tx_detached ui = []"
    by (auto simp: one_at_a_time_def split: transaction_state.splits)
  moreover from this have "tx_monitor ui = None"
    using inv_no_monitor [OF tx_run_inv [OF sent(1)]] by simp
  ultimately show ?case
    by (auto simp: one_at_a_time_def send_settles_def set_state_result split: sum.split)
next
  case (receipt ui now out)
  show ?case
  proof (cases "tx_monitor ui")
    case None
    with receipt show ?thesis by (simp add: receipt_arrives_def)
  next
    case (Some m)
    with receipt.IH inv_monitor [OF tx_run_inv [OF receipt(1)] Some] show ?thesis
      by (cases out)
        (auto simp: receipt_arrives_def Let_def one_at_a_time_def set_state_finish set_state_confirmed)
  qed
next
  case (reason ui now)
  then show ?case
    using inv_monitor [OF tx_run_inv [OF reason(1)]]
    by (auto simp: reason_arrives_def reverted_state_def one_at_a_time_def set_state_finish
        split: option.split monitor_phase.split)
next
  case (detached ui now k)
  then show ?case by (simp add: one_at_a_time_def detached_reason_arrives_def)
next
  case (timer ui d now)
  then have "tx_monitor ui = None"
    using tx_run_inv [OF timer(1)] inv_monitor [OF tx_run_inv [OF timer(1)]]
    by (cases "tx_monitor ui") (auto simp: tx_inv_def timer_fits_def outcome_types_def)
  moreover have "tx_sends ui = []"
    using timer tx_run_inv [OF timer(1)]
    by (cases "tx_state ui") (auto simp: one_at_a_time_def tx_inv_def timer_fits_def outcome_types_def)
  ultimately show ?case using timer by (simp add: one_at_a_time_def timer_fires_def set_state_result)
qed

section \<open>A sample, for the witnesses\<close>

definition sample_revert_env :: revert_env where
  "sample_revert_env = \<lparr>rv_call = \<lambda>_ _. Inr '''', rv_hexDataLength = length,
     rv_hexDataSlice = \<lambda>s _ _. s, rv_decodeString = Inr\<rparr>"

definition sample_ui :: tx_ui where
  "sample_ui = send_settles 7 ''stake'' (Inr ''0x1'') (send_starts 5 ''stake'' TransactionProvider)"

lemma sample_ui:
  "sample_ui = \<lparr>tx_state = WaitingForConfirmation ''stake'' ''0x1'', tx_sends = [],
     tx_monitor = Some \<lparr>mon_id = ''stake'', mon_tx = ''0x1'', mon_phase = AwaitingReceipt\<rparr>, tx_detached = [],
     tx_timer = None, rendered = [Idle, WaitingForApproval ''stake'', WaitingForConfirmation ''stake'' ''0x1'']\<rparr>"
  by (simp add: sample_ui_def send_settles_def send_starts_def TransactionProvider_def set_state_def render_simps)

lemma sample_ui_run: "tx_run button_gate sample_revert_env sample_ui"
  unfolding sample_ui_def
  by (intro sent send start) (simp_all add: send_starts_def TransactionProvider_def button_gate_iff)

section \<open>Properties\<close>

text \<open>
  C25: Whatever the user sends and whenever answers come, the interface is consistent: a
  transaction is shown as waiting for confirmation exactly while a monitor waits for it, an
  outcome is shown exactly while the timer that clears it runs, and the one-shot confirmation
  is never left standing.
\<close>

theorem transaction_state_monitored:
  assumes "tx_run gate env ui"
  shows "(tx_state ui = WaitingForConfirmation i tx \<longleftrightarrow>
      (\<exists>m. tx_monitor ui = Some m \<and> mon_id m = i \<and> mon_tx m = tx \<and> mon_phase m \<noteq> Done))
    \<and> (tx_timer ui \<noteq> None \<longleftrightarrow> state_type (tx_state ui) \<in> {''failed'', ''cancelled'', ''confirmed''})
    \<and> state_type (tx_state ui) \<noteq> ''confirmedOneShot''"
  using tx_run_inv [OF assms]
  by (auto simp: tx_inv_def monitor_fits_def timer_fits_def outcome_types_def split: option.splits)

theorem transaction_state_monitored_witness:
  "tx_state sample_ui
     = WaitingForConfirmation ''stake'' ''0x1''
   \<and> tx_timer sample_ui = None"
proof -
  from transaction_state_monitored [OF sample_ui_run, of "''stake''" "''0x1''"] show ?thesis
    by (simp add: sample_ui)
qed

text \<open>
  C26: A transaction sent with the buttons that wait for their turn is followed to its end: its
  send leaves approval for confirmation, the receipt of one that succeeds shows its one-shot
  confirmation once and then that it is confirmed, a cancelled one is shown as cancelled, and a
  reverted one with its reason.
\<close>

theorem button_transaction_followed:
  assumes "tx_run button_gate env ui"
  shows "(i \<in> set (tx_sends ui) \<longrightarrow>
      tx_state ui = WaitingForApproval i \<and>
      tx_state (send_settles now i (Inr tx) ui) = WaitingForConfirmation i tx)
    \<and> (tx_monitor ui = Some m \<and> mon_phase m = AwaitingReceipt \<longrightarrow>
      rendered (receipt_arrives now Succeeded ui) = rendered ui @ [ConfirmedOneShot (mon_id m), Confirmed (mon_id m)] \<and>
      tx_state (receipt_arrives now WasCancelled ui) = Cancelled (mon_id m) \<and>
      tx_state (reason_arrives env now (receipt_arrives now (Reverted raw) ui)) = reverted_state env (mon_id m) raw)
    \<and> tx_detached ui = []"
proof -
  note inv = tx_run_inv [OF assms] and one = gated_one_at_a_time [OF assms]
  have "tx_state ui = WaitingForApproval i \<and> tx_state (send_settles now i (Inr tx) ui) = WaitingForConfirmation i tx"
    if "i \<in> set (tx_sends ui)"
  proof -
    have st: "tx_state ui = WaitingForApproval i"
      using that one by (auto simp: one_at_a_time_def split: transaction_state.splits)
    then show ?thesis using inv_no_monitor [OF inv] by (simp add: send_settles_def set_state_result)
  qed
  moreover have
    "rendered (receipt_arrives now Succeeded ui) = rendered ui @ [ConfirmedOneShot (mon_id m), Confirmed (mon_id m)] \<and>
     tx_state (receipt_arrives now WasCancelled ui) = Cancelled (mon_id m) \<and>
     tx_state (reason_arrives env now (receipt_arrives now (Reverted raw) ui)) = reverted_state env (mon_id m) raw"
    if "tx_monitor ui = Some m" "mon_phase m = AwaitingReceipt"
    using that inv_monitor [OF inv that(1)]
    by (simp add: receipt_arrives_def reason_arrives_def set_state_finish set_state_confirmed reverted_state_def
        set_state_finish [where m = "m\<lparr>mon_phase := AwaitingReason raw\<rparr>", simplified])
  ultimately show ?thesis using one by (auto simp: one_at_a_time_def)
qed

theorem button_transaction_followed_witness:
  "rendered (receipt_arrives 9 Succeeded sample_ui)
    = [Idle, WaitingForApproval ''stake'', WaitingForConfirmation ''stake'' ''0x1'',
       ConfirmedOneShot ''stake'', Confirmed ''stake'']"
proof -
  from button_transaction_followed [OF sample_ui_run,
      where m = "\<lparr>mon_id = ''stake'', mon_tx = ''0x1'', mon_phase = AwaitingReceipt\<rparr>" and now = 9]
  have "tx_monitor sample_ui = Some \<lparr>mon_id = ''stake'', mon_tx = ''0x1'', mon_phase = AwaitingReceipt\<rparr> \<longrightarrow>
    rendered (receipt_arrives 9 Succeeded sample_ui) = rendered sample_ui @ [ConfirmedOneShot ''stake'', Confirmed ''stake'']"
    by simp
  then show ?thesis by (simp add: sample_ui)
qed

text \<open>
  C38: A transaction sent by a component that calls \<open>useTransactionFunction\<close> itself, as the trove,
  deposit and stake forms do, while another waits for confirmation hides both: the state goes
  back to idle, though approval is pending, and the receipt of the first is dropped when it
  comes.
\<close>

theorem second_send_hides_first:
  assumes "tx_run gate env ui" and "tx_monitor ui = Some m" and "mon_phase m = AwaitingReceipt"
  shows "tx_state (send_starts now i ui) = Idle
    \<and> tx_sends (send_starts now i ui) = tx_sends ui @ [i]
    \<and> receipt_arrives now' out (send_starts now i ui) = send_starts now i ui"
  using assms(2,3) inv_monitor [OF tx_run_inv [OF assms(1)] assms(2)]
  by (simp add: send_starts_def set_state_def render_simps receipt_arrives_def)

theorem second_send_hides_first_witness:
  "tx_state (send_starts 9 ''trove'' sample_ui)
    = Idle"
proof -
  show ?thesis
    by (rule second_send_hides_first [OF sample_ui_run, THEN conjunct1]) (simp add: sample_ui, simp)
qed

end
