(* ===== verification/Frontend_Pools.thy ===== *)
theory Frontend_Pools
  imports Trove_Editor Deposits Frontend_Transaction
begin

text \<open>
  The frontend's forms for stability deposits and protocol token stakes, in
  \<^verbatim>\<open>packages/dev-frontend/src/components/Stability/\<close> and \<^verbatim>\<open>Staking/\<close>: the reducers that keep the
  user's edit while the store updates the object under it, the validation of the edit, its
  description, and the views.

  An action that is a store update carries the new object of \<open>stateChange\<close>, if it changed, and
  the old one of \<open>oldState\<close> where the code reads it.
\<close>

section \<open>The deposit form\<close>

record deposit_manager =
  originalDeposit :: stability_deposit
  editedDebtToken :: decimal
  depositChangePending :: bool

definition init_deposit_manager :: "stability_deposit \<Rightarrow> deposit_manager" where
  "init_deposit_manager d =
     \<lparr>originalDeposit = d, editedDebtToken = currentDebtToken d, depositChangePending = False\<rparr>"

datatype deposit_action =
    StartDepositChange
  | FinishDepositChange
  | RevertDeposit
  | SetDeposit decimalish
  | UpdateDeposit "stability_deposit option"

definition finishChange_deposit :: "deposit_manager \<Rightarrow> deposit_manager" where
  "finishChange_deposit st = st\<lparr>depositChangePending := False\<rparr>"

definition revert_deposit :: "deposit_manager \<Rightarrow> deposit_manager" where
  "revert_deposit st = st\<lparr>editedDebtToken := currentDebtToken (originalDeposit st)\<rparr>"

definition deposit_committed :: "stability_deposit \<Rightarrow> stability_deposit \<Rightarrow> bool" where
  "deposit_committed before updated \<longleftrightarrow>
     \<not> eq_dec (initialDebtToken updated) (initialDebtToken before) \<or>
     currentDebtToken before < currentDebtToken updated \<or>
     collateralGain updated < collateralGain before \<or>
     protocolTokenReward updated < protocolTokenReward before"

fun reduce_deposit :: "deposit_manager \<Rightarrow> deposit_action \<Rightarrow> deposit_manager result" where
  "reduce_deposit st StartDepositChange = Inr (st\<lparr>depositChangePending := True\<rparr>)"
| "reduce_deposit st FinishDepositChange = Inr (finishChange_deposit st)"
| "reduce_deposit st (SetDeposit newValue) =
     result_map (\<lambda>d. st\<lparr>editedDebtToken := d\<rparr>) (from_ish newValue)"
| "reduce_deposit st RevertDeposit = Inr (revert_deposit st)"
| "reduce_deposit st (UpdateDeposit updatedDeposit) =
     (case updatedDeposit of
        None \<Rightarrow> Inr st
      | Some updated \<Rightarrow>
          let newState = st\<lparr>originalDeposit := updated\<rparr> in
          if depositChangePending st \<and> deposit_committed (originalDeposit st) updated
          then Inr (finishChange_deposit (revert_deposit newState))
          else
            result_bind (deposit_whatChanged (originalDeposit st) (DDecimal (editedDebtToken st))) (\<lambda>change.
            result_map (\<lambda>d. newState\<lparr>editedDebtToken := d\<rparr>) (deposit_apply updated change)))"

text \<open>
  What the form does when the state of its own transaction becomes \<open>t\<close>: an action for the
  reducer, or an event for the view.
\<close>

datatype stability_view = NoDeposit | Depositing | ActiveDeposit | AdjustingDeposit

datatype stability_event =
    DepositPressed | AdjustDepositPressed | CancelPressed | DepositConfirmed | RewardsClaimed | DepositEmptied

definition deposit_transaction_effect :: "transaction_state \<Rightarrow> (deposit_action + stability_event) option" where
  "deposit_transaction_effect t =
     (if state_type t = ''waitingForApproval'' \<or> state_type t = ''waitingForConfirmation''
      then Some (Inl StartDepositChange)
      else if state_type t = ''failed'' \<or> state_type t = ''cancelled'' then Some (Inl FinishDepositChange)
      else if state_type t = ''confirmedOneShot'' then Some (Inr DepositConfirmed)
      else None)"

section \<open>Validation of a deposit\<close>

datatype deposit_error =
    IsFrontend
  | DepositExceedsBalance decimal
  | WithdrawalWhileUndercollateralized

text \<open>
  The changes \<open>whatChanged\<close> makes hold \<open>Decimal\<close>s.  Of the two parts the code returns, the valid
  change and the message, either the change, or an error or nothing to say.
\<close>

definition validateStabilityDepositChange ::
  "stability_deposit \<Rightarrow> decimal \<Rightarrow> decimal \<Rightarrow> bool \<Rightarrow> bool
    \<Rightarrow> (deposit_error option + stability_deposit_change) result" where
  "validateStabilityDepositChange this that balance haveOwnFrontend undercollateralized =
     result_bind (deposit_whatChanged this (DDecimal that)) (\<lambda>change.
       if haveOwnFrontend then Inr (Inl (Some IsFrontend))
       else case change of
         None \<Rightarrow> Inr (Inl None)
       | Some (DepositDebtToken d) \<Rightarrow>
           result_bind (from_ish d) (\<lambda>amount.
             if balance < amount
             then result_map (\<lambda>excess. Inl (Some (DepositExceedsBalance excess))) (sub_dec amount balance)
             else Inr (Inr (DepositDebtToken d)))
       | Some (WithdrawDebtToken w b) \<Rightarrow>
           if undercollateralized then Inr (Inl (Some WithdrawalWhileUndercollateralized))
           else Inr (Inr (WithdrawDebtToken w b)))"

section \<open>The deposit views\<close>

fun stability_transitions :: "stability_view \<Rightarrow> stability_event \<rightharpoonup> stability_view" where
  "stability_transitions NoDeposit e = (case e of DepositPressed \<Rightarrow> Some Depositing | _ \<Rightarrow> None)"
| "stability_transitions Depositing e =
     (case e of CancelPressed \<Rightarrow> Some NoDeposit | DepositConfirmed \<Rightarrow> Some ActiveDeposit | _ \<Rightarrow> None)"
| "stability_transitions ActiveDeposit e =
     (case e of RewardsClaimed \<Rightarrow> Some ActiveDeposit | AdjustDepositPressed \<Rightarrow> Some AdjustingDeposit
      | DepositEmptied \<Rightarrow> Some NoDeposit | _ \<Rightarrow> None)"
| "stability_transitions AdjustingDeposit e =
     (case e of CancelPressed \<Rightarrow> Some ActiveDeposit | DepositConfirmed \<Rightarrow> Some ActiveDeposit
      | DepositEmptied \<Rightarrow> Some NoDeposit | _ \<Rightarrow> None)"

definition stability_transition :: "stability_view \<Rightarrow> stability_event \<Rightarrow> stability_view" where
  "stability_transition view event = (case stability_transitions view event of Some v \<Rightarrow> v | None \<Rightarrow> view)"

definition stability_getInitialView :: "stability_deposit \<Rightarrow> stability_view" where
  "stability_getInitialView d = (if deposit_isEmpty d then NoDeposit else ActiveDeposit)"

text \<open>The effect on \<open>stabilityDeposit.isEmpty\<close>, when that changes.\<close>

definition emptied_effect :: "bool \<Rightarrow> stability_view \<Rightarrow> stability_view" where
  "emptied_effect depositIsEmpty view = (if depositIsEmpty then stability_transition view DepositEmptied else view)"

section \<open>The stake form\<close>

record stake_manager =
  originalStake :: protocol_token_stake
  editedProtocolToken :: decimal

definition init_stake_manager :: "protocol_token_stake \<Rightarrow> stake_manager" where
  "init_stake_manager s = \<lparr>originalStake = s, editedProtocolToken = stakedProtocolToken s\<rparr>"

datatype stake_action =
    RevertStake
  | SetStake decimalish
  | UpdateStake "protocol_token_stake option"

fun reduce_stake :: "stake_manager \<Rightarrow> stake_action \<Rightarrow> stake_manager result" where
  "reduce_stake st (SetStake newValue) =
     result_map (\<lambda>d. st\<lparr>editedProtocolToken := d\<rparr>) (from_ish newValue)"
| "reduce_stake st RevertStake = Inr (st\<lparr>editedProtocolToken := stakedProtocolToken (originalStake st)\<rparr>)"
| "reduce_stake st (UpdateStake updatedStake) =
     (case updatedStake of
        None \<Rightarrow> Inr st
      | Some updated \<Rightarrow>
          result_bind (stake_whatChanged (originalStake st) (DDecimal (editedProtocolToken st))) (\<lambda>change.
          result_map (\<lambda>d. \<lparr>originalStake = updated, editedProtocolToken = d\<rparr>) (stake_apply updated change)))"

datatype stake_error = StakeExceedsBalance decimal

definition validateStake ::
  "protocol_token_stake \<Rightarrow> decimal \<Rightarrow> decimal \<Rightarrow> (stake_error option + stake_change) result" where
  "validateStake this that balance =
     result_bind (stake_whatChanged this (DDecimal that)) (\<lambda>change.
       case change of
         None \<Rightarrow> Inr (Inl None)
       | Some (StakeProtocolToken d) \<Rightarrow>
           result_bind (from_ish d) (\<lambda>amount.
             if balance < amount
             then result_map (\<lambda>excess. Inl (Some (StakeExceedsBalance excess))) (sub_dec amount balance)
             else Inr (Inr (StakeProtocolToken d)))
       | Some (UnstakeProtocolToken w b) \<Rightarrow> Inr (Inr (UnstakeProtocolToken w b)))"

section \<open>The stake views\<close>

record staking_view_state =
  sv_protocolTokenStake :: protocol_token_stake
  sv_changePending :: bool
  sv_adjusting :: bool

definition init_staking_view :: "protocol_token_stake \<Rightarrow> staking_view_state" where
  "init_staking_view s = \<lparr>sv_protocolTokenStake = s, sv_changePending = False, sv_adjusting = False\<rparr>"

datatype staking_view_action =
    StartAdjusting | CancelAdjusting | StartStakeChange | AbortStakeChange
  | UpdateStakeView protocol_token_stake "protocol_token_stake option"

definition stake_committed :: "protocol_token_stake \<Rightarrow> protocol_token_stake \<Rightarrow> bool" where
  "stake_committed old updated \<longleftrightarrow>
     \<not> eq_dec (stakedProtocolToken updated) (stakedProtocolToken old) \<or>
     stakeCollateralGain updated < stakeCollateralGain old \<or>
     debtTokenGain updated < debtTokenGain old"

fun reduce_staking_view :: "staking_view_state \<Rightarrow> staking_view_action \<Rightarrow> staking_view_state" where
  "reduce_staking_view st StartAdjusting = st\<lparr>sv_adjusting := True\<rparr>"
| "reduce_staking_view st CancelAdjusting = st\<lparr>sv_adjusting := False\<rparr>"
| "reduce_staking_view st StartStakeChange = st\<lparr>sv_changePending := True\<rparr>"
| "reduce_staking_view st AbortStakeChange = st\<lparr>sv_changePending := False\<rparr>"
| "reduce_staking_view st (UpdateStakeView oldStake updatedStake) =
     (case updatedStake of
        None \<Rightarrow> st
      | Some updated \<Rightarrow>
          st\<lparr>sv_protocolTokenStake := updated, sv_adjusting := False,
             sv_changePending := (if stake_committed oldStake updated then False else sv_changePending st)\<rparr>)"

definition stake_transaction_effect :: "transaction_state \<Rightarrow> staking_view_action option" where
  "stake_transaction_effect t =
     (if state_type t = ''waitingForApproval'' \<or> state_type t = ''waitingForConfirmation''
      then Some StartStakeChange
      else if state_type t = ''failed'' \<or> state_type t = ''cancelled'' then Some AbortStakeChange
      else None)"

definition staking_view :: "staking_view_state \<Rightarrow> string" where
  "staking_view st =
     (if sv_adjusting st then ''ADJUSTING''
      else if stake_isEmpty (sv_protocolTokenStake st) then ''NONE'' else ''ACTIVE'')"

section \<open>Edits carried over\<close>

text \<open>An amount whose changes, applied to another state of the object, carry the edit over.\<close>

locale carried_amount = tracked_amount +
  assumes diff_carry: "diff s (DDecimal d) = Inr c \<Longrightarrow> app s' c = Inr (carry (current s) d (current s'))"
begin

lemma edit_carried:
  "result_bind (diff s (DDecimal d)) (\<lambda>c. result_map f (app s' c)) = Inr (f (carry (current s) d (current s')))"
proof -
  obtain c where "diff s (DDecimal d) = Inr c" using diff_total by blast
  then show ?thesis using diff_carry by simp
qed

end

lemma carry_add: "a < b \<Longrightarrow> sub_dec b a = Inr d \<Longrightarrow> carry a b x = add_dec x d"
  by (auto simp: carry_def saturating_sub_def decimal_less_iff decimal_eq_iff sub_dec_Inr)

lemma carry_sub:
  assumes "b < a" and "sub_dec a b = Inr d"
  shows "(if isZero b then Inr ZERO else if x \<le> d then Inr ZERO else sub_dec x d) = Inr (carry a b x)"
  using assms
  by (auto simp: carry_def saturating_sub_def decimal_less_iff decimal_le_iff decimal_eq_iff sub_dec_Inr
      isZero_def)

interpretation carried_deposit: carried_amount currentDebtToken deposit_whatChanged deposit_apply
proof
  fix s s' d c
  assume c: "deposit_whatChanged s (DDecimal d) = Inr c"
  consider "d < currentDebtToken s" | "currentDebtToken s < d" | "d = currentDebtToken s" by fastforce
  then show "deposit_apply s' c = Inr (carry (currentDebtToken s) d (currentDebtToken s'))"
    using c carry_add [of "currentDebtToken s" d] carry_sub [of d "currentDebtToken s" _ "currentDebtToken s'"]
    by cases (auto simp: deposit_whatChanged_def deposit_apply_def result_map_Inr split: if_splits)
qed

interpretation carried_stake: carried_amount stakedProtocolToken stake_whatChanged stake_apply
proof
  fix s s' d c
  assume c: "stake_whatChanged s (DDecimal d) = Inr c"
  consider "d < stakedProtocolToken s" | "stakedProtocolToken s < d" | "d = stakedProtocolToken s" by fastforce
  then show "stake_apply s' c = Inr (carry (stakedProtocolToken s) d (stakedProtocolToken s'))"
    using c carry_add [of "stakedProtocolToken s" d] carry_sub [of d "stakedProtocolToken s" _ "stakedProtocolToken s'"]
    by cases (auto simp: stake_whatChanged_def stake_apply_def result_map_Inr split: if_splits)
qed

section \<open>Properties\<close>

text \<open>
  What a store update does to the edit of a deposit or stake: nothing when the object did not
  change; when the user's own change was committed the edit is the new amount and the change is
  no longer pending; otherwise the edit moves with the amount, by the difference the user made,
  and stays zero when it was set to zero.  It never throws.
\<close>

theorem pool_edit_carried:
  "reduce_deposit st (UpdateDeposit updated) =
     Inr (case updated of
            None \<Rightarrow> st
          | Some d \<Rightarrow>
              if depositChangePending st \<and> deposit_committed (originalDeposit st) d
              then \<lparr>originalDeposit = d, editedDebtToken = currentDebtToken d, depositChangePending = False\<rparr>
              else st\<lparr>originalDeposit := d, editedDebtToken :=
                     carry (currentDebtToken (originalDeposit st)) (editedDebtToken st) (currentDebtToken d)\<rparr>)
   \<and> reduce_stake st' (UpdateStake updated') =
     Inr (case updated' of
            None \<Rightarrow> st'
          | Some s \<Rightarrow> \<lparr>originalStake = s, editedProtocolToken =
              carry (stakedProtocolToken (originalStake st')) (editedProtocolToken st') (stakedProtocolToken s)\<rparr>)"
  by (simp add: carried_deposit.edit_carried carried_stake.edit_carried Let_def finishChange_deposit_def
      revert_deposit_def split: option.split)

lemma excess_iff: "a < b \<Longrightarrow> sub_dec b a = Inr d \<Longrightarrow> balance < d \<longleftrightarrow> \<not> b \<le> add_dec a balance"
  by (auto simp: decimal_less_iff decimal_le_iff sub_dec_Inr add_dec_def)

lemma below_sum: "a \<le> b \<Longrightarrow> a \<le> add_dec b c"
  by (auto simp: decimal_le_iff add_dec_def)

lemma deposit_accepted:
  "validateStabilityDepositChange this that balance own undercollateralized = Inr (Inr c) \<longleftrightarrow>
     deposit_whatChanged this (DDecimal that) = Inr (Some c) \<and> \<not> own \<and>
     that \<le> add_dec (currentDebtToken this) balance \<and> (that < currentDebtToken this \<longrightarrow> \<not> undercollateralized)"
proof -
  consider (less) "that < currentDebtToken this" | (more) "currentDebtToken this < that"
    | (same) "that = currentDebtToken this" by fastforce
  then show ?thesis
  proof cases
    case less
    then show ?thesis using below_sum [of that "currentDebtToken this" balance]
      by (auto simp: validateStabilityDepositChange_def deposit_whatChanged_def result_bind_Inr result_map_Inr split: if_splits)
  next
    case more
    then obtain d where "sub_dec that (currentDebtToken this) = Inr d" using sub_then_add by blast
    with more excess_iff [OF more this, of balance] show ?thesis
      by (auto simp: validateStabilityDepositChange_def deposit_whatChanged_def result_map_Inr)
  next
    case same
    then show ?thesis by (simp add: validateStabilityDepositChange_def deposit_whatChanged_def)
  qed
qed

lemma stake_accepted:
  "validateStake this that balance = Inr (Inr c) \<longleftrightarrow>
     stake_whatChanged this (DDecimal that) = Inr (Some c) \<and> that \<le> add_dec (stakedProtocolToken this) balance"
proof -
  consider (less) "that < stakedProtocolToken this" | (more) "stakedProtocolToken this < that"
    | (same) "that = stakedProtocolToken this" by fastforce
  then show ?thesis
  proof cases
    case less
    then show ?thesis using below_sum [of that "stakedProtocolToken this" balance]
      by (auto simp: validateStake_def stake_whatChanged_def result_bind_Inr result_map_Inr split: if_splits)
  next
    case more
    then obtain d where "sub_dec that (stakedProtocolToken this) = Inr d" using sub_then_add by blast
    with more excess_iff [OF more this, of balance] show ?thesis
      by (auto simp: validateStake_def stake_whatChanged_def result_map_Inr)
  next
    case same
    then show ?thesis by (simp add: validateStake_def stake_whatChanged_def)
  qed
qed

lemma deposit_accepted_iff:
  "(\<exists>c. validateStabilityDepositChange this that balance own undercollateralized = Inr (Inr c) \<and>
        deposit_apply this (Some c) = Inr that) =
     (\<not> own \<and> that \<noteq> currentDebtToken this \<and> that \<le> add_dec (currentDebtToken this) balance \<and>
      \<not> (that < currentDebtToken this \<and> undercollateralized))"
proof (cases "that = currentDebtToken this")
  case True
  then show ?thesis by (simp add: deposit_accepted) (simp add: deposit_whatChanged_def)
next
  case False
  with deposit.diff_total [of this that] deposit.diff_None [of this that] obtain c
    where c: "deposit_whatChanged this (DDecimal that) = Inr (Some c)" by (metis not_None_eq)
  from c False deposit.diff_app [OF c] show ?thesis by (auto simp: deposit_accepted)
qed

lemma stake_accepted_iff:
  "(\<exists>c. validateStake this that balance = Inr (Inr c) \<and> stake_apply this (Some c) = Inr that) =
     (that \<noteq> stakedProtocolToken this \<and> that \<le> add_dec (stakedProtocolToken this) balance)"
proof (cases "that = stakedProtocolToken this")
  case True
  then show ?thesis by (simp add: stake_accepted) (simp add: stake_whatChanged_def)
next
  case False
  with stake.diff_total [of this that] stake.diff_None [of this that] obtain c
    where c: "stake_whatChanged this (DDecimal that) = Inr (Some c)" by (metis not_None_eq)
  from c False stake.diff_app [OF c] show ?thesis by (auto simp: stake_accepted)
qed

text \<open>
  C30: The forms accept exactly the changes that can be made: a deposit or stake within the
  user's balance, a withdrawal of a deposit when no trove is undercollateralized, a deposit from
  an address that is no frontend; and the change they accept takes the object to the edited
  amount.
\<close>

theorem accepted_pool_change:
  "(\<exists>c. validateStabilityDepositChange this that balance own undercollateralized = Inr (Inr c) \<and>
        deposit_apply this (Some c) = Inr that) =
     (\<not> own \<and> that \<noteq> currentDebtToken this \<and> that \<le> add_dec (currentDebtToken this) balance \<and>
      \<not> (that < currentDebtToken this \<and> undercollateralized))
   \<and> (\<exists>c. validateStake this' that' balance' = Inr (Inr c) \<and> stake_apply this' (Some c) = Inr that') =
     (that' \<noteq> stakedProtocolToken this' \<and> that' \<le> add_dec (stakedProtocolToken this') balance')"
  by (simp only: deposit_accepted_iff stake_accepted_iff)

end
