(* ===== verification/Fuzzer_Checks.thy ===== *)
theory Fuzzer_Checks
  imports Trove_Validation Trove_Params
begin

text \<open>
  The checks and decisions of the fuzzer: \<^verbatim>\<open>packages/fuzzer/src/utils.ts\<close> and what
  \<^verbatim>\<open>packages/fuzzer/src/fixture.ts\<close> computes before it sends a transaction.

  A check that throws is an error.  Random numbers are arguments: \<open>coin\<close> is \<open>Math.random() < 0.5\<close>,
  a factor is the number it was multiplied to, \<open>benford\<close> the result of that function.  What is
  printed before a check throws is not modelled.
\<close>

section \<open>Lists of troves\<close>

definition tinyDifference :: decimal where
  "tinyDifference = Decimal (10 ^ 9)"

lemma tinyDifference_from_source: "from_ish (DString ''0.000000001'') = Inr tinyDifference"
  using fromString_fraction [of "''0''" "''000000001''"]
  by (simp add: numeral_eval tinyDifference_def)

fun sorted_after :: "user_trove \<Rightarrow> pending_trove list \<Rightarrow> trove \<Rightarrow> decimal \<Rightarrow> bool" where
  "sorted_after currentTrove [] redistributed p = True"
| "sorted_after currentTrove (t # ts) redistributed p =
     (let nextTrove = applyRedistribution t redistributed in
      if add_dec (collateralRatio currentTrove p) tinyDifference < collateralRatio nextTrove p then False
      else sorted_after nextTrove ts redistributed p)"

definition sortedByICR :: "pending_trove list \<Rightarrow> trove \<Rightarrow> decimal \<Rightarrow> bool" where
  "sortedByICR listOfTroves redistributed p =
     (if length listOfTroves < 2 then True
      else sorted_after (applyRedistribution (hd listOfTroves) redistributed)
             (tl listOfTroves) redistributed p)"

definition listDifference :: "string list \<Rightarrow> string list \<Rightarrow> string list" where
  "listDifference listA listB = filter (\<lambda>x. x \<notin> set listB) listA"

text \<open>\<open>new Map(entries)\<close>: of two entries with one key, the later wins.\<close>

fun all_found :: "pending_trove list \<Rightarrow> (string \<rightharpoonup> pending_trove) \<Rightarrow> unit result" where
  "all_found [] mapB = Inr ()"
| "all_found (troveA # rest) mapB =
     (case mapB (ownerAddress troveA) of
        None \<Rightarrow> Inl (Error (ownerAddress troveA @ '' has no trove in listB''))
      | Some troveB \<Rightarrow>
          if \<not> pending_trove_equals troveA troveB
          then Inl (Error (ownerAddress troveA @ '' has different troves in listA & listB''))
          else all_found rest mapB)"

definition listOfTrovesShouldBeEqual :: "pending_trove list \<Rightarrow> pending_trove list \<Rightarrow> unit result" where
  "listOfTrovesShouldBeEqual listA listB =
     (if length listA \<noteq> length listB then Inl (Error ''length of trove lists is different'')
      else all_found listA (map_of (rev (map (\<lambda>t. (ownerAddress t, t)) listB))))"

text \<open>
  \<open>totals\<close> is the reduction: the active amounts of the troves, and what redistribution adds.
\<close>

definition trove_totals :: "pending_trove list \<Rightarrow> trove \<Rightarrow> trove \<times> trove" where
  "trove_totals listOfTroves redistributed =
     foldl (\<lambda>(activeTotal, defaultTotal) troveActive.
        let troveTotal = applyRedistribution troveActive redistributed;
            troveDefault = subtract troveTotal troveActive
        in (trove_add activeTotal troveActive, trove_add defaultTotal troveDefault))
       (emptyTrove, emptyTrove) listOfTroves"

text \<open>\<open>Difference.between(a, b).absoluteValue?.lt(tinyDifference)\<close>, where undefined is falsy.\<close>

definition roughly_equal :: "decimal \<Rightarrow> decimal \<Rightarrow> bool result" where
  "roughly_equal a b =
     result_map (\<lambda>diff. case diff_absoluteValue diff of Some v \<Rightarrow> v < tinyDifference | None \<Rightarrow> False)
       (between (Some (DDecimal a)) (Some (DDecimal b)))"

definition all_roughly_equal :: "(decimal \<times> decimal) list \<Rightarrow> bool result" where
  "all_roughly_equal ps = result_map (\<lambda>bs. \<forall>b\<in>set bs. b) (result_list (\<lambda>(a, b). roughly_equal a b) ps)"

definition checkPoolBalances :: "trove \<Rightarrow> trove \<Rightarrow> pending_trove list \<Rightarrow> trove \<Rightarrow> unit result" where
  "checkPoolBalances activePool defaultPool listOfTroves redistributed =
     (let (activeTotal, defaultTotal) = trove_totals listOfTroves redistributed in
      result_bind (all_roughly_equal
          [(collateral activePool, collateral activeTotal), (debt activePool, debt activeTotal),
           (collateral defaultPool, collateral defaultTotal), (debt defaultPool, debt defaultTotal)]) (\<lambda>ok.
        if ok then Inr () else Inl (Error ''discrepancy between Troves & Pools'')))"

definition trovesRoughlyEqual :: "trove \<Rightarrow> trove \<Rightarrow> bool result" where
  "trovesRoughlyEqual a b = all_roughly_equal [(collateral a, collateral b), (debt a, debt b)]"

text \<open>\<open>EqualityCheck.allEqual\<close>, on what the readers answered.\<close>

definition allEqual :: "string \<Rightarrow> ('a \<Rightarrow> 'a \<Rightarrow> bool result) \<Rightarrow> 'a result list \<Rightarrow> unit result" where
  "allEqual name equals answers =
     result_bind (result_list id answers) (\<lambda>values.
       case values of
         [] \<Rightarrow> Inr ()
       | a # rest \<Rightarrow>
           result_bind (result_list (equals a) rest) (\<lambda>bs.
             if \<not> (\<forall>b\<in>set bs. b) then Inl (Error (''Mismatch in '' @ name)) else Inr ()))"

definition checkTroveOrdering :: "pending_trove list \<Rightarrow> trove \<Rightarrow> decimal \<Rightarrow> unit result" where
  "checkTroveOrdering listOfTroves redistributed p =
     (if \<not> sortedByICR listOfTroves redistributed p then Inl (Error ''ordering is broken'') else Inr ())"

text \<open>
  What a reader answers to the reads \<open>checkSubgraph\<close> makes; \<open>Difference.between\<close> converts the
  strings the subgraph's total holds.
\<close>

record check_answers =
  ca_numberOfTroves :: "int result"
  ca_price :: "decimal result"
  ca_total :: "trove result"
  ca_totalRedistributed :: "trove result"
  ca_tokensInStabilityPool :: "decimal result"
  ca_troves :: "pending_trove list result"

definition equality_checks :: "check_answers \<Rightarrow> check_answers \<Rightarrow> unit result list" where
  "equality_checks a b =
     [allEqual ''numberOfTroves'' (\<lambda>x y. Inr (x = y)) [ca_numberOfTroves a, ca_numberOfTroves b],
      allEqual ''price'' (\<lambda>x y. Inr (eq_dec x y)) [ca_price a, ca_price b],
      allEqual ''total'' trovesRoughlyEqual [ca_total a, ca_total b],
      allEqual ''totalRedistributed'' (\<lambda>x y. Inr (trove_equals x y)) [ca_totalRedistributed a, ca_totalRedistributed b],
      allEqual ''tokensInStabilityPool'' (\<lambda>x y. Inr (eq_dec x y))
        [ca_tokensInStabilityPool a, ca_tokensInStabilityPool b]]"

definition checkSubgraph :: "check_answers \<Rightarrow> check_answers \<Rightarrow> unit result" where
  "checkSubgraph subgraph l1Protocol =
     result_bind (result_list id (equality_checks subgraph l1Protocol)) (\<lambda>_.
     result_bind (ca_troves l1Protocol) (\<lambda>l1ListOfTroves.
     result_bind (ca_troves subgraph) (\<lambda>subgraphListOfTroves.
     result_bind (listOfTrovesShouldBeEqual l1ListOfTroves subgraphListOfTroves) (\<lambda>_.
     result_bind (ca_totalRedistributed subgraph) (\<lambda>redistributed.
     result_bind (ca_price subgraph) (\<lambda>p.
       if \<not> sortedByICR subgraphListOfTroves redistributed p
       then Inl (Error ''subgraph sorting broken'') else Inr ()))))))"

section \<open>Random troves and changes\<close>

definition truncateLastDigits :: "int \<Rightarrow> int" where
  "truncateLastDigits n =
     (if n > 100000 then 1000 * (n div 1000)
      else if n > 10000 then 100 * (n div 100)
      else if n > 1000 then 10 * (n div 10)
      else n)"

text \<open>A JavaScript number that is an integer, as text.\<close>

definition js_number :: "int \<Rightarrow> decimalish" where
  "js_number n = DNumber (if n < 0 then CHR ''-'' # show_nat (nat (- n)) else show_nat (nat n))"

definition createRandomTrove ::
  "constants \<Rightarrow> decimal \<Rightarrow> int \<Rightarrow> bool \<Rightarrow> (int \<Rightarrow> int) \<Rightarrow> trove result" where
  "createRandomTrove k p benford1000 coin benford =
     (let randomValue = truncateLastDigits benford1000 in
      if coin then
        result_bind (from_ish (js_number randomValue)) (\<lambda>coll.
        result_bind (toString (mul_dec p coll) (Some 0)) (\<lambda>digits.
        let maxDebt = int (nat_of_digits digits) in
        result_map (\<lambda>d. \<lparr>collateral = coll, debt = d\<rparr>)
          (with_ish (add_dec (LIQUIDATION_RESERVE k)) (js_number (truncateLastDigits (maxDebt - benford maxDebt))))))
      else
        result_bind (with_ish (add_dec (LIQUIDATION_RESERVE k)) (js_number (100 * randomValue))) (\<lambda>d.
        result_bind (with_ish (mul_dec (div_dec d p)) (js_number (100 + benford 200))) (\<lambda>x.
        result_bind (with_ish (div_dec x) (js_number 100)) (\<lambda>y.
        result_bind (toString y (Some 4)) (\<lambda>text.
        result_map (\<lambda>coll. \<lparr>collateral = coll, debt = d\<rparr>) (from_ish (DString text)))))))"

definition randomCollateralChange :: "bool \<Rightarrow> decimalish \<Rightarrow> trove \<Rightarrow> adjustment_params result" where
  "randomCollateralChange coin factor t =
     result_map (\<lambda>x. if coin then no_params\<lparr>withdrawCollateral := Some x\<rparr> else no_params\<lparr>depositCollateral := Some x\<rparr>)
       (with_ish (mul_dec (collateral t)) factor)"

definition randomDebtChange :: "bool \<Rightarrow> decimalish \<Rightarrow> trove \<Rightarrow> adjustment_params result" where
  "randomDebtChange coin factor t =
     result_map (\<lambda>x. if coin then no_params\<lparr>repayDebtToken := Some x\<rparr> else no_params\<lparr>borrowDebtToken := Some x\<rparr>)
       (with_ish (mul_dec (debt t)) factor)"

section \<open>What the fixture expects\<close>

definition cannotOpen :: "constants \<Rightarrow> decimal \<Rightarrow> trove \<Rightarrow> trove \<Rightarrow> bool" where
  "cannotOpen k p totalTrove newTrove \<longleftrightarrow>
     debt newTrove < MINIMUM_DEBT k \<or>
     (if collateralRatioIsBelowCritical totalTrove p then \<not> isOpenableInRecoveryMode newTrove p
      else collateralRatioIsBelowMinimum newTrove p \<or>
           collateralRatioIsBelowCritical (trove_add totalTrove newTrove) p)"

definition changes_amount :: "decimal option \<Rightarrow> bool" where
  "changes_amount x \<longleftrightarrow> (case x of Some d \<Rightarrow> nonZero_dec d \<noteq> None | None \<Rightarrow> False)"

definition cannotAdjust ::
  "constants \<Rightarrow> decimal \<Rightarrow> decimal \<Rightarrow> trove \<Rightarrow> trove \<Rightarrow> adjustment_params \<Rightarrow> bool result" where
  "cannotAdjust k p rate totalTrove t params =
     (let rest =
        result_map (\<lambda>adjusted.
          (changes_amount (withdrawCollateral params) \<or> changes_amount (borrowDebtToken params)) \<and>
          (collateralRatioIsBelowMinimum adjusted p \<or>
           (if collateralRatioIsBelowCritical totalTrove p
            then nominalCollateralRatio adjusted < nominalCollateralRatio t
            else collateralRatioIsBelowCritical (subtract (trove_add totalTrove adjusted) t) p)))
          (adjust k t (adjustment_object params) (Some (DDecimal rate)))
      in if (case withdrawCollateral params of Some w \<Rightarrow> collateral t \<le> w | None \<Rightarrow> False) then Inr True
         else case repayDebtToken params of
                None \<Rightarrow> rest
              | Some r \<Rightarrow>
                  result_bind (sub_dec (debt t) (MINIMUM_DEBT k)) (\<lambda>repayable.
                    if repayable < r then Inr True else rest))"

definition cannotWithdraw :: "decimal \<Rightarrow> trove \<Rightarrow> decimal \<Rightarrow> bool" where
  "cannotWithdraw p lastTrove withdrawn \<longleftrightarrow>
     nonZero_dec withdrawn \<noteq> None \<and> collateralRatioIsBelowMinimum lastTrove p"

definition setRandomPrice :: "decimal \<Rightarrow> decimalish \<Rightarrow> decimal result" where
  "setRandomPrice p random =
     result_bind (with_ish (add_dec p) random) (\<lambda>x. with_ish (div_dec x) (js_number 2))"

text \<open>The trove the funder opens or adjusts to have the debt tokens it sends.\<close>

datatype funder_tx = FunderOpens creation_params | FunderAdjusts adjustment_params

definition funder_target_ratio :: "decimal \<Rightarrow> trove \<Rightarrow> trove \<Rightarrow> decimal result" where
  "funder_target_ratio p t totalTrove =
     (if isEmpty t \<or> \<not> collateralRatioIsBelowCritical totalTrove p then from_ish (DNumber ''1.51'')
      else result_bind (with_ish (add_dec (collateralRatio t p)) (DNumber ''0.00001'')) (\<lambda>r.
           with_ish (max_dec r) (DNumber ''1.11'')))"

definition funder_new_trove ::
  "constants \<Rightarrow> decimal \<Rightarrow> trove \<Rightarrow> decimal \<Rightarrow> decimal \<Rightarrow> trove result" where
  "funder_new_trove k p t ratio shortage =
     result_bind
       (if isEmpty t
        then create k [(''depositCollateral'', Some (DNumber ''1'')), (''borrowDebtToken'', Some (DNumber ''0''))] None
        else Inr t) (\<lambda>newTrove.
     result_bind (with_ish (mul_dec shortage) (DNumber ''2'')) (\<lambda>borrow.
     result_map (\<lambda>newTrove.
       let newTrove = (if debt newTrove < MINIMUM_DEBT k then setDebt newTrove (MINIMUM_DEBT k) else newTrove)
       in setCollateral newTrove (mulDiv (debt newTrove) ratio p))
       (adjust k newTrove [(''borrowDebtToken'', Some (DDecimal borrow))] None)))"

definition sendDebtTokenFromFunder ::
  "constants \<Rightarrow> decimal \<Rightarrow> decimal \<Rightarrow> trove \<Rightarrow> trove \<Rightarrow> decimal \<Rightarrow> decimalish \<Rightarrow> (funder_tx option \<times> decimal) result" where
  "sendDebtTokenFromFunder k p tokenBalance t totalTrove rate amountish =
     result_bind (from_ish amountish) (\<lambda>withdrawn.
       if tokenBalance < withdrawn then
         result_bind (funder_target_ratio p t totalTrove) (\<lambda>ratio.
         result_bind (sub_dec withdrawn tokenBalance) (\<lambda>shortage.
         result_bind (funder_new_trove k p t ratio shortage) (\<lambda>newTrove.
           if isEmpty t then
             result_map (\<lambda>params. (Some (FunderOpens params), withdrawn))
               (recreate k newTrove (Some (DDecimal rate)))
           else
             let newTotal = subtract (trove_add totalTrove newTrove) t in
             result_bind
               (if \<not> collateralRatioIsBelowCritical totalTrove p \<and> collateralRatioIsBelowCritical newTotal p
                then
                  result_map (\<lambda>r.
                    let newTotal = setCollateral newTotal (mulDiv (debt newTotal) r p)
                    in subtract (trove_add t newTotal) totalTrove) (from_ish (DNumber ''1.51''))
                else Inr newTrove) (\<lambda>newTrove.
             result_map (\<lambda>params. (Some (FunderAdjusts params), withdrawn))
               (adjustTo k t newTrove (Some (DDecimal rate)))))))
       else Inr (None, withdrawn))"

section \<open>What the checks mean\<close>

lemma sorted_after_iff:
  "sorted_after t ts redistributed p \<longleftrightarrow>
     (\<forall>i<length ts. collateralRatio (applyRedistribution (ts ! i) redistributed) p \<le>
        add_dec (collateralRatio ((t # map (\<lambda>u. applyRedistribution u redistributed) ts) ! i) p) tinyDifference)"
proof (induction ts arbitrary: t)
  case (Cons u ts)
  have split: "(\<forall>i<length (u # ts). P i) \<longleftrightarrow> P 0 \<and> (\<forall>i<length ts. P (Suc i))" for P
    by (simp add: All_less_Suc2)
  show ?case unfolding split by (auto simp: Cons.IH Let_def not_less)
qed simp

lemma sortedByICR_iff:
  "sortedByICR ts redistributed p \<longleftrightarrow>
     (\<forall>i. Suc i < length ts \<longrightarrow>
        collateralRatio (applyRedistribution (ts ! Suc i) redistributed) p \<le>
        add_dec (collateralRatio (applyRedistribution (ts ! i) redistributed) p) tinyDifference)"
proof (cases ts)
  case Nil
  then show ?thesis by (simp add: sortedByICR_def)
next
  case (Cons t us)
  have nth: "(applyRedistribution t redistributed # map (\<lambda>u. applyRedistribution u redistributed) us) ! i
      = applyRedistribution ((t # us) ! i) redistributed" if "i < length us" for i
    using that by (cases i) simp_all
  have "sortedByICR (t # us) redistributed p \<longleftrightarrow> (us = [] \<or> sorted_after (applyRedistribution t redistributed) us redistributed p)"
    by (cases us) (simp_all add: sortedByICR_def)
  also have "\<dots> \<longleftrightarrow> sorted_after (applyRedistribution t redistributed) us redistributed p" by (cases us) simp_all
  also have "\<dots> \<longleftrightarrow> (\<forall>i<length us. collateralRatio (applyRedistribution ((t # us) ! Suc i) redistributed) p \<le>
        add_dec (collateralRatio (applyRedistribution ((t # us) ! i) redistributed) p) tinyDifference)"
    by (simp add: sorted_after_iff nth del: nth_Cons_0 cong: conj_cong)
  finally show ?thesis unfolding Cons by simp
qed

lemma all_found_iff:
  "all_found ts m = Inr () \<longleftrightarrow> (\<forall>t\<in>set ts. \<exists>u. m (ownerAddress t) = Some u \<and> pending_trove_equals t u)"
  by (induction ts) (auto split: option.splits)

text \<open>
  Two lists of troves with one trove per owner are found equal exactly when they have the
  same troves, in any order.
\<close>

theorem equal_lists_have_same_troves:
  assumes "distinct (map ownerAddress listA)" and "distinct (map ownerAddress listB)"
  shows "listOfTrovesShouldBeEqual listA listB = Inr () \<longleftrightarrow> set listA = set listB"
proof -
  let ?m = "map_of (rev (map (\<lambda>t. (ownerAddress t, t)) listB))"
  have d: "distinct (map fst (rev (map (\<lambda>t. (ownerAddress t, t)) listB)))"
    using assms(2) by (simp add: rev_map comp_def flip: rev_map)
  have m: "?m i = Some t \<longleftrightarrow> t \<in> set listB \<and> ownerAddress t = i" for i t
    unfolding map_of_eq_Some_iff [OF d] by auto
  have card: "length xs = card (set xs)" if "distinct (map ownerAddress xs)" for xs :: "pending_trove list"
    using that by (simp add: distinct_card distinct_map)
  have "all_found listA ?m = Inr () \<longleftrightarrow> set listA \<subseteq> set listB"
    by (auto simp: all_found_iff m pending_trove_equals_iff)
  then have "listOfTrovesShouldBeEqual listA listB = Inr () \<longleftrightarrow>
      card (set listA) = card (set listB) \<and> set listA \<subseteq> set listB"
    using assms card by (auto simp: listOfTrovesShouldBeEqual_def)
  also have "\<dots> \<longleftrightarrow> set listA = set listB" by (metis List.finite_set card_subset_eq order_refl)
  finally show ?thesis .
qed

definition sample_pending :: "string \<Rightarrow> nat \<Rightarrow> pending_trove" where
  "sample_pending owner n = \<lparr>collateral = Decimal n, debt = ONE, ownerAddress = owner, status = open_trove,
     stake = ONE, snapshotOfTotalRedistributed = emptyTrove\<rparr>"

theorem equal_lists_have_same_troves_witness:
  "listOfTrovesShouldBeEqual [sample_pending ''0xa'' 1, sample_pending ''0xb'' 2]
      [sample_pending ''0xb'' 2, sample_pending ''0xa'' 1] = Inr ()
   \<and> listOfTrovesShouldBeEqual [sample_pending ''0xa'' 1] [sample_pending ''0xa'' 2] \<noteq> Inr ()"
  by (subst (1 2) equal_lists_have_same_troves) (auto simp: sample_pending_def)

text \<open>
  What the frontend lets the user open, the fuzzer expects to be opened: the trove an
  accepted creation makes has the minimum debt and keeps the ratios the fixture checks.
\<close>

theorem accepted_creation_expected:
  assumes "validateTroveChange k CURRENCY COIN emptyTrove that rate s = Inr (Some c, d)"
    and "apply_change k emptyTrove (Some c) (Some (DDecimal rate)) = Inr t"
    and "MINIMUM_DEBT k = add_dec (LIQUIDATION_RESERVE k) (MINIMUM_NET_DEBT k)"
  shows "\<not> cannotOpen k (sel_price s) (sel_total s) t"
proof -
  from accepted_permitted [OF assms(1)] assms(2)
  have change: "whatChanged k emptyTrove that (Some (DDecimal rate)) = Inr (Some c)"
    and ok: "permitted k s emptyTrove t c" by auto
  obtain p where c: "c = Creation p"
    using change ok whatChanged_creation [of emptyTrove that k rate]
    by (cases "emptyTrove = that") (auto split: if_splits)
  have t: "debt t = add_dec (LIQUIDATION_RESERVE k) (mul_dec (cr_borrowDebtToken p) (add_dec ONE rate))"
    using assms(2) c by (auto simp: apply_change_def)
  then have "MINIMUM_DEBT k \<le> debt t"
    using ok c mul_dec_mono [of "cr_borrowDebtToken p" "cr_borrowDebtToken p" ONE "add_dec ONE rate"]
    by (simp add: assms(3) decimal_le_iff del: bigNumber_mul)
  moreover have "new_total s emptyTrove t = trove_add (sel_total s) t"
    by (simp add: new_total_def trove_ops emptyTrove_def)
  ultimately show ?thesis
    using ok c by (auto simp: cannotOpen_def below_iff in_recovery_mode_def not_less split: if_splits)
qed

theorem accepted_creation_expected_witness:
  "\<not> cannotOpen default_constants (sel_price sample_selected) (sel_total sample_selected) sample_edit"
proof -
  obtain d where "validateTroveChange default_constants ''FIL'' ''USDFC'' emptyTrove sample_edit ZERO
      sample_selected = Inr (Some (Creation \<lparr>cr_depositCollateral = Decimal (1000 * DIGITS),
        cr_borrowDebtToken = Decimal (280 * DIGITS)\<rparr>), Some d)"
    using sample_accepted by blast
  then show ?thesis
    by (rule accepted_creation_expected [OF _ sample_change(2)]) (simp add: default_constants_def add_dec_def)
qed

end
