(* ===== verification/Fuzzer_Histogram.thy ===== *)
theory Fuzzer_Histogram
  imports Sdk_Prelude
begin

text \<open>
  The gas histogram of the fuzzer: \<^verbatim>\<open>packages/fuzzer/src/GasHistogram.ts\<close>.

  Sending a transaction has effects on the chain, so \<open>sendTx\<close> is a function of the number of
  the attempt; it gives the gas limit of the transaction sent and its receipt.  Gas is a
  natural number; \<open>toNumber\<close>, which throws from 2^53 on, is written out.
\<close>

definition intervalWidth :: nat where
  "intervalWidth = 10000"

definition numberOfBins :: nat where
  "numberOfBins = 800"

record mined =
  mined_succeeded :: bool
  mined_gasUsed :: nat

record sent_tx =
  st_gasLimit :: nat
  st_receipt :: "mined result"

text \<open>\<open>remaining\<close> is \<open>times - retries\<close>.\<close>

function retry_from :: "nat \<Rightarrow> nat \<Rightarrow> (nat \<Rightarrow> sent_tx result) \<Rightarrow> (nat \<times> mined) result" where
  "retry_from retries remaining sendTx =
     result_bind (sendTx retries) (\<lambda>tx.
     result_bind (st_receipt tx) (\<lambda>receipt.
       if mined_succeeded receipt \<or> mined_gasUsed receipt < st_gasLimit tx \<or> remaining = 0
       then Inr (retries, receipt)
       else retry_from (retries + 1) (remaining - 1) sendTx))"
  by pat_completeness auto
termination by (relation "measure (\<lambda>(retries, remaining, sendTx). remaining)") auto

declare retry_from.simps [simp del]

definition retryUpTo :: "nat \<Rightarrow> (nat \<Rightarrow> sent_tx result) \<Rightarrow> (nat \<times> mined) result" where
  "retryUpTo maxRetries sendTx = retry_from 0 maxRetries sendTx"

record gas_histogram =
  expectedFailures :: nat
  outOfGasFailures :: nat
  gasUsedBins :: "nat list"

definition new_GasHistogram :: gas_histogram where
  "new_GasHistogram = \<lparr>expectedFailures = 0, outOfGasFailures = 0, gasUsedBins = replicate numberOfBins 0\<rparr>"

definition addToGasUsedHisto :: "nat \<Rightarrow> gas_histogram \<Rightarrow> gas_histogram result" where
  "addToGasUsedHisto gasUsed this =
     (if 2 ^ 53 \<le> gasUsed then Inl (Error ''overflow'')
      else
        let binIndex = gasUsed div intervalWidth in
        js_assert (binIndex < length (gasUsedBins this))
          (Inr (this\<lparr>gasUsedBins := (gasUsedBins this)[binIndex := gasUsedBins this ! binIndex + 1]\<rparr>)))"

text \<open>\<open>findIndex\<close> gives -1 when there is none; \<open>slice\<close> counts a negative index from the end.\<close>

definition js_findIndex :: "('a \<Rightarrow> bool) \<Rightarrow> 'a list \<Rightarrow> int" where
  "js_findIndex P xs = (case List.find (\<lambda>i. P (xs ! i)) [0..<length xs] of Some i \<Rightarrow> int i | None \<Rightarrow> -1)"

definition js_slice_index :: "nat \<Rightarrow> int \<Rightarrow> nat" where
  "js_slice_index n i = (if i < 0 then nat (max (int n + i) 0) else min (nat i) n)"

definition js_slice :: "int \<Rightarrow> int \<Rightarrow> 'a list \<Rightarrow> 'a list" where
  "js_slice i j xs = drop (js_slice_index (length xs) i) (take (js_slice_index (length xs) j) xs)"

definition getResults :: "gas_histogram \<Rightarrow> (int \<times> nat) list" where
  "getResults this =
     (let bins = gasUsedBins this;
          first = js_findIndex (\<lambda>x. 0 < x) bins;
          fromEnd = js_findIndex (\<lambda>x. 0 < x) (rev bins);
          shown = js_slice first (int (length bins) - fromEnd) bins
      in map (\<lambda>(i, frequency). (int intervalWidth * (first + int i), frequency)) (zip [0..<length shown] shown))"

text \<open>
  \<open>expectSuccess\<close> and \<open>expectFailure\<close> with the state they leave, also when they throw.  A failed
  transaction throws the error of \<open>EthersTransactionFailedError\<close>.
\<close>

definition expectSuccess :: "(nat \<Rightarrow> sent_tx result) \<Rightarrow> gas_histogram \<Rightarrow> unit result \<times> gas_histogram" where
  "expectSuccess sendTx this =
     (case retryUpTo 1 sendTx of
        Inl e \<Rightarrow> (Inl e, this)
      | Inr (retries, receipt) \<Rightarrow>
          let this = this\<lparr>outOfGasFailures := outOfGasFailures this + retries\<rparr> in
          if \<not> mined_succeeded receipt then (Inl (Error ''Transaction failed''), this)
          else (case addToGasUsedHisto (mined_gasUsed receipt) this of
                  Inl e \<Rightarrow> (Inl e, this)
                | Inr this' \<Rightarrow> (Inr (), this')))"

definition expectFailure :: "'a result \<Rightarrow> gas_histogram \<Rightarrow> unit result \<times> gas_histogram" where
  "expectFailure outcome this =
     (case outcome of
        Inl _ \<Rightarrow> (Inr (), this\<lparr>expectedFailures := expectedFailures this + 1\<rparr>)
      | Inr _ \<Rightarrow> (Inl (Error ''Unexpected success''), this))"

section \<open>What the bins hold\<close>

text \<open>The bins after a list of gas values: each bin counts the values of its interval.\<close>

fun add_all :: "nat list \<Rightarrow> gas_histogram \<Rightarrow> gas_histogram result" where
  "add_all [] h = Inr h"
| "add_all (g # gs) h = result_bind (addToGasUsedHisto g h) (add_all gs)"

definition in_bin :: "nat \<Rightarrow> nat \<Rightarrow> bool" where
  "in_bin i g \<longleftrightarrow> intervalWidth * i \<le> g \<and> g < intervalWidth * (i + 1)"

lemma in_bin_iff: "in_bin i g \<longleftrightarrow> g div intervalWidth = i"
  unfolding in_bin_def intervalWidth_def by (auto simp: div_nat_eqI)

lemma addTo_bins:
  assumes "g < intervalWidth * numberOfBins" and "length (gasUsedBins h) = numberOfBins"
  shows "\<exists>h'. addToGasUsedHisto g h = Inr h' \<and> length (gasUsedBins h') = numberOfBins
    \<and> (\<forall>i<numberOfBins. gasUsedBins h' ! i = gasUsedBins h ! i + (if in_bin i g then 1 else 0))"
proof -
  have "g div intervalWidth < numberOfBins"
    using assms(1) by (simp add: less_mult_imp_div_less mult.commute)
  moreover have "\<not> 2 ^ 53 \<le> g" using assms(1) by (simp add: intervalWidth_def numberOfBins_def)
  ultimately show ?thesis using assms(2)
    by (auto simp: addToGasUsedHisto_def Let_def js_assert_def in_bin_iff nth_list_update)
qed

lemma add_all_bins:
  assumes "\<forall>g\<in>set gs. g < intervalWidth * numberOfBins" and "length (gasUsedBins h) = numberOfBins"
  shows "\<exists>h'. add_all gs h = Inr h' \<and> length (gasUsedBins h') = numberOfBins
    \<and> (\<forall>i<numberOfBins. gasUsedBins h' ! i = gasUsedBins h ! i + length (filter (in_bin i) gs))"
  using assms
proof (induction gs arbitrary: h)
  case Nil
  then show ?case by simp
next
  case (Cons g gs)
  then obtain h1 where h1: "addToGasUsedHisto g h = Inr h1" "length (gasUsedBins h1) = numberOfBins"
    "\<forall>i<numberOfBins. gasUsedBins h1 ! i = gasUsedBins h ! i + (if in_bin i g then 1 else 0)"
    using addTo_bins [of g h] by auto
  with Cons obtain h' where "add_all gs h1 = Inr h'" "length (gasUsedBins h') = numberOfBins"
    "\<forall>i<numberOfBins. gasUsedBins h' ! i = gasUsedBins h1 ! i + length (filter (in_bin i) gs)"
    by (metis list.set_intros(2))
  with h1 show ?case by auto
qed

lemma js_findIndex_eq:
  assumes "i < length xs" and "P (xs ! i)" and "\<And>j. j < i \<Longrightarrow> \<not> P (xs ! j)"
  shows "js_findIndex P xs = int i"
proof -
  have "List.find (\<lambda>i. P (xs ! i)) [0..<length xs] = Some i"
    using assms by (auto simp: find_Some_iff intro!: exI [of _ i])
  then show ?thesis by (simp add: js_findIndex_def)
qed

lemma js_slice_inside: "i \<le> j \<Longrightarrow> j \<le> length xs \<Longrightarrow> js_slice (int i) (int j) xs = drop i (take j xs)"
  by (simp add: js_slice_def js_slice_index_def min_def)

lemma getResults_between:
  assumes "a \<le> b" and "b < length (gasUsedBins h)"
    and "0 < gasUsedBins h ! a" "0 < gasUsedBins h ! b"
    and below: "\<And>i. i < a \<Longrightarrow> gasUsedBins h ! i = 0"
    and above: "\<And>i. b < i \<Longrightarrow> i < length (gasUsedBins h) \<Longrightarrow> gasUsedBins h ! i = 0"
  shows "getResults h = map (\<lambda>i. (int (intervalWidth * i), gasUsedBins h ! i)) [a..<b + 1]"
proof -
  let ?bins = "gasUsedBins h" and ?n = "length (gasUsedBins h)"
  have first: "js_findIndex (\<lambda>x. 0 < x) ?bins = int a"
    using assms(1-3) below by (intro js_findIndex_eq) auto
  have last: "js_findIndex (\<lambda>x. 0 < x) (rev ?bins) = int (?n - 1 - b)"
    using assms(2,4) above by (intro js_findIndex_eq) (auto simp: rev_nth)
  have "int ?n - int (?n - 1 - b) = int (b + 1)" using assms(2) by simp
  then have shown: "js_slice (int a) (int ?n - int (?n - 1 - b)) ?bins = drop a (take (b + 1) ?bins)"
    using assms(1,2) by (simp add: js_slice_inside del: of_nat_Suc of_nat_add)
  have len: "length (drop a (take (b + 1) ?bins)) = b + 1 - a" using assms(2) by (auto simp: min_def)
  show ?thesis
    unfolding getResults_def Let_def first last shown
  proof (rule nth_equalityI)
    fix i assume "i < length (map (\<lambda>(i, f). (int intervalWidth * (int a + int i), f))
      (zip [0..<length (drop a (take (b + 1) ?bins))] (drop a (take (b + 1) ?bins))))"
    then have i: "i < b + 1 - a" using len by simp
    then show "map (\<lambda>(i, f). (int intervalWidth * (int a + int i), f))
        (zip [0..<length (drop a (take (b + 1) ?bins))] (drop a (take (b + 1) ?bins))) ! i
      = map (\<lambda>i. (int (intervalWidth * i), ?bins ! i)) [a..<b + 1] ! i"
      using assms(1,2) len by (simp del: upt_Suc length_drop)
  qed (use len in \<open>simp del: length_drop upt_Suc\<close>)
qed

section \<open>Properties\<close>

text \<open>
  C40: The histogram of one or more successful transactions, each of less than eight million gas, has
  one entry for every interval of 10000 gas from that of the lowest gas used to that of the
  highest, with the number of transactions in it.
\<close>

theorem histogram_counts:
  assumes "add_all gs new_GasHistogram = Inr h" and "gs \<noteq> []" and "\<forall>g\<in>set gs. g < intervalWidth * numberOfBins"
  shows "getResults h =
    map (\<lambda>i. (int (intervalWidth * i), length (filter (in_bin i) gs)))
      [Min (set gs) div intervalWidth..<Max (set gs) div intervalWidth + 1]"
proof -
  let ?a = "Min (set gs) div intervalWidth" and ?b = "Max (set gs) div intervalWidth"
  from add_all_bins [OF assms(3), of new_GasHistogram] assms(1)
  have len: "length (gasUsedBins h) = numberOfBins"
    and bins: "\<And>i. i < numberOfBins \<Longrightarrow> gasUsedBins h ! i = length (filter (in_bin i) gs)"
    by (auto simp: new_GasHistogram_def)
  have b: "?b < numberOfBins"
    using assms(2,3) Max_in [of "set gs"] by (simp add: less_mult_imp_div_less mult.commute)
  have ab: "?a \<le> ?b" using assms(2) by (intro div_le_mono) simp
  have pos: "0 < length (filter (in_bin (g div intervalWidth)) gs)" if "g \<in> set gs" for g
    using that by (auto simp: in_bin_iff filter_empty_conv)
  have none: "length (filter (in_bin i) gs) = 0" if "i < ?a \<or> ?b < i" for i
  proof -
    have "?a \<le> g div intervalWidth \<and> g div intervalWidth \<le> ?b" if "g \<in> set gs" for g
      using that by (simp add: div_le_mono)
    with that show ?thesis by (fastforce simp: in_bin_iff filter_empty_conv)
  qed
  have "getResults h = map (\<lambda>i. (int (intervalWidth * i), gasUsedBins h ! i)) [?a..<?b + 1]"
  proof (rule getResults_between)
    show "0 < gasUsedBins h ! ?a" using assms(2) ab b bins pos [of "Min (set gs)"] by simp
    show "0 < gasUsedBins h ! ?b" using assms(2) b bins pos [of "Max (set gs)"] by simp
  qed (use ab b len bins none in auto)
  also have "\<dots> = map (\<lambda>i. (int (intervalWidth * i), length (filter (in_bin i) gs))) [?a..<?b + 1]"
    using b bins by (intro map_cong) auto
  finally show ?thesis .
qed

theorem histogram_counts_witness:
  "\<exists>h. add_all [25000, 48000, 21000] new_GasHistogram = Inr h
    \<and> getResults h = [(20000, 2), (30000, 0), (40000, 1)]"
proof -
  obtain h where h: "add_all [25000, 48000, 21000] new_GasHistogram = Inr h"
    using add_all_bins [of "[25000, 48000, 21000]" new_GasHistogram]
    by (auto simp: intervalWidth_def numberOfBins_def new_GasHistogram_def)
  have "[2..<5] = [2, 3, 4 :: nat]" by (simp add: upt_rec)
  with histogram_counts [OF h] show ?thesis
    by (intro exI [of _ h] conjI h) (simp add: intervalWidth_def numberOfBins_def in_bin_def)
qed

text \<open>
  A histogram without a successful transaction reports one interval all the same, the one
  below zero gas: both searches give -1, and the slice takes the last bin.
\<close>

theorem empty_histogram_reports:
  "getResults (new_GasHistogram\<lparr>expectedFailures := m, outOfGasFailures := n\<rparr>) = [(- 10000, 0)]"
proof -
  have "js_findIndex (\<lambda>x. 0 < x) (replicate numberOfBins (0 :: nat)) = -1"
  proof -
    have "List.find (\<lambda>i. 0 < replicate numberOfBins (0 :: nat) ! i) [0..<numberOfBins] = None"
      by (auto simp: find_None_iff)
    then show ?thesis by (simp add: js_findIndex_def)
  qed
  moreover have "js_slice (-1) (int numberOfBins - -1) (replicate numberOfBins (0 :: nat)) = [0]"
    by (simp add: js_slice_def js_slice_index_def numberOfBins_def)
  ultimately show ?thesis
    by (simp add: getResults_def new_GasHistogram_def Let_def intervalWidth_def)
qed

text \<open>A transaction is sent \<open>times + 1\<close> times at most.\<close>

lemma retry_bounded: "retry_from n m sendTx = Inr (r, receipt) \<Longrightarrow> n \<le> r \<and> r \<le> n + m"
proof (induction n m sendTx rule: retry_from.induct)
  case (1 n m sendTx)
  then show ?case
    by (subst (asm) retry_from.simps [of n]) (fastforce simp: result_bind_Inr split: if_splits)
qed

end
