(* ===== verification/Ethers_Deployment.thy ===== *)
theory Ethers_Deployment
  imports Ethers_Connection Ethers_Readable Decimal_Pow
begin

text \<open>
  Deploying the protocol: \<^verbatim>\<open>packages/lib-ethers/utils/deploy.ts\<close> and
  \<^verbatim>\<open>packages/lib-ethers/utils/UniswapV2Factory.ts\<close>.

  The chain, as the deployer sees it, is an element of \<open>'c\<close>; what ethers, the upgrades plugin
  of hardhat and the file system do is the record \<open>deploy_env\<close>.  A transaction that is sent
  and waited for takes a chain to a chain, or throws.  The files of earlier deployments map a
  deployment key to an address.  Logging is not modelled.
\<close>

section \<open>The environment\<close>

datatype deploy_arg = Text string | Num nat | Undefined | Texts "string list" | Flag bool

record 'c deploy_env =
  de_USE_DEPLOYED_CONTRACTS :: "string option"
  de_LIQUIDATION_RESERVE :: "string option"
  de_MINIMUM_NET_DEBT :: "string option"
  de_hasProvider :: bool
  de_getAddress :: string
  de_getChainId :: nat
  de_now :: int
  de_randomAddress :: string
  de_outputs :: "string \<Rightarrow> (string \<rightharpoonup> string) result"
  de_getTransactionCount :: "'c \<Rightarrow> nat"
  de_getContractAddress :: "string \<Rightarrow> nat \<Rightarrow> string"
  de_deploy :: "string \<Rightarrow> deploy_arg list \<Rightarrow> 'c \<Rightarrow> ('c \<times> string \<times> nat) result"
  de_deployProxy :: "string \<Rightarrow> deploy_arg list \<Rightarrow> deploy_arg list \<Rightarrow> 'c \<Rightarrow> ('c \<times> string \<times> nat) result"
  de_send :: "string \<Rightarrow> string \<Rightarrow> deploy_arg list \<Rightarrow> 'c \<Rightarrow> 'c result"
  de_read :: "string \<Rightarrow> string \<Rightarrow> 'c \<Rightarrow> nat result"
  de_getPair :: "string \<Rightarrow> string \<Rightarrow> string \<Rightarrow> 'c \<Rightarrow> string result"
  de_createPair :: "string \<Rightarrow> string \<Rightarrow> string \<Rightarrow> 'c \<Rightarrow> ('c \<times> string list) result"

text \<open>The constants of the module; \<open>??\<close> keeps an empty string.\<close>

definition useDeployedContracts :: "'c deploy_env \<Rightarrow> bool" where
  "useDeployedContracts env \<longleftrightarrow>
     js_toLowerCase (case de_USE_DEPLOYED_CONTRACTS env of Some s \<Rightarrow> s | None \<Rightarrow> ''false'')
       \<notin> set [''false'', ''no'', ''0'']"

definition scaled_by_18 :: "decimalish \<Rightarrow> string result" where
  "scaled_by_18 factor =
     result_bind (from_ish (DNumber ''10'')) (\<lambda>ten.
     result_bind (pow ten 18) (\<lambda>x.
     result_map showDecimal (with_ish (mul_dec x) factor)))"

definition env_default :: "string option \<Rightarrow> string \<Rightarrow> decimalish" where
  "env_default v n = (case v of Some s \<Rightarrow> DString s | None \<Rightarrow> DNumber n)"

record deploy_constants =
  gasCompensation :: string
  minNetDebt :: string

definition load_deploy_constants :: "'c deploy_env \<Rightarrow> deploy_constants result" where
  "load_deploy_constants env =
     result_bind (scaled_by_18 (env_default (de_LIQUIDATION_RESERVE env) ''20'')) (\<lambda>gas.
     result_map (\<lambda>minNet. \<lparr>gasCompensation = gas, minNetDebt = minNet\<rparr>)
       (scaled_by_18 (env_default (de_MINIMUM_NET_DEBT env) ''180'')))"

definition deploy_bootstrapPeriod :: nat where
  "deploy_bootstrapPeriod = 14 * 24 * 60 * 60"

section \<open>Deploying one contract\<close>

definition deployContractAndGetBlockNumber ::
  "bool \<Rightarrow> 'c deploy_env \<Rightarrow> string \<Rightarrow> string \<Rightarrow> string \<Rightarrow> deploy_arg list \<Rightarrow> deploy_arg list \<Rightarrow>
     'c \<Rightarrow> ('c \<times> string \<times> nat) result" where
  "deployContractAndGetBlockNumber isProxy env networkName contractName deploymentKey
       constructorArgs initializationArgs c =
     (if useDeployedContracts env \<and> deploymentKey \<noteq> [] then
        result_bind (de_outputs env networkName) (\<lambda>deployments.
          case deployments deploymentKey of
            None \<Rightarrow> Inl (TypeError ''Cannot read properties of undefined'')
          | Some contractAddress \<Rightarrow> Inr (c, contractAddress, 0))
      else if isProxy then de_deployProxy env contractName initializationArgs constructorArgs c
      else de_deploy env contractName constructorArgs c)"

definition deployContract ::
  "'c deploy_env \<Rightarrow> string \<Rightarrow> string \<Rightarrow> string \<Rightarrow> deploy_arg list \<Rightarrow> 'c \<Rightarrow> ('c \<times> string) result" where
  "deployContract env networkName contractName deploymentKey constructorArgs c =
     result_map (\<lambda>(c, a, _). (c, a))
       (deployContractAndGetBlockNumber False env networkName contractName deploymentKey constructorArgs [] c)"

definition deployProxyContract ::
  "'c deploy_env \<Rightarrow> string \<Rightarrow> string \<Rightarrow> string \<Rightarrow> deploy_arg list \<Rightarrow> deploy_arg list \<Rightarrow> 'c \<Rightarrow> ('c \<times> string) result" where
  "deployProxyContract env networkName contractName deploymentKey constructorArgs initializationArgs c =
     result_map (\<lambda>(c, a, _). (c, a))
       (deployContractAndGetBlockNumber True env networkName contractName deploymentKey constructorArgs
          initializationArgs c)"

section \<open>The addresses computed beforehand\<close>

definition proxyContractList :: "string list" where
  "proxyContractList =
     [''activePool'', ''troveManager'', ''stabilityPool'', ''borrowerOperations'', ''collSurplusPool'',
      ''communityIssuance'', ''defaultPool'', ''hintHelpers'', ''lockupContractFactory'',
      ''protocolTokenStaking'', ''priceFeed'', ''sortedTroves'', ''gasPool'', ''unipool'',
      ''debtToken'', ''protocolToken'']"

definition computeContractAddresses :: "'c deploy_env \<Rightarrow> nat \<Rightarrow> 'c \<Rightarrow> string list" where
  "computeContractAddresses env count c =
     (let transactionCount = de_getTransactionCount env c
      in map (\<lambda>i. de_getContractAddress env (de_getAddress env) (transactionCount + i)) [0..<count])"

text \<open>\<open>addressList.shift()\<close>: what it returns, and what it leaves in the list.\<close>

fun js_shift :: "'a list \<Rightarrow> 'a option \<times> 'a list" where
  "js_shift [] = (None, [])"
| "js_shift (x # xs) = (Some x, xs)"

fun assign_addresses :: "string list \<Rightarrow> string list \<Rightarrow> (string \<rightharpoonup> string) \<Rightarrow> (string \<rightharpoonup> string)" where
  "assign_addresses [] addressList acc = acc"
| "assign_addresses (contract # contracts) addressList acc =
     (let (_, addressList) = js_shift addressList;
          (a, addressList) = js_shift addressList
      in assign_addresses contracts addressList (acc(contract := a)))"

definition precomputed :: "'c deploy_env \<Rightarrow> 'c \<Rightarrow> (string \<rightharpoonup> string)" where
  "precomputed env c =
     (let addressList = computeContractAddresses env (length proxyContractList * 2 + 1) c;
          (_, addressList) = js_shift addressList
      in assign_addresses proxyContractList addressList Map.empty)"

definition cp :: "(string \<rightharpoonup> string) \<Rightarrow> string \<Rightarrow> deploy_arg" where
  "cp cpContracts key = (case cpContracts key of Some a \<Rightarrow> Text a | None \<Rightarrow> Undefined)"

section \<open>Deploying all of them\<close>

definition deployMockContracts :: "'c deploy_env \<Rightarrow> string \<Rightarrow> 'c \<Rightarrow> ('c \<times> string \<times> string) result" where
  "deployMockContracts env networkName c =
     result_bind (deployContract env networkName ''MockAggregator'' ''mockAggregator'' [] c) (\<lambda>(c, mockAggregator).
     result_bind (deployContract env networkName ''MockTellor'' ''mockTellor'' [] c) (\<lambda>(c, mockTellor).
     result_bind (scaled_by_18 (DNumber ''200'')) (\<lambda>p.
     result_bind (de_send env mockAggregator ''setPrice'' [Text p] c) (\<lambda>c.
     result_bind (de_send env mockAggregator ''setDecimals'' [Num 18] c) (\<lambda>c.
     result_bind (de_send env mockAggregator ''setLatestRoundId'' [Num 1] c) (\<lambda>c.
     result_map (\<lambda>c. (c, mockAggregator, mockTellor))
       (de_send env mockAggregator ''setUseBlockTimestamp'' [Flag True] c)))))))"

text \<open>
  One deployment of the list that follows: the field of the addresses it gives, whether it is
  a proxy, the contract's name, and its constructor's and initializer's arguments.  The
  deployment key is the name of the field throughout.
\<close>

record deploy_step =
  step_key :: string
  step_isProxy :: bool
  step_contract :: string
  step_constructorArgs :: "deploy_arg list"
  step_initializationArgs :: "deploy_arg list"

definition proxy_step :: "string \<Rightarrow> string \<Rightarrow> deploy_arg list \<Rightarrow> deploy_arg list \<Rightarrow> deploy_step" where
  "proxy_step key contract constructorArgs initializationArgs =
     \<lparr>step_key = key, step_isProxy = True, step_contract = contract,
      step_constructorArgs = constructorArgs, step_initializationArgs = initializationArgs\<rparr>"

definition plain_step :: "string \<Rightarrow> string \<Rightarrow> deploy_arg list \<Rightarrow> deploy_step" where
  "plain_step key contract constructorArgs =
     \<lparr>step_key = key, step_isProxy = False, step_contract = contract,
      step_constructorArgs = constructorArgs, step_initializationArgs = []\<rparr>"

definition deploy_steps ::
  "'c deploy_env \<Rightarrow> deploy_constants \<Rightarrow> (string \<rightharpoonup> string) \<Rightarrow> string \<Rightarrow> string \<Rightarrow> bool \<Rightarrow> deploy_step list" where
  "deploy_steps env k cpContracts mockAggregator mockTellor feedIsTestnet =
     (let a = cp cpContracts;
          gas = Text (gasCompensation k);
          minNet = Text (minNetDebt k)
      in [proxy_step ''activePool'' ''ActivePool'' []
            [a ''borrowerOperations'', a ''troveManager'', a ''stabilityPool'', a ''defaultPool''],
          proxy_step ''troveManager'' ''TroveManager'' [gas, minNet, Num deploy_bootstrapPeriod]
            [a ''borrowerOperations'', a ''activePool'', a ''defaultPool'', a ''stabilityPool'', a ''gasPool'',
             a ''collSurplusPool'', a ''priceFeed'', a ''debtToken'', a ''sortedTroves'', a ''protocolTokenStaking''],
          proxy_step ''stabilityPool'' ''StabilityPool'' [gas, minNet]
            [a ''borrowerOperations'', a ''troveManager'', a ''activePool'', a ''debtToken'', a ''sortedTroves'',
             a ''priceFeed'', a ''communityIssuance''],
          proxy_step ''borrowerOperations'' ''BorrowerOperations'' [gas, minNet]
            [a ''troveManager'', a ''activePool'', a ''defaultPool'', a ''stabilityPool'', a ''gasPool'',
             a ''collSurplusPool'', a ''priceFeed'', a ''sortedTroves'', a ''debtToken'', a ''protocolTokenStaking''],
          proxy_step ''collSurplusPool'' ''CollSurplusPool'' []
            [a ''borrowerOperations'', a ''troveManager'', a ''activePool''],
          proxy_step ''communityIssuance'' ''CommunityIssuance'' [] [a ''protocolToken'', a ''stabilityPool''],
          proxy_step ''defaultPool'' ''DefaultPool'' [] [a ''troveManager'', a ''activePool''],
          proxy_step ''hintHelpers'' ''HintHelpers'' [gas, minNet] [a ''sortedTroves'', a ''troveManager''],
          proxy_step ''lockupContractFactory'' ''LockupContractFactory'' [] [a ''protocolToken''],
          proxy_step ''protocolTokenStaking'' ''ProtocolTokenStaking'' []
            [a ''protocolToken'', a ''debtToken'', a ''troveManager'', a ''borrowerOperations'', a ''activePool''],
          proxy_step ''priceFeed'' (if feedIsTestnet then ''MockPriceFeed'' else ''PriceFeed'')
            [Num (24 * 60 * 60)] [Text mockAggregator, Text mockTellor],
          proxy_step ''sortedTroves'' ''SortedTroves'' [] [Num 1000000, a ''troveManager'', a ''borrowerOperations''],
          proxy_step ''gasPool'' ''GasPool'' [] [],
          proxy_step ''unipool'' ''Unipool'' [] [],
          proxy_step ''debtToken'' ''DebtToken'' [] [a ''troveManager'', a ''stabilityPool'', a ''borrowerOperations''],
          proxy_step ''protocolToken'' ''ProtocolToken'' []
            [a ''protocolTokenStaking'', Text (de_getAddress env), Text ''1000''],
          plain_step ''multiTroveGetter'' ''MultiTroveGetter'' [a ''troveManager'', a ''sortedTroves''],
          plain_step ''usdfcView'' ''USDFCView'' [a ''troveManager'', a ''sortedTroves'']])"

text \<open>The awaits in the order they are written; the address and block number of each.\<close>

fun run_steps ::
  "'c deploy_env \<Rightarrow> string \<Rightarrow> deploy_step list \<Rightarrow> 'c \<Rightarrow> ('c \<times> (string \<times> string \<times> nat) list) result" where
  "run_steps env networkName [] c = Inr (c, [])"
| "run_steps env networkName (s # steps) c =
     result_bind (deployContractAndGetBlockNumber (step_isProxy s) env networkName (step_contract s) (step_key s)
         (step_constructorArgs s) (step_initializationArgs s) c) (\<lambda>(c, a, block).
     result_map (\<lambda>(c, rest). (c, (step_key s, a, block) # rest)) (run_steps env networkName steps c))"

definition deployContracts ::
  "'c deploy_env \<Rightarrow> deploy_constants \<Rightarrow> string \<Rightarrow> bool \<Rightarrow> 'c \<Rightarrow> ('c \<times> (string \<times> string) list \<times> nat) result" where
  "deployContracts env k networkName feedIsTestnet c =
     result_bind (deployMockContracts env networkName c) (\<lambda>(c, mockAggregator, mockTellor).
     result_map (\<lambda>(c, deployed). (c, map (\<lambda>(key, a, _). (key, a)) deployed, snd (snd (hd deployed))))
       (run_steps env networkName
          (deploy_steps env k (precomputed env c) mockAggregator mockTellor feedIsTestnet) c))"

section \<open>The Uniswap pair\<close>

text \<open>
  What \<open>!==\<close> compares: an address is a string, \<open>ethers.constants.Zero\<close> an object, a
  \<open>BigNumber\<close>.
\<close>

datatype js_value = JString string | JBigNumber nat

fun js_strict_equal :: "js_value \<Rightarrow> js_value \<Rightarrow> bool" where
  "js_strict_equal (JString a) (JString b) \<longleftrightarrow> a = b"
| "js_strict_equal _ _ \<longleftrightarrow> False"

definition constants_Zero :: js_value where
  "constants_Zero = JBigNumber 0"

definition factoryAddress :: string where
  "factoryAddress = ''0x9B3336186a38E1b6c21955d112dbb0343Ee061eE''"

definition hasFactory :: "nat \<Rightarrow> bool" where
  "hasFactory chain \<longleftrightarrow> chain \<in> set [314]"

text \<open>\<open>de_createPair\<close> is the transaction with the \<open>pair\<close> of each \<open>PairCreated\<close> of its receipt.\<close>

definition createUniswapV2Pair :: "'c deploy_env \<Rightarrow> string \<Rightarrow> string \<Rightarrow> 'c \<Rightarrow> ('c \<times> string) result" where
  "createUniswapV2Pair env tokenA tokenB c =
     (if \<not> hasFactory (de_getChainId env)
      then Inl (Error (''UniswapV2Factory is not deployed on this network (chainId = ''
                       @ show_nat (de_getChainId env) @ '')''))
      else
        result_bind (de_getPair env factoryAddress tokenA tokenB c) (\<lambda>pairAddr.
          if \<not> js_strict_equal (JString pairAddr) constants_Zero then Inr (c, pairAddr)
          else
            result_bind (de_createPair env factoryAddress tokenA tokenB c) (\<lambda>(c, pairs).
              js_assert (length pairs = 1) (Inr (c, hd pairs)))))"

section \<open>Deploying and setting up\<close>

definition deployMockUniToken :: "'c deploy_env \<Rightarrow> string \<Rightarrow> 'c \<Rightarrow> ('c \<times> string) result" where
  "deployMockUniToken env networkName c =
     deployProxyContract env networkName ''ERC20Mock'' []
       [Text ''Mock Uniswap V2'', Text ''UNI-V2'', Text (de_randomAddress env), Num 0] [] c"

text \<open>The address of one of the contracts connected to; every key of the deployment has one.\<close>

definition contract_at :: "(string \<times> string) list \<Rightarrow> string \<Rightarrow> string result" where
  "contract_at contracts key =
     (case map_of contracts key of
        Some a \<Rightarrow> Inr a
      | None \<Rightarrow> Inl (TypeError ''Cannot read properties of undefined''))"

definition connectUniswapPoolContract :: "'c deploy_env \<Rightarrow> (string \<times> string) list \<Rightarrow> 'c \<Rightarrow> 'c result" where
  "connectUniswapPoolContract env contracts c =
     (if \<not> de_hasProvider env then Inl (Error ''Signer must have a provider.'')
      else
        result_bind (contract_at contracts ''protocolToken'') (\<lambda>protocolToken.
        result_bind (contract_at contracts ''unipool'') (\<lambda>pool.
        result_bind (contract_at contracts ''uniToken'') (\<lambda>uniToken.
          de_send env pool ''setParams'' [Text protocolToken, Text uniToken, Num (2 * 30 * 24 * 60 * 60)] c))))"

definition initial_allocation :: "'c deploy_env \<Rightarrow> (string \<times> string) list \<Rightarrow> 'c \<Rightarrow> 'c result" where
  "initial_allocation env contracts c =
     (if useDeployedContracts env then Inr c
      else
        result_bind (contract_at contracts ''protocolToken'') (\<lambda>protocolToken.
        result_bind (contract_at contracts ''communityIssuance'') (\<lambda>issuance.
        result_bind (contract_at contracts ''unipool'') (\<lambda>pool.
        result_bind (de_send env protocolToken ''triggerInitialAllocation''
            [Texts [issuance, pool], Texts [''10000000000000000000000000'', ''1300000000000000000000000'']] c) (\<lambda>c.
        result_bind (de_read env protocolToken ''totalSupply'' c) (\<lambda>totalSupply.
          if 0 < totalSupply then connectUniswapPoolContract env contracts c else Inr c))))))"

text \<open>\<open>wethAddress\<close> is optional, and an empty one is falsy.\<close>

definition deployUniToken :: "'c deploy_env \<Rightarrow> string \<Rightarrow> string option \<Rightarrow> (string \<times> string) list \<Rightarrow> 'c \<Rightarrow> ('c \<times> string) result" where
  "deployUniToken env networkName wethAddress addresses c =
     (case wethAddress of
        Some weth \<Rightarrow>
          if weth = [] then deployMockUniToken env networkName c
          else result_bind (contract_at addresses ''debtToken'') (\<lambda>debtToken.
                 createUniswapV2Pair env weth debtToken c)
      | None \<Rightarrow> deployMockUniToken env networkName c)"

definition read_number :: "'c deploy_env \<Rightarrow> (string \<times> string) list \<Rightarrow> string \<Rightarrow> string \<Rightarrow> 'c \<Rightarrow> nat result" where
  "read_number env contracts key method c = result_bind (contract_at contracts key) (\<lambda>a. de_read env a method c)"

definition deployAndSetupContracts ::
  "'c deploy_env \<Rightarrow> deploy_constants \<Rightarrow> bool \<Rightarrow> string \<Rightarrow> string option \<Rightarrow> 'c \<Rightarrow> ('c \<times> deployment) result" where
  "deployAndSetupContracts env k feedIsTestnet networkName wethAddress c =
     (if \<not> de_hasProvider env then Inl (Error ''Signer must have a provider.'')
      else
        result_bind (deployContracts env k networkName feedIsTestnet c) (\<lambda>(c, addresses, start).
        result_bind (deployUniToken env networkName wethAddress addresses c) (\<lambda>(c, uniToken).
        let contracts = addresses @ [(''uniToken'', uniToken)];
            dep = \<lparr>chainId = de_getChainId env, deployment_addresses = contracts, version = ''unknown'',
                   deploymentDate = de_now env, startBlock = start, bootstrapPeriod = 0,
                   dep_totalStabilityPoolProtocolTokenReward = ''0'',
                   dep_liquidityMiningProtocolTokenRewardRate = ''0'',
                   priceFeedIsTestnet = feedIsTestnet,
                   uniTokenIsMock = (case wethAddress of Some weth \<Rightarrow> weth = [] | None \<Rightarrow> True),
                   isDev = (networkName = ''dev'')\<rparr>
        in
        result_bind (initial_allocation env contracts c) (\<lambda>c.
        result_bind (read_number env contracts ''troveManager'' ''deploymentStartTime'' c) (\<lambda>startTime.
        result_bind (read_number env contracts ''troveManager'' ''BOOTSTRAP_PERIOD'' c) (\<lambda>bootstrap.
        result_bind (read_number env contracts ''communityIssuance'' ''protocolTokenSupplyCap'' c) (\<lambda>supplyCap.
        result_bind (read_number env contracts ''unipool'' ''rewardRate'' c) (\<lambda>rate.
        result_bind (numberify startTime) (\<lambda>startTime.
        result_bind (numberify bootstrap) (\<lambda>bootstrap.
        result_bind (decimalify supplyCap) (\<lambda>supplyCap.
        result_map (\<lambda>rate. (c, dep\<lparr>deploymentDate := startTime * 1000, bootstrapPeriod := nat bootstrap,
             dep_totalStabilityPoolProtocolTokenReward := showDecimal supplyCap,
             dep_liquidityMiningProtocolTokenRewardRate := showDecimal rate\<rparr>))
          (decimalify rate))))))))))))"

section \<open>Where the contracts end up\<close>

text \<open>
  What ethers and the upgrades plugin document: every transaction of an account takes its next
  nonce, the address of a contract follows from the account and the nonce that creates it,
  and deploying a proxy creates the implementation and the proxy after it, and between them
  the network's admin contract if the plugin has not deployed it before.
\<close>

definition counts_nonces :: "'c deploy_env \<Rightarrow> ('c \<Rightarrow> bool) \<Rightarrow> bool" where
  "counts_nonces env hasAdmin \<longleftrightarrow>
     (\<forall>name args c c' a b. de_deploy env name args c = Inr (c', a, b) \<longrightarrow>
        de_getTransactionCount env c' = de_getTransactionCount env c + 1 \<and> hasAdmin c' = hasAdmin c) \<and>
     (\<forall>name inits args c c' a b. de_deployProxy env name inits args c = Inr (c', a, b) \<longrightarrow>
        (let last = de_getTransactionCount env c + (if hasAdmin c then 1 else 2)
         in de_getTransactionCount env c' = last + 1 \<and> hasAdmin c' \<and>
            a = de_getContractAddress env (de_getAddress env) last)) \<and>
     (\<forall>a method args c c'. de_send env a method args c = Inr c' \<longrightarrow> hasAdmin c' = hasAdmin c)"

lemma counts_nonces_deploy:
  "counts_nonces env hasAdmin \<Longrightarrow> de_deploy env name args c = Inr (c', a, b) \<Longrightarrow> hasAdmin c' = hasAdmin c"
  unfolding counts_nonces_def by blast

lemma counts_nonces_send:
  "counts_nonces env hasAdmin \<Longrightarrow> de_send env a method args c = Inr c' \<Longrightarrow> hasAdmin c' = hasAdmin c"
  by (simp add: counts_nonces_def)

lemma counts_nonces_proxy:
  assumes "counts_nonces env hasAdmin" and "de_deployProxy env name inits args c = Inr (c', a, b)"
    and "m = de_getTransactionCount env c + (if hasAdmin c then 0 else 1)"
  shows "de_getTransactionCount env c' = m + 2" and "hasAdmin c'"
    and "a = de_getContractAddress env (de_getAddress env) (m + 1)"
proof -
  from assms(1,2) have "let last = de_getTransactionCount env c + (if hasAdmin c then 1 else 2)
         in de_getTransactionCount env c' = last + 1 \<and> hasAdmin c' \<and>
            a = de_getContractAddress env (de_getAddress env) last"
    unfolding counts_nonces_def by blast
  with assms(3) show "de_getTransactionCount env c' = m + 2" and "hasAdmin c'"
    and "a = de_getContractAddress env (de_getAddress env) (m + 1)"
    by (auto simp: Let_def split: if_splits)
qed

lemma assign_other: "k \<notin> set ks \<Longrightarrow> assign_addresses ks addrs acc k = acc k"
  by (induction ks addrs acc rule: assign_addresses.induct) (auto split: prod.splits)

lemma assign_step:
  "assign_addresses (k # ks) (map f [m..<m + 2 * Suc n]) acc =
     assign_addresses ks (map f [m + 2..<m + 2 + 2 * n]) (acc(k \<mapsto> f (m + 1)))"
proof -
  have "[m..<m + 2 * Suc n] = m # (m + 1) # [m + 2..<m + 2 + 2 * n]"
    by (simp add: upt_conv_Cons)
  then show ?thesis by simp
qed

text \<open>Contract number \<open>i\<close> is assigned the second of the \<open>i\<close>-th pair of addresses.\<close>

lemma assigned_odd:
  "k \<in> set ks \<Longrightarrow> distinct ks \<Longrightarrow>
     \<exists>i. \<forall>f m acc. assign_addresses ks (map f [m..<m + 2 * length ks]) acc k = Some (f (m + 2 * i + 1))"
proof (induction ks)
  case (Cons x ks)
  show ?case
  proof (cases "k = x")
    case True
    with Cons.prems show ?thesis
      unfolding length_Cons assign_step by (intro exI [of _ 0]) (simp add: assign_other)
  next
    case False
    with Cons obtain i where
      i: "assign_addresses ks (map f [m..<m + 2 * length ks]) acc k = Some (f (m + 2 * i + 1))" for f m acc
      by auto
    have "assign_addresses (x # ks) (map f [m..<m + 2 * length (x # ks)]) acc k = Some (f (m + 2 * Suc i + 1))"
      for f m acc
      unfolding length_Cons assign_step i [of f "m + 2"] by (simp add: numeral_eq_Suc)
    then show ?thesis by blast
  qed
qed simp

text \<open>
  Deploying proxies one after the other gives them the addresses assigned to them, from the
  next nonce on, or the one after it when the admin contract is still to come.
\<close>

lemma proxies_assigned:
  assumes "counts_nonces env hasAdmin" and "\<not> useDeployedContracts env"
  shows "run_steps env networkName steps c = Inr (c', ds) \<Longrightarrow> list_all step_isProxy steps \<Longrightarrow>
    m = de_getTransactionCount env c + (if hasAdmin c then 0 else 1) \<Longrightarrow>
    map_of (rev (map (\<lambda>(k, a, _). (k, a)) ds)) k =
      assign_addresses (map step_key steps)
        (map (de_getContractAddress env (de_getAddress env)) [m..<m + 2 * length steps]) Map.empty k"
proof -
  have "run_steps env networkName steps c = Inr (c', ds) \<Longrightarrow> list_all step_isProxy steps \<Longrightarrow>
    m = de_getTransactionCount env c + (if hasAdmin c then 0 else 1) \<Longrightarrow>
    assign_addresses (map step_key steps)
        (map (de_getContractAddress env (de_getAddress env)) [m..<m + 2 * length steps]) acc k =
    (acc ++ map_of (rev (map (\<lambda>(k, a, _). (k, a)) ds))) k" for acc
  proof (induction steps arbitrary: c m acc ds)
    case (Cons s steps)
    from Cons.prems assms(2) obtain c1 a b ds' where
      one: "de_deployProxy env (step_contract s) (step_initializationArgs s) (step_constructorArgs s) c = Inr (c1, a, b)"
      and rest: "run_steps env networkName steps c1 = Inr (c', ds')" and ds: "ds = (step_key s, a, b) # ds'"
      by (auto simp: result_simps deployContractAndGetBlockNumber_def)
    note first = counts_nonces_proxy [OF assms(1) one Cons.prems(3)]
    have "m + 2 = de_getTransactionCount env c1 + (if hasAdmin c1 then 0 else 1)"
      using first by simp
    from Cons.IH [OF rest _ this] Cons.prems(2) first(3) show ?case
      unfolding list.map(2) length_Cons assign_step by (simp add: ds map_add_upd_left)
  qed simp
  from this [of Map.empty] show "run_steps env networkName steps c = Inr (c', ds) \<Longrightarrow> list_all step_isProxy steps \<Longrightarrow>
    m = de_getTransactionCount env c + (if hasAdmin c then 0 else 1) \<Longrightarrow>
    map_of (rev (map (\<lambda>(k, a, _). (k, a)) ds)) k =
      assign_addresses (map step_key steps)
        (map (de_getContractAddress env (de_getAddress env)) [m..<m + 2 * length steps]) Map.empty k" by simp
qed

lemma run_steps_append:
  "run_steps env networkName (xs @ ys) c = Inr (c', fs) \<Longrightarrow>
     \<exists>c1 ds es. run_steps env networkName xs c = Inr (c1, ds) \<and> run_steps env networkName ys c1 = Inr (c', es) \<and>
       fs = ds @ es"
  by (induction xs arbitrary: c fs) (fastforce simp: result_simps)+

lemma run_steps_keys: "run_steps env networkName steps c = Inr (c', ds) \<Longrightarrow> map fst ds = map step_key steps"
  by (induction steps arbitrary: c c' ds) (auto simp: result_simps)

lemma map_of_rev_distinct: "distinct (map fst xs) \<Longrightarrow> map_of (rev xs) = map_of xs"
  by (rule ext, rule option.expand) (auto simp: map_of_eq_None_iff map_of_eq_Some_iff rev_map [symmetric])

lemma proxyContractList_distinct: "distinct proxyContractList"
  by (simp add: proxyContractList_def)

lemma step_simps:
  "step_isProxy (proxy_step key contract args inits)" "step_key (proxy_step key contract args inits) = key"
  "step_key (plain_step key contract args) = key"
  by (simp_all add: proxy_step_def plain_step_def)

lemma deploy_steps_split:
  "\<exists>ps qs. deploy_steps env k cps agg tel feed = ps @ qs \<and> list_all step_isProxy ps \<and>
     map step_key ps = proxyContractList \<and> map step_key qs = [''multiTroveGetter'', ''usdfcView'']"
  by (rule exI [of _ "take 16 (deploy_steps env k cps agg tel feed)"],
      rule exI [of _ "drop 16 (deploy_steps env k cps agg tel feed)"])
    (simp add: deploy_steps_def Let_def step_simps proxyContractList_def)

lemma precomputed_eq:
  "precomputed env c = assign_addresses proxyContractList
     (map (de_getContractAddress env (de_getAddress env))
        [de_getTransactionCount env c + 1..<de_getTransactionCount env c + 1 + 2 * length proxyContractList]) Map.empty"
proof -
  let ?f = "de_getContractAddress env (de_getAddress env)" and ?n = "de_getTransactionCount env c"
  have "computeContractAddresses env (length proxyContractList * 2 + 1) c
      = map ?f [?n..<?n + (length proxyContractList * 2 + 1)]"
    by (rule nth_equalityI) (simp_all add: computeContractAddresses_def Let_def del: upt_Suc)
  also have "\<dots> = ?f ?n # map ?f [?n + 1..<?n + 1 + 2 * length proxyContractList]"
    by (subst upt_conv_Cons) (simp_all add: mult.commute del: upt_Suc)
  finally show ?thesis by (simp add: precomputed_def)
qed

lemma deployed_addresses:
  assumes "counts_nonces env hasAdmin" and "\<not> useDeployedContracts env"
    and "deployContracts env k networkName feed c = Inr (c', addresses, start)"
    and "skip = (if hasAdmin c then 0 else 1)"
  obtains c1 agg tel where "deployMockContracts env networkName c = Inr (c1, agg, tel)"
    and "hasAdmin c1 = hasAdmin c"
    and "\<And>key. key \<in> set proxyContractList \<Longrightarrow> map_of addresses key =
      assign_addresses proxyContractList (map (de_getContractAddress env (de_getAddress env))
        [de_getTransactionCount env c1 + skip..<
         de_getTransactionCount env c1 + skip + 2 * length proxyContractList]) Map.empty key"
proof -
  from assms(3) obtain c1 agg tel fs where mocks: "deployMockContracts env networkName c = Inr (c1, agg, tel)"
    and run: "run_steps env networkName (deploy_steps env k (precomputed env c1) agg tel feed) c1 = Inr (c', fs)"
    and addresses: "addresses = map (\<lambda>(k, a, _). (k, a)) fs"
    by (auto simp: deployContracts_def result_simps)
  from mocks assms(2) have admin: "hasAdmin c1 = hasAdmin c"
    by (auto simp: deployMockContracts_def deployContract_def deployContractAndGetBlockNumber_def result_simps
        dest!: counts_nonces_deploy [OF assms(1)] counts_nonces_send [OF assms(1)])
  obtain ps qs where split: "deploy_steps env k (precomputed env c1) agg tel feed = ps @ qs"
    and ps: "list_all step_isProxy ps" "map step_key ps = proxyContractList"
    and qs: "map step_key qs = [''multiTroveGetter'', ''usdfcView'']"
    using deploy_steps_split [of env k "precomputed env c1" agg tel feed] by (elim exE conjE) (rule that)
  from run_steps_append [OF run [unfolded split]] obtain c2 ds es
    where ds: "run_steps env networkName ps c1 = Inr (c2, ds)"
      and es: "run_steps env networkName qs c2 = Inr (c', es)" and fs: "fs = ds @ es"
    by (elim exE conjE) (rule that)
  let ?g = "\<lambda>(k, a, _). (k, a)"
  have fst_g: "map fst (map ?g xs) = map fst xs" for xs :: "(string \<times> string \<times> nat) list" by (induction xs) auto
  have "length ps = length proxyContractList" by (metis ps(2) length_map)
  note assigned = proxies_assigned [OF assms(1,2) ds ps(1) refl, unfolded ps(2) this admin assms(4) [symmetric]]
  have rev: "map_of (rev (map ?g ds)) = map_of (map ?g ds)"
    by (rule map_of_rev_distinct) (simp only: fst_g run_steps_keys [OF ds] ps(2) proxyContractList_distinct)
  have "map_of addresses key = map_of (map ?g ds) key" if "key \<in> set proxyContractList" for key
  proof -
    have "key \<notin> set (map fst (map ?g es))"
      using that unfolding fst_g run_steps_keys [OF es] qs by (auto simp: proxyContractList_def)
    then have "map_of (map ?g es) key = None" by (simp only: map_of_eq_None_iff set_map not_False_eq_True)
    then show ?thesis by (simp add: addresses fs map_add_def split: option.split)
  qed
  with assigned mocks admin show thesis by (intro that) (simp_all flip: rev)
qed

text \<open>An environment where every transaction succeeds: a chain is the nonce and whether there is an admin contract.\<close>

definition sample_deploy_env :: "(nat \<times> bool) deploy_env" where
  "sample_deploy_env =
     \<lparr>de_USE_DEPLOYED_CONTRACTS = None, de_LIQUIDATION_RESERVE = None, de_MINIMUM_NET_DEBT = None,
      de_hasProvider = True, de_getAddress = ''0xd'', de_getChainId = 314159, de_now = 0,
      de_randomAddress = ''0xe'', de_outputs = (\<lambda>_. Inr Map.empty), de_getTransactionCount = fst,
      de_getContractAddress = (\<lambda>_. show_nat),
      de_deploy = (\<lambda>_ _ (n, admin). Inr ((n + 1, admin), show_nat n, n)),
      de_deployProxy = (\<lambda>_ _ _ (n, admin).
        let last = n + (if admin then 1 else 2) in Inr ((last + 1, True), show_nat last, last)),
      de_send = (\<lambda>_ _ _ (n, admin). Inr (n + 1, admin)),
      de_read = (\<lambda>_ _ _. Inr 0), de_getPair = (\<lambda>_ _ _ _. Inr AddressZero),
      de_createPair = (\<lambda>_ _ _ c. Inr (c, [''0xf'']))\<rparr>"

lemma sample_deploy_simps:
  "de_deploy sample_deploy_env name args c = Inr ((fst c + 1, snd c), show_nat (fst c), fst c)"
  "de_deployProxy sample_deploy_env name inits args c =
     (let last = fst c + (if snd c then 1 else 2) in Inr ((last + 1, True), show_nat last, last))"
  "de_send sample_deploy_env a method args c = Inr (fst c + 1, snd c)"
  "de_getTransactionCount sample_deploy_env = fst"
  "de_getContractAddress sample_deploy_env a = show_nat"
  by (simp_all add: sample_deploy_env_def case_prod_beta)

definition sample_deploy_constants :: deploy_constants where
  "sample_deploy_constants = \<lparr>gasCompensation = ''20000000000000000000'', minNetDebt = ''180000000000000000000''\<rparr>"

lemma sample_counts_nonces: "counts_nonces sample_deploy_env snd"
  by (auto simp: counts_nonces_def sample_deploy_simps Let_def)

lemma sample_fresh: "\<not> useDeployedContracts sample_deploy_env"
  by (simp add: useDeployedContracts_def sample_deploy_env_def js_toLowerCase_def)

lemma sample_runs: "\<exists>c' ds. run_steps sample_deploy_env networkName steps c = Inr (c', ds)"
proof (induction steps arbitrary: c)
  case (Cons s steps)
  obtain c1 a b where "deployContractAndGetBlockNumber (step_isProxy s) sample_deploy_env networkName
      (step_contract s) (step_key s) (step_constructorArgs s) (step_initializationArgs s) c = Inr (c1, a, b)"
    by (cases "step_isProxy s") (simp_all add: deployContractAndGetBlockNumber_def sample_fresh sample_deploy_simps Let_def)
  moreover obtain c2 ds where "run_steps sample_deploy_env networkName steps c1 = Inr (c2, ds)"
    using Cons by blast
  ultimately show ?case by simp
qed simp

lemma scaled_200: "\<exists>s. scaled_by_18 (DNumber ''200'') = Inr s"
proof -
  have "\<exists>d. from_ish (DNumber ''10'') = Inr d" "\<exists>d. from_ish (DNumber ''200'') = Inr d"
    using fromString_digits [of "''10''"] fromString_digits [of "''200''"] by (simp_all add: numeral_eval)
  moreover have "\<exists>d. pow x 18 = Inr d" for x by (simp add: pow_def case_prod_beta)
  ultimately show ?thesis unfolding scaled_by_18_def with_ish_def by (auto simp del: from_ish.simps) (metis result_bind_simps(2) result_map_simps(2))
qed

lemma sample_deploys:
  "\<exists>c' addresses start. deployContracts sample_deploy_env k networkName feed c = Inr (c', addresses, start)"
proof -
  have "\<exists>c1 agg tel. deployMockContracts sample_deploy_env networkName c = Inr (c1, agg, tel)"
    using scaled_200 by (auto simp: deployMockContracts_def deployContract_def
      deployContractAndGetBlockNumber_def sample_fresh sample_deploy_simps)
  then obtain c1 agg tel where "deployMockContracts sample_deploy_env networkName c = Inr (c1, agg, tel)" by blast
  moreover obtain c' ds where "run_steps sample_deploy_env networkName
      (deploy_steps sample_deploy_env k (precomputed sample_deploy_env c1) agg tel feed) c1 = Inr (c', ds)"
    using sample_runs by blast
  ultimately show ?thesis by (simp add: deployContracts_def)
qed

section \<open>Properties\<close>

text \<open>
  C9: When the upgrades plugin has no admin contract on the network yet, every proxy ends up at
  the address computed for it before any was deployed, so that each contract is initialized
  with the addresses the others really have.
\<close>

theorem deployed_where_computed:
  assumes "counts_nonces env hasAdmin" and "\<not> useDeployedContracts env" and "\<not> hasAdmin c"
    and "deployContracts env k networkName feed c = Inr (c', addresses, start)"
  shows "\<exists>c1 agg tel. deployMockContracts env networkName c = Inr (c1, agg, tel) \<and>
    (\<forall>key\<in>set proxyContractList. \<exists>a. map_of addresses key = Some a \<and> cp (precomputed env c1) key = Text a)"
proof -
  obtain c1 agg tel
    where "deployMockContracts env networkName c = Inr (c1, agg, tel)"
    and "\<And>key. key \<in> set proxyContractList \<Longrightarrow> map_of addresses key = precomputed env c1 key"
    unfolding precomputed_eq
    by (rule deployed_addresses [OF assms(1,2,4), of 1]) (use assms(3) that in auto)
  moreover have "\<exists>a. precomputed env c1 key = Some a" if "key \<in> set proxyContractList" for key
    using assigned_odd [OF that proxyContractList_distinct] unfolding precomputed_eq by blast
  ultimately show ?thesis by (fastforce simp: cp_def)
qed

text \<open>
  When the network already has the plugin's admin contract, no proxy ends up at the address
  computed for it: the nonce skipped for the admin contract is the first implementation's, and
  every contract is initialized with wrong addresses.
\<close>

theorem redeployed_elsewhere:
  assumes "counts_nonces env hasAdmin" and "\<not> useDeployedContracts env" and "hasAdmin c"
    and "inj (de_getContractAddress env (de_getAddress env))"
    and "deployContracts env k networkName feed c = Inr (c', addresses, start)"
  shows "\<exists>c1 agg tel. deployMockContracts env networkName c = Inr (c1, agg, tel) \<and>
    (\<forall>key\<in>set proxyContractList. map_of addresses key \<noteq> precomputed env c1 key)"
proof -
  let ?f = "de_getContractAddress env (de_getAddress env)"
  obtain c1 agg tel
    where mocks: "deployMockContracts env networkName c = Inr (c1, agg, tel)"
    and at: "\<And>key. key \<in> set proxyContractList \<Longrightarrow> map_of addresses key =
      assign_addresses proxyContractList (map ?f
        [de_getTransactionCount env c1..<de_getTransactionCount env c1 + 2 * length proxyContractList]) Map.empty key"
    by (rule deployed_addresses [OF assms(1,2,5), of 0]) (use assms(3) that in auto)
  have "map_of addresses key \<noteq> precomputed env c1 key" if "key \<in> set proxyContractList" for key
  proof -
    from assigned_odd [OF that proxyContractList_distinct] obtain i where
      i: "assign_addresses proxyContractList (map f [m..<m + 2 * length proxyContractList]) acc key
         = Some (f (m + 2 * i + 1))" for f m acc by auto
    show ?thesis unfolding at [OF that] precomputed_eq i by (simp add: inj_eq [OF assms(4)])
  qed
  with mocks show ?thesis by blast
qed

text \<open>
  Where the factory is deployed, the pair is never created: an address is never strictly equal
  to the big number zero, so that the zero address the factory answers for a missing pair is
  returned as the pair.
\<close>

theorem pair_never_created:
  "createUniswapV2Pair env tokenA tokenB c =
     (if de_getChainId env = 314
      then result_map (\<lambda>pair. (c, pair)) (de_getPair env factoryAddress tokenA tokenB c)
      else Inl (Error (''UniswapV2Factory is not deployed on this network (chainId = ''
                       @ show_nat (de_getChainId env) @ '')'')))"
  by (cases "de_getPair env factoryAddress tokenA tokenB c")
    (simp_all add: createUniswapV2Pair_def hasFactory_def constants_Zero_def)

theorem deployed_where_computed_witness:
  "\<exists>c' addresses start c1 agg tel.
     deployContracts sample_deploy_env sample_deploy_constants ''dev'' True (0, False) = Inr (c', addresses, start) \<and>
     deployMockContracts sample_deploy_env ''dev'' (0, False) = Inr (c1, agg, tel) \<and>
     (\<forall>key\<in>set proxyContractList. \<exists>a. map_of addresses key = Some a \<and>
        cp (precomputed sample_deploy_env c1) key = Text a)"
  using sample_deploys [of sample_deploy_constants "''dev''" True "(0, False)"]
    deployed_where_computed [OF sample_counts_nonces sample_fresh, of "(0, False)" sample_deploy_constants "''dev''" True]
  by fastforce

theorem redeployed_elsewhere_witness:
  "\<exists>c' addresses start c1 agg tel.
     deployContracts sample_deploy_env sample_deploy_constants ''dev'' True (0, True) = Inr (c', addresses, start) \<and>
     deployMockContracts sample_deploy_env ''dev'' (0, True) = Inr (c1, agg, tel) \<and>
     (\<forall>key\<in>set proxyContractList. map_of addresses key \<noteq> precomputed sample_deploy_env c1 key)"
proof -
  have "inj (de_getContractAddress sample_deploy_env (de_getAddress sample_deploy_env))"
    unfolding sample_deploy_simps by (rule inj_on_inverseI [of _ nat_of_digits]) simp
  with sample_deploys [of sample_deploy_constants "''dev''" True "(0, True)"]
    redeployed_elsewhere [OF sample_counts_nonces sample_fresh, of "(0, True)" sample_deploy_constants "''dev''" True]
  show ?thesis by fastforce
qed

end
