(* ===== verification/Ethers_Types.thy ===== *)
theory Ethers_Types
  imports Ethers_Connection
begin

text \<open>
  The generator of the contract types: \<^verbatim>\<open>packages/lib-ethers/scripts/generate-types.ts\<close>, which
  declares a TypeScript interface for each contract from its ABI; what it writes is
  \<^verbatim>\<open>packages/lib-ethers/types/index.ts\<close>.

  An ABI is what \<open>Interface\<close> of ethers makes of it: a parameter has a base type, for a tuple its
  components, for an array the type of its elements.  A parameter may have no name, which is
  falsy as an empty one is.  Reading and writing files is not modelled.
\<close>

section \<open>Types\<close>

datatype param_type =
  ParamType (pt_name: "string option") (baseType: string) (pt_indexed: bool)
    (pt_components: "param_type list") (arrayChildren: "param_type option")

definition has_name :: "param_type \<Rightarrow> bool" where
  "has_name p \<longleftrightarrow> (case pt_name p of Some n \<Rightarrow> n \<noteq> [] | None \<Rightarrow> False)"

definition name_or :: "string \<Rightarrow> param_type \<Rightarrow> string" where
  "name_or default_name p = (if has_name p then the (pt_name p) else default_name)"

text \<open>\<open>/^(u?int)([0-9]+)$/\<close>: the width, when there is a match.\<close>

definition int_width :: "string \<Rightarrow> nat option" where
  "int_width b =
     (let s = (if take 1 b = ''u'' then drop 1 b else b) in
      if take 3 s = ''int'' \<and> drop 3 s \<noteq> [] \<and> list_all is_digit (drop 3 s)
      then Some (nat_of_digits (drop 3 s)) else None)"

definition tuple_text :: "param_type list \<Rightarrow> string list \<Rightarrow> string" where
  "tuple_text components types =
     (if list_all has_name components
      then ''{ '' @ js_join ''; '' (map (\<lambda>(c, t). the (pt_name c) @ '': '' @ t) (zip components types)) @ '' }''
      else ''['' @ js_join '', '' types @ '']'')"

fun getType :: "bool \<Rightarrow> param_type \<Rightarrow> string result"
  and getTypes :: "bool \<Rightarrow> param_type list \<Rightarrow> string list result" where
  "getType flexible (ParamType n b i components children) =
     (if b = ''address'' \<or> b = ''string'' then Inr ''string''
      else if b = ''bool'' then Inr ''boolean''
      else if b = ''array'' then
        (case children of
           None \<Rightarrow> Inl (TypeError ''Cannot destructure null'')
         | Some c \<Rightarrow> result_map (\<lambda>s. s @ ''[]'') (getType flexible c))
      else if b = ''tuple'' then result_map (tuple_text components) (getTypes flexible components)
      else if take 5 b = ''bytes'' then Inr (if flexible then ''BytesLike'' else ''string'')
      else (case int_width b of
              Some w \<Rightarrow> Inr (if flexible then ''BigNumberish'' else if 53 \<le> w then ''BigNumber'' else ''number'')
            | None \<Rightarrow> Inl (Error (''unimplemented type '' @ b))))"
| "getTypes flexible [] = Inr []"
| "getTypes flexible (c # cs) =
     result_bind (getType flexible c) (\<lambda>t. result_map (\<lambda>ts. t # ts) (getTypes flexible cs))"

definition getTupleType :: "bool \<Rightarrow> param_type list \<Rightarrow> string result" where
  "getTupleType flexible components = result_map (tuple_text components) (getTypes flexible components)"

section \<open>Interfaces\<close>

record abi_function =
  fn_name :: string
  fn_constant :: bool
  fn_payable :: bool
  fn_inputs :: "param_type list"
  fn_outputs :: "param_type list option"

record abi_event =
  ev_name :: string
  ev_inputs :: "param_type list"

record abi_interface =
  if_contractName :: string
  if_functions :: "abi_function list"
  if_events :: "abi_event list"

definition declare_input :: "nat \<times> param_type \<Rightarrow> string result" where
  "declare_input x = (let (i, input) = x in
     result_map (\<lambda>t. name_or (''arg'' @ show_nat i) input @ '': '' @ t) (getType True input))"

definition returnType :: "param_type list option \<Rightarrow> string result" where
  "returnType outputs =
     (case outputs of
        None \<Rightarrow> Inr ''void''
      | Some [] \<Rightarrow> Inr ''void''
      | Some [output] \<Rightarrow> getType False output
      | Some outs \<Rightarrow> getTupleType False outs)"

definition declare_function :: "string \<Rightarrow> abi_function \<Rightarrow> string result" where
  "declare_function overridesType f =
     result_bind (result_list declare_input (zip [0..<length (fn_inputs f)] (fn_inputs f))) (\<lambda>inputs.
     result_map (\<lambda>ret.
       ''  '' @ fn_name f @ ''('' @ js_join '', '' (inputs @ [''_overrides?: '' @ overridesType]) @ ''): Promise<''
         @ ret @ ''>;'')
       (returnType (fn_outputs f)))"

definition declare_call :: "abi_function \<Rightarrow> string result" where
  "declare_call = declare_function ''CallOverrides''"

definition declare_transaction :: "abi_function \<Rightarrow> string result" where
  "declare_transaction f = declare_function (if fn_payable f then ''PayableOverrides'' else ''Overrides'') f"

text \<open>A template literal prints a missing name as null.\<close>

definition printed_name :: "param_type \<Rightarrow> string" where
  "printed_name p = (case pt_name p of Some n \<Rightarrow> n | None \<Rightarrow> ''null'')"

definition declare_filter_input :: "param_type \<Rightarrow> string result" where
  "declare_filter_input input =
     (if pt_indexed input
      then result_map (\<lambda>t. printed_name input @ ''?: '' @ t @ '' | null'') (getType True input)
      else Inr (printed_name input @ ''?: null''))"

definition declare_filter :: "abi_event \<Rightarrow> string result" where
  "declare_filter e =
     result_map (\<lambda>inputs. ''    '' @ ev_name e @ ''('' @ js_join '', '' inputs @ ''): EventFilter;'')
       (result_list declare_filter_input (ev_inputs e))"

definition declare_extract :: "abi_event \<Rightarrow> string result" where
  "declare_extract e =
     result_map (\<lambda>t. ''  extractEvents(logs: Log[], name: \"'' @ ev_name e @ ''\"): _TypedLogDescription<'' @ t @ ''>[];'')
       (getTupleType False (ev_inputs e))"

definition newline :: string where
  "newline = [CHR 0x0A]"

definition declareInterface :: "abi_interface \<Rightarrow> string result" where
  "declareInterface c =
     (let name = if_contractName c in
      result_bind (result_list declare_call (filter fn_constant (if_functions c))) (\<lambda>calls.
      result_bind (result_list declare_transaction (filter (\<lambda>f. \<not> fn_constant f) (if_functions c))) (\<lambda>transactions.
      result_bind (result_list declare_filter (if_events c)) (\<lambda>filters.
      result_map (\<lambda>extracts.
        js_join newline
          ([''interface '' @ name @ ''Calls {''] @ calls @ [''}'' @ newline,
            ''interface '' @ name @ ''Transactions {''] @ transactions @ [''}'' @ newline,
            ''export interface '' @ name,
            ''  extends _TypedProtocolContract<'' @ name @ ''Calls, '' @ name @ ''Transactions> {'',
            ''  readonly filters: {''] @ filters @ [''  };''] @ extracts @ [''}'']))
        (result_list declare_extract (if_events c))))))"

definition contractList :: "string list" where
  "contractList =
     [''ActivePool'', ''BorrowerOperations'', ''CollSurplusPool'', ''DebtToken'', ''DefaultPool'', ''ERC20Mock'',
      ''GasPool'', ''HintHelpers'', ''IERC20'', ''MultiTroveGetter'', ''PriceFeed'', ''MockAggregator'',
      ''MockPriceFeed'', ''MockTellor'', ''SortedTroves'', ''StabilityPool'', ''TroveManager'', ''Unipool'',
      ''CommunityIssuance'', ''LockupContractFactory'', ''ProtocolTokenStaking'', ''ProtocolToken'', ''USDFCView'']"

section \<open>Every ABI has its types\<close>

text \<open>The types of the ABI specification, as far as ethers gives them a base type.\<close>

inductive abi_type :: "param_type \<Rightarrow> bool" where
  abi_address: "b \<in> {''address'', ''string'', ''bool''} \<Longrightarrow> abi_type (ParamType n b i cs c)"
| abi_bytes: "take 5 b = ''bytes'' \<Longrightarrow> abi_type (ParamType n b i cs c)"
| abi_int: "pre \<in> {''int'', ''uint''} \<Longrightarrow> abi_type (ParamType n (pre @ show_nat w) i cs c)"
| abi_array: "abi_type c \<Longrightarrow> abi_type (ParamType n ''array'' i cs (Some c))"
| abi_tuple: "(\<And>c. c \<in> set cs \<Longrightarrow> abi_type c) \<Longrightarrow> abi_type (ParamType n ''tuple'' i cs c)"

definition abi_interface_ok :: "abi_interface \<Rightarrow> bool" where
  "abi_interface_ok c \<longleftrightarrow>
     (\<forall>f\<in>set (if_functions c). \<forall>p\<in>set (fn_inputs f) \<union> (case fn_outputs f of Some ps \<Rightarrow> set ps | None \<Rightarrow> {}). abi_type p) \<and>
     (\<forall>e\<in>set (if_events c). \<forall>p\<in>set (ev_inputs e). abi_type p)"

lemma int_width_of: "pre \<in> {''int'', ''uint''} \<Longrightarrow> int_width (pre @ show_nat w) = Some w"
proof -
  have "show_nat w \<noteq> []" by (subst show_nat.simps) simp
  then show "pre \<in> {''int'', ''uint''} \<Longrightarrow> int_width (pre @ show_nat w) = Some w"
    by (auto simp: int_width_def Let_def)
qed

lemma getType_int:
  "pre \<in> {''int'', ''uint''} \<Longrightarrow> getType flexible (ParamType n (pre @ show_nat w) i cs c) =
     Inr (if flexible then ''BigNumberish'' else if 53 \<le> w then ''BigNumber'' else ''number'')"
  using int_width_of [of pre w] by auto

lemma getTypes_total: "(\<And>c. c \<in> set cs \<Longrightarrow> \<exists>t. getType flexible c = Inr t) \<Longrightarrow> \<exists>ts. getTypes flexible cs = Inr ts"
proof (induction cs)
  case (Cons c cs)
  then obtain t ts where "getType flexible c = Inr t" "getTypes flexible cs = Inr ts" by (meson list.set_intros)
  then show ?case by simp
qed simp

lemma getType_total: "abi_type p \<Longrightarrow> \<exists>t. getType flexible p = Inr t"
proof (induction rule: abi_type.induct)
  case (abi_bytes b n i cs c)
  then show ?case by (cases "b = ''address''"; cases "b = ''string''"; cases "b = ''bool''"; cases "b = ''array''";
        cases "b = ''tuple''") simp_all
next
  case (abi_int pre n w i cs c)
  then show ?case using getType_int by blast
next
  case (abi_tuple cs n i c)
  then show ?case using getTypes_total [of cs flexible] by auto
qed auto

lemma getTupleType_total: "\<forall>p\<in>set ps. abi_type p \<Longrightarrow> \<exists>t. getTupleType flexible ps = Inr t"
  using getTypes_total [of ps flexible] getType_total by (auto simp: getTupleType_def)

lemma result_list_total: "(\<And>x. x \<in> set xs \<Longrightarrow> \<exists>y. f x = Inr y) \<Longrightarrow> \<exists>ys. result_list f xs = Inr ys"
proof (induction xs)
  case (Cons x xs)
  then obtain y ys where "f x = Inr y" "result_list f xs = Inr ys" by (meson list.set_intros)
  then show ?case by simp
qed simp

lemma returnType_total:
  "\<forall>p\<in>(case outs of Some ps \<Rightarrow> set ps | None \<Rightarrow> {}). abi_type p \<Longrightarrow> \<exists>t. returnType outs = Inr t"
  using getType_total getTupleType_total
  by (cases outs) (auto simp: returnType_def split: list.splits)

lemma declare_function_total:
  assumes "\<forall>p\<in>set (fn_inputs f) \<union> (case fn_outputs f of Some ps \<Rightarrow> set ps | None \<Rightarrow> {}). abi_type p"
  shows "\<exists>t. declare_function overridesType f = Inr t"
proof -
  have "\<exists>t. declare_input x = Inr t" if "x \<in> set (zip [0..<length (fn_inputs f)] (fn_inputs f))" for x
  proof -
    obtain j p where x: "x = (j, p)" by (cases x)
    with that have "p \<in> set (fn_inputs f)" by (metis set_zip_rightD)
    then obtain t where "getType True p = Inr t" using assms getType_total by blast
    then show ?thesis by (simp add: x declare_input_def)
  qed
  from result_list_total [OF this] returnType_total [of "fn_outputs f"] assms show ?thesis
    by (fastforce simp: declare_function_def)
qed

lemma declare_filter_total: "\<forall>p\<in>set (ev_inputs e). abi_type p \<Longrightarrow> \<exists>t. declare_filter e = Inr t"
proof -
  assume ok: "\<forall>p\<in>set (ev_inputs e). abi_type p"
  have "\<exists>t. declare_filter_input p = Inr t" if "abi_type p" for p
    using getType_total [OF that, of True] by (auto simp: declare_filter_input_def)
  then obtain ys where "result_list declare_filter_input (ev_inputs e) = Inr ys"
    using result_list_total [of "ev_inputs e" declare_filter_input] ok by blast
  then show ?thesis by (simp add: declare_filter_def)
qed

lemma declare_extract_total: "\<forall>p\<in>set (ev_inputs e). abi_type p \<Longrightarrow> \<exists>t. declare_extract e = Inr t"
  using getTupleType_total [of "ev_inputs e" False] by (auto simp: declare_extract_def)

section \<open>Properties\<close>

text \<open>
  The generator has a type for every type of the ABI: it declares an interface for every
  contract, and never throws.
\<close>

theorem every_interface_declared:
  assumes "abi_interface_ok c"
  shows "\<exists>t. declareInterface c = Inr t"
proof -
  have "\<exists>ys. result_list declare_call (filter fn_constant (if_functions c)) = Inr ys"
    using assms by (intro result_list_total) (auto simp: abi_interface_ok_def declare_call_def intro!: declare_function_total)
  moreover have "\<exists>ys. result_list declare_transaction (filter (\<lambda>f. \<not> fn_constant f) (if_functions c)) = Inr ys"
    using assms by (intro result_list_total)
      (auto simp: abi_interface_ok_def declare_transaction_def intro!: declare_function_total)
  moreover have "\<exists>ys. result_list declare_filter (if_events c) = Inr ys"
    using assms by (intro result_list_total) (auto simp: abi_interface_ok_def intro!: declare_filter_total)
  moreover have "\<exists>ys. result_list declare_extract (if_events c) = Inr ys"
    using assms by (intro result_list_total) (auto simp: abi_interface_ok_def intro!: declare_extract_total)
  ultimately show ?thesis unfolding declareInterface_def Let_def
    by (elim exE) (simp only: result_bind_simps result_map_simps, blast)
qed

theorem every_interface_declared_witness:
  "\<exists>t. declareInterface \<lparr>if_contractName = ''PriceFeed'',
     if_functions = [\<lparr>fn_name = ''setPrice'', fn_constant = False, fn_payable = False,
       fn_inputs = [ParamType (Some ''_price'') ''address'' False [] None],
       fn_outputs = Some [ParamType None ''bool'' False [] None]\<rparr>],
     if_events = [\<lparr>ev_name = ''LastGoodPriceUpdated'',
       ev_inputs = [ParamType (Some ''_lastGoodPrice'') ''bytes32'' False [] None]\<rparr>]\<rparr> = Inr t"
  by (rule every_interface_declared) (auto simp: abi_interface_ok_def intro: abi_address abi_bytes)

text \<open>
  An integer of an ABI is declared as a number exactly up to 48 bits, the widths ethers decodes
  to a number, all of whose values a number represents exactly; a wider one is a \<open>BigNumber\<close>.
\<close>

theorem numbers_are_exact:
  assumes "pre \<in> {''int'', ''uint''}" and "w = 8 * m"
  shows "getType False (ParamType n (pre @ show_nat w) i cs c) = Inr (if w \<le> 48 then ''number'' else ''BigNumber'')
    \<and> (w \<le> 48 \<longrightarrow> 2 ^ w - 1 \<le> MAX_SAFE_INTEGER)"
proof -
  have "53 \<le> w \<longleftrightarrow> \<not> w \<le> 48" unfolding assms(2) by presburger
  moreover have "2 ^ w - 1 \<le> MAX_SAFE_INTEGER" if "w \<le> 48"
  proof -
    have "(2 :: int) ^ w \<le> 2 ^ 48" using that by (intro power_increasing) simp_all
    then show ?thesis by (simp add: MAX_SAFE_INTEGER_def)
  qed
  ultimately show ?thesis using getType_int [OF assms(1), of False n w i cs c] by simp
qed

theorem numbers_are_exact_witness:
  "getType False (ParamType None (''uint'' @ show_nat 48) False [] None) = Inr ''number''
   \<and> getType False (ParamType None (''uint'' @ show_nat 56) False [] None) = Inr ''BigNumber''"
  using numbers_are_exact [of "''uint''" 48 6 None False "[]" None] numbers_are_exact [of "''uint''" 56 7 None False "[]" None]
  by simp

end
