(* ===== verification/React_Bindings.thy ===== *)
theory React_Bindings
  imports Store_Facts
begin

text \<open>
  The React bindings of the store, \<^verbatim>\<open>packages/lib-react/src\<close>: the comparison \<open>equals\<close>, the hooks
  \<open>useSfStablecoinSelector\<close> and \<open>useSfStablecoinReducer\<close>, and \<open>SfStablecoinStoreProvider\<close>.

  A component is mounted by a render, after which its effects run; later the listener the effect
  registered asks React for another render.  Those are the steps here, in any order React may
  take them: a requested render stays pending until React does it, and then reads what the hook
  reads.  The updates of the store are \<open>update_state\<close> of \<open>Sdk_Store\<close>, up to the call of the
  listeners, whose argument the hook's listener gets.
\<close>

section \<open>Comparison\<close>

text \<open>
  A JavaScript value: a primitive (or a function, which is only compared), or an object at an
  address with its own properties, of which \<open>Object.keys\<close> lists the enumerable ones.
\<close>

datatype 'p js_value =
    Primitive 'p
  | ObjectAt nat "(string \<times> bool \<times> 'p js_value) list"

fun object_is :: "'p js_value \<Rightarrow> 'p js_value \<Rightarrow> bool" where
  "object_is (Primitive x) (Primitive y) = (x = y)"
| "object_is (ObjectAt a _) (ObjectAt b _) = (a = b)"
| "object_is _ _ = False"

type_synonym 'p own_properties = "(string \<times> bool \<times> 'p js_value) list"

definition object_keys :: "'p own_properties \<Rightarrow> string list" where
  "object_keys o1 = map fst (filter (\<lambda>(k, enumerable, v). enumerable) o1)"

definition hasOwnProperty :: "'p own_properties \<Rightarrow> string \<Rightarrow> bool" where
  "hasOwnProperty o1 key \<longleftrightarrow> key \<in> set (map fst o1)"

definition property_of :: "'p own_properties \<Rightarrow> string \<Rightarrow> 'p js_value" where
  "property_of o1 key = snd (the (map_of o1 key))"

definition shallowEquals :: "'p own_properties \<Rightarrow> 'p own_properties \<Rightarrow> bool" where
  "shallowEquals a b =
     (let keysA = object_keys a; keysB = object_keys b in
      length keysA = length keysB \<and>
      list_all (\<lambda>key. hasOwnProperty b key \<and> object_is (property_of a key) (property_of b key)) keysA)"

fun equals :: "'p js_value \<Rightarrow> 'p js_value \<Rightarrow> bool" where
  "equals (ObjectAt _ a) (ObjectAt _ b) = shallowEquals a b"
| "equals a b = object_is a b"

text \<open>Values whose properties are all enumerable: those the selectors and reducers make.\<close>

fun plain :: "'p js_value \<Rightarrow> bool" where
  "plain (Primitive x) = True"
| "plain (ObjectAt a o1) = (distinct (map fst o1) \<and> list_all (\<lambda>(k, enumerable, v). enumerable) o1)"

lemma object_is_refl [simp]: "object_is v v"
  by (cases v) simp_all

lemma object_is_sym: "object_is v w \<Longrightarrow> object_is w v"
  by (cases v; cases w) simp_all

lemma object_is_trans: "object_is u v \<Longrightarrow> object_is v w \<Longrightarrow> object_is u w"
  by (cases u; cases v; cases w) simp_all

definition key_set :: "'p own_properties \<Rightarrow> string set" where
  "key_set o1 = set (map fst o1)"

lemma object_keys_plain: "plain (ObjectAt a o1) \<Longrightarrow> object_keys o1 = map fst o1"
  unfolding plain.simps object_keys_def list_all_iff by (simp add: filter_id_conv)

lemma length_plain: "plain (ObjectAt a o1) \<Longrightarrow> length o1 = card (key_set o1)"
  using distinct_card [of "map fst o1"] by (simp add: key_set_def)

lemma shallowEquals_plain:
  assumes "plain (ObjectAt a o1)" and "plain (ObjectAt b o2)"
  shows "shallowEquals o1 o2 \<longleftrightarrow> key_set o1 = key_set o2 \<and>
    (\<forall>k\<in>key_set o1. object_is (property_of o1 k) (property_of o2 k))"
proof -
  have "key_set o1 = key_set o2" if "length o1 = length o2" "key_set o1 \<subseteq> key_set o2"
    using that assms [THEN length_plain] by (intro card_subset_eq) (simp_all add: key_set_def)
  moreover have "length o1 = length o2" if "key_set o1 = key_set o2"
    using that assms [THEN length_plain] by simp
  moreover have "shallowEquals o1 o2 \<longleftrightarrow> length o1 = length o2 \<and>
      (\<forall>k\<in>key_set o1. k \<in> key_set o2 \<and> object_is (property_of o1 k) (property_of o2 k))"
    using assms [THEN object_keys_plain]
    by (simp add: shallowEquals_def Let_def list_all_iff hasOwnProperty_def key_set_def)
  ultimately show ?thesis by blast
qed

lemma equals_refl [simp]: "plain v \<Longrightarrow> equals v v"
  by (cases v) (simp_all add: shallowEquals_plain del: plain.simps)

lemma equals_sym: "plain v \<Longrightarrow> plain w \<Longrightarrow> equals v w \<Longrightarrow> equals w v"
  by (cases v; cases w) (auto simp: shallowEquals_plain object_is_sym simp del: plain.simps)

lemma equals_trans:
  assumes "plain u" "plain v" "plain w" and "equals u v" "equals v w"
  shows "equals u w"
  using assms object_is_trans
  by (cases u; cases v; cases w) (simp_all add: shallowEquals_plain del: plain.simps, blast)

text \<open>
  The contract the hooks rely on: a comparison that is an equivalence on the values they keep.
\<close>

locale comparison =
  fixes ok :: "'v \<Rightarrow> bool" and same :: "'v \<Rightarrow> 'v \<Rightarrow> bool"
  assumes same_refl: "ok v \<Longrightarrow> same v v"
    and same_sym: "ok v \<Longrightarrow> ok w \<Longrightarrow> same v w \<Longrightarrow> same w v"
    and same_trans: "ok u \<Longrightarrow> ok v \<Longrightarrow> ok w \<Longrightarrow> same u v \<Longrightarrow> same v w \<Longrightarrow> same u w"
begin

lemma same_cong: "ok u \<Longrightarrow> ok v \<Longrightarrow> ok w \<Longrightarrow> same v w \<Longrightarrow> same u v = same u w"
  using same_trans same_sym by blast

text \<open>Keeping a value until a new one is not the same keeps one that is the same.\<close>

lemma skipping_keeps:
  assumes "ok s" and "\<And>v x. ok v \<Longrightarrow> ok (step v x)"
    and "\<And>v w x. ok v \<Longrightarrow> ok w \<Longrightarrow> same v w \<Longrightarrow> same (step v x) (step w x)"
  shows "same (foldl (\<lambda>v x. if same (step v x) v then v else step v x) s xs) (foldl step s xs)"
proof -
  let ?skip = "\<lambda>v x. if same (step v x) v then v else step v x"
  have "ok v \<and> ok w \<and> same v w \<Longrightarrow>
      ok (foldl ?skip v xs) \<and> ok (foldl step w xs) \<and> same (foldl ?skip v xs) (foldl step w xs)" for v w
  proof (induction xs arbitrary: v w)
    case (Cons x xs)
    then have *: "ok (step v x)" "ok (step w x)" "same (step v x) (step w x)" using assms(2,3) by auto
    have "same v (step w x)" if "same (step v x) v"
      using that * Cons.prems same_sym [of "step v x" v] same_trans [of v "step v x" "step w x"] by blast
    with * have "ok (?skip v x) \<and> ok (step w x) \<and> same (?skip v x) (step w x)" using Cons.prems by simp
    from Cons.IH [OF this] show ?case by simp
  qed simp
  from this [of s s] assms(1) same_refl show ?thesis by blast
qed

end

interpretation js: comparison plain equals
  by unfold_locales (auto intro: equals_sym equals_trans)

section \<open>Selector\<close>

text \<open>
  A component with the selector: what its last render was given, whether its listener is
  registered, and whether it has asked for another render.
\<close>

record 'p selector_hook =
  shown :: "'p js_value"
  subscribed :: bool
  rerender_pending :: bool

definition mount_selector :: "(state_view \<Rightarrow> 'p js_value) \<Rightarrow> 'f store \<Rightarrow> 'p selector_hook" where
  "mount_selector select st = \<lparr>shown = select (state st), subscribed = False, rerender_pending = False\<rparr>"

definition subscribe_effect :: "'p selector_hook \<Rightarrow> 'p selector_hook" where
  "subscribe_effect h = h\<lparr>subscribed := True\<rparr>"

definition selector_listener ::
  "(state_view \<Rightarrow> 'p js_value) \<Rightarrow> listener_params \<Rightarrow> 'p selector_hook \<Rightarrow> 'p selector_hook" where
  "selector_listener select params h =
     (if \<not> equals (select (newState params)) (select (oldState params)) then h\<lparr>rerender_pending := True\<rparr> else h)"

definition render_selector :: "(state_view \<Rightarrow> 'p js_value) \<Rightarrow> 'f store \<Rightarrow> 'p selector_hook \<Rightarrow> 'p selector_hook" where
  "render_selector select st h = h\<lparr>shown := select (state st), rerender_pending := False\<rparr>"

definition notified :: "(state_view \<Rightarrow> 'p js_value) \<Rightarrow> listener_params \<Rightarrow> 'p selector_hook \<Rightarrow> 'p selector_hook" where
  "notified select params h = (if subscribed h then selector_listener select params h else h)"

text \<open>The effect's cleanup, which React runs when the component unmounts.\<close>

definition selector_cleanup :: "'p selector_hook \<Rightarrow> 'p selector_hook" where
  "selector_cleanup h = h\<lparr>subscribed := False\<rparr>"

text \<open>
  The store and a component, from its first render on, with what the proof keeps beside them:
  whether, since the component's last render, the selection changed at an update that did not
  reach its listener.  Such an update comes before the effect has registered the listener, or
  its notification is lost, because the update throws half way or because a listener called
  earlier throws.
\<close>

definition differs :: "(state_view \<Rightarrow> 'p js_value) \<Rightarrow> 'f store \<Rightarrow> 'f store \<Rightarrow> bool" where
  "differs select st st' \<longleftrightarrow> \<not> equals (select (state st')) (select (state st))"

inductive selector_step ::
  "(state_view \<Rightarrow> 'p js_value) \<Rightarrow> 'f store \<times> 'p selector_hook \<times> bool \<Rightarrow> 'f store \<times> 'p selector_hook \<times> bool \<Rightarrow> bool"
  for select where
  store_updates: "update_state R addrs u x st = (st', Inr params) \<Longrightarrow>
    selector_step select (st, h, missed)
      (st', notified select params h, missed \<or> \<not> subscribed h \<and> differs select st st')"
| notification_lost: "update_state R addrs u x st = (st', r) \<Longrightarrow>
    selector_step select (st, h, missed) (st', h, missed \<or> differs select st st')"
| react_renders: "selector_step select (st, h, missed) (st, render_selector select st h, False)"
| effect_runs: "selector_step select (st, h, missed) (st, subscribe_effect h, missed)"
| cleanup_runs: "selector_step select (st, h, missed) (st, selector_cleanup h, missed)"

inductive selector_reachable ::
  "(state_view \<Rightarrow> 'p js_value) \<Rightarrow> 'f store \<Rightarrow> 'f store \<times> 'p selector_hook \<times> bool \<Rightarrow> bool"
  for select st0 where
  mounted: "selector_reachable select st0 (st0, mount_selector select st0, False)"
| step: "selector_reachable select st0 w \<Longrightarrow> selector_step select w w' \<Longrightarrow> selector_reachable select st0 w'"

lemma notified_fields [simp]:
  "shown (notified select p h) = shown h" "subscribed (notified select p h) = subscribed h"
  by (simp_all add: notified_def selector_listener_def)

lemma hook_fields [simp]:
  "subscribed (render_selector select st h) = subscribed h" "subscribed (subscribe_effect h)"
  "shown (subscribe_effect h) = shown h" "rerender_pending (subscribe_effect h) = rerender_pending h"
  by (simp_all add: render_selector_def subscribe_effect_def)

lemma notified_pending:
  "rerender_pending (notified select p h) \<longleftrightarrow> rerender_pending h \<or>
     (subscribed h \<and> \<not> equals (select (newState p)) (select (oldState p)))"
  by (simp add: notified_def selector_listener_def)

text \<open>
  What holds at every step: without a render pending and without a missed change, the
  component was given the present selection.
\<close>

definition selection_ok :: "(state_view \<Rightarrow> 'p js_value) \<Rightarrow> 'f store \<times> 'p selector_hook \<times> bool \<Rightarrow> bool" where
  "selection_ok select w = (case w of (st, h, missed) \<Rightarrow>
     plain (shown h) \<and> (rerender_pending h \<or> missed \<or> equals (shown h) (select (state st))))"

lemma same_selection_after:
  assumes "\<And>s. plain (select s)" and "plain v" and "equals v (select (state st))" and "\<not> differs select st st'"
  shows "equals v (select (state st'))"
  using assms js.same_cong [of v "select (state st')" "select (state st)"] by (simp add: differs_def)

lemma selection_ok_step:
  assumes "\<And>s. plain (select s)" and "selector_step select w w'" and "selection_ok select w"
  shows "selection_ok select w'"
  using assms(2,3)
proof cases
  case (store_updates R addrs u x st st' p h missed)
  then have "newState p = state st'" "oldState p = state st"
    by (auto simp: update_state_Inr)
  then have "rerender_pending (notified select p h) \<longleftrightarrow> rerender_pending h \<or> subscribed h \<and> differs select st st'"
    by (simp add: notified_pending differs_def)
  then show ?thesis
    using store_updates(1,2) assms(3) same_selection_after [of select "shown h" st st'] assms(1) by (auto simp: selection_ok_def)
next
  case (notification_lost R addrs u x st st' r h missed)
  then show ?thesis
    using assms(3) same_selection_after [of select "shown h" st st'] assms(1) by (auto simp: selection_ok_def)
qed (use assms in \<open>auto simp: selection_ok_def render_selector_def subscribe_effect_def selector_cleanup_def\<close>)

section \<open>Reducer\<close>

text \<open>
  A component with the reducer keeps its state in a reference, with the store it was made from;
  \<open>init\<close> and \<open>reduce\<close> are the application's.  An update of the store is an action too.
\<close>

record 'p reducer_hook =
  current :: "'p js_value"
  oldStore :: nat
  render_requested :: bool

definition init_reducer :: "(state_view \<Rightarrow> 'p js_value) \<Rightarrow> nat \<Rightarrow> 'f store \<Rightarrow> 'p reducer_hook" where
  "init_reducer init store st = \<lparr>current = init (state st), oldStore = store, render_requested = False\<rparr>"

definition reducer_dispatch ::
  "('p js_value \<Rightarrow> 'a + listener_params \<Rightarrow> 'p js_value) \<Rightarrow> 'a + listener_params \<Rightarrow> 'p reducer_hook \<Rightarrow> 'p reducer_hook" where
  "reducer_dispatch reduce1 action h =
     (let fresh = reduce1 (current h) action in
      if \<not> equals fresh (current h) then h\<lparr>current := fresh, render_requested := True\<rparr> else h)"

definition reducer_listener ::
  "('p js_value \<Rightarrow> 'a + listener_params \<Rightarrow> 'p js_value) \<Rightarrow> listener_params \<Rightarrow> 'p reducer_hook \<Rightarrow> 'p reducer_hook" where
  "reducer_listener reduce1 params = reducer_dispatch reduce1 (Inr params)"

definition render_reducer ::
  "(state_view \<Rightarrow> 'p js_value) \<Rightarrow> nat \<Rightarrow> 'f store \<Rightarrow> 'p reducer_hook \<Rightarrow> 'p js_value \<times> 'p reducer_hook" where
  "render_reducer init store st h =
     (let h = (if oldStore h \<noteq> store then h\<lparr>current := init (state st), oldStore := store\<rparr> else h)
      in (current h, h\<lparr>render_requested := False\<rparr>))"

lemma dispatch_current:
  "current (reducer_dispatch reduce1 action h) =
     (if equals (reduce1 (current h) action) (current h) then current h else reduce1 (current h) action)"
  by (simp add: reducer_dispatch_def Let_def)

lemma dispatches_current:
  "current (fold (reducer_dispatch reduce1) actions h) =
     foldl (\<lambda>v x. if equals (reduce1 v x) v then v else reduce1 v x) (current h) actions"
  by (induction actions arbitrary: h) (simp_all add: dispatch_current)

lemma dispatches_store [simp]: "oldStore (fold (reducer_dispatch reduce1) actions h) = oldStore h"
  by (induction actions arbitrary: h) (simp_all add: reducer_dispatch_def Let_def)

section \<open>Provider\<close>

text \<open>
  The provider of a store: \<open>loadedStore\<close> is set by the store's \<open>onLoaded\<close>, which is set as long
  as the effect is in place.  \<open>useSfStablecoinStore\<close> needs the context the provider sets.
\<close>

record 'f provider =
  provided :: "'f store"
  onLoaded_set :: bool
  loadedStore :: bool
  started :: bool

definition mount_provider :: "'f store \<Rightarrow> 'f provider" where
  "mount_provider st = \<lparr>provided = st, onLoaded_set = False, loadedStore = False, started = False\<rparr>"

definition provider_effect :: "'f provider \<Rightarrow> 'f provider" where
  "provider_effect p = p\<lparr>onLoaded_set := True, started := True\<rparr>"

definition provider_cleanup :: "'f provider \<Rightarrow> 'f provider" where
  "provider_cleanup p =
     p\<lparr>onLoaded_set := False, loadedStore := False, started := False, provided := stop (\<lambda>st. st) (provided p)\<rparr>"

definition onLoaded_called :: "'f provider \<Rightarrow> 'f provider" where
  "onLoaded_called p = (if onLoaded_set p then p\<lparr>loadedStore := True\<rparr> else p)"

definition provider_children :: "'f provider \<Rightarrow> 'f store option" where
  "provider_children p = (if \<not> loadedStore p then None else Some (provided p))"

definition useSfStablecoinStore :: "'f store option \<Rightarrow> 'f store result" where
  "useSfStablecoinStore context1 =
     (case context1 of
        None \<Rightarrow> Inl (Error ''You must provide a SfStablecoinStore via SfStablecoinStoreProvider'')
      | Some st \<Rightarrow> Inr st)"

definition store_loads :: "addresses \<Rightarrow> base_state \<Rightarrow> state_view option \<Rightarrow> 'f provider \<Rightarrow> 'f provider" where
  "store_loads addrs base extra p =
     (case load (\<lambda>st. (st, Inr ())) addrs base extra (provided p) of
        (st, Inl e) \<Rightarrow> p\<lparr>provided := st\<rparr>
      | (st, Inr _) \<Rightarrow> onLoaded_called (p\<lparr>provided := st\<rparr>))"

text \<open>A store that has stopped may still load or update: its fetches are not cancelled.\<close>

inductive provider_step :: "'f provider \<Rightarrow> 'f provider \<Rightarrow> bool" where
  effect: "provider_step p (provider_effect p)"
| cleanup: "provider_step p (provider_cleanup p)"
| loads: "\<not> loaded (provided p) \<Longrightarrow> provider_step p (store_loads addrs base extra p)"
| updates: "update_state R addrs u x (provided p) = (st, r) \<Longrightarrow> provider_step p (p\<lparr>provided := st\<rparr>)"
| timer: "update_state R addrs None None
      ((provided p)\<lparr>timers := removeAll t (timers (provided p)), updateTimeoutId := None\<rparr>) = (st, r) \<Longrightarrow>
    t \<in> set (timers (provided p)) \<Longrightarrow> provider_step p (p\<lparr>provided := st\<rparr>)"

inductive provider_reachable :: "'f provider \<Rightarrow> bool" where
  mounted: "core_ok st \<Longrightarrow> provider_reachable (mount_provider st)"
| step: "provider_reachable p \<Longrightarrow> provider_step p p' \<Longrightarrow> provider_reachable p'"

definition provider_ok :: "'f provider \<Rightarrow> bool" where
  "provider_ok p \<longleftrightarrow> core_ok (provided p) \<and> (loadedStore p \<longrightarrow> loaded (provided p))"

lemma update_state_keeps_loaded [simp]: "loaded (fst (update_state R addrs u x st)) = loaded st"
  by (simp add: update_state_def Let_def split: option.split sum.split)

lemma load_result:
  assumes "\<not> loaded st"
  shows "loaded (fst (load (\<lambda>st. (st, Inr ())) addrs base extra st)) \<longleftrightarrow>
    (\<exists>u. snd (load (\<lambda>st. (st, Inr ())) addrs base extra st) = Inr u)"
  using assms by (simp add: load_def Let_def split: sum.split)

lemma core_ok_loaded: "core_ok st \<Longrightarrow> core_ok (fst (load (\<lambda>st. (st, Inr ())) addrs base extra st))"
  using core_ok_load [of st "[]" "Inr ()"] by simp

lemma stop_loaded [simp]: "loaded (stop (\<lambda>st. st) st) = loaded st"
  by (simp add: stop_def cancelUpdateIfScheduled_def split: option.split)

lemma provider_ok_step: "provider_step p p' \<Longrightarrow> provider_ok p \<Longrightarrow> provider_ok p'"
proof (induction rule: provider_step.induct)
  case (loads p addrs base extra)
  let ?r = "load (\<lambda>st. (st, Inr ())) addrs base extra (provided p)"
  have "core_ok (fst ?r)" using loads core_ok_loaded by (auto simp: provider_ok_def)
  with load_result [OF loads(1), of addrs base extra] loads show ?case
    by (cases ?r; cases "snd ?r")
      (auto simp: store_loads_def onLoaded_called_def provider_ok_def)
next
  case (updates R addrs u x p st r)
  then show ?case
    using core_ok_update_state [of "provided p" R addrs u x] update_state_keeps_loaded [of R addrs u x "provided p"]
    by (simp add: provider_ok_def)
next
  case (timer R addrs t p st r)
  let ?st = "(provided p)\<lparr>timers := removeAll t (timers (provided p)), updateTimeoutId := None\<rparr>"
  have "core_ok ?st" using timer core_ok_expired by (auto simp: provider_ok_def)
  then show ?case
    using timer core_ok_update_state [of ?st R addrs None None] update_state_keeps_loaded [of R addrs None None ?st]
    by (simp add: provider_ok_def)
qed (simp_all add: provider_ok_def provider_effect_def provider_cleanup_def core_ok_stop)

lemma provider_ok_reachable: "provider_reachable p \<Longrightarrow> provider_ok p"
proof (induction rule: provider_reachable.induct)
  case (mounted st)
  then show ?case by (simp add: provider_ok_def mount_provider_def)
qed (rule provider_ok_step)

section \<open>Properties\<close>

text \<open>
  C15: A component with the selector shows the current selection, from its first render on: after
  whatever updates the store takes, returning or throwing, before or after the effect, and
  whenever React renders, either another render is pending, or what the component was given
  is, by \<open>equals\<close>, the selection from the store's present state.  The exception is a
  selection that changed, since the last render, at an update of which the component's
  listener was not told: one before the effect registered it, or one whose notification was
  lost because the update or a listener called earlier threw.
\<close>

theorem selection_is_current:
  assumes "\<And>s. plain (select s)" and "selector_reachable select st0 (st, h, missed)"
  shows "rerender_pending h \<or> missed \<or> equals (shown h) (select (state st))"
proof -
  from assms(2) have "selection_ok select (st, h, missed)"
  proof (induction rule: selector_reachable.induct)
    case mounted
    then show ?case using assms(1) by (simp add: selection_ok_def mount_selector_def)
  qed (rule selection_ok_step [OF assms(1)])
  then show ?thesis by (simp add: selection_ok_def)
qed

definition sample_select :: "state_view \<Rightarrow> store_value option js_value" where
  "sample_select s = ObjectAt 0 [(''numberOfTroves'', True, Primitive (s ''numberOfTroves''))]"

lemma number_of_troves_shown:
  "state st ''numberOfTroves'' = (case extra_view (extraState st) ''numberOfTroves'' of
     Some v \<Rightarrow> Some v | None \<Rightarrow> map_option (\<lambda>b. JNumber (numberOfTroves b)) (baseState st))"
  by (simp add: state_def map_add_def base_view_def derived_view_def base_keys_def base_values_def derived_keys_def
      derived_values_def split: option.split)

lemma sample_base_derived: "derive sample_addresses sample_base = Inr sample_derived"
  by (rule sample_derive) (simp_all add: sample_base_def Let_def)

theorem selection_is_current_witness:
  "\<exists>st h. \<not> rerender_pending h \<and> subscribed h \<and> state st \<noteq> state sample_store
     \<and> selector_reachable sample_select sample_store (st, h, False) \<and> equals (shown h) (sample_select (state st))"
proof -
  obtain st' p where u: "update_state (\<lambda>s u. s) sample_addresses (Some sample_update) None sample_store = (st', Inr p)"
    using sample_update_state by blast
  have fields: "baseState sample_store = Some sample_base" "extraState sample_store = None"
    by (simp_all add: sample_store_def new_store_def)
  have numbers: "numberOfTroves (reduce sample_base sample_update) = 1" "numberOfTroves sample_base = 0"
    by (simp_all add: reduce_def updateIfChanged_def sample_update_def sample_base_def Let_def)
  have "baseState st' = Some (reduce sample_base sample_update)" "extraState st' = None"
    using u fields by (auto simp: update_state_Inr)
  then have "state st' ''numberOfTroves'' = Some (JNumber 1)"
    by (simp add: number_of_troves_shown extra_view_def numbers)
  moreover have "state sample_store ''numberOfTroves'' = Some (JNumber 0)"
    by (simp add: number_of_troves_shown extra_view_def numbers fields)
  ultimately have new: "state st' \<noteq> state sample_store" by auto
  let ?before = "subscribe_effect (mount_selector sample_select sample_store)"
  let ?h = "render_selector sample_select st' (notified sample_select p ?before)"
  have "selector_reachable sample_select sample_store (sample_store, ?before, False)"
    by (rule selector_reachable.step [OF selector_reachable.mounted effect_runs])
  then have "selector_reachable sample_select sample_store (st', notified sample_select p ?before, False)"
    using selector_reachable.step store_updates [OF u, of sample_select ?before False] by fastforce
  then have r: "selector_reachable sample_select sample_store (st', ?h, False)"
    by (rule selector_reachable.step) (rule react_renders)
  have "\<not> rerender_pending ?h" by (simp add: render_selector_def)
  moreover have "subscribed ?h" by simp
  moreover from selection_is_current [OF _ r] \<open>\<not> rerender_pending ?h\<close>
  have "equals (shown ?h) (sample_select (state st'))" by (simp add: sample_select_def)
  ultimately show ?thesis using new r by blast
qed

text \<open>
  An update of the store between a component's first render and its effect is missed: the
  component keeps showing the selection from before it, with no render pending, when the effect
  has registered the listener.
\<close>

theorem early_update_is_missed:
  assumes "update_state R addrs u x st = (st', Inr p)"
    and "\<not> equals (select (state st)) (select (state st'))"
  shows "let h = subscribe_effect (notified select p (mount_selector select st))
    in subscribed h \<and> \<not> rerender_pending h \<and> \<not> equals (shown h) (select (state st'))"
  using assms by (simp add: Let_def subscribe_effect_def notified_def mount_selector_def)

text \<open>
  The reducer's state is, by \<open>equals\<close>, what reducing all the actions, the updates of the store
  among them, gives from the initial state, although it keeps its object when a step makes no
  difference; and the next render returns it.
\<close>

theorem reducer_reduces_all:
  assumes "\<And>s. plain (init s)" and "\<And>v a. plain v \<Longrightarrow> plain (reduce1 v a)"
    and "\<And>v w a. plain v \<Longrightarrow> plain w \<Longrightarrow> equals v w \<Longrightarrow> equals (reduce1 v a) (reduce1 w a)"
  shows "equals
    (fst (render_reducer init store st' (fold (reducer_dispatch reduce1) actions (init_reducer init store st))))
    (foldl reduce1 (init (state st)) actions)"
  using js.skipping_keeps [of "init (state st)" reduce1 actions] assms
  by (simp add: render_reducer_def Let_def dispatches_current init_reducer_def)

text \<open>
  C23: What the provider renders below it always has a store, and a loaded one: the hook does not
  throw there, and every key of the base state and the derived state is defined.
\<close>

theorem children_have_loaded_store:
  assumes "provider_reachable p" and "provider_children p = Some st"
  shows "useSfStablecoinStore (provider_children p) = Inr st \<and> loaded st \<and>
    set base_keys \<union> set derived_keys \<subseteq> dom (state st)"
proof -
  have ok: "core_ok st" "loaded st"
    using provider_ok_reachable [OF assms(1)] assms(2)
    by (auto simp: provider_ok_def provider_children_def split: if_splits)
  then obtain b d where "baseState st = Some b" "derivedState st = Some d" by (auto simp: core_ok_def)
  then have "set base_keys \<union> set derived_keys \<subseteq> dom (state st)"
    by (auto simp: state_def base_view_def derived_view_def)
  with ok assms(2) show ?thesis by (simp add: useSfStablecoinStore_def)
qed

theorem children_have_loaded_store_witness:
  "\<exists>st. provider_children (store_loads sample_addresses sample_base None
      (provider_effect (mount_provider (new_store :: unit store)))) = Some st \<and> loaded st \<and> state st ''price'' \<noteq> None"
proof -
  let ?p = "provider_effect (mount_provider (new_store :: unit store))"
  have "provider_reachable (store_loads sample_addresses sample_base None ?p)"
    by (rule provider_reachable.step [OF provider_reachable.step [OF provider_reachable.mounted effect] loads])
      (simp_all add: core_ok_def timers_ok_def new_store_def provider_effect_def mount_provider_def)
  moreover have "\<exists>st. provider_children (store_loads sample_addresses sample_base None ?p) = Some st"
    by (simp add: store_loads_def provider_effect_def mount_provider_def new_store_def load_def sample_base_derived
        Let_def onLoaded_called_def provider_children_def)
  ultimately obtain st where st: "provider_children (store_loads sample_addresses sample_base None ?p) = Some st"
      "loaded st" "set base_keys \<subseteq> dom (state st)"
    using children_have_loaded_store by blast
  have "''price'' \<in> set base_keys" by (simp add: base_keys_def)
  with st show ?thesis by blast
qed

text \<open>
  A provider whose effect runs again over a store that has loaded shows its loader for ever:
  \<open>onLoaded\<close> is called once in a store's life.
\<close>

theorem loaded_store_not_shown:
  assumes "provider_step\<^sup>*\<^sup>* (provider_effect (provider_cleanup p)) p'" and "loaded (provided p)"
  shows "provider_children p' = None"
proof -
  have "loaded (provided p') \<and> \<not> loadedStore p'"
    using assms(1)
  proof (induction rule: rtranclp_induct)
    case base
    then show ?case using assms(2) by (simp add: provider_effect_def provider_cleanup_def)
  next
    case (step q q')
    from step(2,3) show ?case
    proof (induction rule: provider_step.induct)
      case (updates R addrs u x p st r)
      then show ?case using update_state_keeps_loaded [of R addrs u x "provided p"] by simp
    next
      case (timer R addrs t p st r)
      then show ?case
        using update_state_keeps_loaded [of R addrs None None "(provided p)\<lparr>timers := removeAll t (timers (provided p)), updateTimeoutId := None\<rparr>"]
        by simp
    qed (simp_all add: provider_effect_def provider_cleanup_def)
  qed
  then show ?thesis by (simp add: provider_children_def)
qed

end
