(* ===== verification/Frontend_Forms.thy ===== *)
theory Frontend_Forms
  imports Trove_Validation
begin

text \<open>
  The forms of the frontend that compute what they show and send: opening and adjusting a trove
  (\<^verbatim>\<open>packages/dev-frontend/src/components/Trove/Opening.tsx\<close>, \<^verbatim>\<open>Adjusting.tsx\<close>,
  \<^verbatim>\<open>CollateralRatio.tsx\<close>, \<^verbatim>\<open>hooks/useStableTroveChange.ts\<close>), and redeeming
  (\<^verbatim>\<open>components/Redemption/Redemption.tsx\<close>).

  A component's hooks are a record of its state; an effect is a function on it, run after the
  render in which it was created.  The elements rendered around the values are not modelled.
\<close>

section \<open>Opening a trove\<close>

definition GAS_ROOM_FIL :: decimal where
  "GAS_ROOM_FIL = Decimal 100000000000000000"

lemma GAS_ROOM_FIL_from_source: "from_ish (DNumber ''0.1'') = Inr GAS_ROOM_FIL"
  using fromString_fraction [of "''0''" "''1''"] by (simp add: numeral_eval GAS_ROOM_FIL_def)

definition EMPTY_TROVE :: trove where
  "EMPTY_TROVE = \<lparr>collateral = ZERO, debt = ZERO\<rparr>"

text \<open>What is left of the balance once the gas is paid for.\<close>

definition availableForDeposit :: "decimal \<Rightarrow> decimal result" where
  "availableForDeposit balance =
     (if GAS_ROOM_FIL < balance then sub_dec balance GAS_ROOM_FIL else Inr ZERO)"

record open_form =
  op_collateral :: decimal
  op_borrowAmount :: decimal

record open_form_view =
  ov_fee :: decimal
  ov_maxBorrowingRate :: decimal
  ov_totalDebt :: decimal
  ov_trove :: trove
  ov_maxCollateral :: decimal
  ov_collateralMaxedOut :: bool
  ov_collateralRatio :: "decimal option"
  ov_troveChange :: "trove_change option"
  ov_description :: "change_description option"

definition opening_totalDebt :: "constants \<Rightarrow> decimal \<Rightarrow> decimal \<Rightarrow> decimal" where
  "opening_totalDebt k rate borrowAmount =
     add_dec (add_dec borrowAmount (LIQUIDATION_RESERVE k)) (mul_dec borrowAmount rate)"

definition opening_trove :: "constants \<Rightarrow> decimal \<Rightarrow> open_form \<Rightarrow> trove" where
  "opening_trove k rate st =
     (let isDirty = (\<not> isZero (op_collateral st) \<or> \<not> isZero (op_borrowAmount st))
      in if isDirty
         then \<lparr>collateral = op_collateral st, debt = opening_totalDebt k rate (op_borrowAmount st)\<rparr>
         else EMPTY_TROVE)"

definition render_opening ::
  "constants \<Rightarrow> string \<Rightarrow> string \<Rightarrow> decimal \<Rightarrow> selected_state \<Rightarrow> open_form \<Rightarrow> open_form_view result" where
  "render_opening k CURRENCY COIN rate s st =
     (let trove = opening_trove k rate st;
          ratio = (if \<not> isZero (op_collateral st) \<and> \<not> isZero (op_borrowAmount st)
                   then Some (collateralRatio trove (sel_price s)) else None)
      in result_bind (with_ish (add_dec rate) (DNumber ''0.005'')) (\<lambda>maxRate.
         result_bind (availableForDeposit (sel_accountBalance s)) (\<lambda>maxCollateral.
         result_map (\<lambda>(change, description).
           \<lparr>ov_fee = mul_dec (op_borrowAmount st) rate, ov_maxBorrowingRate = maxRate,
            ov_totalDebt = opening_totalDebt k rate (op_borrowAmount st), ov_trove = trove,
            ov_maxCollateral = maxCollateral,
            ov_collateralMaxedOut = eq_dec (op_collateral st) maxCollateral,
            ov_collateralRatio = ratio, ov_troveChange = change, ov_description = description\<rparr>)
           (validateTroveChange k CURRENCY COIN EMPTY_TROVE trove rate s))))"

text \<open>A deposit without a debt gets the minimum debt; the button with the clock undoes both.\<close>

definition opening_effect :: "constants \<Rightarrow> open_form \<Rightarrow> open_form" where
  "opening_effect k st =
     (if \<not> isZero (op_collateral st) \<and> isZero (op_borrowAmount st)
      then st\<lparr>op_borrowAmount := MINIMUM_NET_DEBT k\<rparr> else st)"

definition reset_opening :: "open_form \<Rightarrow> open_form" where
  "reset_opening st = \<lparr>op_collateral = ZERO, op_borrowAmount = ZERO\<rparr>"

section \<open>Adjusting a trove\<close>

definition feeFrom :: "constants \<Rightarrow> trove \<Rightarrow> trove \<Rightarrow> decimal \<Rightarrow> decimal result" where
  "feeFrom k original edited rate =
     result_map (\<lambda>changeOpt.
       case changeOpt of
         None \<Rightarrow> ZERO
       | Some (InvalidCreation _ _) \<Rightarrow> ZERO
       | Some change \<Rightarrow>
           (case borrowDebtToken (params_of change) of
              Some borrow \<Rightarrow> mul_dec borrow rate
            | None \<Rightarrow> ZERO))
       (whatChanged k original edited (Some (DDecimal rate)))"

text \<open>
  \<open>applyUnsavedCollateralChanges\<close> and \<open>applyUnsavedNetDebtChanges\<close> on the amount the trove has
  now.
\<close>

definition applyUnsavedChanges :: "difference \<Rightarrow> decimal \<Rightarrow> decimal result" where
  "applyUnsavedChanges unsavedChanges current =
     (case diff_absoluteValue unsavedChanges of
        None \<Rightarrow> Inr current
      | Some v \<Rightarrow>
          if diff_positive unsavedChanges \<noteq> None then Inr (add_dec current v)
          else if diff_negative unsavedChanges \<noteq> None then
            (if v < current then sub_dec current v else Inr current)
          else Inr current)"

definition applyUnsavedCollateralChanges :: "difference \<Rightarrow> trove \<Rightarrow> decimal result" where
  "applyUnsavedCollateralChanges unsavedChanges trove = applyUnsavedChanges unsavedChanges (collateral trove)"

definition applyUnsavedNetDebtChanges :: "constants \<Rightarrow> difference \<Rightarrow> trove \<Rightarrow> decimal result" where
  "applyUnsavedNetDebtChanges k unsavedChanges trove =
     result_bind (netDebt k trove) (applyUnsavedChanges unsavedChanges)"

record adjusting =
  adj_collateral :: decimal
  adj_netDebt :: decimal
  previousTrove :: trove

definition init_adjusting :: "constants \<Rightarrow> trove \<Rightarrow> adjusting result" where
  "init_adjusting k trove =
     result_map (\<lambda>net. \<lparr>adj_collateral = collateral trove, adj_netDebt = net, previousTrove = trove\<rparr>)
       (netDebt k trove)"

text \<open>The effect that carries the edits over to a trove the store has updated.\<close>

definition adjusting_effect :: "constants \<Rightarrow> trove \<Rightarrow> adjusting \<Rightarrow> adjusting result" where
  "adjusting_effect k trove st =
     result_bind
       (if \<not> eq_dec (collateral (previousTrove st)) (collateral trove)
        then result_bind (between (Some (DDecimal (adj_collateral st)))
                            (Some (DDecimal (collateral (previousTrove st))))) (\<lambda>unsaved.
             applyUnsavedCollateralChanges unsaved trove)
        else Inr (adj_collateral st)) (\<lambda>nextCollateral.
     result_bind (netDebt k (previousTrove st)) (\<lambda>previousNet.
     result_bind (netDebt k trove) (\<lambda>net.
     result_map (\<lambda>nextNetDebt. \<lparr>adj_collateral = nextCollateral, adj_netDebt = nextNetDebt, previousTrove = trove\<rparr>)
       (if \<not> eq_dec previousNet net
        then result_bind (between (Some (DDecimal (adj_netDebt st))) (Some (DDecimal previousNet))) (\<lambda>unsaved.
             applyUnsavedNetDebtChanges k unsaved trove)
        else Inr (adj_netDebt st)))))"

definition reset_adjusting :: "constants \<Rightarrow> trove \<Rightarrow> adjusting \<Rightarrow> adjusting result" where
  "reset_adjusting k trove st =
     result_map (\<lambda>net. st\<lparr>adj_collateral := collateral trove, adj_netDebt := net\<rparr>) (netDebt k trove)"

text \<open>The fee and the trove the form shows and validates.\<close>

definition adjusting_fee :: "constants \<Rightarrow> trove \<Rightarrow> decimal \<Rightarrow> adjusting \<Rightarrow> decimal result" where
  "adjusting_fee k trove rate st =
     result_bind (netDebt k trove) (\<lambda>net.
       if net < adj_netDebt st then
         result_bind (sub_dec (adj_netDebt st) net) (\<lambda>debtIncreaseAmount.
           feeFrom k trove \<lparr>collateral = collateral trove, debt = add_dec (debt trove) debtIncreaseAmount\<rparr> rate)
       else Inr ZERO)"

definition updatedTrove :: "constants \<Rightarrow> trove \<Rightarrow> decimal \<Rightarrow> adjusting \<Rightarrow> trove result" where
  "updatedTrove k trove rate st =
     result_bind (netDebt k trove) (\<lambda>net.
     result_map (\<lambda>fee.
       let isDirty = (\<not> eq_dec (adj_collateral st) (collateral trove) \<or> \<not> eq_dec (adj_netDebt st) net);
           totalDebt = add_dec (add_dec (adj_netDebt st) (LIQUIDATION_RESERVE k)) fee
       in if isDirty then \<lparr>collateral = adj_collateral st, debt = totalDebt\<rparr> else trove)
       (adjusting_fee k trove rate st))"

record adjusting_view =
  av_fee :: decimal
  av_totalDebt :: decimal
  av_maxBorrowingRate :: decimal
  av_updatedTrove :: trove
  av_collateralMaxedOut :: bool
  av_collateralRatio :: "decimal option"
  av_collateralRatioChange :: difference
  av_troveChange :: "trove_change option"
  av_description :: "change_description option"

definition render_adjusting ::
  "constants \<Rightarrow> string \<Rightarrow> string \<Rightarrow> trove \<Rightarrow> decimal \<Rightarrow> selected_state \<Rightarrow> adjusting \<Rightarrow> adjusting_view result" where
  "render_adjusting k CURRENCY COIN trove rate s st =
     result_bind (adjusting_fee k trove rate st) (\<lambda>fee.
     result_bind (with_ish (add_dec rate) (DNumber ''0.005'')) (\<lambda>maxRate.
     result_bind (updatedTrove k trove rate st) (\<lambda>updated.
     result_bind (availableForDeposit (sel_accountBalance s)) (\<lambda>availableEth.
     let ratio = (if \<not> isZero (adj_collateral st) \<and> \<not> isZero (adj_netDebt st)
                  then Some (collateralRatio updated (sel_price s)) else None) in
     result_bind (between (map_option DDecimal ratio) (Some (DDecimal (collateralRatio trove (sel_price s))))) (\<lambda>ratioChange.
     result_map (\<lambda>(change, description).
       \<lparr>av_fee = fee,
        av_totalDebt = add_dec (add_dec (adj_netDebt st) (LIQUIDATION_RESERVE k)) fee,
        av_maxBorrowingRate = maxRate, av_updatedTrove = updated,
        av_collateralMaxedOut = eq_dec (adj_collateral st) (add_dec (collateral trove) availableEth),
        av_collateralRatio = ratio, av_collateralRatioChange = ratioChange,
        av_troveChange = change, av_description = description\<rparr>)
       (validateTroveChange k CURRENCY COIN trove updated rate s))))))"

section \<open>The collateral ratio shown\<close>

datatype ratio_color = Success | Warning | Danger | Muted

definition collateralRatio_color :: "decimal option \<Rightarrow> ratio_color result" where
  "collateralRatio_color value =
     (case value of
        None \<Rightarrow> Inr Muted
      | Some v \<Rightarrow>
          if CRITICAL_COLLATERAL_RATIO < v then Inr Success
          else with_ish (\<lambda>warning. if warning < v then Warning else Danger) (DNumber ''1.2''))"

definition exceeds_ten :: "difference option \<Rightarrow> bool result" where
  "exceeds_ten x =
     (case Option.bind x diff_absoluteValue of
        None \<Rightarrow> Inr False
      | Some v \<Rightarrow> with_ish (\<lambda>ten. ten < v) (DNumber ''10''))"

text \<open>\<open>pendingAmount\<close>: a jump of more than 1000% is shown as a sign alone.\<close>

definition collateralRatio_pending :: "difference option \<Rightarrow> string option result" where
  "collateralRatio_pending change =
     result_bind (exceeds_ten (Option.bind change diff_positive)) (\<lambda>up.
     if up then Inr (Some ''++'')
     else result_bind (exceeds_ten (Option.bind change diff_negative)) (\<lambda>down.
       if down then Inr (Some ''--'')
       else (case change of
               None \<Rightarrow> Inr None
             | Some c \<Rightarrow>
                 result_bind (new_Percent (RDifference c)) (\<lambda>changePct.
                 result_bind (nonZeroish changePct 2) (\<lambda>shown.
                   case shown of
                     None \<Rightarrow> Inr None
                   | Some pct \<Rightarrow> result_map Some (percent_prettify pct))))))"

definition collateralRatio_bubble :: "decimal option \<Rightarrow> bool result" where
  "collateralRatio_bubble value =
     (case value of None \<Rightarrow> Inr False | Some v \<Rightarrow> with_ish (\<lambda>limit. v < limit) (DNumber ''1.5''))"

section \<open>The change that is kept while it stays the same\<close>

definition paramsEq :: "decimal option \<Rightarrow> decimal option \<Rightarrow> bool" where
  "paramsEq a b \<longleftrightarrow>
     (case (a, b) of (Some x, Some y) \<Rightarrow> eq_dec x y | (None, None) \<Rightarrow> True | _ \<Rightarrow> False)"

fun change_type :: "trove_change \<Rightarrow> string" where
  "change_type (InvalidCreation _ _) = ''invalidCreation''"
| "change_type (Creation _) = ''creation''"
| "change_type (Closure _) = ''closure''"
| "change_type (Adjustment _ _) = ''adjustment''"

definition change_equals :: "trove_change \<Rightarrow> trove_change \<Rightarrow> bool" where
  "change_equals a b \<longleftrightarrow>
     change_type a = change_type b \<and>
     paramsEq (borrowDebtToken (params_of a)) (borrowDebtToken (params_of b)) \<and>
     paramsEq (repayDebtToken (params_of a)) (repayDebtToken (params_of b)) \<and>
     paramsEq (depositCollateral (params_of a)) (depositCollateral (params_of b)) \<and>
     paramsEq (withdrawCollateral (params_of a)) (withdrawCollateral (params_of b))"

definition stable_effect :: "trove_change option \<Rightarrow> trove_change option \<Rightarrow> trove_change option" where
  "stable_effect stableTroveChange troveChange =
     (if (stableTroveChange \<noteq> None) \<noteq> (troveChange \<noteq> None) then troveChange
      else
        case (stableTroveChange, troveChange) of
          (Some a, Some b) \<Rightarrow> if \<not> change_equals a b then troveChange else stableTroveChange
        | _ \<Rightarrow> stableTroveChange)"

text \<open>
  What \<open>TroveAction\<close> sends for a change; the type of its property excludes an invalid creation,
  which has no parameters.
\<close>

datatype trove_tx = SendOpen creation_params | SendClose | SendAdjust adjustment_params

fun trove_action :: "trove_change \<Rightarrow> trove_tx" where
  "trove_action (Creation p) = SendOpen p"
| "trove_action (Closure p) = SendClose"
| "trove_action (Adjustment p _) = SendAdjust p"
| "trove_action (InvalidCreation _ _) = SendAdjust no_params"

section \<open>Redeeming\<close>

record redemption_form =
  rf_debtToken :: decimal
  rf_estimatedDebtToken :: decimal
  rf_hintsPending :: bool
  rf_changePending :: bool

definition init_redemption :: redemption_form where
  "init_redemption =
     \<lparr>rf_debtToken = ZERO, rf_estimatedDebtToken = ZERO, rf_hintsPending = False, rf_changePending = False\<rparr>"

datatype redemption_message =
    ExceedsBalance string
  | NotPossible string
  | AmountAdjusted string string
  | WillRedeem string string

definition redemption_fee :: "decimal \<Rightarrow> decimal \<Rightarrow> redemption_form \<Rightarrow> decimal" where
  "redemption_fee rate p st = div_dec (mul_dec (rf_debtToken st) rate) p"

text \<open>\<open>amount.div(price).sub(fee).prettify()\<close>\<close>

definition shown_return :: "decimal \<Rightarrow> decimal \<Rightarrow> decimal \<Rightarrow> string result" where
  "shown_return token p fee = result_bind (sub_dec (div_dec token p) fee) (\<lambda>d. prettify d None)"

definition redemption_status ::
  "constants \<Rightarrow> decimal \<Rightarrow> decimal \<Rightarrow> decimal \<Rightarrow> redemption_form \<Rightarrow> (bool \<times> redemption_message option) result" where
  "redemption_status k balance rate p st =
     (let entered = rf_debtToken st; estimated = rf_estimatedDebtToken st;
          fee = redemption_fee rate p st
      in
      if balance < entered then
        result_bind (sub_dec entered balance) (\<lambda>excess.
        result_map (\<lambda>text. (False, Some (ExceedsBalance text))) (prettify excess (Some 2)))
      else if \<not> rf_hintsPending st \<and> \<not> eq_dec estimated entered \<and> isZero estimated then
        result_map (\<lambda>text. (False, Some (NotPossible text))) (prettify (MINIMUM_NET_DEBT k) (Some 0))
      else if \<not> rf_hintsPending st \<and> \<not> eq_dec estimated entered \<and> nonZero_dec estimated \<noteq> None then
        result_bind (prettify estimated None) (\<lambda>shown.
        result_map (\<lambda>text. (True, Some (AmountAdjusted shown text))) (shown_return estimated p fee))
      else if \<not> rf_hintsPending st \<and> nonZero_dec entered \<noteq> None then
        result_bind (prettify entered None) (\<lambda>shown.
        result_map (\<lambda>text. (True, Some (WillRedeem shown text))) (shown_return entered p fee))
      else Inr (False, None))"

datatype my_transaction = TxPending | TxFailed | TxOther

text \<open>
  The effect on the transaction's state; the effect that asks for hints, the timer's answer,
  and the effect's cleanup.
\<close>

definition redemption_tx_effect :: "my_transaction \<Rightarrow> redemption_form \<Rightarrow> redemption_form" where
  "redemption_tx_effect tx st =
     (case tx of
        TxPending \<Rightarrow> st\<lparr>rf_changePending := True\<rparr>
      | TxFailed \<Rightarrow> st\<lparr>rf_changePending := False\<rparr>
      | TxOther \<Rightarrow> st\<lparr>rf_changePending := False, rf_debtToken := ZERO\<rparr>)"

definition hints_effect :: "redemption_form \<Rightarrow> redemption_form" where
  "hints_effect st = (if isZero (rf_debtToken st) then st else st\<lparr>rf_hintsPending := True\<rparr>)"

definition hints_found :: "decimal \<Rightarrow> redemption_form \<Rightarrow> redemption_form" where
  "hints_found estimated st = st\<lparr>rf_estimatedDebtToken := estimated, rf_hintsPending := False\<rparr>"

definition hints_cleanup :: "redemption_form \<Rightarrow> redemption_form" where
  "hints_cleanup st = st\<lparr>rf_hintsPending := False\<rparr>"

section \<open>Lemmas\<close>

text \<open>The fee put on an amount and taken out again leaves the amount, whatever is rounded.\<close>

lemma fee_out_of_amount: "divCeil (add_dec b (mul_dec b r)) (add_dec ONE r) = b"
proof -
  define d where "d = DIGITS + bigNumber r"
  define x where "x = bigNumber b * bigNumber r div DIGITS"
  have x: "DIGITS * x \<le> bigNumber b * bigNumber r" "bigNumber b * bigNumber r < DIGITS * x + DIGITS"
    unfolding x_def using dividend_less_div_times [of DIGITS "bigNumber b * bigNumber r"]
    by (simp_all add: mult.commute)
  have e: "(bigNumber b + x) * DIGITS = bigNumber b * DIGITS + DIGITS * x" by (simp add: algebra_simps)
  have d: "bigNumber b * d = bigNumber b * DIGITS + bigNumber b * bigNumber r" by (simp add: d_def algebra_simps)
  have "((bigNumber b + x) * DIGITS + (d - 1)) div d = bigNumber b"
  proof (rule div_nat_eqI)
    have "bigNumber b * d \<le> (bigNumber b + x) * DIGITS + (d - 1)"
      unfolding e d using x DIGITS_pos(1) by (simp add: d_def)
    then show "d * bigNumber b \<le> (bigNumber b + x) * DIGITS + (d - 1)" by (simp only: mult.commute)
    have "(bigNumber b + x) * DIGITS + (d - 1) < bigNumber b * d + d"
      unfolding e d using x DIGITS_pos(1) by (simp add: d_def)
    then show "(bigNumber b + x) * DIGITS + (d - 1) < d * Suc (bigNumber b)" by (simp add: algebra_simps)
  qed
  then show ?thesis by (simp add: decimal_eq_iff divCeil_def d_def x_def)
qed

lemma EMPTY_TROVE_eq: "EMPTY_TROVE = emptyTrove"
  by (simp add: EMPTY_TROVE_def emptyTrove_def)

lemma opening_change:
  assumes "op_collateral st \<noteq> ZERO \<or> op_borrowAmount st \<noteq> ZERO"
  shows "whatChanged k EMPTY_TROVE (opening_trove k r st) (Some (DDecimal r)) = Inr (Some
    (Creation \<lparr>cr_depositCollateral = op_collateral st, cr_borrowDebtToken = op_borrowAmount st\<rparr>))"
proof -
  let ?b = "op_borrowAmount st" and ?t = "opening_trove k r st"
  have t: "?t = \<lparr>collateral = op_collateral st, debt = opening_totalDebt k r ?b\<rparr>"
    using assms by (auto simp: opening_trove_def)
  have debt: "opening_totalDebt k r ?b = add_dec (LIQUIDATION_RESERVE k) (add_dec ?b (mul_dec ?b r))"
    by (simp add: opening_totalDebt_def decimal_eq_iff)
  have "EMPTY_TROVE \<noteq> ?t"
    using assms by (auto simp: t EMPTY_TROVE_def debt decimal_eq_iff)
  from whatChanged_creation [OF this] show ?thesis
    by (simp add: EMPTY_TROVE_eq t debt fee_out_of_amount leD)
qed

lemma validated_change:
  "validateTroveChange k CURRENCY COIN a b r s = Inr (Some c, d) \<Longrightarrow>
     whatChanged k a b (Some (DDecimal r)) = Inr (Some c)"
  by (auto simp: validateTroveChange_def result_simps Let_def split: option.splits trove_change.splits)

section \<open>Properties\<close>

text \<open>
  C13: Opening a trove: whatever the form offers to send opens a trove with exactly the collateral
  and the borrowed amount the user entered, although the form works from the total debt, fee and
  liquidation reserve included.
\<close>

theorem opening_sends_entered:
  assumes "render_opening k CURRENCY COIN rate s st = Inr v" and "ov_troveChange v = Some c"
  shows "trove_action c =
    SendOpen \<lparr>cr_depositCollateral = op_collateral st, cr_borrowDebtToken = op_borrowAmount st\<rparr>"
proof -
  from assms obtain d where "validateTroveChange k CURRENCY COIN EMPTY_TROVE (opening_trove k rate st) rate s = Inr (Some c, d)"
    by (auto simp: render_opening_def result_simps Let_def)
  note change = validated_change [OF this]
  show ?thesis
  proof (cases "op_collateral st \<noteq> ZERO \<or> op_borrowAmount st \<noteq> ZERO")
    case True
    from change opening_change [OF this, of k rate] show ?thesis by auto
  next
    case False
    with change show ?thesis by (simp add: opening_trove_def)
  qed
qed

definition sample_opening :: open_form where
  "sample_opening = \<lparr>op_collateral = Decimal (1000 * DIGITS), op_borrowAmount = Decimal (280 * DIGITS)\<rparr>"

theorem opening_sends_entered_witness:
  "\<exists>v c. render_opening default_constants ''FIL'' ''USDFC'' ZERO sample_selected sample_opening = Inr v
    \<and> ov_troveChange v = Some c
    \<and> trove_action c = SendOpen \<lparr>cr_depositCollateral = Decimal (1000 * DIGITS), cr_borrowDebtToken = Decimal (280 * DIGITS)\<rparr>"
proof -
  have "opening_trove default_constants ZERO sample_opening = sample_edit"
    by (simp add: opening_trove_def sample_opening_def sample_edit_def opening_totalDebt_def decimal_eq_iff
        DIGITS_eq default_constants_def)
  moreover have "\<exists>m. with_ish (add_dec ZERO) (DNumber ''0.005'') = Inr m"
    using constants_from_source(3) by (simp add: with_ish_def)
  moreover have "\<exists>m. availableForDeposit (sel_accountBalance sample_selected) = Inr m"
    by (auto simp: availableForDeposit_def sub_dec_saturating)
  ultimately obtain v c where v: "render_opening default_constants ''FIL'' ''USDFC'' ZERO sample_selected sample_opening = Inr v"
    and c: "ov_troveChange v = Some c"
    using sample_accepted by (auto simp: render_opening_def EMPTY_TROVE_eq)
  from opening_sends_entered [OF v c] v c show ?thesis by (auto simp: sample_opening_def)
qed

text \<open>
  The amount an edit becomes when the store replaces the value it was made on: the same distance
  from the new value, or the new value when the edit would take more than there is.
\<close>

definition carried_edit :: "decimal \<Rightarrow> decimal \<Rightarrow> decimal \<Rightarrow> decimal" where
  "carried_edit old edit current =
     (if current = old then edit
      else
        let x = int (bigNumber current) + (int (bigNumber edit) - int (bigNumber old))
        in if old \<le> edit \<or> 0 < x then Decimal (nat x) else current)"

lemma unsaved_carried:
  assumes "old \<noteq> INFINITY" and "edit \<noteq> INFINITY"
  shows "(if \<not> eq_dec old current
      then result_bind (between (Some (DDecimal edit)) (Some (DDecimal old))) (\<lambda>u. applyUnsavedChanges u current)
      else Inr edit) = Inr (carried_edit old edit current)"
proof (cases "current = old")
  case False
  obtain a b c where abc: "edit = Decimal a" "old = Decimal b" "current = Decimal c"
    by (metis decimal.exhaust)
  consider "b < a" | "a < b" | "a = b" by linarith
  then show ?thesis
    unfolding between_decimals [OF assms(2,1)]
    using False by cases (auto simp: abc applyUnsavedChanges_def diff_absoluteValue_def diff_positive_def
      diff_negative_def carried_edit_def decimal_eq_iff sub_dec_ok nat_add_distrib Let_def)
qed (simp add: carried_edit_def)

lemma adjusting_effect_carries:
  assumes "netDebt k (previousTrove st) = Inr old" and "netDebt k trove = Inr new"
    and "collateral (previousTrove st) \<noteq> INFINITY" and "adj_collateral st \<noteq> INFINITY"
    and "old \<noteq> INFINITY" and "adj_netDebt st \<noteq> INFINITY"
  shows "adjusting_effect k trove st = Inr
    \<lparr>adj_collateral = carried_edit (collateral (previousTrove st)) (adj_collateral st) (collateral trove),
     adj_netDebt = carried_edit old (adj_netDebt st) new, previousTrove = trove\<rparr>"
  unfolding adjusting_effect_def applyUnsavedCollateralChanges_def applyUnsavedNetDebtChanges_def assms(1,2) result_bind_simps
    unsaved_carried [OF assms(3,4)] unsaved_carried [OF assms(5,6)] by simp

text \<open>
  C21: When the store replaces the trove being adjusted, and the debts of the trove before and
  after cover the reserve, the user's edits of collateral and net debt, when the amounts of the
  trove before and of the edit are finite, keep their distance
  from it: an amount edited up or down by some difference is, where the store's amount changed,
  the store's new amount moved by that difference, except that a reduction which is not
  smaller than the new amount is dropped, the edit becoming the new amount itself; where the
  store's amount did not change the edit stays.  Running the effect again changes nothing.
\<close>

theorem store_update_carries_edits:
  assumes "netDebt k (previousTrove st) = Inr old" and "netDebt k trove = Inr new"
    and "collateral (previousTrove st) \<noteq> INFINITY" and "adj_collateral st \<noteq> INFINITY"
    and "old \<noteq> INFINITY" and "adj_netDebt st \<noteq> INFINITY"
  shows "\<exists>st'. adjusting_effect k trove st = Inr st' \<and> previousTrove st' = trove
    \<and> adj_collateral st' = carried_edit (collateral (previousTrove st)) (adj_collateral st) (collateral trove)
    \<and> adj_netDebt st' = carried_edit old (adj_netDebt st) new
    \<and> adjusting_effect k trove st' = Inr st'"
proof -
  note first = adjusting_effect_carries [OF assms]
  have "adjusting_effect k trove st' = Inr st'" if "previousTrove st' = trove" for st'
    using that assms(2) by (cases st') (simp add: adjusting_effect_def)
  with first show ?thesis by simp
qed

theorem store_update_carries_edits_witness:
  "\<exists>st'. adjusting_effect default_constants \<lparr>collateral = Decimal 7, debt = Decimal (300 * DIGITS)\<rparr>
      \<lparr>adj_collateral = Decimal 12, adj_netDebt = Decimal (281 * DIGITS),
       previousTrove = \<lparr>collateral = Decimal 10, debt = Decimal (300 * DIGITS)\<rparr>\<rparr> = Inr st'
    \<and> adj_collateral st' = Decimal 9"
proof -
  let ?t = "\<lparr>collateral = Decimal 7, debt = Decimal (300 * DIGITS)\<rparr>"
  let ?st = "\<lparr>adj_collateral = Decimal 12, adj_netDebt = Decimal (281 * DIGITS),
       previousTrove = \<lparr>collateral = Decimal 10, debt = Decimal (300 * DIGITS)\<rparr>\<rparr>"
  have net: "netDebt default_constants t = Inr (Decimal (280 * DIGITS))"
    if "debt t = Decimal (300 * DIGITS)" for t :: trove
    using that by (subst netDebt_ok) (simp_all add: default_constants_def DIGITS_eq)
  have "\<exists>st'. adjusting_effect default_constants ?t ?st = Inr st' \<and> previousTrove st' = ?t
    \<and> adj_collateral st' = carried_edit (collateral (previousTrove ?st)) (adj_collateral ?st) (collateral ?t)
    \<and> adj_netDebt st' = carried_edit (Decimal (280 * DIGITS)) (adj_netDebt ?st) (Decimal (280 * DIGITS))
    \<and> adjusting_effect default_constants ?t st' = Inr st'"
    by (rule store_update_carries_edits)
      (rule net | simp add: DIGITS_eq INFINITY_def MAX_UINT_256_def)+
  then show ?thesis by (auto simp: carried_edit_def)
qed

text \<open>
  The change that is offered and sent is always the one the form shows: the one kept from
  earlier renders is replaced as soon as it would send anything else, and one effect is enough.
\<close>

theorem stable_change_current:
  "stable_effect (stable_effect s c) c = stable_effect s c
   \<and> map_option trove_action (stable_effect s c) = map_option trove_action c"
proof -
  have p: "paramsEq x y \<longleftrightarrow> x = y" for x y by (auto simp: paramsEq_def split: option.splits)
  have "trove_action a = trove_action b" if "change_equals a b" for a b
    using that by (cases a; cases b) (auto simp: change_equals_def p)
  moreover have "change_equals a a" for a by (simp add: change_equals_def p)
  ultimately show ?thesis by (cases s; cases c) (auto simp: stable_effect_def)
qed

section \<open>The fee of an adjustment\<close>

text \<open>
  The arithmetic of raising the net debt by \<open>inc\<close>: the fee is taken from \<open>inc\<close> with the fee
  taken out, put on \<open>inc\<close>, and taken out of the sum once more.
\<close>

lemma borrowed_after_fee:
  assumes "MINIMUM_BORROWING_RATE \<le> rate" and "rate \<le> MAXIMUM_BORROWING_RATE" and "Decimal 1000000 \<le> inc"
  defines "fee \<equiv> mul_dec (divCeil inc (add_dec ONE rate)) rate"
  shows "divCeil (add_dec inc fee) (add_dec ONE rate) < inc"
proof -
  define g i r where "g = DIGITS + bigNumber rate" and "i = bigNumber inc" and "r = bigNumber rate"
  define q where "q = (i * DIGITS + (g - 1)) div g"
  have r: "5 * 10 ^ 15 \<le> r" "r \<le> 5 * 10 ^ 16" and i: "10 ^ 6 \<le> i"
    using assms(1-3) by (simp_all add: r_def i_def decimal_le_iff MINIMUM_BORROWING_RATE_def MAXIMUM_BORROWING_RATE_def)
  have g: "g = 10 ^ 18 + r" by (simp add: g_def r_def DIGITS_eq)
  have q: "bigNumber (divCeil inc (add_dec ONE rate)) = q"
    by (simp add: divCeil_def q_def i_def g_def decimal_eq_iff)
  have qg: "q * g \<le> i * 10 ^ 18 + (g - 1)" by (simp add: q_def DIGITS_eq)
  have "(q * r + g) * g = q * g * r + g * g" by (simp add: algebra_simps)
  also have "\<dots> \<le> (i * 10 ^ 18 + g) * r + g * g" using qg by (intro add_mono mult_right_mono) simp_all
  also have "\<dots> \<le> i * r * g"
  proof -
    have "g * g + g * r \<le> 3 * 10 ^ 36" using r(2) mult_mono [of g "105 * 10 ^ 16" g "105 * 10 ^ 16"]
        mult_mono [of g "105 * 10 ^ 16" r "5 * 10 ^ 16"] by (simp add: g)
    also have "\<dots> \<le> 10 ^ 6 * (5 * 10 ^ 15 * (5 * 10 ^ 15))" by simp
    also have "\<dots> \<le> i * (r * r)" using i r(1) by (intro mult_mono) simp_all
    finally show ?thesis by (simp add: g algebra_simps)
  qed
  finally have "(q * r + g) * g \<le> i * r * g" .
  then have room: "q * r + g \<le> i * r" using g by simp
  have "bigNumber fee = q * r div DIGITS" by (simp add: fee_def q r_def)
  moreover have "q * r div DIGITS * DIGITS \<le> q * r" by (rule div_times_less_eq_dividend)
  ultimately have "(i + bigNumber fee) * DIGITS + (g - 1) < i * g"
    using room by (simp add: g algebra_simps DIGITS_eq)
  then have "((i + bigNumber fee) * DIGITS + (g - 1)) div g < i" by (simp add: div_less_iff_less_mult g)
  then show ?thesis by (simp add: decimal_less_iff divCeil_def i_def g_def decimal_eq_iff)
qed

text \<open>
  C32: Adjusting a trove that is not empty and whose debt covers the reserve: outside recovery mode, where the borrowing rate lies
  between its minimum and its maximum, raising the net debt by an amount of at least a
  millionth of a millionth of the token (10^6 units) borrows less than that amount, since the
  fee is computed as if the amount contained it and then added to it all the same.
\<close>

theorem adjusting_borrows_less:
  assumes "netDebt k trove = Inr net" and "adj_netDebt st = add_dec net inc" and "Decimal 1000000 \<le> inc"
    and "MINIMUM_BORROWING_RATE \<le> rate" and "rate \<le> MAXIMUM_BORROWING_RATE" and "\<not> isEmpty trove"
  shows "\<exists>u p z b. updatedTrove k trove rate st = Inr u
    \<and> whatChanged k trove u (Some (DDecimal rate)) = Inr (Some (Adjustment p z))
    \<and> borrowDebtToken p = Some b \<and> b < inc"
proof -
  let ?fee = "mul_dec (divCeil inc (add_dec ONE rate)) rate"
  have inc: "inc \<noteq> ZERO" using assms(3) by (auto simp: decimal_le_iff)
  have debt: "debt trove = add_dec net (LIQUIDATION_RESERVE k)"
    using assms(1) by (auto simp: netDebt_def sub_dec_Inr add_dec_commute split: if_splits)
  have more: "net < adj_netDebt st" "sub_dec (adj_netDebt st) net = Inr inc"
    using assms(2) inc by (simp_all add: decimal_less_iff decimal_le_iff sub_dec_Inr decimal_eq_iff)
  have grown: "\<lparr>collateral = collateral trove, debt = add_dec (debt trove) inc\<rparr> \<noteq> trove"
    "\<not> isEmpty \<lparr>collateral = collateral trove, debt = add_dec (debt trove) inc\<rparr>"
    using inc by (cases trove; auto simp: isEmpty_iff decimal_eq_iff)+
  have larger: "debt trove < add_dec (debt trove) inc" using inc by (simp add: decimal_less_iff decimal_eq_iff)
  have fee: "adjusting_fee k trove rate st = Inr ?fee"
    unfolding adjusting_fee_def assms(1) more result_bind_simps feeFrom_def
    using whatChanged_adjustment [OF grown(1) [symmetric] assms(6) grown(2), of k rate]
    by (simp add: more diff_params_def larger)
  let ?u = "\<lparr>collateral = adj_collateral st, debt = add_dec (add_dec (adj_netDebt st) (LIQUIDATION_RESERVE k)) ?fee\<rparr>"
  have u: "updatedTrove k trove rate st = Inr ?u"
    using assms(1,2) fee inc by (simp add: updatedTrove_def decimal_eq_iff)
  have increase: "debt ?u = add_dec (debt trove) (add_dec inc ?fee)" "debt trove < debt ?u"
    using inc by (simp_all add: debt assms(2) decimal_eq_iff decimal_less_iff)
  from increase(2) have "trove \<noteq> ?u" "\<not> isEmpty ?u" by (metis less_irrefl, metis isEmpty_iff not_less_ZERO)
  from whatChanged_adjustment [OF this(1) assms(6) this(2), of k rate] u increase
    borrowed_after_fee [OF assms(4,5,3)]
  show ?thesis by (auto simp: diff_params_def)
qed

theorem adjusting_borrows_less_witness:
  "\<exists>u p z b. updatedTrove default_constants sample_edit MAXIMUM_BORROWING_RATE
       \<lparr>adj_collateral = Decimal (1000 * DIGITS), adj_netDebt = Decimal (380 * DIGITS), previousTrove = sample_edit\<rparr> = Inr u
    \<and> whatChanged default_constants sample_edit u (Some (DDecimal MAXIMUM_BORROWING_RATE)) = Inr (Some (Adjustment p z))
    \<and> borrowDebtToken p = Some b \<and> b < Decimal (100 * DIGITS)"
proof -
  have net: "netDebt default_constants sample_edit = Inr (Decimal (280 * DIGITS))"
    by (subst netDebt_ok) (simp_all add: sample_edit_def default_constants_def DIGITS_eq)
  show ?thesis
    by (rule adjusting_borrows_less [OF net])
      (simp_all add: decimal_eq_iff DIGITS_eq MINIMUM_BORROWING_RATE_def MAXIMUM_BORROWING_RATE_def
        sample_edit_def isEmpty_iff)
qed

section \<open>What the redemption form says\<close>

lemma prettify_total_text: "\<exists>s. prettify d None = Inr s"
  by (rule prettify_ok)

text \<open>
  C33: Once a redemption has gone through, the form resets the amount but not the amount its hints
  were found for: it goes on offering to redeem that amount, with the confirm button enabled,
  although nothing is entered and redeeming nothing is what it would send.
\<close>

theorem redemption_offers_nothing:
  assumes "rf_estimatedDebtToken st \<noteq> ZERO"
  shows "\<exists>shown text. redemption_status k balance rate p
      (hints_effect (hints_cleanup (redemption_tx_effect TxOther st))) =
    Inr (True, Some (AmountAdjusted shown text))
    \<and> rf_debtToken (hints_effect (hints_cleanup (redemption_tx_effect TxOther st))) = ZERO
    \<and> prettify (rf_estimatedDebtToken st) None = Inr shown"
proof -
  let ?st = "hints_effect (hints_cleanup (redemption_tx_effect TxOther st))"
  have st: "rf_debtToken ?st = ZERO" "\<not> rf_hintsPending ?st" "rf_estimatedDebtToken ?st = rf_estimatedDebtToken st"
    by (simp_all add: hints_effect_def redemption_tx_effect_def hints_cleanup_def)
  obtain shown where shown: "prettify (rf_estimatedDebtToken st) None = Inr shown" using prettify_ok by blast
  have sub: "\<exists>d. sub_dec (div_dec (rf_estimatedDebtToken st) p) (redemption_fee rate p ?st) = Inr d"
  proof (cases "p = ZERO")
    case True
    then show ?thesis by (auto simp: redemption_fee_def st div_dec_def sub_dec_saturating)
  next
    case False
    then have "redemption_fee rate p ?st = ZERO"
      by (simp add: redemption_fee_def st div_dec_def decimal_eq_iff)
    then show ?thesis by simp
  qed
  then obtain d where "sub_dec (div_dec (rf_estimatedDebtToken st) p) (redemption_fee rate p ?st) = Inr d" by blast
  moreover obtain s where "prettify d None = Inr s" using prettify_ok by blast
  ultimately have "redemption_status k balance rate p ?st = Inr (True, Some (AmountAdjusted shown s))"
    using assms shown by (simp add: redemption_status_def Let_def st shown_return_def)
  with st shown show ?thesis by blast
qed

theorem redemption_offers_nothing_witness:
  "\<exists>shown text. redemption_status default_constants ZERO HALF ONE
      (hints_effect (hints_cleanup (redemption_tx_effect TxOther (init_redemption\<lparr>rf_estimatedDebtToken := ONE\<rparr>)))) =
    Inr (True, Some (AmountAdjusted shown text)) \<and> prettify ONE None = Inr shown"
  using redemption_offers_nothing [of "init_redemption\<lparr>rf_estimatedDebtToken := ONE\<rparr>"
      default_constants ZERO HALF ONE]
  by (auto simp: decimal_eq_iff)

text \<open>
  The amount shown for an adjusted redemption deducts the fee of the amount entered, which is at
  least that of the amount redeemed; when it exceeds the return the render throws.
\<close>

lemma adjusted_return_fee:
  assumes "rf_debtToken st \<le> balance" and "\<not> rf_hintsPending st"
    and "rf_estimatedDebtToken st \<noteq> rf_debtToken st" and "rf_estimatedDebtToken st \<noteq> ZERO"
    and "div_dec (rf_estimatedDebtToken st) p < redemption_fee rate p st"
  shows "redemption_status k balance rate p st = Inl (Error ''negatives not supported by Decimal'')"
proof -
  obtain shown where "prettify (rf_estimatedDebtToken st) None = Inr shown" using prettify_ok by blast
  with assms show ?thesis
    by (simp add: redemption_status_def Let_def shown_return_def sub_dec_error not_less [symmetric])
qed

end
