(* ===== verification/Frontend_App.thy ===== *)
theory Frontend_App
  imports Frontend_Forms Ethers_Receipts
begin

text \<open>
  What the frontend starts from: its configuration
  (\<^verbatim>\<open>packages/dev-frontend/src/config/index.ts\<close>), values that are fetched and watched
  (\<^verbatim>\<open>hooks/AsyncValue.ts\<close>), the connection the rest of the application works with
  (\<^verbatim>\<open>hooks/SfStablecoinContext.tsx\<close>), and the estimate of what a trove change costs
  (\<^verbatim>\<open>components/Trove/ExpensiveTroveChangeWarning.tsx\<close>).

  What ethers makes of an address, the wallet and the network are parameters.
\<close>

section \<open>Configuration\<close>

text \<open>A parsed JSON value; the keys of an object are distinct, and a number is only compared.\<close>

datatype json =
    JsonNull
  | JsonBool bool
  | JsonNumber rat
  | JsonString string
  | JsonArray "json list"
  | JsonObject "(string \<times> json) list"

record frontend_config =
  cfg_frontendTag :: string
  cfg_ankrApiKey :: "string option"
  cfg_testnetOnly :: "bool option"
  cfg_walletConnectProjectId :: string

definition defaultConfig :: frontend_config where
  "defaultConfig =
     \<lparr>cfg_frontendTag = AddressZero, cfg_ankrApiKey = None, cfg_testnetOnly = None,
      cfg_walletConnectProjectId = ''b16efb4fd41473c0f45dbad8efa15a00''\<rparr>"

fun hasKey :: "json \<Rightarrow> string \<Rightarrow> json option" where
  "hasKey (JsonObject o1) k = map_of o1 k"
| "hasKey _ k = None"

fun is_object :: "json \<Rightarrow> bool" where
  "is_object (JsonObject o1) = True"
| "is_object (JsonArray xs) = True"
| "is_object _ = False"

text \<open>\<open>isAddress\<close> of ethers is whether \<open>getAddress\<close> does not throw.\<close>

definition isAddress :: "(string \<Rightarrow> string result) \<Rightarrow> string \<Rightarrow> bool" where
  "isAddress getAddr s = (case getAddr s of Inr _ \<Rightarrow> True | Inl _ \<Rightarrow> False)"

definition parse_frontendTag :: "(string \<Rightarrow> string result) \<Rightarrow> json \<Rightarrow> frontend_config \<Rightarrow> frontend_config result" where
  "parse_frontendTag getAddr j config =
     (case hasKey j ''frontendTag'' of
        Some (JsonString s) \<Rightarrow>
          (if s \<noteq> '''' \<and> isAddress getAddr s
           then result_map (\<lambda>a. config\<lparr>cfg_frontendTag := a\<rparr>) (getAddr s) else Inr config)
      | _ \<Rightarrow> Inr config)"

definition parse_ankrApiKey :: "json \<Rightarrow> frontend_config \<Rightarrow> frontend_config" where
  "parse_ankrApiKey j config =
     (case hasKey j ''ankrApiKey'' of
        Some (JsonString s) \<Rightarrow> (if s \<noteq> '''' then config\<lparr>cfg_ankrApiKey := Some s\<rparr> else config)
      | _ \<Rightarrow> config)"

definition parse_testnetOnly :: "json \<Rightarrow> frontend_config \<Rightarrow> frontend_config" where
  "parse_testnetOnly j config =
     (case hasKey j ''testnetOnly'' of
        Some (JsonBool b) \<Rightarrow> config\<lparr>cfg_testnetOnly := Some b\<rparr>
      | _ \<Rightarrow> config)"

definition parseConfig :: "(string \<Rightarrow> string result) \<Rightarrow> json \<Rightarrow> frontend_config result" where
  "parseConfig getAddr j =
     (if is_object j
      then result_map (\<lambda>config. parse_testnetOnly j (parse_ankrApiKey j config))
             (parse_frontendTag getAddr j defaultConfig)
      else Inr defaultConfig)"

text \<open>The answer to the request: none, or a status with what its body parses to.\<close>

datatype config_response = FetchFails | Responds bool "json result"

definition fetchConfig :: "(string \<Rightarrow> string result) \<Rightarrow> config_response \<Rightarrow> frontend_config" where
  "fetchConfig getAddr response =
     (case response of
        FetchFails \<Rightarrow> defaultConfig
      | Responds ok body \<Rightarrow>
          (if \<not> ok then defaultConfig
           else (case result_bind body (parseConfig getAddr) of
                   Inl _ \<Rightarrow> defaultConfig
                 | Inr config \<Rightarrow> config)))"

text \<open>\<open>configPromise\<close>, as what it settles with: the first call makes the request.\<close>

definition getConfig ::
  "(string \<Rightarrow> string result) \<Rightarrow> config_response \<Rightarrow> frontend_config option \<Rightarrow> frontend_config \<times> frontend_config option" where
  "getConfig getAddr response configPromise =
     (case configPromise of
        None \<Rightarrow> (fetchConfig getAddr response, Some (fetchConfig getAddr response))
      | Some config \<Rightarrow> (config, configPromise))"

section \<open>Fetched and watched values\<close>

text \<open>
  The effect of \<open>useAsyncValue\<close> runs again when what it depends on changes; each run has variables
  of its own, of which \<open>mounted\<close> is true for the latest run only.  What older runs do is in \<open>run\<close>.
\<close>

record 'v async_hook =
  callState :: "'v option"
  previousValue :: "'v option"
  async_run :: nat
  async_mounted :: bool
  async_fetching :: "nat list"

definition init_async :: "'v async_hook" where
  "init_async = \<lparr>callState = None, previousValue = None, async_run = 0, async_mounted = False, async_fetching = []\<rparr>"

definition async_effect :: "'v async_hook \<Rightarrow> 'v async_hook" where
  "async_effect h =
     h\<lparr>callState := None, previousValue := None, async_run := Suc (async_run h), async_mounted := True,
       async_fetching := async_fetching h @ [Suc (async_run h)]\<rparr>"

definition async_cleanup :: "'v async_hook \<Rightarrow> 'v async_hook" where
  "async_cleanup h = h\<lparr>async_mounted := False\<rparr>"

definition is_mounted :: "nat \<Rightarrow> 'v async_hook \<Rightarrow> bool" where
  "is_mounted run h \<longleftrightarrow> async_mounted h \<and> run = async_run h"

definition fetchValue :: "nat \<Rightarrow> 'v result \<Rightarrow> 'v async_hook \<Rightarrow> 'v async_hook" where
  "fetchValue run r h =
     (let h = h\<lparr>async_fetching := remove1 run (async_fetching h)\<rparr>
      in case r of
           Inl _ \<Rightarrow> h
         | Inr v \<Rightarrow> (if is_mounted run h \<and> previousValue h = None
                     then h\<lparr>callState := Some v, previousValue := Some v\<rparr> else h))"

definition onValueChanged :: "('v \<Rightarrow> 'v \<Rightarrow> 'v) option \<Rightarrow> nat \<Rightarrow> 'v \<Rightarrow> 'v async_hook \<Rightarrow> 'v async_hook" where
  "onValueChanged reduceValues run v h =
     (if is_mounted run h then
        (let v = (case (previousValue h, reduceValues) of (Some p, Some f) \<Rightarrow> f p v | _ \<Rightarrow> v)
         in h\<lparr>callState := Some v, previousValue := Some v\<rparr>)
      else h)"

definition allLoaded :: "(string \<times> 'v option) list \<Rightarrow> bool" where
  "allLoaded store \<longleftrightarrow> list_all (\<lambda>(property, s). s \<noteq> None) store"

definition useAsyncStore :: "(string \<times> 'v option) list \<Rightarrow> (string \<times> 'v) list option" where
  "useAsyncStore store =
     (if \<not> allLoaded store then None else Some (map (\<lambda>(property, s). (property, the s)) store))"

text \<open>The events a run sees, in the order they happen, and what should be shown after them.\<close>

datatype 'v async_event = Fetched nat "'v result" | Changed nat 'v

definition async_step :: "('v \<Rightarrow> 'v \<Rightarrow> 'v) option \<Rightarrow> 'v async_event \<Rightarrow> 'v async_hook \<Rightarrow> 'v async_hook" where
  "async_step f e h = (case e of Fetched run r \<Rightarrow> fetchValue run r h | Changed run v \<Rightarrow> onValueChanged f run v h)"

definition accepted :: "nat \<Rightarrow> bool \<Rightarrow> 'v async_event \<Rightarrow> 'v list" where
  "accepted run seen e =
     (case e of
        Fetched k r \<Rightarrow> (case r of Inr v \<Rightarrow> if k = run \<and> \<not> seen then [v] else [] | Inl _ \<Rightarrow> [])
      | Changed k v \<Rightarrow> if k = run then [v] else [])"

fun announced :: "nat \<Rightarrow> bool \<Rightarrow> 'v async_event list \<Rightarrow> 'v list" where
  "announced run seen [] = []"
| "announced run seen (e # es) = accepted run seen e @ announced run (seen \<or> accepted run seen e \<noteq> []) es"

fun combined :: "('v \<Rightarrow> 'v \<Rightarrow> 'v) option \<Rightarrow> 'v list \<Rightarrow> 'v option" where
  "combined f [] = None"
| "combined f (v # vs) = Some (foldl (\<lambda>p v. case f of Some g \<Rightarrow> g p v | None \<Rightarrow> v) v vs)"

section \<open>The connection\<close>

datatype ('abi, 'p, 't) app_view =
    Loader
  | UnsupportedMainnet
  | UnsupportedNetwork
  | Connected "('abi, 'p, 't) connection" string frontend_config

text \<open>
  \<open>batched\<close> is the provider made from the wallet's for a chain; an address is not empty.
\<close>

definition sfStablecoinProvider ::
  "(string \<Rightarrow> 'abi) \<Rightarrow> (string \<Rightarrow> call_overrides \<Rightarrow> nat result) \<Rightarrow> (nat \<rightharpoonup> deployment) \<Rightarrow>
     (provider \<Rightarrow> nat \<Rightarrow> provider) \<Rightarrow> nat \<Rightarrow> frontend_config option \<Rightarrow> provider option \<Rightarrow>
     ('p, 't) signer option \<Rightarrow> string option \<Rightarrow> ('abi, 'p, 't) app_view" where
  "sfStablecoinProvider json1 multicallContract known batched chain config prov sig account =
     (case (config, prov, sig, account) of
        (Some cfg, Some p, Some s, Some a) \<Rightarrow>
          (if cfg_testnetOnly cfg = Some True \<and> chain = 1 then UnsupportedMainnet
           else (case connectByChainId json1 multicallContract known (batched p chain) (Some s) chain
                    (Some \<lparr>opt_userAddress = Some a, opt_frontendTag = Some (cfg_frontendTag cfg),
                           opt_useStore = Some ''blockPolled''\<rparr>) of
                   Inl _ \<Rightarrow> UnsupportedNetwork
                 | Inr con \<Rightarrow> Connected con a cfg))
      | _ \<Rightarrow> Loader)"

definition useSfStablecoin :: "('abi, 'p, 't) app_view \<Rightarrow> (('abi, 'p, 't) connection \<times> string \<times> frontend_config) result" where
  "useSfStablecoin v =
     (case v of
        Connected con a cfg \<Rightarrow> Inr (con, a, cfg)
      | _ \<Rightarrow> Inl (Error ''You must provide a Context via SfStablecoinProvider''))"

section \<open>Estimating a change\<close>

text \<open>
  The state is the form's.  Each run of the effect has a timeout and a flag of its own; a
  population that was started stays in flight, with the run that started it and the change and the
  rate it is of.
\<close>

datatype ('p, 'd) gas_estimation = EstimationIdle | EstimationInProgress | EstimationComplete "('p, 'd) populated"

record ('p, 'd) estimation =
  gasEstimationState :: "('p, 'd) gas_estimation"
  es_change :: "trove_change option"
  es_rate :: decimal
  es_run :: nat
  es_timer :: bool
  es_inFlight :: "(nat \<times> trove_change \<times> decimal) list"

definition init_estimation :: "('p, 'd) estimation" where
  "init_estimation =
     \<lparr>gasEstimationState = EstimationIdle, es_change = None, es_rate = ZERO, es_run = 0, es_timer = False,
      es_inFlight = []\<rparr>"

fun estimated :: "trove_change option \<Rightarrow> bool" where
  "estimated (Some (Closure p)) = False"
| "estimated (Some c) = True"
| "estimated None = False"

text \<open>The cleanup of the last run and the effect for a change.\<close>

definition estimation_effect :: "trove_change option \<Rightarrow> decimal \<Rightarrow> ('p, 'd) estimation \<Rightarrow> ('p, 'd) estimation" where
  "estimation_effect troveChange maxBorrowingRate st =
     st\<lparr>gasEstimationState := (if estimated troveChange then EstimationInProgress else EstimationIdle),
        es_change := troveChange, es_rate := maxBorrowingRate, es_run := Suc (es_run st),
        es_timer := estimated troveChange\<rparr>"

definition estimation_timeout :: "('p, 'd) estimation \<Rightarrow> ('p, 'd) estimation" where
  "estimation_timeout st =
     (case es_change st of
        Some c \<Rightarrow> st\<lparr>es_timer := False, es_inFlight := es_inFlight st @ [(es_run st, c, es_rate st)]\<rparr>
      | None \<Rightarrow> st)"

definition estimation_populated :: "nat \<Rightarrow> ('p, 'd) populated result \<Rightarrow> ('p, 'd) estimation \<Rightarrow> ('p, 'd) estimation" where
  "estimation_populated i r st =
     (let run = fst (es_inFlight st ! i); st = st\<lparr>es_inFlight := take i (es_inFlight st) @ drop (Suc i) (es_inFlight st)\<rparr>
      in case r of
           Inl _ \<Rightarrow> st
         | Inr tx \<Rightarrow> (if run = es_run st then st\<lparr>gasEstimationState := EstimationComplete tx\<rparr> else st))"

definition expensive_warning :: "trove_change option \<Rightarrow> ('p, 'd) estimation \<Rightarrow> bool" where
  "expensive_warning troveChange st \<longleftrightarrow>
     troveChange \<noteq> None \<and>
     (case gasEstimationState st of
        EstimationComplete tx \<Rightarrow> (case gasHeadroom tx of Some h \<Rightarrow> 200000 \<le> h | None \<Rightarrow> False)
      | _ \<Rightarrow> False)"

text \<open>The button of the opening form.\<close>

datatype opening_button = ButtonSpinner | ButtonConfirm trove_tx | ButtonDisabled

definition opening_button_of :: "trove_change option \<Rightarrow> ('p, 'd) estimation \<Rightarrow> opening_button" where
  "opening_button_of stableTroveChange st =
     (if gasEstimationState st = EstimationInProgress then ButtonSpinner
      else (case stableTroveChange of Some c \<Rightarrow> ButtonConfirm (trove_action c) | None \<Rightarrow> ButtonDisabled))"

text \<open>
  \<open>answers\<close> are the transactions populating may give: with the change's operation, a maximum
  rate and a tolerance of 60 minutes.
\<close>

type_synonym ('p, 'd) populating = "trove_tx \<Rightarrow> decimal \<Rightarrow> nat \<Rightarrow> ('p, 'd) populated result \<Rightarrow> bool"

inductive estimation_step :: "('p, 'd) populating \<Rightarrow> ('p, 'd) estimation \<Rightarrow> ('p, 'd) estimation \<Rightarrow> bool"
  for answers where
  change_effect: "estimation_step answers st (estimation_effect c r st)"
| timeout: "es_timer st \<Longrightarrow> estimation_step answers st (estimation_timeout st)"
| population: "i < length (es_inFlight st) \<Longrightarrow> es_inFlight st ! i = (run, c, rate) \<Longrightarrow>
    answers (trove_action c) rate 60 r \<Longrightarrow> estimation_step answers st (estimation_populated i r st)"

inductive estimation_reachable :: "('p, 'd) populating \<Rightarrow> ('p, 'd) estimation \<Rightarrow> bool" for answers where
  initial: "estimation_reachable answers init_estimation"
| step: "estimation_reachable answers st \<Longrightarrow> estimation_step answers st st' \<Longrightarrow> estimation_reachable answers st'"

section \<open>Lemmas\<close>

lemma async_hook_fields [simp]:
  "async_run (async_step f e h) = async_run h" "async_mounted (async_step f e h) = async_mounted h"
  by (auto simp: async_step_def fetchValue_def onValueChanged_def Let_def split: async_event.split sum.split)

lemma combined_snoc:
  "combined f (vs @ [v]) = Some (case (combined f vs, f) of (Some p, Some g) \<Rightarrow> g p v | _ \<Rightarrow> v)"
  by (cases vs; cases f) simp_all

lemma async_step_values:
  assumes "async_mounted h" and "callState h = combined f vs" and "previousValue h = combined f vs"
  shows "callState (async_step f e h) = combined f (vs @ accepted (async_run h) (vs \<noteq> []) e)"
    "previousValue (async_step f e h) = combined f (vs @ accepted (async_run h) (vs \<noteq> []) e)"
proof -
  have none: "combined f vs = None \<longleftrightarrow> vs = []" by (cases vs) simp_all
  have "callState (async_step f e h) = combined f (vs @ accepted (async_run h) (vs \<noteq> []) e)
    \<and> previousValue (async_step f e h) = combined f (vs @ accepted (async_run h) (vs \<noteq> []) e)"
  proof (cases e)
    case (Fetched k r)
    then show ?thesis
      using assms none
      by (cases r) (auto simp: async_step_def fetchValue_def accepted_def is_mounted_def Let_def)
  next
    case (Changed k v)
    then show ?thesis
      using assms by (simp add: async_step_def onValueChanged_def accepted_def is_mounted_def Let_def combined_snoc)
  qed
  then show "callState (async_step f e h) = combined f (vs @ accepted (async_run h) (vs \<noteq> []) e)"
    "previousValue (async_step f e h) = combined f (vs @ accepted (async_run h) (vs \<noteq> []) e)" by simp_all
qed

lemma async_values:
  "async_mounted h \<Longrightarrow> callState h = combined f vs \<Longrightarrow> previousValue h = combined f vs \<Longrightarrow>
     callState (fold (async_step f) es h) = combined f (vs @ announced (async_run h) (vs \<noteq> []) es)"
proof (induction es arbitrary: h vs)
  case (Cons e es)
  from Cons.IH [of "async_step f e h" "vs @ accepted (async_run h) (vs \<noteq> []) e"]
    async_step_values [OF Cons.prems, of e] Cons.prems(1)
  show ?case by simp
qed simp

definition estimation_inv :: "('p, 'd) populating \<Rightarrow> ('p, 'd) estimation \<Rightarrow> bool" where
  "estimation_inv answers st \<longleftrightarrow>
     (case gasEstimationState st of
        EstimationIdle \<Rightarrow> \<not> estimated (es_change st)
      | EstimationInProgress \<Rightarrow> estimated (es_change st)
      | EstimationComplete tx \<Rightarrow> estimated (es_change st) \<and>
          (\<exists>c. es_change st = Some c \<and> answers (trove_action c) (es_rate st) 60 (Inr tx))) \<and>
     distinct (map fst (es_inFlight st)) \<and>
     (es_timer st \<longrightarrow> gasEstimationState st = EstimationInProgress \<and> es_run st \<notin> fst ` set (es_inFlight st)) \<and>
     (\<forall>(k, c, r)\<in>set (es_inFlight st). k \<le> es_run st \<and>
        (k = es_run st \<longrightarrow> es_change st = Some c \<and> es_rate st = r \<and> gasEstimationState st = EstimationInProgress))"

lemma estimated_change: "estimated x \<Longrightarrow> \<exists>c. x = Some c"
  by (cases x) auto

lemma estimation_inv_effect: "estimation_inv answers st \<Longrightarrow> estimation_inv answers (estimation_effect c r st)"
  by (auto simp: estimation_inv_def estimation_effect_def)

lemma estimation_inv_timeout:
  assumes "estimation_inv answers st" and "es_timer st"
  shows "estimation_inv answers (estimation_timeout st)"
proof -
  have "gasEstimationState st = EstimationInProgress" using assms by (simp add: estimation_inv_def)
  then have "estimated (es_change st)" using assms(1) by (simp add: estimation_inv_def)
  then obtain c where "es_change st = Some c" using estimated_change by blast
  then show ?thesis
    using assms by (auto simp: estimation_inv_def estimation_timeout_def)
qed

lemma set_without_nth: "set (take i xs @ drop (Suc i) xs) \<subseteq> set xs"
  using set_take_subset [of i xs] set_drop_subset [of "Suc i" xs] by auto

lemma distinct_without_nth:
  assumes "distinct (map f xs)" and "i < length xs"
  shows "distinct (map f (take i xs @ drop (Suc i) xs))" "f (xs ! i) \<notin> f ` set (take i xs @ drop (Suc i) xs)"
proof -
  have "map f xs = map f (take i xs) @ f (xs ! i) # map f (drop (Suc i) xs)"
    using id_take_nth_drop [OF assms(2)] by (metis list.simps(9) map_append)
  with assms(1) show "distinct (map f (take i xs @ drop (Suc i) xs))"
    "f (xs ! i) \<notin> f ` set (take i xs @ drop (Suc i) xs)"
    by auto
qed

lemma estimation_inv_populated:
  assumes inv: "estimation_inv answers st" and i: "i < length (es_inFlight st)" "es_inFlight st ! i = (run, c, rate)"
    and r: "answers (trove_action c) rate 60 r"
  shows "estimation_inv answers (estimation_populated i r st)"
    and "run \<notin> fst ` set (es_inFlight (estimation_populated i r st))"
proof -
  let ?rest = "take i (es_inFlight st) @ drop (Suc i) (es_inFlight st)"
  have d: "distinct (map fst ?rest)" "run \<notin> fst ` set ?rest"
    using distinct_without_nth [of fst "es_inFlight st" i] inv i by (simp_all add: estimation_inv_def)
  have all: "\<forall>(k, c, r)\<in>set (es_inFlight st). k \<le> es_run st \<and>
      (k = es_run st \<longrightarrow> es_change st = Some c \<and> es_rate st = r \<and> gasEstimationState st = EstimationInProgress)"
    using inv by (simp add: estimation_inv_def)
  have rest: "\<forall>(k, c, r)\<in>set ?rest. k \<le> es_run st \<and>
      (k = es_run st \<longrightarrow> es_change st = Some c \<and> es_rate st = r \<and> gasEstimationState st = EstimationInProgress)"
    by (rule ballI) (rule bspec [OF all subsetD [OF set_without_nth]])
  have mine: "run = es_run st \<longrightarrow> es_change st = Some c \<and> es_rate st = rate \<and> gasEstimationState st = EstimationInProgress"
    using bspec [OF all nth_mem [OF i(1)]] i(2) by simp
  have member: "run \<in> fst ` set (es_inFlight st)" using nth_mem [OF i(1)] i(2) by force
  have timer: "es_timer st \<longrightarrow> run \<noteq> es_run st \<and> es_run st \<notin> fst ` set ?rest \<and> gasEstimationState st = EstimationInProgress"
  proof
    assume "es_timer st"
    then have "gasEstimationState st = EstimationInProgress" "es_run st \<notin> fst ` set (es_inFlight st)"
      using inv by (simp_all add: estimation_inv_def)
    with member set_without_nth [of i "es_inFlight st"]
    show "run \<noteq> es_run st \<and> es_run st \<notin> fst ` set ?rest \<and> gasEstimationState st = EstimationInProgress" by blast
  qed
  show "run \<notin> fst ` set (es_inFlight (estimation_populated i r st))"
    using d(2) by (simp add: estimation_populated_def Let_def split: sum.split)
  show "estimation_inv answers (estimation_populated i r st)"
  proof (cases "run = es_run st \<and> (\<exists>tx. r = Inr tx)")
    case True
    then obtain tx where tx: "r = Inr tx" by blast
    have "estimated (es_change st)" using inv mine True by (simp add: estimation_inv_def)
    moreover have "\<not> es_timer st" using timer True by blast
    moreover have "\<forall>(k, c, r)\<in>set ?rest. k \<le> es_run st \<and> k \<noteq> es_run st"
      using rest d(2) True by force
    moreover have "estimation_populated i r st =
        st\<lparr>es_inFlight := ?rest, gasEstimationState := EstimationComplete tx\<rparr>"
      using True tx i by (simp add: estimation_populated_def Let_def)
    ultimately show ?thesis using d(1) mine True assms(4) tx unfolding estimation_inv_def by simp
  next
    case False
    then have "estimation_populated i r st = st\<lparr>es_inFlight := ?rest\<rparr>"
      by (auto simp: estimation_populated_def i Let_def split: sum.split)
    moreover have "estimation_inv answers (st\<lparr>es_inFlight := ?rest\<rparr>)"
      using inv d(1) rest timer unfolding estimation_inv_def by (simp split: gas_estimation.splits)
    ultimately show ?thesis by simp
  qed
qed

lemma estimation_inv_step: "estimation_step answers st st' \<Longrightarrow> estimation_inv answers st \<Longrightarrow> estimation_inv answers st'"
  by (induction rule: estimation_step.induct)
    (auto intro: estimation_inv_effect estimation_inv_timeout estimation_inv_populated(1))

lemma estimation_inv_reachable: "estimation_reachable answers st \<Longrightarrow> estimation_inv answers st"
proof (induction rule: estimation_reachable.induct)
  case initial
  then show ?case by (simp add: estimation_inv_def init_estimation_def)
qed (rule estimation_inv_step)

lemma run_grows: "estimation_step answers st st' \<Longrightarrow> es_run st \<le> es_run st'"
  by (induction rule: estimation_step.induct)
    (auto simp: estimation_effect_def estimation_timeout_def estimation_populated_def Let_def
      split: option.split sum.split)

text \<open>Nothing is left that could change the state but another effect.\<close>

definition stalled :: "('p, 'd) estimation \<Rightarrow> bool" where
  "stalled st \<longleftrightarrow> gasEstimationState st = EstimationInProgress \<and> \<not> es_timer st
     \<and> es_run st \<notin> fst ` set (es_inFlight st)"

lemma stalled_step:
  assumes "estimation_step answers st st'" and "stalled st" and "es_run st' = es_run st"
  shows "stalled st'"
  using assms
proof (induction rule: estimation_step.induct)
  case (population i st run c rate r)
  have "run \<noteq> es_run st" using population nth_mem [OF population(1)] unfolding stalled_def by force
  then have "estimation_populated i r st = st\<lparr>es_inFlight := take i (es_inFlight st) @ drop (Suc i) (es_inFlight st)\<rparr>"
    using population(2) by (simp add: estimation_populated_def Let_def split: sum.split)
  with population(4) set_without_nth [of i "es_inFlight st"] show ?case by (auto simp: stalled_def)
qed (auto simp: stalled_def estimation_effect_def)

lemma stalled_run:
  assumes "(estimation_step answers)\<^sup>*\<^sup>* st st'" and "stalled st" and "es_run st' = es_run st"
  shows "stalled st'"
proof -
  have "es_run st \<le> es_run st' \<and> (es_run st' = es_run st \<longrightarrow> stalled st')"
    using assms(1)
  proof (induction rule: rtranclp_induct)
    case (step q q')
    then show ?case using run_grows [OF step(2)] stalled_step [OF step(2)] by fastforce
  qed (use assms(2) in simp)
  with assms(3) show ?thesis by blast
qed

section \<open>Properties\<close>

text \<open>
  The configuration is well formed whatever the server answers: the frontend tag is the zero
  address or an address in the form \<open>getAddress\<close> gives, an API key is not empty, the project is the
  application's own; and only the first call of \<open>getConfig\<close> makes the request.
\<close>

theorem config_is_well_formed:
  "(cfg_frontendTag (fetchConfig getAddr response) = AddressZero \<or>
      (\<exists>s. getAddr s = Inr (cfg_frontendTag (fetchConfig getAddr response))))
   \<and> cfg_ankrApiKey (fetchConfig getAddr response) \<noteq> Some ''''
   \<and> cfg_walletConnectProjectId (fetchConfig getAddr response) = cfg_walletConnectProjectId defaultConfig
   \<and> (\<exists>config. parseConfig getAddr j = Inr config)
   \<and> (let (config, kept) = getConfig getAddr response None
      in getConfig getAddr other kept = (config, kept))"
proof -
  define good :: "frontend_config \<Rightarrow> bool" where "good c \<longleftrightarrow> (cfg_frontendTag c = AddressZero \<or> (\<exists>s. getAddr s = Inr (cfg_frontendTag c)))
    \<and> cfg_ankrApiKey c \<noteq> Some '''' \<and> cfg_walletConnectProjectId c = cfg_walletConnectProjectId defaultConfig" for c
  have default: "good defaultConfig" by (simp add: good_def defaultConfig_def)
  have parsed: "\<exists>c. parseConfig getAddr j = Inr c \<and> good c" for j
  proof -
    have "\<exists>c. parse_frontendTag getAddr j defaultConfig = Inr c \<and> good c"
      using default
      by (auto simp: parse_frontendTag_def isAddress_def good_def split: option.split json.split sum.split)
    moreover have "good c \<Longrightarrow> good (parse_testnetOnly j (parse_ankrApiKey j c))" for c
      by (auto simp: parse_testnetOnly_def parse_ankrApiKey_def good_def split: option.split json.split)
    ultimately show ?thesis using default by (auto simp: parseConfig_def)
  qed
  have "good (fetchConfig getAddr response)"
  proof (cases response)
    case (Responds ok body)
    then show ?thesis using default parsed [of "projr body"]
      by (cases body) (auto simp: fetchConfig_def)
  qed (simp add: fetchConfig_def default)
  with parsed [of j] show ?thesis by (auto simp: good_def getConfig_def)
qed

text \<open>
  A value that is fetched and watched shows, for the latest run of the effect, the values
  announced to it combined in order, the fetched one among them only when it comes first; what is
  announced to earlier runs changes nothing.
\<close>

theorem async_value_combines:
  "callState (fold (async_step f) es (async_effect h)) = combined f (announced (Suc (async_run h)) False es)"
  using async_values [of "async_effect h" f "[]" es] by (simp add: async_effect_def)

text \<open>
  The application is connected as asked: to the chain of the wallet with that chain's
  deployment, for the account and with its signer, with the frontend configured, through the store.
\<close>

theorem connected_as_asked:
  assumes "sfStablecoinProvider json1 mc (deployments mainnet testnet dev) batched chain config prov sig account
    = Connected con a cfg"
  shows "con_chainId con = chain \<and> deployments mainnet testnet dev chain = Some (con_deployment con)
    \<and> config = Some cfg \<and> account = Some a \<and> userAddress con = Some a \<and> con_signer con = sig \<and> sig \<noteq> None
    \<and> con_frontendTag con = Some (cfg_frontendTag cfg) \<and> useStore con = Some ''blockPolled''
    \<and> (\<exists>p. prov = Some p \<and> con_provider con = batched p chain)"
proof -
  from assms obtain p s where some: "config = Some cfg" "prov = Some p" "sig = Some s" "account = Some a"
    and con: "connectByChainId json1 mc (deployments mainnet testnet dev) (batched p chain) (Some s) chain
      (Some \<lparr>opt_userAddress = Some a, opt_frontendTag = Some (cfg_frontendTag cfg), opt_useStore = Some ''blockPolled''\<rparr>)
      = Inr con"
    by (auto simp: sfStablecoinProvider_def split: option.splits if_splits sum.splits)
  from connectByChainId_Inr [OF con] obtain dep where dep: "deployments mainnet testnet dev chain = Some dep"
    "chainId dep = chain"
    and made: "connectionFrom (batched p chain) (Some s) (connectToContracts json1 (AProvider (batched p chain)) dep)
       (connectToMulticall mc chain) dep
       (Some \<lparr>opt_userAddress = Some a, opt_frontendTag = Some (cfg_frontendTag cfg), opt_useStore = Some ''blockPolled''\<rparr>)
      = Inr con" by blast
  show ?thesis using connectionFrom_Inr [OF made] dep some by simp
qed

text \<open>
  Restricting the frontend to test networks does not keep it from the Filecoin mainnet, chain
  314: there the restriction makes no difference.
\<close>

theorem testnet_only_ignored_on_filecoin:
  "(\<exists>con. sfStablecoinProvider json1 mc known batched 314 (Some (cfg\<lparr>cfg_testnetOnly := Some True\<rparr>)) prov sig account
      = Connected con a (cfg\<lparr>cfg_testnetOnly := Some True\<rparr>))
   \<longleftrightarrow> (\<exists>con. sfStablecoinProvider json1 mc known batched 314 (Some (cfg\<lparr>cfg_testnetOnly := None\<rparr>)) prov sig account
      = Connected con a (cfg\<lparr>cfg_testnetOnly := None\<rparr>))"
  by (auto simp: sfStablecoinProvider_def split: option.split sum.split)

text \<open>
  C36: The estimate shown is of the change shown: whatever order changes, timeouts and answers come
  in, a completed estimate is an answer for the change and the rate the effect last ran for, an
  answer for an earlier change is dropped, and the state is idle exactly when there is nothing to
  estimate.
\<close>

theorem estimate_is_of_change:
  assumes "estimation_reachable answers st"
  shows "(gasEstimationState st = EstimationIdle) = (\<not> estimated (es_change st))
    \<and> (\<forall>tx. gasEstimationState st = EstimationComplete tx \<longrightarrow>
         (\<exists>c. es_change st = Some c \<and> answers (trove_action c) (es_rate st) 60 (Inr tx)))
    \<and> (es_timer st \<longrightarrow> gasEstimationState st = EstimationInProgress)"
  using estimation_inv_reachable [OF assms]
  by (cases "gasEstimationState st") (auto simp: estimation_inv_def)

definition sample_populated :: "(unit, unit) populated" where
  "sample_populated = \<lparr>rawPopulatedTransaction = (), gasHeadroom = Some 250000, pt_parse = \<lambda>_. Inr ()\<rparr>"

definition sample_answers :: "(unit, unit) populating" where
  "sample_answers op rate minutes r \<longleftrightarrow>
     op = SendOpen \<lparr>cr_depositCollateral = ONE, cr_borrowDebtToken = ONE\<rparr> \<and> minutes = 60 \<and> r = Inr sample_populated"

theorem estimate_is_of_change_witness:
  "\<exists>st c. estimation_reachable sample_answers st \<and> gasEstimationState st = EstimationComplete sample_populated
     \<and> expensive_warning (es_change st) st \<and> es_change st = Some c
     \<and> trove_action c = SendOpen \<lparr>cr_depositCollateral = ONE, cr_borrowDebtToken = ONE\<rparr>"
proof -
  let ?c = "Creation \<lparr>cr_depositCollateral = ONE, cr_borrowDebtToken = ONE\<rparr>"
  let ?asked = "estimation_timeout (estimation_effect (Some ?c) ONE (init_estimation :: (unit, unit) estimation))"
  let ?st = "estimation_populated 0 (Inr sample_populated) ?asked"
  note defs = estimation_effect_def estimation_timeout_def estimation_populated_def init_estimation_def
  have "estimation_reachable sample_answers ?asked"
    by (rule estimation_reachable.step [OF estimation_reachable.step [OF estimation_reachable.initial
          estimation_step.change_effect] estimation_step.timeout]) (simp add: defs)
  then have r: "estimation_reachable sample_answers ?st"
    by (rule estimation_reachable.step, intro estimation_step.population [where run = 1 and c = ?c and rate = ONE])
      (simp_all add: defs sample_answers_def)
  have complete: "gasEstimationState ?st = EstimationComplete sample_populated" by (simp add: defs Let_def)
  with estimate_is_of_change [OF r] obtain c where
    "es_change ?st = Some c" "sample_answers (trove_action c) (es_rate ?st) 60 (Inr sample_populated)" by blast
  with r complete show ?thesis
    by (intro exI [of _ ?st] exI [of _ c]) (simp add: expensive_warning_def sample_answers_def sample_populated_def)
qed

text \<open>
  When populating fails, the opening form shows a spinner in place of its confirm button until
  the change is edited: no further event ends the estimate that is in progress.
\<close>

theorem failed_estimate_blocks_opening:
  assumes "estimation_reachable answers st" and "i < length (es_inFlight st)"
    and "es_inFlight st ! i = (es_run st, c, rate)" and "answers (trove_action c) rate 60 (Inl e)"
    and "(estimation_step answers)\<^sup>*\<^sup>* (estimation_populated i (Inl e) st) st'" and "es_run st' = es_run st"
  shows "opening_button_of shown st' = ButtonSpinner"
proof -
  let ?st = "estimation_populated i (Inl e) st"
  have inv: "estimation_inv answers st" by (rule estimation_inv_reachable [OF assms(1)])
  have mine: "gasEstimationState st = EstimationInProgress" "\<not> es_timer st"
    using inv nth_mem [OF assms(2)] assms(3) by (force simp: estimation_inv_def)+
  have st: "?st = st\<lparr>es_inFlight := take i (es_inFlight st) @ drop (Suc i) (es_inFlight st)\<rparr>"
    by (simp add: estimation_populated_def Let_def)
  have "es_run st \<notin> fst ` set (es_inFlight ?st)"
    by (rule estimation_inv_populated(2) [OF inv assms(2,3,4)])
  with mine have "stalled ?st" by (simp add: stalled_def st)
  from stalled_run [OF assms(5) this] assms(6) have "stalled st'" by (simp add: st)
  then show ?thesis by (simp add: stalled_def opening_button_of_def)
qed

end
