(* ===== verification/Frontend_RiskyTroves.thy ===== *)
theory Frontend_RiskyTroves
  imports Frontend_Forms
begin

text \<open>
  The pages of risky troves: \<^verbatim>\<open>packages/dev-frontend/src/components/RiskyTroves.tsx\<close>.

  The component fetches the page it shows whenever the page, the number of troves or the reload
  button asks for it, and drops what an earlier fetch answers.  Its hooks are the record
  \<open>risky\<close>; the dependencies of an effect are the values of its last run.  A fetch is a request
  with the number of the run of the effect that made it, and settles as an event.
\<close>

section \<open>What can be liquidated\<close>

definition liquidatableInNormalMode :: "'a trove_scheme \<Rightarrow> decimal \<Rightarrow> bool \<times> string" where
  "liquidatableInNormalMode trove p =
     (collateralRatioIsBelowMinimum trove p, ''Collateral ratio not low enough'')"

definition liquidatableInRecoveryMode ::
  "'a trove_scheme \<Rightarrow> decimal \<Rightarrow> decimal \<Rightarrow> decimal \<Rightarrow> bool \<times> string" where
  "liquidatableInRecoveryMode trove p totalRatio inStabilityPool =
     (let ratio = collateralRatio trove p in
      if MINIMUM_COLLATERAL_RATIO \<le> ratio \<and> ratio < totalRatio
      then (debt trove \<le> inStabilityPool,
            ''There's not enough token in the Stability pool to cover the debt'')
      else liquidatableInNormalMode trove p)"

record risky_selection =
  rs_numberOfTroves :: nat
  rs_price :: decimal
  rs_recoveryMode :: bool
  rs_totalCollateralRatio :: decimal
  rs_debtTokenInStabilityPool :: decimal

definition select_risky :: "nat \<Rightarrow> decimal \<Rightarrow> trove \<Rightarrow> decimal \<Rightarrow> risky_selection" where
  "select_risky n p tot stabilityPool =
     \<lparr>rs_numberOfTroves = n, rs_price = p, rs_recoveryMode = collateralRatioIsBelowCritical tot p,
      rs_totalCollateralRatio = collateralRatio tot p, rs_debtTokenInStabilityPool = stabilityPool\<rparr>"

definition liquidation_requires :: "risky_selection \<Rightarrow> 'a trove_scheme \<Rightarrow> bool \<times> string" where
  "liquidation_requires s trove =
     (if rs_recoveryMode s
      then liquidatableInRecoveryMode trove (rs_price s) (rs_totalCollateralRatio s) (rs_debtTokenInStabilityPool s)
      else liquidatableInNormalMode trove (rs_price s))"

definition risky_color :: "decimal \<Rightarrow> ratio_color result" where
  "risky_color ratio = collateralRatio_color (Some ratio)"

text \<open>The rows: the owner and what liquidating it requires; an empty trove has been liquidated.\<close>

definition risky_rows :: "risky_selection \<Rightarrow> user_trove list \<Rightarrow> (string \<times> bool \<times> string) list" where
  "risky_rows s troves = map (\<lambda>t. (ownerAddress t, liquidation_requires s t)) (filter (\<lambda>t. \<not> isEmpty t) troves)"

section \<open>Pages\<close>

text \<open>\<open>Math.ceil(numberOfTroves / pageSize) || 1\<close> for a positive page size.\<close>

definition numberOfPages :: "nat \<Rightarrow> nat \<Rightarrow> nat" where
  "numberOfPages n pageSize =
     (let pages = (n + pageSize - 1) div pageSize in if pages = 0 then 1 else pages)"

definition clampedPage :: "nat \<Rightarrow> nat \<Rightarrow> nat \<Rightarrow> nat" where
  "clampedPage n pageSize page = min page (numberOfPages n pageSize - 1)"

text \<open>The numbers shown for a page: its first and its last trove.\<close>

definition page_label :: "nat \<Rightarrow> nat \<Rightarrow> nat \<Rightarrow> nat \<times> nat" where
  "page_label n pageSize page =
     (clampedPage n pageSize page * pageSize + 1, min ((clampedPage n pageSize page + 1) * pageSize) n)"

record 't risky =
  ri_page :: nat
  ri_numberOfTroves :: nat
  ri_reload :: nat
  ri_loading :: bool
  ri_troves :: "'t list option"
  ri_fetched :: "(nat \<times> nat) option"
  ri_counted :: "nat option"
  ri_request :: nat
  ri_asked :: "(nat \<times> nat) list"

definition nextPage :: "nat \<Rightarrow> 't risky \<Rightarrow> 't risky" where
  "nextPage pageSize st =
     (let pages = numberOfPages (ri_numberOfTroves st) pageSize;
          clamped = clampedPage (ri_numberOfTroves st) pageSize (ri_page st)
      in if clamped < pages - 1 then st\<lparr>ri_page := clamped + 1\<rparr> else st)"

definition previousPage :: "nat \<Rightarrow> 't risky \<Rightarrow> 't risky" where
  "previousPage pageSize st =
     (let clamped = clampedPage (ri_numberOfTroves st) pageSize (ri_page st)
      in if 0 < clamped then st\<lparr>ri_page := clamped - 1\<rparr> else st)"

definition forceReload :: "'t risky \<Rightarrow> 't risky" where
  "forceReload st = st\<lparr>ri_reload := ri_reload st + 1\<rparr>"

text \<open>
  The effects of one render, in their order.  The second asks for
  \<open>{ first: pageSize, startingAt: clampedPage * pageSize }\<close>; its cleanup unmounts the request
  before, so that the last request is the mounted one.
\<close>

definition clamp_effect :: "nat \<Rightarrow> 't risky \<Rightarrow> 't risky" where
  "clamp_effect pageSize st =
     (let clamped = clampedPage (ri_numberOfTroves st) pageSize (ri_page st)
      in if ri_page st \<noteq> clamped then st\<lparr>ri_page := clamped\<rparr> else st)"

definition fetch_effect :: "nat \<Rightarrow> 't risky \<Rightarrow> 't risky" where
  "fetch_effect pageSize st =
     (let clamped = clampedPage (ri_numberOfTroves st) pageSize (ri_page st) in
      if ri_fetched st = Some (clamped, ri_reload st) then st
      else st\<lparr>ri_loading := True, ri_fetched := Some (clamped, ri_reload st),
              ri_request := ri_request st + 1,
              ri_asked := ri_asked st @ [(ri_request st + 1, clamped * pageSize)]\<rparr>)"

definition count_effect :: "'t risky \<Rightarrow> 't risky" where
  "count_effect st =
     (if ri_counted st = Some (ri_numberOfTroves st) then st
      else forceReload (st\<lparr>ri_counted := Some (ri_numberOfTroves st)\<rparr>))"

definition risky_effects :: "nat \<Rightarrow> 't risky \<Rightarrow> 't risky" where
  "risky_effects pageSize st = count_effect (fetch_effect pageSize (clamp_effect pageSize st))"

text \<open>The effects may set state, which renders once more.\<close>

definition render_risky :: "nat \<Rightarrow> 't risky \<Rightarrow> 't risky" where
  "render_risky pageSize st = risky_effects pageSize (risky_effects pageSize st)"

definition answered :: "nat \<Rightarrow> 't list \<Rightarrow> 't risky \<Rightarrow> 't risky" where
  "answered request troves st =
     (if request = ri_request st then st\<lparr>ri_troves := Some troves, ri_loading := False\<rparr> else st)"

definition init_risky :: "nat \<Rightarrow> nat \<Rightarrow> 't risky" where
  "init_risky pageSize n = render_risky pageSize
     \<lparr>ri_page = 0, ri_numberOfTroves = n, ri_reload = 0, ri_loading = True, ri_troves = None,
      ri_fetched = None, ri_counted = None, ri_request = 0, ri_asked = []\<rparr>"

text \<open>
  What can happen: the buttons, a new number of troves from the store, and the answer to any
  request made so far, \<open>server request first_shown\<close>.
\<close>

inductive risky_step :: "nat \<Rightarrow> (nat \<Rightarrow> nat \<Rightarrow> 't list) \<Rightarrow> 't risky \<Rightarrow> 't risky \<Rightarrow> bool"
  for pageSize :: nat and server :: "nat \<Rightarrow> nat \<Rightarrow> 't list" where
  next_pressed: "risky_step pageSize server st (render_risky pageSize (nextPage pageSize st))"
| previous_pressed: "risky_step pageSize server st (render_risky pageSize (previousPage pageSize st))"
| reload_pressed: "risky_step pageSize server st (render_risky pageSize (forceReload st))"
| troves_counted: "risky_step pageSize server st (render_risky pageSize (st\<lparr>ri_numberOfTroves := n\<rparr>))"
| request_answered: "(request, first_shown) \<in> set (ri_asked st) \<Longrightarrow>
    risky_step pageSize server st (render_risky pageSize (answered request (server request first_shown) st))"

inductive_cases risky_stepE: "risky_step pageSize server st st'"

inductive risky_reachable :: "nat \<Rightarrow> (nat \<Rightarrow> nat \<Rightarrow> 't list) \<Rightarrow> 't risky \<Rightarrow> bool"
  for pageSize :: nat and server :: "nat \<Rightarrow> nat \<Rightarrow> 't list" where
  risky_init: "risky_reachable pageSize server (init_risky pageSize n)"
| risky_more: "risky_reachable pageSize server st \<Longrightarrow> risky_step pageSize server st st' \<Longrightarrow>
    risky_reachable pageSize server st'"

section \<open>Lemmas\<close>

definition settled :: "nat \<Rightarrow> 't risky \<Rightarrow> bool" where
  "settled pageSize st \<longleftrightarrow>
     (let clamped = clampedPage (ri_numberOfTroves st) pageSize (ri_page st)
      in ri_page st = clamped \<and> ri_fetched st = Some (clamped, ri_reload st) \<and>
         ri_counted st = Some (ri_numberOfTroves st))"

text \<open>The last request is for the page last fetched, and what is shown is its answer.\<close>

definition asks_consistently :: "nat \<Rightarrow> (nat \<Rightarrow> nat \<Rightarrow> 't list) \<Rightarrow> 't risky \<Rightarrow> bool" where
  "asks_consistently pageSize server st \<longleftrightarrow>
     (\<forall>(i, first_shown)\<in>set (ri_asked st). i \<le> ri_request st \<and>
        (i = ri_request st \<longrightarrow> (\<exists>r. ri_fetched st = Some (first_shown div pageSize, r)) \<and> pageSize dvd first_shown)) \<and>
     (\<not> ri_loading st \<longrightarrow>
        (\<exists>c r. ri_fetched st = Some (c, r) \<and> ri_troves st = Some (server (ri_request st) (c * pageSize))))"

lemma clampedPage_idem [simp]: "clampedPage n pageSize (clampedPage n pageSize page) = clampedPage n pageSize page"
  by (simp add: clampedPage_def)

lemma clampedPage_less: "clampedPage n pageSize page < numberOfPages n pageSize"
proof -
  have "0 < numberOfPages n pageSize" by (simp add: numberOfPages_def Let_def)
  then show ?thesis unfolding clampedPage_def by (cases "numberOfPages n pageSize") auto
qed

lemma clamp_fields:
  "ri_page (clamp_effect pageSize st) = clampedPage (ri_numberOfTroves st) pageSize (ri_page st)"
  "ri_numberOfTroves (clamp_effect pageSize st) = ri_numberOfTroves st"
  "ri_reload (clamp_effect pageSize st) = ri_reload st"
  "ri_counted (clamp_effect pageSize st) = ri_counted st"
  by (simp_all add: clamp_effect_def Let_def)

lemma fetch_fields:
  "ri_page (fetch_effect pageSize st) = ri_page st"
  "ri_numberOfTroves (fetch_effect pageSize st) = ri_numberOfTroves st"
  "ri_reload (fetch_effect pageSize st) = ri_reload st"
  "ri_counted (fetch_effect pageSize st) = ri_counted st"
  "ri_fetched (fetch_effect pageSize st) = Some (clampedPage (ri_numberOfTroves st) pageSize (ri_page st), ri_reload st)"
  by (simp_all add: fetch_effect_def Let_def)

lemma count_fields:
  "ri_page (count_effect st) = ri_page st"
  "ri_numberOfTroves (count_effect st) = ri_numberOfTroves st"
  "ri_reload (count_effect st) = ri_reload st + (if ri_counted st = Some (ri_numberOfTroves st) then 0 else 1)"
  "ri_counted (count_effect st) = Some (ri_numberOfTroves st)"
  "ri_fetched (count_effect st) = ri_fetched st"
  by (simp_all add: count_effect_def forceReload_def)

lemma settled_render: "settled pageSize (render_risky pageSize st)"
  by (simp add: settled_def render_risky_def risky_effects_def clamp_fields fetch_fields count_fields Let_def)

lemma settled_stays: "settled pageSize st \<Longrightarrow> risky_effects pageSize st = st"
  by (simp add: settled_def risky_effects_def clamp_effect_def fetch_effect_def count_effect_def Let_def)

lemma asks_effects:
  "0 < pageSize \<Longrightarrow> asks_consistently pageSize server st \<Longrightarrow>
     asks_consistently pageSize server (risky_effects pageSize st)"
  by (fastforce simp: asks_consistently_def risky_effects_def clamp_effect_def fetch_effect_def count_effect_def
      forceReload_def Let_def)

lemma asks_render:
  "0 < pageSize \<Longrightarrow> asks_consistently pageSize server st \<Longrightarrow>
     asks_consistently pageSize server (render_risky pageSize st)"
  by (simp add: render_risky_def asks_effects)

lemma asks_answered:
  assumes "asks_consistently pageSize server st" and "(request, first_shown) \<in> set (ri_asked st)"
  shows "asks_consistently pageSize server (answered request (server request first_shown) st)"
  using assms by (fastforce simp: asks_consistently_def answered_def)

lemma asks_buttons:
  assumes "asks_consistently pageSize server st"
  shows "asks_consistently pageSize server (nextPage pageSize st)"
    "asks_consistently pageSize server (previousPage pageSize st)"
    "asks_consistently pageSize server (forceReload st)"
    "asks_consistently pageSize server (st\<lparr>ri_numberOfTroves := n\<rparr>)"
  using assms by (simp_all add: asks_consistently_def nextPage_def previousPage_def forceReload_def Let_def)

lemma risky_invariant:
  assumes "0 < pageSize" and "risky_reachable pageSize server st"
  shows "asks_consistently pageSize server st \<and> settled pageSize st"
  using assms(2)
proof (induction rule: risky_reachable.induct)
  case (risky_init n)
  show ?case unfolding init_risky_def
    by (intro conjI settled_render asks_render [OF assms(1)]) (simp add: asks_consistently_def)
next
  case (risky_more st st')
  then show ?case
    by (auto elim!: risky_stepE intro!: settled_render asks_render [OF assms(1)] asks_buttons asks_answered)
qed

lemma pages_prefix: "concat (map (\<lambda>p. take n (drop (p * n) ts)) [0..<m]) = take (m * n) ts"
  by (induction m) (simp_all add: take_add [symmetric] add.commute)

lemma numberOfPages_cover: "0 < pageSize \<Longrightarrow> n \<le> numberOfPages n pageSize * pageSize"
proof -
  assume "0 < pageSize"
  then have "n + pageSize - 1 < (n + pageSize - 1) div pageSize * pageSize + pageSize"
    by (simp only: dividend_less_div_times add.commute)
  then have "n \<le> (n + pageSize - 1) div pageSize * pageSize" using \<open>0 < pageSize\<close> by linarith
  also have "\<dots> \<le> numberOfPages n pageSize * pageSize" by (simp add: numberOfPages_def Let_def)
  finally show ?thesis .
qed

section \<open>Properties\<close>

text \<open>
  C14: Whatever is pressed, counted and answered in whatever order, a list that is shown without
  the loading overlay is what the last request was answered with, the one for the page the
  component is on, and that page exists; an earlier request that is answered late changes nothing.
\<close>

theorem shown_page_is_current:
  assumes "0 < pageSize" and "risky_reachable pageSize server st" and "\<not> ri_loading st"
  shows "ri_page st < numberOfPages (ri_numberOfTroves st) pageSize
    \<and> ri_troves st = Some (server (ri_request st) (ri_page st * pageSize))
    \<and> (\<forall>i ts. i < ri_request st \<longrightarrow> answered i ts st = st)"
  using risky_invariant [OF assms(1,2)] assms(3) clampedPage_less
  by (auto simp: settled_def asks_consistently_def Let_def answered_def) metis

theorem shown_page_is_current_witness:
  "\<exists>st :: nat risky. risky_reachable 10 (\<lambda>i start. [start]) st \<and> ri_page st = 1
    \<and> ri_troves st = Some [ri_page st * 10]"
proof -
  let ?s = "\<lambda>i start. [start :: nat]"
  define st0 :: "nat risky" where "st0 = init_risky 10 25"
  define st1 where "st1 = render_risky 10 (nextPage 10 st0)"
  define st2 where "st2 = render_risky 10 (answered 3 (?s 3 10) st1)"
  have st1: "ri_request st1 = 3" "(3, 10) \<in> set (ri_asked st1)" "ri_page st1 = 1"
    by (simp_all add: st1_def st0_def init_risky_def render_risky_def risky_effects_def clamp_effect_def
        fetch_effect_def count_effect_def forceReload_def nextPage_def clampedPage_def numberOfPages_def Let_def)
  have reach: "risky_reachable 10 ?s st0" "risky_reachable 10 ?s st1"
    unfolding st1_def st0_def by (auto intro: risky_init risky_more next_pressed)
  have st2: "st2 = (answered 3 (?s 3 10) st1)"
    using risky_invariant [OF _ reach(2)] settled_stays [of 10 "answered 3 (?s 3 10) st1"]
    by (simp add: st2_def render_risky_def settled_def answered_def Let_def)
  have "risky_reachable 10 ?s st2"
    unfolding st2_def using request_answered [OF st1(2), of 10 ?s] reach(2) by (blast intro: risky_more)
  moreover have "\<not> ri_loading st2" "ri_page st2 = 1" using st1 by (simp_all add: st2 answered_def)
  ultimately show ?thesis using shown_page_is_current [of 10 ?s st2] by auto
qed

text \<open>
  The pages show every trove once and in order, and the numbers above a page are those of
  the troves on it.
\<close>

theorem pages_show_every_trove:
  assumes "0 < pageSize"
  shows "concat (map (\<lambda>p. take pageSize (drop (p * pageSize) ts)) [0..<numberOfPages (length ts) pageSize]) = ts
    \<and> (ts \<noteq> [] \<longrightarrow> (\<forall>p<numberOfPages (length ts) pageSize.
         page_label (length ts) pageSize p =
           (p * pageSize + 1, p * pageSize + length (take pageSize (drop (p * pageSize) ts)))
         \<and> take pageSize (drop (p * pageSize) ts) \<noteq> []))"
proof -
  have less: "p * pageSize < length ts" if "ts \<noteq> []" "p < numberOfPages (length ts) pageSize" for p
  proof -
    define q where "q = (length ts + pageSize - 1) div pageSize"
    have "0 < q" unfolding q_def using that(1) assms by (cases ts) (simp_all add: div_greater_zero_iff)
    then have "Suc p \<le> q" using that(2) unfolding numberOfPages_def q_def [symmetric] by simp
    then have "Suc p * pageSize \<le> q * pageSize" by (rule mult_right_mono) simp
    then have "p * pageSize + pageSize \<le> (length ts + pageSize - 1) div pageSize * pageSize"
      by (simp add: q_def add.commute)
    also have "\<dots> \<le> length ts + pageSize - 1" by (rule div_times_less_eq_dividend)
    finally show ?thesis using assms that(1) by (cases ts) auto
  qed
  have clamped: "clampedPage (length ts) pageSize p = p" if "p < numberOfPages (length ts) pageSize" for p
    using that by (simp add: clampedPage_def)
  have "page_label (length ts) pageSize p =
           (p * pageSize + 1, p * pageSize + length (take pageSize (drop (p * pageSize) ts)))
         \<and> take pageSize (drop (p * pageSize) ts) \<noteq> []"
    if "ts \<noteq> []" "p < numberOfPages (length ts) pageSize" for p
    using less [OF that] clamped [OF that(2)] assms by (auto simp: page_label_def min_def)
  with numberOfPages_cover [OF assms, of "length ts"] show ?thesis by (simp add: pages_prefix)
qed

theorem pages_show_every_trove_witness:
  "concat (map (\<lambda>p. take 2 (drop (p * 2) [1, 2, 3 :: nat])) [0..<numberOfPages 3 2]) = [1, 2, 3]
   \<and> page_label 3 2 1 = (3, 3)"
proof -
  have n: "numberOfPages (Suc (Suc (Suc 0))) 2 = 2" by (simp add: numberOfPages_def)
  from pages_show_every_trove [of 2 "[1, 2, 3 :: nat]"] show ?thesis by (simp add: n numeral_3_eq_3)
qed

end
