(* ===== verification/Spec2Isabelle.thy ===== *)
theory Spec2Isabelle
  imports Decimal_Format Decimal_Pow Sdk_Constants Sdk_Fees Trove_Params Deposits Protocol_Types Ethers_Facade Ethers_Observable
    Store_Facts Cached_Readable Subgraph_Counters Subgraph_Changes
    Ethers_Connection Block_Poller Subgraph_Client
    Trove_Editor Frontend_Batching Frontend_Transaction Frontend_Pools
    Fuzzer_Checks Fuzzer_Histogram Ethers_Deployment Ethers_Types React_Bindings Frontend_App Frontend_RiskyTroves
begin

text \<open>
  \<^bold>\<open>A verification of the Secured Finance stablecoin SDK\<close>

  The repository is a TypeScript monorepo: a library that models the protocol's troves, fees and
  deposits off the chain, its implementations over ethers and over a subgraph, the subgraph itself,
  the React bindings, a web frontend, and a fuzzer.  These theories translate its logic into HOL
  functions and step relations and prove what makes each part correct.

  \<^bold>\<open>The parts and how they interact\<close>

  The protocol library (\<^verbatim>\<open>packages/lib-base\<close>) defines the numbers (\<open>Decimal\<close>), the values (troves,
  fees, deposits, stakes) and the interfaces \<open>ReadableProtocol\<close>, \<open>TransactableProtocol\<close> and so on.
  \<^verbatim>\<open>packages/lib-ethers\<close> implements them over contracts: a connection finds the contracts, the
  readable reads them, the populatable prepares transactions with gas limits and borrowing-rate
  margins, the sendable sends them, receipts are decoded through the logs, and the facade
  \<open>EthersSfStablecoin\<close> composes all of it.  A block-polled store fetches the whole state for each
  block into the store of lib-base and serves reads from it through the cached readable.
  \<^verbatim>\<open>packages/subgraph\<close> indexes the contracts' events; \<^verbatim>\<open>packages/lib-subgraph\<close> reads that index.
  \<^verbatim>\<open>packages/lib-react\<close> shows the store to components, and \<^verbatim>\<open>packages/dev-frontend\<close> edits and
  validates changes and follows the transactions.

  \<^bold>\<open>Theories and code\<close>

  Each theory opens with what it models; the definitions keep the names of the code.

  \<^item> lib-base.  \<^verbatim>\<open>Sdk_Prelude\<close> holds the results, strings and digits every theory uses.
    \<^verbatim>\<open>Sdk_Decimal\<close>, \<^verbatim>\<open>Decimal_Pow\<close>, \<^verbatim>\<open>Decimal_Format\<close>: \<^verbatim>\<open>Decimal.ts\<close> (arithmetic and parsing;
    exponentiation; printing, \<open>Difference\<close>, \<open>Percent\<close>).  \<^verbatim>\<open>Sdk_Constants\<close>: \<^verbatim>\<open>constants.ts\<close>.
    \<^verbatim>\<open>Sdk_Fees\<close>: \<^verbatim>\<open>Fees.ts\<close>.  \<^verbatim>\<open>Sdk_Trove\<close>, \<^verbatim>\<open>Trove_Changes\<close>, \<^verbatim>\<open>Trove_Params\<close>: \<^verbatim>\<open>Trove.ts\<close> (the
    classes; \<open>whatChanged\<close> and \<open>apply\<close>; \<open>create\<close>, \<open>recreate\<close>, \<open>adjust\<close>, \<open>adjustTo\<close> with their
    normalised parameters).  \<^verbatim>\<open>Deposits\<close>: \<^verbatim>\<open>StabilityDeposit.ts\<close>, \<^verbatim>\<open>ProtocolTokenStake.ts\<close>.
    \<^verbatim>\<open>Protocol_Types\<close>, \<^verbatim>\<open>Cached_Readable\<close>: \<^verbatim>\<open>ReadableProtocol.ts\<close>, \<^verbatim>\<open>_CachedReadableProtocol.ts\<close>.
    \<^verbatim>\<open>Sdk_Store\<close> with its lemmas in \<^verbatim>\<open>Store_Facts\<close>: \<^verbatim>\<open>SfStablecoinStore.ts\<close>.
  \<^item> lib-ethers.  \<^verbatim>\<open>Ethers_Connection\<close>: \<^verbatim>\<open>EthersConnection.ts\<close>, \<^verbatim>\<open>contracts.ts\<close>, \<^verbatim>\<open>_Multicall.ts\<close>.
    \<^verbatim>\<open>Ethers_Readable\<close>: \<^verbatim>\<open>ReadableEthers.ts\<close>, with its hint searches.
    \<^verbatim>\<open>Block_Polled\<close>: the block-polled readable of \<^verbatim>\<open>ReadableEthers.ts\<close> and the fetch of
    \<^verbatim>\<open>BlockPolledSfStablecoinStore.ts\<close>; \<^verbatim>\<open>Block_Poller\<close>: its polling.  \<^verbatim>\<open>Ethers_Logs\<close>: \<^verbatim>\<open>parseLogs.ts\<close>.
    \<^verbatim>\<open>Ethers_Calls\<close>, \<^verbatim>\<open>Ethers_Receipts\<close>, \<^verbatim>\<open>Ethers_Populatable\<close>, \<^verbatim>\<open>Ethers_Operations\<close>:
    \<^verbatim>\<open>PopulatableEthers.ts\<close> (estimates and details; receipts; the operations on troves; the other
    operations).  \<^verbatim>\<open>Ethers_Facade\<close>: \<^verbatim>\<open>SendableEthers.ts\<close>, \<^verbatim>\<open>EthersSfStablecoin.ts\<close>.
    \<^verbatim>\<open>Ethers_Observable\<close>: \<^verbatim>\<open>ObservableEthers.ts\<close>.  \<^verbatim>\<open>Ethers_Deployment\<close>: \<^verbatim>\<open>utils/deploy.ts\<close>,
    \<^verbatim>\<open>utils/UniswapV2Factory.ts\<close>.  \<^verbatim>\<open>Ethers_Types\<close>: \<^verbatim>\<open>scripts/generate-types.ts\<close>.
  \<^item> subgraph.  \<^verbatim>\<open>Subgraph_Base\<close>: the entities of \<^verbatim>\<open>schema.graphql\<close> as records, the store as maps
    from ids, and the numbers.  \<^verbatim>\<open>Subgraph_System\<close>, \<^verbatim>\<open>Subgraph_Troves\<close>, \<^verbatim>\<open>Subgraph_Pools\<close>: the files of
    \<^verbatim>\<open>src/entities\<close>.  \<^verbatim>\<open>Subgraph_Handlers\<close>: \<^verbatim>\<open>src/mappings\<close>, with \<open>handle\<close> for an event of any
    contract.  \<^verbatim>\<open>Subgraph_Logic\<close> has rules for the handlers as state transformers that may fail;
    \<^verbatim>\<open>Subgraph_Counters\<close>, \<^verbatim>\<open>Subgraph_Changes\<close>, \<^verbatim>\<open>Subgraph_SortKey\<close> the invariants.
    \<^verbatim>\<open>Subgraph_Client\<close>: \<^verbatim>\<open>packages/lib-subgraph\<close>.
  \<^item> lib-react.  \<^verbatim>\<open>React_Bindings\<close>.
  \<^item> dev-frontend.  \<^verbatim>\<open>Trove_Validation\<close>: \<^verbatim>\<open>validateTroveChange.tsx\<close>.  \<^verbatim>\<open>Trove_Editor\<close>:
    \<^verbatim>\<open>TroveManager.tsx\<close>, \<^verbatim>\<open>TroveViewProvider.tsx\<close>.  \<^verbatim>\<open>Frontend_Forms\<close>: \<^verbatim>\<open>Opening.tsx\<close>, \<^verbatim>\<open>Adjusting.tsx\<close>,
    \<^verbatim>\<open>CollateralRatio.tsx\<close>, \<^verbatim>\<open>TroveAction.tsx\<close>, \<^verbatim>\<open>Redemption.tsx\<close>.  \<^verbatim>\<open>Frontend_Pools\<close>: the managers and
    the validation of deposits and stakes.  \<^verbatim>\<open>Frontend_RiskyTroves\<close>: \<^verbatim>\<open>RiskyTroves.tsx\<close>.
    \<^verbatim>\<open>Frontend_App\<close>: \<^verbatim>\<open>config/index.ts\<close>, \<^verbatim>\<open>AsyncValue.ts\<close>, \<^verbatim>\<open>SfStablecoinContext.tsx\<close>,
    \<^verbatim>\<open>ExpensiveTroveChangeWarning.tsx\<close>.  \<^verbatim>\<open>Frontend_Batching\<close>: \<^verbatim>\<open>BatchingProvider.ts\<close>.  \<^verbatim>\<open>Frontend_Transaction\<close>: \<^verbatim>\<open>Transaction.tsx\<close>.
  \<^item> fuzzer.  \<^verbatim>\<open>Fuzzer_Checks\<close>: \<^verbatim>\<open>utils.ts\<close> and what \<^verbatim>\<open>fixture.ts\<close> expects; \<^verbatim>\<open>Fuzzer_Histogram\<close>:
    \<^verbatim>\<open>GasHistogram.ts\<close> and the repeated sending of \<^verbatim>\<open>fixture.ts\<close>.

  \<^bold>\<open>What the lemmas show\<close>

  \<^item> Numbers.  \<open>pow\<close> stays within a proved distance of the exact power; \<open>Decimal.from\<close> reads back
    what \<open>toString\<close> prints; printing rounds to the nearest.
  \<^item> Troves, deposits, stakes.  Applying the change \<open>whatChanged\<close> found gives the target, up to the
    rounding of the fee; normalised parameters are exactly the permitted ones.
  \<^item> Store.  Reducing keeps the objects it can; the difference told to the listeners is exactly what
    changed; a listener is called if and only if it is still registered when its turn comes and
    none before it threw; the invariant of the store holds in every state its operations reach.
  \<^item> Readables.  A cache that is coherent is transparent to a caller of the chain's readable, up to
    which error a failed listing reports; the block-polled reads answer as the contracts do at the
    store's block, but for the frontend's status without a tag; the hints found for a ratio are neighbours in the sorted list.
  \<^item> Transactions.  A gas limit that the code chooses leaves the room it promises; what each
    operation of the facade returns is what populating, signing, the receipt and the logs tell.  A deployment puts every contract at the address computed for it.
  \<^item> Polling, watching, batching.  State machines with invariants over every order of events; the
    batched provider answers every request as the provider underneath would.
  \<^item> Subgraph.  The counters count the troves, changes link consecutive system states, and the sort
    key is consistent with the raw values, after any sequence of events.
  \<^item> Components.  The validation accepts a change if and only if the protocol's rules permit it; edits
    survive updates of the store; what the forms send is what was entered; the shown page and the
    shown selection are current unless a change was not told, and so is the estimate of a change; the transaction monitor follows the transaction sent.

  \<^bold>\<open>Interfaces\<close>

  \<^verbatim>\<open>Deposits.tracked_amount\<close> is the contract of \<open>whatChanged\<close> and \<open>apply\<close>, interpreted for deposits and
  stakes; \<^verbatim>\<open>Frontend_Pools.carried_amount\<close> extends it by what the editors need of it.
  \<^verbatim>\<open>Cached_Readable.redistributing\<close> is the contract of a readable that applies the redistribution,
  interpreted for the cached readable and for the one over ethers, of which the transparency of
  the cache is proved.
  \<^verbatim>\<open>React_Bindings.comparison\<close> is what the hooks need of \<open>equals\<close>.

  \<^bold>\<open>Conventions\<close>

  \<^item> A \<open>BigNumber\<close> is a natural number or an integer, unbounded as in ethers; a \<open>Decimal\<close> is its
    numerator over \<open>10^18\<close>, with the infinity \<open>2^256 - 1\<close> that the code compares with.  JavaScript
    numbers are integers, or rationals where the code divides them; a \<open>Date\<close> is its milliseconds.  An
    argument of type \<open>Decimalish\<close> is a value of \<open>decimalish\<close>, a number in it the text \<open>toString\<close> gives.
    The square root and the logarithm of the gas and hint computations are exact, where the code
    rounds floating-point ones; the tolerated minutes are a whole number.
  \<^item> Whatever throws returns \<open>result\<close>, a sum whose left side is the error, in the order the code
    throws.  A promise is its settled result; \<open>Promise.all\<close> keeps the order of its list.
  \<^item> Objects compared by identity carry an address.  Addresses of accounts are strings; \<open>undefined\<close> is
    \<open>None\<close>.  The infinity sign of \<open>toString\<close> stands as one character.
  \<^item> Parameters, as records of functions: the contracts, the provider and the signer, the network's
    estimates and receipts, the decoding of logs, the upgrades plugin and the files of earlier
    deployments, the host's \<open>BigDecimal\<close>, the GraphQL server, React's choice of when to render.  What a
    theorem relies on of them is a hypothesis of it, and its witness instantiates them.

  \<^bold>\<open>Termination and bounds\<close>

  Recursion is structural or has a measure (\<open>fromString\<close>, whose strings get shorter; \<open>trials_loop\<close>
  over at most the trials left; \<open>retry_from\<close> over the retries left).  No fuel is used.  Two loops may not end and
  are \<open>partial_function (option)\<close>: \<open>polled_getPrice\<close>, which returns exactly on a block hit (the host
  turns its endless recursion into an error), and
  \<open>waitForBlock_from\<close>, which returns exactly if the server reaches the block.

  \<^bold>\<open>Not modelled\<close>

  \<^item> Declarations without code: the write interfaces of lib-base, the generated
    \<^verbatim>\<open>packages/lib-ethers/types\<close>, the GraphQL types.
  \<^item> The rest of the frontend: elements and styles, \<^verbatim>\<open>theme.ts\<close>, connecting a wallet, the contexts that
    pass values down; React's rendering stands in the models as steps.
  \<^item> Input and output: console logging, reading and writing files in the scripts, the command lines of
    the fuzzer and its flow through a running chain.
  \<^item> Tests, examples and documentation.
\<close>

end
